(* ===== verification/Prelude.thy ===== *)
theory Prelude
  imports Main "HOL-Library.Word" "HOL-Library.Monad_Syntax"
begin

text \<open>
  Shared vocabulary of the development: the machine integers of the C++ sources, a byte-addressed
  memory block as a list of octets with bounds-checked reads and writes, the octets of a
  \<^verbatim>\<open>std::string\<close>, and the lemma collections the component theories use.

  A pointer into a memory block is an offset. Reading or writing outside the block is undefined
  behaviour of the C++ program; the model makes it the value \<^term>\<open>None\<close>, and the safety
  theorems of the development say where it cannot occur.
\<close>

unbundle bit_operations_syntax

section \<open>Machine integers\<close>

type_synonym byte = "8 word"
type_synonym u8 = "8 word"
type_synonym u16 = "16 word"
type_synonym u32 = "32 word"
type_synonym u64 = "64 word"

text \<open>
  Signed integers are the same bit patterns; they are read with \<^term>\<open>sint\<close>.
\<close>

type_synonym i8 = "8 word"
type_synonym i16 = "16 word"
type_synonym i32 = "32 word"
type_synonym i64 = "64 word"

section \<open>Memory blocks\<close>

definition peek :: "nat \<Rightarrow> nat \<Rightarrow> 'a list \<Rightarrow> 'a list option" where
  "peek off n m = (if off + n \<le> length m then Some (take n (drop off m)) else None)"

definition patch :: "nat \<Rightarrow> 'a list \<Rightarrow> 'a list \<Rightarrow> 'a list" where
  "patch off bs m = take off m @ bs @ drop (off + length bs) m"

definition poke :: "nat \<Rightarrow> 'a list \<Rightarrow> 'a list \<Rightarrow> 'a list option" where
  "poke off bs m = (if off + length bs \<le> length m then Some (patch off bs m) else None)"

section \<open>Octets of a string\<close>

definition byte_of_char :: "char \<Rightarrow> byte" where
  "byte_of_char c = word_of_nat (of_char c)"

definition char_of_byte :: "byte \<Rightarrow> char" where
  "char_of_byte b = char_of (unat b)"

definition bytes_of_string :: "string \<Rightarrow> byte list" where
  "bytes_of_string = map byte_of_char"

definition string_of_bytes :: "byte list \<Rightarrow> string" where
  "string_of_bytes = map char_of_byte"

named_theorems mem_simps \<open>reads and writes of memory blocks\<close>
named_theorems codec_rules \<open>composition rules of the wire codecs\<close>
named_theorems window_rules \<open>composition rules of the window discipline\<close>
named_theorems frame_rules \<open>composition rules of the frame of a call\<close>

section \<open>Lemmas on memory blocks\<close>

lemma length_patch [simp]:
  "off + length bs \<le> length m \<Longrightarrow> length (patch off bs m) = length m"
  by (simp add: patch_def)

lemma poke_Some [mem_simps]:
  "off + length bs \<le> length m \<Longrightarrow> poke off bs m = Some (patch off bs m)"
  by (simp add: poke_def)

lemma peek_Some [mem_simps]:
  "off + n \<le> length m \<Longrightarrow> peek off n m = Some (take n (drop off m))"
  by (simp add: peek_def)

lemma poke_eq_Some_iff:
  "poke off bs m = Some m' \<longleftrightarrow> off + length bs \<le> length m \<and> m' = patch off bs m"
  by (auto simp: poke_def)

lemma peek_eq_Some_iff:
  "peek off n m = Some bs \<longleftrightarrow> off + n \<le> length m \<and> bs = take n (drop off m)"
  by (auto simp: peek_def)

lemma patch_Nil [simp]: "off \<le> length m \<Longrightarrow> patch off [] m = m"
  by (simp add: patch_def)

lemma patch_append:
  "off + length as + length bs \<le> length m \<Longrightarrow>
   patch (off + length as) bs (patch off as m) = patch off (as @ bs) m"
  by (simp add: patch_def add.assoc add.commute add.left_commute)

lemma take_patch: "n \<le> off \<Longrightarrow> off \<le> length m \<Longrightarrow> take n (patch off bs m) = take n m"
  by (simp add: patch_def)

lemma drop_patch:
  "off \<le> length m \<Longrightarrow> off + length bs \<le> n \<Longrightarrow> drop n (patch off bs m) = drop n m"
  by (simp add: patch_def)

lemma take_drop_patch:
  "off \<le> length m \<Longrightarrow> take (length bs) (drop off (patch off bs m)) = bs"
  by (simp add: patch_def)

lemma nth_patch:
  assumes "off + length bs \<le> length m" and "i < length m"
  shows "patch off bs m ! i =
    (if i < off then m ! i else if i < off + length bs then bs ! (i - off) else m ! i)"
  using assms by (auto simp: patch_def nth_append min_def)

lemma take_length_append: "take (length xs) ys = xs \<longleftrightarrow> (\<exists>zs. ys = xs @ zs)"
  by (metis append_eq_conv_conj append_take_drop_id)

section \<open>Lemmas on characters and octets\<close>

lemma char_of_byte_of_char [simp]: "char_of_byte (byte_of_char c) = c"
proof -
  have "(of_char c :: nat) < 256" by simp
  then show ?thesis
    by (simp add: char_of_byte_def byte_of_char_def unat_of_nat)
qed

lemma byte_of_char_of_byte [simp]: "byte_of_char (char_of_byte b) = b"
proof -
  have "unat b < 2 ^ LENGTH(8)" by (rule unsigned_less)
  then have "unat b < 256" by simp
  then have "(of_char (char_of (unat b) :: char) :: nat) = unat b"
    by simp
  then show ?thesis
    by (simp add: char_of_byte_def byte_of_char_def)
qed

lemma string_of_bytes_of_string [simp]: "string_of_bytes (bytes_of_string s) = s"
  by (simp add: string_of_bytes_def bytes_of_string_def comp_def)

lemma bytes_of_string_of_bytes [simp]: "bytes_of_string (string_of_bytes bs) = bs"
  by (simp add: string_of_bytes_def bytes_of_string_def comp_def)

lemma length_bytes_of_string [simp]: "length (bytes_of_string s) = length s"
  by (simp add: bytes_of_string_def)

lemma length_string_of_bytes [simp]: "length (string_of_bytes bs) = length bs"
  by (simp add: string_of_bytes_def)

end
