(* ===== verification/Endian.thy ===== *)
theory Endian
  imports Prelude
begin

text \<open>
  The byte-order functions of \<^verbatim>\<open>src/end.h\<close>. The host's byte order is a parameter: a
  multi-octet integer is stored to and loaded from memory in that order, and
  \<^verbatim>\<open>htobe16\<close> and its companions swap the octets exactly on a little-endian host. The lemmas
  show that what reaches the wire does not depend on the host.
\<close>

datatype byte_order = LITTLE | BIG

text \<open>Octets of the low \<open>n\<close> bytes of a word, least or most significant first.\<close>

definition bytes_le :: "nat \<Rightarrow> 'a::len word \<Rightarrow> byte list" where
  "bytes_le n w = map (\<lambda>i. ucast (drop_bit (8 * i) w)) [0..<n]"

definition bytes_be :: "nat \<Rightarrow> 'a::len word \<Rightarrow> byte list" where
  "bytes_be n w = rev (bytes_le n w)"

fun of_bytes_le :: "byte list \<Rightarrow> 'a::len word" where
  "of_bytes_le [] = 0"
| "of_bytes_le (b # bs) = ucast b OR push_bit 8 (of_bytes_le bs)"

definition of_bytes_be :: "byte list \<Rightarrow> 'a::len word" where
  "of_bytes_be bs = of_bytes_le (rev bs)"

text \<open>A C++ store or load of an \<open>n\<close>-octet integer through a pointer.\<close>

definition store :: "byte_order \<Rightarrow> nat \<Rightarrow> 'a::len word \<Rightarrow> byte list" where
  "store h n w = (case h of LITTLE \<Rightarrow> bytes_le n w | BIG \<Rightarrow> bytes_be n w)"

definition load :: "byte_order \<Rightarrow> byte list \<Rightarrow> 'a::len word" where
  "load h bs = (case h of LITTLE \<Rightarrow> of_bytes_le bs | BIG \<Rightarrow> of_bytes_be bs)"

definition bswap :: "nat \<Rightarrow> 'a::len word \<Rightarrow> 'a word" where
  "bswap n w = of_bytes_le (bytes_be n w)"

text \<open>\<^verbatim>\<open>cpu_to_net16\<close> to \<^verbatim>\<open>net_to_cpu64\<close>, one definition per width.\<close>

definition cpu_to_net16 :: "byte_order \<Rightarrow> u16 \<Rightarrow> u16" where
  "cpu_to_net16 h v = (case h of LITTLE \<Rightarrow> bswap 2 v | BIG \<Rightarrow> v)"

definition net_to_cpu16 :: "byte_order \<Rightarrow> u16 \<Rightarrow> u16" where
  "net_to_cpu16 h v = (case h of LITTLE \<Rightarrow> bswap 2 v | BIG \<Rightarrow> v)"

definition cpu_to_net32 :: "byte_order \<Rightarrow> u32 \<Rightarrow> u32" where
  "cpu_to_net32 h v = (case h of LITTLE \<Rightarrow> bswap 4 v | BIG \<Rightarrow> v)"

definition net_to_cpu32 :: "byte_order \<Rightarrow> u32 \<Rightarrow> u32" where
  "net_to_cpu32 h v = (case h of LITTLE \<Rightarrow> bswap 4 v | BIG \<Rightarrow> v)"

definition cpu_to_net64 :: "byte_order \<Rightarrow> u64 \<Rightarrow> u64" where
  "cpu_to_net64 h v = (case h of LITTLE \<Rightarrow> bswap 8 v | BIG \<Rightarrow> v)"

definition net_to_cpu64 :: "byte_order \<Rightarrow> u64 \<Rightarrow> u64" where
  "net_to_cpu64 h v = (case h of LITTLE \<Rightarrow> bswap 8 v | BIG \<Rightarrow> v)"

definition cpu_to_le64 :: "byte_order \<Rightarrow> u64 \<Rightarrow> u64" where
  "cpu_to_le64 h v = (case h of LITTLE \<Rightarrow> v | BIG \<Rightarrow> bswap 8 v)"

definition le_to_cpu64 :: "byte_order \<Rightarrow> u64 \<Rightarrow> u64" where
  "le_to_cpu64 h v = (case h of LITTLE \<Rightarrow> v | BIG \<Rightarrow> bswap 8 v)"

section \<open>Octet lists\<close>

lemma length_bytes_le [simp]: "length (bytes_le n w) = n"
  by (simp add: bytes_le_def)

lemma length_bytes_be [simp]: "length (bytes_be n w) = n"
  by (simp add: bytes_be_def)

lemma length_store [simp]: "length (store h n w) = n"
  by (cases h) (simp_all add: store_def)

lemma bit_of_bytes_le:
  "bit (of_bytes_le bs :: 'a::len word) i \<longleftrightarrow>
   i < LENGTH('a) \<and> i div 8 < length bs \<and> bit (bs ! (i div 8)) (i mod 8)"
proof (induction bs arbitrary: i)
  case Nil
  show ?case by simp
next
  case (Cons b bs)
  show ?case
  proof (cases "i < 8")
    case True
    then show ?thesis by (auto simp: bit_simps)
  next
    case False
    then have "i div 8 = Suc ((i - 8) div 8)" and "i mod 8 = (i - 8) mod 8"
      by (simp_all add: le_div_geq le_mod_geq)
    with False show ?thesis
      by (auto simp: bit_simps Cons.IH dest: bit_imp_le_length)
  qed
qed

lemma of_bytes_le_bytes_le:
  assumes "8 * n = LENGTH('a)"
  shows "of_bytes_le (bytes_le n w) = (w :: 'a::len word)"
proof (rule bit_word_eqI)
  fix i assume "i < LENGTH('a)"
  moreover have "8 * (i div 8) + i mod 8 = i" by simp
  moreover have "i mod 8 < 8" by simp
  ultimately show "bit (of_bytes_le (bytes_le n w) :: 'a word) i = bit w i"
    using assms by (auto simp: bit_of_bytes_le bytes_le_def bit_simps)
qed

lemma bytes_le_of_bytes_le:
  assumes "8 * length bs = LENGTH('a)"
  shows "bytes_le (length bs) (of_bytes_le bs :: 'a::len word) = bs"
proof (rule nth_equalityI)
  show "length (bytes_le (length bs) (of_bytes_le bs :: 'a word)) = length bs"
    by simp
next
  fix i assume "i < length (bytes_le (length bs) (of_bytes_le bs :: 'a word))"
  then have i: "i < length bs" by simp
  show "bytes_le (length bs) (of_bytes_le bs :: 'a word) ! i = bs ! i"
  proof (rule bit_word_eqI)
    fix k assume "k < LENGTH(8)"
    then have "k < 8" by simp
    then have "(8 * i + k) div 8 = i" and "(8 * i + k) mod 8 = k"
      by simp_all
    with i assms \<open>k < 8\<close>
    show "bit (bytes_le (length bs) (of_bytes_le bs :: 'a word) ! i) k = bit (bs ! i) k"
      by (auto simp: bytes_le_def bit_simps bit_of_bytes_le)
  qed
qed

lemma of_bytes_be_bytes_be:
  "8 * n = LENGTH('a) \<Longrightarrow> of_bytes_be (bytes_be n w) = (w :: 'a::len word)"
  by (simp add: of_bytes_be_def bytes_be_def of_bytes_le_bytes_le)

lemma bytes_be_of_bytes_be:
  "8 * length bs = LENGTH('a) \<Longrightarrow> bytes_be (length bs) (of_bytes_be bs :: 'a::len word) = bs"
  using bytes_le_of_bytes_le [of "rev bs", where 'a = 'a]
  by (simp add: of_bytes_be_def bytes_be_def)

lemma bytes_le_bswap:
  assumes "8 * n = LENGTH('a)"
  shows "bytes_le n (bswap n (w :: 'a::len word)) = bytes_be n w"
  using bytes_le_of_bytes_le [of "bytes_be n w", where 'a = 'a] assms
  by (simp add: bswap_def)

lemma bswap_of_bytes_le:
  assumes "8 * length bs = LENGTH('a)"
  shows "bswap (length bs) (of_bytes_le bs) = (of_bytes_be bs :: 'a::len word)"
  using bytes_le_of_bytes_le [OF assms] by (simp add: bswap_def bytes_be_def of_bytes_be_def)

lemma bytes_be_bswap:
  assumes "8 * n = LENGTH('a)"
  shows "bytes_be n (bswap n (w :: 'a::len word)) = bytes_le n w"
  using bytes_le_bswap [OF assms, of w] by (simp add: bytes_be_def)

lemma bswap_of_bytes_be:
  assumes "8 * length bs = LENGTH('a)"
  shows "bswap (length bs) (of_bytes_be bs) = (of_bytes_le bs :: 'a::len word)"
  using bswap_of_bytes_le [of "rev bs", where 'a = 'a] assms
  by (simp add: of_bytes_be_def)

section \<open>The wire order does not depend on the host\<close>

lemma store_net16 [simp]: "store h 2 (cpu_to_net16 h v) = bytes_be 2 v"
  by (cases h) (simp_all add: store_def cpu_to_net16_def bytes_le_bswap)

lemma store_net32 [simp]: "store h 4 (cpu_to_net32 h v) = bytes_be 4 v"
  by (cases h) (simp_all add: store_def cpu_to_net32_def bytes_le_bswap)

lemma store_net64 [simp]: "store h 8 (cpu_to_net64 h v) = bytes_be 8 v"
  by (cases h) (simp_all add: store_def cpu_to_net64_def bytes_le_bswap)

lemma store_le64 [simp]: "store h 8 (cpu_to_le64 h v) = bytes_le 8 v"
  by (cases h) (simp_all add: store_def cpu_to_le64_def bytes_be_bswap)

lemma load_net16: "length bs = 2 \<Longrightarrow> net_to_cpu16 h (load h bs) = of_bytes_be bs"
  using bswap_of_bytes_le [of bs, where 'a = 16]
  by (cases h) (simp_all add: load_def net_to_cpu16_def)

lemma load_net32: "length bs = 4 \<Longrightarrow> net_to_cpu32 h (load h bs) = of_bytes_be bs"
  using bswap_of_bytes_le [of bs, where 'a = 32]
  by (cases h) (simp_all add: load_def net_to_cpu32_def)

lemma load_net64: "length bs = 8 \<Longrightarrow> net_to_cpu64 h (load h bs) = of_bytes_be bs"
  using bswap_of_bytes_le [of bs, where 'a = 64]
  by (cases h) (simp_all add: load_def net_to_cpu64_def)

lemma load_le64: "length bs = 8 \<Longrightarrow> le_to_cpu64 h (load h bs) = of_bytes_le bs"
  using bswap_of_bytes_be [of bs, where 'a = 64]
  by (cases h) (simp_all add: load_def le_to_cpu64_def)

lemmas load_net = load_net16 load_net32 load_net64 load_le64

end
