(* ===== verification/MsgTypes.thy ===== *)
theory MsgTypes
  imports Endian
begin

text \<open>
  The data types of \<^verbatim>\<open>src/msg.h\<close>: error codes, enumerations and the PTP structures that
  the management and signaling TLVs are made of.

  A C++ enumeration with a fixed underlying type can hold every value of that type (a received
  octet is cast to it unchecked), so such an enumeration is a machine word and its enumerators are
  abbreviations. \<^verbatim>\<open>MNG_PARSE_ERROR_e\<close> and \<^verbatim>\<open>implementSpecific_e\<close>, which never carry
  received values, are datatypes. A fixed-size octet array is an octet list whose length is stated
  where it matters.
\<close>

section \<open>Enumerations\<close>

datatype MNG_PARSE_ERROR_e =
    MNG_PARSE_ERROR_OK
  | MNG_PARSE_ERROR_MSG
  | MNG_PARSE_ERROR_SIG
  | MNG_PARSE_ERROR_INVALID_ID
  | MNG_PARSE_ERROR_INVALID_TLV
  | MNG_PARSE_ERROR_SIZE_MISS
  | MNG_PARSE_ERROR_TOO_SMALL
  | MNG_PARSE_ERROR_SIZE
  | MNG_PARSE_ERROR_VAL
  | MNG_PARSE_ERROR_HEADER
  | MNG_PARSE_ERROR_ACTION
  | MNG_PARSE_ERROR_UNSUPPORT
  | MNG_PARSE_ERROR_MEM

datatype implementSpecific_e = noImplementSpecific | linuxptp

type_synonym msgType_e = u8

abbreviation (input) Sync :: msgType_e where "Sync \<equiv> 0"
abbreviation (input) Delay_Req :: msgType_e where "Delay_Req \<equiv> 1"
abbreviation (input) Pdelay_Req :: msgType_e where "Pdelay_Req \<equiv> 2"
abbreviation (input) Pdelay_Resp :: msgType_e where "Pdelay_Resp \<equiv> 3"
abbreviation (input) Follow_Up :: msgType_e where "Follow_Up \<equiv> 0x8"
abbreviation (input) Delay_Resp :: msgType_e where "Delay_Resp \<equiv> 0x9"
abbreviation (input) Pdelay_Resp_Follow_Up :: msgType_e where "Pdelay_Resp_Follow_Up \<equiv> 0xa"
abbreviation (input) Announce :: msgType_e where "Announce \<equiv> 0xb"
abbreviation (input) Signaling :: msgType_e where "Signaling \<equiv> 0xc"
abbreviation (input) Management :: msgType_e where "Management \<equiv> 0xd"

type_synonym tlvType_e = u16

abbreviation (input) MANAGEMENT :: tlvType_e where "MANAGEMENT \<equiv> 0x0001"
abbreviation (input) MANAGEMENT_ERROR_STATUS :: tlvType_e where "MANAGEMENT_ERROR_STATUS \<equiv> 0x0002"
abbreviation (input) ORGANIZATION_EXTENSION :: tlvType_e where "ORGANIZATION_EXTENSION \<equiv> 0x0003"
abbreviation (input) REQUEST_UNICAST_TRANSMISSION :: tlvType_e
  where "REQUEST_UNICAST_TRANSMISSION \<equiv> 0x0004"
abbreviation (input) GRANT_UNICAST_TRANSMISSION :: tlvType_e
  where "GRANT_UNICAST_TRANSMISSION \<equiv> 0x0005"
abbreviation (input) CANCEL_UNICAST_TRANSMISSION :: tlvType_e
  where "CANCEL_UNICAST_TRANSMISSION \<equiv> 0x0006"
abbreviation (input) ACKNOWLEDGE_CANCEL_UNICAST_TRANSMISSION :: tlvType_e
  where "ACKNOWLEDGE_CANCEL_UNICAST_TRANSMISSION \<equiv> 0x0007"
abbreviation (input) PATH_TRACE :: tlvType_e where "PATH_TRACE \<equiv> 0x0008"
abbreviation (input) ALTERNATE_TIME_OFFSET_INDICATOR :: tlvType_e
  where "ALTERNATE_TIME_OFFSET_INDICATOR \<equiv> 0x0009"
abbreviation (input) ORGANIZATION_EXTENSION_PROPAGATE :: tlvType_e
  where "ORGANIZATION_EXTENSION_PROPAGATE \<equiv> 0x4000"
abbreviation (input) ENHANCED_ACCURACY_METRICS :: tlvType_e
  where "ENHANCED_ACCURACY_METRICS \<equiv> 0x4001"
abbreviation (input) ORGANIZATION_EXTENSION_DO_NOT_PROPAGATE :: tlvType_e
  where "ORGANIZATION_EXTENSION_DO_NOT_PROPAGATE \<equiv> 0x8000"
abbreviation (input) L1_SYNC :: tlvType_e where "L1_SYNC \<equiv> 0x8001"
abbreviation (input) PORT_COMMUNICATION_AVAILABILITY :: tlvType_e
  where "PORT_COMMUNICATION_AVAILABILITY \<equiv> 0x8002"
abbreviation (input) PROTOCOL_ADDRESS :: tlvType_e where "PROTOCOL_ADDRESS \<equiv> 0x8003"
abbreviation (input) SLAVE_RX_SYNC_TIMING_DATA :: tlvType_e
  where "SLAVE_RX_SYNC_TIMING_DATA \<equiv> 0x8004"
abbreviation (input) SLAVE_RX_SYNC_COMPUTED_DATA :: tlvType_e
  where "SLAVE_RX_SYNC_COMPUTED_DATA \<equiv> 0x8005"
abbreviation (input) SLAVE_TX_EVENT_TIMESTAMPS :: tlvType_e
  where "SLAVE_TX_EVENT_TIMESTAMPS \<equiv> 0x8006"
abbreviation (input) CUMULATIVE_RATE_RATIO :: tlvType_e where "CUMULATIVE_RATE_RATIO \<equiv> 0x8007"
abbreviation (input) TLV_PAD :: tlvType_e where "TLV_PAD \<equiv> 0x8008"
abbreviation (input) AUTHENTICATION :: tlvType_e where "AUTHENTICATION \<equiv> 0x8009"
abbreviation (input) SLAVE_DELAY_TIMING_DATA_NP :: tlvType_e
  where "SLAVE_DELAY_TIMING_DATA_NP \<equiv> 0x7f00"

type_synonym actionField_e = u8

abbreviation (input) GET :: actionField_e where "GET \<equiv> 0"
abbreviation (input) SET :: actionField_e where "SET \<equiv> 1"
abbreviation (input) RESPONSE :: actionField_e where "RESPONSE \<equiv> 2"
abbreviation (input) COMMAND :: actionField_e where "COMMAND \<equiv> 3"
abbreviation (input) ACKNOWLEDGE :: actionField_e where "ACKNOWLEDGE \<equiv> 4"

type_synonym managementErrorId_e = u16
type_synonym clockType_e = u16
type_synonym networkProtocol_e = u16
type_synonym clockAccuracy_e = u8
type_synonym faultRecord_e = u8
type_synonym timeSource_e = u8
type_synonym portState_e = u8
type_synonym linuxptpTimeStamp_e = u8

abbreviation (input) UDP_IPv4 :: networkProtocol_e where "UDP_IPv4 \<equiv> 1"
abbreviation (input) UDP_IPv6 :: networkProtocol_e where "UDP_IPv6 \<equiv> 2"
abbreviation (input) IEEE_802_3 :: networkProtocol_e where "IEEE_802_3 \<equiv> 3"
abbreviation (input) DeviceNet :: networkProtocol_e where "DeviceNet \<equiv> 4"
abbreviation (input) ControlNet :: networkProtocol_e where "ControlNet \<equiv> 5"
abbreviation (input) PROFINET :: networkProtocol_e where "PROFINET \<equiv> 6"

section \<open>Structures\<close>

type_synonym Binary = "byte list"

text \<open>\<^verbatim>\<open>Float64_t\<close> as its 64 bits of IEEE 754 storage.\<close>

type_synonym Float64_t = u64

record TimeInterval_t =
  scaledNanoseconds :: i64

record Timestamp_t =
  secondsField :: u64
  nanosecondsField :: u32

record ClockIdentity_t =
  v_octets :: "byte list"

record PortIdentity_t =
  clockIdentity :: ClockIdentity_t
  portNumber :: u16

record PortAddress_t =
  networkProtocol :: networkProtocol_e
  addressLength :: u16
  addressField :: Binary

record ClockQuality_t =
  clockClass :: u8
  clockAccuracy :: clockAccuracy_e
  offsetScaledLogVariance :: u16

record PTPText_t =
  lengthField :: u8
  textField :: string

record FaultRecord_t =
  faultRecordLength :: u16
  faultTime :: Timestamp_t
  severityCode :: faultRecord_e
  faultName :: PTPText_t
  faultValue :: PTPText_t
  faultDescription :: PTPText_t

record AcceptableMaster_t =
  acceptablePortIdentity :: PortIdentity_t
  alternatePriority1 :: u8

text \<open>
  The \<^verbatim>\<open>size\<close> members of the structures. \<^verbatim>\<open>std::vector::size\<close> and
  \<^verbatim>\<open>std::string::length\<close> are list lengths.
\<close>

definition TimeInterval_size :: nat where "TimeInterval_size = 8"

definition Timestamp_size :: nat where "Timestamp_size = 10"

definition ClockIdentity_size :: nat where "ClockIdentity_size = 8"

definition PortIdentity_size :: nat where "PortIdentity_size = 2 + ClockIdentity_size"

definition PortAddress_size :: "PortAddress_t \<Rightarrow> nat" where
  "PortAddress_size d = 4 + length (addressField d)"

definition PTPText_size :: "PTPText_t \<Rightarrow> nat" where
  "PTPText_size d = 1 + length (textField d)"

definition FaultRecord_size :: "FaultRecord_t \<Rightarrow> nat" where
  "FaultRecord_size d = 3 + Timestamp_size + PTPText_size (faultName d) +
     PTPText_size (faultValue d) + PTPText_size (faultDescription d)"

definition AcceptableMaster_size :: nat where "AcceptableMaster_size = 1 + PortIdentity_size"

text \<open>
  \<^verbatim>\<open>TimeInterval_t::getIntervalInt\<close>: an arithmetic shift of the scaled value.
\<close>

definition getIntervalInt :: "TimeInterval_t \<Rightarrow> i64" where
  "getIntervalInt d = signed_drop_bit 16 (scaledNanoseconds d)"

text \<open>Freshly constructed structures: scalars are unset in C++, here zero; containers are empty.\<close>

definition new_TimeInterval :: TimeInterval_t where
  "new_TimeInterval = \<lparr>scaledNanoseconds = 0\<rparr>"

definition new_Timestamp :: Timestamp_t where
  "new_Timestamp = \<lparr>secondsField = 0, nanosecondsField = 0\<rparr>"

definition new_ClockIdentity :: ClockIdentity_t where
  "new_ClockIdentity = \<lparr>v_octets = replicate 8 0\<rparr>"

definition new_PortIdentity :: PortIdentity_t where
  "new_PortIdentity = \<lparr>clockIdentity = new_ClockIdentity, portNumber = 0\<rparr>"

definition new_PortAddress :: PortAddress_t where
  "new_PortAddress = \<lparr>networkProtocol = 0, addressLength = 0, addressField = []\<rparr>"

definition new_ClockQuality :: ClockQuality_t where
  "new_ClockQuality = \<lparr>clockClass = 0, clockAccuracy = 0, offsetScaledLogVariance = 0\<rparr>"

definition new_PTPText :: PTPText_t where
  "new_PTPText = \<lparr>lengthField = 0, textField = []\<rparr>"

definition new_FaultRecord :: FaultRecord_t where
  "new_FaultRecord = \<lparr>faultRecordLength = 0, faultTime = new_Timestamp, severityCode = 0,
     faultName = new_PTPText, faultValue = new_PTPText, faultDescription = new_PTPText\<rparr>"

definition new_AcceptableMaster :: AcceptableMaster_t where
  "new_AcceptableMaster =
     \<lparr>acceptablePortIdentity = new_PortIdentity, alternatePriority1 = 0\<rparr>"

record MsgParams =
  transportSpecific :: u8
  domainNumber :: u8
  boundaryHops :: u8
  isUnicast :: bool
  implementSpecific :: implementSpecific_e
  target :: PortIdentity_t
  self_id :: PortIdentity_t
  useZeroGet :: bool
  rcvSignaling :: bool
  filterSignaling :: bool
  allowSigTlvs :: "tlvType_e \<rightharpoonup> bool"

section \<open>Facts about the time interval\<close>

text \<open>
  \<^verbatim>\<open>getIntervalInt\<close> is the scaled value divided by \<open>2\<^sup>1\<^sup>6\<close>, rounded down.
\<close>

lemma sint_getIntervalInt:
  "sint (getIntervalInt d) = sint (scaledNanoseconds d) div 2 ^ 16"
  by (simp add: getIntervalInt_def sint_signed_drop_bit_eq drop_bit_eq_div)

end
