(* ===== verification/Codec.thy ===== *)
theory Codec
  imports MsgTypes
begin

text \<open>
  The build-and-parse engine of class \<^verbatim>\<open>Message\<close> (the \<^verbatim>\<open>proc\<close> overloads of
  \<^verbatim>\<open>src/msg.cpp\<close> and the vector macros of \<^verbatim>\<open>src/msg.h\<close>).

  One C++ function serves both directions: with \<^verbatim>\<open>m_build\<close> set it writes the value at
  \<^verbatim>\<open>m_cur\<close>, otherwise it reads the value from there. A \<open>proc\<close> below takes the value the
  C++ reference points to and the state and returns the C++ result (\<^term>\<open>True\<close> on error), the
  value after the call and the state after the call; \<^term>\<open>None\<close> is an access outside the
  memory block. The state is the record \<open>mst\<close>, the temporary members of the class together with
  the memory block and the machine's byte order; the class itself extends it in theory
  \<open>Message\<close>.

  What a \<open>proc\<close> promises, in both directions, is stated in theory \<open>CodecLaws\<close>.
\<close>

section \<open>State\<close>

record mst =
  host :: byte_order
  mem :: "byte list"
  m_build :: bool
  m_cur :: nat
  m_left :: int
  m_size :: nat
  m_err :: MNG_PARSE_ERROR_e
  reserved :: u8

type_synonym ('v, 'z) proc = "'v \<Rightarrow> 'z mst_scheme \<Rightarrow> (bool \<times> 'v \<times> 'z mst_scheme) option"

definition move :: "nat \<Rightarrow> 'z mst_scheme \<Rightarrow> 'z mst_scheme" where
  "move n s = s\<lparr>m_cur := m_cur s + n, m_left := m_left s - int n, m_size := m_size s + n\<rparr>"

definition put_bytes :: "byte list \<Rightarrow> 'z mst_scheme \<Rightarrow> 'z mst_scheme option" where
  "put_bytes bs s = map_option (\<lambda>m. s\<lparr>mem := m\<rparr>) (poke (m_cur s) bs (mem s))"

definition get_bytes :: "nat \<Rightarrow> 'z mst_scheme \<Rightarrow> byte list option" where
  "get_bytes n s = peek (m_cur s) n (mem s)"

section \<open>Scalars\<close>

definition proc_scalar ::
    "nat \<Rightarrow> (byte_order \<Rightarrow> 'v \<Rightarrow> byte list) \<Rightarrow> (byte_order \<Rightarrow> byte list \<Rightarrow> 'v) \<Rightarrow> ('v, 'z) proc" where
  "proc_scalar n wr rd val s =
     (if m_left s < int n then Some (True, val, s)
      else if m_build s then do {
        s' \<leftarrow> put_bytes (wr (host s) val) s;
        Some (False, val, move n s')
      } else do {
        bs \<leftarrow> get_bytes n s;
        Some (False, rd (host s) bs, move n s)
      })"

definition proc_u8 :: "(u8, 'z) proc" where
  "proc_u8 = proc_scalar 1 (\<lambda>h val. [val]) (\<lambda>h bs. hd bs)"

definition proc_u16 :: "(u16, 'z) proc" where
  "proc_u16 = proc_scalar 2 (\<lambda>h val. store h 2 (cpu_to_net16 h val))
     (\<lambda>h bs. net_to_cpu16 h (load h bs))"

definition proc_u32 :: "(u32, 'z) proc" where
  "proc_u32 = proc_scalar 4 (\<lambda>h val. store h 4 (cpu_to_net32 h val))
     (\<lambda>h bs. net_to_cpu32 h (load h bs))"

definition proc_u64 :: "(u64, 'z) proc" where
  "proc_u64 = proc_scalar 8 (\<lambda>h val. store h 8 (cpu_to_net64 h val))
     (\<lambda>h bs. net_to_cpu64 h (load h bs))"

definition proc_i8 :: "(i8, 'z) proc" where
  "proc_i8 = proc_scalar 1 (\<lambda>h val. [val]) (\<lambda>h bs. hd bs)"

definition proc_i16 :: "(i16, 'z) proc" where
  "proc_i16 = proc_scalar 2 (\<lambda>h val. store h 2 (cpu_to_net16 h val))
     (\<lambda>h bs. net_to_cpu16 h (load h bs))"

definition proc_i32 :: "(i32, 'z) proc" where
  "proc_i32 = proc_scalar 4 (\<lambda>h val. store h 4 (cpu_to_net32 h val))
     (\<lambda>h bs. net_to_cpu32 h (load h bs))"

definition proc_i64 :: "(i64, 'z) proc" where
  "proc_i64 = proc_scalar 8 (\<lambda>h val. store h 8 (cpu_to_net64 h val))
     (\<lambda>h bs. net_to_cpu64 h (load h bs))"

definition procLe :: "(u64, 'z) proc" where
  "procLe = proc_scalar 8 (\<lambda>h val. store h 8 (cpu_to_le64 h val))
     (\<lambda>h bs. le_to_cpu64 h (load h bs))"

section \<open>Sequencing and members\<close>

text \<open>\<^verbatim>\<open>a || b || c\<close> over one structure, left to right, stopping at the first error.\<close>

fun procs :: "('d, 'z) proc list \<Rightarrow> ('d, 'z) proc" where
  "procs [] d s = Some (False, d, s)"
| "procs (p # ps) d s =
     (case p d s of
        None \<Rightarrow> None
      | Some (True, d', s') \<Rightarrow> Some (True, d', s')
      | Some (False, d', s') \<Rightarrow> procs ps d' s')"

text \<open>\<^verbatim>\<open>proc(d.member)\<close>: the reference is a member of the structure.\<close>

definition field :: "('d \<Rightarrow> 'v) \<Rightarrow> (('v \<Rightarrow> 'v) \<Rightarrow> 'd \<Rightarrow> 'd) \<Rightarrow> ('v, 'z) proc \<Rightarrow> ('d, 'z) proc" where
  "field get upd p d s =
     (case p (get d) s of
        None \<Rightarrow> None
      | Some (e, val, s') \<Rightarrow> Some (e, upd (\<lambda>_. val) d, s'))"

text \<open>An assignment to the structure between two calls.\<close>

definition assign :: "('d \<Rightarrow> 'd) \<Rightarrow> ('d, 'z) proc" where
  "assign f d s = Some (False, f d, s)"

text \<open>\<^verbatim>\<open>proc(reserved)\<close>: the reference is the member \<^verbatim>\<open>reserved\<close> of the message.\<close>

definition proc_reserved :: "('d, 'z) proc" where
  "proc_reserved d s =
     (case proc_u8 (reserved s) s of
        None \<Rightarrow> None
      | Some (e, val, s') \<Rightarrow> Some (e, d, s'\<lparr>reserved := val\<rparr>))"

section \<open>48 bits, floating point, strings and octets\<close>

definition UINT48_MAX :: u64 where "UINT48_MAX = 0xffffffffffff"

definition INT48_MAX :: int where "INT48_MAX = 0x7fffffffffff"

definition INT48_MIN :: int where "INT48_MIN = - 0x7fffffffffff - 1"

definition u16_sig_bit :: u16 where "u16_sig_bit = 0x8000"

definition u64_sig_bit :: u64 where "u64_sig_bit = 0x8000000000000000"

text \<open>\<^verbatim>\<open>proc(high) || proc(low)\<close> on the two locals of \<^verbatim>\<open>proc48\<close>.\<close>

definition proc_high_low :: "(u16 \<times> u32, 'z) proc" where
  "proc_high_low = procs [field fst apfst proc_u16, field snd apsnd proc_u32]"

definition proc48_u64 :: "(u64, 'z) proc" where
  "proc48_u64 val s =
     (if m_build s \<and> UINT48_MAX < val then Some (True, val, s\<lparr>m_err := MNG_PARSE_ERROR_VAL\<rparr>)
      else
        let high = (if m_build s then ucast (drop_bit 32 val AND 0xffff) else 0);
            low = (if m_build s then ucast (val AND 0xffffffff) else 0)
        in case proc_high_low (high, low) s of
             None \<Rightarrow> None
           | Some (True, _, s') \<Rightarrow> Some (True, val, s')
           | Some (False, (high', low'), s') \<Rightarrow>
               Some (False, if m_build s then val else ucast low' OR push_bit 32 (ucast high'), s'))"

definition proc48_i64 :: "(i64, 'z) proc" where
  "proc48_i64 val s =
     (if m_build s \<and> (sint val < INT48_MIN \<or> INT48_MAX < sint val)
      then Some (True, val, s\<lparr>m_err := MNG_PARSE_ERROR_VAL\<rparr>)
      else
        let high1 = ucast (signed_drop_bit 32 val AND 0x7fff) :: u16;
            high = (if m_build s then (if sint val < 0 then high1 OR u16_sig_bit else high1) else 0);
            low = (if m_build s then ucast (val AND 0xffffffff) else 0)
        in case proc_high_low (high, low) s of
             None \<Rightarrow> None
           | Some (True, _, s') \<Rightarrow> Some (True, val, s')
           | Some (False, (high', low'), s') \<Rightarrow>
               (let ret = ucast low' OR push_bit 32 (ucast high' AND 0x7fff) :: u64;
                    ret' = (if high' AND u16_sig_bit \<noteq> 0 then ret OR u64_sig_bit else ret)
                in Some (False, if m_build s then val else ret', s')))"

text \<open>
  \<^verbatim>\<open>proc(Float64_t &)\<close> on a machine whose \<^verbatim>\<open>double\<close> is IEEE 754 binary64 stored in the
  machine's byte order: \<^verbatim>\<open>ordMod\<close> is 1 on a big-endian machine (the 64 bits are copied as they
  are) and 0 on a little-endian one (\<^verbatim>\<open>proc(num)\<close>). Both paths end in the second
  \<^verbatim>\<open>move(8)\<close> at the end of the function.
\<close>

definition proc_float64 :: "(Float64_t, 'z) proc" where
  "proc_float64 val s =
     (if m_left s < 8 then Some (True, val, s)
      else
        case (case host s of
                BIG \<Rightarrow> proc_scalar 8 (\<lambda>h num. store h 8 num) (\<lambda>h bs. load h bs) val s
              | LITTLE \<Rightarrow> proc_u64 val s) of
          None \<Rightarrow> None
        | Some (True, _, s') \<Rightarrow> Some (True, val, s')
        | Some (False, num, s') \<Rightarrow> Some (False, num, move 8 s'))"

definition proc_string :: "u16 \<Rightarrow> (string, 'z) proc" where
  "proc_string len0 str s =
     (let len = (if m_build s then word_of_nat (length str) else len0)
      in if m_left s < int (unat len) then Some (True, str, s)
         else if m_build s then do {
           s' \<leftarrow> put_bytes (take (unat len) (bytes_of_string str)) s;
           Some (False, str, move (unat len) s')
         } else do {
           bs \<leftarrow> get_bytes (unat len) s;
           Some (False, string_of_bytes bs, move (unat len) s)
         })"

text \<open>
  \<^verbatim>\<open>bin.copy(m_cur)\<close> copies the whole binary, while the room is checked and the cursor moved
  by the length truncated to 16 bits.
\<close>

definition proc_binary :: "u16 \<Rightarrow> (Binary, 'z) proc" where
  "proc_binary len0 bin s =
     (let len = (if m_build s then word_of_nat (length bin) else len0)
      in if m_left s < int (unat len) then Some (True, bin, s)
         else if m_build s then do {
           s' \<leftarrow> put_bytes bin s;
           Some (False, bin, move (unat len) s')
         } else do {
           bs \<leftarrow> get_bytes (unat len) s;
           Some (False, bs, move (unat len) s)
         })"

definition proc_octets :: "nat \<Rightarrow> (byte list, 'z) proc" where
  "proc_octets len val s =
     (if m_left s < int len then Some (True, val, s)
      else if m_build s then
        if length val < len then None
        else do {
          s' \<leftarrow> put_bytes (take len val) s;
          Some (False, val, move len s')
        }
      else do {
        bs \<leftarrow> get_bytes len s;
        Some (False, bs, move len s)
      })"

section \<open>Enumerations and structures\<close>

definition proc_networkProtocol :: "(networkProtocol_e, 'z) proc" where
  "proc_networkProtocol = proc_u16"

definition proc_clockAccuracy :: "(clockAccuracy_e, 'z) proc" where
  "proc_clockAccuracy = proc_u8"

definition proc_faultRecord :: "(faultRecord_e, 'z) proc" where
  "proc_faultRecord = proc_u8"

definition proc_timeSource :: "(timeSource_e, 'z) proc" where
  "proc_timeSource = proc_u8"

definition proc_portState :: "(portState_e, 'z) proc" where
  "proc_portState = proc_u8"

definition proc_msgType :: "(msgType_e, 'z) proc" where
  "proc_msgType = proc_u8"

definition proc_linuxptpTimeStamp :: "(linuxptpTimeStamp_e, 'z) proc" where
  "proc_linuxptpTimeStamp = proc_u8"

definition proc_TimeInterval :: "(TimeInterval_t, 'z) proc" where
  "proc_TimeInterval = procs [field scaledNanoseconds scaledNanoseconds_update proc_i64]"

definition proc_Timestamp :: "(Timestamp_t, 'z) proc" where
  "proc_Timestamp = procs
     [field secondsField secondsField_update proc48_u64,
      field nanosecondsField nanosecondsField_update proc_u32]"

definition proc_ClockIdentity :: "(ClockIdentity_t, 'z) proc" where
  "proc_ClockIdentity = procs [field v_octets v_octets_update (proc_octets 8)]"

definition proc_PortIdentity :: "(PortIdentity_t, 'z) proc" where
  "proc_PortIdentity = procs
     [field clockIdentity clockIdentity_update proc_ClockIdentity,
      field portNumber portNumber_update proc_u16]"

definition proc_PortAddress :: "(PortAddress_t, 'z) proc" where
  "proc_PortAddress = procs
     [assign (\<lambda>d. d\<lparr>addressLength := word_of_nat (length (addressField d))\<rparr>),
      field networkProtocol networkProtocol_update proc_networkProtocol,
      field addressLength addressLength_update proc_u16,
      \<lambda>d. field addressField addressField_update (proc_binary (addressLength d)) d]"

definition proc_ClockQuality :: "(ClockQuality_t, 'z) proc" where
  "proc_ClockQuality = procs
     [field clockClass clockClass_update proc_u8,
      field clockAccuracy clockAccuracy_update proc_clockAccuracy,
      field offsetScaledLogVariance offsetScaledLogVariance_update proc_u16]"

definition proc_PTPText :: "(PTPText_t, 'z) proc" where
  "proc_PTPText = procs
     [assign (\<lambda>d. d\<lparr>lengthField := word_of_nat (length (textField d))\<rparr>),
      field lengthField lengthField_update proc_u8,
      \<lambda>d. field textField textField_update (proc_string (ucast (lengthField d))) d]"

definition FaultRecord_check :: "(FaultRecord_t, 'z) proc" where
  "FaultRecord_check d s =
     (if unat (faultRecordLength d) \<noteq> 16 + unat (lengthField (faultName d)) +
           unat (lengthField (faultValue d)) + unat (lengthField (faultDescription d))
      then Some (True, d, s\<lparr>m_err := MNG_PARSE_ERROR_SIZE_MISS\<rparr>)
      else Some (False, d, s))"

definition proc_FaultRecord :: "(FaultRecord_t, 'z) proc" where
  "proc_FaultRecord = procs
     [field faultRecordLength faultRecordLength_update proc_u16,
      field faultTime faultTime_update proc_Timestamp,
      field severityCode severityCode_update proc_faultRecord,
      field faultName faultName_update proc_PTPText,
      field faultValue faultValue_update proc_PTPText,
      field faultDescription faultDescription_update proc_PTPText,
      FaultRecord_check]"

definition proc_AcceptableMaster :: "(AcceptableMaster_t, 'z) proc" where
  "proc_AcceptableMaster = procs
     [field acceptablePortIdentity acceptablePortIdentity_update proc_PortIdentity,
      field alternatePriority1 alternatePriority1_update proc_u8]"

definition mask_flags :: "u8 \<Rightarrow> u8 \<Rightarrow> u8" where
  "mask_flags flagsMask flags =
     (if flagsMask > 1 then flags AND flagsMask else if flags > 0 then 1 else flags)"

definition procFlags :: "u8 \<Rightarrow> (u8, 'z) proc" where
  "procFlags flagsMask flags s =
     proc_u8 (if m_build s then mask_flags flagsMask flags else flags) s"

section \<open>Vectors and arrays\<close>

text \<open>\<^verbatim>\<open>vector_b\<close>: on build, every record of the vector in turn.\<close>

fun vec_build :: "('v, 'z) proc \<Rightarrow> ('v list, 'z) proc" where
  "vec_build p [] s = Some (False, [], s)"
| "vec_build p (rec # vec) s =
     (case p rec s of
        None \<Rightarrow> None
      | Some (True, rec', s') \<Rightarrow> Some (True, rec' # vec, s')
      | Some (False, rec', s') \<Rightarrow>
          (case vec_build p vec s' of
             None \<Rightarrow> None
           | Some (e, vec', s'') \<Rightarrow> Some (e, rec' # vec', s'')))"

text \<open>The parsing loop of \<^verbatim>\<open>vector_f\<close>: \<open>n\<close> records, each appended to the vector.\<close>

fun vec_count :: "nat \<Rightarrow> ('v, 'z) proc \<Rightarrow> 'v \<Rightarrow> ('v list, 'z) proc" where
  "vec_count 0 p new vec s = Some (False, vec, s)"
| "vec_count (Suc n) p new vec s =
     (case p new s of
        None \<Rightarrow> None
      | Some (True, rec, s') \<Rightarrow> Some (True, vec, s')
      | Some (False, rec, s') \<Rightarrow> vec_count n p new (vec @ [rec]) s')"

text \<open>
  The parsing loop of \<^verbatim>\<open>vector_o\<close>: records of \<open>sz\<close> octets while the window holds one. The
  fuel bounds the number of iterations; \<open>vec_rest_safe\<close> shows it is never used up.
\<close>

fun vec_rest :: "nat \<Rightarrow> nat \<Rightarrow> ('v, 'z) proc \<Rightarrow> 'v \<Rightarrow> ('v list, 'z) proc" where
  "vec_rest 0 sz p new vec s = None"
| "vec_rest (Suc fuel) sz p new vec s =
     (if m_left s \<ge> int sz then
        (case p new s of
           None \<Rightarrow> None
         | Some (True, rec, s') \<Rightarrow> Some (True, vec, s')
         | Some (False, rec, s') \<Rightarrow> vec_rest fuel sz p new (vec @ [rec]) s')
      else Some (False, vec, s))"

definition vector_f :: "('d \<Rightarrow> 'v list) \<Rightarrow> (('v list \<Rightarrow> 'v list) \<Rightarrow> 'd \<Rightarrow> 'd) \<Rightarrow>
    ('d \<Rightarrow> u32) \<Rightarrow> ('v, 'z) proc \<Rightarrow> 'v \<Rightarrow> ('d, 'z) proc" where
  "vector_f get upd cnt p new d s =
     (if m_build s then field get upd (vec_build p) d s
      else field get upd (vec_count (unat (cnt d)) p new) d s)"

definition vector_o :: "('d \<Rightarrow> 'v list) \<Rightarrow> (('v list \<Rightarrow> 'v list) \<Rightarrow> 'd \<Rightarrow> 'd) \<Rightarrow>
    nat \<Rightarrow> ('v, 'z) proc \<Rightarrow> 'v \<Rightarrow> ('d, 'z) proc" where
  "vector_o get upd sz p new d s =
     (if m_build s then field get upd (vec_build p) d s
      else field get upd (vec_rest (Suc (nat (m_left s))) sz p new) d s)"

text \<open>\<^verbatim>\<open>for(i = 0; i < n; i++) if(proc(a[i])) return true;\<close> over a fixed-size array.\<close>

fun proc_array :: "nat list \<Rightarrow> ('v, 'z) proc \<Rightarrow> ('v list, 'z) proc" where
  "proc_array [] p a s = Some (False, a, s)"
| "proc_array (i # is) p a s =
     (case p (a ! i) s of
        None \<Rightarrow> None
      | Some (True, val, s') \<Rightarrow> Some (True, a[i := val], s')
      | Some (False, val, s') \<Rightarrow> proc_array is p (a[i := val]) s')"

end
