(* ===== verification/CodecLaws.thy ===== *)
theory CodecLaws
  imports Codec
begin

text \<open>
  The contract of the build-and-parse engine of theory \<open>Codec\<close>: two locales and their closure
  under the composition the sources use. \<open>wire_codec\<close> relates a \<open>proc\<close> to a reference encoding
  \<open>enc\<close>: \<open>dec d d0\<close> is the value left in a structure that held \<open>d0\<close> when the octets of \<open>d\<close>
  are parsed into it (building \<open>d\<close> leaves \<open>dec d d\<close>), and \<open>pre d d0 rest\<close> is what parsing needs
  of \<open>d0\<close> and of the octets that remain in the window after the encoding. \<open>windowed\<close> is the
  memory discipline of parsing.
\<close>

section \<open>Windows, emitted octets and frames\<close>

definition wf :: "'z mst_scheme \<Rightarrow> bool" where
  "wf s \<longleftrightarrow> 0 \<le> m_left s \<and> int (m_cur s) + m_left s \<le> int (length (mem s))"

definition emit :: "byte list \<Rightarrow> 'z mst_scheme \<Rightarrow> 'z mst_scheme" where
  "emit bs s = move (length bs) (s\<lparr>mem := patch (m_cur s) bs (mem s)\<rparr>)"

definition starts_with :: "'z mst_scheme \<Rightarrow> byte list \<Rightarrow> bool" where
  "starts_with s bs \<longleftrightarrow>
     int (length bs) \<le> m_left s \<and> take (length bs) (drop (m_cur s) (mem s)) = bs"

definition build_frame :: "'z mst_scheme \<Rightarrow> 'z mst_scheme \<Rightarrow> bool" where
  "build_frame s s' \<longleftrightarrow>
     m_build s' = m_build s \<and> host s' = host s \<and> reserved s' = reserved s \<and> m_err s' = m_err s \<and>
     mst.more s' = mst.more s \<and> length (mem s') = length (mem s) \<and> m_cur s \<le> m_cur s' \<and>
     0 \<le> m_left s' \<and> int (m_cur s') + m_left s' = int (m_cur s) + m_left s \<and>
     take (m_cur s) (mem s') = take (m_cur s) (mem s) \<and>
     drop (m_cur s + nat (m_left s)) (mem s') = drop (m_cur s + nat (m_left s)) (mem s)"

definition parse_frame :: "'z mst_scheme \<Rightarrow> 'z mst_scheme \<Rightarrow> bool" where
  "parse_frame s s' \<longleftrightarrow>
     m_build s' = m_build s \<and> host s' = host s \<and> mem s' = mem s \<and> mst.more s' = mst.more s \<and>
     (m_err s \<noteq> MNG_PARSE_ERROR_OK \<longrightarrow> m_err s' \<noteq> MNG_PARSE_ERROR_OK) \<and>
     m_cur s \<le> m_cur s' \<and> 0 \<le> m_left s' \<and> int (m_cur s') + m_left s' = int (m_cur s) + m_left s"

locale wire_codec =
  fixes p :: "('d, 'z) proc"
    and ok :: "'d \<Rightarrow> bool"
    and enc :: "'d \<Rightarrow> byte list"
    and dec :: "'d \<Rightarrow> 'd \<Rightarrow> 'd"
    and pre :: "'d \<Rightarrow> 'd \<Rightarrow> int \<Rightarrow> bool"
  assumes build_fits:
      "m_build s \<Longrightarrow> reserved s = 0 \<Longrightarrow> wf s \<Longrightarrow> ok d \<Longrightarrow> int (length (enc d)) \<le> m_left s \<Longrightarrow>
       p d s = Some (False, dec d d, emit (enc d) s)"
    and build_short:
      "m_build s \<Longrightarrow> reserved s = 0 \<Longrightarrow> wf s \<Longrightarrow> ok d \<Longrightarrow> m_left s < int (length (enc d)) \<Longrightarrow>
       \<exists>d' s'. p d s = Some (True, d', s') \<and> build_frame s s'"
    and parse_back:
      "\<not> m_build s \<Longrightarrow> wf s \<Longrightarrow> ok d \<Longrightarrow> starts_with s (enc d) \<Longrightarrow>
       pre d d0 (m_left s - int (length (enc d))) \<Longrightarrow>
       \<exists>r. p d0 s = Some (False, dec d d0, (move (length (enc d)) s)\<lparr>reserved := r\<rparr>)"

locale windowed =
  fixes p :: "('d, 'z) proc"
  assumes stays: "\<not> m_build s \<Longrightarrow> wf s \<Longrightarrow> \<exists>e d' s'. p d s = Some (e, d', s') \<and> parse_frame s s'"

locale progressing = windowed +
  assumes consumes: "\<not> m_build s \<Longrightarrow> wf s \<Longrightarrow> p d s = Some (False, d', s') \<Longrightarrow> m_left s' < m_left s"

section \<open>Basic facts\<close>

lemma move_simps [simp]:
  "mem (move n s) = mem s" "host (move n s) = host s" "m_build (move n s) = m_build s"
  "m_cur (move n s) = m_cur s + n" "m_left (move n s) = m_left s - int n"
  "m_size (move n s) = m_size s + n" "m_err (move n s) = m_err s"
  "reserved (move n s) = reserved s" "mst.more (move n s) = mst.more s"
  by (simp_all add: move_def)

lemma move_move [simp]: "move n (move k s) = move (k + n) s"
  by (simp add: move_def)

lemma move_0 [simp]: "move 0 s = s"
  by (simp add: move_def)

lemma move_reserved [simp]: "move n (s\<lparr>reserved := r\<rparr>) = (move n s)\<lparr>reserved := r\<rparr>"
  by (simp add: move_def)

lemma emit_simps [simp]:
  "host (emit bs s) = host s" "m_build (emit bs s) = m_build s"
  "m_cur (emit bs s) = m_cur s + length bs" "m_left (emit bs s) = m_left s - int (length bs)"
  "m_size (emit bs s) = m_size s + length bs" "m_err (emit bs s) = m_err s"
  "reserved (emit bs s) = reserved s" "mst.more (emit bs s) = mst.more s"
  "mem (emit bs s) = patch (m_cur s) bs (mem s)"
  by (simp_all add: emit_def)

lemma wf_move: "wf s \<Longrightarrow> int n \<le> m_left s \<Longrightarrow> wf (move n s)"
  by (simp add: wf_def)

lemma wf_reserved [simp]: "wf (s\<lparr>reserved := r\<rparr>) = wf s"
  by (simp add: wf_def)

lemma wf_room: "wf s \<Longrightarrow> int n \<le> m_left s \<Longrightarrow> m_cur s + n \<le> length (mem s)"
  by (simp add: wf_def)

lemma wf_emit: "wf s \<Longrightarrow> int (length bs) \<le> m_left s \<Longrightarrow> wf (emit bs s)"
  using wf_room [of s "length bs"] by (simp add: wf_def)

lemma emit_Nil [simp]: "wf s \<Longrightarrow> emit [] s = s"
  by (simp add: emit_def wf_def)

lemma emit_append:
  assumes "wf s" and "int (length as + length bs) \<le> m_left s"
  shows "emit bs (emit as s) = emit (as @ bs) s"
proof -
  have "m_cur s + (length as + length bs) \<le> length (mem s)"
    using assms by (rule wf_room)
  then have "patch (m_cur s + length as) bs (patch (m_cur s) as (mem s)) =
      patch (m_cur s) (as @ bs) (mem s)"
    by (intro patch_append) simp
  then show ?thesis
    by (simp add: emit_def move_def)
qed

lemma put_bytes_Some:
  "m_cur s + length bs \<le> length (mem s) \<Longrightarrow>
   put_bytes bs s = Some (s\<lparr>mem := patch (m_cur s) bs (mem s)\<rparr>)"
  by (simp add: put_bytes_def mem_simps)

lemma get_bytes_Some:
  "m_cur s + n \<le> length (mem s) \<Longrightarrow> get_bytes n s = Some (take n (drop (m_cur s) (mem s)))"
  by (simp add: get_bytes_def mem_simps)

lemma starts_with_append:
  assumes "starts_with s (as @ bs)"
  shows "starts_with s as" and "starts_with ((move (length as) s)\<lparr>reserved := r\<rparr>) bs"
proof -
  have t: "take (length as + length bs) (drop (m_cur s) (mem s)) = as @ bs"
    using assms by (simp add: starts_with_def)
  then have "take (length as) (take (length as + length bs) (drop (m_cur s) (mem s))) = as"
    by simp
  then have "take (length as) (drop (m_cur s) (mem s)) = as"
    by simp
  moreover have "drop (length as) (take (length as + length bs) (drop (m_cur s) (mem s))) = bs"
    using t by simp
  then have "take (length bs) (drop (m_cur s + length as) (mem s)) = bs"
    by (simp add: drop_take add.commute)
  ultimately show "starts_with s as" "starts_with ((move (length as) s)\<lparr>reserved := r\<rparr>) bs"
    using assms by (simp_all add: starts_with_def)
qed

lemma starts_with_reserved [simp]: "starts_with (s\<lparr>reserved := r\<rparr>) bs = starts_with s bs"
  by (simp add: starts_with_def)

lemma starts_with_room: "starts_with s bs \<Longrightarrow> int (length bs) \<le> m_left s"
  by (simp add: starts_with_def)

lemma wf_after:
  "wf s \<Longrightarrow> starts_with s bs \<Longrightarrow> wf ((move (length bs) s)\<lparr>reserved := r\<rparr>)"
  by (simp add: wf_move starts_with_room)

lemma build_frame_refl [simp]: "0 \<le> m_left s \<Longrightarrow> build_frame s s"
  by (simp add: build_frame_def)

lemma parse_frame_refl [simp]: "0 \<le> m_left s \<Longrightarrow> parse_frame s s"
  by (simp add: parse_frame_def)

lemma build_frame_emit:
  assumes "wf s" and "int (length bs) \<le> m_left s"
  shows "build_frame s (emit bs s)"
proof -
  have "m_cur s + length bs \<le> length (mem s)" using assms by (rule wf_room)
  with assms show ?thesis
    by (simp add: build_frame_def wf_def take_patch drop_patch)
qed

lemma build_frame_trans:
  assumes "build_frame s t" and "build_frame t u"
  shows "build_frame s u"
proof -
  have end_eq: "m_cur t + nat (m_left t) = m_cur s + nat (m_left s)"
    using assms(1) unfolding build_frame_def by linarith
  have "take (m_cur s) (mem u) = take (m_cur s) (take (m_cur t) (mem u))"
    using assms(1) by (simp add: build_frame_def min_def)
  also have "\<dots> = take (m_cur s) (mem s)"
    using assms by (simp add: build_frame_def min_def)
  finally have "take (m_cur s) (mem u) = take (m_cur s) (mem s)" .
  moreover have "drop (m_cur s + nat (m_left s)) (mem u) = drop (m_cur s + nat (m_left s)) (mem s)"
    using assms end_eq by (simp add: build_frame_def)
  ultimately show ?thesis
    using assms by (simp add: build_frame_def)
qed

lemma parse_frame_trans: "parse_frame s t \<Longrightarrow> parse_frame t u \<Longrightarrow> parse_frame s u"
  by (simp add: parse_frame_def)

lemma parse_frame_wf: "parse_frame s s' \<Longrightarrow> wf s \<Longrightarrow> wf s'"
  by (simp add: parse_frame_def wf_def)

lemma parse_frame_move: "wf s \<Longrightarrow> int n \<le> m_left s \<Longrightarrow> parse_frame s (move n s)"
  by (simp add: parse_frame_def)

lemma parse_frame_reserved [simp]: "parse_frame s (s'\<lparr>reserved := r\<rparr>) = parse_frame s s'"
  by (simp add: parse_frame_def)

lemma parse_frame_from_err [simp]:
  "e \<noteq> MNG_PARSE_ERROR_OK \<Longrightarrow>
   parse_frame (s\<lparr>m_err := e\<rparr>) s' \<longleftrightarrow> parse_frame s s' \<and> m_err s' \<noteq> MNG_PARSE_ERROR_OK"
  by (auto simp: parse_frame_def)

lemma wf_err [simp]: "wf (s\<lparr>m_err := x\<rparr>) = wf s"
  by (simp add: wf_def)

lemma starts_with_err [simp]: "starts_with (s\<lparr>m_err := x\<rparr>) bs = starts_with s bs"
  by (simp add: starts_with_def)

section \<open>Lemmas of the interfaces\<close>

context wire_codec
begin

text \<open>Building and then parsing the same window gives the normal form of the value.\<close>

lemma build_then_parse:
  assumes "m_build s" "reserved s = 0" "wf s" "ok d" "int (length (enc d)) \<le> m_left s"
    and "pre d d0 (m_left s - int (length (enc d)))"
  shows "\<exists>s1 s2. p d s = Some (False, dec d d, s1) \<and>
     m_size s1 = m_size s + length (enc d) \<and>
     p d0 (s\<lparr>m_build := False, mem := mem s1\<rparr>) = Some (False, dec d d0, s2)"
proof -
  let ?s1 = "emit (enc d) s" and ?s2 = "s\<lparr>m_build := False, mem := mem (emit (enc d) s)\<rparr>"
  have b: "p d s = Some (False, dec d d, ?s1)"
    using assms(1-5) by (rule build_fits)
  have room: "m_cur s + length (enc d) \<le> length (mem s)"
    using assms(3,5) by (rule wf_room)
  then have "starts_with ?s2 (enc d)" and "wf ?s2"
    using assms(3,5) by (simp_all add: starts_with_def take_drop_patch wf_def)
  moreover have "\<not> m_build ?s2" by simp
  moreover have "pre d d0 (m_left ?s2 - int (length (enc d)))" using assms(6) by simp
  ultimately obtain r where "p d0 ?s2 = Some (False, dec d d0, (move (length (enc d)) ?s2)\<lparr>reserved := r\<rparr>)"
    using assms(4) parse_back by blast
  with b show ?thesis by auto
qed

end

context windowed
begin

lemma parse_not_stuck: "\<not> m_build s \<Longrightarrow> wf s \<Longrightarrow> p d s \<noteq> None"
  using stays by fastforce

lemma parse_keeps_window:
  "\<not> m_build s \<Longrightarrow> wf s \<Longrightarrow> p d s = Some (e, d', s') \<Longrightarrow> parse_frame s s' \<and> wf s'"
  using stays [of s d] by (auto intro: parse_frame_wf)

end

end
