(* ===== verification/CodecRules.thy ===== *)
theory CodecRules
  imports CodecLaws
begin

text \<open>
  The composition rules of the wire contract: one rule per scalar, per container and per way of
  composing calls, collected in \<open>codec_rules\<close>, and their consequences for the structures of
  \<^verbatim>\<open>src/msg.h\<close>.
\<close>

section \<open>Sequencing\<close>

abbreviation no_pre :: "'d \<Rightarrow> 'd \<Rightarrow> int \<Rightarrow> bool" where
  "no_pre \<equiv> \<lambda>_ _ _. True"

lemma codec_procs_Nil [codec_rules]:
  "wire_codec (procs []) (\<lambda>_. True) (\<lambda>_. []) (\<lambda>_ d0. d0) no_pre"
proof (unfold_locales, goal_cases)
  case (3 s d d0)
  show ?case by (rule exI [of _ "reserved s"]) simp
qed (auto simp: wf_def)

text \<open>The reference encoding of a structure: another codec with pointwise equal parts.\<close>

lemma codec_weaken:
  assumes "wire_codec p ok' enc' dec' pre'"
    and "\<And>d. ok d \<Longrightarrow> ok' d" and "\<And>d. ok d \<Longrightarrow> enc' d = enc d"
    and "\<And>d d0 rest. ok d \<Longrightarrow> pre d d0 rest \<Longrightarrow> dec' d d0 = dec d d0"
    and "\<And>d. ok d \<Longrightarrow> dec' d d = dec d d"
    and "\<And>d d0 rest. ok d \<Longrightarrow> pre d d0 rest \<Longrightarrow> pre' d d0 rest"
  shows "wire_codec p ok enc dec pre"
proof (unfold_locales, goal_cases)
  case (1 s d)
  then show ?case using wire_codec.build_fits [OF assms(1), of s d] by (simp add: assms)
next
  case (2 s d)
  then show ?case using wire_codec.build_short [OF assms(1), of s d] by (simp add: assms)
next
  case (3 s d d0)
  then have "pre' d d0 (m_left s - int (length (enc' d)))" by (simp add: assms)
  with 3 show ?case using wire_codec.parse_back [OF assms(1), of s d d0] by (simp add: assms)
qed

text \<open>\<open>a || b\<close>: \<open>b\<close> works on the structure as \<open>a\<close> left it.\<close>

lemma codec_procs_seq:
  assumes "wire_codec p ok1 enc1 dec1 pre1" and "wire_codec (procs ps) ok2 enc2 dec2 pre2"
  shows "wire_codec (procs (p # ps)) (\<lambda>d. ok1 d \<and> ok2 (dec1 d d))
    (\<lambda>d. enc1 d @ enc2 (dec1 d d)) (\<lambda>d d0. dec2 (dec1 d d) (dec1 d d0))
    (\<lambda>d d0 rest. pre1 d d0 (rest + int (length (enc2 (dec1 d d)))) \<and>
       pre2 (dec1 d d) (dec1 d d0) rest)"
proof -
  note c1 = assms(1) and c2 = assms(2)
  show ?thesis
  proof (unfold_locales, goal_cases)
    case (1 s d)
    then have p1: "p d s = Some (False, dec1 d d, emit (enc1 d) s)"
      by (simp add: wire_codec.build_fits [OF c1])
    have "procs ps (dec1 d d) (emit (enc1 d) s) =
        Some (False, dec2 (dec1 d d) (dec1 d d), emit (enc2 (dec1 d d)) (emit (enc1 d) s))"
      using 1 by (intro wire_codec.build_fits [OF c2]) (auto simp: wf_emit)
    then show ?case
      using 1 p1 by (simp add: emit_append)
  next
    case (2 s d)
    show ?case
    proof (cases "int (length (enc1 d)) \<le> m_left s")
      case False
      then obtain d' s' where "p d s = Some (True, d', s')" "build_frame s s'"
        using 2 wire_codec.build_short [OF c1, of s d] by auto
      then show ?thesis by simp
    next
      case True
      then have p1: "p d s = Some (False, dec1 d d, emit (enc1 d) s)"
        using 2 by (simp add: wire_codec.build_fits [OF c1])
      obtain d' s' where "procs ps (dec1 d d) (emit (enc1 d) s) = Some (True, d', s')"
          and "build_frame (emit (enc1 d) s) s'"
        using 2 True wire_codec.build_short [OF c2, of "emit (enc1 d) s" "dec1 d d"]
        by (auto simp: wf_emit)
      moreover have "build_frame s (emit (enc1 d) s)"
        using 2 True by (simp add: build_frame_emit)
      ultimately show ?thesis
        using p1 by (auto intro: build_frame_trans)
    qed
  next
    case (3 s d d0)
    let ?n = "length (enc1 d)"
    have sw: "starts_with s (enc1 d)"
        "\<And>r. starts_with ((move ?n s)\<lparr>reserved := r\<rparr>) (enc2 (dec1 d d))"
      using 3(4) by (auto dest: starts_with_append)
    obtain r where p1: "p d0 s = Some (False, dec1 d d0, (move ?n s)\<lparr>reserved := r\<rparr>)"
      using 3 sw(1) wire_codec.parse_back [OF c1, of s d d0] by (auto simp: algebra_simps)
    let ?s1 = "(move ?n s)\<lparr>reserved := r\<rparr>"
    have "wf ?s1" using 3(2) sw(1) by (rule wf_after)
    then obtain r' where "procs ps (dec1 d d0) ?s1 = Some (False, dec2 (dec1 d d) (dec1 d d0),
        (move (length (enc2 (dec1 d d))) ?s1)\<lparr>reserved := r'\<rparr>)"
      using 3 sw(2) [of r] wire_codec.parse_back [OF c2, of ?s1 "dec1 d d" "dec1 d d0"]
      by (auto simp: algebra_simps)
    then show ?case
      using p1 by auto
  qed
qed

text \<open>The usual case, in which the first call does not change what the rest encodes.\<close>

lemma codec_procs_Cons [codec_rules]:
  assumes "wire_codec p ok1 enc1 dec1 pre1" and "wire_codec (procs ps) ok2 enc2 dec2 pre2"
    and "\<And>d. ok1 d \<Longrightarrow> ok2 d \<Longrightarrow> ok2 (dec1 d d)"
    and "\<And>d. ok1 d \<Longrightarrow> ok2 d \<Longrightarrow> enc2 (dec1 d d) = enc2 d"
    and "\<And>d d0. ok1 d \<Longrightarrow> ok2 d \<Longrightarrow> dec2 (dec1 d d) (dec1 d d0) = dec2 d (dec1 d d0)"
    and "\<And>d d0 rest. ok1 d \<Longrightarrow> ok2 d \<Longrightarrow> pre2 d (dec1 d d0) rest \<Longrightarrow> pre2 (dec1 d d) (dec1 d d0) rest"
  shows "wire_codec (procs (p # ps)) (\<lambda>d. ok1 d \<and> ok2 d) (\<lambda>d. enc1 d @ enc2 d)
    (\<lambda>d d0. dec2 d (dec1 d d0))
    (\<lambda>d d0 rest. pre1 d d0 (rest + int (length (enc2 d))) \<and> pre2 d (dec1 d d0) rest)"
  by (rule codec_weaken [OF codec_procs_seq [OF assms(1,2)]]) (auto simp: assms(3-6))

lemma codec_field [codec_rules]:
  assumes "wire_codec p ok enc dec pre"
  shows "wire_codec (field get upd p) (\<lambda>d. ok (get d)) (\<lambda>d. enc (get d))
    (\<lambda>d d0. upd (\<lambda>_. dec (get d) (get d0)) d0) (\<lambda>d d0. pre (get d) (get d0))"
proof (unfold_locales, goal_cases)
  case (1 s d)
  then show ?case by (simp add: field_def wire_codec.build_fits [OF assms])
next
  case (2 s d)
  then show ?case
    using wire_codec.build_short [OF assms, of s "get d"] by (auto simp: field_def)
next
  case (3 s d d0)
  then show ?case
    using wire_codec.parse_back [OF assms, of s "get d" "get d0"] by (auto simp: field_def)
qed

text \<open>
  An assignment before the calls: on build it fixes the value that is encoded, on parse it only
  changes the structure that is about to be filled.
\<close>

lemma codec_assign_Cons [codec_rules]:
  assumes "wire_codec (procs ps) ok enc dec pre"
  shows "wire_codec (procs (assign f # ps)) (\<lambda>d. ok (f d)) (\<lambda>d. enc (f d))
    (\<lambda>d d0. dec (f d) (f d0)) (\<lambda>d d0. pre (f d) (f d0))"
proof (unfold_locales, goal_cases)
  case (1 s d)
  then show ?case by (simp add: assign_def wire_codec.build_fits [OF assms])
next
  case (2 s d)
  then show ?case
    using wire_codec.build_short [OF assms, of s "f d"] by (simp add: assign_def)
next
  case (3 s d d0)
  then show ?case
    using wire_codec.parse_back [OF assms, of s "f d" "f d0"] by (simp add: assign_def)
qed

section \<open>Scalars\<close>

lemma codec_scalar:
  assumes "\<And>h x. length (wr h x) = n" and "\<And>h x. wr h x = enc x" and "\<And>h x. rd h (enc x) = x"
  shows "wire_codec (proc_scalar n wr rd) (\<lambda>_. True) enc (\<lambda>x _. x) no_pre"
proof -
  have len: "length (enc x) = n" for x using assms(1,2) by metis
  show ?thesis
  proof (unfold_locales, goal_cases)
    case (1 s d)
    then have "m_cur s + length (enc d) \<le> length (mem s)" by (intro wf_room)
    with 1 show ?case
      by (simp add: proc_scalar_def put_bytes_Some assms(2) emit_def len)
  next
    case (2 s d)
    then show ?case by (simp add: proc_scalar_def len wf_def)
  next
    case (3 s d d0)
    then have "int n \<le> m_left s" and t: "take n (drop (m_cur s) (mem s)) = enc d"
      by (simp_all add: starts_with_def len)
    then have "m_cur s + n \<le> length (mem s)" using 3(2) by (intro wf_room)
    then have "proc_scalar n wr rd d0 s = Some (False, d, move n s)"
      using 3 \<open>int n \<le> m_left s\<close> by (simp add: proc_scalar_def get_bytes_Some t assms(3))
    then show ?case
      by (intro exI [of _ "reserved s"]) (simp add: len)
  qed
qed

lemma codec_u8 [codec_rules]: "wire_codec proc_u8 (\<lambda>_. True) (\<lambda>x. [x]) (\<lambda>x _. x) no_pre"
  unfolding proc_u8_def by (rule codec_scalar) auto

lemma codec_u16 [codec_rules]: "wire_codec proc_u16 (\<lambda>_. True) (bytes_be 2) (\<lambda>x _. x) no_pre"
  unfolding proc_u16_def
  by (rule codec_scalar) (auto simp: load_net of_bytes_be_bytes_be)

lemma codec_u32 [codec_rules]: "wire_codec proc_u32 (\<lambda>_. True) (bytes_be 4) (\<lambda>x _. x) no_pre"
  unfolding proc_u32_def
  by (rule codec_scalar) (auto simp: load_net of_bytes_be_bytes_be)

lemma codec_u64 [codec_rules]: "wire_codec proc_u64 (\<lambda>_. True) (bytes_be 8) (\<lambda>x _. x) no_pre"
  unfolding proc_u64_def
  by (rule codec_scalar) (auto simp: load_net of_bytes_be_bytes_be)

lemma codec_procLe [codec_rules]: "wire_codec procLe (\<lambda>_. True) (bytes_le 8) (\<lambda>x _. x) no_pre"
  unfolding procLe_def
  by (rule codec_scalar) (auto simp: load_net of_bytes_le_bytes_le)

lemma proc_signed [simp]:
  "proc_i8 = proc_u8" "proc_i16 = proc_u16" "proc_i32 = proc_u32" "proc_i64 = proc_u64"
  by (simp_all add: proc_i8_def proc_u8_def proc_i16_def proc_u16_def proc_i32_def proc_u32_def
      proc_i64_def proc_u64_def)

lemmas codec_signed [codec_rules] =
  codec_u8 [folded proc_signed] codec_u16 [folded proc_signed]
  codec_u32 [folded proc_signed] codec_u64 [folded proc_signed]

lemmas enum_procs =
  proc_networkProtocol_def proc_clockAccuracy_def proc_faultRecord_def proc_timeSource_def
  proc_portState_def proc_msgType_def proc_linuxptpTimeStamp_def

lemmas codec_enums [codec_rules] =
  codec_u16 [folded proc_networkProtocol_def] codec_u8 [folded proc_clockAccuracy_def]
  codec_u8 [folded proc_faultRecord_def] codec_u8 [folded proc_timeSource_def]
  codec_u8 [folded proc_portState_def] codec_u8 [folded proc_msgType_def]
  codec_u8 [folded proc_linuxptpTimeStamp_def]

lemma codec_reserved [codec_rules]:
  "wire_codec proc_reserved (\<lambda>_. True) (\<lambda>_. [0]) (\<lambda>_ d0. d0) no_pre"
proof -
  note u8 = codec_u8
  show ?thesis
  proof (unfold_locales, goal_cases)
    case (1 s d)
    then have "proc_u8 (reserved s) s = Some (False, 0, emit [0] s)"
      using wire_codec.build_fits [OF u8, of s "reserved s"] by simp
    then show ?case using 1 by (simp add: proc_reserved_def emit_def move_def)
  next
    case (2 s d)
    then show ?case by (simp add: proc_reserved_def proc_u8_def proc_scalar_def wf_def build_frame_def)
  next
    case (3 s d d0)
    then obtain r where "proc_u8 (reserved s) s = Some (False, 0, (move 1 s)\<lparr>reserved := r\<rparr>)"
      using wire_codec.parse_back [OF u8, of s 0 "reserved s"] by auto
    then show ?case
      by (intro exI [of _ 0]) (simp add: proc_reserved_def)
  qed
qed

lemma codec_flags [codec_rules]:
  "wire_codec (procFlags m) (\<lambda>_. True) (\<lambda>x. [mask_flags m x]) (\<lambda>x _. mask_flags m x) no_pre"
proof (unfold_locales, goal_cases)
  case (1 s d)
  then show ?case
    by (simp add: procFlags_def wire_codec.build_fits [OF codec_u8])
next
  case (2 s d)
  then show ?case
    using wire_codec.build_short [OF codec_u8, of s "mask_flags m d"] by (simp add: procFlags_def)
next
  case (3 s d d0)
  then show ?case
    using wire_codec.parse_back [OF codec_u8, of s "mask_flags m d" d0] by (simp add: procFlags_def)
qed

section \<open>48 bits, octets, strings and binaries\<close>

lemma bytes_be_48:
  fixes x :: u64
  shows "bytes_be 2 (ucast (drop_bit 32 x AND 0xffff) :: u16) @
     bytes_be 4 (ucast (x AND 0xffffffff) :: u32) = bytes_be 6 x"
proof -
  have m: "(0xffff :: u64) = mask 16" "(0xffffffff :: u64) = mask 32"
    by (simp_all add: mask_eq_exp_minus_1)
  have high: "ucast (drop_bit n (ucast (drop_bit 32 x AND 0xffff) :: u16)) =
      (ucast (drop_bit (n + 32) x) :: byte)" if "n + 8 \<le> 16" for n
    using that by (intro bit_word_eqI) (auto simp: m bit_simps add_ac)
  have low: "ucast (drop_bit n (ucast (x AND 0xffffffff) :: u32)) =
      (ucast (drop_bit n x) :: byte)" if "n + 8 \<le> 32" for n
    using that by (intro bit_word_eqI) (auto simp: m bit_simps)
  have "[0..<2] = [0, 1]" "[0..<4] = [0, 1, 2, 3]" "[0..<6] = [0, 1, 2, 3, 4, 5 :: nat]"
    by (simp_all add: upt_rec)
  then show ?thesis
    using high [of 0] low [of 0] by (simp add: bytes_be_def bytes_le_def high low)
qed

lemma bit_UINT48_MAX:
  assumes "x \<le> UINT48_MAX" and "bit x i"
  shows "i < 48"
proof (rule ccontr)
  assume "\<not> i < 48"
  then have "(2 :: nat) ^ 48 \<le> 2 ^ i" by (intro power_increasing) simp_all
  moreover have "unat x < 2 ^ 48"
    using assms(1) by (simp add: word_le_nat_alt UINT48_MAX_def)
  ultimately have "unat x div 2 ^ i = 0" by simp
  then have "\<not> bit (unat x) i" by (simp add: bit_iff_odd)
  with assms(2) show False by (auto simp: bit_simps)
qed

lemma join_48:
  assumes "x \<le> UINT48_MAX"
  shows "ucast (ucast (x AND 0xffffffff) :: u32) OR
     push_bit 32 (ucast (ucast (drop_bit 32 x AND 0xffff) :: u16)) = (x :: u64)"
proof -
  have m: "(0xffff :: u64) = mask 16" "(0xffffffff :: u64) = mask 32"
    by (simp_all add: mask_eq_exp_minus_1)
  show ?thesis
    unfolding m by (intro bit_word_eqI) (auto simp: bit_simps dest: bit_UINT48_MAX [OF assms])
qed

lemma codec_high_low:
  "wire_codec proc_high_low (\<lambda>_. True) (\<lambda>(high, low). bytes_be 2 high @ bytes_be 4 low)
     (\<lambda>x _. x) no_pre"
  unfolding proc_high_low_def
  by (rule codec_weaken, (rule codec_rules)+) auto

lemma codec_proc48 [codec_rules]:
  "wire_codec proc48_u64 (\<lambda>x. x \<le> UINT48_MAX) (bytes_be 6) (\<lambda>x _. x) no_pre"
proof (unfold_locales, goal_cases)
  case (1 s x)
  then show ?case
    using wire_codec.build_fits [OF codec_high_low, of s
        "(ucast (drop_bit 32 x AND 0xffff), ucast (x AND 0xffffffff))"]
    by (simp add: proc48_u64_def bytes_be_48)
next
  case (2 s x)
  then show ?case
    using wire_codec.build_short [OF codec_high_low, of s
        "(ucast (drop_bit 32 x AND 0xffff), ucast (x AND 0xffffffff))"]
    by (auto simp: proc48_u64_def bytes_be_48)
next
  case (3 s x x0)
  then show ?case
    using wire_codec.parse_back [OF codec_high_low, of s
        "(ucast (drop_bit 32 x AND 0xffff), ucast (x AND 0xffffffff))" "(0, 0)"]
    by (auto simp: proc48_u64_def bytes_be_48 join_48)
qed

lemma codec_octets [codec_rules]:
  "wire_codec (proc_octets n) (\<lambda>x. length x = n) (\<lambda>x. x) (\<lambda>x _. x) no_pre"
proof (unfold_locales, goal_cases)
  case (1 s d)
  then have "m_cur s + length d \<le> length (mem s)" by (intro wf_room)
  with 1 show ?case
    by (simp add: proc_octets_def put_bytes_Some emit_def)
next
  case (2 s d)
  then show ?case by (simp add: proc_octets_def wf_def)
next
  case (3 s d d0)
  then have "int n \<le> m_left s" and t: "take n (drop (m_cur s) (mem s)) = d"
    by (simp_all add: starts_with_def)
  then have "m_cur s + n \<le> length (mem s)" using 3(2) by (intro wf_room)
  then have "proc_octets n d0 s = Some (False, d, move n s)"
    using 3 \<open>int n \<le> m_left s\<close> by (simp add: proc_octets_def get_bytes_Some t)
  then show ?case
    using 3 by (intro exI [of _ "reserved s"]) simp
qed

lemma unat_word_of_nat [simp]:
  "n < 2 ^ 16 \<Longrightarrow> unat (word_of_nat n :: u16) = n"
  "n < 2 ^ 8 \<Longrightarrow> unat (word_of_nat n :: u8) = n"
  "n < 65536 \<Longrightarrow> unat (word_of_nat n :: u16) = n"
  "n < 256 \<Longrightarrow> unat (word_of_nat n :: u8) = n"
  by (simp_all add: unat_of_nat)

lemma unat_ucast_len [simp]:
  "unat (ucast (x :: u8) :: u16) = unat x" "unat (ucast (x :: u8) :: u32) = unat x"
  "unat (ucast (y :: u16) :: u32) = unat y"
  by (simp_all add: unsigned_ucast_eq take_bit_nat_eq_self_iff unsigned_less [THEN less_le_trans])

lemma uint_word_of_nat [simp]: "n < 65536 \<Longrightarrow> uint (word_of_nat n :: u16) = int n"
  by (simp add: uint_nat del: of_nat_unat)

lemma codec_binary [codec_rules]:
  "wire_codec (\<lambda>d. field get upd (proc_binary (len d)) d) (\<lambda>d. length (get d) < 65536) get
     (\<lambda>d d0. upd (\<lambda>_. get d) d0) (\<lambda>d d0 _. unat (len d0) = length (get d))"
proof (unfold_locales, goal_cases)
  case (1 s d)
  then have "m_cur s + length (get d) \<le> length (mem s)" by (intro wf_room)
  with 1 show ?case
    by (simp add: field_def proc_binary_def put_bytes_Some emit_def)
next
  case (2 s d)
  then show ?case by (simp add: field_def proc_binary_def wf_def)
next
  case (3 s d d0)
  let ?n = "length (get d)"
  have "int ?n \<le> m_left s" and t: "take ?n (drop (m_cur s) (mem s)) = get d"
    using 3(4) by (simp_all add: starts_with_def)
  then have "m_cur s + ?n \<le> length (mem s)" using 3(2) by (intro wf_room)
  then have "proc_binary (len d0) (get d0) s = Some (False, get d, move ?n s)"
    using 3 \<open>int ?n \<le> m_left s\<close> by (simp add: uint_nat proc_binary_def get_bytes_Some t del: of_nat_unat)
  then show ?case
    by (intro exI [of _ "reserved s"]) (simp add: field_def)
qed

lemma codec_string [codec_rules]:
  "wire_codec (\<lambda>d. field get upd (proc_string (len d)) d) (\<lambda>d. length (get d) < 65536)
     (\<lambda>d. bytes_of_string (get d))
     (\<lambda>d d0. upd (\<lambda>_. get d) d0) (\<lambda>d d0 _. unat (len d0) = length (get d))"
proof (unfold_locales, goal_cases)
  case (1 s d)
  then have "m_cur s + length (bytes_of_string (get d)) \<le> length (mem s)" by (intro wf_room)
  with 1 show ?case
    by (simp add: field_def proc_string_def put_bytes_Some emit_def)
next
  case (2 s d)
  then show ?case by (simp add: field_def proc_string_def wf_def)
next
  case (3 s d d0)
  let ?n = "length (get d)"
  have "int ?n \<le> m_left s" and t: "take ?n (drop (m_cur s) (mem s)) = bytes_of_string (get d)"
    using 3(4) by (simp_all add: starts_with_def)
  then have "m_cur s + ?n \<le> length (mem s)" using 3(2) by (intro wf_room)
  then have "proc_string (len d0) (get d0) s = Some (False, get d, move ?n s)"
    using 3 \<open>int ?n \<le> m_left s\<close> by (simp add: uint_nat proc_string_def get_bytes_Some t del: of_nat_unat)
  then show ?case
    by (intro exI [of _ "reserved s"]) (simp add: field_def)
qed

section \<open>Structures\<close>

text \<open>
  Reference encodings of the structures. \<open>norm\<close> is what an application finds in a structure
  after it was built or parsed back: the length members are set from the containers.
\<close>

definition enc_TimeInterval :: "TimeInterval_t \<Rightarrow> byte list" where
  "enc_TimeInterval d = bytes_be 8 (scaledNanoseconds d)"

definition ok_Timestamp :: "Timestamp_t \<Rightarrow> bool" where
  "ok_Timestamp d \<longleftrightarrow> secondsField d \<le> UINT48_MAX"

definition enc_Timestamp :: "Timestamp_t \<Rightarrow> byte list" where
  "enc_Timestamp d = bytes_be 6 (secondsField d) @ bytes_be 4 (nanosecondsField d)"

definition ok_ClockIdentity :: "ClockIdentity_t \<Rightarrow> bool" where
  "ok_ClockIdentity d \<longleftrightarrow> length (v_octets d) = 8"

definition enc_ClockIdentity :: "ClockIdentity_t \<Rightarrow> byte list" where
  "enc_ClockIdentity d = v_octets d"

definition ok_PortIdentity :: "PortIdentity_t \<Rightarrow> bool" where
  "ok_PortIdentity d \<longleftrightarrow> ok_ClockIdentity (clockIdentity d)"

definition enc_PortIdentity :: "PortIdentity_t \<Rightarrow> byte list" where
  "enc_PortIdentity d = enc_ClockIdentity (clockIdentity d) @ bytes_be 2 (portNumber d)"

definition ok_PortAddress :: "PortAddress_t \<Rightarrow> bool" where
  "ok_PortAddress d \<longleftrightarrow> length (addressField d) < 65536"

definition norm_PortAddress :: "PortAddress_t \<Rightarrow> PortAddress_t" where
  "norm_PortAddress d = d\<lparr>addressLength := word_of_nat (length (addressField d))\<rparr>"

definition enc_PortAddress :: "PortAddress_t \<Rightarrow> byte list" where
  "enc_PortAddress d = bytes_be 2 (networkProtocol d) @
     bytes_be 2 (word_of_nat (length (addressField d)) :: u16) @ addressField d"

definition enc_ClockQuality :: "ClockQuality_t \<Rightarrow> byte list" where
  "enc_ClockQuality d =
     [clockClass d, clockAccuracy d] @ bytes_be 2 (offsetScaledLogVariance d)"

definition ok_PTPText :: "PTPText_t \<Rightarrow> bool" where
  "ok_PTPText d \<longleftrightarrow> length (textField d) < 256"

definition norm_PTPText :: "PTPText_t \<Rightarrow> PTPText_t" where
  "norm_PTPText d = d\<lparr>lengthField := word_of_nat (length (textField d))\<rparr>"

definition enc_PTPText :: "PTPText_t \<Rightarrow> byte list" where
  "enc_PTPText d = word_of_nat (length (textField d)) # bytes_of_string (textField d)"

definition ok_FaultRecord :: "FaultRecord_t \<Rightarrow> bool" where
  "ok_FaultRecord d \<longleftrightarrow> ok_Timestamp (faultTime d) \<and>
     ok_PTPText (faultName d) \<and> ok_PTPText (faultValue d) \<and> ok_PTPText (faultDescription d) \<and>
     unat (faultRecordLength d) = 16 + length (textField (faultName d)) +
       length (textField (faultValue d)) + length (textField (faultDescription d))"

definition norm_FaultRecord :: "FaultRecord_t \<Rightarrow> FaultRecord_t" where
  "norm_FaultRecord d = d\<lparr>faultName := norm_PTPText (faultName d),
     faultValue := norm_PTPText (faultValue d),
     faultDescription := norm_PTPText (faultDescription d)\<rparr>"

definition enc_FaultRecord :: "FaultRecord_t \<Rightarrow> byte list" where
  "enc_FaultRecord d = bytes_be 2 (faultRecordLength d) @ enc_Timestamp (faultTime d) @
     [severityCode d] @ enc_PTPText (faultName d) @ enc_PTPText (faultValue d) @
     enc_PTPText (faultDescription d)"

definition ok_AcceptableMaster :: "AcceptableMaster_t \<Rightarrow> bool" where
  "ok_AcceptableMaster d \<longleftrightarrow> ok_PortIdentity (acceptablePortIdentity d)"

definition enc_AcceptableMaster :: "AcceptableMaster_t \<Rightarrow> byte list" where
  "enc_AcceptableMaster d =
     enc_PortIdentity (acceptablePortIdentity d) @ [alternatePriority1 d]"

lemma codec_TimeInterval [codec_rules]:
  "wire_codec proc_TimeInterval (\<lambda>_. True) enc_TimeInterval (\<lambda>x _. x) no_pre"
  unfolding proc_TimeInterval_def
  by (rule codec_weaken, (rule codec_rules)+) (auto simp: enc_TimeInterval_def)

lemma codec_Timestamp [codec_rules]:
  "wire_codec proc_Timestamp ok_Timestamp enc_Timestamp (\<lambda>x _. x) no_pre"
  unfolding proc_Timestamp_def
  by (rule codec_weaken, (rule codec_rules)+) (auto simp: enc_Timestamp_def ok_Timestamp_def)

lemma codec_ClockIdentity [codec_rules]:
  "wire_codec proc_ClockIdentity ok_ClockIdentity enc_ClockIdentity (\<lambda>x _. x) no_pre"
  unfolding proc_ClockIdentity_def
  by (rule codec_weaken, (rule codec_rules)+)
    (auto simp: enc_ClockIdentity_def ok_ClockIdentity_def)

lemma codec_PortIdentity [codec_rules]:
  "wire_codec proc_PortIdentity ok_PortIdentity enc_PortIdentity (\<lambda>x _. x) no_pre"
  unfolding proc_PortIdentity_def
  by (rule codec_weaken, (rule codec_rules)+) (auto simp: enc_PortIdentity_def ok_PortIdentity_def)

lemma codec_PortAddress [codec_rules]:
  "wire_codec proc_PortAddress ok_PortAddress enc_PortAddress (\<lambda>x _. norm_PortAddress x) no_pre"
  unfolding proc_PortAddress_def
  by (rule codec_weaken, (rule codec_rules)+)
    (auto simp: enc_PortAddress_def ok_PortAddress_def norm_PortAddress_def)

lemma codec_ClockQuality [codec_rules]:
  "wire_codec proc_ClockQuality (\<lambda>_. True) enc_ClockQuality (\<lambda>x _. x) no_pre"
  unfolding proc_ClockQuality_def
  by (rule codec_weaken, (rule codec_rules)+) (auto simp: enc_ClockQuality_def)

lemma codec_PTPText [codec_rules]:
  "wire_codec proc_PTPText ok_PTPText enc_PTPText (\<lambda>x _. norm_PTPText x) no_pre"
  unfolding proc_PTPText_def
  by (rule codec_weaken, (rule codec_rules)+)
    (auto simp: enc_PTPText_def ok_PTPText_def norm_PTPText_def)

lemma codec_AcceptableMaster [codec_rules]:
  "wire_codec proc_AcceptableMaster ok_AcceptableMaster enc_AcceptableMaster (\<lambda>x _. x) no_pre"
  unfolding proc_AcceptableMaster_def
  by (rule codec_weaken, (rule codec_rules)+)
    (auto simp: enc_AcceptableMaster_def ok_AcceptableMaster_def)

definition FaultRecord_match :: "FaultRecord_t \<Rightarrow> bool" where
  "FaultRecord_match d \<longleftrightarrow> unat (faultRecordLength d) = 16 + unat (lengthField (faultName d)) +
     unat (lengthField (faultValue d)) + unat (lengthField (faultDescription d))"

lemma codec_FaultRecord_check [codec_rules]:
  "wire_codec FaultRecord_check FaultRecord_match (\<lambda>_. []) (\<lambda>_ d0. d0)
     (\<lambda>_ d0 _. FaultRecord_match d0)"
proof (unfold_locales, goal_cases)
  case (3 s d d0)
  then show ?case
    by (intro exI [of _ "reserved s"]) (simp add: FaultRecord_check_def FaultRecord_match_def)
qed (auto simp: FaultRecord_check_def FaultRecord_match_def wf_def)

lemma codec_FaultRecord [codec_rules]:
  "wire_codec proc_FaultRecord ok_FaultRecord enc_FaultRecord (\<lambda>x _. norm_FaultRecord x) no_pre"
  unfolding proc_FaultRecord_def
  by (rule codec_weaken, (rule codec_procs_seq codec_rules)+)
    (auto simp: enc_FaultRecord_def ok_FaultRecord_def norm_FaultRecord_def norm_PTPText_def
      FaultRecord_match_def ok_PTPText_def)

section \<open>Vectors and arrays\<close>

lemma codec_vec_build:
  assumes p: "wire_codec p ok enc (\<lambda>x _. norm x) no_pre"
  shows build_vec_fits: "m_build s \<Longrightarrow> reserved s = 0 \<Longrightarrow> wf s \<Longrightarrow> list_all ok vec \<Longrightarrow>
      int (length (concat (map enc vec))) \<le> m_left s \<Longrightarrow>
      vec_build p vec s = Some (False, map norm vec, emit (concat (map enc vec)) s)"
    and build_vec_short: "m_build s \<Longrightarrow> reserved s = 0 \<Longrightarrow> wf s \<Longrightarrow> list_all ok vec \<Longrightarrow>
      m_left s < int (length (concat (map enc vec))) \<Longrightarrow>
      \<exists>vec' s'. vec_build p vec s = Some (True, vec', s') \<and> build_frame s s'"
proof (induction vec arbitrary: s)
  case Nil
  {
    case 1
    then show ?case by simp
  next
    case 2
    then show ?case by (simp add: wf_def)
  }
next
  case (Cons x vec)
  {
    case 1
    then show ?case
      using Cons.IH(1) [of "emit (enc x) s"] wire_codec.build_fits [OF p, of s x]
      by (simp add: wf_emit emit_append)
  next
    case 2
    show ?case
    proof (cases "int (length (enc x)) \<le> m_left s")
      case True
      then have "build_frame s (emit (enc x) s)" using 2 by (simp add: build_frame_emit)
      then show ?thesis
        using 2 True Cons.IH(2) [of "emit (enc x) s"] wire_codec.build_fits [OF p, of s x]
        by (auto simp: wf_emit intro: build_frame_trans)
    next
      case False
      then show ?thesis
        using 2 wire_codec.build_short [OF p, of s x] by auto
    qed
  }
qed

lemma parse_vec_count:
  assumes p: "wire_codec p ok enc (\<lambda>x _. norm x) no_pre"
  shows "\<not> m_build s \<Longrightarrow> wf s \<Longrightarrow> list_all ok vec \<Longrightarrow> starts_with s (concat (map enc vec)) \<Longrightarrow>
    \<exists>r. vec_count (length vec) p new acc s =
      Some (False, acc @ map norm vec, (move (length (concat (map enc vec))) s)\<lparr>reserved := r\<rparr>)"
proof (induction vec arbitrary: acc s)
  case Nil
  show ?case by (intro exI [of _ "reserved s"]) simp
next
  case (Cons x vec)
  have sw: "starts_with s (enc x)"
      "\<And>r. starts_with ((move (length (enc x)) s)\<lparr>reserved := r\<rparr>) (concat (map enc vec))"
    using Cons.prems(4) by (auto dest: starts_with_append)
  obtain r where r: "p new s = Some (False, norm x, (move (length (enc x)) s)\<lparr>reserved := r\<rparr>)"
    using Cons.prems sw(1) wire_codec.parse_back [OF p, of s x new] by auto
  have "wf ((move (length (enc x)) s)\<lparr>reserved := r\<rparr>)"
    using Cons.prems(2) sw(1) by (rule wf_after)
  then show ?case
    using Cons.IH [of "(move (length (enc x)) s)\<lparr>reserved := r\<rparr>" "acc @ [norm x]"]
      Cons.prems sw(2) [of r] r by simp
qed

lemma parse_vec_rest:
  assumes p: "wire_codec p ok enc (\<lambda>x _. norm x) no_pre"
    and len: "\<And>x. ok x \<Longrightarrow> length (enc x) = sz"
  shows "\<not> m_build s \<Longrightarrow> wf s \<Longrightarrow> list_all ok vec \<Longrightarrow> starts_with s (concat (map enc vec)) \<Longrightarrow>
    m_left s - int (length (concat (map enc vec))) < int sz \<Longrightarrow> length vec < fuel \<Longrightarrow>
    \<exists>r. vec_rest fuel sz p new acc s =
      Some (False, acc @ map norm vec, (move (length (concat (map enc vec))) s)\<lparr>reserved := r\<rparr>)"
proof (induction vec arbitrary: acc s fuel)
  case Nil
  then show ?case by (cases fuel) (auto intro!: exI [of _ "reserved s"])
next
  case (Cons x vec)
  obtain fuel' where f: "fuel = Suc fuel'" using Cons.prems(6) by (cases fuel) auto
  have sw: "starts_with s (enc x)"
      "\<And>r. starts_with ((move (length (enc x)) s)\<lparr>reserved := r\<rparr>) (concat (map enc vec))"
    using Cons.prems(4) by (auto dest: starts_with_append)
  obtain r where r: "p new s = Some (False, norm x, (move (length (enc x)) s)\<lparr>reserved := r\<rparr>)"
    using Cons.prems sw(1) wire_codec.parse_back [OF p, of s x new] by auto
  have "wf ((move (length (enc x)) s)\<lparr>reserved := r\<rparr>)"
    using Cons.prems(2) sw(1) by (rule wf_after)
  moreover have "int sz \<le> m_left s" using sw(1) Cons.prems(3) len by (simp add: starts_with_def)
  ultimately show ?case
    using Cons.IH [of "(move (length (enc x)) s)\<lparr>reserved := r\<rparr>" fuel' "acc @ [norm x]"]
      Cons.prems sw(2) [of r] r f by simp
qed

lemma codec_vector_f [codec_rules]:
  assumes p: "wire_codec p ok enc (\<lambda>x _. norm x) no_pre"
  shows "wire_codec (vector_f get upd cnt p new) (\<lambda>d. list_all ok (get d))
    (\<lambda>d. concat (map enc (get d))) (\<lambda>d d0. upd (\<lambda>_. map norm (get d)) d0)
    (\<lambda>d d0 _. get d0 = [] \<and> unat (cnt d0) = length (get d))"
proof (unfold_locales, goal_cases)
  case (1 s d)
  then show ?case by (simp add: vector_f_def field_def build_vec_fits [OF p])
next
  case (2 s d)
  then show ?case using build_vec_short [OF p, of s "get d"] by (auto simp: vector_f_def field_def)
next
  case (3 s d d0)
  then show ?case
    using parse_vec_count [OF p, of s "get d" new "[]"] by (auto simp: vector_f_def field_def)
qed

lemma length_concat_const:
  "list_all (\<lambda>x. length (f x) = n) xs \<Longrightarrow> length (concat (map f xs)) = n * length xs"
  by (induction xs) auto

lemma codec_vector_o [codec_rules]:
  assumes p: "wire_codec p ok enc (\<lambda>x _. norm x) no_pre"
    and len: "\<And>x. ok x \<Longrightarrow> length (enc x) = sz" and sz: "0 < sz"
  shows "wire_codec (vector_o get upd sz p new) (\<lambda>d. list_all ok (get d))
    (\<lambda>d. concat (map enc (get d))) (\<lambda>d d0. upd (\<lambda>_. map norm (get d)) d0)
    (\<lambda>d d0 rest. get d0 = [] \<and> rest < int sz)"
proof (unfold_locales, goal_cases)
  case (1 s d)
  then show ?case by (simp add: vector_o_def field_def build_vec_fits [OF p])
next
  case (2 s d)
  then show ?case using build_vec_short [OF p, of s "get d"] by (auto simp: vector_o_def field_def)
next
  case (3 s d d0)
  have "length (concat (map enc (get d))) = sz * length (get d)"
    using 3(3) len by (intro length_concat_const) (auto simp: list_all_iff)
  with sz have "length (get d) \<le> length (concat (map enc (get d)))" by simp
  moreover have "int (length (concat (map enc (get d)))) \<le> m_left s"
    using 3(4) by (rule starts_with_room)
  ultimately have "length (get d) < Suc (nat (m_left s))" by linarith
  then show ?case
    using 3 parse_vec_rest [OF p len, of s "get d" "Suc (nat (m_left s))" new "[]"]
    by (auto simp: vector_o_def field_def simp del: vec_rest.simps)
qed

text \<open>An array loop is the sequence of the calls on its elements.\<close>

lemma proc_array_eq:
  "proc_array is p = procs (map (\<lambda>i. field (\<lambda>a. a ! i) (\<lambda>f a. a[i := f (a ! i)]) p) is)"
proof (intro ext)
  fix a s
  show "proc_array is p a s =
      procs (map (\<lambda>i. field (\<lambda>a. a ! i) (\<lambda>f a. a[i := f (a ! i)]) p) is) a s"
    by (induction "is" arbitrary: a s) (auto simp: field_def split: option.splits bool.splits)
qed

lemma length_fold_update: "length (fold (\<lambda>i a. a[i := x ! i]) is a) = length a"
  by (induction "is" arbitrary: a) auto

lemma fold_update_upt:
  "n \<le> length a \<Longrightarrow> n \<le> length x \<Longrightarrow>
   fold (\<lambda>i a. a[i := x ! i]) [0..<n] a = take n x @ drop n a"
proof (induction n)
  case (Suc n)
  then have "fold (\<lambda>i a. a[i := x ! i]) [0..<Suc n] a = (take n x @ drop n a)[n := x ! n]"
    by simp
  also have "\<dots> = take n x @ (drop n a)[0 := x ! n]"
    using Suc.prems by (simp add: list_update_append)
  also have "\<dots> = take (Suc n) x @ drop (Suc n) a"
    using Suc.prems by (simp add: take_Suc_conv_app_nth flip: Cons_nth_drop_Suc)
  finally show ?case .
qed simp

lemma codec_array_seq:
  assumes p: "wire_codec p ok enc (\<lambda>x _. x) no_pre"
  shows "wire_codec (proc_array is p) (\<lambda>a. \<forall>i \<in> set is. ok (a ! i))
    (\<lambda>a. concat (map (\<lambda>i. enc (a ! i)) is)) (\<lambda>x a. fold (\<lambda>i a. a[i := x ! i]) is a) no_pre"
proof (induction "is")
  case Nil
  show ?case
    unfolding proc_array_eq list.map by (rule codec_weaken, rule codec_procs_Nil) auto
next
  case (Cons i "is")
  show ?case
    unfolding proc_array_eq list.map
    by (rule codec_weaken, rule codec_procs_Cons, rule codec_field [OF p],
        rule Cons [unfolded proc_array_eq]) auto
qed

lemma codec_array [codec_rules]:
  assumes p: "wire_codec p ok enc (\<lambda>x _. x) no_pre"
  shows "wire_codec (proc_array [0..<n] p) (\<lambda>a. length a = n \<and> list_all ok a)
    (\<lambda>a. concat (map enc a)) (\<lambda>x _. x) (\<lambda>_ a _. length a = n)"
proof (rule codec_weaken [OF codec_array_seq [OF p]], goal_cases)
  case (2 d)
  then show ?case by (metis (no_types, lifting) map_map map_nth comp_apply map_eq_conv)
qed (auto simp: fold_update_upt list_all_length)

end
