(* ===== verification/Windows.thy ===== *)
theory Windows
  imports CodecRules
begin

text \<open>
  The window discipline of parsing (contracts \<open>windowed\<close> and \<open>progressing\<close>) for every
  \<open>proc\<close> of the engine and every way of composing them, collected in \<open>window_rules\<close>. The one
  exception is \<^verbatim>\<open>proc(Float64_t &)\<close>, which moves the cursor twice.
\<close>

section \<open>The window discipline\<close>

lemma windowedI:
  assumes "\<And>s d. \<not> m_build s \<Longrightarrow> wf s \<Longrightarrow>
    (case p d s of None \<Rightarrow> False | Some (e, d', s') \<Rightarrow> parse_frame s s')"
  shows "windowed p"
proof (unfold_locales, goal_cases)
  case (1 s d)
  then show ?case using assms [of s d] by (auto split: option.splits)
qed

lemma windowedE:
  assumes "windowed p" "\<not> m_build s" "wf s"
  obtains e d' s' where "p d s = Some (e, d', s')" "parse_frame s s'" "\<not> m_build s'" "wf s'"
proof -
  obtain e d' s' where *: "p d s = Some (e, d', s')" "parse_frame s s'"
    using windowed.stays [OF assms] by blast
  moreover have "\<not> m_build s'" "wf s'"
    using * assms by (auto simp: parse_frame_def intro: parse_frame_wf)
  ultimately show thesis using that by blast
qed

lemma window_procs_Nil [window_rules]: "windowed (procs [])"
  by (rule windowedI) (simp add: wf_def)

lemma window_procs_Cons [window_rules]:
  assumes "windowed p" and "windowed (procs ps)"
  shows "windowed (procs (p # ps))"
proof (rule windowedI, goal_cases)
  case (1 s d)
  then obtain e d1 s1 where p: "p d s = Some (e, d1, s1)" "parse_frame s s1" "\<not> m_build s1" "wf s1"
    using windowedE [OF assms(1)] by blast
  then obtain e2 d2 s2 where "procs ps d1 s1 = Some (e2, d2, s2)" "parse_frame s1 s2"
    using windowedE [OF assms(2)] by blast
  with p show ?case by (cases e) (auto intro: parse_frame_trans)
qed

lemma window_field_dep [window_rules]:
  assumes "\<And>n. windowed (p n)"
  shows "windowed (\<lambda>d. field get upd (p (len d)) d)"
proof (rule windowedI, goal_cases)
  case (1 s d)
  then obtain e v s' where "p (len d) (get d) s = Some (e, v, s')" "parse_frame s s'"
    using windowedE [OF assms] by blast
  then show ?case by (simp add: field_def)
qed

lemma window_field [window_rules]: "windowed p \<Longrightarrow> windowed (field get upd p)"
  using window_field_dep [of "\<lambda>_. p" get upd] by simp

lemma window_assign [window_rules]: "windowed (assign f)"
  by (rule windowedI) (simp add: assign_def wf_def)

lemma window_scalar: "windowed (proc_scalar n wr rd)"
  by (rule windowedI) (auto simp: proc_scalar_def wf_def get_bytes_def peek_def parse_frame_def)

lemma window_scalars [window_rules]:
  "windowed proc_u8" "windowed proc_u16" "windowed proc_u32" "windowed proc_u64"
  "windowed proc_i8" "windowed proc_i16" "windowed proc_i32" "windowed proc_i64"
  "windowed procLe"
  unfolding proc_u8_def proc_u16_def proc_u32_def proc_u64_def procLe_def
    proc_i8_def proc_i16_def proc_i32_def proc_i64_def
  by (rule window_scalar)+

lemma window_enums [window_rules]:
  "windowed proc_networkProtocol" "windowed proc_clockAccuracy" "windowed proc_faultRecord"
  "windowed proc_timeSource" "windowed proc_portState" "windowed proc_msgType"
  "windowed proc_linuxptpTimeStamp"
  unfolding enum_procs by (rule window_rules)+

lemma window_reserved [window_rules]: "windowed proc_reserved"
proof (rule windowedI, goal_cases)
  case (1 s d)
  then obtain e v s' where "proc_u8 (reserved s) s = Some (e, v, s')" "parse_frame s s'"
    using windowedE [OF window_scalars(1)] by blast
  then show ?case by (simp add: proc_reserved_def)
qed

lemma window_flags [window_rules]: "windowed (procFlags m)"
proof (rule windowedI, goal_cases)
  case (1 s d)
  then obtain e v s' where "proc_u8 d s = Some (e, v, s')" "parse_frame s s'"
    using windowedE [OF window_scalars(1)] by blast
  with 1 show ?case by (simp add: procFlags_def)
qed

lemma window_high_low: "windowed proc_high_low"
  unfolding proc_high_low_def by (rule window_rules)+

lemma window_proc48 [window_rules]: "windowed proc48_u64"
proof (rule windowedI, goal_cases)
  case (1 s x)
  then obtain e v s' where "proc_high_low (0, 0) s = Some (e, v, s')" "parse_frame s s'"
    using windowedE [OF window_high_low] by blast
  with 1 show ?case
    by (cases e; cases v) (auto simp: proc48_u64_def)
qed

lemma window_string [window_rules]: "windowed (proc_string n)"
  by (rule windowedI) (auto simp: Let_def uint_nat proc_string_def wf_def get_bytes_def peek_def parse_frame_def simp del: of_nat_unat)

lemma window_binary [window_rules]: "windowed (proc_binary n)"
  by (rule windowedI) (auto simp: Let_def uint_nat proc_binary_def wf_def get_bytes_def peek_def parse_frame_def simp del: of_nat_unat)

lemma window_octets [window_rules]: "windowed (proc_octets n)"
  by (rule windowedI) (auto simp: proc_octets_def wf_def get_bytes_def peek_def parse_frame_def)

lemma window_FaultRecord_check [window_rules]: "windowed FaultRecord_check"
  by (rule windowedI) (simp add: FaultRecord_check_def wf_def parse_frame_def)

lemma window_structs [window_rules]:
  "windowed proc_TimeInterval" "windowed proc_Timestamp" "windowed proc_ClockIdentity"
  "windowed proc_PortIdentity" "windowed proc_PortAddress" "windowed proc_ClockQuality"
  "windowed proc_PTPText" "windowed proc_AcceptableMaster" 
  unfolding proc_TimeInterval_def proc_Timestamp_def proc_ClockIdentity_def
    proc_PortIdentity_def proc_PortAddress_def proc_ClockQuality_def proc_PTPText_def
     proc_AcceptableMaster_def
  by (rule window_rules)+

lemma window_FaultRecord [window_rules]: "windowed proc_FaultRecord"
  unfolding proc_FaultRecord_def by (rule window_rules)+

lemma window_array [window_rules]: "windowed p \<Longrightarrow> windowed (proc_array is p)"
  unfolding proc_array_eq by (induction "is") (auto intro: window_rules)

lemma window_vec_count: "windowed p \<Longrightarrow> windowed (vec_count n p new)"
proof (induction n)
  case 0
  show ?case by (rule windowedI) (simp add: wf_def)
next
  case (Suc n)
  show ?case
  proof (rule windowedI, goal_cases)
    case (1 s vec)
    then obtain e x s1 where p: "p new s = Some (e, x, s1)" "parse_frame s s1" "\<not> m_build s1" "wf s1"
      using windowedE [OF Suc.prems] by blast
    then obtain e2 d2 s2 where "vec_count n p new (vec @ [x]) s1 = Some (e2, d2, s2)"
        "parse_frame s1 s2"
      using windowedE [OF Suc.IH [OF Suc.prems]] by blast
    with p show ?case by (cases e) (auto intro: parse_frame_trans)
  qed
qed

lemma window_vector_f [window_rules]: "windowed p \<Longrightarrow> windowed (vector_f get upd cnt p new)"
proof (rule windowedI, goal_cases)
  case (1 s d)
  then have "windowed (field get upd (vec_count (unat (cnt d)) p new))"
    by (intro window_field window_vec_count)
  with 1 show ?case
    by (auto simp: vector_f_def elim!: windowedE [of _ s d])
qed

text \<open>
  The parsing loop of \<^verbatim>\<open>vector_o\<close> ends: every record takes octets off the window, so
  as much fuel as the window has octets, and one more, is enough.
\<close>

lemma vec_rest_safe:
  assumes p: "progressing p"
  shows "\<not> m_build s \<Longrightarrow> wf s \<Longrightarrow> m_left s < int fuel \<Longrightarrow>
    (case vec_rest fuel sz p new vec s of None \<Rightarrow> False | Some (e, vec', s') \<Rightarrow> parse_frame s s')"
proof (induction fuel arbitrary: s vec)
  case 0
  then show ?case by (simp add: wf_def)
next
  case (Suc fuel)
  show ?case
  proof (cases "m_left s \<ge> int sz")
    case False
    with Suc.prems show ?thesis by (simp add: wf_def)
  next
    case True
    have w: "windowed p" using p by (simp add: progressing_def)
    obtain e x s1 where s1: "p new s = Some (e, x, s1)" "parse_frame s s1" "\<not> m_build s1" "wf s1"
      using windowedE [OF w Suc.prems(1,2)] by blast
    show ?thesis
    proof (cases e)
      case False
      then have "m_left s1 < m_left s"
        using s1 Suc.prems progressing.consumes [OF p, of s new x s1] by simp
      then have "case vec_rest fuel sz p new (vec @ [x]) s1 of None \<Rightarrow> False
          | Some (e, vec', s') \<Rightarrow> parse_frame s1 s'"
        using s1 Suc.prems by (intro Suc.IH) simp_all
      with True s1 False show ?thesis by (auto split: option.splits intro: parse_frame_trans)
    qed (use True s1 in simp)
  qed
qed

lemma window_vector_o [window_rules]:
  assumes "progressing p"
  shows "windowed (vector_o get upd sz p new)"
proof (rule windowedI, goal_cases)
  case (1 s d)
  then have "m_left s < int (Suc (nat (m_left s)))" by linarith
  then show ?case
    using vec_rest_safe [OF assms 1, of "Suc (nat (m_left s))" sz new "get d"] 1
    by (auto simp: vector_o_def field_def simp del: vec_rest.simps split: option.splits)
qed


lemma progress_field [window_rules]:
  assumes "progressing p"
  shows "progressing (field get upd p)"
proof (intro progressing.intro progressing_axioms.intro, goal_cases)
  case 1
  then show ?case using assms by (intro window_field) (simp add: progressing_def)
next
  case (2 s d d' s')
  then show ?case
    using progressing.consumes [OF assms] by (auto simp: field_def split: option.splits)
qed

lemma progress_procs_Cons [window_rules]:
  assumes p: "progressing p" and ps: "windowed (procs ps)"
  shows "progressing (procs (p # ps))"
proof (intro progressing.intro progressing_axioms.intro, goal_cases)
  case 1
  then show ?case using assms by (intro window_procs_Cons) (simp_all add: progressing_def)
next
  case (2 s d d' s')
  have w: "windowed p" using p by (simp add: progressing_def)
  obtain e d1 s1 where s1: "p d s = Some (e, d1, s1)" "\<not> m_build s1" "wf s1"
    using windowedE [OF w 2(1,2)] by blast
  with 2 have "\<not> e" and r: "procs ps d1 s1 = Some (False, d', s')"
    by (auto split: bool.splits)
  then have "m_left s1 < m_left s"
    using s1 2 progressing.consumes [OF p, of s d d1 s1] by simp
  moreover have "m_left s' \<le> m_left s1"
    using windowed.stays [OF ps s1(2,3), of d1] r by (auto simp: parse_frame_def)
  ultimately show ?case by simp
qed

lemma progress_scalar:
  "0 < n \<Longrightarrow> progressing (proc_scalar n wr rd)"
  by (intro progressing.intro progressing_axioms.intro window_scalar)
    (auto simp: proc_scalar_def split: if_splits bind_splits)

lemma progress_scalars [window_rules]:
  "progressing proc_u8" "progressing proc_u16" "progressing proc_u32" "progressing proc_u64"
  "progressing proc_i32"
  unfolding proc_u8_def proc_u16_def proc_u32_def proc_u64_def proc_i32_def
  by (rule progress_scalar, simp)+

lemma progress_octets [window_rules]: "0 < n \<Longrightarrow> progressing (proc_octets n)"
  by (intro progressing.intro progressing_axioms.intro window_octets)
    (auto simp: proc_octets_def split: if_splits bind_splits)

lemma progress_ClockIdentity [window_rules]: "progressing proc_ClockIdentity"
  unfolding proc_ClockIdentity_def by (rule window_rules | simp)+

lemma progress_PortIdentity [window_rules]: "progressing proc_PortIdentity"
  unfolding proc_PortIdentity_def by (rule window_rules)+

end
