(* ===== verification/Ids.thy ===== *)
theory Ids
  imports CodecLaws
begin

text \<open>
  The table of PTP management IDs, \<^verbatim>\<open>src/ids.h\<close>, and the functions of class
  \<^verbatim>\<open>Message\<close> that only consult it. The header is a list of macro calls
  \<^verbatim>\<open>A(name, value, scope, allowed, size, func)\<close> that every user expands in its own way; here it
  is a list of rows. An enumerator of \<^verbatim>\<open>mng_vals_e\<close> is the position of its row. The
  enumeration has no fixed underlying type, so values past the last enumerator can be passed in and
  the source guards against them; it is a natural number here.
\<close>

section \<open>The rows\<close>

datatype scope_e = s_port | s_clock

datatype ids_func = NA | UF | UFS | UFB | UFBS

record ids_row =
  ids_name :: string
  ids_value :: u16
  ids_scope :: scope_e
  ids_allow :: u8
  ids_size :: int
  ids_fun :: ids_func

definition A_GET :: u8 where "A_GET = push_bit (unat GET) 1"

definition A_SET :: u8 where "A_SET = push_bit (unat SET) 1"

definition A_COMMAND :: u8 where "A_COMMAND = push_bit (unat COMMAND) 1"

definition A_USE_LINUXPTP :: u8 where "A_USE_LINUXPTP = push_bit 5 1"

definition use_GSC :: u8 where "use_GSC = A_GET OR A_SET OR A_COMMAND"

definition use_GS :: u8 where "use_GS = A_GET OR A_SET"

definition use_GL :: u8 where "use_GL = A_GET OR A_USE_LINUXPTP"

definition use_GSL :: u8 where "use_GSL = A_GET OR A_SET OR A_USE_LINUXPTP"

definition row :: "string \<Rightarrow> u16 \<Rightarrow> scope_e \<Rightarrow> u8 \<Rightarrow> int \<Rightarrow> ids_func \<Rightarrow> ids_row" where
  "row n val sc a sz f = \<lparr>ids_name = n, ids_value = val, ids_scope = sc, ids_allow = a,
     ids_size = sz, ids_fun = f\<rparr>"

definition ids :: "ids_row list" where
  "ids = [
    row ''NULL_PTP_MANAGEMENT'' 0x0000 s_port use_GSC 0 NA,
    row ''CLOCK_DESCRIPTION'' 0x0001 s_port A_GET (-2) UFS,
    row ''USER_DESCRIPTION'' 0x0002 s_clock use_GS (-2) UFBS,
    row ''SAVE_IN_NON_VOLATILE_STORAGE'' 0x0003 s_clock A_COMMAND 0 NA,
    row ''RESET_NON_VOLATILE_STORAGE'' 0x0004 s_clock A_COMMAND 0 NA,
    row ''INITIALIZE'' 0x0005 s_clock A_COMMAND 2 UFB,
    row ''FAULT_LOG'' 0x0006 s_clock A_GET (-2) UFS,
    row ''FAULT_LOG_RESET'' 0x0007 s_clock A_COMMAND 0 NA,
    row ''DEFAULT_DATA_SET'' 0x2000 s_clock A_GET 20 UF,
    row ''CURRENT_DATA_SET'' 0x2001 s_clock A_GET 18 UF,
    row ''PARENT_DATA_SET'' 0x2002 s_clock A_GET 32 UF,
    row ''TIME_PROPERTIES_DATA_SET'' 0x2003 s_clock A_GET 4 UF,
    row ''PORT_DATA_SET'' 0x2004 s_port A_GET 26 UF,
    row ''PRIORITY1'' 0x2005 s_clock use_GS 2 UFB,
    row ''PRIORITY2'' 0x2006 s_clock use_GS 2 UFB,
    row ''DOMAIN'' 0x2007 s_clock use_GS 2 UFB,
    row ''SLAVE_ONLY'' 0x2008 s_clock use_GS 2 UFB,
    row ''LOG_ANNOUNCE_INTERVAL'' 0x2009 s_port use_GS 2 UFB,
    row ''ANNOUNCE_RECEIPT_TIMEOUT'' 0x200a s_port use_GS 2 UFB,
    row ''LOG_SYNC_INTERVAL'' 0x200b s_port use_GS 2 UFB,
    row ''VERSION_NUMBER'' 0x200c s_port use_GS 2 UFB,
    row ''ENABLE_PORT'' 0x200d s_port A_COMMAND 0 NA,
    row ''DISABLE_PORT'' 0x200e s_port A_COMMAND 0 NA,
    row ''TIME'' 0x200f s_clock use_GS 10 UFB,
    row ''CLOCK_ACCURACY'' 0x2010 s_clock use_GS 2 UFB,
    row ''UTC_PROPERTIES'' 0x2011 s_clock use_GS 4 UFB,
    row ''TRACEABILITY_PROPERTIES'' 0x2012 s_clock use_GS 2 UFB,
    row ''TIMESCALE_PROPERTIES'' 0x2013 s_clock use_GS 2 UFB,
    row ''UNICAST_NEGOTIATION_ENABLE'' 0x2014 s_port use_GS 2 UFB,
    row ''PATH_TRACE_LIST'' 0x2015 s_clock A_GET (-2) UFS,
    row ''PATH_TRACE_ENABLE'' 0x2016 s_clock use_GS 2 UFB,
    row ''GRANDMASTER_CLUSTER_TABLE'' 0x2017 s_clock use_GS (-2) UFBS,
    row ''UNICAST_MASTER_TABLE'' 0x2018 s_port use_GS (-2) UFBS,
    row ''UNICAST_MASTER_MAX_TABLE_SIZE'' 0x2019 s_port A_GET 2 UF,
    row ''ACCEPTABLE_MASTER_TABLE'' 0x201a s_clock use_GS (-2) UFBS,
    row ''ACCEPTABLE_MASTER_TABLE_ENABLED'' 0x201b s_port use_GS 2 UFB,
    row ''ACCEPTABLE_MASTER_MAX_TABLE_SIZE'' 0x201c s_clock A_GET 2 UF,
    row ''ALTERNATE_MASTER'' 0x201d s_port use_GS 4 UFB,
    row ''ALTERNATE_TIME_OFFSET_ENABLE'' 0x201e s_clock use_GS 2 UFB,
    row ''ALTERNATE_TIME_OFFSET_NAME'' 0x201f s_clock use_GS (-2) UFBS,
    row ''ALTERNATE_TIME_OFFSET_MAX_KEY'' 0x2020 s_clock A_GET 2 UF,
    row ''ALTERNATE_TIME_OFFSET_PROPERTIES'' 0x2021 s_clock use_GS 16 UFB,
    row ''TRANSPARENT_CLOCK_PORT_DATA_SET'' 0x4001 s_port A_GET 20 UF,
    row ''LOG_MIN_PDELAY_REQ_INTERVAL'' 0x6001 s_port use_GS 2 UFB,
    row ''TRANSPARENT_CLOCK_DEFAULT_DATA_SET'' 0x4000 s_clock A_GET 12 UF,
    row ''PRIMARY_DOMAIN'' 0x4002 s_clock use_GS 2 UFB,
    row ''DELAY_MECHANISM'' 0x6000 s_port use_GS 2 UFB,
    row ''EXTERNAL_PORT_CONFIGURATION_ENABLED'' 0x3000 s_clock use_GS 2 UFB,
    row ''MASTER_ONLY'' 0x3001 s_port use_GS 2 UFB,
    row ''HOLDOVER_UPGRADE_ENABLE'' 0x3002 s_clock use_GS 2 UFB,
    row ''EXT_PORT_CONFIG_PORT_DATA_SET'' 0x3003 s_port use_GS 2 UFB,
    row ''TIME_STATUS_NP'' 0xc000 s_clock use_GL 50 UF,
    row ''GRANDMASTER_SETTINGS_NP'' 0xc001 s_clock use_GSL 8 UFB,
    row ''PORT_DATA_SET_NP'' 0xc002 s_port use_GSL 8 UFB,
    row ''SUBSCRIBE_EVENTS_NP'' 0xc003 s_clock use_GSL 66 UFB,
    row ''PORT_PROPERTIES_NP'' 0xc004 s_port use_GL (-2) UFS,
    row ''PORT_STATS_NP'' 0xc005 s_port use_GL 266 UF,
    row ''SYNCHRONIZATION_UNCERTAIN_NP'' 0xc006 s_clock use_GSL 2 UFB]"

section \<open>The enumeration\<close>

type_synonym mng_vals_e = nat

abbreviation (input) NULL_PTP_MANAGEMENT :: mng_vals_e where "NULL_PTP_MANAGEMENT \<equiv> 0"
abbreviation (input) CLOCK_DESCRIPTION :: mng_vals_e where "CLOCK_DESCRIPTION \<equiv> 1"
abbreviation (input) USER_DESCRIPTION :: mng_vals_e where "USER_DESCRIPTION \<equiv> 2"
abbreviation (input) SAVE_IN_NON_VOLATILE_STORAGE :: mng_vals_e where "SAVE_IN_NON_VOLATILE_STORAGE \<equiv> 3"
abbreviation (input) RESET_NON_VOLATILE_STORAGE :: mng_vals_e where "RESET_NON_VOLATILE_STORAGE \<equiv> 4"
abbreviation (input) INITIALIZE :: mng_vals_e where "INITIALIZE \<equiv> 5"
abbreviation (input) FAULT_LOG :: mng_vals_e where "FAULT_LOG \<equiv> 6"
abbreviation (input) FAULT_LOG_RESET :: mng_vals_e where "FAULT_LOG_RESET \<equiv> 7"
abbreviation (input) DEFAULT_DATA_SET :: mng_vals_e where "DEFAULT_DATA_SET \<equiv> 8"
abbreviation (input) CURRENT_DATA_SET :: mng_vals_e where "CURRENT_DATA_SET \<equiv> 9"
abbreviation (input) PARENT_DATA_SET :: mng_vals_e where "PARENT_DATA_SET \<equiv> 10"
abbreviation (input) TIME_PROPERTIES_DATA_SET :: mng_vals_e where "TIME_PROPERTIES_DATA_SET \<equiv> 11"
abbreviation (input) PORT_DATA_SET :: mng_vals_e where "PORT_DATA_SET \<equiv> 12"
abbreviation (input) PRIORITY1 :: mng_vals_e where "PRIORITY1 \<equiv> 13"
abbreviation (input) PRIORITY2 :: mng_vals_e where "PRIORITY2 \<equiv> 14"
abbreviation (input) DOMAIN :: mng_vals_e where "DOMAIN \<equiv> 15"
abbreviation (input) SLAVE_ONLY :: mng_vals_e where "SLAVE_ONLY \<equiv> 16"
abbreviation (input) LOG_ANNOUNCE_INTERVAL :: mng_vals_e where "LOG_ANNOUNCE_INTERVAL \<equiv> 17"
abbreviation (input) ANNOUNCE_RECEIPT_TIMEOUT :: mng_vals_e where "ANNOUNCE_RECEIPT_TIMEOUT \<equiv> 18"
abbreviation (input) LOG_SYNC_INTERVAL :: mng_vals_e where "LOG_SYNC_INTERVAL \<equiv> 19"
abbreviation (input) VERSION_NUMBER :: mng_vals_e where "VERSION_NUMBER \<equiv> 20"
abbreviation (input) ENABLE_PORT :: mng_vals_e where "ENABLE_PORT \<equiv> 21"
abbreviation (input) DISABLE_PORT :: mng_vals_e where "DISABLE_PORT \<equiv> 22"
abbreviation (input) TIME :: mng_vals_e where "TIME \<equiv> 23"
abbreviation (input) CLOCK_ACCURACY :: mng_vals_e where "CLOCK_ACCURACY \<equiv> 24"
abbreviation (input) UTC_PROPERTIES :: mng_vals_e where "UTC_PROPERTIES \<equiv> 25"
abbreviation (input) TRACEABILITY_PROPERTIES :: mng_vals_e where "TRACEABILITY_PROPERTIES \<equiv> 26"
abbreviation (input) TIMESCALE_PROPERTIES :: mng_vals_e where "TIMESCALE_PROPERTIES \<equiv> 27"
abbreviation (input) UNICAST_NEGOTIATION_ENABLE :: mng_vals_e where "UNICAST_NEGOTIATION_ENABLE \<equiv> 28"
abbreviation (input) PATH_TRACE_LIST :: mng_vals_e where "PATH_TRACE_LIST \<equiv> 29"
abbreviation (input) PATH_TRACE_ENABLE :: mng_vals_e where "PATH_TRACE_ENABLE \<equiv> 30"
abbreviation (input) GRANDMASTER_CLUSTER_TABLE :: mng_vals_e where "GRANDMASTER_CLUSTER_TABLE \<equiv> 31"
abbreviation (input) UNICAST_MASTER_TABLE :: mng_vals_e where "UNICAST_MASTER_TABLE \<equiv> 32"
abbreviation (input) UNICAST_MASTER_MAX_TABLE_SIZE :: mng_vals_e where "UNICAST_MASTER_MAX_TABLE_SIZE \<equiv> 33"
abbreviation (input) ACCEPTABLE_MASTER_TABLE :: mng_vals_e where "ACCEPTABLE_MASTER_TABLE \<equiv> 34"
abbreviation (input) ACCEPTABLE_MASTER_TABLE_ENABLED :: mng_vals_e where "ACCEPTABLE_MASTER_TABLE_ENABLED \<equiv> 35"
abbreviation (input) ACCEPTABLE_MASTER_MAX_TABLE_SIZE :: mng_vals_e where "ACCEPTABLE_MASTER_MAX_TABLE_SIZE \<equiv> 36"
abbreviation (input) ALTERNATE_MASTER :: mng_vals_e where "ALTERNATE_MASTER \<equiv> 37"
abbreviation (input) ALTERNATE_TIME_OFFSET_ENABLE :: mng_vals_e where "ALTERNATE_TIME_OFFSET_ENABLE \<equiv> 38"
abbreviation (input) ALTERNATE_TIME_OFFSET_NAME :: mng_vals_e where "ALTERNATE_TIME_OFFSET_NAME \<equiv> 39"
abbreviation (input) ALTERNATE_TIME_OFFSET_MAX_KEY :: mng_vals_e where "ALTERNATE_TIME_OFFSET_MAX_KEY \<equiv> 40"
abbreviation (input) ALTERNATE_TIME_OFFSET_PROPERTIES :: mng_vals_e where "ALTERNATE_TIME_OFFSET_PROPERTIES \<equiv> 41"
abbreviation (input) TRANSPARENT_CLOCK_PORT_DATA_SET :: mng_vals_e where "TRANSPARENT_CLOCK_PORT_DATA_SET \<equiv> 42"
abbreviation (input) LOG_MIN_PDELAY_REQ_INTERVAL :: mng_vals_e where "LOG_MIN_PDELAY_REQ_INTERVAL \<equiv> 43"
abbreviation (input) TRANSPARENT_CLOCK_DEFAULT_DATA_SET :: mng_vals_e where "TRANSPARENT_CLOCK_DEFAULT_DATA_SET \<equiv> 44"
abbreviation (input) PRIMARY_DOMAIN :: mng_vals_e where "PRIMARY_DOMAIN \<equiv> 45"
abbreviation (input) DELAY_MECHANISM :: mng_vals_e where "DELAY_MECHANISM \<equiv> 46"
abbreviation (input) EXTERNAL_PORT_CONFIGURATION_ENABLED :: mng_vals_e where "EXTERNAL_PORT_CONFIGURATION_ENABLED \<equiv> 47"
abbreviation (input) MASTER_ONLY :: mng_vals_e where "MASTER_ONLY \<equiv> 48"
abbreviation (input) HOLDOVER_UPGRADE_ENABLE :: mng_vals_e where "HOLDOVER_UPGRADE_ENABLE \<equiv> 49"
abbreviation (input) EXT_PORT_CONFIG_PORT_DATA_SET :: mng_vals_e where "EXT_PORT_CONFIG_PORT_DATA_SET \<equiv> 50"
abbreviation (input) TIME_STATUS_NP :: mng_vals_e where "TIME_STATUS_NP \<equiv> 51"
abbreviation (input) GRANDMASTER_SETTINGS_NP :: mng_vals_e where "GRANDMASTER_SETTINGS_NP \<equiv> 52"
abbreviation (input) PORT_DATA_SET_NP :: mng_vals_e where "PORT_DATA_SET_NP \<equiv> 53"
abbreviation (input) SUBSCRIBE_EVENTS_NP :: mng_vals_e where "SUBSCRIBE_EVENTS_NP \<equiv> 54"
abbreviation (input) PORT_PROPERTIES_NP :: mng_vals_e where "PORT_PROPERTIES_NP \<equiv> 55"
abbreviation (input) PORT_STATS_NP :: mng_vals_e where "PORT_STATS_NP \<equiv> 56"
abbreviation (input) SYNCHRONIZATION_UNCERTAIN_NP :: mng_vals_e where "SYNCHRONIZATION_UNCERTAIN_NP \<equiv> 57"

abbreviation (input) FIRST_MNG_ID :: mng_vals_e where "FIRST_MNG_ID \<equiv> NULL_PTP_MANAGEMENT"
abbreviation (input) LAST_MNG_ID :: mng_vals_e where "LAST_MNG_ID \<equiv> SYNCHRONIZATION_UNCERTAIN_NP"

section \<open>Functions over the table\<close>

record ManagementId_t =
  mng_value :: u16
  mng_scope :: scope_e
  mng_allowed :: u8
  mng_size :: int

definition mng_all_vals :: "ManagementId_t list" where
  "mng_all_vals = map (\<lambda>r. \<lparr>mng_value = ids_value r, mng_scope = ids_scope r,
     mng_allowed = ids_allow r, mng_size = ids_size r\<rparr>) ids"

text \<open>
  \<^verbatim>\<open>mng_all_vals[id]\<close>: reading past the array is undefined.
\<close>

definition mng_val :: "mng_vals_e \<Rightarrow> ManagementId_t option" where
  "mng_val tid = (if tid < length mng_all_vals then Some (mng_all_vals ! tid) else None)"

definition id_in_range :: "mng_vals_e \<Rightarrow> bool" where
  "id_in_range tid \<longleftrightarrow> \<not> (tid < FIRST_MNG_ID \<or> tid > LAST_MNG_ID)"

text \<open>The labels of the switch in \<^verbatim>\<open>findTlvId\<close>, tried in the order of the rows.\<close>

fun switch_value :: "u16 \<Rightarrow> mng_vals_e \<Rightarrow> ids_row list \<Rightarrow> mng_vals_e option" where
  "switch_value val tid [] = None"
| "switch_value val tid (r # rs) =
     (if ids_value r = val then Some tid else switch_value val (Suc tid) rs)"

definition uses_linuxptp :: "mng_vals_e \<Rightarrow> bool" where
  "uses_linuxptp tid \<longleftrightarrow> mng_allowed (mng_all_vals ! tid) AND A_USE_LINUXPTP \<noteq> 0"

text \<open>
  \<^verbatim>\<open>findTlvId(val, rid, spec)\<close>, \<^verbatim>\<open>val\<close> being the two octets as loaded from the message:
  \<^term>\<open>None\<close> is the result \<^verbatim>\<open>false\<close>, which leaves \<^verbatim>\<open>rid\<close> unchanged.
\<close>

definition findTlvId :: "byte_order \<Rightarrow> u16 \<Rightarrow> implementSpecific_e \<Rightarrow> mng_vals_e option" where
  "findTlvId h val spec =
     (case switch_value (net_to_cpu16 h val) FIRST_MNG_ID ids of
        None \<Rightarrow> None
      | Some tid \<Rightarrow> if spec \<noteq> linuxptp \<and> uses_linuxptp tid then None else Some tid)"

definition checkReplyAction :: "mng_vals_e \<Rightarrow> u8 \<Rightarrow> bool" where
  "checkReplyAction m_tlv_id actionField =
     (let allowed = mng_allowed (mng_all_vals ! m_tlv_id)
      in if actionField = ACKNOWLEDGE then allowed AND A_COMMAND \<noteq> 0
         else if actionField = RESPONSE then allowed AND (A_SET OR A_GET) \<noteq> 0
         else False)"

definition allowedAction :: "implementSpecific_e \<Rightarrow> mng_vals_e \<Rightarrow> actionField_e \<Rightarrow> bool" where
  "allowedAction spec tid action =
     (if \<not> (action = GET \<or> action = SET \<or> action = COMMAND) then False
      else if tid < FIRST_MNG_ID \<or> tid > LAST_MNG_ID then False
      else if spec \<noteq> linuxptp \<and> uses_linuxptp tid then False
      else mng_allowed (mng_all_vals ! tid) AND push_bit (unat action) 1 \<noteq> 0)"

definition isEmpty :: "mng_vals_e \<Rightarrow> bool" where
  "isEmpty tid \<longleftrightarrow>
     tid \<ge> FIRST_MNG_ID \<and> tid \<le> LAST_MNG_ID \<and> mng_size (mng_all_vals ! tid) = 0"

definition mng2str_c :: "mng_vals_e \<Rightarrow> string" where
  "mng2str_c tid =
     (if tid < length ids then ids_name (ids ! tid)
      else if tid < FIRST_MNG_ID \<or> tid > LAST_MNG_ID then ''out of range'' else ''unknown'')"

section \<open>Lemmas\<close>

lemma length_ids [simp]: "length ids = 58"
  by (simp add: ids_def)

lemma length_mng_all_vals [simp]: "length mng_all_vals = 58"
  by (simp add: mng_all_vals_def)

lemma nth_mng_all_vals:
  "tid < 58 \<Longrightarrow> mng_all_vals ! tid = \<lparr>mng_value = ids_value (ids ! tid),
     mng_scope = ids_scope (ids ! tid), mng_allowed = ids_allow (ids ! tid),
     mng_size = ids_size (ids ! tid)\<rparr>"
  by (simp add: mng_all_vals_def)

lemma id_in_range_iff: "id_in_range tid \<longleftrightarrow> tid < 58"
  by (auto simp: id_in_range_def)

lemma distinct_ids: "distinct (map ids_value ids)"
  by (simp add: ids_def row_def)

lemma switch_value_Some:
  "switch_value val i rs = Some tid \<Longrightarrow> i \<le> tid \<and> tid < i + length rs \<and> ids_value (rs ! (tid - i)) = val"
proof (induction val i rs rule: switch_value.induct)
  case (2 val i r rs)
  then show ?case by (auto split: if_splits simp: nth_Cons' Suc_diff_Suc)
qed simp

lemma switch_value_nth:
  "distinct (map ids_value rs) \<Longrightarrow> k < length rs \<Longrightarrow>
   switch_value (ids_value (rs ! k)) i rs = Some (i + k)"
proof (induction rs arbitrary: i k)
  case (Cons r rs)
  then show ?case by (cases k) (auto dest: nth_mem)
qed simp

text \<open>
  The switch finds exactly the row with the value.
\<close>

lemma switch_ids_iff:
  "switch_value val 0 ids = Some tid \<longleftrightarrow> tid < 58 \<and> ids_value (ids ! tid) = val"
  using switch_value_Some [of val 0 ids tid] switch_value_nth [OF distinct_ids, of tid 0]
  by auto

lemma findTlvId_range: "findTlvId h val spec = Some tid \<Longrightarrow> tid < 58"
  by (auto simp: findTlvId_def switch_ids_iff split: option.splits if_splits)

text \<open>A property of every row, checked row by row.\<close>

lemma ids_all:
  assumes "list_all (\<lambda>(i, r). P i r) (enumerate 0 ids)" and "tid < 58"
  shows "P tid (ids ! tid)"
proof -
  have "enumerate 0 ids ! tid = (tid, ids ! tid)" "tid < length (enumerate 0 ids)"
    using assms(2) by (simp_all add: nth_enumerate_eq)
  with assms(1) show ?thesis unfolding list_all_length by fastforce
qed

section \<open>Properties\<close>

text \<open>
  Property C20. \<^verbatim>\<open>findTlvId\<close> finds exactly the ids of the table whose value the octets hold in
  network order, and of the ids of linuxptp only for a linuxptp application: the switch, the table
  and the filter agree, and no two ids share a value.
\<close>

theorem findTlvId_spec:
  "findTlvId h val spec = Some tid \<longleftrightarrow>
     tid < 58 \<and> ids_value (ids ! tid) = net_to_cpu16 h val \<and>
     (spec = linuxptp \<or> ids_allow (ids ! tid) AND A_USE_LINUXPTP = 0)"
proof -
  have "findTlvId h val spec = Some tid \<longleftrightarrow> switch_value (net_to_cpu16 h val) 0 ids = Some tid \<and>
      (spec = linuxptp \<or> \<not> uses_linuxptp tid)"
    by (auto simp: findTlvId_def split: option.splits if_splits)
  then show ?thesis by (auto simp: switch_ids_iff uses_linuxptp_def nth_mng_all_vals)
qed


end
