(* ===== verification/MngTlv.thy ===== *)
theory MngTlv
  imports Windows Ids
begin

text \<open>
  The management TLVs: the structures of \<^verbatim>\<open>src/proc.h\<close>, the functions
  \<^verbatim>\<open>Message::<id>_f\<close> of \<^verbatim>\<open>src/proc.cpp\<close> that build and parse them, their size
  functions and the dispatch \<^verbatim>\<open>Message::call_tlv_data\<close> of \<^verbatim>\<open>src/msg.cpp\<close>.

  A chain \<^verbatim>\<open>proc(d.a) || proc(d.b)\<close> is \<open>procs\<close> over the calls. The constant member
  \<^verbatim>\<open>flagsMask\<close> of a structure is the argument of \<open>procFlags\<close>. \<open>new_\<close> is a structure fresh
  from \<^verbatim>\<open>new\<close>: its containers are empty; its scalars are unset in C++ and zero here, and every
  function overwrites them before anything reads them.
\<close>

definition EVENT_BITMASK_CNT :: nat where "EVENT_BITMASK_CNT = 64"

definition MAX_MESSAGE_TYPES :: nat where "MAX_MESSAGE_TYPES = 16"

section \<open>Structures and functions, in the order of \<open>ids.h\<close>\<close>

record CLOCK_DESCRIPTION_t =
  clockType :: u16
  physicalLayerProtocol :: PTPText_t
  physicalAddressLength :: u16
  physicalAddress :: Binary
  protocolAddress :: PortAddress_t
  manufacturerIdentity :: "byte list"
  productDescription :: PTPText_t
  revisionData :: PTPText_t
  userDescription :: PTPText_t
  profileIdentity :: "byte list"

definition new_CLOCK_DESCRIPTION :: CLOCK_DESCRIPTION_t where
  "new_CLOCK_DESCRIPTION = \<lparr>clockType = 0,
     physicalLayerProtocol = new_PTPText,
     physicalAddressLength = 0, physicalAddress = [],
     protocolAddress = new_PortAddress,
     manufacturerIdentity = replicate 3 0,
     productDescription = new_PTPText,
     revisionData = new_PTPText,
     userDescription = new_PTPText,
     profileIdentity = replicate 6 0\<rparr>"

definition CLOCK_DESCRIPTION_f :: "(CLOCK_DESCRIPTION_t, 'z) proc" where
  "CLOCK_DESCRIPTION_f = procs
     [assign (\<lambda>d. d\<lparr>physicalAddressLength := word_of_nat (length (physicalAddress d))\<rparr>),
      field clockType clockType_update proc_u16,
      field physicalLayerProtocol physicalLayerProtocol_update proc_PTPText,
      field physicalAddressLength physicalAddressLength_update proc_u16,
      \<lambda>d. field physicalAddress physicalAddress_update (proc_binary (physicalAddressLength d)) d,
      field protocolAddress protocolAddress_update proc_PortAddress,
      field manufacturerIdentity manufacturerIdentity_update (proc_octets 3),
      proc_reserved,
      field productDescription productDescription_update proc_PTPText,
      field revisionData revisionData_update proc_PTPText,
      field userDescription userDescription_update proc_PTPText,
      field profileIdentity profileIdentity_update (proc_octets 6)]"

record USER_DESCRIPTION_t =
  userDescription :: PTPText_t

definition new_USER_DESCRIPTION :: USER_DESCRIPTION_t where
  "new_USER_DESCRIPTION = \<lparr>userDescription = new_PTPText\<rparr>"

definition USER_DESCRIPTION_f :: "(USER_DESCRIPTION_t, 'z) proc" where
  "USER_DESCRIPTION_f = procs
     [field userDescription userDescription_update proc_PTPText]"

record INITIALIZE_t =
  initializationKey :: u16

definition new_INITIALIZE :: INITIALIZE_t where
  "new_INITIALIZE = \<lparr>initializationKey = 0\<rparr>"

definition INITIALIZE_f :: "(INITIALIZE_t, 'z) proc" where
  "INITIALIZE_f = procs
     [field initializationKey initializationKey_update proc_u16]"

record FAULT_LOG_t =
  numberOfFaultRecords :: u16
  faultRecords :: "FaultRecord_t list"

definition new_FAULT_LOG :: FAULT_LOG_t where
  "new_FAULT_LOG = \<lparr>numberOfFaultRecords = 0, faultRecords = []\<rparr>"

definition FAULT_LOG_f :: "(FAULT_LOG_t, 'z) proc" where
  "FAULT_LOG_f = procs
     [field numberOfFaultRecords numberOfFaultRecords_update proc_u16,
      vector_f faultRecords faultRecords_update (\<lambda>d. ucast (numberOfFaultRecords d)) proc_FaultRecord new_FaultRecord]"

record DEFAULT_DATA_SET_t =
  flags :: u8
  numberPorts :: u16
  priority1 :: u8
  clockQuality :: ClockQuality_t
  priority2 :: u8
  clockIdentity :: ClockIdentity_t
  domainNumber :: u8

definition new_DEFAULT_DATA_SET :: DEFAULT_DATA_SET_t where
  "new_DEFAULT_DATA_SET = \<lparr>flags = 0, numberPorts = 0,
     priority1 = 0, clockQuality = new_ClockQuality,
     priority2 = 0, clockIdentity = new_ClockIdentity,
     domainNumber = 0\<rparr>"

definition DEFAULT_DATA_SET_f :: "(DEFAULT_DATA_SET_t, 'z) proc" where
  "DEFAULT_DATA_SET_f = procs
     [field flags flags_update (procFlags 0x3),
      proc_reserved,
      field numberPorts numberPorts_update proc_u16,
      field priority1 priority1_update proc_u8,
      field clockQuality clockQuality_update proc_ClockQuality,
      field priority2 priority2_update proc_u8,
      field clockIdentity clockIdentity_update proc_ClockIdentity,
      field domainNumber domainNumber_update proc_u8]"

record CURRENT_DATA_SET_t =
  stepsRemoved :: u16
  offsetFromMaster :: TimeInterval_t
  meanPathDelay :: TimeInterval_t

definition new_CURRENT_DATA_SET :: CURRENT_DATA_SET_t where
  "new_CURRENT_DATA_SET = \<lparr>stepsRemoved = 0,
     offsetFromMaster = new_TimeInterval,
     meanPathDelay = new_TimeInterval\<rparr>"

definition CURRENT_DATA_SET_f :: "(CURRENT_DATA_SET_t, 'z) proc" where
  "CURRENT_DATA_SET_f = procs
     [field stepsRemoved stepsRemoved_update proc_u16,
      field offsetFromMaster offsetFromMaster_update proc_TimeInterval,
      field meanPathDelay meanPathDelay_update proc_TimeInterval]"

record PARENT_DATA_SET_t =
  parentPortIdentity :: PortIdentity_t
  flags :: u8
  observedParentOffsetScaledLogVariance :: u16
  observedParentClockPhaseChangeRate :: i32
  grandmasterPriority1 :: u8
  grandmasterClockQuality :: ClockQuality_t
  grandmasterPriority2 :: u8
  grandmasterIdentity :: ClockIdentity_t

definition new_PARENT_DATA_SET :: PARENT_DATA_SET_t where
  "new_PARENT_DATA_SET = \<lparr>parentPortIdentity = new_PortIdentity,
     flags = 0, observedParentOffsetScaledLogVariance = 0,
     observedParentClockPhaseChangeRate = 0,
     grandmasterPriority1 = 0,
     grandmasterClockQuality = new_ClockQuality,
     grandmasterPriority2 = 0,
     grandmasterIdentity = new_ClockIdentity\<rparr>"

definition PARENT_DATA_SET_f :: "(PARENT_DATA_SET_t, 'z) proc" where
  "PARENT_DATA_SET_f = procs
     [field parentPortIdentity parentPortIdentity_update proc_PortIdentity,
      field flags flags_update (procFlags 0x1),
      proc_reserved,
      field observedParentOffsetScaledLogVariance observedParentOffsetScaledLogVariance_update proc_u16,
      field observedParentClockPhaseChangeRate observedParentClockPhaseChangeRate_update proc_i32,
      field grandmasterPriority1 grandmasterPriority1_update proc_u8,
      field grandmasterClockQuality grandmasterClockQuality_update proc_ClockQuality,
      field grandmasterPriority2 grandmasterPriority2_update proc_u8,
      field grandmasterIdentity grandmasterIdentity_update proc_ClockIdentity]"

record TIME_PROPERTIES_DATA_SET_t =
  currentUtcOffset :: i16
  flags :: u8
  timeSource :: timeSource_e

definition new_TIME_PROPERTIES_DATA_SET :: TIME_PROPERTIES_DATA_SET_t where
  "new_TIME_PROPERTIES_DATA_SET = \<lparr>currentUtcOffset = 0,
     flags = 0, timeSource = 0\<rparr>"

definition TIME_PROPERTIES_DATA_SET_f :: "(TIME_PROPERTIES_DATA_SET_t, 'z) proc" where
  "TIME_PROPERTIES_DATA_SET_f = procs
     [field currentUtcOffset currentUtcOffset_update proc_i16,
      field flags flags_update (procFlags 0x3f),
      field timeSource timeSource_update proc_timeSource]"

record PORT_DATA_SET_t =
  portIdentity :: PortIdentity_t
  portState :: portState_e
  logMinDelayReqInterval :: i8
  peerMeanPathDelay :: TimeInterval_t
  logAnnounceInterval :: i8
  announceReceiptTimeout :: u8
  logSyncInterval :: i8
  delayMechanism :: u8
  logMinPdelayReqInterval :: i8
  versionNumber :: u8

definition new_PORT_DATA_SET :: PORT_DATA_SET_t where
  "new_PORT_DATA_SET = \<lparr>portIdentity = new_PortIdentity,
     portState = 0, logMinDelayReqInterval = 0,
     peerMeanPathDelay = new_TimeInterval,
     logAnnounceInterval = 0, announceReceiptTimeout = 0,
     logSyncInterval = 0, delayMechanism = 0,
     logMinPdelayReqInterval = 0, versionNumber = 0\<rparr>"

definition PORT_DATA_SET_f :: "(PORT_DATA_SET_t, 'z) proc" where
  "PORT_DATA_SET_f = procs
     [field portIdentity portIdentity_update proc_PortIdentity,
      field portState portState_update proc_portState,
      field logMinDelayReqInterval logMinDelayReqInterval_update proc_i8,
      field peerMeanPathDelay peerMeanPathDelay_update proc_TimeInterval,
      field logAnnounceInterval logAnnounceInterval_update proc_i8,
      field announceReceiptTimeout announceReceiptTimeout_update proc_u8,
      field logSyncInterval logSyncInterval_update proc_i8,
      field delayMechanism delayMechanism_update proc_u8,
      field logMinPdelayReqInterval logMinPdelayReqInterval_update proc_i8,
      field versionNumber versionNumber_update proc_u8]"

record PRIORITY1_t =
  priority1 :: u8

definition new_PRIORITY1 :: PRIORITY1_t where
  "new_PRIORITY1 = \<lparr>priority1 = 0\<rparr>"

definition PRIORITY1_f :: "(PRIORITY1_t, 'z) proc" where
  "PRIORITY1_f = procs
     [field priority1 priority1_update proc_u8]"

record PRIORITY2_t =
  priority2 :: u8

definition new_PRIORITY2 :: PRIORITY2_t where
  "new_PRIORITY2 = \<lparr>priority2 = 0\<rparr>"

definition PRIORITY2_f :: "(PRIORITY2_t, 'z) proc" where
  "PRIORITY2_f = procs
     [field priority2 priority2_update proc_u8]"

record DOMAIN_t =
  domainNumber :: u8

definition new_DOMAIN :: DOMAIN_t where
  "new_DOMAIN = \<lparr>domainNumber = 0\<rparr>"

definition DOMAIN_f :: "(DOMAIN_t, 'z) proc" where
  "DOMAIN_f = procs
     [field domainNumber domainNumber_update proc_u8]"

record SLAVE_ONLY_t =
  flags :: u8

definition new_SLAVE_ONLY :: SLAVE_ONLY_t where
  "new_SLAVE_ONLY = \<lparr>flags = 0\<rparr>"

definition SLAVE_ONLY_f :: "(SLAVE_ONLY_t, 'z) proc" where
  "SLAVE_ONLY_f = procs
     [field flags flags_update (procFlags 0x1)]"

record LOG_ANNOUNCE_INTERVAL_t =
  logAnnounceInterval :: i8

definition new_LOG_ANNOUNCE_INTERVAL :: LOG_ANNOUNCE_INTERVAL_t where
  "new_LOG_ANNOUNCE_INTERVAL = \<lparr>logAnnounceInterval = 0\<rparr>"

definition LOG_ANNOUNCE_INTERVAL_f :: "(LOG_ANNOUNCE_INTERVAL_t, 'z) proc" where
  "LOG_ANNOUNCE_INTERVAL_f = procs
     [field logAnnounceInterval logAnnounceInterval_update proc_i8]"

record ANNOUNCE_RECEIPT_TIMEOUT_t =
  announceReceiptTimeout :: u8

definition new_ANNOUNCE_RECEIPT_TIMEOUT :: ANNOUNCE_RECEIPT_TIMEOUT_t where
  "new_ANNOUNCE_RECEIPT_TIMEOUT = \<lparr>announceReceiptTimeout = 0\<rparr>"

definition ANNOUNCE_RECEIPT_TIMEOUT_f :: "(ANNOUNCE_RECEIPT_TIMEOUT_t, 'z) proc" where
  "ANNOUNCE_RECEIPT_TIMEOUT_f = procs
     [field announceReceiptTimeout announceReceiptTimeout_update proc_u8]"

record LOG_SYNC_INTERVAL_t =
  logSyncInterval :: i8

definition new_LOG_SYNC_INTERVAL :: LOG_SYNC_INTERVAL_t where
  "new_LOG_SYNC_INTERVAL = \<lparr>logSyncInterval = 0\<rparr>"

definition LOG_SYNC_INTERVAL_f :: "(LOG_SYNC_INTERVAL_t, 'z) proc" where
  "LOG_SYNC_INTERVAL_f = procs
     [field logSyncInterval logSyncInterval_update proc_i8]"

record VERSION_NUMBER_t =
  versionNumber :: u8

definition new_VERSION_NUMBER :: VERSION_NUMBER_t where
  "new_VERSION_NUMBER = \<lparr>versionNumber = 0\<rparr>"

definition VERSION_NUMBER_f :: "(VERSION_NUMBER_t, 'z) proc" where
  "VERSION_NUMBER_f = procs
     [field versionNumber versionNumber_update proc_u8]"

record TIME_t =
  currentTime :: Timestamp_t

definition new_TIME :: TIME_t where
  "new_TIME = \<lparr>currentTime = new_Timestamp\<rparr>"

definition TIME_f :: "(TIME_t, 'z) proc" where
  "TIME_f = procs
     [field currentTime currentTime_update proc_Timestamp]"

record CLOCK_ACCURACY_t =
  clockAccuracy :: clockAccuracy_e

definition new_CLOCK_ACCURACY :: CLOCK_ACCURACY_t where
  "new_CLOCK_ACCURACY = \<lparr>clockAccuracy = 0\<rparr>"

definition CLOCK_ACCURACY_f :: "(CLOCK_ACCURACY_t, 'z) proc" where
  "CLOCK_ACCURACY_f = procs
     [field clockAccuracy clockAccuracy_update proc_clockAccuracy]"

record UTC_PROPERTIES_t =
  currentUtcOffset :: i16
  flags :: u8

definition new_UTC_PROPERTIES :: UTC_PROPERTIES_t where
  "new_UTC_PROPERTIES = \<lparr>currentUtcOffset = 0, flags = 0\<rparr>"

definition UTC_PROPERTIES_f :: "(UTC_PROPERTIES_t, 'z) proc" where
  "UTC_PROPERTIES_f = procs
     [field currentUtcOffset currentUtcOffset_update proc_i16,
      field flags flags_update (procFlags 0x7)]"

record TRACEABILITY_PROPERTIES_t =
  flags :: u8

definition new_TRACEABILITY_PROPERTIES :: TRACEABILITY_PROPERTIES_t where
  "new_TRACEABILITY_PROPERTIES = \<lparr>flags = 0\<rparr>"

definition TRACEABILITY_PROPERTIES_f :: "(TRACEABILITY_PROPERTIES_t, 'z) proc" where
  "TRACEABILITY_PROPERTIES_f = procs
     [field flags flags_update (procFlags 0x30)]"

record TIMESCALE_PROPERTIES_t =
  flags :: u8
  timeSource :: timeSource_e

definition new_TIMESCALE_PROPERTIES :: TIMESCALE_PROPERTIES_t where
  "new_TIMESCALE_PROPERTIES = \<lparr>flags = 0,
     timeSource = 0\<rparr>"

definition TIMESCALE_PROPERTIES_f :: "(TIMESCALE_PROPERTIES_t, 'z) proc" where
  "TIMESCALE_PROPERTIES_f = procs
     [field flags flags_update (procFlags 0x8),
      field timeSource timeSource_update proc_timeSource]"

record UNICAST_NEGOTIATION_ENABLE_t =
  flags :: u8

definition new_UNICAST_NEGOTIATION_ENABLE :: UNICAST_NEGOTIATION_ENABLE_t where
  "new_UNICAST_NEGOTIATION_ENABLE = \<lparr>flags = 0\<rparr>"

definition UNICAST_NEGOTIATION_ENABLE_f :: "(UNICAST_NEGOTIATION_ENABLE_t, 'z) proc" where
  "UNICAST_NEGOTIATION_ENABLE_f = procs
     [field flags flags_update (procFlags 0x1)]"

record PATH_TRACE_LIST_t =
  pathSequence :: "ClockIdentity_t list"

definition new_PATH_TRACE_LIST :: PATH_TRACE_LIST_t where
  "new_PATH_TRACE_LIST = \<lparr>pathSequence = []\<rparr>"

definition PATH_TRACE_LIST_f :: "(PATH_TRACE_LIST_t, 'z) proc" where
  "PATH_TRACE_LIST_f = procs
     [vector_o pathSequence pathSequence_update ClockIdentity_size proc_ClockIdentity new_ClockIdentity]"

record PATH_TRACE_ENABLE_t =
  flags :: u8

definition new_PATH_TRACE_ENABLE :: PATH_TRACE_ENABLE_t where
  "new_PATH_TRACE_ENABLE = \<lparr>flags = 0\<rparr>"

definition PATH_TRACE_ENABLE_f :: "(PATH_TRACE_ENABLE_t, 'z) proc" where
  "PATH_TRACE_ENABLE_f = procs
     [field flags flags_update (procFlags 0x1)]"

record GRANDMASTER_CLUSTER_TABLE_t =
  logQueryInterval :: i8
  actualTableSize :: u8
  PortAddress :: "PortAddress_t list"

definition new_GRANDMASTER_CLUSTER_TABLE :: GRANDMASTER_CLUSTER_TABLE_t where
  "new_GRANDMASTER_CLUSTER_TABLE = \<lparr>logQueryInterval = 0,
     actualTableSize = 0,
     PortAddress = []\<rparr>"

definition GRANDMASTER_CLUSTER_TABLE_f :: "(GRANDMASTER_CLUSTER_TABLE_t, 'z) proc" where
  "GRANDMASTER_CLUSTER_TABLE_f = procs
     [assign (\<lambda>d. d\<lparr>actualTableSize := word_of_nat (length (PortAddress d))\<rparr>),
      field logQueryInterval logQueryInterval_update proc_i8,
      field actualTableSize actualTableSize_update proc_u8,
      vector_f PortAddress PortAddress_update (\<lambda>d. ucast (actualTableSize d)) proc_PortAddress new_PortAddress]"

record UNICAST_MASTER_TABLE_t =
  logQueryInterval :: i8
  actualTableSize :: u16
  PortAddress :: "PortAddress_t list"

definition new_UNICAST_MASTER_TABLE :: UNICAST_MASTER_TABLE_t where
  "new_UNICAST_MASTER_TABLE = \<lparr>logQueryInterval = 0,
     actualTableSize = 0, PortAddress = []\<rparr>"

definition UNICAST_MASTER_TABLE_f :: "(UNICAST_MASTER_TABLE_t, 'z) proc" where
  "UNICAST_MASTER_TABLE_f = procs
     [assign (\<lambda>d. d\<lparr>actualTableSize := word_of_nat (length (PortAddress d))\<rparr>),
      field logQueryInterval logQueryInterval_update proc_i8,
      field actualTableSize actualTableSize_update proc_u16,
      vector_f PortAddress PortAddress_update (\<lambda>d. ucast (actualTableSize d)) proc_PortAddress new_PortAddress]"

record UNICAST_MASTER_MAX_TABLE_SIZE_t =
  maxTableSize :: u16

definition new_UNICAST_MASTER_MAX_TABLE_SIZE :: UNICAST_MASTER_MAX_TABLE_SIZE_t where
  "new_UNICAST_MASTER_MAX_TABLE_SIZE = \<lparr>maxTableSize = 0\<rparr>"

definition UNICAST_MASTER_MAX_TABLE_SIZE_f :: "(UNICAST_MASTER_MAX_TABLE_SIZE_t, 'z) proc" where
  "UNICAST_MASTER_MAX_TABLE_SIZE_f = procs
     [field maxTableSize maxTableSize_update proc_u16]"

record ACCEPTABLE_MASTER_TABLE_t =
  actualTableSize :: i16
  master_list :: "AcceptableMaster_t list"

definition new_ACCEPTABLE_MASTER_TABLE :: ACCEPTABLE_MASTER_TABLE_t where
  "new_ACCEPTABLE_MASTER_TABLE = \<lparr>actualTableSize = 0,
     master_list = []\<rparr>"

definition ACCEPTABLE_MASTER_TABLE_f :: "(ACCEPTABLE_MASTER_TABLE_t, 'z) proc" where
  "ACCEPTABLE_MASTER_TABLE_f = procs
     [assign (\<lambda>d. d\<lparr>actualTableSize := word_of_nat (length (master_list d))\<rparr>),
      field actualTableSize actualTableSize_update proc_i16,
      vector_f master_list master_list_update (\<lambda>d. scast (actualTableSize d)) proc_AcceptableMaster new_AcceptableMaster]"

record ACCEPTABLE_MASTER_TABLE_ENABLED_t =
  flags :: u8

definition new_ACCEPTABLE_MASTER_TABLE_ENABLED :: ACCEPTABLE_MASTER_TABLE_ENABLED_t where
  "new_ACCEPTABLE_MASTER_TABLE_ENABLED = \<lparr>flags = 0\<rparr>"

definition ACCEPTABLE_MASTER_TABLE_ENABLED_f :: "(ACCEPTABLE_MASTER_TABLE_ENABLED_t, 'z) proc" where
  "ACCEPTABLE_MASTER_TABLE_ENABLED_f = procs
     [field flags flags_update (procFlags 0x1)]"

record ACCEPTABLE_MASTER_MAX_TABLE_SIZE_t =
  maxTableSize :: u16

definition new_ACCEPTABLE_MASTER_MAX_TABLE_SIZE :: ACCEPTABLE_MASTER_MAX_TABLE_SIZE_t where
  "new_ACCEPTABLE_MASTER_MAX_TABLE_SIZE = \<lparr>maxTableSize = 0\<rparr>"

definition ACCEPTABLE_MASTER_MAX_TABLE_SIZE_f :: "(ACCEPTABLE_MASTER_MAX_TABLE_SIZE_t, 'z) proc" where
  "ACCEPTABLE_MASTER_MAX_TABLE_SIZE_f = procs
     [field maxTableSize maxTableSize_update proc_u16]"

record ALTERNATE_MASTER_t =
  flags :: u8
  logAlternateMulticastSyncInterval :: i8
  numberOfAlternateMasters :: u8

definition new_ALTERNATE_MASTER :: ALTERNATE_MASTER_t where
  "new_ALTERNATE_MASTER = \<lparr>flags = 0,
     logAlternateMulticastSyncInterval = 0,
     numberOfAlternateMasters = 0\<rparr>"

definition ALTERNATE_MASTER_f :: "(ALTERNATE_MASTER_t, 'z) proc" where
  "ALTERNATE_MASTER_f = procs
     [field flags flags_update (procFlags 0x1),
      field logAlternateMulticastSyncInterval logAlternateMulticastSyncInterval_update proc_i8,
      field numberOfAlternateMasters numberOfAlternateMasters_update proc_u8]"

record ALTERNATE_TIME_OFFSET_ENABLE_t =
  keyField :: u8
  flags :: u8

definition new_ALTERNATE_TIME_OFFSET_ENABLE :: ALTERNATE_TIME_OFFSET_ENABLE_t where
  "new_ALTERNATE_TIME_OFFSET_ENABLE = \<lparr>keyField = 0,
     flags = 0\<rparr>"

definition ALTERNATE_TIME_OFFSET_ENABLE_f :: "(ALTERNATE_TIME_OFFSET_ENABLE_t, 'z) proc" where
  "ALTERNATE_TIME_OFFSET_ENABLE_f = procs
     [field keyField keyField_update proc_u8,
      field flags flags_update (procFlags 0x1)]"

record ALTERNATE_TIME_OFFSET_NAME_t =
  keyField :: u8
  displayName :: PTPText_t

definition new_ALTERNATE_TIME_OFFSET_NAME :: ALTERNATE_TIME_OFFSET_NAME_t where
  "new_ALTERNATE_TIME_OFFSET_NAME = \<lparr>keyField = 0,
     displayName = new_PTPText\<rparr>"

definition ALTERNATE_TIME_OFFSET_NAME_f :: "(ALTERNATE_TIME_OFFSET_NAME_t, 'z) proc" where
  "ALTERNATE_TIME_OFFSET_NAME_f = procs
     [field keyField keyField_update proc_u8,
      field displayName displayName_update proc_PTPText]"

record ALTERNATE_TIME_OFFSET_MAX_KEY_t =
  maxKey :: u8

definition new_ALTERNATE_TIME_OFFSET_MAX_KEY :: ALTERNATE_TIME_OFFSET_MAX_KEY_t where
  "new_ALTERNATE_TIME_OFFSET_MAX_KEY = \<lparr>maxKey = 0\<rparr>"

definition ALTERNATE_TIME_OFFSET_MAX_KEY_f :: "(ALTERNATE_TIME_OFFSET_MAX_KEY_t, 'z) proc" where
  "ALTERNATE_TIME_OFFSET_MAX_KEY_f = procs
     [field maxKey maxKey_update proc_u8]"

record ALTERNATE_TIME_OFFSET_PROPERTIES_t =
  keyField :: u8
  currentOffset :: i32
  jumpSeconds :: i32
  timeOfNextJump :: u64

definition new_ALTERNATE_TIME_OFFSET_PROPERTIES :: ALTERNATE_TIME_OFFSET_PROPERTIES_t where
  "new_ALTERNATE_TIME_OFFSET_PROPERTIES = \<lparr>keyField = 0,
     currentOffset = 0,
     jumpSeconds = 0,
     timeOfNextJump = 0\<rparr>"

definition ALTERNATE_TIME_OFFSET_PROPERTIES_f :: "(ALTERNATE_TIME_OFFSET_PROPERTIES_t, 'z) proc" where
  "ALTERNATE_TIME_OFFSET_PROPERTIES_f = procs
     [field keyField keyField_update proc_u8,
      field currentOffset currentOffset_update proc_i32,
      field jumpSeconds jumpSeconds_update proc_i32,
      field timeOfNextJump timeOfNextJump_update proc48_u64]"

record TRANSPARENT_CLOCK_PORT_DATA_SET_t =
  portIdentity :: PortIdentity_t
  flags :: u8
  logMinPdelayReqInterval :: i8
  peerMeanPathDelay :: TimeInterval_t

definition new_TRANSPARENT_CLOCK_PORT_DATA_SET :: TRANSPARENT_CLOCK_PORT_DATA_SET_t where
  "new_TRANSPARENT_CLOCK_PORT_DATA_SET = \<lparr>portIdentity = new_PortIdentity,
     flags = 0,
     logMinPdelayReqInterval = 0,
     peerMeanPathDelay = new_TimeInterval\<rparr>"

definition TRANSPARENT_CLOCK_PORT_DATA_SET_f :: "(TRANSPARENT_CLOCK_PORT_DATA_SET_t, 'z) proc" where
  "TRANSPARENT_CLOCK_PORT_DATA_SET_f = procs
     [field portIdentity portIdentity_update proc_PortIdentity,
      field flags flags_update (procFlags 0x1),
      field logMinPdelayReqInterval logMinPdelayReqInterval_update proc_i8,
      field peerMeanPathDelay peerMeanPathDelay_update proc_TimeInterval]"

record LOG_MIN_PDELAY_REQ_INTERVAL_t =
  logMinPdelayReqInterval :: i8

definition new_LOG_MIN_PDELAY_REQ_INTERVAL :: LOG_MIN_PDELAY_REQ_INTERVAL_t where
  "new_LOG_MIN_PDELAY_REQ_INTERVAL = \<lparr>logMinPdelayReqInterval = 0\<rparr>"

definition LOG_MIN_PDELAY_REQ_INTERVAL_f :: "(LOG_MIN_PDELAY_REQ_INTERVAL_t, 'z) proc" where
  "LOG_MIN_PDELAY_REQ_INTERVAL_f = procs
     [field logMinPdelayReqInterval logMinPdelayReqInterval_update proc_i8]"

record TRANSPARENT_CLOCK_DEFAULT_DATA_SET_t =
  clockIdentity :: ClockIdentity_t
  numberPorts :: u16
  delayMechanism :: u8
  primaryDomain :: u8

definition new_TRANSPARENT_CLOCK_DEFAULT_DATA_SET :: TRANSPARENT_CLOCK_DEFAULT_DATA_SET_t where
  "new_TRANSPARENT_CLOCK_DEFAULT_DATA_SET = \<lparr>clockIdentity = new_ClockIdentity,
     numberPorts = 0,
     delayMechanism = 0,
     primaryDomain = 0\<rparr>"

definition TRANSPARENT_CLOCK_DEFAULT_DATA_SET_f :: "(TRANSPARENT_CLOCK_DEFAULT_DATA_SET_t, 'z) proc" where
  "TRANSPARENT_CLOCK_DEFAULT_DATA_SET_f = procs
     [field clockIdentity clockIdentity_update proc_ClockIdentity,
      field numberPorts numberPorts_update proc_u16,
      field delayMechanism delayMechanism_update proc_u8,
      field primaryDomain primaryDomain_update proc_u8]"

record PRIMARY_DOMAIN_t =
  primaryDomain :: u8

definition new_PRIMARY_DOMAIN :: PRIMARY_DOMAIN_t where
  "new_PRIMARY_DOMAIN = \<lparr>primaryDomain = 0\<rparr>"

definition PRIMARY_DOMAIN_f :: "(PRIMARY_DOMAIN_t, 'z) proc" where
  "PRIMARY_DOMAIN_f = procs
     [field primaryDomain primaryDomain_update proc_u8]"

record DELAY_MECHANISM_t =
  delayMechanism :: u8

definition new_DELAY_MECHANISM :: DELAY_MECHANISM_t where
  "new_DELAY_MECHANISM = \<lparr>delayMechanism = 0\<rparr>"

definition DELAY_MECHANISM_f :: "(DELAY_MECHANISM_t, 'z) proc" where
  "DELAY_MECHANISM_f = procs
     [field delayMechanism delayMechanism_update proc_u8]"

record EXTERNAL_PORT_CONFIGURATION_ENABLED_t =
  flags :: u8

definition new_EXTERNAL_PORT_CONFIGURATION_ENABLED :: EXTERNAL_PORT_CONFIGURATION_ENABLED_t where
  "new_EXTERNAL_PORT_CONFIGURATION_ENABLED = \<lparr>flags = 0\<rparr>"

definition EXTERNAL_PORT_CONFIGURATION_ENABLED_f :: "(EXTERNAL_PORT_CONFIGURATION_ENABLED_t, 'z) proc" where
  "EXTERNAL_PORT_CONFIGURATION_ENABLED_f = procs
     [field flags flags_update (procFlags 0x1)]"

record MASTER_ONLY_t =
  flags :: u8

definition new_MASTER_ONLY :: MASTER_ONLY_t where
  "new_MASTER_ONLY = \<lparr>flags = 0\<rparr>"

definition MASTER_ONLY_f :: "(MASTER_ONLY_t, 'z) proc" where
  "MASTER_ONLY_f = procs
     [field flags flags_update (procFlags 0x1)]"

record HOLDOVER_UPGRADE_ENABLE_t =
  flags :: u8

definition new_HOLDOVER_UPGRADE_ENABLE :: HOLDOVER_UPGRADE_ENABLE_t where
  "new_HOLDOVER_UPGRADE_ENABLE = \<lparr>flags = 0\<rparr>"

definition HOLDOVER_UPGRADE_ENABLE_f :: "(HOLDOVER_UPGRADE_ENABLE_t, 'z) proc" where
  "HOLDOVER_UPGRADE_ENABLE_f = procs
     [field flags flags_update (procFlags 0x1)]"

record EXT_PORT_CONFIG_PORT_DATA_SET_t =
  flags :: u8
  desiredState :: portState_e

definition new_EXT_PORT_CONFIG_PORT_DATA_SET :: EXT_PORT_CONFIG_PORT_DATA_SET_t where
  "new_EXT_PORT_CONFIG_PORT_DATA_SET = \<lparr>flags = 0,
     desiredState = 0\<rparr>"

definition EXT_PORT_CONFIG_PORT_DATA_SET_f :: "(EXT_PORT_CONFIG_PORT_DATA_SET_t, 'z) proc" where
  "EXT_PORT_CONFIG_PORT_DATA_SET_f = procs
     [field flags flags_update (procFlags 0x1),
      field desiredState desiredState_update proc_portState]"

record TIME_STATUS_NP_t =
  master_offset :: i64
  ingress_time :: i64
  cumulativeScaledRateOffset :: i32
  scaledLastGmPhaseChange :: i32
  gmTimeBaseIndicator :: u16
  nanoseconds_msb :: u16
  nanoseconds_lsb :: u64
  fractional_nanoseconds :: u16
  gmPresent :: i32
  gmIdentity :: ClockIdentity_t

definition new_TIME_STATUS_NP :: TIME_STATUS_NP_t where
  "new_TIME_STATUS_NP = \<lparr>master_offset = 0, ingress_time = 0,
     cumulativeScaledRateOffset = 0,
     scaledLastGmPhaseChange = 0, gmTimeBaseIndicator = 0,
     nanoseconds_msb = 0, nanoseconds_lsb = 0,
     fractional_nanoseconds = 0, gmPresent = 0,
     gmIdentity = new_ClockIdentity\<rparr>"

definition TIME_STATUS_NP_f :: "(TIME_STATUS_NP_t, 'z) proc" where
  "TIME_STATUS_NP_f = procs
     [field master_offset master_offset_update proc_i64,
      field ingress_time ingress_time_update proc_i64,
      field cumulativeScaledRateOffset cumulativeScaledRateOffset_update proc_i32,
      field scaledLastGmPhaseChange scaledLastGmPhaseChange_update proc_i32,
      field gmTimeBaseIndicator gmTimeBaseIndicator_update proc_u16,
      field nanoseconds_msb nanoseconds_msb_update proc_u16,
      field nanoseconds_lsb nanoseconds_lsb_update proc_u64,
      field fractional_nanoseconds fractional_nanoseconds_update proc_u16,
      field gmPresent gmPresent_update proc_i32,
      field gmIdentity gmIdentity_update proc_ClockIdentity]"

record GRANDMASTER_SETTINGS_NP_t =
  clockQuality :: ClockQuality_t
  currentUtcOffset :: i16
  flags :: u8
  timeSource :: timeSource_e

definition new_GRANDMASTER_SETTINGS_NP :: GRANDMASTER_SETTINGS_NP_t where
  "new_GRANDMASTER_SETTINGS_NP = \<lparr>clockQuality = new_ClockQuality,
     currentUtcOffset = 0, flags = 0,
     timeSource = 0\<rparr>"

definition GRANDMASTER_SETTINGS_NP_f :: "(GRANDMASTER_SETTINGS_NP_t, 'z) proc" where
  "GRANDMASTER_SETTINGS_NP_f = procs
     [field clockQuality clockQuality_update proc_ClockQuality,
      field currentUtcOffset currentUtcOffset_update proc_i16,
      field flags flags_update (procFlags 0x3f),
      field timeSource timeSource_update proc_timeSource]"

record PORT_DATA_SET_NP_t =
  neighborPropDelayThresh :: u32
  asCapable :: i32

definition new_PORT_DATA_SET_NP :: PORT_DATA_SET_NP_t where
  "new_PORT_DATA_SET_NP = \<lparr>neighborPropDelayThresh = 0,
     asCapable = 0\<rparr>"

definition PORT_DATA_SET_NP_f :: "(PORT_DATA_SET_NP_t, 'z) proc" where
  "PORT_DATA_SET_NP_f = procs
     [field neighborPropDelayThresh neighborPropDelayThresh_update proc_u32,
      field asCapable asCapable_update proc_i32]"

record SUBSCRIBE_EVENTS_NP_t =
  duration :: u16
  bitmask :: "byte list"

definition new_SUBSCRIBE_EVENTS_NP :: SUBSCRIBE_EVENTS_NP_t where
  "new_SUBSCRIBE_EVENTS_NP = \<lparr>duration = 0,
     bitmask = replicate 64 0\<rparr>"

definition SUBSCRIBE_EVENTS_NP_f :: "(SUBSCRIBE_EVENTS_NP_t, 'z) proc" where
  "SUBSCRIBE_EVENTS_NP_f = procs
     [field duration duration_update proc_u16,
      field bitmask bitmask_update (proc_octets EVENT_BITMASK_CNT)]"

record PORT_PROPERTIES_NP_t =
  portIdentity :: PortIdentity_t
  portState :: portState_e
  timestamping :: linuxptpTimeStamp_e
  interface :: PTPText_t

definition new_PORT_PROPERTIES_NP :: PORT_PROPERTIES_NP_t where
  "new_PORT_PROPERTIES_NP = \<lparr>portIdentity = new_PortIdentity,
     portState = 0, timestamping = 0,
     interface = new_PTPText\<rparr>"

definition PORT_PROPERTIES_NP_f :: "(PORT_PROPERTIES_NP_t, 'z) proc" where
  "PORT_PROPERTIES_NP_f = procs
     [field portIdentity portIdentity_update proc_PortIdentity,
      field portState portState_update proc_portState,
      field timestamping timestamping_update proc_linuxptpTimeStamp,
      field interface interface_update proc_PTPText]"

record PORT_STATS_NP_t =
  portIdentity :: PortIdentity_t
  rxMsgType :: "u64 list"
  txMsgType :: "u64 list"

definition new_PORT_STATS_NP :: PORT_STATS_NP_t where
  "new_PORT_STATS_NP = \<lparr>portIdentity = new_PortIdentity,
     rxMsgType = replicate 16 0, txMsgType = replicate 16 0\<rparr>"

definition PORT_STATS_NP_f :: "(PORT_STATS_NP_t, 'z) proc" where
  "PORT_STATS_NP_f = procs
     [field portIdentity portIdentity_update proc_PortIdentity,
      field rxMsgType rxMsgType_update (proc_array [0..<MAX_MESSAGE_TYPES] procLe),
      field txMsgType txMsgType_update (proc_array [0..<MAX_MESSAGE_TYPES] procLe)]"

record SYNCHRONIZATION_UNCERTAIN_NP_t =
  uncertain_val :: u8

definition new_SYNCHRONIZATION_UNCERTAIN_NP :: SYNCHRONIZATION_UNCERTAIN_NP_t where
  "new_SYNCHRONIZATION_UNCERTAIN_NP = \<lparr>uncertain_val = 0\<rparr>"

definition SYNCHRONIZATION_UNCERTAIN_NP_f :: "(SYNCHRONIZATION_UNCERTAIN_NP_t, 'z) proc" where
  "SYNCHRONIZATION_UNCERTAIN_NP_f = procs
     [field uncertain_val uncertain_val_update proc_u8]"

section \<open>The structure a \<open>BaseMngTlv\<close> pointer refers to\<close>

datatype (plugins only: code size) BaseMngTlv =
    TLV_CLOCK_DESCRIPTION CLOCK_DESCRIPTION_t
  | TLV_USER_DESCRIPTION USER_DESCRIPTION_t
  | TLV_INITIALIZE INITIALIZE_t
  | TLV_FAULT_LOG FAULT_LOG_t
  | TLV_DEFAULT_DATA_SET DEFAULT_DATA_SET_t
  | TLV_CURRENT_DATA_SET CURRENT_DATA_SET_t
  | TLV_PARENT_DATA_SET PARENT_DATA_SET_t
  | TLV_TIME_PROPERTIES_DATA_SET TIME_PROPERTIES_DATA_SET_t
  | TLV_PORT_DATA_SET PORT_DATA_SET_t
  | TLV_PRIORITY1 PRIORITY1_t
  | TLV_PRIORITY2 PRIORITY2_t
  | TLV_DOMAIN DOMAIN_t
  | TLV_SLAVE_ONLY SLAVE_ONLY_t
  | TLV_LOG_ANNOUNCE_INTERVAL LOG_ANNOUNCE_INTERVAL_t
  | TLV_ANNOUNCE_RECEIPT_TIMEOUT ANNOUNCE_RECEIPT_TIMEOUT_t
  | TLV_LOG_SYNC_INTERVAL LOG_SYNC_INTERVAL_t
  | TLV_VERSION_NUMBER VERSION_NUMBER_t
  | TLV_TIME TIME_t
  | TLV_CLOCK_ACCURACY CLOCK_ACCURACY_t
  | TLV_UTC_PROPERTIES UTC_PROPERTIES_t
  | TLV_TRACEABILITY_PROPERTIES TRACEABILITY_PROPERTIES_t
  | TLV_TIMESCALE_PROPERTIES TIMESCALE_PROPERTIES_t
  | TLV_UNICAST_NEGOTIATION_ENABLE UNICAST_NEGOTIATION_ENABLE_t
  | TLV_PATH_TRACE_LIST PATH_TRACE_LIST_t
  | TLV_PATH_TRACE_ENABLE PATH_TRACE_ENABLE_t
  | TLV_GRANDMASTER_CLUSTER_TABLE GRANDMASTER_CLUSTER_TABLE_t
  | TLV_UNICAST_MASTER_TABLE UNICAST_MASTER_TABLE_t
  | TLV_UNICAST_MASTER_MAX_TABLE_SIZE UNICAST_MASTER_MAX_TABLE_SIZE_t
  | TLV_ACCEPTABLE_MASTER_TABLE ACCEPTABLE_MASTER_TABLE_t
  | TLV_ACCEPTABLE_MASTER_TABLE_ENABLED ACCEPTABLE_MASTER_TABLE_ENABLED_t
  | TLV_ACCEPTABLE_MASTER_MAX_TABLE_SIZE ACCEPTABLE_MASTER_MAX_TABLE_SIZE_t
  | TLV_ALTERNATE_MASTER ALTERNATE_MASTER_t
  | TLV_ALTERNATE_TIME_OFFSET_ENABLE ALTERNATE_TIME_OFFSET_ENABLE_t
  | TLV_ALTERNATE_TIME_OFFSET_NAME ALTERNATE_TIME_OFFSET_NAME_t
  | TLV_ALTERNATE_TIME_OFFSET_MAX_KEY ALTERNATE_TIME_OFFSET_MAX_KEY_t
  | TLV_ALTERNATE_TIME_OFFSET_PROPERTIES ALTERNATE_TIME_OFFSET_PROPERTIES_t
  | TLV_TRANSPARENT_CLOCK_PORT_DATA_SET TRANSPARENT_CLOCK_PORT_DATA_SET_t
  | TLV_LOG_MIN_PDELAY_REQ_INTERVAL LOG_MIN_PDELAY_REQ_INTERVAL_t
  | TLV_TRANSPARENT_CLOCK_DEFAULT_DATA_SET TRANSPARENT_CLOCK_DEFAULT_DATA_SET_t
  | TLV_PRIMARY_DOMAIN PRIMARY_DOMAIN_t
  | TLV_DELAY_MECHANISM DELAY_MECHANISM_t
  | TLV_EXTERNAL_PORT_CONFIGURATION_ENABLED EXTERNAL_PORT_CONFIGURATION_ENABLED_t
  | TLV_MASTER_ONLY MASTER_ONLY_t
  | TLV_HOLDOVER_UPGRADE_ENABLE HOLDOVER_UPGRADE_ENABLE_t
  | TLV_EXT_PORT_CONFIG_PORT_DATA_SET EXT_PORT_CONFIG_PORT_DATA_SET_t
  | TLV_TIME_STATUS_NP TIME_STATUS_NP_t
  | TLV_GRANDMASTER_SETTINGS_NP GRANDMASTER_SETTINGS_NP_t
  | TLV_PORT_DATA_SET_NP PORT_DATA_SET_NP_t
  | TLV_SUBSCRIBE_EVENTS_NP SUBSCRIBE_EVENTS_NP_t
  | TLV_PORT_PROPERTIES_NP PORT_PROPERTIES_NP_t
  | TLV_PORT_STATS_NP PORT_STATS_NP_t
  | TLV_SYNCHRONIZATION_UNCERTAIN_NP SYNCHRONIZATION_UNCERTAIN_NP_t

text \<open>The ID whose structure the object is; what a static cast of the pointer relies on.\<close>

primrec tlv_type :: "BaseMngTlv \<Rightarrow> mng_vals_e" where
  "tlv_type (TLV_CLOCK_DESCRIPTION d) = CLOCK_DESCRIPTION"
| "tlv_type (TLV_USER_DESCRIPTION d) = USER_DESCRIPTION"
| "tlv_type (TLV_INITIALIZE d) = INITIALIZE"
| "tlv_type (TLV_FAULT_LOG d) = FAULT_LOG"
| "tlv_type (TLV_DEFAULT_DATA_SET d) = DEFAULT_DATA_SET"
| "tlv_type (TLV_CURRENT_DATA_SET d) = CURRENT_DATA_SET"
| "tlv_type (TLV_PARENT_DATA_SET d) = PARENT_DATA_SET"
| "tlv_type (TLV_TIME_PROPERTIES_DATA_SET d) = TIME_PROPERTIES_DATA_SET"
| "tlv_type (TLV_PORT_DATA_SET d) = PORT_DATA_SET"
| "tlv_type (TLV_PRIORITY1 d) = PRIORITY1"
| "tlv_type (TLV_PRIORITY2 d) = PRIORITY2"
| "tlv_type (TLV_DOMAIN d) = DOMAIN"
| "tlv_type (TLV_SLAVE_ONLY d) = SLAVE_ONLY"
| "tlv_type (TLV_LOG_ANNOUNCE_INTERVAL d) = LOG_ANNOUNCE_INTERVAL"
| "tlv_type (TLV_ANNOUNCE_RECEIPT_TIMEOUT d) = ANNOUNCE_RECEIPT_TIMEOUT"
| "tlv_type (TLV_LOG_SYNC_INTERVAL d) = LOG_SYNC_INTERVAL"
| "tlv_type (TLV_VERSION_NUMBER d) = VERSION_NUMBER"
| "tlv_type (TLV_TIME d) = TIME"
| "tlv_type (TLV_CLOCK_ACCURACY d) = CLOCK_ACCURACY"
| "tlv_type (TLV_UTC_PROPERTIES d) = UTC_PROPERTIES"
| "tlv_type (TLV_TRACEABILITY_PROPERTIES d) = TRACEABILITY_PROPERTIES"
| "tlv_type (TLV_TIMESCALE_PROPERTIES d) = TIMESCALE_PROPERTIES"
| "tlv_type (TLV_UNICAST_NEGOTIATION_ENABLE d) = UNICAST_NEGOTIATION_ENABLE"
| "tlv_type (TLV_PATH_TRACE_LIST d) = PATH_TRACE_LIST"
| "tlv_type (TLV_PATH_TRACE_ENABLE d) = PATH_TRACE_ENABLE"
| "tlv_type (TLV_GRANDMASTER_CLUSTER_TABLE d) = GRANDMASTER_CLUSTER_TABLE"
| "tlv_type (TLV_UNICAST_MASTER_TABLE d) = UNICAST_MASTER_TABLE"
| "tlv_type (TLV_UNICAST_MASTER_MAX_TABLE_SIZE d) = UNICAST_MASTER_MAX_TABLE_SIZE"
| "tlv_type (TLV_ACCEPTABLE_MASTER_TABLE d) = ACCEPTABLE_MASTER_TABLE"
| "tlv_type (TLV_ACCEPTABLE_MASTER_TABLE_ENABLED d) = ACCEPTABLE_MASTER_TABLE_ENABLED"
| "tlv_type (TLV_ACCEPTABLE_MASTER_MAX_TABLE_SIZE d) = ACCEPTABLE_MASTER_MAX_TABLE_SIZE"
| "tlv_type (TLV_ALTERNATE_MASTER d) = ALTERNATE_MASTER"
| "tlv_type (TLV_ALTERNATE_TIME_OFFSET_ENABLE d) = ALTERNATE_TIME_OFFSET_ENABLE"
| "tlv_type (TLV_ALTERNATE_TIME_OFFSET_NAME d) = ALTERNATE_TIME_OFFSET_NAME"
| "tlv_type (TLV_ALTERNATE_TIME_OFFSET_MAX_KEY d) = ALTERNATE_TIME_OFFSET_MAX_KEY"
| "tlv_type (TLV_ALTERNATE_TIME_OFFSET_PROPERTIES d) = ALTERNATE_TIME_OFFSET_PROPERTIES"
| "tlv_type (TLV_TRANSPARENT_CLOCK_PORT_DATA_SET d) = TRANSPARENT_CLOCK_PORT_DATA_SET"
| "tlv_type (TLV_LOG_MIN_PDELAY_REQ_INTERVAL d) = LOG_MIN_PDELAY_REQ_INTERVAL"
| "tlv_type (TLV_TRANSPARENT_CLOCK_DEFAULT_DATA_SET d) = TRANSPARENT_CLOCK_DEFAULT_DATA_SET"
| "tlv_type (TLV_PRIMARY_DOMAIN d) = PRIMARY_DOMAIN"
| "tlv_type (TLV_DELAY_MECHANISM d) = DELAY_MECHANISM"
| "tlv_type (TLV_EXTERNAL_PORT_CONFIGURATION_ENABLED d) = EXTERNAL_PORT_CONFIGURATION_ENABLED"
| "tlv_type (TLV_MASTER_ONLY d) = MASTER_ONLY"
| "tlv_type (TLV_HOLDOVER_UPGRADE_ENABLE d) = HOLDOVER_UPGRADE_ENABLE"
| "tlv_type (TLV_EXT_PORT_CONFIG_PORT_DATA_SET d) = EXT_PORT_CONFIG_PORT_DATA_SET"
| "tlv_type (TLV_TIME_STATUS_NP d) = TIME_STATUS_NP"
| "tlv_type (TLV_GRANDMASTER_SETTINGS_NP d) = GRANDMASTER_SETTINGS_NP"
| "tlv_type (TLV_PORT_DATA_SET_NP d) = PORT_DATA_SET_NP"
| "tlv_type (TLV_SUBSCRIBE_EVENTS_NP d) = SUBSCRIBE_EVENTS_NP"
| "tlv_type (TLV_PORT_PROPERTIES_NP d) = PORT_PROPERTIES_NP"
| "tlv_type (TLV_PORT_STATS_NP d) = PORT_STATS_NP"
| "tlv_type (TLV_SYNCHRONIZATION_UNCERTAIN_NP d) = SYNCHRONIZATION_UNCERTAIN_NP"

text \<open>The dynamic part of \<^verbatim>\<open>new <id>_t\<close> and of the call \<^verbatim>\<open><id>_f(*t)\<close>.\<close>

definition new_tlv :: "mng_vals_e \<Rightarrow> BaseMngTlv option" where
  "new_tlv = map_of
     [(CLOCK_DESCRIPTION, TLV_CLOCK_DESCRIPTION new_CLOCK_DESCRIPTION),
      (USER_DESCRIPTION, TLV_USER_DESCRIPTION new_USER_DESCRIPTION),
      (INITIALIZE, TLV_INITIALIZE new_INITIALIZE),
      (FAULT_LOG, TLV_FAULT_LOG new_FAULT_LOG),
      (DEFAULT_DATA_SET, TLV_DEFAULT_DATA_SET new_DEFAULT_DATA_SET),
      (CURRENT_DATA_SET, TLV_CURRENT_DATA_SET new_CURRENT_DATA_SET),
      (PARENT_DATA_SET, TLV_PARENT_DATA_SET new_PARENT_DATA_SET),
      (TIME_PROPERTIES_DATA_SET, TLV_TIME_PROPERTIES_DATA_SET new_TIME_PROPERTIES_DATA_SET),
      (PORT_DATA_SET, TLV_PORT_DATA_SET new_PORT_DATA_SET),
      (PRIORITY1, TLV_PRIORITY1 new_PRIORITY1),
      (PRIORITY2, TLV_PRIORITY2 new_PRIORITY2),
      (DOMAIN, TLV_DOMAIN new_DOMAIN),
      (SLAVE_ONLY, TLV_SLAVE_ONLY new_SLAVE_ONLY),
      (LOG_ANNOUNCE_INTERVAL, TLV_LOG_ANNOUNCE_INTERVAL new_LOG_ANNOUNCE_INTERVAL),
      (ANNOUNCE_RECEIPT_TIMEOUT, TLV_ANNOUNCE_RECEIPT_TIMEOUT new_ANNOUNCE_RECEIPT_TIMEOUT),
      (LOG_SYNC_INTERVAL, TLV_LOG_SYNC_INTERVAL new_LOG_SYNC_INTERVAL),
      (VERSION_NUMBER, TLV_VERSION_NUMBER new_VERSION_NUMBER),
      (TIME, TLV_TIME new_TIME),
      (CLOCK_ACCURACY, TLV_CLOCK_ACCURACY new_CLOCK_ACCURACY),
      (UTC_PROPERTIES, TLV_UTC_PROPERTIES new_UTC_PROPERTIES),
      (TRACEABILITY_PROPERTIES, TLV_TRACEABILITY_PROPERTIES new_TRACEABILITY_PROPERTIES),
      (TIMESCALE_PROPERTIES, TLV_TIMESCALE_PROPERTIES new_TIMESCALE_PROPERTIES),
      (UNICAST_NEGOTIATION_ENABLE, TLV_UNICAST_NEGOTIATION_ENABLE new_UNICAST_NEGOTIATION_ENABLE),
      (PATH_TRACE_LIST, TLV_PATH_TRACE_LIST new_PATH_TRACE_LIST),
      (PATH_TRACE_ENABLE, TLV_PATH_TRACE_ENABLE new_PATH_TRACE_ENABLE),
      (GRANDMASTER_CLUSTER_TABLE, TLV_GRANDMASTER_CLUSTER_TABLE new_GRANDMASTER_CLUSTER_TABLE),
      (UNICAST_MASTER_TABLE, TLV_UNICAST_MASTER_TABLE new_UNICAST_MASTER_TABLE),
      (UNICAST_MASTER_MAX_TABLE_SIZE, TLV_UNICAST_MASTER_MAX_TABLE_SIZE new_UNICAST_MASTER_MAX_TABLE_SIZE),
      (ACCEPTABLE_MASTER_TABLE, TLV_ACCEPTABLE_MASTER_TABLE new_ACCEPTABLE_MASTER_TABLE),
      (ACCEPTABLE_MASTER_TABLE_ENABLED, TLV_ACCEPTABLE_MASTER_TABLE_ENABLED new_ACCEPTABLE_MASTER_TABLE_ENABLED),
      (ACCEPTABLE_MASTER_MAX_TABLE_SIZE, TLV_ACCEPTABLE_MASTER_MAX_TABLE_SIZE new_ACCEPTABLE_MASTER_MAX_TABLE_SIZE),
      (ALTERNATE_MASTER, TLV_ALTERNATE_MASTER new_ALTERNATE_MASTER),
      (ALTERNATE_TIME_OFFSET_ENABLE, TLV_ALTERNATE_TIME_OFFSET_ENABLE new_ALTERNATE_TIME_OFFSET_ENABLE),
      (ALTERNATE_TIME_OFFSET_NAME, TLV_ALTERNATE_TIME_OFFSET_NAME new_ALTERNATE_TIME_OFFSET_NAME),
      (ALTERNATE_TIME_OFFSET_MAX_KEY, TLV_ALTERNATE_TIME_OFFSET_MAX_KEY new_ALTERNATE_TIME_OFFSET_MAX_KEY),
      (ALTERNATE_TIME_OFFSET_PROPERTIES, TLV_ALTERNATE_TIME_OFFSET_PROPERTIES new_ALTERNATE_TIME_OFFSET_PROPERTIES),
      (TRANSPARENT_CLOCK_PORT_DATA_SET, TLV_TRANSPARENT_CLOCK_PORT_DATA_SET new_TRANSPARENT_CLOCK_PORT_DATA_SET),
      (LOG_MIN_PDELAY_REQ_INTERVAL, TLV_LOG_MIN_PDELAY_REQ_INTERVAL new_LOG_MIN_PDELAY_REQ_INTERVAL),
      (TRANSPARENT_CLOCK_DEFAULT_DATA_SET, TLV_TRANSPARENT_CLOCK_DEFAULT_DATA_SET new_TRANSPARENT_CLOCK_DEFAULT_DATA_SET),
      (PRIMARY_DOMAIN, TLV_PRIMARY_DOMAIN new_PRIMARY_DOMAIN),
      (DELAY_MECHANISM, TLV_DELAY_MECHANISM new_DELAY_MECHANISM),
      (EXTERNAL_PORT_CONFIGURATION_ENABLED, TLV_EXTERNAL_PORT_CONFIGURATION_ENABLED new_EXTERNAL_PORT_CONFIGURATION_ENABLED),
      (MASTER_ONLY, TLV_MASTER_ONLY new_MASTER_ONLY),
      (HOLDOVER_UPGRADE_ENABLE, TLV_HOLDOVER_UPGRADE_ENABLE new_HOLDOVER_UPGRADE_ENABLE),
      (EXT_PORT_CONFIG_PORT_DATA_SET, TLV_EXT_PORT_CONFIG_PORT_DATA_SET new_EXT_PORT_CONFIG_PORT_DATA_SET),
      (TIME_STATUS_NP, TLV_TIME_STATUS_NP new_TIME_STATUS_NP),
      (GRANDMASTER_SETTINGS_NP, TLV_GRANDMASTER_SETTINGS_NP new_GRANDMASTER_SETTINGS_NP),
      (PORT_DATA_SET_NP, TLV_PORT_DATA_SET_NP new_PORT_DATA_SET_NP),
      (SUBSCRIBE_EVENTS_NP, TLV_SUBSCRIBE_EVENTS_NP new_SUBSCRIBE_EVENTS_NP),
      (PORT_PROPERTIES_NP, TLV_PORT_PROPERTIES_NP new_PORT_PROPERTIES_NP),
      (PORT_STATS_NP, TLV_PORT_STATS_NP new_PORT_STATS_NP),
      (SYNCHRONIZATION_UNCERTAIN_NP, TLV_SYNCHRONIZATION_UNCERTAIN_NP new_SYNCHRONIZATION_UNCERTAIN_NP)]"

definition lift_tlv :: "('d \<Rightarrow> 't) \<Rightarrow> ('d, 'z) proc \<Rightarrow> 'd \<Rightarrow>
    'z mst_scheme \<Rightarrow> (bool \<times> 't \<times> 'z mst_scheme) option" where
  "lift_tlv con f d s = map_option (\<lambda>(e, d', s'). (e, con d', s')) (f d s)"

primrec tlv_f :: "(BaseMngTlv, 'z) proc" where
  "tlv_f (TLV_CLOCK_DESCRIPTION d) = lift_tlv TLV_CLOCK_DESCRIPTION CLOCK_DESCRIPTION_f d"
| "tlv_f (TLV_USER_DESCRIPTION d) = lift_tlv TLV_USER_DESCRIPTION USER_DESCRIPTION_f d"
| "tlv_f (TLV_INITIALIZE d) = lift_tlv TLV_INITIALIZE INITIALIZE_f d"
| "tlv_f (TLV_FAULT_LOG d) = lift_tlv TLV_FAULT_LOG FAULT_LOG_f d"
| "tlv_f (TLV_DEFAULT_DATA_SET d) = lift_tlv TLV_DEFAULT_DATA_SET DEFAULT_DATA_SET_f d"
| "tlv_f (TLV_CURRENT_DATA_SET d) = lift_tlv TLV_CURRENT_DATA_SET CURRENT_DATA_SET_f d"
| "tlv_f (TLV_PARENT_DATA_SET d) = lift_tlv TLV_PARENT_DATA_SET PARENT_DATA_SET_f d"
| "tlv_f (TLV_TIME_PROPERTIES_DATA_SET d) = lift_tlv TLV_TIME_PROPERTIES_DATA_SET TIME_PROPERTIES_DATA_SET_f d"
| "tlv_f (TLV_PORT_DATA_SET d) = lift_tlv TLV_PORT_DATA_SET PORT_DATA_SET_f d"
| "tlv_f (TLV_PRIORITY1 d) = lift_tlv TLV_PRIORITY1 PRIORITY1_f d"
| "tlv_f (TLV_PRIORITY2 d) = lift_tlv TLV_PRIORITY2 PRIORITY2_f d"
| "tlv_f (TLV_DOMAIN d) = lift_tlv TLV_DOMAIN DOMAIN_f d"
| "tlv_f (TLV_SLAVE_ONLY d) = lift_tlv TLV_SLAVE_ONLY SLAVE_ONLY_f d"
| "tlv_f (TLV_LOG_ANNOUNCE_INTERVAL d) = lift_tlv TLV_LOG_ANNOUNCE_INTERVAL LOG_ANNOUNCE_INTERVAL_f d"
| "tlv_f (TLV_ANNOUNCE_RECEIPT_TIMEOUT d) = lift_tlv TLV_ANNOUNCE_RECEIPT_TIMEOUT ANNOUNCE_RECEIPT_TIMEOUT_f d"
| "tlv_f (TLV_LOG_SYNC_INTERVAL d) = lift_tlv TLV_LOG_SYNC_INTERVAL LOG_SYNC_INTERVAL_f d"
| "tlv_f (TLV_VERSION_NUMBER d) = lift_tlv TLV_VERSION_NUMBER VERSION_NUMBER_f d"
| "tlv_f (TLV_TIME d) = lift_tlv TLV_TIME TIME_f d"
| "tlv_f (TLV_CLOCK_ACCURACY d) = lift_tlv TLV_CLOCK_ACCURACY CLOCK_ACCURACY_f d"
| "tlv_f (TLV_UTC_PROPERTIES d) = lift_tlv TLV_UTC_PROPERTIES UTC_PROPERTIES_f d"
| "tlv_f (TLV_TRACEABILITY_PROPERTIES d) = lift_tlv TLV_TRACEABILITY_PROPERTIES TRACEABILITY_PROPERTIES_f d"
| "tlv_f (TLV_TIMESCALE_PROPERTIES d) = lift_tlv TLV_TIMESCALE_PROPERTIES TIMESCALE_PROPERTIES_f d"
| "tlv_f (TLV_UNICAST_NEGOTIATION_ENABLE d) = lift_tlv TLV_UNICAST_NEGOTIATION_ENABLE UNICAST_NEGOTIATION_ENABLE_f d"
| "tlv_f (TLV_PATH_TRACE_LIST d) = lift_tlv TLV_PATH_TRACE_LIST PATH_TRACE_LIST_f d"
| "tlv_f (TLV_PATH_TRACE_ENABLE d) = lift_tlv TLV_PATH_TRACE_ENABLE PATH_TRACE_ENABLE_f d"
| "tlv_f (TLV_GRANDMASTER_CLUSTER_TABLE d) = lift_tlv TLV_GRANDMASTER_CLUSTER_TABLE GRANDMASTER_CLUSTER_TABLE_f d"
| "tlv_f (TLV_UNICAST_MASTER_TABLE d) = lift_tlv TLV_UNICAST_MASTER_TABLE UNICAST_MASTER_TABLE_f d"
| "tlv_f (TLV_UNICAST_MASTER_MAX_TABLE_SIZE d) = lift_tlv TLV_UNICAST_MASTER_MAX_TABLE_SIZE UNICAST_MASTER_MAX_TABLE_SIZE_f d"
| "tlv_f (TLV_ACCEPTABLE_MASTER_TABLE d) = lift_tlv TLV_ACCEPTABLE_MASTER_TABLE ACCEPTABLE_MASTER_TABLE_f d"
| "tlv_f (TLV_ACCEPTABLE_MASTER_TABLE_ENABLED d) = lift_tlv TLV_ACCEPTABLE_MASTER_TABLE_ENABLED ACCEPTABLE_MASTER_TABLE_ENABLED_f d"
| "tlv_f (TLV_ACCEPTABLE_MASTER_MAX_TABLE_SIZE d) = lift_tlv TLV_ACCEPTABLE_MASTER_MAX_TABLE_SIZE ACCEPTABLE_MASTER_MAX_TABLE_SIZE_f d"
| "tlv_f (TLV_ALTERNATE_MASTER d) = lift_tlv TLV_ALTERNATE_MASTER ALTERNATE_MASTER_f d"
| "tlv_f (TLV_ALTERNATE_TIME_OFFSET_ENABLE d) = lift_tlv TLV_ALTERNATE_TIME_OFFSET_ENABLE ALTERNATE_TIME_OFFSET_ENABLE_f d"
| "tlv_f (TLV_ALTERNATE_TIME_OFFSET_NAME d) = lift_tlv TLV_ALTERNATE_TIME_OFFSET_NAME ALTERNATE_TIME_OFFSET_NAME_f d"
| "tlv_f (TLV_ALTERNATE_TIME_OFFSET_MAX_KEY d) = lift_tlv TLV_ALTERNATE_TIME_OFFSET_MAX_KEY ALTERNATE_TIME_OFFSET_MAX_KEY_f d"
| "tlv_f (TLV_ALTERNATE_TIME_OFFSET_PROPERTIES d) = lift_tlv TLV_ALTERNATE_TIME_OFFSET_PROPERTIES ALTERNATE_TIME_OFFSET_PROPERTIES_f d"
| "tlv_f (TLV_TRANSPARENT_CLOCK_PORT_DATA_SET d) = lift_tlv TLV_TRANSPARENT_CLOCK_PORT_DATA_SET TRANSPARENT_CLOCK_PORT_DATA_SET_f d"
| "tlv_f (TLV_LOG_MIN_PDELAY_REQ_INTERVAL d) = lift_tlv TLV_LOG_MIN_PDELAY_REQ_INTERVAL LOG_MIN_PDELAY_REQ_INTERVAL_f d"
| "tlv_f (TLV_TRANSPARENT_CLOCK_DEFAULT_DATA_SET d) = lift_tlv TLV_TRANSPARENT_CLOCK_DEFAULT_DATA_SET TRANSPARENT_CLOCK_DEFAULT_DATA_SET_f d"
| "tlv_f (TLV_PRIMARY_DOMAIN d) = lift_tlv TLV_PRIMARY_DOMAIN PRIMARY_DOMAIN_f d"
| "tlv_f (TLV_DELAY_MECHANISM d) = lift_tlv TLV_DELAY_MECHANISM DELAY_MECHANISM_f d"
| "tlv_f (TLV_EXTERNAL_PORT_CONFIGURATION_ENABLED d) = lift_tlv TLV_EXTERNAL_PORT_CONFIGURATION_ENABLED EXTERNAL_PORT_CONFIGURATION_ENABLED_f d"
| "tlv_f (TLV_MASTER_ONLY d) = lift_tlv TLV_MASTER_ONLY MASTER_ONLY_f d"
| "tlv_f (TLV_HOLDOVER_UPGRADE_ENABLE d) = lift_tlv TLV_HOLDOVER_UPGRADE_ENABLE HOLDOVER_UPGRADE_ENABLE_f d"
| "tlv_f (TLV_EXT_PORT_CONFIG_PORT_DATA_SET d) = lift_tlv TLV_EXT_PORT_CONFIG_PORT_DATA_SET EXT_PORT_CONFIG_PORT_DATA_SET_f d"
| "tlv_f (TLV_TIME_STATUS_NP d) = lift_tlv TLV_TIME_STATUS_NP TIME_STATUS_NP_f d"
| "tlv_f (TLV_GRANDMASTER_SETTINGS_NP d) = lift_tlv TLV_GRANDMASTER_SETTINGS_NP GRANDMASTER_SETTINGS_NP_f d"
| "tlv_f (TLV_PORT_DATA_SET_NP d) = lift_tlv TLV_PORT_DATA_SET_NP PORT_DATA_SET_NP_f d"
| "tlv_f (TLV_SUBSCRIBE_EVENTS_NP d) = lift_tlv TLV_SUBSCRIBE_EVENTS_NP SUBSCRIBE_EVENTS_NP_f d"
| "tlv_f (TLV_PORT_PROPERTIES_NP d) = lift_tlv TLV_PORT_PROPERTIES_NP PORT_PROPERTIES_NP_f d"
| "tlv_f (TLV_PORT_STATS_NP d) = lift_tlv TLV_PORT_STATS_NP PORT_STATS_NP_f d"
| "tlv_f (TLV_SYNCHRONIZATION_UNCERTAIN_NP d) = lift_tlv TLV_SYNCHRONIZATION_UNCERTAIN_NP SYNCHRONIZATION_UNCERTAIN_NP_f d"

text \<open>
  \<^verbatim>\<open>call_tlv_data(id, tlv)\<close>. On build \<open>tlv\<close> is the caller's structure; casting it to the
  structure of another ID is undefined. On parse \<open>tlv\<close> is the caller's pointer, \<^term>\<open>None\<close> as
  long as it is not set. \<^verbatim>\<open>new\<close> throws when memory is exhausted, so its result is never null.
\<close>

definition call_tlv_data :: "mng_vals_e \<Rightarrow> BaseMngTlv option \<Rightarrow> 'z mst_scheme \<Rightarrow>
    (MNG_PARSE_ERROR_e \<times> BaseMngTlv option \<times> 'z mst_scheme) option" where
  "call_tlv_data tid tlv s0 =
     (let s = s0\<lparr>m_err := MNG_PARSE_ERROR_TOO_SMALL\<rparr>
      in if tid \<ge> length ids then Some (MNG_PARSE_ERROR_UNSUPPORT, tlv, s)
         else if ids_fun (ids ! tid) = NA then Some (MNG_PARSE_ERROR_OK, tlv, s)
         else if m_build s then
           (case tlv of
              None \<Rightarrow> None
            | Some t \<Rightarrow>
                if tlv_type t \<noteq> tid then None
                else (case tlv_f t s of
                        None \<Rightarrow> None
                      | Some (True, t', s') \<Rightarrow> Some (m_err s', Some t', s')
                      | Some (False, t', s') \<Rightarrow> Some (MNG_PARSE_ERROR_OK, Some t', s')))
         else
           (case new_tlv tid of
              None \<Rightarrow> None
            | Some t \<Rightarrow>
                (case tlv_f t s of
                   None \<Rightarrow> None
                 | Some (True, t', s') \<Rightarrow> Some (m_err s', tlv, s')
                 | Some (False, t', s') \<Rightarrow> Some (MNG_PARSE_ERROR_OK, Some t', s'))))"

section \<open>Size functions\<close>

definition CLOCK_DESCRIPTION_s :: "CLOCK_DESCRIPTION_t \<Rightarrow> nat" where
  "CLOCK_DESCRIPTION_s d =
     13 + length (CLOCK_DESCRIPTION_t.physicalAddress d) +
     PortAddress_size (CLOCK_DESCRIPTION_t.protocolAddress d) +
     PTPText_size (CLOCK_DESCRIPTION_t.physicalLayerProtocol d) +
     PTPText_size (CLOCK_DESCRIPTION_t.productDescription d) +
     PTPText_size (CLOCK_DESCRIPTION_t.revisionData d) +
     PTPText_size (CLOCK_DESCRIPTION_t.userDescription d)"

definition USER_DESCRIPTION_s :: "USER_DESCRIPTION_t \<Rightarrow> nat" where
  "USER_DESCRIPTION_s d = PTPText_size (USER_DESCRIPTION_t.userDescription d)"

text \<open>\<^verbatim>\<open>vector_l\<close>: a base size plus the sizes of the records.\<close>

fun vector_l :: "nat \<Rightarrow> ('v \<Rightarrow> nat) \<Rightarrow> 'v list \<Rightarrow> nat" where
  "vector_l ret sz [] = ret"
| "vector_l ret sz (rec # vec) = vector_l (ret + sz rec) sz vec"

definition FAULT_LOG_s :: "FAULT_LOG_t \<Rightarrow> nat" where
  "FAULT_LOG_s d = vector_l 2 FaultRecord_size (FAULT_LOG_t.faultRecords d)"

definition PATH_TRACE_LIST_s :: "PATH_TRACE_LIST_t \<Rightarrow> nat" where
  "PATH_TRACE_LIST_s d = ClockIdentity_size * length (PATH_TRACE_LIST_t.pathSequence d)"

definition GRANDMASTER_CLUSTER_TABLE_s :: "GRANDMASTER_CLUSTER_TABLE_t \<Rightarrow> nat" where
  "GRANDMASTER_CLUSTER_TABLE_s d =
     vector_l 2 PortAddress_size (GRANDMASTER_CLUSTER_TABLE_t.PortAddress d)"

definition UNICAST_MASTER_TABLE_s :: "UNICAST_MASTER_TABLE_t \<Rightarrow> nat" where
  "UNICAST_MASTER_TABLE_s d = vector_l 3 PortAddress_size (UNICAST_MASTER_TABLE_t.PortAddress d)"

definition ACCEPTABLE_MASTER_TABLE_s :: "ACCEPTABLE_MASTER_TABLE_t \<Rightarrow> nat" where
  "ACCEPTABLE_MASTER_TABLE_s d =
     2 + AcceptableMaster_size * length (ACCEPTABLE_MASTER_TABLE_t.master_list d)"

definition ALTERNATE_TIME_OFFSET_NAME_s :: "ALTERNATE_TIME_OFFSET_NAME_t \<Rightarrow> nat" where
  "ALTERNATE_TIME_OFFSET_NAME_s d =
     1 + PTPText_size (ALTERNATE_TIME_OFFSET_NAME_t.displayName d)"

definition PORT_PROPERTIES_NP_s :: "PORT_PROPERTIES_NP_t \<Rightarrow> nat" where
  "PORT_PROPERTIES_NP_s d =
     2 + PortIdentity_size + PTPText_size (PORT_PROPERTIES_NP_t.interface d)"

definition tlv_s :: "BaseMngTlv \<Rightarrow> nat option" where
  "tlv_s t =
     (case t of
        TLV_CLOCK_DESCRIPTION d \<Rightarrow> Some (CLOCK_DESCRIPTION_s d)
      | TLV_USER_DESCRIPTION d \<Rightarrow> Some (USER_DESCRIPTION_s d)
      | TLV_FAULT_LOG d \<Rightarrow> Some (FAULT_LOG_s d)
      | TLV_PATH_TRACE_LIST d \<Rightarrow> Some (PATH_TRACE_LIST_s d)
      | TLV_GRANDMASTER_CLUSTER_TABLE d \<Rightarrow> Some (GRANDMASTER_CLUSTER_TABLE_s d)
      | TLV_UNICAST_MASTER_TABLE d \<Rightarrow> Some (UNICAST_MASTER_TABLE_s d)
      | TLV_ACCEPTABLE_MASTER_TABLE d \<Rightarrow> Some (ACCEPTABLE_MASTER_TABLE_s d)
      | TLV_ALTERNATE_TIME_OFFSET_NAME d \<Rightarrow> Some (ALTERNATE_TIME_OFFSET_NAME_s d)
      | TLV_PORT_PROPERTIES_NP d \<Rightarrow> Some (PORT_PROPERTIES_NP_s d)
      | _ \<Rightarrow> None)"

text \<open>
  \<^verbatim>\<open>dataFieldSize(data)\<close>: the cases are the rows of kind \<^verbatim>\<open>UFS\<close> and \<^verbatim>\<open>UFBS\<close>; a null
  \<open>data\<close> stands for an empty structure.
\<close>

definition dataFieldSize :: "mng_vals_e \<Rightarrow> BaseMngTlv option \<Rightarrow> int option" where
  "dataFieldSize m_tlv_id data =
     (if m_tlv_id < length ids \<and> ids_fun (ids ! m_tlv_id) \<in> {UFS, UFBS} then
        (case (case data of None \<Rightarrow> new_tlv m_tlv_id | Some t \<Rightarrow> Some t) of
           None \<Rightarrow> None
         | Some t \<Rightarrow>
             if tlv_type t \<noteq> m_tlv_id then None else map_option int (tlv_s t))
      else Some (- 2))"

end
