(* ===== verification/SigTlv.thy ===== *)
theory SigTlv
  imports MngTlv
begin

text \<open>
  The signaling TLVs: the structures of \<^verbatim>\<open>src/sig.h\<close> and the functions of
  \<^verbatim>\<open>src/sig.cpp\<close>. The message class only parses signaling messages, but the functions work in
  both directions, like those of the management TLVs.
\<close>

section \<open>Records of the tables\<close>

record SLAVE_RX_SYNC_TIMING_DATA_rec_t =
  sequenceId :: u16
  syncOriginTimestamp :: Timestamp_t
  totalCorrectionField :: TimeInterval_t
  scaledCumulativeRateOffset :: i32
  syncEventIngressTimestamp :: Timestamp_t

definition new_SLAVE_RX_SYNC_TIMING_DATA_rec :: SLAVE_RX_SYNC_TIMING_DATA_rec_t where
  "new_SLAVE_RX_SYNC_TIMING_DATA_rec = \<lparr>sequenceId = 0,
     syncOriginTimestamp = new_Timestamp,
     totalCorrectionField = new_TimeInterval,
     scaledCumulativeRateOffset = 0,
     syncEventIngressTimestamp = new_Timestamp\<rparr>"

definition size_SLAVE_RX_SYNC_TIMING_DATA_rec :: nat where
  "size_SLAVE_RX_SYNC_TIMING_DATA_rec = 6 + TimeInterval_size + 2 * Timestamp_size"

definition proc_SLAVE_RX_SYNC_TIMING_DATA_rec :: "(SLAVE_RX_SYNC_TIMING_DATA_rec_t, 'z) proc" where
  "proc_SLAVE_RX_SYNC_TIMING_DATA_rec = procs
     [field sequenceId sequenceId_update proc_u16,
      field syncOriginTimestamp syncOriginTimestamp_update proc_Timestamp,
      field totalCorrectionField totalCorrectionField_update proc_TimeInterval,
      field scaledCumulativeRateOffset scaledCumulativeRateOffset_update proc_i32,
      field syncEventIngressTimestamp syncEventIngressTimestamp_update proc_Timestamp]"

record SLAVE_RX_SYNC_COMPUTED_DATA_rec_t =
  sequenceId :: u16
  offsetFromMaster :: TimeInterval_t
  meanPathDelay :: TimeInterval_t
  scaledNeighborRateRatio :: i32

definition new_SLAVE_RX_SYNC_COMPUTED_DATA_rec :: SLAVE_RX_SYNC_COMPUTED_DATA_rec_t where
  "new_SLAVE_RX_SYNC_COMPUTED_DATA_rec = \<lparr>sequenceId = 0,
     offsetFromMaster = new_TimeInterval,
     meanPathDelay = new_TimeInterval,
     scaledNeighborRateRatio = 0\<rparr>"

definition size_SLAVE_RX_SYNC_COMPUTED_DATA_rec :: nat where
  "size_SLAVE_RX_SYNC_COMPUTED_DATA_rec = 6 + 2 * TimeInterval_size"

definition proc_SLAVE_RX_SYNC_COMPUTED_DATA_rec :: "(SLAVE_RX_SYNC_COMPUTED_DATA_rec_t, 'z) proc" where
  "proc_SLAVE_RX_SYNC_COMPUTED_DATA_rec = procs
     [field sequenceId sequenceId_update proc_u16,
      field offsetFromMaster offsetFromMaster_update proc_TimeInterval,
      field meanPathDelay meanPathDelay_update proc_TimeInterval,
      field scaledNeighborRateRatio scaledNeighborRateRatio_update proc_i32]"

record SLAVE_TX_EVENT_TIMESTAMPS_rec_t =
  sequenceId :: u16
  eventEgressTimestamp :: Timestamp_t

definition new_SLAVE_TX_EVENT_TIMESTAMPS_rec :: SLAVE_TX_EVENT_TIMESTAMPS_rec_t where
  "new_SLAVE_TX_EVENT_TIMESTAMPS_rec = \<lparr>sequenceId = 0,
     eventEgressTimestamp = new_Timestamp\<rparr>"

definition size_SLAVE_TX_EVENT_TIMESTAMPS_rec :: nat where
  "size_SLAVE_TX_EVENT_TIMESTAMPS_rec = 2 + Timestamp_size"

definition proc_SLAVE_TX_EVENT_TIMESTAMPS_rec :: "(SLAVE_TX_EVENT_TIMESTAMPS_rec_t, 'z) proc" where
  "proc_SLAVE_TX_EVENT_TIMESTAMPS_rec = procs
     [field sequenceId sequenceId_update proc_u16,
      field eventEgressTimestamp eventEgressTimestamp_update proc_Timestamp]"

record SLAVE_DELAY_TIMING_DATA_NP_rec_t =
  sequenceId :: u16
  delayOriginTimestamp :: Timestamp_t
  totalCorrectionField :: TimeInterval_t
  delayResponseTimestamp :: Timestamp_t

definition new_SLAVE_DELAY_TIMING_DATA_NP_rec :: SLAVE_DELAY_TIMING_DATA_NP_rec_t where
  "new_SLAVE_DELAY_TIMING_DATA_NP_rec = \<lparr>sequenceId = 0,
     delayOriginTimestamp = new_Timestamp,
     totalCorrectionField = new_TimeInterval,
     delayResponseTimestamp = new_Timestamp\<rparr>"

definition size_SLAVE_DELAY_TIMING_DATA_NP_rec :: nat where
  "size_SLAVE_DELAY_TIMING_DATA_NP_rec = 2 + TimeInterval_size + 2 * Timestamp_size"

definition proc_SLAVE_DELAY_TIMING_DATA_NP_rec :: "(SLAVE_DELAY_TIMING_DATA_NP_rec_t, 'z) proc" where
  "proc_SLAVE_DELAY_TIMING_DATA_NP_rec = procs
     [field sequenceId sequenceId_update proc_u16,
      field delayOriginTimestamp delayOriginTimestamp_update proc_Timestamp,
      field totalCorrectionField totalCorrectionField_update proc_TimeInterval,
      field delayResponseTimestamp delayResponseTimestamp_update proc_Timestamp]"

section \<open>TLVs\<close>

record ORGANIZATION_EXTENSION_t =
  organizationId :: "byte list"
  organizationSubType :: "byte list"
  dataField :: Binary

definition new_ORGANIZATION_EXTENSION :: ORGANIZATION_EXTENSION_t where
  "new_ORGANIZATION_EXTENSION = \<lparr>organizationId = replicate 3 0,
     organizationSubType = replicate 3 0,
     dataField = []\<rparr>"

definition ORGANIZATION_EXTENSION_f :: "(ORGANIZATION_EXTENSION_t, 'z) proc" where
  "ORGANIZATION_EXTENSION_f = procs
     [field organizationId organizationId_update (proc_octets 3),
      field organizationSubType organizationSubType_update (proc_octets 3),
      \<lambda>d s. field dataField dataField_update (proc_binary (word_of_int (m_left s))) d s]"

record PATH_TRACE_t =
  pathSequence :: "ClockIdentity_t list"

definition new_PATH_TRACE :: PATH_TRACE_t where
  "new_PATH_TRACE = \<lparr>pathSequence = []\<rparr>"

definition PATH_TRACE_f :: "(PATH_TRACE_t, 'z) proc" where
  "PATH_TRACE_f = procs
     [vector_o pathSequence pathSequence_update ClockIdentity_size proc_ClockIdentity new_ClockIdentity]"

record ALTERNATE_TIME_OFFSET_INDICATOR_t =
  keyField :: u8
  currentOffset :: i32
  jumpSeconds :: i32
  timeOfNextJump :: u64
  displayName :: PTPText_t

definition new_ALTERNATE_TIME_OFFSET_INDICATOR :: ALTERNATE_TIME_OFFSET_INDICATOR_t where
  "new_ALTERNATE_TIME_OFFSET_INDICATOR = \<lparr>keyField = 0,
     currentOffset = 0,
     jumpSeconds = 0,
     timeOfNextJump = 0,
     displayName = new_PTPText\<rparr>"

definition ALTERNATE_TIME_OFFSET_INDICATOR_f :: "(ALTERNATE_TIME_OFFSET_INDICATOR_t, 'z) proc" where
  "ALTERNATE_TIME_OFFSET_INDICATOR_f = procs
     [field keyField keyField_update proc_u8,
      field currentOffset currentOffset_update proc_i32,
      field jumpSeconds jumpSeconds_update proc_i32,
      field timeOfNextJump timeOfNextJump_update proc_u64,
      field displayName displayName_update proc_PTPText]"

record ENHANCED_ACCURACY_METRICS_t =
  bcHopCount :: u8
  tcHopCount :: u8
  maxGmInaccuracy :: TimeInterval_t
  varGmInaccuracy :: Float64_t
  maxTransientInaccuracy :: TimeInterval_t
  varTransientInaccuracy :: Float64_t
  maxDynamicInaccuracy :: TimeInterval_t
  varDynamicInaccuracy :: Float64_t
  maxStaticInstanceInaccuracy :: TimeInterval_t
  varStaticInstanceInaccuracy :: Float64_t
  maxStaticMediumInaccuracy :: TimeInterval_t
  varStaticMediumInaccuracy :: Float64_t

definition new_ENHANCED_ACCURACY_METRICS :: ENHANCED_ACCURACY_METRICS_t where
  "new_ENHANCED_ACCURACY_METRICS = \<lparr>bcHopCount = 0,
     tcHopCount = 0,
     maxGmInaccuracy = new_TimeInterval,
     varGmInaccuracy = 0,
     maxTransientInaccuracy = new_TimeInterval,
     varTransientInaccuracy = 0,
     maxDynamicInaccuracy = new_TimeInterval,
     varDynamicInaccuracy = 0,
     maxStaticInstanceInaccuracy = new_TimeInterval,
     varStaticInstanceInaccuracy = 0,
     maxStaticMediumInaccuracy = new_TimeInterval,
     varStaticMediumInaccuracy = 0\<rparr>"

definition ENHANCED_ACCURACY_METRICS_f :: "(ENHANCED_ACCURACY_METRICS_t, 'z) proc" where
  "ENHANCED_ACCURACY_METRICS_f = procs
     [field bcHopCount bcHopCount_update proc_u8,
      field tcHopCount tcHopCount_update proc_u8,
      proc_reserved,
      proc_reserved,
      field maxGmInaccuracy maxGmInaccuracy_update proc_TimeInterval,
      field varGmInaccuracy varGmInaccuracy_update proc_float64,
      field maxTransientInaccuracy maxTransientInaccuracy_update proc_TimeInterval,
      field varTransientInaccuracy varTransientInaccuracy_update proc_float64,
      field maxDynamicInaccuracy maxDynamicInaccuracy_update proc_TimeInterval,
      field varDynamicInaccuracy varDynamicInaccuracy_update proc_float64,
      field maxStaticInstanceInaccuracy maxStaticInstanceInaccuracy_update proc_TimeInterval,
      field varStaticInstanceInaccuracy varStaticInstanceInaccuracy_update proc_float64,
      field maxStaticMediumInaccuracy maxStaticMediumInaccuracy_update proc_TimeInterval,
      field varStaticMediumInaccuracy varStaticMediumInaccuracy_update proc_float64]"

record L1_SYNC_t =
  flags1 :: u8
  flags2 :: u8

definition new_L1_SYNC :: L1_SYNC_t where
  "new_L1_SYNC = \<lparr>flags1 = 0, flags2 = 0\<rparr>"

definition L1_SYNC_f :: "(L1_SYNC_t, 'z) proc" where
  "L1_SYNC_f = procs
     [field flags1 flags1_update (procFlags 0xf),
      field flags2 flags2_update (procFlags 0x7)]"

record PORT_COMMUNICATION_AVAILABILITY_t =
  syncMessageAvailability :: u8
  delayRespMessageAvailability :: u8

definition new_PORT_COMMUNICATION_AVAILABILITY :: PORT_COMMUNICATION_AVAILABILITY_t where
  "new_PORT_COMMUNICATION_AVAILABILITY = \<lparr>syncMessageAvailability = 0,
     delayRespMessageAvailability = 0\<rparr>"

definition PORT_COMMUNICATION_AVAILABILITY_f :: "(PORT_COMMUNICATION_AVAILABILITY_t, 'z) proc" where
  "PORT_COMMUNICATION_AVAILABILITY_f = procs
     [field syncMessageAvailability syncMessageAvailability_update (procFlags 0xf),
      field delayRespMessageAvailability delayRespMessageAvailability_update (procFlags 0xf)]"

record PROTOCOL_ADDRESS_t =
  portProtocolAddress :: PortAddress_t

definition new_PROTOCOL_ADDRESS :: PROTOCOL_ADDRESS_t where
  "new_PROTOCOL_ADDRESS = \<lparr>portProtocolAddress = new_PortAddress\<rparr>"

definition PROTOCOL_ADDRESS_f :: "(PROTOCOL_ADDRESS_t, 'z) proc" where
  "PROTOCOL_ADDRESS_f = procs
     [field portProtocolAddress portProtocolAddress_update proc_PortAddress]"

record SLAVE_RX_SYNC_TIMING_DATA_t =
  syncSourcePortIdentity :: PortIdentity_t
  rec_list :: "SLAVE_RX_SYNC_TIMING_DATA_rec_t list"

definition new_SLAVE_RX_SYNC_TIMING_DATA :: SLAVE_RX_SYNC_TIMING_DATA_t where
  "new_SLAVE_RX_SYNC_TIMING_DATA = \<lparr>syncSourcePortIdentity = new_PortIdentity,
     rec_list = []\<rparr>"

definition SLAVE_RX_SYNC_TIMING_DATA_f :: "(SLAVE_RX_SYNC_TIMING_DATA_t, 'z) proc" where
  "SLAVE_RX_SYNC_TIMING_DATA_f = procs
     [field syncSourcePortIdentity syncSourcePortIdentity_update proc_PortIdentity,
      vector_o rec_list rec_list_update size_SLAVE_RX_SYNC_TIMING_DATA_rec proc_SLAVE_RX_SYNC_TIMING_DATA_rec new_SLAVE_RX_SYNC_TIMING_DATA_rec]"

record SLAVE_RX_SYNC_COMPUTED_DATA_t =
  sourcePortIdentity :: PortIdentity_t
  computedFlags :: u8
  rec_list :: "SLAVE_RX_SYNC_COMPUTED_DATA_rec_t list"

definition new_SLAVE_RX_SYNC_COMPUTED_DATA :: SLAVE_RX_SYNC_COMPUTED_DATA_t where
  "new_SLAVE_RX_SYNC_COMPUTED_DATA = \<lparr>sourcePortIdentity = new_PortIdentity,
     computedFlags = 0,
     rec_list = []\<rparr>"

definition SLAVE_RX_SYNC_COMPUTED_DATA_f :: "(SLAVE_RX_SYNC_COMPUTED_DATA_t, 'z) proc" where
  "SLAVE_RX_SYNC_COMPUTED_DATA_f = procs
     [field sourcePortIdentity sourcePortIdentity_update proc_PortIdentity,
      field computedFlags computedFlags_update (procFlags 0x7),
      proc_reserved,
      vector_o rec_list rec_list_update size_SLAVE_RX_SYNC_COMPUTED_DATA_rec proc_SLAVE_RX_SYNC_COMPUTED_DATA_rec new_SLAVE_RX_SYNC_COMPUTED_DATA_rec]"

record SLAVE_TX_EVENT_TIMESTAMPS_t =
  sourcePortIdentity :: PortIdentity_t
  eventMessageType :: msgType_e
  rec_list :: "SLAVE_TX_EVENT_TIMESTAMPS_rec_t list"

definition new_SLAVE_TX_EVENT_TIMESTAMPS :: SLAVE_TX_EVENT_TIMESTAMPS_t where
  "new_SLAVE_TX_EVENT_TIMESTAMPS = \<lparr>sourcePortIdentity = new_PortIdentity,
     eventMessageType = 0, rec_list = []\<rparr>"

definition SLAVE_TX_EVENT_TIMESTAMPS_f :: "(SLAVE_TX_EVENT_TIMESTAMPS_t, 'z) proc" where
  "SLAVE_TX_EVENT_TIMESTAMPS_f = procs
     [field sourcePortIdentity sourcePortIdentity_update proc_PortIdentity,
      field eventMessageType eventMessageType_update proc_msgType,
      proc_reserved,
      vector_o rec_list rec_list_update size_SLAVE_TX_EVENT_TIMESTAMPS_rec proc_SLAVE_TX_EVENT_TIMESTAMPS_rec new_SLAVE_TX_EVENT_TIMESTAMPS_rec]"

record CUMULATIVE_RATE_RATIO_t =
  scaledCumulativeRateRatio :: i32

definition new_CUMULATIVE_RATE_RATIO :: CUMULATIVE_RATE_RATIO_t where
  "new_CUMULATIVE_RATE_RATIO = \<lparr>scaledCumulativeRateRatio = 0\<rparr>"

definition CUMULATIVE_RATE_RATIO_f :: "(CUMULATIVE_RATE_RATIO_t, 'z) proc" where
  "CUMULATIVE_RATE_RATIO_f = procs
     [field scaledCumulativeRateRatio scaledCumulativeRateRatio_update proc_i32]"

record SLAVE_DELAY_TIMING_DATA_NP_t =
  sourcePortIdentity :: PortIdentity_t
  rec_list :: "SLAVE_DELAY_TIMING_DATA_NP_rec_t list"

definition new_SLAVE_DELAY_TIMING_DATA_NP :: SLAVE_DELAY_TIMING_DATA_NP_t where
  "new_SLAVE_DELAY_TIMING_DATA_NP = \<lparr>sourcePortIdentity = new_PortIdentity,
     rec_list = []\<rparr>"

definition SLAVE_DELAY_TIMING_DATA_NP_f :: "(SLAVE_DELAY_TIMING_DATA_NP_t, 'z) proc" where
  "SLAVE_DELAY_TIMING_DATA_NP_f = procs
     [field sourcePortIdentity sourcePortIdentity_update proc_PortIdentity,
      vector_o rec_list rec_list_update size_SLAVE_DELAY_TIMING_DATA_NP_rec proc_SLAVE_DELAY_TIMING_DATA_NP_rec new_SLAVE_DELAY_TIMING_DATA_NP_rec]"

section \<open>The structure a \<open>BaseSigTlv\<close> pointer refers to\<close>

text \<open>
  \<^verbatim>\<open>MANAGEMENT_t\<close> holds a management ID and the TLV parsed for it.
\<close>

datatype BaseSigTlv =
    SIG_MANAGEMENT mng_vals_e BaseMngTlv
  | SIG_ORGANIZATION_EXTENSION ORGANIZATION_EXTENSION_t
  | SIG_PATH_TRACE PATH_TRACE_t
  | SIG_ALTERNATE_TIME_OFFSET_INDICATOR ALTERNATE_TIME_OFFSET_INDICATOR_t
  | SIG_ENHANCED_ACCURACY_METRICS ENHANCED_ACCURACY_METRICS_t
  | SIG_L1_SYNC L1_SYNC_t
  | SIG_PORT_COMMUNICATION_AVAILABILITY PORT_COMMUNICATION_AVAILABILITY_t
  | SIG_PROTOCOL_ADDRESS PROTOCOL_ADDRESS_t
  | SIG_SLAVE_RX_SYNC_TIMING_DATA SLAVE_RX_SYNC_TIMING_DATA_t
  | SIG_SLAVE_RX_SYNC_COMPUTED_DATA SLAVE_RX_SYNC_COMPUTED_DATA_t
  | SIG_SLAVE_TX_EVENT_TIMESTAMPS SLAVE_TX_EVENT_TIMESTAMPS_t
  | SIG_CUMULATIVE_RATE_RATIO CUMULATIVE_RATE_RATIO_t
  | SIG_SLAVE_DELAY_TIMING_DATA_NP SLAVE_DELAY_TIMING_DATA_NP_t

end
