(* ===== verification/MngCodec.thy ===== *)
theory MngCodec
  imports MngTlv
begin

text \<open>
  The reference encodings of the management TLVs and the proof that each function of
  \<^verbatim>\<open>src/proc.cpp\<close> implements its encoding: it builds exactly those octets, fails inside its
  window when there is no room, parses them back into a fresh structure, and never leaves its window
  while parsing. \<open>ok\<close> is what an application must respect (lengths that fit their length
  members, 48-bit values); \<open>norm\<close> is the structure after the call.
\<close>

abbreviation fresh :: "'d \<Rightarrow> 'd \<Rightarrow> 'd \<Rightarrow> int \<Rightarrow> bool" where
  "fresh new \<equiv> \<lambda>_ d0 rest. d0 = new \<and> rest < 2"

lemma unat_scast_len [simp]:
  "n < 32768 \<Longrightarrow> unat (scast (word_of_nat n :: i16) :: u32) = n"
proof -
  assume "n < 32768"
  then have "sint (word_of_nat n :: i16) = int n"
    by (simp add: sint_uint signed_take_bit_eq_if_positive bit_iff_odd take_bit_int_eq_self)
  then have "scast (word_of_nat n :: i16) = (word_of_nat n :: u32)"
    by (simp add: scast_eq)
  with \<open>n < 32768\<close> show ?thesis by (simp add: unat_of_nat)
qed

section \<open>Reference encodings\<close>

definition ok_CLOCK_DESCRIPTION :: "CLOCK_DESCRIPTION_t \<Rightarrow> bool" where
  "ok_CLOCK_DESCRIPTION d \<longleftrightarrow>
     ok_PTPText (CLOCK_DESCRIPTION_t.physicalLayerProtocol d) \<and>
     length (CLOCK_DESCRIPTION_t.physicalAddress d) < 65536 \<and>
     ok_PortAddress (CLOCK_DESCRIPTION_t.protocolAddress d) \<and>
     length (CLOCK_DESCRIPTION_t.manufacturerIdentity d) = 3 \<and>
     ok_PTPText (CLOCK_DESCRIPTION_t.productDescription d) \<and>
     ok_PTPText (CLOCK_DESCRIPTION_t.revisionData d) \<and>
     ok_PTPText (CLOCK_DESCRIPTION_t.userDescription d) \<and>
     length (CLOCK_DESCRIPTION_t.profileIdentity d) = 6"

definition norm_CLOCK_DESCRIPTION :: "CLOCK_DESCRIPTION_t \<Rightarrow> CLOCK_DESCRIPTION_t" where
  "norm_CLOCK_DESCRIPTION d = d\<lparr>
     CLOCK_DESCRIPTION_t.physicalLayerProtocol := norm_PTPText (CLOCK_DESCRIPTION_t.physicalLayerProtocol d),
     CLOCK_DESCRIPTION_t.physicalAddressLength := word_of_nat (length (CLOCK_DESCRIPTION_t.physicalAddress d)),
     CLOCK_DESCRIPTION_t.protocolAddress := norm_PortAddress (CLOCK_DESCRIPTION_t.protocolAddress d),
     CLOCK_DESCRIPTION_t.productDescription := norm_PTPText (CLOCK_DESCRIPTION_t.productDescription d),
     CLOCK_DESCRIPTION_t.revisionData := norm_PTPText (CLOCK_DESCRIPTION_t.revisionData d),
     CLOCK_DESCRIPTION_t.userDescription := norm_PTPText (CLOCK_DESCRIPTION_t.userDescription d)\<rparr>"

definition enc_CLOCK_DESCRIPTION :: "CLOCK_DESCRIPTION_t \<Rightarrow> byte list" where
  "enc_CLOCK_DESCRIPTION d =
     bytes_be 2 (CLOCK_DESCRIPTION_t.clockType d) @
     enc_PTPText (CLOCK_DESCRIPTION_t.physicalLayerProtocol d) @
     bytes_be 2 (word_of_nat (length (CLOCK_DESCRIPTION_t.physicalAddress d)) :: u16) @
     CLOCK_DESCRIPTION_t.physicalAddress d @
     enc_PortAddress (CLOCK_DESCRIPTION_t.protocolAddress d) @
     CLOCK_DESCRIPTION_t.manufacturerIdentity d @ [0] @
     enc_PTPText (CLOCK_DESCRIPTION_t.productDescription d) @
     enc_PTPText (CLOCK_DESCRIPTION_t.revisionData d) @
     enc_PTPText (CLOCK_DESCRIPTION_t.userDescription d) @ CLOCK_DESCRIPTION_t.profileIdentity d"

definition ok_USER_DESCRIPTION :: "USER_DESCRIPTION_t \<Rightarrow> bool" where
  "ok_USER_DESCRIPTION d \<longleftrightarrow>
     ok_PTPText (USER_DESCRIPTION_t.userDescription d)"

definition norm_USER_DESCRIPTION :: "USER_DESCRIPTION_t \<Rightarrow> USER_DESCRIPTION_t" where
  "norm_USER_DESCRIPTION d = d\<lparr>
     USER_DESCRIPTION_t.userDescription := norm_PTPText (USER_DESCRIPTION_t.userDescription d)\<rparr>"

definition enc_USER_DESCRIPTION :: "USER_DESCRIPTION_t \<Rightarrow> byte list" where
  "enc_USER_DESCRIPTION d =
     enc_PTPText (USER_DESCRIPTION_t.userDescription d)"

definition enc_INITIALIZE :: "INITIALIZE_t \<Rightarrow> byte list" where
  "enc_INITIALIZE d =
     bytes_be 2 (INITIALIZE_t.initializationKey d)"

definition ok_FAULT_LOG :: "FAULT_LOG_t \<Rightarrow> bool" where
  "ok_FAULT_LOG d \<longleftrightarrow>
     list_all ok_FaultRecord (FAULT_LOG_t.faultRecords d) \<and>
     unat (FAULT_LOG_t.numberOfFaultRecords d) = length (FAULT_LOG_t.faultRecords d)"

definition norm_FAULT_LOG :: "FAULT_LOG_t \<Rightarrow> FAULT_LOG_t" where
  "norm_FAULT_LOG d = d\<lparr>
     FAULT_LOG_t.faultRecords := map norm_FaultRecord (FAULT_LOG_t.faultRecords d)\<rparr>"

definition enc_FAULT_LOG :: "FAULT_LOG_t \<Rightarrow> byte list" where
  "enc_FAULT_LOG d =
     bytes_be 2 (FAULT_LOG_t.numberOfFaultRecords d) @
     concat (map enc_FaultRecord (FAULT_LOG_t.faultRecords d))"

definition ok_DEFAULT_DATA_SET :: "DEFAULT_DATA_SET_t \<Rightarrow> bool" where
  "ok_DEFAULT_DATA_SET d \<longleftrightarrow>
     ok_ClockIdentity (DEFAULT_DATA_SET_t.clockIdentity d)"

definition norm_DEFAULT_DATA_SET :: "DEFAULT_DATA_SET_t \<Rightarrow> DEFAULT_DATA_SET_t" where
  "norm_DEFAULT_DATA_SET d = d\<lparr>
     DEFAULT_DATA_SET_t.flags := mask_flags 0x3 (DEFAULT_DATA_SET_t.flags d)\<rparr>"

definition enc_DEFAULT_DATA_SET :: "DEFAULT_DATA_SET_t \<Rightarrow> byte list" where
  "enc_DEFAULT_DATA_SET d =
     [mask_flags 0x3 (DEFAULT_DATA_SET_t.flags d)] @ [0] @
     bytes_be 2 (DEFAULT_DATA_SET_t.numberPorts d) @ [DEFAULT_DATA_SET_t.priority1 d] @
     enc_ClockQuality (DEFAULT_DATA_SET_t.clockQuality d) @ [DEFAULT_DATA_SET_t.priority2 d] @
     enc_ClockIdentity (DEFAULT_DATA_SET_t.clockIdentity d) @
     [DEFAULT_DATA_SET_t.domainNumber d]"

definition enc_CURRENT_DATA_SET :: "CURRENT_DATA_SET_t \<Rightarrow> byte list" where
  "enc_CURRENT_DATA_SET d =
     bytes_be 2 (CURRENT_DATA_SET_t.stepsRemoved d) @
     enc_TimeInterval (CURRENT_DATA_SET_t.offsetFromMaster d) @
     enc_TimeInterval (CURRENT_DATA_SET_t.meanPathDelay d)"

definition ok_PARENT_DATA_SET :: "PARENT_DATA_SET_t \<Rightarrow> bool" where
  "ok_PARENT_DATA_SET d \<longleftrightarrow>
     ok_PortIdentity (PARENT_DATA_SET_t.parentPortIdentity d) \<and>
     ok_ClockIdentity (PARENT_DATA_SET_t.grandmasterIdentity d)"

definition norm_PARENT_DATA_SET :: "PARENT_DATA_SET_t \<Rightarrow> PARENT_DATA_SET_t" where
  "norm_PARENT_DATA_SET d = d\<lparr>
     PARENT_DATA_SET_t.flags := mask_flags 0x1 (PARENT_DATA_SET_t.flags d)\<rparr>"

definition enc_PARENT_DATA_SET :: "PARENT_DATA_SET_t \<Rightarrow> byte list" where
  "enc_PARENT_DATA_SET d =
     enc_PortIdentity (PARENT_DATA_SET_t.parentPortIdentity d) @
     [mask_flags 0x1 (PARENT_DATA_SET_t.flags d)] @ [0] @
     bytes_be 2 (PARENT_DATA_SET_t.observedParentOffsetScaledLogVariance d) @
     bytes_be 4 (PARENT_DATA_SET_t.observedParentClockPhaseChangeRate d) @
     [PARENT_DATA_SET_t.grandmasterPriority1 d] @
     enc_ClockQuality (PARENT_DATA_SET_t.grandmasterClockQuality d) @
     [PARENT_DATA_SET_t.grandmasterPriority2 d] @
     enc_ClockIdentity (PARENT_DATA_SET_t.grandmasterIdentity d)"

definition norm_TIME_PROPERTIES_DATA_SET :: "TIME_PROPERTIES_DATA_SET_t \<Rightarrow> TIME_PROPERTIES_DATA_SET_t" where
  "norm_TIME_PROPERTIES_DATA_SET d = d\<lparr>
     TIME_PROPERTIES_DATA_SET_t.flags := mask_flags 0x3f (TIME_PROPERTIES_DATA_SET_t.flags d)\<rparr>"

definition enc_TIME_PROPERTIES_DATA_SET :: "TIME_PROPERTIES_DATA_SET_t \<Rightarrow> byte list" where
  "enc_TIME_PROPERTIES_DATA_SET d =
     bytes_be 2 (TIME_PROPERTIES_DATA_SET_t.currentUtcOffset d) @
     [mask_flags 0x3f (TIME_PROPERTIES_DATA_SET_t.flags d)] @
     [TIME_PROPERTIES_DATA_SET_t.timeSource d]"

definition ok_PORT_DATA_SET :: "PORT_DATA_SET_t \<Rightarrow> bool" where
  "ok_PORT_DATA_SET d \<longleftrightarrow>
     ok_PortIdentity (PORT_DATA_SET_t.portIdentity d)"

definition enc_PORT_DATA_SET :: "PORT_DATA_SET_t \<Rightarrow> byte list" where
  "enc_PORT_DATA_SET d =
     enc_PortIdentity (PORT_DATA_SET_t.portIdentity d) @ [PORT_DATA_SET_t.portState d] @
     [PORT_DATA_SET_t.logMinDelayReqInterval d] @
     enc_TimeInterval (PORT_DATA_SET_t.peerMeanPathDelay d) @
     [PORT_DATA_SET_t.logAnnounceInterval d] @ [PORT_DATA_SET_t.announceReceiptTimeout d] @
     [PORT_DATA_SET_t.logSyncInterval d] @ [PORT_DATA_SET_t.delayMechanism d] @
     [PORT_DATA_SET_t.logMinPdelayReqInterval d] @ [PORT_DATA_SET_t.versionNumber d]"

definition enc_PRIORITY1 :: "PRIORITY1_t \<Rightarrow> byte list" where
  "enc_PRIORITY1 d =
     [PRIORITY1_t.priority1 d]"

definition enc_PRIORITY2 :: "PRIORITY2_t \<Rightarrow> byte list" where
  "enc_PRIORITY2 d =
     [PRIORITY2_t.priority2 d]"

definition enc_DOMAIN :: "DOMAIN_t \<Rightarrow> byte list" where
  "enc_DOMAIN d =
     [DOMAIN_t.domainNumber d]"

definition norm_SLAVE_ONLY :: "SLAVE_ONLY_t \<Rightarrow> SLAVE_ONLY_t" where
  "norm_SLAVE_ONLY d = d\<lparr>
     SLAVE_ONLY_t.flags := mask_flags 0x1 (SLAVE_ONLY_t.flags d)\<rparr>"

definition enc_SLAVE_ONLY :: "SLAVE_ONLY_t \<Rightarrow> byte list" where
  "enc_SLAVE_ONLY d =
     [mask_flags 0x1 (SLAVE_ONLY_t.flags d)]"

definition enc_LOG_ANNOUNCE_INTERVAL :: "LOG_ANNOUNCE_INTERVAL_t \<Rightarrow> byte list" where
  "enc_LOG_ANNOUNCE_INTERVAL d =
     [LOG_ANNOUNCE_INTERVAL_t.logAnnounceInterval d]"

definition enc_ANNOUNCE_RECEIPT_TIMEOUT :: "ANNOUNCE_RECEIPT_TIMEOUT_t \<Rightarrow> byte list" where
  "enc_ANNOUNCE_RECEIPT_TIMEOUT d =
     [ANNOUNCE_RECEIPT_TIMEOUT_t.announceReceiptTimeout d]"

definition enc_LOG_SYNC_INTERVAL :: "LOG_SYNC_INTERVAL_t \<Rightarrow> byte list" where
  "enc_LOG_SYNC_INTERVAL d =
     [LOG_SYNC_INTERVAL_t.logSyncInterval d]"

definition enc_VERSION_NUMBER :: "VERSION_NUMBER_t \<Rightarrow> byte list" where
  "enc_VERSION_NUMBER d =
     [VERSION_NUMBER_t.versionNumber d]"

definition ok_TIME :: "TIME_t \<Rightarrow> bool" where
  "ok_TIME d \<longleftrightarrow>
     ok_Timestamp (TIME_t.currentTime d)"

definition enc_TIME :: "TIME_t \<Rightarrow> byte list" where
  "enc_TIME d =
     enc_Timestamp (TIME_t.currentTime d)"

definition enc_CLOCK_ACCURACY :: "CLOCK_ACCURACY_t \<Rightarrow> byte list" where
  "enc_CLOCK_ACCURACY d =
     [CLOCK_ACCURACY_t.clockAccuracy d]"

definition norm_UTC_PROPERTIES :: "UTC_PROPERTIES_t \<Rightarrow> UTC_PROPERTIES_t" where
  "norm_UTC_PROPERTIES d = d\<lparr>
     UTC_PROPERTIES_t.flags := mask_flags 0x7 (UTC_PROPERTIES_t.flags d)\<rparr>"

definition enc_UTC_PROPERTIES :: "UTC_PROPERTIES_t \<Rightarrow> byte list" where
  "enc_UTC_PROPERTIES d =
     bytes_be 2 (UTC_PROPERTIES_t.currentUtcOffset d) @
     [mask_flags 0x7 (UTC_PROPERTIES_t.flags d)]"

definition norm_TRACEABILITY_PROPERTIES :: "TRACEABILITY_PROPERTIES_t \<Rightarrow> TRACEABILITY_PROPERTIES_t" where
  "norm_TRACEABILITY_PROPERTIES d = d\<lparr>
     TRACEABILITY_PROPERTIES_t.flags := mask_flags 0x30 (TRACEABILITY_PROPERTIES_t.flags d)\<rparr>"

definition enc_TRACEABILITY_PROPERTIES :: "TRACEABILITY_PROPERTIES_t \<Rightarrow> byte list" where
  "enc_TRACEABILITY_PROPERTIES d =
     [mask_flags 0x30 (TRACEABILITY_PROPERTIES_t.flags d)]"

definition norm_TIMESCALE_PROPERTIES :: "TIMESCALE_PROPERTIES_t \<Rightarrow> TIMESCALE_PROPERTIES_t" where
  "norm_TIMESCALE_PROPERTIES d = d\<lparr>
     TIMESCALE_PROPERTIES_t.flags := mask_flags 0x8 (TIMESCALE_PROPERTIES_t.flags d)\<rparr>"

definition enc_TIMESCALE_PROPERTIES :: "TIMESCALE_PROPERTIES_t \<Rightarrow> byte list" where
  "enc_TIMESCALE_PROPERTIES d =
     [mask_flags 0x8 (TIMESCALE_PROPERTIES_t.flags d)] @ [TIMESCALE_PROPERTIES_t.timeSource d]"

definition norm_UNICAST_NEGOTIATION_ENABLE :: "UNICAST_NEGOTIATION_ENABLE_t \<Rightarrow> UNICAST_NEGOTIATION_ENABLE_t" where
  "norm_UNICAST_NEGOTIATION_ENABLE d = d\<lparr>
     UNICAST_NEGOTIATION_ENABLE_t.flags := mask_flags 0x1 (UNICAST_NEGOTIATION_ENABLE_t.flags d)\<rparr>"

definition enc_UNICAST_NEGOTIATION_ENABLE :: "UNICAST_NEGOTIATION_ENABLE_t \<Rightarrow> byte list" where
  "enc_UNICAST_NEGOTIATION_ENABLE d =
     [mask_flags 0x1 (UNICAST_NEGOTIATION_ENABLE_t.flags d)]"

definition ok_PATH_TRACE_LIST :: "PATH_TRACE_LIST_t \<Rightarrow> bool" where
  "ok_PATH_TRACE_LIST d \<longleftrightarrow>
     list_all ok_ClockIdentity (PATH_TRACE_LIST_t.pathSequence d)"

definition enc_PATH_TRACE_LIST :: "PATH_TRACE_LIST_t \<Rightarrow> byte list" where
  "enc_PATH_TRACE_LIST d =
     concat (map enc_ClockIdentity (PATH_TRACE_LIST_t.pathSequence d))"

definition norm_PATH_TRACE_ENABLE :: "PATH_TRACE_ENABLE_t \<Rightarrow> PATH_TRACE_ENABLE_t" where
  "norm_PATH_TRACE_ENABLE d = d\<lparr>
     PATH_TRACE_ENABLE_t.flags := mask_flags 0x1 (PATH_TRACE_ENABLE_t.flags d)\<rparr>"

definition enc_PATH_TRACE_ENABLE :: "PATH_TRACE_ENABLE_t \<Rightarrow> byte list" where
  "enc_PATH_TRACE_ENABLE d =
     [mask_flags 0x1 (PATH_TRACE_ENABLE_t.flags d)]"

definition ok_GRANDMASTER_CLUSTER_TABLE :: "GRANDMASTER_CLUSTER_TABLE_t \<Rightarrow> bool" where
  "ok_GRANDMASTER_CLUSTER_TABLE d \<longleftrightarrow>
     list_all ok_PortAddress (GRANDMASTER_CLUSTER_TABLE_t.PortAddress d) \<and>
     length (GRANDMASTER_CLUSTER_TABLE_t.PortAddress d) < 256"

definition norm_GRANDMASTER_CLUSTER_TABLE :: "GRANDMASTER_CLUSTER_TABLE_t \<Rightarrow> GRANDMASTER_CLUSTER_TABLE_t" where
  "norm_GRANDMASTER_CLUSTER_TABLE d = d\<lparr>
     GRANDMASTER_CLUSTER_TABLE_t.actualTableSize := word_of_nat (length (GRANDMASTER_CLUSTER_TABLE_t.PortAddress d)),
     GRANDMASTER_CLUSTER_TABLE_t.PortAddress := map norm_PortAddress (GRANDMASTER_CLUSTER_TABLE_t.PortAddress d)\<rparr>"

definition enc_GRANDMASTER_CLUSTER_TABLE :: "GRANDMASTER_CLUSTER_TABLE_t \<Rightarrow> byte list" where
  "enc_GRANDMASTER_CLUSTER_TABLE d =
     [GRANDMASTER_CLUSTER_TABLE_t.logQueryInterval d] @
     [word_of_nat (length (GRANDMASTER_CLUSTER_TABLE_t.PortAddress d))] @
     concat (map enc_PortAddress (GRANDMASTER_CLUSTER_TABLE_t.PortAddress d))"

definition ok_UNICAST_MASTER_TABLE :: "UNICAST_MASTER_TABLE_t \<Rightarrow> bool" where
  "ok_UNICAST_MASTER_TABLE d \<longleftrightarrow>
     list_all ok_PortAddress (UNICAST_MASTER_TABLE_t.PortAddress d) \<and>
     length (UNICAST_MASTER_TABLE_t.PortAddress d) < 65536"

definition norm_UNICAST_MASTER_TABLE :: "UNICAST_MASTER_TABLE_t \<Rightarrow> UNICAST_MASTER_TABLE_t" where
  "norm_UNICAST_MASTER_TABLE d = d\<lparr>
     UNICAST_MASTER_TABLE_t.actualTableSize := word_of_nat (length (UNICAST_MASTER_TABLE_t.PortAddress d)),
     UNICAST_MASTER_TABLE_t.PortAddress := map norm_PortAddress (UNICAST_MASTER_TABLE_t.PortAddress d)\<rparr>"

definition enc_UNICAST_MASTER_TABLE :: "UNICAST_MASTER_TABLE_t \<Rightarrow> byte list" where
  "enc_UNICAST_MASTER_TABLE d =
     [UNICAST_MASTER_TABLE_t.logQueryInterval d] @
     bytes_be 2 (word_of_nat (length (UNICAST_MASTER_TABLE_t.PortAddress d)) :: u16) @
     concat (map enc_PortAddress (UNICAST_MASTER_TABLE_t.PortAddress d))"

definition enc_UNICAST_MASTER_MAX_TABLE_SIZE :: "UNICAST_MASTER_MAX_TABLE_SIZE_t \<Rightarrow> byte list" where
  "enc_UNICAST_MASTER_MAX_TABLE_SIZE d =
     bytes_be 2 (UNICAST_MASTER_MAX_TABLE_SIZE_t.maxTableSize d)"

definition ok_ACCEPTABLE_MASTER_TABLE :: "ACCEPTABLE_MASTER_TABLE_t \<Rightarrow> bool" where
  "ok_ACCEPTABLE_MASTER_TABLE d \<longleftrightarrow>
     list_all ok_AcceptableMaster (ACCEPTABLE_MASTER_TABLE_t.master_list d) \<and>
     length (ACCEPTABLE_MASTER_TABLE_t.master_list d) < 32768"

definition norm_ACCEPTABLE_MASTER_TABLE :: "ACCEPTABLE_MASTER_TABLE_t \<Rightarrow> ACCEPTABLE_MASTER_TABLE_t" where
  "norm_ACCEPTABLE_MASTER_TABLE d = d\<lparr>
     ACCEPTABLE_MASTER_TABLE_t.actualTableSize := word_of_nat (length (ACCEPTABLE_MASTER_TABLE_t.master_list d))\<rparr>"

definition enc_ACCEPTABLE_MASTER_TABLE :: "ACCEPTABLE_MASTER_TABLE_t \<Rightarrow> byte list" where
  "enc_ACCEPTABLE_MASTER_TABLE d =
     bytes_be 2 (word_of_nat (length (ACCEPTABLE_MASTER_TABLE_t.master_list d)) :: i16) @
     concat (map enc_AcceptableMaster (ACCEPTABLE_MASTER_TABLE_t.master_list d))"

definition norm_ACCEPTABLE_MASTER_TABLE_ENABLED :: "ACCEPTABLE_MASTER_TABLE_ENABLED_t \<Rightarrow> ACCEPTABLE_MASTER_TABLE_ENABLED_t" where
  "norm_ACCEPTABLE_MASTER_TABLE_ENABLED d = d\<lparr>
     ACCEPTABLE_MASTER_TABLE_ENABLED_t.flags := mask_flags 0x1 (ACCEPTABLE_MASTER_TABLE_ENABLED_t.flags d)\<rparr>"

definition enc_ACCEPTABLE_MASTER_TABLE_ENABLED :: "ACCEPTABLE_MASTER_TABLE_ENABLED_t \<Rightarrow> byte list" where
  "enc_ACCEPTABLE_MASTER_TABLE_ENABLED d =
     [mask_flags 0x1 (ACCEPTABLE_MASTER_TABLE_ENABLED_t.flags d)]"

definition enc_ACCEPTABLE_MASTER_MAX_TABLE_SIZE :: "ACCEPTABLE_MASTER_MAX_TABLE_SIZE_t \<Rightarrow> byte list" where
  "enc_ACCEPTABLE_MASTER_MAX_TABLE_SIZE d =
     bytes_be 2 (ACCEPTABLE_MASTER_MAX_TABLE_SIZE_t.maxTableSize d)"

definition norm_ALTERNATE_MASTER :: "ALTERNATE_MASTER_t \<Rightarrow> ALTERNATE_MASTER_t" where
  "norm_ALTERNATE_MASTER d = d\<lparr>
     ALTERNATE_MASTER_t.flags := mask_flags 0x1 (ALTERNATE_MASTER_t.flags d)\<rparr>"

definition enc_ALTERNATE_MASTER :: "ALTERNATE_MASTER_t \<Rightarrow> byte list" where
  "enc_ALTERNATE_MASTER d =
     [mask_flags 0x1 (ALTERNATE_MASTER_t.flags d)] @
     [ALTERNATE_MASTER_t.logAlternateMulticastSyncInterval d] @
     [ALTERNATE_MASTER_t.numberOfAlternateMasters d]"

definition norm_ALTERNATE_TIME_OFFSET_ENABLE :: "ALTERNATE_TIME_OFFSET_ENABLE_t \<Rightarrow> ALTERNATE_TIME_OFFSET_ENABLE_t" where
  "norm_ALTERNATE_TIME_OFFSET_ENABLE d = d\<lparr>
     ALTERNATE_TIME_OFFSET_ENABLE_t.flags := mask_flags 0x1 (ALTERNATE_TIME_OFFSET_ENABLE_t.flags d)\<rparr>"

definition enc_ALTERNATE_TIME_OFFSET_ENABLE :: "ALTERNATE_TIME_OFFSET_ENABLE_t \<Rightarrow> byte list" where
  "enc_ALTERNATE_TIME_OFFSET_ENABLE d =
     [ALTERNATE_TIME_OFFSET_ENABLE_t.keyField d] @
     [mask_flags 0x1 (ALTERNATE_TIME_OFFSET_ENABLE_t.flags d)]"

definition ok_ALTERNATE_TIME_OFFSET_NAME :: "ALTERNATE_TIME_OFFSET_NAME_t \<Rightarrow> bool" where
  "ok_ALTERNATE_TIME_OFFSET_NAME d \<longleftrightarrow>
     ok_PTPText (ALTERNATE_TIME_OFFSET_NAME_t.displayName d)"

definition norm_ALTERNATE_TIME_OFFSET_NAME :: "ALTERNATE_TIME_OFFSET_NAME_t \<Rightarrow> ALTERNATE_TIME_OFFSET_NAME_t" where
  "norm_ALTERNATE_TIME_OFFSET_NAME d = d\<lparr>
     ALTERNATE_TIME_OFFSET_NAME_t.displayName := norm_PTPText (ALTERNATE_TIME_OFFSET_NAME_t.displayName d)\<rparr>"

definition enc_ALTERNATE_TIME_OFFSET_NAME :: "ALTERNATE_TIME_OFFSET_NAME_t \<Rightarrow> byte list" where
  "enc_ALTERNATE_TIME_OFFSET_NAME d =
     [ALTERNATE_TIME_OFFSET_NAME_t.keyField d] @
     enc_PTPText (ALTERNATE_TIME_OFFSET_NAME_t.displayName d)"

definition enc_ALTERNATE_TIME_OFFSET_MAX_KEY :: "ALTERNATE_TIME_OFFSET_MAX_KEY_t \<Rightarrow> byte list" where
  "enc_ALTERNATE_TIME_OFFSET_MAX_KEY d =
     [ALTERNATE_TIME_OFFSET_MAX_KEY_t.maxKey d]"

definition ok_ALTERNATE_TIME_OFFSET_PROPERTIES :: "ALTERNATE_TIME_OFFSET_PROPERTIES_t \<Rightarrow> bool" where
  "ok_ALTERNATE_TIME_OFFSET_PROPERTIES d \<longleftrightarrow>
     ALTERNATE_TIME_OFFSET_PROPERTIES_t.timeOfNextJump d \<le> UINT48_MAX"

definition enc_ALTERNATE_TIME_OFFSET_PROPERTIES :: "ALTERNATE_TIME_OFFSET_PROPERTIES_t \<Rightarrow> byte list" where
  "enc_ALTERNATE_TIME_OFFSET_PROPERTIES d =
     [ALTERNATE_TIME_OFFSET_PROPERTIES_t.keyField d] @
     bytes_be 4 (ALTERNATE_TIME_OFFSET_PROPERTIES_t.currentOffset d) @
     bytes_be 4 (ALTERNATE_TIME_OFFSET_PROPERTIES_t.jumpSeconds d) @
     bytes_be 6 (ALTERNATE_TIME_OFFSET_PROPERTIES_t.timeOfNextJump d)"

definition ok_TRANSPARENT_CLOCK_PORT_DATA_SET :: "TRANSPARENT_CLOCK_PORT_DATA_SET_t \<Rightarrow> bool" where
  "ok_TRANSPARENT_CLOCK_PORT_DATA_SET d \<longleftrightarrow>
     ok_PortIdentity (TRANSPARENT_CLOCK_PORT_DATA_SET_t.portIdentity d)"

definition norm_TRANSPARENT_CLOCK_PORT_DATA_SET :: "TRANSPARENT_CLOCK_PORT_DATA_SET_t \<Rightarrow> TRANSPARENT_CLOCK_PORT_DATA_SET_t" where
  "norm_TRANSPARENT_CLOCK_PORT_DATA_SET d = d\<lparr>
     TRANSPARENT_CLOCK_PORT_DATA_SET_t.flags := mask_flags 0x1 (TRANSPARENT_CLOCK_PORT_DATA_SET_t.flags d)\<rparr>"

definition enc_TRANSPARENT_CLOCK_PORT_DATA_SET :: "TRANSPARENT_CLOCK_PORT_DATA_SET_t \<Rightarrow> byte list" where
  "enc_TRANSPARENT_CLOCK_PORT_DATA_SET d =
     enc_PortIdentity (TRANSPARENT_CLOCK_PORT_DATA_SET_t.portIdentity d) @
     [mask_flags 0x1 (TRANSPARENT_CLOCK_PORT_DATA_SET_t.flags d)] @
     [TRANSPARENT_CLOCK_PORT_DATA_SET_t.logMinPdelayReqInterval d] @
     enc_TimeInterval (TRANSPARENT_CLOCK_PORT_DATA_SET_t.peerMeanPathDelay d)"

definition enc_LOG_MIN_PDELAY_REQ_INTERVAL :: "LOG_MIN_PDELAY_REQ_INTERVAL_t \<Rightarrow> byte list" where
  "enc_LOG_MIN_PDELAY_REQ_INTERVAL d =
     [LOG_MIN_PDELAY_REQ_INTERVAL_t.logMinPdelayReqInterval d]"

definition ok_TRANSPARENT_CLOCK_DEFAULT_DATA_SET :: "TRANSPARENT_CLOCK_DEFAULT_DATA_SET_t \<Rightarrow> bool" where
  "ok_TRANSPARENT_CLOCK_DEFAULT_DATA_SET d \<longleftrightarrow>
     ok_ClockIdentity (TRANSPARENT_CLOCK_DEFAULT_DATA_SET_t.clockIdentity d)"

definition enc_TRANSPARENT_CLOCK_DEFAULT_DATA_SET :: "TRANSPARENT_CLOCK_DEFAULT_DATA_SET_t \<Rightarrow> byte list" where
  "enc_TRANSPARENT_CLOCK_DEFAULT_DATA_SET d =
     enc_ClockIdentity (TRANSPARENT_CLOCK_DEFAULT_DATA_SET_t.clockIdentity d) @
     bytes_be 2 (TRANSPARENT_CLOCK_DEFAULT_DATA_SET_t.numberPorts d) @
     [TRANSPARENT_CLOCK_DEFAULT_DATA_SET_t.delayMechanism d] @
     [TRANSPARENT_CLOCK_DEFAULT_DATA_SET_t.primaryDomain d]"

definition enc_PRIMARY_DOMAIN :: "PRIMARY_DOMAIN_t \<Rightarrow> byte list" where
  "enc_PRIMARY_DOMAIN d =
     [PRIMARY_DOMAIN_t.primaryDomain d]"

definition enc_DELAY_MECHANISM :: "DELAY_MECHANISM_t \<Rightarrow> byte list" where
  "enc_DELAY_MECHANISM d =
     [DELAY_MECHANISM_t.delayMechanism d]"

definition norm_EXTERNAL_PORT_CONFIGURATION_ENABLED :: "EXTERNAL_PORT_CONFIGURATION_ENABLED_t \<Rightarrow> EXTERNAL_PORT_CONFIGURATION_ENABLED_t" where
  "norm_EXTERNAL_PORT_CONFIGURATION_ENABLED d = d\<lparr>
     EXTERNAL_PORT_CONFIGURATION_ENABLED_t.flags := mask_flags 0x1 (EXTERNAL_PORT_CONFIGURATION_ENABLED_t.flags d)\<rparr>"

definition enc_EXTERNAL_PORT_CONFIGURATION_ENABLED :: "EXTERNAL_PORT_CONFIGURATION_ENABLED_t \<Rightarrow> byte list" where
  "enc_EXTERNAL_PORT_CONFIGURATION_ENABLED d =
     [mask_flags 0x1 (EXTERNAL_PORT_CONFIGURATION_ENABLED_t.flags d)]"

definition norm_MASTER_ONLY :: "MASTER_ONLY_t \<Rightarrow> MASTER_ONLY_t" where
  "norm_MASTER_ONLY d = d\<lparr>
     MASTER_ONLY_t.flags := mask_flags 0x1 (MASTER_ONLY_t.flags d)\<rparr>"

definition enc_MASTER_ONLY :: "MASTER_ONLY_t \<Rightarrow> byte list" where
  "enc_MASTER_ONLY d =
     [mask_flags 0x1 (MASTER_ONLY_t.flags d)]"

definition norm_HOLDOVER_UPGRADE_ENABLE :: "HOLDOVER_UPGRADE_ENABLE_t \<Rightarrow> HOLDOVER_UPGRADE_ENABLE_t" where
  "norm_HOLDOVER_UPGRADE_ENABLE d = d\<lparr>
     HOLDOVER_UPGRADE_ENABLE_t.flags := mask_flags 0x1 (HOLDOVER_UPGRADE_ENABLE_t.flags d)\<rparr>"

definition enc_HOLDOVER_UPGRADE_ENABLE :: "HOLDOVER_UPGRADE_ENABLE_t \<Rightarrow> byte list" where
  "enc_HOLDOVER_UPGRADE_ENABLE d =
     [mask_flags 0x1 (HOLDOVER_UPGRADE_ENABLE_t.flags d)]"

definition norm_EXT_PORT_CONFIG_PORT_DATA_SET :: "EXT_PORT_CONFIG_PORT_DATA_SET_t \<Rightarrow> EXT_PORT_CONFIG_PORT_DATA_SET_t" where
  "norm_EXT_PORT_CONFIG_PORT_DATA_SET d = d\<lparr>
     EXT_PORT_CONFIG_PORT_DATA_SET_t.flags := mask_flags 0x1 (EXT_PORT_CONFIG_PORT_DATA_SET_t.flags d)\<rparr>"

definition enc_EXT_PORT_CONFIG_PORT_DATA_SET :: "EXT_PORT_CONFIG_PORT_DATA_SET_t \<Rightarrow> byte list" where
  "enc_EXT_PORT_CONFIG_PORT_DATA_SET d =
     [mask_flags 0x1 (EXT_PORT_CONFIG_PORT_DATA_SET_t.flags d)] @
     [EXT_PORT_CONFIG_PORT_DATA_SET_t.desiredState d]"

definition ok_TIME_STATUS_NP :: "TIME_STATUS_NP_t \<Rightarrow> bool" where
  "ok_TIME_STATUS_NP d \<longleftrightarrow>
     ok_ClockIdentity (TIME_STATUS_NP_t.gmIdentity d)"

definition enc_TIME_STATUS_NP :: "TIME_STATUS_NP_t \<Rightarrow> byte list" where
  "enc_TIME_STATUS_NP d =
     bytes_be 8 (TIME_STATUS_NP_t.master_offset d) @
     bytes_be 8 (TIME_STATUS_NP_t.ingress_time d) @
     bytes_be 4 (TIME_STATUS_NP_t.cumulativeScaledRateOffset d) @
     bytes_be 4 (TIME_STATUS_NP_t.scaledLastGmPhaseChange d) @
     bytes_be 2 (TIME_STATUS_NP_t.gmTimeBaseIndicator d) @
     bytes_be 2 (TIME_STATUS_NP_t.nanoseconds_msb d) @
     bytes_be 8 (TIME_STATUS_NP_t.nanoseconds_lsb d) @
     bytes_be 2 (TIME_STATUS_NP_t.fractional_nanoseconds d) @
     bytes_be 4 (TIME_STATUS_NP_t.gmPresent d) @
     enc_ClockIdentity (TIME_STATUS_NP_t.gmIdentity d)"

definition norm_GRANDMASTER_SETTINGS_NP :: "GRANDMASTER_SETTINGS_NP_t \<Rightarrow> GRANDMASTER_SETTINGS_NP_t" where
  "norm_GRANDMASTER_SETTINGS_NP d = d\<lparr>
     GRANDMASTER_SETTINGS_NP_t.flags := mask_flags 0x3f (GRANDMASTER_SETTINGS_NP_t.flags d)\<rparr>"

definition enc_GRANDMASTER_SETTINGS_NP :: "GRANDMASTER_SETTINGS_NP_t \<Rightarrow> byte list" where
  "enc_GRANDMASTER_SETTINGS_NP d =
     enc_ClockQuality (GRANDMASTER_SETTINGS_NP_t.clockQuality d) @
     bytes_be 2 (GRANDMASTER_SETTINGS_NP_t.currentUtcOffset d) @
     [mask_flags 0x3f (GRANDMASTER_SETTINGS_NP_t.flags d)] @
     [GRANDMASTER_SETTINGS_NP_t.timeSource d]"

definition enc_PORT_DATA_SET_NP :: "PORT_DATA_SET_NP_t \<Rightarrow> byte list" where
  "enc_PORT_DATA_SET_NP d =
     bytes_be 4 (PORT_DATA_SET_NP_t.neighborPropDelayThresh d) @
     bytes_be 4 (PORT_DATA_SET_NP_t.asCapable d)"

definition ok_SUBSCRIBE_EVENTS_NP :: "SUBSCRIBE_EVENTS_NP_t \<Rightarrow> bool" where
  "ok_SUBSCRIBE_EVENTS_NP d \<longleftrightarrow>
     length (SUBSCRIBE_EVENTS_NP_t.bitmask d) = 64"

definition enc_SUBSCRIBE_EVENTS_NP :: "SUBSCRIBE_EVENTS_NP_t \<Rightarrow> byte list" where
  "enc_SUBSCRIBE_EVENTS_NP d =
     bytes_be 2 (SUBSCRIBE_EVENTS_NP_t.duration d) @ SUBSCRIBE_EVENTS_NP_t.bitmask d"

definition ok_PORT_PROPERTIES_NP :: "PORT_PROPERTIES_NP_t \<Rightarrow> bool" where
  "ok_PORT_PROPERTIES_NP d \<longleftrightarrow>
     ok_PortIdentity (PORT_PROPERTIES_NP_t.portIdentity d) \<and>
     ok_PTPText (PORT_PROPERTIES_NP_t.interface d)"

definition norm_PORT_PROPERTIES_NP :: "PORT_PROPERTIES_NP_t \<Rightarrow> PORT_PROPERTIES_NP_t" where
  "norm_PORT_PROPERTIES_NP d = d\<lparr>
     PORT_PROPERTIES_NP_t.interface := norm_PTPText (PORT_PROPERTIES_NP_t.interface d)\<rparr>"

definition enc_PORT_PROPERTIES_NP :: "PORT_PROPERTIES_NP_t \<Rightarrow> byte list" where
  "enc_PORT_PROPERTIES_NP d =
     enc_PortIdentity (PORT_PROPERTIES_NP_t.portIdentity d) @
     [PORT_PROPERTIES_NP_t.portState d] @ [PORT_PROPERTIES_NP_t.timestamping d] @
     enc_PTPText (PORT_PROPERTIES_NP_t.interface d)"

definition ok_PORT_STATS_NP :: "PORT_STATS_NP_t \<Rightarrow> bool" where
  "ok_PORT_STATS_NP d \<longleftrightarrow>
     ok_PortIdentity (PORT_STATS_NP_t.portIdentity d) \<and>
     length (PORT_STATS_NP_t.rxMsgType d) = 16 \<and> length (PORT_STATS_NP_t.txMsgType d) = 16"

definition enc_PORT_STATS_NP :: "PORT_STATS_NP_t \<Rightarrow> byte list" where
  "enc_PORT_STATS_NP d =
     enc_PortIdentity (PORT_STATS_NP_t.portIdentity d) @
     concat (map (bytes_le 8) (PORT_STATS_NP_t.rxMsgType d)) @
     concat (map (bytes_le 8) (PORT_STATS_NP_t.txMsgType d))"

definition enc_SYNCHRONIZATION_UNCERTAIN_NP :: "SYNCHRONIZATION_UNCERTAIN_NP_t \<Rightarrow> byte list" where
  "enc_SYNCHRONIZATION_UNCERTAIN_NP d =
     [SYNCHRONIZATION_UNCERTAIN_NP_t.uncertain_val d]"

section \<open>The functions implement the encodings\<close>

lemma codec_CLOCK_DESCRIPTION:
  "wire_codec CLOCK_DESCRIPTION_f ok_CLOCK_DESCRIPTION enc_CLOCK_DESCRIPTION (\<lambda>x _. norm_CLOCK_DESCRIPTION x) (fresh new_CLOCK_DESCRIPTION)"
  unfolding CLOCK_DESCRIPTION_f_def
  by (rule codec_weaken, (rule codec_rules)+)
    (auto simp: enc_CLOCK_DESCRIPTION_def ok_CLOCK_DESCRIPTION_def norm_CLOCK_DESCRIPTION_def new_CLOCK_DESCRIPTION_def)

lemma codec_USER_DESCRIPTION:
  "wire_codec USER_DESCRIPTION_f ok_USER_DESCRIPTION enc_USER_DESCRIPTION (\<lambda>x _. norm_USER_DESCRIPTION x) (fresh new_USER_DESCRIPTION)"
  unfolding USER_DESCRIPTION_f_def
  by (rule codec_weaken, (rule codec_rules)+)
    (auto simp: enc_USER_DESCRIPTION_def ok_USER_DESCRIPTION_def norm_USER_DESCRIPTION_def new_USER_DESCRIPTION_def)

lemma codec_INITIALIZE:
  "wire_codec INITIALIZE_f (\<lambda>_. True) enc_INITIALIZE (\<lambda>x _. x) (fresh new_INITIALIZE)"
  unfolding INITIALIZE_f_def
  by (rule codec_weaken, (rule codec_rules)+)
    (auto simp: enc_INITIALIZE_def new_INITIALIZE_def)

lemma codec_FAULT_LOG:
  "wire_codec FAULT_LOG_f ok_FAULT_LOG enc_FAULT_LOG (\<lambda>x _. norm_FAULT_LOG x) (fresh new_FAULT_LOG)"
  unfolding FAULT_LOG_f_def
  by (rule codec_weaken, (rule codec_rules)+)
    (auto simp: enc_FAULT_LOG_def ok_FAULT_LOG_def norm_FAULT_LOG_def new_FAULT_LOG_def)

lemma codec_DEFAULT_DATA_SET:
  "wire_codec DEFAULT_DATA_SET_f ok_DEFAULT_DATA_SET enc_DEFAULT_DATA_SET (\<lambda>x _. norm_DEFAULT_DATA_SET x) (fresh new_DEFAULT_DATA_SET)"
  unfolding DEFAULT_DATA_SET_f_def
  by (rule codec_weaken, (rule codec_rules)+)
    (auto simp: enc_DEFAULT_DATA_SET_def ok_DEFAULT_DATA_SET_def norm_DEFAULT_DATA_SET_def new_DEFAULT_DATA_SET_def)

lemma codec_CURRENT_DATA_SET:
  "wire_codec CURRENT_DATA_SET_f (\<lambda>_. True) enc_CURRENT_DATA_SET (\<lambda>x _. x) (fresh new_CURRENT_DATA_SET)"
  unfolding CURRENT_DATA_SET_f_def
  by (rule codec_weaken, (rule codec_rules)+)
    (auto simp: enc_CURRENT_DATA_SET_def new_CURRENT_DATA_SET_def)

lemma codec_PARENT_DATA_SET:
  "wire_codec PARENT_DATA_SET_f ok_PARENT_DATA_SET enc_PARENT_DATA_SET (\<lambda>x _. norm_PARENT_DATA_SET x) (fresh new_PARENT_DATA_SET)"
  unfolding PARENT_DATA_SET_f_def
  by (rule codec_weaken, (rule codec_rules)+)
    (auto simp: enc_PARENT_DATA_SET_def ok_PARENT_DATA_SET_def norm_PARENT_DATA_SET_def new_PARENT_DATA_SET_def)

lemma codec_TIME_PROPERTIES_DATA_SET:
  "wire_codec TIME_PROPERTIES_DATA_SET_f (\<lambda>_. True) enc_TIME_PROPERTIES_DATA_SET (\<lambda>x _. norm_TIME_PROPERTIES_DATA_SET x) (fresh new_TIME_PROPERTIES_DATA_SET)"
  unfolding TIME_PROPERTIES_DATA_SET_f_def
  by (rule codec_weaken, (rule codec_rules)+)
    (auto simp: enc_TIME_PROPERTIES_DATA_SET_def norm_TIME_PROPERTIES_DATA_SET_def new_TIME_PROPERTIES_DATA_SET_def)

lemma codec_PORT_DATA_SET:
  "wire_codec PORT_DATA_SET_f ok_PORT_DATA_SET enc_PORT_DATA_SET (\<lambda>x _. x) (fresh new_PORT_DATA_SET)"
  unfolding PORT_DATA_SET_f_def
  by (rule codec_weaken, (rule codec_rules)+)
    (auto simp: enc_PORT_DATA_SET_def ok_PORT_DATA_SET_def new_PORT_DATA_SET_def)

lemma codec_PRIORITY1:
  "wire_codec PRIORITY1_f (\<lambda>_. True) enc_PRIORITY1 (\<lambda>x _. x) (fresh new_PRIORITY1)"
  unfolding PRIORITY1_f_def
  by (rule codec_weaken, (rule codec_rules)+)
    (auto simp: enc_PRIORITY1_def new_PRIORITY1_def)

lemma codec_PRIORITY2:
  "wire_codec PRIORITY2_f (\<lambda>_. True) enc_PRIORITY2 (\<lambda>x _. x) (fresh new_PRIORITY2)"
  unfolding PRIORITY2_f_def
  by (rule codec_weaken, (rule codec_rules)+)
    (auto simp: enc_PRIORITY2_def new_PRIORITY2_def)

lemma codec_DOMAIN:
  "wire_codec DOMAIN_f (\<lambda>_. True) enc_DOMAIN (\<lambda>x _. x) (fresh new_DOMAIN)"
  unfolding DOMAIN_f_def
  by (rule codec_weaken, (rule codec_rules)+)
    (auto simp: enc_DOMAIN_def new_DOMAIN_def)

lemma codec_SLAVE_ONLY:
  "wire_codec SLAVE_ONLY_f (\<lambda>_. True) enc_SLAVE_ONLY (\<lambda>x _. norm_SLAVE_ONLY x) (fresh new_SLAVE_ONLY)"
  unfolding SLAVE_ONLY_f_def
  by (rule codec_weaken, (rule codec_rules)+)
    (auto simp: enc_SLAVE_ONLY_def norm_SLAVE_ONLY_def new_SLAVE_ONLY_def)

lemma codec_LOG_ANNOUNCE_INTERVAL:
  "wire_codec LOG_ANNOUNCE_INTERVAL_f (\<lambda>_. True) enc_LOG_ANNOUNCE_INTERVAL (\<lambda>x _. x) (fresh new_LOG_ANNOUNCE_INTERVAL)"
  unfolding LOG_ANNOUNCE_INTERVAL_f_def
  by (rule codec_weaken, (rule codec_rules)+)
    (auto simp: enc_LOG_ANNOUNCE_INTERVAL_def new_LOG_ANNOUNCE_INTERVAL_def)

lemma codec_ANNOUNCE_RECEIPT_TIMEOUT:
  "wire_codec ANNOUNCE_RECEIPT_TIMEOUT_f (\<lambda>_. True) enc_ANNOUNCE_RECEIPT_TIMEOUT (\<lambda>x _. x) (fresh new_ANNOUNCE_RECEIPT_TIMEOUT)"
  unfolding ANNOUNCE_RECEIPT_TIMEOUT_f_def
  by (rule codec_weaken, (rule codec_rules)+)
    (auto simp: enc_ANNOUNCE_RECEIPT_TIMEOUT_def new_ANNOUNCE_RECEIPT_TIMEOUT_def)

lemma codec_LOG_SYNC_INTERVAL:
  "wire_codec LOG_SYNC_INTERVAL_f (\<lambda>_. True) enc_LOG_SYNC_INTERVAL (\<lambda>x _. x) (fresh new_LOG_SYNC_INTERVAL)"
  unfolding LOG_SYNC_INTERVAL_f_def
  by (rule codec_weaken, (rule codec_rules)+)
    (auto simp: enc_LOG_SYNC_INTERVAL_def new_LOG_SYNC_INTERVAL_def)

lemma codec_VERSION_NUMBER:
  "wire_codec VERSION_NUMBER_f (\<lambda>_. True) enc_VERSION_NUMBER (\<lambda>x _. x) (fresh new_VERSION_NUMBER)"
  unfolding VERSION_NUMBER_f_def
  by (rule codec_weaken, (rule codec_rules)+)
    (auto simp: enc_VERSION_NUMBER_def new_VERSION_NUMBER_def)

lemma codec_TIME:
  "wire_codec TIME_f ok_TIME enc_TIME (\<lambda>x _. x) (fresh new_TIME)"
  unfolding TIME_f_def
  by (rule codec_weaken, (rule codec_rules)+)
    (auto simp: enc_TIME_def ok_TIME_def new_TIME_def)

lemma codec_CLOCK_ACCURACY:
  "wire_codec CLOCK_ACCURACY_f (\<lambda>_. True) enc_CLOCK_ACCURACY (\<lambda>x _. x) (fresh new_CLOCK_ACCURACY)"
  unfolding CLOCK_ACCURACY_f_def
  by (rule codec_weaken, (rule codec_rules)+)
    (auto simp: enc_CLOCK_ACCURACY_def new_CLOCK_ACCURACY_def)

lemma codec_UTC_PROPERTIES:
  "wire_codec UTC_PROPERTIES_f (\<lambda>_. True) enc_UTC_PROPERTIES (\<lambda>x _. norm_UTC_PROPERTIES x) (fresh new_UTC_PROPERTIES)"
  unfolding UTC_PROPERTIES_f_def
  by (rule codec_weaken, (rule codec_rules)+)
    (auto simp: enc_UTC_PROPERTIES_def norm_UTC_PROPERTIES_def new_UTC_PROPERTIES_def)

lemma codec_TRACEABILITY_PROPERTIES:
  "wire_codec TRACEABILITY_PROPERTIES_f (\<lambda>_. True) enc_TRACEABILITY_PROPERTIES (\<lambda>x _. norm_TRACEABILITY_PROPERTIES x) (fresh new_TRACEABILITY_PROPERTIES)"
  unfolding TRACEABILITY_PROPERTIES_f_def
  by (rule codec_weaken, (rule codec_rules)+)
    (auto simp: enc_TRACEABILITY_PROPERTIES_def norm_TRACEABILITY_PROPERTIES_def new_TRACEABILITY_PROPERTIES_def)

lemma codec_TIMESCALE_PROPERTIES:
  "wire_codec TIMESCALE_PROPERTIES_f (\<lambda>_. True) enc_TIMESCALE_PROPERTIES (\<lambda>x _. norm_TIMESCALE_PROPERTIES x) (fresh new_TIMESCALE_PROPERTIES)"
  unfolding TIMESCALE_PROPERTIES_f_def
  by (rule codec_weaken, (rule codec_rules)+)
    (auto simp: enc_TIMESCALE_PROPERTIES_def norm_TIMESCALE_PROPERTIES_def new_TIMESCALE_PROPERTIES_def)

lemma codec_UNICAST_NEGOTIATION_ENABLE:
  "wire_codec UNICAST_NEGOTIATION_ENABLE_f (\<lambda>_. True) enc_UNICAST_NEGOTIATION_ENABLE (\<lambda>x _. norm_UNICAST_NEGOTIATION_ENABLE x) (fresh new_UNICAST_NEGOTIATION_ENABLE)"
  unfolding UNICAST_NEGOTIATION_ENABLE_f_def
  by (rule codec_weaken, (rule codec_rules)+)
    (auto simp: enc_UNICAST_NEGOTIATION_ENABLE_def norm_UNICAST_NEGOTIATION_ENABLE_def new_UNICAST_NEGOTIATION_ENABLE_def)

lemma codec_PATH_TRACE_LIST:
  "wire_codec PATH_TRACE_LIST_f ok_PATH_TRACE_LIST enc_PATH_TRACE_LIST (\<lambda>x _. x) (fresh new_PATH_TRACE_LIST)"
  unfolding PATH_TRACE_LIST_f_def
  by (rule codec_weaken, (rule codec_rules)+)
    (auto simp: enc_PATH_TRACE_LIST_def ok_PATH_TRACE_LIST_def new_PATH_TRACE_LIST_def ClockIdentity_size_def ok_ClockIdentity_def enc_ClockIdentity_def intro: codec_procs_Nil)

lemma codec_PATH_TRACE_ENABLE:
  "wire_codec PATH_TRACE_ENABLE_f (\<lambda>_. True) enc_PATH_TRACE_ENABLE (\<lambda>x _. norm_PATH_TRACE_ENABLE x) (fresh new_PATH_TRACE_ENABLE)"
  unfolding PATH_TRACE_ENABLE_f_def
  by (rule codec_weaken, (rule codec_rules)+)
    (auto simp: enc_PATH_TRACE_ENABLE_def norm_PATH_TRACE_ENABLE_def new_PATH_TRACE_ENABLE_def)

lemma codec_GRANDMASTER_CLUSTER_TABLE:
  "wire_codec GRANDMASTER_CLUSTER_TABLE_f ok_GRANDMASTER_CLUSTER_TABLE enc_GRANDMASTER_CLUSTER_TABLE (\<lambda>x _. norm_GRANDMASTER_CLUSTER_TABLE x) (fresh new_GRANDMASTER_CLUSTER_TABLE)"
  unfolding GRANDMASTER_CLUSTER_TABLE_f_def
  by (rule codec_weaken, (rule codec_rules)+)
    (auto simp: enc_GRANDMASTER_CLUSTER_TABLE_def ok_GRANDMASTER_CLUSTER_TABLE_def norm_GRANDMASTER_CLUSTER_TABLE_def new_GRANDMASTER_CLUSTER_TABLE_def)

lemma codec_UNICAST_MASTER_TABLE:
  "wire_codec UNICAST_MASTER_TABLE_f ok_UNICAST_MASTER_TABLE enc_UNICAST_MASTER_TABLE (\<lambda>x _. norm_UNICAST_MASTER_TABLE x) (fresh new_UNICAST_MASTER_TABLE)"
  unfolding UNICAST_MASTER_TABLE_f_def
  by (rule codec_weaken, (rule codec_rules)+)
    (auto simp: enc_UNICAST_MASTER_TABLE_def ok_UNICAST_MASTER_TABLE_def norm_UNICAST_MASTER_TABLE_def new_UNICAST_MASTER_TABLE_def)

lemma codec_UNICAST_MASTER_MAX_TABLE_SIZE:
  "wire_codec UNICAST_MASTER_MAX_TABLE_SIZE_f (\<lambda>_. True) enc_UNICAST_MASTER_MAX_TABLE_SIZE (\<lambda>x _. x) (fresh new_UNICAST_MASTER_MAX_TABLE_SIZE)"
  unfolding UNICAST_MASTER_MAX_TABLE_SIZE_f_def
  by (rule codec_weaken, (rule codec_rules)+)
    (auto simp: enc_UNICAST_MASTER_MAX_TABLE_SIZE_def new_UNICAST_MASTER_MAX_TABLE_SIZE_def)

lemma codec_ACCEPTABLE_MASTER_TABLE:
  "wire_codec ACCEPTABLE_MASTER_TABLE_f ok_ACCEPTABLE_MASTER_TABLE enc_ACCEPTABLE_MASTER_TABLE (\<lambda>x _. norm_ACCEPTABLE_MASTER_TABLE x) (fresh new_ACCEPTABLE_MASTER_TABLE)"
  unfolding ACCEPTABLE_MASTER_TABLE_f_def
  by (rule codec_weaken, (rule codec_rules)+)
    (auto simp: enc_ACCEPTABLE_MASTER_TABLE_def ok_ACCEPTABLE_MASTER_TABLE_def norm_ACCEPTABLE_MASTER_TABLE_def new_ACCEPTABLE_MASTER_TABLE_def)

lemma codec_ACCEPTABLE_MASTER_TABLE_ENABLED:
  "wire_codec ACCEPTABLE_MASTER_TABLE_ENABLED_f (\<lambda>_. True) enc_ACCEPTABLE_MASTER_TABLE_ENABLED (\<lambda>x _. norm_ACCEPTABLE_MASTER_TABLE_ENABLED x) (fresh new_ACCEPTABLE_MASTER_TABLE_ENABLED)"
  unfolding ACCEPTABLE_MASTER_TABLE_ENABLED_f_def
  by (rule codec_weaken, (rule codec_rules)+)
    (auto simp: enc_ACCEPTABLE_MASTER_TABLE_ENABLED_def norm_ACCEPTABLE_MASTER_TABLE_ENABLED_def new_ACCEPTABLE_MASTER_TABLE_ENABLED_def)

lemma codec_ACCEPTABLE_MASTER_MAX_TABLE_SIZE:
  "wire_codec ACCEPTABLE_MASTER_MAX_TABLE_SIZE_f (\<lambda>_. True) enc_ACCEPTABLE_MASTER_MAX_TABLE_SIZE (\<lambda>x _. x) (fresh new_ACCEPTABLE_MASTER_MAX_TABLE_SIZE)"
  unfolding ACCEPTABLE_MASTER_MAX_TABLE_SIZE_f_def
  by (rule codec_weaken, (rule codec_rules)+)
    (auto simp: enc_ACCEPTABLE_MASTER_MAX_TABLE_SIZE_def new_ACCEPTABLE_MASTER_MAX_TABLE_SIZE_def)

lemma codec_ALTERNATE_MASTER:
  "wire_codec ALTERNATE_MASTER_f (\<lambda>_. True) enc_ALTERNATE_MASTER (\<lambda>x _. norm_ALTERNATE_MASTER x) (fresh new_ALTERNATE_MASTER)"
  unfolding ALTERNATE_MASTER_f_def
  by (rule codec_weaken, (rule codec_rules)+)
    (auto simp: enc_ALTERNATE_MASTER_def norm_ALTERNATE_MASTER_def new_ALTERNATE_MASTER_def)

lemma codec_ALTERNATE_TIME_OFFSET_ENABLE:
  "wire_codec ALTERNATE_TIME_OFFSET_ENABLE_f (\<lambda>_. True) enc_ALTERNATE_TIME_OFFSET_ENABLE (\<lambda>x _. norm_ALTERNATE_TIME_OFFSET_ENABLE x) (fresh new_ALTERNATE_TIME_OFFSET_ENABLE)"
  unfolding ALTERNATE_TIME_OFFSET_ENABLE_f_def
  by (rule codec_weaken, (rule codec_rules)+)
    (auto simp: enc_ALTERNATE_TIME_OFFSET_ENABLE_def norm_ALTERNATE_TIME_OFFSET_ENABLE_def new_ALTERNATE_TIME_OFFSET_ENABLE_def)

lemma codec_ALTERNATE_TIME_OFFSET_NAME:
  "wire_codec ALTERNATE_TIME_OFFSET_NAME_f ok_ALTERNATE_TIME_OFFSET_NAME enc_ALTERNATE_TIME_OFFSET_NAME (\<lambda>x _. norm_ALTERNATE_TIME_OFFSET_NAME x) (fresh new_ALTERNATE_TIME_OFFSET_NAME)"
  unfolding ALTERNATE_TIME_OFFSET_NAME_f_def
  by (rule codec_weaken, (rule codec_rules)+)
    (auto simp: enc_ALTERNATE_TIME_OFFSET_NAME_def ok_ALTERNATE_TIME_OFFSET_NAME_def norm_ALTERNATE_TIME_OFFSET_NAME_def new_ALTERNATE_TIME_OFFSET_NAME_def)

lemma codec_ALTERNATE_TIME_OFFSET_MAX_KEY:
  "wire_codec ALTERNATE_TIME_OFFSET_MAX_KEY_f (\<lambda>_. True) enc_ALTERNATE_TIME_OFFSET_MAX_KEY (\<lambda>x _. x) (fresh new_ALTERNATE_TIME_OFFSET_MAX_KEY)"
  unfolding ALTERNATE_TIME_OFFSET_MAX_KEY_f_def
  by (rule codec_weaken, (rule codec_rules)+)
    (auto simp: enc_ALTERNATE_TIME_OFFSET_MAX_KEY_def new_ALTERNATE_TIME_OFFSET_MAX_KEY_def)

lemma codec_ALTERNATE_TIME_OFFSET_PROPERTIES:
  "wire_codec ALTERNATE_TIME_OFFSET_PROPERTIES_f ok_ALTERNATE_TIME_OFFSET_PROPERTIES enc_ALTERNATE_TIME_OFFSET_PROPERTIES (\<lambda>x _. x) (fresh new_ALTERNATE_TIME_OFFSET_PROPERTIES)"
  unfolding ALTERNATE_TIME_OFFSET_PROPERTIES_f_def
  by (rule codec_weaken, (rule codec_rules)+)
    (auto simp: enc_ALTERNATE_TIME_OFFSET_PROPERTIES_def ok_ALTERNATE_TIME_OFFSET_PROPERTIES_def new_ALTERNATE_TIME_OFFSET_PROPERTIES_def)

lemma codec_TRANSPARENT_CLOCK_PORT_DATA_SET:
  "wire_codec TRANSPARENT_CLOCK_PORT_DATA_SET_f ok_TRANSPARENT_CLOCK_PORT_DATA_SET enc_TRANSPARENT_CLOCK_PORT_DATA_SET (\<lambda>x _. norm_TRANSPARENT_CLOCK_PORT_DATA_SET x) (fresh new_TRANSPARENT_CLOCK_PORT_DATA_SET)"
  unfolding TRANSPARENT_CLOCK_PORT_DATA_SET_f_def
  by (rule codec_weaken, (rule codec_rules)+)
    (auto simp: enc_TRANSPARENT_CLOCK_PORT_DATA_SET_def ok_TRANSPARENT_CLOCK_PORT_DATA_SET_def norm_TRANSPARENT_CLOCK_PORT_DATA_SET_def new_TRANSPARENT_CLOCK_PORT_DATA_SET_def)

lemma codec_LOG_MIN_PDELAY_REQ_INTERVAL:
  "wire_codec LOG_MIN_PDELAY_REQ_INTERVAL_f (\<lambda>_. True) enc_LOG_MIN_PDELAY_REQ_INTERVAL (\<lambda>x _. x) (fresh new_LOG_MIN_PDELAY_REQ_INTERVAL)"
  unfolding LOG_MIN_PDELAY_REQ_INTERVAL_f_def
  by (rule codec_weaken, (rule codec_rules)+)
    (auto simp: enc_LOG_MIN_PDELAY_REQ_INTERVAL_def new_LOG_MIN_PDELAY_REQ_INTERVAL_def)

lemma codec_TRANSPARENT_CLOCK_DEFAULT_DATA_SET:
  "wire_codec TRANSPARENT_CLOCK_DEFAULT_DATA_SET_f ok_TRANSPARENT_CLOCK_DEFAULT_DATA_SET enc_TRANSPARENT_CLOCK_DEFAULT_DATA_SET (\<lambda>x _. x) (fresh new_TRANSPARENT_CLOCK_DEFAULT_DATA_SET)"
  unfolding TRANSPARENT_CLOCK_DEFAULT_DATA_SET_f_def
  by (rule codec_weaken, (rule codec_rules)+)
    (auto simp: enc_TRANSPARENT_CLOCK_DEFAULT_DATA_SET_def ok_TRANSPARENT_CLOCK_DEFAULT_DATA_SET_def new_TRANSPARENT_CLOCK_DEFAULT_DATA_SET_def)

lemma codec_PRIMARY_DOMAIN:
  "wire_codec PRIMARY_DOMAIN_f (\<lambda>_. True) enc_PRIMARY_DOMAIN (\<lambda>x _. x) (fresh new_PRIMARY_DOMAIN)"
  unfolding PRIMARY_DOMAIN_f_def
  by (rule codec_weaken, (rule codec_rules)+)
    (auto simp: enc_PRIMARY_DOMAIN_def new_PRIMARY_DOMAIN_def)

lemma codec_DELAY_MECHANISM:
  "wire_codec DELAY_MECHANISM_f (\<lambda>_. True) enc_DELAY_MECHANISM (\<lambda>x _. x) (fresh new_DELAY_MECHANISM)"
  unfolding DELAY_MECHANISM_f_def
  by (rule codec_weaken, (rule codec_rules)+)
    (auto simp: enc_DELAY_MECHANISM_def new_DELAY_MECHANISM_def)

lemma codec_EXTERNAL_PORT_CONFIGURATION_ENABLED:
  "wire_codec EXTERNAL_PORT_CONFIGURATION_ENABLED_f (\<lambda>_. True) enc_EXTERNAL_PORT_CONFIGURATION_ENABLED (\<lambda>x _. norm_EXTERNAL_PORT_CONFIGURATION_ENABLED x) (fresh new_EXTERNAL_PORT_CONFIGURATION_ENABLED)"
  unfolding EXTERNAL_PORT_CONFIGURATION_ENABLED_f_def
  by (rule codec_weaken, (rule codec_rules)+)
    (auto simp: enc_EXTERNAL_PORT_CONFIGURATION_ENABLED_def norm_EXTERNAL_PORT_CONFIGURATION_ENABLED_def new_EXTERNAL_PORT_CONFIGURATION_ENABLED_def)

lemma codec_MASTER_ONLY:
  "wire_codec MASTER_ONLY_f (\<lambda>_. True) enc_MASTER_ONLY (\<lambda>x _. norm_MASTER_ONLY x) (fresh new_MASTER_ONLY)"
  unfolding MASTER_ONLY_f_def
  by (rule codec_weaken, (rule codec_rules)+)
    (auto simp: enc_MASTER_ONLY_def norm_MASTER_ONLY_def new_MASTER_ONLY_def)

lemma codec_HOLDOVER_UPGRADE_ENABLE:
  "wire_codec HOLDOVER_UPGRADE_ENABLE_f (\<lambda>_. True) enc_HOLDOVER_UPGRADE_ENABLE (\<lambda>x _. norm_HOLDOVER_UPGRADE_ENABLE x) (fresh new_HOLDOVER_UPGRADE_ENABLE)"
  unfolding HOLDOVER_UPGRADE_ENABLE_f_def
  by (rule codec_weaken, (rule codec_rules)+)
    (auto simp: enc_HOLDOVER_UPGRADE_ENABLE_def norm_HOLDOVER_UPGRADE_ENABLE_def new_HOLDOVER_UPGRADE_ENABLE_def)

lemma codec_EXT_PORT_CONFIG_PORT_DATA_SET:
  "wire_codec EXT_PORT_CONFIG_PORT_DATA_SET_f (\<lambda>_. True) enc_EXT_PORT_CONFIG_PORT_DATA_SET (\<lambda>x _. norm_EXT_PORT_CONFIG_PORT_DATA_SET x) (fresh new_EXT_PORT_CONFIG_PORT_DATA_SET)"
  unfolding EXT_PORT_CONFIG_PORT_DATA_SET_f_def
  by (rule codec_weaken, (rule codec_rules)+)
    (auto simp: enc_EXT_PORT_CONFIG_PORT_DATA_SET_def norm_EXT_PORT_CONFIG_PORT_DATA_SET_def new_EXT_PORT_CONFIG_PORT_DATA_SET_def)

lemma codec_TIME_STATUS_NP:
  "wire_codec TIME_STATUS_NP_f ok_TIME_STATUS_NP enc_TIME_STATUS_NP (\<lambda>x _. x) (fresh new_TIME_STATUS_NP)"
  unfolding TIME_STATUS_NP_f_def
  by (rule codec_weaken, (rule codec_rules)+)
    (auto simp: enc_TIME_STATUS_NP_def ok_TIME_STATUS_NP_def new_TIME_STATUS_NP_def)

lemma codec_GRANDMASTER_SETTINGS_NP:
  "wire_codec GRANDMASTER_SETTINGS_NP_f (\<lambda>_. True) enc_GRANDMASTER_SETTINGS_NP (\<lambda>x _. norm_GRANDMASTER_SETTINGS_NP x) (fresh new_GRANDMASTER_SETTINGS_NP)"
  unfolding GRANDMASTER_SETTINGS_NP_f_def
  by (rule codec_weaken, (rule codec_rules)+)
    (auto simp: enc_GRANDMASTER_SETTINGS_NP_def norm_GRANDMASTER_SETTINGS_NP_def new_GRANDMASTER_SETTINGS_NP_def)

lemma codec_PORT_DATA_SET_NP:
  "wire_codec PORT_DATA_SET_NP_f (\<lambda>_. True) enc_PORT_DATA_SET_NP (\<lambda>x _. x) (fresh new_PORT_DATA_SET_NP)"
  unfolding PORT_DATA_SET_NP_f_def
  by (rule codec_weaken, (rule codec_rules)+)
    (auto simp: enc_PORT_DATA_SET_NP_def new_PORT_DATA_SET_NP_def)

lemma codec_SUBSCRIBE_EVENTS_NP:
  "wire_codec SUBSCRIBE_EVENTS_NP_f ok_SUBSCRIBE_EVENTS_NP enc_SUBSCRIBE_EVENTS_NP (\<lambda>x _. x) (fresh new_SUBSCRIBE_EVENTS_NP)"
  unfolding SUBSCRIBE_EVENTS_NP_f_def
  by (rule codec_weaken, (rule codec_rules)+)
    (auto simp: enc_SUBSCRIBE_EVENTS_NP_def ok_SUBSCRIBE_EVENTS_NP_def new_SUBSCRIBE_EVENTS_NP_def EVENT_BITMASK_CNT_def)

lemma codec_PORT_PROPERTIES_NP:
  "wire_codec PORT_PROPERTIES_NP_f ok_PORT_PROPERTIES_NP enc_PORT_PROPERTIES_NP (\<lambda>x _. norm_PORT_PROPERTIES_NP x) (fresh new_PORT_PROPERTIES_NP)"
  unfolding PORT_PROPERTIES_NP_f_def
  by (rule codec_weaken, (rule codec_rules)+)
    (auto simp: enc_PORT_PROPERTIES_NP_def ok_PORT_PROPERTIES_NP_def norm_PORT_PROPERTIES_NP_def new_PORT_PROPERTIES_NP_def)

lemma codec_PORT_STATS_NP:
  "wire_codec PORT_STATS_NP_f ok_PORT_STATS_NP enc_PORT_STATS_NP (\<lambda>x _. x) (fresh new_PORT_STATS_NP)"
  unfolding PORT_STATS_NP_f_def
  by (rule codec_weaken, (rule codec_rules)+)
    (auto simp: enc_PORT_STATS_NP_def ok_PORT_STATS_NP_def new_PORT_STATS_NP_def MAX_MESSAGE_TYPES_def list_all_iff)

lemma codec_SYNCHRONIZATION_UNCERTAIN_NP:
  "wire_codec SYNCHRONIZATION_UNCERTAIN_NP_f (\<lambda>_. True) enc_SYNCHRONIZATION_UNCERTAIN_NP (\<lambda>x _. x) (fresh new_SYNCHRONIZATION_UNCERTAIN_NP)"
  unfolding SYNCHRONIZATION_UNCERTAIN_NP_f_def
  by (rule codec_weaken, (rule codec_rules)+)
    (auto simp: enc_SYNCHRONIZATION_UNCERTAIN_NP_def new_SYNCHRONIZATION_UNCERTAIN_NP_def)

section \<open>The functions stay in their windows\<close>

lemma window_CLOCK_DESCRIPTION: "windowed CLOCK_DESCRIPTION_f"
  unfolding CLOCK_DESCRIPTION_f_def by (rule window_rules)+

lemma window_USER_DESCRIPTION: "windowed USER_DESCRIPTION_f"
  unfolding USER_DESCRIPTION_f_def by (rule window_rules)+

lemma window_INITIALIZE: "windowed INITIALIZE_f"
  unfolding INITIALIZE_f_def by (rule window_rules)+

lemma window_FAULT_LOG: "windowed FAULT_LOG_f"
  unfolding FAULT_LOG_f_def by (rule window_rules)+

lemma window_DEFAULT_DATA_SET: "windowed DEFAULT_DATA_SET_f"
  unfolding DEFAULT_DATA_SET_f_def by (rule window_rules)+

lemma window_CURRENT_DATA_SET: "windowed CURRENT_DATA_SET_f"
  unfolding CURRENT_DATA_SET_f_def by (rule window_rules)+

lemma window_PARENT_DATA_SET: "windowed PARENT_DATA_SET_f"
  unfolding PARENT_DATA_SET_f_def by (rule window_rules)+

lemma window_TIME_PROPERTIES_DATA_SET: "windowed TIME_PROPERTIES_DATA_SET_f"
  unfolding TIME_PROPERTIES_DATA_SET_f_def by (rule window_rules)+

lemma window_PORT_DATA_SET: "windowed PORT_DATA_SET_f"
  unfolding PORT_DATA_SET_f_def by (rule window_rules)+

lemma window_PRIORITY1: "windowed PRIORITY1_f"
  unfolding PRIORITY1_f_def by (rule window_rules)+

lemma window_PRIORITY2: "windowed PRIORITY2_f"
  unfolding PRIORITY2_f_def by (rule window_rules)+

lemma window_DOMAIN: "windowed DOMAIN_f"
  unfolding DOMAIN_f_def by (rule window_rules)+

lemma window_SLAVE_ONLY: "windowed SLAVE_ONLY_f"
  unfolding SLAVE_ONLY_f_def by (rule window_rules)+

lemma window_LOG_ANNOUNCE_INTERVAL: "windowed LOG_ANNOUNCE_INTERVAL_f"
  unfolding LOG_ANNOUNCE_INTERVAL_f_def by (rule window_rules)+

lemma window_ANNOUNCE_RECEIPT_TIMEOUT: "windowed ANNOUNCE_RECEIPT_TIMEOUT_f"
  unfolding ANNOUNCE_RECEIPT_TIMEOUT_f_def by (rule window_rules)+

lemma window_LOG_SYNC_INTERVAL: "windowed LOG_SYNC_INTERVAL_f"
  unfolding LOG_SYNC_INTERVAL_f_def by (rule window_rules)+

lemma window_VERSION_NUMBER: "windowed VERSION_NUMBER_f"
  unfolding VERSION_NUMBER_f_def by (rule window_rules)+

lemma window_TIME: "windowed TIME_f"
  unfolding TIME_f_def by (rule window_rules)+

lemma window_CLOCK_ACCURACY: "windowed CLOCK_ACCURACY_f"
  unfolding CLOCK_ACCURACY_f_def by (rule window_rules)+

lemma window_UTC_PROPERTIES: "windowed UTC_PROPERTIES_f"
  unfolding UTC_PROPERTIES_f_def by (rule window_rules)+

lemma window_TRACEABILITY_PROPERTIES: "windowed TRACEABILITY_PROPERTIES_f"
  unfolding TRACEABILITY_PROPERTIES_f_def by (rule window_rules)+

lemma window_TIMESCALE_PROPERTIES: "windowed TIMESCALE_PROPERTIES_f"
  unfolding TIMESCALE_PROPERTIES_f_def by (rule window_rules)+

lemma window_UNICAST_NEGOTIATION_ENABLE: "windowed UNICAST_NEGOTIATION_ENABLE_f"
  unfolding UNICAST_NEGOTIATION_ENABLE_f_def by (rule window_rules)+

lemma window_PATH_TRACE_LIST: "windowed PATH_TRACE_LIST_f"
  unfolding PATH_TRACE_LIST_f_def by (rule window_rules)+

lemma window_PATH_TRACE_ENABLE: "windowed PATH_TRACE_ENABLE_f"
  unfolding PATH_TRACE_ENABLE_f_def by (rule window_rules)+

lemma window_GRANDMASTER_CLUSTER_TABLE: "windowed GRANDMASTER_CLUSTER_TABLE_f"
  unfolding GRANDMASTER_CLUSTER_TABLE_f_def by (rule window_rules)+

lemma window_UNICAST_MASTER_TABLE: "windowed UNICAST_MASTER_TABLE_f"
  unfolding UNICAST_MASTER_TABLE_f_def by (rule window_rules)+

lemma window_UNICAST_MASTER_MAX_TABLE_SIZE: "windowed UNICAST_MASTER_MAX_TABLE_SIZE_f"
  unfolding UNICAST_MASTER_MAX_TABLE_SIZE_f_def by (rule window_rules)+

lemma window_ACCEPTABLE_MASTER_TABLE: "windowed ACCEPTABLE_MASTER_TABLE_f"
  unfolding ACCEPTABLE_MASTER_TABLE_f_def by (rule window_rules)+

lemma window_ACCEPTABLE_MASTER_TABLE_ENABLED: "windowed ACCEPTABLE_MASTER_TABLE_ENABLED_f"
  unfolding ACCEPTABLE_MASTER_TABLE_ENABLED_f_def by (rule window_rules)+

lemma window_ACCEPTABLE_MASTER_MAX_TABLE_SIZE: "windowed ACCEPTABLE_MASTER_MAX_TABLE_SIZE_f"
  unfolding ACCEPTABLE_MASTER_MAX_TABLE_SIZE_f_def by (rule window_rules)+

lemma window_ALTERNATE_MASTER: "windowed ALTERNATE_MASTER_f"
  unfolding ALTERNATE_MASTER_f_def by (rule window_rules)+

lemma window_ALTERNATE_TIME_OFFSET_ENABLE: "windowed ALTERNATE_TIME_OFFSET_ENABLE_f"
  unfolding ALTERNATE_TIME_OFFSET_ENABLE_f_def by (rule window_rules)+

lemma window_ALTERNATE_TIME_OFFSET_NAME: "windowed ALTERNATE_TIME_OFFSET_NAME_f"
  unfolding ALTERNATE_TIME_OFFSET_NAME_f_def by (rule window_rules)+

lemma window_ALTERNATE_TIME_OFFSET_MAX_KEY: "windowed ALTERNATE_TIME_OFFSET_MAX_KEY_f"
  unfolding ALTERNATE_TIME_OFFSET_MAX_KEY_f_def by (rule window_rules)+

lemma window_ALTERNATE_TIME_OFFSET_PROPERTIES: "windowed ALTERNATE_TIME_OFFSET_PROPERTIES_f"
  unfolding ALTERNATE_TIME_OFFSET_PROPERTIES_f_def by (rule window_rules)+

lemma window_TRANSPARENT_CLOCK_PORT_DATA_SET: "windowed TRANSPARENT_CLOCK_PORT_DATA_SET_f"
  unfolding TRANSPARENT_CLOCK_PORT_DATA_SET_f_def by (rule window_rules)+

lemma window_LOG_MIN_PDELAY_REQ_INTERVAL: "windowed LOG_MIN_PDELAY_REQ_INTERVAL_f"
  unfolding LOG_MIN_PDELAY_REQ_INTERVAL_f_def by (rule window_rules)+

lemma window_TRANSPARENT_CLOCK_DEFAULT_DATA_SET: "windowed TRANSPARENT_CLOCK_DEFAULT_DATA_SET_f"
  unfolding TRANSPARENT_CLOCK_DEFAULT_DATA_SET_f_def by (rule window_rules)+

lemma window_PRIMARY_DOMAIN: "windowed PRIMARY_DOMAIN_f"
  unfolding PRIMARY_DOMAIN_f_def by (rule window_rules)+

lemma window_DELAY_MECHANISM: "windowed DELAY_MECHANISM_f"
  unfolding DELAY_MECHANISM_f_def by (rule window_rules)+

lemma window_EXTERNAL_PORT_CONFIGURATION_ENABLED: "windowed EXTERNAL_PORT_CONFIGURATION_ENABLED_f"
  unfolding EXTERNAL_PORT_CONFIGURATION_ENABLED_f_def by (rule window_rules)+

lemma window_MASTER_ONLY: "windowed MASTER_ONLY_f"
  unfolding MASTER_ONLY_f_def by (rule window_rules)+

lemma window_HOLDOVER_UPGRADE_ENABLE: "windowed HOLDOVER_UPGRADE_ENABLE_f"
  unfolding HOLDOVER_UPGRADE_ENABLE_f_def by (rule window_rules)+

lemma window_EXT_PORT_CONFIG_PORT_DATA_SET: "windowed EXT_PORT_CONFIG_PORT_DATA_SET_f"
  unfolding EXT_PORT_CONFIG_PORT_DATA_SET_f_def by (rule window_rules)+

lemma window_TIME_STATUS_NP: "windowed TIME_STATUS_NP_f"
  unfolding TIME_STATUS_NP_f_def by (rule window_rules)+

lemma window_GRANDMASTER_SETTINGS_NP: "windowed GRANDMASTER_SETTINGS_NP_f"
  unfolding GRANDMASTER_SETTINGS_NP_f_def by (rule window_rules)+

lemma window_PORT_DATA_SET_NP: "windowed PORT_DATA_SET_NP_f"
  unfolding PORT_DATA_SET_NP_f_def by (rule window_rules)+

lemma window_SUBSCRIBE_EVENTS_NP: "windowed SUBSCRIBE_EVENTS_NP_f"
  unfolding SUBSCRIBE_EVENTS_NP_f_def by (rule window_rules)+

lemma window_PORT_PROPERTIES_NP: "windowed PORT_PROPERTIES_NP_f"
  unfolding PORT_PROPERTIES_NP_f_def by (rule window_rules)+

lemma window_PORT_STATS_NP: "windowed PORT_STATS_NP_f"
  unfolding PORT_STATS_NP_f_def by (rule window_rules)+

lemma window_SYNCHRONIZATION_UNCERTAIN_NP: "windowed SYNCHRONIZATION_UNCERTAIN_NP_f"
  unfolding SYNCHRONIZATION_UNCERTAIN_NP_f_def by (rule window_rules)+

section \<open>All management TLVs\<close>

primrec ok_tlv :: "BaseMngTlv \<Rightarrow> bool" where
  "ok_tlv (TLV_CLOCK_DESCRIPTION d) = ok_CLOCK_DESCRIPTION d"
| "ok_tlv (TLV_USER_DESCRIPTION d) = ok_USER_DESCRIPTION d"
| "ok_tlv (TLV_INITIALIZE d) = True"
| "ok_tlv (TLV_FAULT_LOG d) = ok_FAULT_LOG d"
| "ok_tlv (TLV_DEFAULT_DATA_SET d) = ok_DEFAULT_DATA_SET d"
| "ok_tlv (TLV_CURRENT_DATA_SET d) = True"
| "ok_tlv (TLV_PARENT_DATA_SET d) = ok_PARENT_DATA_SET d"
| "ok_tlv (TLV_TIME_PROPERTIES_DATA_SET d) = True"
| "ok_tlv (TLV_PORT_DATA_SET d) = ok_PORT_DATA_SET d"
| "ok_tlv (TLV_PRIORITY1 d) = True"
| "ok_tlv (TLV_PRIORITY2 d) = True"
| "ok_tlv (TLV_DOMAIN d) = True"
| "ok_tlv (TLV_SLAVE_ONLY d) = True"
| "ok_tlv (TLV_LOG_ANNOUNCE_INTERVAL d) = True"
| "ok_tlv (TLV_ANNOUNCE_RECEIPT_TIMEOUT d) = True"
| "ok_tlv (TLV_LOG_SYNC_INTERVAL d) = True"
| "ok_tlv (TLV_VERSION_NUMBER d) = True"
| "ok_tlv (TLV_TIME d) = ok_TIME d"
| "ok_tlv (TLV_CLOCK_ACCURACY d) = True"
| "ok_tlv (TLV_UTC_PROPERTIES d) = True"
| "ok_tlv (TLV_TRACEABILITY_PROPERTIES d) = True"
| "ok_tlv (TLV_TIMESCALE_PROPERTIES d) = True"
| "ok_tlv (TLV_UNICAST_NEGOTIATION_ENABLE d) = True"
| "ok_tlv (TLV_PATH_TRACE_LIST d) = ok_PATH_TRACE_LIST d"
| "ok_tlv (TLV_PATH_TRACE_ENABLE d) = True"
| "ok_tlv (TLV_GRANDMASTER_CLUSTER_TABLE d) = ok_GRANDMASTER_CLUSTER_TABLE d"
| "ok_tlv (TLV_UNICAST_MASTER_TABLE d) = ok_UNICAST_MASTER_TABLE d"
| "ok_tlv (TLV_UNICAST_MASTER_MAX_TABLE_SIZE d) = True"
| "ok_tlv (TLV_ACCEPTABLE_MASTER_TABLE d) = ok_ACCEPTABLE_MASTER_TABLE d"
| "ok_tlv (TLV_ACCEPTABLE_MASTER_TABLE_ENABLED d) = True"
| "ok_tlv (TLV_ACCEPTABLE_MASTER_MAX_TABLE_SIZE d) = True"
| "ok_tlv (TLV_ALTERNATE_MASTER d) = True"
| "ok_tlv (TLV_ALTERNATE_TIME_OFFSET_ENABLE d) = True"
| "ok_tlv (TLV_ALTERNATE_TIME_OFFSET_NAME d) = ok_ALTERNATE_TIME_OFFSET_NAME d"
| "ok_tlv (TLV_ALTERNATE_TIME_OFFSET_MAX_KEY d) = True"
| "ok_tlv (TLV_ALTERNATE_TIME_OFFSET_PROPERTIES d) = ok_ALTERNATE_TIME_OFFSET_PROPERTIES d"
| "ok_tlv (TLV_TRANSPARENT_CLOCK_PORT_DATA_SET d) = ok_TRANSPARENT_CLOCK_PORT_DATA_SET d"
| "ok_tlv (TLV_LOG_MIN_PDELAY_REQ_INTERVAL d) = True"
| "ok_tlv (TLV_TRANSPARENT_CLOCK_DEFAULT_DATA_SET d) = ok_TRANSPARENT_CLOCK_DEFAULT_DATA_SET d"
| "ok_tlv (TLV_PRIMARY_DOMAIN d) = True"
| "ok_tlv (TLV_DELAY_MECHANISM d) = True"
| "ok_tlv (TLV_EXTERNAL_PORT_CONFIGURATION_ENABLED d) = True"
| "ok_tlv (TLV_MASTER_ONLY d) = True"
| "ok_tlv (TLV_HOLDOVER_UPGRADE_ENABLE d) = True"
| "ok_tlv (TLV_EXT_PORT_CONFIG_PORT_DATA_SET d) = True"
| "ok_tlv (TLV_TIME_STATUS_NP d) = ok_TIME_STATUS_NP d"
| "ok_tlv (TLV_GRANDMASTER_SETTINGS_NP d) = True"
| "ok_tlv (TLV_PORT_DATA_SET_NP d) = True"
| "ok_tlv (TLV_SUBSCRIBE_EVENTS_NP d) = ok_SUBSCRIBE_EVENTS_NP d"
| "ok_tlv (TLV_PORT_PROPERTIES_NP d) = ok_PORT_PROPERTIES_NP d"
| "ok_tlv (TLV_PORT_STATS_NP d) = ok_PORT_STATS_NP d"
| "ok_tlv (TLV_SYNCHRONIZATION_UNCERTAIN_NP d) = True"

primrec enc_tlv :: "BaseMngTlv \<Rightarrow> byte list" where
  "enc_tlv (TLV_CLOCK_DESCRIPTION d) = enc_CLOCK_DESCRIPTION d"
| "enc_tlv (TLV_USER_DESCRIPTION d) = enc_USER_DESCRIPTION d"
| "enc_tlv (TLV_INITIALIZE d) = enc_INITIALIZE d"
| "enc_tlv (TLV_FAULT_LOG d) = enc_FAULT_LOG d"
| "enc_tlv (TLV_DEFAULT_DATA_SET d) = enc_DEFAULT_DATA_SET d"
| "enc_tlv (TLV_CURRENT_DATA_SET d) = enc_CURRENT_DATA_SET d"
| "enc_tlv (TLV_PARENT_DATA_SET d) = enc_PARENT_DATA_SET d"
| "enc_tlv (TLV_TIME_PROPERTIES_DATA_SET d) = enc_TIME_PROPERTIES_DATA_SET d"
| "enc_tlv (TLV_PORT_DATA_SET d) = enc_PORT_DATA_SET d"
| "enc_tlv (TLV_PRIORITY1 d) = enc_PRIORITY1 d"
| "enc_tlv (TLV_PRIORITY2 d) = enc_PRIORITY2 d"
| "enc_tlv (TLV_DOMAIN d) = enc_DOMAIN d"
| "enc_tlv (TLV_SLAVE_ONLY d) = enc_SLAVE_ONLY d"
| "enc_tlv (TLV_LOG_ANNOUNCE_INTERVAL d) = enc_LOG_ANNOUNCE_INTERVAL d"
| "enc_tlv (TLV_ANNOUNCE_RECEIPT_TIMEOUT d) = enc_ANNOUNCE_RECEIPT_TIMEOUT d"
| "enc_tlv (TLV_LOG_SYNC_INTERVAL d) = enc_LOG_SYNC_INTERVAL d"
| "enc_tlv (TLV_VERSION_NUMBER d) = enc_VERSION_NUMBER d"
| "enc_tlv (TLV_TIME d) = enc_TIME d"
| "enc_tlv (TLV_CLOCK_ACCURACY d) = enc_CLOCK_ACCURACY d"
| "enc_tlv (TLV_UTC_PROPERTIES d) = enc_UTC_PROPERTIES d"
| "enc_tlv (TLV_TRACEABILITY_PROPERTIES d) = enc_TRACEABILITY_PROPERTIES d"
| "enc_tlv (TLV_TIMESCALE_PROPERTIES d) = enc_TIMESCALE_PROPERTIES d"
| "enc_tlv (TLV_UNICAST_NEGOTIATION_ENABLE d) = enc_UNICAST_NEGOTIATION_ENABLE d"
| "enc_tlv (TLV_PATH_TRACE_LIST d) = enc_PATH_TRACE_LIST d"
| "enc_tlv (TLV_PATH_TRACE_ENABLE d) = enc_PATH_TRACE_ENABLE d"
| "enc_tlv (TLV_GRANDMASTER_CLUSTER_TABLE d) = enc_GRANDMASTER_CLUSTER_TABLE d"
| "enc_tlv (TLV_UNICAST_MASTER_TABLE d) = enc_UNICAST_MASTER_TABLE d"
| "enc_tlv (TLV_UNICAST_MASTER_MAX_TABLE_SIZE d) = enc_UNICAST_MASTER_MAX_TABLE_SIZE d"
| "enc_tlv (TLV_ACCEPTABLE_MASTER_TABLE d) = enc_ACCEPTABLE_MASTER_TABLE d"
| "enc_tlv (TLV_ACCEPTABLE_MASTER_TABLE_ENABLED d) = enc_ACCEPTABLE_MASTER_TABLE_ENABLED d"
| "enc_tlv (TLV_ACCEPTABLE_MASTER_MAX_TABLE_SIZE d) = enc_ACCEPTABLE_MASTER_MAX_TABLE_SIZE d"
| "enc_tlv (TLV_ALTERNATE_MASTER d) = enc_ALTERNATE_MASTER d"
| "enc_tlv (TLV_ALTERNATE_TIME_OFFSET_ENABLE d) = enc_ALTERNATE_TIME_OFFSET_ENABLE d"
| "enc_tlv (TLV_ALTERNATE_TIME_OFFSET_NAME d) = enc_ALTERNATE_TIME_OFFSET_NAME d"
| "enc_tlv (TLV_ALTERNATE_TIME_OFFSET_MAX_KEY d) = enc_ALTERNATE_TIME_OFFSET_MAX_KEY d"
| "enc_tlv (TLV_ALTERNATE_TIME_OFFSET_PROPERTIES d) = enc_ALTERNATE_TIME_OFFSET_PROPERTIES d"
| "enc_tlv (TLV_TRANSPARENT_CLOCK_PORT_DATA_SET d) = enc_TRANSPARENT_CLOCK_PORT_DATA_SET d"
| "enc_tlv (TLV_LOG_MIN_PDELAY_REQ_INTERVAL d) = enc_LOG_MIN_PDELAY_REQ_INTERVAL d"
| "enc_tlv (TLV_TRANSPARENT_CLOCK_DEFAULT_DATA_SET d) = enc_TRANSPARENT_CLOCK_DEFAULT_DATA_SET d"
| "enc_tlv (TLV_PRIMARY_DOMAIN d) = enc_PRIMARY_DOMAIN d"
| "enc_tlv (TLV_DELAY_MECHANISM d) = enc_DELAY_MECHANISM d"
| "enc_tlv (TLV_EXTERNAL_PORT_CONFIGURATION_ENABLED d) = enc_EXTERNAL_PORT_CONFIGURATION_ENABLED d"
| "enc_tlv (TLV_MASTER_ONLY d) = enc_MASTER_ONLY d"
| "enc_tlv (TLV_HOLDOVER_UPGRADE_ENABLE d) = enc_HOLDOVER_UPGRADE_ENABLE d"
| "enc_tlv (TLV_EXT_PORT_CONFIG_PORT_DATA_SET d) = enc_EXT_PORT_CONFIG_PORT_DATA_SET d"
| "enc_tlv (TLV_TIME_STATUS_NP d) = enc_TIME_STATUS_NP d"
| "enc_tlv (TLV_GRANDMASTER_SETTINGS_NP d) = enc_GRANDMASTER_SETTINGS_NP d"
| "enc_tlv (TLV_PORT_DATA_SET_NP d) = enc_PORT_DATA_SET_NP d"
| "enc_tlv (TLV_SUBSCRIBE_EVENTS_NP d) = enc_SUBSCRIBE_EVENTS_NP d"
| "enc_tlv (TLV_PORT_PROPERTIES_NP d) = enc_PORT_PROPERTIES_NP d"
| "enc_tlv (TLV_PORT_STATS_NP d) = enc_PORT_STATS_NP d"
| "enc_tlv (TLV_SYNCHRONIZATION_UNCERTAIN_NP d) = enc_SYNCHRONIZATION_UNCERTAIN_NP d"

primrec norm_tlv :: "BaseMngTlv \<Rightarrow> BaseMngTlv" where
  "norm_tlv (TLV_CLOCK_DESCRIPTION d) = TLV_CLOCK_DESCRIPTION (norm_CLOCK_DESCRIPTION d)"
| "norm_tlv (TLV_USER_DESCRIPTION d) = TLV_USER_DESCRIPTION (norm_USER_DESCRIPTION d)"
| "norm_tlv (TLV_INITIALIZE d) = TLV_INITIALIZE d"
| "norm_tlv (TLV_FAULT_LOG d) = TLV_FAULT_LOG (norm_FAULT_LOG d)"
| "norm_tlv (TLV_DEFAULT_DATA_SET d) = TLV_DEFAULT_DATA_SET (norm_DEFAULT_DATA_SET d)"
| "norm_tlv (TLV_CURRENT_DATA_SET d) = TLV_CURRENT_DATA_SET d"
| "norm_tlv (TLV_PARENT_DATA_SET d) = TLV_PARENT_DATA_SET (norm_PARENT_DATA_SET d)"
| "norm_tlv (TLV_TIME_PROPERTIES_DATA_SET d) = TLV_TIME_PROPERTIES_DATA_SET (norm_TIME_PROPERTIES_DATA_SET d)"
| "norm_tlv (TLV_PORT_DATA_SET d) = TLV_PORT_DATA_SET d"
| "norm_tlv (TLV_PRIORITY1 d) = TLV_PRIORITY1 d"
| "norm_tlv (TLV_PRIORITY2 d) = TLV_PRIORITY2 d"
| "norm_tlv (TLV_DOMAIN d) = TLV_DOMAIN d"
| "norm_tlv (TLV_SLAVE_ONLY d) = TLV_SLAVE_ONLY (norm_SLAVE_ONLY d)"
| "norm_tlv (TLV_LOG_ANNOUNCE_INTERVAL d) = TLV_LOG_ANNOUNCE_INTERVAL d"
| "norm_tlv (TLV_ANNOUNCE_RECEIPT_TIMEOUT d) = TLV_ANNOUNCE_RECEIPT_TIMEOUT d"
| "norm_tlv (TLV_LOG_SYNC_INTERVAL d) = TLV_LOG_SYNC_INTERVAL d"
| "norm_tlv (TLV_VERSION_NUMBER d) = TLV_VERSION_NUMBER d"
| "norm_tlv (TLV_TIME d) = TLV_TIME d"
| "norm_tlv (TLV_CLOCK_ACCURACY d) = TLV_CLOCK_ACCURACY d"
| "norm_tlv (TLV_UTC_PROPERTIES d) = TLV_UTC_PROPERTIES (norm_UTC_PROPERTIES d)"
| "norm_tlv (TLV_TRACEABILITY_PROPERTIES d) = TLV_TRACEABILITY_PROPERTIES (norm_TRACEABILITY_PROPERTIES d)"
| "norm_tlv (TLV_TIMESCALE_PROPERTIES d) = TLV_TIMESCALE_PROPERTIES (norm_TIMESCALE_PROPERTIES d)"
| "norm_tlv (TLV_UNICAST_NEGOTIATION_ENABLE d) = TLV_UNICAST_NEGOTIATION_ENABLE (norm_UNICAST_NEGOTIATION_ENABLE d)"
| "norm_tlv (TLV_PATH_TRACE_LIST d) = TLV_PATH_TRACE_LIST d"
| "norm_tlv (TLV_PATH_TRACE_ENABLE d) = TLV_PATH_TRACE_ENABLE (norm_PATH_TRACE_ENABLE d)"
| "norm_tlv (TLV_GRANDMASTER_CLUSTER_TABLE d) = TLV_GRANDMASTER_CLUSTER_TABLE (norm_GRANDMASTER_CLUSTER_TABLE d)"
| "norm_tlv (TLV_UNICAST_MASTER_TABLE d) = TLV_UNICAST_MASTER_TABLE (norm_UNICAST_MASTER_TABLE d)"
| "norm_tlv (TLV_UNICAST_MASTER_MAX_TABLE_SIZE d) = TLV_UNICAST_MASTER_MAX_TABLE_SIZE d"
| "norm_tlv (TLV_ACCEPTABLE_MASTER_TABLE d) = TLV_ACCEPTABLE_MASTER_TABLE (norm_ACCEPTABLE_MASTER_TABLE d)"
| "norm_tlv (TLV_ACCEPTABLE_MASTER_TABLE_ENABLED d) = TLV_ACCEPTABLE_MASTER_TABLE_ENABLED (norm_ACCEPTABLE_MASTER_TABLE_ENABLED d)"
| "norm_tlv (TLV_ACCEPTABLE_MASTER_MAX_TABLE_SIZE d) = TLV_ACCEPTABLE_MASTER_MAX_TABLE_SIZE d"
| "norm_tlv (TLV_ALTERNATE_MASTER d) = TLV_ALTERNATE_MASTER (norm_ALTERNATE_MASTER d)"
| "norm_tlv (TLV_ALTERNATE_TIME_OFFSET_ENABLE d) = TLV_ALTERNATE_TIME_OFFSET_ENABLE (norm_ALTERNATE_TIME_OFFSET_ENABLE d)"
| "norm_tlv (TLV_ALTERNATE_TIME_OFFSET_NAME d) = TLV_ALTERNATE_TIME_OFFSET_NAME (norm_ALTERNATE_TIME_OFFSET_NAME d)"
| "norm_tlv (TLV_ALTERNATE_TIME_OFFSET_MAX_KEY d) = TLV_ALTERNATE_TIME_OFFSET_MAX_KEY d"
| "norm_tlv (TLV_ALTERNATE_TIME_OFFSET_PROPERTIES d) = TLV_ALTERNATE_TIME_OFFSET_PROPERTIES d"
| "norm_tlv (TLV_TRANSPARENT_CLOCK_PORT_DATA_SET d) = TLV_TRANSPARENT_CLOCK_PORT_DATA_SET (norm_TRANSPARENT_CLOCK_PORT_DATA_SET d)"
| "norm_tlv (TLV_LOG_MIN_PDELAY_REQ_INTERVAL d) = TLV_LOG_MIN_PDELAY_REQ_INTERVAL d"
| "norm_tlv (TLV_TRANSPARENT_CLOCK_DEFAULT_DATA_SET d) = TLV_TRANSPARENT_CLOCK_DEFAULT_DATA_SET d"
| "norm_tlv (TLV_PRIMARY_DOMAIN d) = TLV_PRIMARY_DOMAIN d"
| "norm_tlv (TLV_DELAY_MECHANISM d) = TLV_DELAY_MECHANISM d"
| "norm_tlv (TLV_EXTERNAL_PORT_CONFIGURATION_ENABLED d) = TLV_EXTERNAL_PORT_CONFIGURATION_ENABLED (norm_EXTERNAL_PORT_CONFIGURATION_ENABLED d)"
| "norm_tlv (TLV_MASTER_ONLY d) = TLV_MASTER_ONLY (norm_MASTER_ONLY d)"
| "norm_tlv (TLV_HOLDOVER_UPGRADE_ENABLE d) = TLV_HOLDOVER_UPGRADE_ENABLE (norm_HOLDOVER_UPGRADE_ENABLE d)"
| "norm_tlv (TLV_EXT_PORT_CONFIG_PORT_DATA_SET d) = TLV_EXT_PORT_CONFIG_PORT_DATA_SET (norm_EXT_PORT_CONFIG_PORT_DATA_SET d)"
| "norm_tlv (TLV_TIME_STATUS_NP d) = TLV_TIME_STATUS_NP d"
| "norm_tlv (TLV_GRANDMASTER_SETTINGS_NP d) = TLV_GRANDMASTER_SETTINGS_NP (norm_GRANDMASTER_SETTINGS_NP d)"
| "norm_tlv (TLV_PORT_DATA_SET_NP d) = TLV_PORT_DATA_SET_NP d"
| "norm_tlv (TLV_SUBSCRIBE_EVENTS_NP d) = TLV_SUBSCRIBE_EVENTS_NP d"
| "norm_tlv (TLV_PORT_PROPERTIES_NP d) = TLV_PORT_PROPERTIES_NP (norm_PORT_PROPERTIES_NP d)"
| "norm_tlv (TLV_PORT_STATS_NP d) = TLV_PORT_STATS_NP d"
| "norm_tlv (TLV_SYNCHRONIZATION_UNCERTAIN_NP d) = TLV_SYNCHRONIZATION_UNCERTAIN_NP d"

lemma codec_lift_at:
  assumes c: "wire_codec f ok enc (\<lambda>x _. nrm x) (fresh new)"
  shows "m_build s \<Longrightarrow> reserved s = 0 \<Longrightarrow> wf s \<Longrightarrow> ok d \<Longrightarrow> int (length (enc d)) \<le> m_left s \<Longrightarrow>
      lift_tlv con f d s = Some (False, con (nrm d), emit (enc d) s)"
    and "m_build s \<Longrightarrow> reserved s = 0 \<Longrightarrow> wf s \<Longrightarrow> ok d \<Longrightarrow> m_left s < int (length (enc d)) \<Longrightarrow>
      \<exists>t s'. lift_tlv con f d s = Some (True, t, s') \<and> build_frame s s'"
    and "\<not> m_build s \<Longrightarrow> wf s \<Longrightarrow> ok d \<Longrightarrow> starts_with s (enc d) \<Longrightarrow>
      m_left s - int (length (enc d)) < 2 \<Longrightarrow>
      \<exists>r. lift_tlv con f new s =
        Some (False, con (nrm d), (move (length (enc d)) s)\<lparr>reserved := r\<rparr>)"
  using wire_codec.build_fits [OF c, of s d] wire_codec.build_short [OF c, of s d]
    wire_codec.parse_back [OF c, of s d new]
  by (auto simp: lift_tlv_def)

lemmas codec_mng_tlvs =
  codec_CLOCK_DESCRIPTION codec_USER_DESCRIPTION codec_INITIALIZE codec_FAULT_LOG
  codec_DEFAULT_DATA_SET codec_CURRENT_DATA_SET codec_PARENT_DATA_SET
  codec_TIME_PROPERTIES_DATA_SET codec_PORT_DATA_SET codec_PRIORITY1 codec_PRIORITY2 codec_DOMAIN
  codec_SLAVE_ONLY codec_LOG_ANNOUNCE_INTERVAL codec_ANNOUNCE_RECEIPT_TIMEOUT
  codec_LOG_SYNC_INTERVAL codec_VERSION_NUMBER codec_TIME codec_CLOCK_ACCURACY
  codec_UTC_PROPERTIES codec_TRACEABILITY_PROPERTIES codec_TIMESCALE_PROPERTIES
  codec_UNICAST_NEGOTIATION_ENABLE codec_PATH_TRACE_LIST codec_PATH_TRACE_ENABLE
  codec_GRANDMASTER_CLUSTER_TABLE codec_UNICAST_MASTER_TABLE codec_UNICAST_MASTER_MAX_TABLE_SIZE
  codec_ACCEPTABLE_MASTER_TABLE codec_ACCEPTABLE_MASTER_TABLE_ENABLED
  codec_ACCEPTABLE_MASTER_MAX_TABLE_SIZE codec_ALTERNATE_MASTER
  codec_ALTERNATE_TIME_OFFSET_ENABLE codec_ALTERNATE_TIME_OFFSET_NAME
  codec_ALTERNATE_TIME_OFFSET_MAX_KEY codec_ALTERNATE_TIME_OFFSET_PROPERTIES
  codec_TRANSPARENT_CLOCK_PORT_DATA_SET codec_LOG_MIN_PDELAY_REQ_INTERVAL
  codec_TRANSPARENT_CLOCK_DEFAULT_DATA_SET codec_PRIMARY_DOMAIN codec_DELAY_MECHANISM
  codec_EXTERNAL_PORT_CONFIGURATION_ENABLED codec_MASTER_ONLY codec_HOLDOVER_UPGRADE_ENABLE
  codec_EXT_PORT_CONFIG_PORT_DATA_SET codec_TIME_STATUS_NP codec_GRANDMASTER_SETTINGS_NP
  codec_PORT_DATA_SET_NP codec_SUBSCRIBE_EVENTS_NP codec_PORT_PROPERTIES_NP codec_PORT_STATS_NP
  codec_SYNCHRONIZATION_UNCERTAIN_NP

lemmas window_mng_tlvs [window_rules] =
  window_CLOCK_DESCRIPTION window_USER_DESCRIPTION window_INITIALIZE window_FAULT_LOG
  window_DEFAULT_DATA_SET window_CURRENT_DATA_SET window_PARENT_DATA_SET
  window_TIME_PROPERTIES_DATA_SET window_PORT_DATA_SET window_PRIORITY1 window_PRIORITY2 window_DOMAIN
  window_SLAVE_ONLY window_LOG_ANNOUNCE_INTERVAL window_ANNOUNCE_RECEIPT_TIMEOUT
  window_LOG_SYNC_INTERVAL window_VERSION_NUMBER window_TIME window_CLOCK_ACCURACY
  window_UTC_PROPERTIES window_TRACEABILITY_PROPERTIES window_TIMESCALE_PROPERTIES
  window_UNICAST_NEGOTIATION_ENABLE window_PATH_TRACE_LIST window_PATH_TRACE_ENABLE
  window_GRANDMASTER_CLUSTER_TABLE window_UNICAST_MASTER_TABLE window_UNICAST_MASTER_MAX_TABLE_SIZE
  window_ACCEPTABLE_MASTER_TABLE window_ACCEPTABLE_MASTER_TABLE_ENABLED
  window_ACCEPTABLE_MASTER_MAX_TABLE_SIZE window_ALTERNATE_MASTER
  window_ALTERNATE_TIME_OFFSET_ENABLE window_ALTERNATE_TIME_OFFSET_NAME
  window_ALTERNATE_TIME_OFFSET_MAX_KEY window_ALTERNATE_TIME_OFFSET_PROPERTIES
  window_TRANSPARENT_CLOCK_PORT_DATA_SET window_LOG_MIN_PDELAY_REQ_INTERVAL
  window_TRANSPARENT_CLOCK_DEFAULT_DATA_SET window_PRIMARY_DOMAIN window_DELAY_MECHANISM
  window_EXTERNAL_PORT_CONFIGURATION_ENABLED window_MASTER_ONLY window_HOLDOVER_UPGRADE_ENABLE
  window_EXT_PORT_CONFIG_PORT_DATA_SET window_TIME_STATUS_NP window_GRANDMASTER_SETTINGS_NP
  window_PORT_DATA_SET_NP window_SUBSCRIBE_EVENTS_NP window_PORT_PROPERTIES_NP window_PORT_STATS_NP
  window_SYNCHRONIZATION_UNCERTAIN_NP

lemma new_tlv_type: "new_tlv (tlv_type t) = Some t0 \<Longrightarrow> tlv_type t0 = tlv_type t"
  by (cases t) (auto simp: new_tlv_def)

lemma codec_tlv:
  "wire_codec tlv_f ok_tlv enc_tlv (\<lambda>t _. norm_tlv t)
     (\<lambda>t t0 rest. new_tlv (tlv_type t) = Some t0 \<and> rest < 2)"
proof (unfold_locales, goal_cases)
  case (1 s t)
  then show ?case by (cases t) (simp_all add: codec_mng_tlvs [THEN codec_lift_at(1)])
next
  case (2 s t)
  then show ?case by (cases t) (simp_all add: codec_mng_tlvs [THEN codec_lift_at(2)])
next
  case (3 s t t0)
  then show ?case
    by (cases t) (auto simp: new_tlv_def intro!: codec_mng_tlvs [THEN codec_lift_at(3)])
qed

lemma window_lift: "windowed f \<Longrightarrow> \<not> m_build s \<Longrightarrow> wf s \<Longrightarrow>
    case lift_tlv con f d s of None \<Rightarrow> False | Some (e, d', s') \<Rightarrow> parse_frame s s'"
  by (erule (2) windowedE [of _ s d]) (simp add: lift_tlv_def)

lemma window_tlv [window_rules]: "windowed tlv_f"
proof (rule windowedI, goal_cases)
  case (1 s t)
  then show ?case by (cases t) (simp_all only: tlv_f.simps window_lift window_mng_tlvs not_False_eq_True)
qed

text \<open>The contracts of the engine hold for the union of all management TLVs.\<close>

interpretation mng: wire_codec tlv_f ok_tlv enc_tlv "\<lambda>t _. norm_tlv t"
    "\<lambda>t t0 rest. new_tlv (tlv_type t) = Some t0 \<and> rest < 2"
  by (rule codec_tlv)

interpretation mng_win: windowed tlv_f
  by (rule window_tlv)

interpretation clock_id: progressing proc_ClockIdentity
  by (rule progress_ClockIdentity)

section \<open>The dispatch\<close>

lemma tlv_type_range [simp]: "tlv_type t < 58"
  by (cases t) simp_all

lemma tlv_type_range' [simp]: "(58 \<le> tlv_type t) = False"
  by (simp add: not_le)

lemma tlv_type_fun [simp]: "ids_fun (ids ! tlv_type t) \<noteq> NA"
  by (cases t) (simp_all add: ids_def row_def)

lemma call_tlv_build:
  assumes "m_build s" "reserved s = 0" "wf s" "ok_tlv t" "int (length (enc_tlv t)) \<le> m_left s"
  shows "call_tlv_data (tlv_type t) (Some t) s =
    Some (MNG_PARSE_ERROR_OK, Some (norm_tlv t),
      emit (enc_tlv t) (s\<lparr>m_err := MNG_PARSE_ERROR_TOO_SMALL\<rparr>))"
  using assms mng.build_fits [of "s\<lparr>m_err := MNG_PARSE_ERROR_TOO_SMALL\<rparr>" t]
  by (simp add: call_tlv_data_def Let_def)

lemma call_tlv_short:
  assumes "m_build s" "reserved s = 0" "wf s" "ok_tlv t" "m_left s < int (length (enc_tlv t))"
  shows "\<exists>t' s'. call_tlv_data (tlv_type t) (Some t) s =
      Some (MNG_PARSE_ERROR_TOO_SMALL, Some t', s') \<and>
    build_frame (s\<lparr>m_err := MNG_PARSE_ERROR_TOO_SMALL\<rparr>) s'"
  using assms mng.build_short [of "s\<lparr>m_err := MNG_PARSE_ERROR_TOO_SMALL\<rparr>" t]
  by (auto simp: call_tlv_data_def build_frame_def Let_def)

lemma new_tlv_of_type: "\<exists>t0. new_tlv (tlv_type t) = Some t0"
  by (cases t) (simp_all add: new_tlv_def)

lemma call_tlv_parse:
  assumes "\<not> m_build s" "wf s" "ok_tlv t" "starts_with s (enc_tlv t)"
    and "m_left s - int (length (enc_tlv t)) < 2"
  shows "\<exists>r. call_tlv_data (tlv_type t) tlv s = Some (MNG_PARSE_ERROR_OK, Some (norm_tlv t),
    (move (length (enc_tlv t)) (s\<lparr>m_err := MNG_PARSE_ERROR_TOO_SMALL\<rparr>))\<lparr>reserved := r\<rparr>)"
proof -
  obtain t0 where t0: "new_tlv (tlv_type t) = Some t0" using new_tlv_of_type by blast
  then show ?thesis
    using assms mng.parse_back [of "s\<lparr>m_err := MNG_PARSE_ERROR_TOO_SMALL\<rparr>" t t0]
    by (auto simp: call_tlv_data_def Let_def)
qed

lemma new_tlv_total:
  assumes "tid < 58" and "ids_fun (ids ! tid) \<noteq> NA"
  shows "\<exists>t. new_tlv tid = Some t"
proof -
  have "list_all (\<lambda>(i, r). ids_fun r \<noteq> NA \<longrightarrow> (\<exists>t. new_tlv i = Some t)) (enumerate 0 ids)"
    unfolding ids_def by (simp add: row_def new_tlv_def)
  then have "ids_fun (ids ! tid) \<noteq> NA \<longrightarrow> (\<exists>t. new_tlv tid = Some t)"
    using assms(1) by (rule ids_all)
  with assms(2) show ?thesis by simp
qed

text \<open>
  Parsing a TLV, whatever the octets are: it returns, stays in its window, and sets the pointer
  exactly when it returns no error for an ID that has a structure.
\<close>

lemma call_tlv_window:
  assumes "\<not> m_build s" "wf s"
  shows "\<exists>err tlv' s'. call_tlv_data tid tlv s = Some (err, tlv', s') \<and> parse_frame s s' \<and>
    (err = MNG_PARSE_ERROR_OK \<longrightarrow> (if ids_fun (ids ! tid) = NA then tlv' = tlv else tlv' \<noteq> None))"
proof (cases "tid < 58 \<and> ids_fun (ids ! tid) \<noteq> NA")
  case True
  then obtain t where t: "new_tlv tid = Some t" using new_tlv_total by blast
  let ?s = "s\<lparr>m_err := MNG_PARSE_ERROR_TOO_SMALL\<rparr>"
  have "\<not> m_build ?s" "wf ?s" using assms by simp_all
  then obtain e t' s' where "tlv_f t ?s = Some (e, t', s')" "parse_frame ?s s'"
    by (rule windowedE [OF window_tlv, where d = t])
  with True t assms show ?thesis
    by (cases e) (auto simp: call_tlv_data_def Let_def)
next
  case False
  then show ?thesis using assms by (auto simp: call_tlv_data_def Let_def wf_def parse_frame_def)
qed

section \<open>Sizes\<close>

lemma length_enc_structs [simp]:
  "length (enc_TimeInterval ti) = 8" "length (enc_Timestamp ts) = 10"
  "length (enc_ClockQuality cq) = 4" "length (enc_PTPText tx) = PTPText_size tx"
  "length (enc_PortAddress pa) = PortAddress_size pa"
  "length (enc_FaultRecord fr) = FaultRecord_size fr"
  by (simp_all add: enc_TimeInterval_def enc_Timestamp_def enc_ClockQuality_def enc_PTPText_def
      enc_PortAddress_def enc_FaultRecord_def PTPText_size_def PortAddress_size_def
      FaultRecord_size_def Timestamp_size_def)

lemma length_enc_ids [simp]:
  "ok_ClockIdentity ci \<Longrightarrow> length (enc_ClockIdentity ci) = 8"
  "ok_PortIdentity p \<Longrightarrow> length (enc_PortIdentity p) = 10"
  "ok_AcceptableMaster am \<Longrightarrow> length (enc_AcceptableMaster am) = 11"
  by (simp_all add: ok_ClockIdentity_def enc_ClockIdentity_def ok_PortIdentity_def
      enc_PortIdentity_def ok_AcceptableMaster_def enc_AcceptableMaster_def)

lemma vector_l_eq:
  assumes "\<And>x. length (enc x) = sz x"
  shows "vector_l ret sz vec = ret + length (concat (map enc vec))"
  by (induction vec arbitrary: ret) (simp_all add: assms)

definition even_up :: "int \<Rightarrow> int" where
  "even_up n = (if odd n then n + 1 else n)"

lemmas enc_mng_defs =
  enc_CLOCK_DESCRIPTION_def enc_USER_DESCRIPTION_def enc_INITIALIZE_def enc_FAULT_LOG_def
  enc_DEFAULT_DATA_SET_def enc_CURRENT_DATA_SET_def enc_PARENT_DATA_SET_def
  enc_TIME_PROPERTIES_DATA_SET_def enc_PORT_DATA_SET_def enc_PRIORITY1_def enc_PRIORITY2_def
  enc_DOMAIN_def enc_SLAVE_ONLY_def enc_LOG_ANNOUNCE_INTERVAL_def
  enc_ANNOUNCE_RECEIPT_TIMEOUT_def enc_LOG_SYNC_INTERVAL_def enc_VERSION_NUMBER_def enc_TIME_def
  enc_CLOCK_ACCURACY_def enc_UTC_PROPERTIES_def enc_TRACEABILITY_PROPERTIES_def
  enc_TIMESCALE_PROPERTIES_def enc_UNICAST_NEGOTIATION_ENABLE_def enc_PATH_TRACE_LIST_def
  enc_PATH_TRACE_ENABLE_def enc_GRANDMASTER_CLUSTER_TABLE_def enc_UNICAST_MASTER_TABLE_def
  enc_UNICAST_MASTER_MAX_TABLE_SIZE_def enc_ACCEPTABLE_MASTER_TABLE_def
  enc_ACCEPTABLE_MASTER_TABLE_ENABLED_def enc_ACCEPTABLE_MASTER_MAX_TABLE_SIZE_def
  enc_ALTERNATE_MASTER_def enc_ALTERNATE_TIME_OFFSET_ENABLE_def
  enc_ALTERNATE_TIME_OFFSET_NAME_def enc_ALTERNATE_TIME_OFFSET_MAX_KEY_def
  enc_ALTERNATE_TIME_OFFSET_PROPERTIES_def enc_TRANSPARENT_CLOCK_PORT_DATA_SET_def
  enc_LOG_MIN_PDELAY_REQ_INTERVAL_def enc_TRANSPARENT_CLOCK_DEFAULT_DATA_SET_def
  enc_PRIMARY_DOMAIN_def enc_DELAY_MECHANISM_def enc_EXTERNAL_PORT_CONFIGURATION_ENABLED_def
  enc_MASTER_ONLY_def enc_HOLDOVER_UPGRADE_ENABLE_def enc_EXT_PORT_CONFIG_PORT_DATA_SET_def
  enc_TIME_STATUS_NP_def enc_GRANDMASTER_SETTINGS_NP_def enc_PORT_DATA_SET_NP_def
  enc_SUBSCRIBE_EVENTS_NP_def enc_PORT_PROPERTIES_NP_def enc_PORT_STATS_NP_def
  enc_SYNCHRONIZATION_UNCERTAIN_NP_def

lemmas ok_mng_defs =
  ok_CLOCK_DESCRIPTION_def ok_USER_DESCRIPTION_def ok_FAULT_LOG_def ok_DEFAULT_DATA_SET_def
  ok_PARENT_DATA_SET_def ok_PORT_DATA_SET_def ok_TIME_def ok_PATH_TRACE_LIST_def
  ok_GRANDMASTER_CLUSTER_TABLE_def ok_UNICAST_MASTER_TABLE_def ok_ACCEPTABLE_MASTER_TABLE_def
  ok_ALTERNATE_TIME_OFFSET_NAME_def ok_ALTERNATE_TIME_OFFSET_PROPERTIES_def
  ok_TRANSPARENT_CLOCK_PORT_DATA_SET_def ok_TRANSPARENT_CLOCK_DEFAULT_DATA_SET_def
  ok_TIME_STATUS_NP_def ok_SUBSCRIBE_EVENTS_NP_def ok_PORT_PROPERTIES_NP_def ok_PORT_STATS_NP_def

lemmas size_mng_defs =
  CLOCK_DESCRIPTION_s_def USER_DESCRIPTION_s_def FAULT_LOG_s_def PATH_TRACE_LIST_s_def
  GRANDMASTER_CLUSTER_TABLE_s_def UNICAST_MASTER_TABLE_s_def ACCEPTABLE_MASTER_TABLE_s_def
  ALTERNATE_TIME_OFFSET_NAME_s_def PORT_PROPERTIES_NP_s_def

lemma length_bytes_le_concat [simp]: "length (concat (map (bytes_le n) xs)) = n * length xs"
  by (rule length_concat_const) (simp add: list_all_iff)

lemma enc_tlv_fixed:
  assumes "ok_tlv t" and "0 < ids_size (ids ! tlv_type t)"
  shows "even_up (int (length (enc_tlv t))) = ids_size (ids ! tlv_type t)"
  using assms
  by (cases t) (simp_all add: ids_def row_def enc_mng_defs ok_mng_defs even_up_def)

lemma vector_l_encs:
  "vector_l ret FaultRecord_size fr = ret + length (concat (map enc_FaultRecord fr))"
  "vector_l ret PortAddress_size pa = ret + length (concat (map enc_PortAddress pa))"
  by (rule vector_l_eq, simp)+

lemma length_concat_ids:
  "list_all ok_ClockIdentity ci \<Longrightarrow> length (concat (map enc_ClockIdentity ci)) = 8 * length ci"
  "list_all ok_AcceptableMaster am \<Longrightarrow>
     length (concat (map enc_AcceptableMaster am)) = 11 * length am"
  by (rule length_concat_const, erule list.pred_mono_strong, simp)+

lemma enc_tlv_variable:
  assumes "ok_tlv t" and "ids_size (ids ! tlv_type t) = - 2"
  shows "dataFieldSize (tlv_type t) (Some t) =
    Some (int (length (enc_tlv t)) - (if tlv_type t = CLOCK_DESCRIPTION then 1 else 0))"
  using assms
  by (cases t) (simp_all add: ids_def row_def enc_mng_defs ok_mng_defs dataFieldSize_def tlv_s_def
      size_mng_defs vector_l_encs length_concat_ids AcceptableMaster_size_def PortIdentity_size_def
      ClockIdentity_size_def)

section \<open>Properties\<close>

text \<open>
  Property C6. Building a management TLV that respects the limits of its members writes its reference
  encoding at the cursor and nothing else, and parsing those octets, on a machine of the same byte
  order, gives the TLV back.
\<close>

theorem tlv_roundtrip:
  assumes "m_build s" and "reserved s = 0" and "wf s" and "ok_tlv t"
    and "int (length (enc_tlv t)) \<le> m_left s" and "m_left s < int (length (enc_tlv t)) + 2"
  shows "\<exists>s1 s2. call_tlv_data (tlv_type t) (Some t) s = Some (MNG_PARSE_ERROR_OK, Some (norm_tlv t), s1) \<and>
    mem s1 = patch (m_cur s) (enc_tlv t) (mem s) \<and>
    call_tlv_data (tlv_type t) None (s\<lparr>m_build := False, mem := mem s1\<rparr>) =
      Some (MNG_PARSE_ERROR_OK, Some (norm_tlv t), s2)"
proof -
  let ?s1 = "emit (enc_tlv t) (s\<lparr>m_err := MNG_PARSE_ERROR_TOO_SMALL\<rparr>)"
  let ?p = "s\<lparr>m_build := False, mem := mem ?s1\<rparr>"
  have "m_cur s + length (enc_tlv t) \<le> length (mem s)" using assms(3,5) by (rule wf_room)
  then have "starts_with ?p (enc_tlv t)" "wf ?p"
    using assms(3,5) by (simp_all add: starts_with_def take_drop_patch wf_def)
  then obtain r where "call_tlv_data (tlv_type t) None ?p = Some (MNG_PARSE_ERROR_OK, Some (norm_tlv t), 
      (move (length (enc_tlv t)) (?p\<lparr>m_err := MNG_PARSE_ERROR_TOO_SMALL\<rparr>))\<lparr>reserved := r\<rparr>)"
    using call_tlv_parse [of ?p t None] assms(4,6) by auto
  with call_tlv_build [OF assms(1-5)] show ?thesis by auto
qed

theorem tlv_roundtrip_witness:
  "\<exists>s s1 s2. mem (s :: mst) = [1, 2, 3] \<and>
    call_tlv_data PRIORITY1 (Some (TLV_PRIORITY1 \<lparr>PRIORITY1_t.priority1 = 100\<rparr>)) s =
      Some (MNG_PARSE_ERROR_OK, Some (TLV_PRIORITY1 \<lparr>PRIORITY1_t.priority1 = 100\<rparr>), s1) \<and>
    mem s1 = [100, 2, 3] \<and>
    call_tlv_data PRIORITY1 None (s\<lparr>m_build := False, mem := mem s1\<rparr>) =
      Some (MNG_PARSE_ERROR_OK, Some (TLV_PRIORITY1 \<lparr>PRIORITY1_t.priority1 = 100\<rparr>), s2)"
proof -
  let ?s = "\<lparr>host = LITTLE, mem = [1, 2, 3], m_build = True, m_cur = 0, m_left = 2, m_size = 0,
    m_err = MNG_PARSE_ERROR_OK, reserved = 0\<rparr> :: mst"
  show ?thesis
    by (rule exI [of _ ?s])
      (use tlv_roundtrip [of ?s "TLV_PRIORITY1 \<lparr>PRIORITY1_t.priority1 = 100\<rparr>"]
       in \<open>simp add: wf_def enc_PRIORITY1_def patch_def\<close>)
qed

text \<open>
  Property C22. The size the table of ids gives for an id with a fixed dataField is the length of what
  \<^verbatim>\<open>build\<close> puts there, pad included.
\<close>

theorem tlv_fixed_size:
  assumes "ok_tlv t" and "0 < ids_size (ids ! tlv_type t)"
  shows "even_up (int (length (enc_tlv t))) = ids_size (ids ! tlv_type t)"
  using assms by (rule enc_tlv_fixed)

theorem tlv_fixed_size_witness:
  "even_up (int (length (enc_tlv (TLV_PRIORITY1 \<lparr>PRIORITY1_t.priority1 = 100\<rparr>)))) = 2"
  using tlv_fixed_size [of "TLV_PRIORITY1 \<lparr>PRIORITY1_t.priority1 = 100\<rparr>"] by (simp add: ids_def row_def)

text \<open>
  Property C25. The size computed for a TLV of variable size is the length of its encoding, except for
  \<^verbatim>\<open>CLOCK_DESCRIPTION\<close>, for which it is one octet less (the pad hides the difference).
\<close>

theorem tlv_variable_size:
  assumes "ok_tlv t" and "ids_size (ids ! tlv_type t) = - 2"
  shows "dataFieldSize (tlv_type t) (Some t) =
    Some (int (length (enc_tlv t)) - (if tlv_type t = CLOCK_DESCRIPTION then 1 else 0))"
  using assms by (rule enc_tlv_variable)

theorem tlv_variable_size_witness:
  "dataFieldSize PATH_TRACE_LIST (Some (TLV_PATH_TRACE_LIST
      \<lparr>PATH_TRACE_LIST_t.pathSequence = [\<lparr>v_octets = [1, 2, 3, 4, 5, 6, 7, 8]\<rparr>]\<rparr>)) = Some 8"
  using tlv_variable_size [of "TLV_PATH_TRACE_LIST
      \<lparr>PATH_TRACE_LIST_t.pathSequence = [\<lparr>v_octets = [1, 2, 3, 4, 5, 6, 7, 8]\<rparr>]\<rparr>"]
  by (simp add: ids_def row_def enc_PATH_TRACE_LIST_def ok_PATH_TRACE_LIST_def ok_ClockIdentity_def
      enc_ClockIdentity_def)

end
