(* ===== verification/SigCodec.thy ===== *)
theory SigCodec
  imports SigTlv MngCodec
begin

text \<open>
  The reference encodings of the signaling TLVs and the proof that the functions of
  \<^verbatim>\<open>src/sig.cpp\<close> implement them and stay in their windows, all but
  \<^verbatim>\<open>ENHANCED_ACCURACY_METRICS\<close>, whose floating-point members move the cursor twice.
\<close>

abbreviation exact :: "'d \<Rightarrow> 'd \<Rightarrow> 'd \<Rightarrow> int \<Rightarrow> bool" where
  "exact new \<equiv> \<lambda>_ d0 rest. d0 = new \<and> rest = 0"

section \<open>Reference encodings\<close>

definition ok_SLAVE_RX_SYNC_TIMING_DATA_rec :: "SLAVE_RX_SYNC_TIMING_DATA_rec_t \<Rightarrow> bool" where
  "ok_SLAVE_RX_SYNC_TIMING_DATA_rec d \<longleftrightarrow>
     ok_Timestamp (SLAVE_RX_SYNC_TIMING_DATA_rec_t.syncOriginTimestamp d) \<and>
     ok_Timestamp (SLAVE_RX_SYNC_TIMING_DATA_rec_t.syncEventIngressTimestamp d)"

definition enc_SLAVE_RX_SYNC_TIMING_DATA_rec :: "SLAVE_RX_SYNC_TIMING_DATA_rec_t \<Rightarrow> byte list" where
  "enc_SLAVE_RX_SYNC_TIMING_DATA_rec d =
     bytes_be 2 (SLAVE_RX_SYNC_TIMING_DATA_rec_t.sequenceId d) @
     enc_Timestamp (SLAVE_RX_SYNC_TIMING_DATA_rec_t.syncOriginTimestamp d) @
     enc_TimeInterval (SLAVE_RX_SYNC_TIMING_DATA_rec_t.totalCorrectionField d) @
     bytes_be 4 (SLAVE_RX_SYNC_TIMING_DATA_rec_t.scaledCumulativeRateOffset d) @
     enc_Timestamp (SLAVE_RX_SYNC_TIMING_DATA_rec_t.syncEventIngressTimestamp d)"

definition enc_SLAVE_RX_SYNC_COMPUTED_DATA_rec :: "SLAVE_RX_SYNC_COMPUTED_DATA_rec_t \<Rightarrow> byte list" where
  "enc_SLAVE_RX_SYNC_COMPUTED_DATA_rec d =
     bytes_be 2 (SLAVE_RX_SYNC_COMPUTED_DATA_rec_t.sequenceId d) @
     enc_TimeInterval (SLAVE_RX_SYNC_COMPUTED_DATA_rec_t.offsetFromMaster d) @
     enc_TimeInterval (SLAVE_RX_SYNC_COMPUTED_DATA_rec_t.meanPathDelay d) @
     bytes_be 4 (SLAVE_RX_SYNC_COMPUTED_DATA_rec_t.scaledNeighborRateRatio d)"

definition ok_SLAVE_TX_EVENT_TIMESTAMPS_rec :: "SLAVE_TX_EVENT_TIMESTAMPS_rec_t \<Rightarrow> bool" where
  "ok_SLAVE_TX_EVENT_TIMESTAMPS_rec d \<longleftrightarrow>
     ok_Timestamp (SLAVE_TX_EVENT_TIMESTAMPS_rec_t.eventEgressTimestamp d)"

definition enc_SLAVE_TX_EVENT_TIMESTAMPS_rec :: "SLAVE_TX_EVENT_TIMESTAMPS_rec_t \<Rightarrow> byte list" where
  "enc_SLAVE_TX_EVENT_TIMESTAMPS_rec d =
     bytes_be 2 (SLAVE_TX_EVENT_TIMESTAMPS_rec_t.sequenceId d) @
     enc_Timestamp (SLAVE_TX_EVENT_TIMESTAMPS_rec_t.eventEgressTimestamp d)"

definition ok_SLAVE_DELAY_TIMING_DATA_NP_rec :: "SLAVE_DELAY_TIMING_DATA_NP_rec_t \<Rightarrow> bool" where
  "ok_SLAVE_DELAY_TIMING_DATA_NP_rec d \<longleftrightarrow>
     ok_Timestamp (SLAVE_DELAY_TIMING_DATA_NP_rec_t.delayOriginTimestamp d) \<and>
     ok_Timestamp (SLAVE_DELAY_TIMING_DATA_NP_rec_t.delayResponseTimestamp d)"

definition enc_SLAVE_DELAY_TIMING_DATA_NP_rec :: "SLAVE_DELAY_TIMING_DATA_NP_rec_t \<Rightarrow> byte list" where
  "enc_SLAVE_DELAY_TIMING_DATA_NP_rec d =
     bytes_be 2 (SLAVE_DELAY_TIMING_DATA_NP_rec_t.sequenceId d) @
     enc_Timestamp (SLAVE_DELAY_TIMING_DATA_NP_rec_t.delayOriginTimestamp d) @
     enc_TimeInterval (SLAVE_DELAY_TIMING_DATA_NP_rec_t.totalCorrectionField d) @
     enc_Timestamp (SLAVE_DELAY_TIMING_DATA_NP_rec_t.delayResponseTimestamp d)"

definition ok_ORGANIZATION_EXTENSION :: "ORGANIZATION_EXTENSION_t \<Rightarrow> bool" where
  "ok_ORGANIZATION_EXTENSION d \<longleftrightarrow>
     length (ORGANIZATION_EXTENSION_t.organizationId d) = 3 \<and>
     length (ORGANIZATION_EXTENSION_t.organizationSubType d) = 3 \<and>
     length (ORGANIZATION_EXTENSION_t.dataField d) < 65536"

definition enc_ORGANIZATION_EXTENSION :: "ORGANIZATION_EXTENSION_t \<Rightarrow> byte list" where
  "enc_ORGANIZATION_EXTENSION d =
     ORGANIZATION_EXTENSION_t.organizationId d @
     ORGANIZATION_EXTENSION_t.organizationSubType d @ ORGANIZATION_EXTENSION_t.dataField d"

definition ok_PATH_TRACE :: "PATH_TRACE_t \<Rightarrow> bool" where
  "ok_PATH_TRACE d \<longleftrightarrow>
     list_all ok_ClockIdentity (PATH_TRACE_t.pathSequence d)"

definition enc_PATH_TRACE :: "PATH_TRACE_t \<Rightarrow> byte list" where
  "enc_PATH_TRACE d =
     concat (map enc_ClockIdentity (PATH_TRACE_t.pathSequence d))"

definition ok_ALTERNATE_TIME_OFFSET_INDICATOR :: "ALTERNATE_TIME_OFFSET_INDICATOR_t \<Rightarrow> bool" where
  "ok_ALTERNATE_TIME_OFFSET_INDICATOR d \<longleftrightarrow>
     ok_PTPText (ALTERNATE_TIME_OFFSET_INDICATOR_t.displayName d)"

definition norm_ALTERNATE_TIME_OFFSET_INDICATOR :: "ALTERNATE_TIME_OFFSET_INDICATOR_t \<Rightarrow> ALTERNATE_TIME_OFFSET_INDICATOR_t" where
  "norm_ALTERNATE_TIME_OFFSET_INDICATOR d = d\<lparr>
     ALTERNATE_TIME_OFFSET_INDICATOR_t.displayName := norm_PTPText (ALTERNATE_TIME_OFFSET_INDICATOR_t.displayName d)\<rparr>"

definition enc_ALTERNATE_TIME_OFFSET_INDICATOR :: "ALTERNATE_TIME_OFFSET_INDICATOR_t \<Rightarrow> byte list" where
  "enc_ALTERNATE_TIME_OFFSET_INDICATOR d =
     [ALTERNATE_TIME_OFFSET_INDICATOR_t.keyField d] @
     bytes_be 4 (ALTERNATE_TIME_OFFSET_INDICATOR_t.currentOffset d) @
     bytes_be 4 (ALTERNATE_TIME_OFFSET_INDICATOR_t.jumpSeconds d) @
     bytes_be 8 (ALTERNATE_TIME_OFFSET_INDICATOR_t.timeOfNextJump d) @
     enc_PTPText (ALTERNATE_TIME_OFFSET_INDICATOR_t.displayName d)"

definition norm_L1_SYNC :: "L1_SYNC_t \<Rightarrow> L1_SYNC_t" where
  "norm_L1_SYNC d = d\<lparr>
     L1_SYNC_t.flags1 := mask_flags 0xf (L1_SYNC_t.flags1 d),
     L1_SYNC_t.flags2 := mask_flags 0x7 (L1_SYNC_t.flags2 d)\<rparr>"

definition enc_L1_SYNC :: "L1_SYNC_t \<Rightarrow> byte list" where
  "enc_L1_SYNC d =
     [mask_flags 0xf (L1_SYNC_t.flags1 d)] @ [mask_flags 0x7 (L1_SYNC_t.flags2 d)]"

definition norm_PORT_COMMUNICATION_AVAILABILITY :: "PORT_COMMUNICATION_AVAILABILITY_t \<Rightarrow> PORT_COMMUNICATION_AVAILABILITY_t" where
  "norm_PORT_COMMUNICATION_AVAILABILITY d = d\<lparr>
     PORT_COMMUNICATION_AVAILABILITY_t.syncMessageAvailability := mask_flags 0xf (PORT_COMMUNICATION_AVAILABILITY_t.syncMessageAvailability d),
     PORT_COMMUNICATION_AVAILABILITY_t.delayRespMessageAvailability := mask_flags 0xf (PORT_COMMUNICATION_AVAILABILITY_t.delayRespMessageAvailability d)\<rparr>"

definition enc_PORT_COMMUNICATION_AVAILABILITY :: "PORT_COMMUNICATION_AVAILABILITY_t \<Rightarrow> byte list" where
  "enc_PORT_COMMUNICATION_AVAILABILITY d =
     [mask_flags 0xf (PORT_COMMUNICATION_AVAILABILITY_t.syncMessageAvailability d)] @
     [mask_flags 0xf (PORT_COMMUNICATION_AVAILABILITY_t.delayRespMessageAvailability d)]"

definition ok_PROTOCOL_ADDRESS :: "PROTOCOL_ADDRESS_t \<Rightarrow> bool" where
  "ok_PROTOCOL_ADDRESS d \<longleftrightarrow>
     ok_PortAddress (PROTOCOL_ADDRESS_t.portProtocolAddress d)"

definition norm_PROTOCOL_ADDRESS :: "PROTOCOL_ADDRESS_t \<Rightarrow> PROTOCOL_ADDRESS_t" where
  "norm_PROTOCOL_ADDRESS d = d\<lparr>
     PROTOCOL_ADDRESS_t.portProtocolAddress := norm_PortAddress (PROTOCOL_ADDRESS_t.portProtocolAddress d)\<rparr>"

definition enc_PROTOCOL_ADDRESS :: "PROTOCOL_ADDRESS_t \<Rightarrow> byte list" where
  "enc_PROTOCOL_ADDRESS d =
     enc_PortAddress (PROTOCOL_ADDRESS_t.portProtocolAddress d)"

definition ok_SLAVE_RX_SYNC_TIMING_DATA :: "SLAVE_RX_SYNC_TIMING_DATA_t \<Rightarrow> bool" where
  "ok_SLAVE_RX_SYNC_TIMING_DATA d \<longleftrightarrow>
     ok_PortIdentity (SLAVE_RX_SYNC_TIMING_DATA_t.syncSourcePortIdentity d) \<and>
     list_all ok_SLAVE_RX_SYNC_TIMING_DATA_rec (SLAVE_RX_SYNC_TIMING_DATA_t.rec_list d)"

definition enc_SLAVE_RX_SYNC_TIMING_DATA :: "SLAVE_RX_SYNC_TIMING_DATA_t \<Rightarrow> byte list" where
  "enc_SLAVE_RX_SYNC_TIMING_DATA d =
     enc_PortIdentity (SLAVE_RX_SYNC_TIMING_DATA_t.syncSourcePortIdentity d) @
     concat (map enc_SLAVE_RX_SYNC_TIMING_DATA_rec (SLAVE_RX_SYNC_TIMING_DATA_t.rec_list d))"

definition ok_SLAVE_RX_SYNC_COMPUTED_DATA :: "SLAVE_RX_SYNC_COMPUTED_DATA_t \<Rightarrow> bool" where
  "ok_SLAVE_RX_SYNC_COMPUTED_DATA d \<longleftrightarrow>
     ok_PortIdentity (SLAVE_RX_SYNC_COMPUTED_DATA_t.sourcePortIdentity d)"

definition norm_SLAVE_RX_SYNC_COMPUTED_DATA :: "SLAVE_RX_SYNC_COMPUTED_DATA_t \<Rightarrow> SLAVE_RX_SYNC_COMPUTED_DATA_t" where
  "norm_SLAVE_RX_SYNC_COMPUTED_DATA d = d\<lparr>
     SLAVE_RX_SYNC_COMPUTED_DATA_t.computedFlags := mask_flags 0x7 (SLAVE_RX_SYNC_COMPUTED_DATA_t.computedFlags d)\<rparr>"

definition enc_SLAVE_RX_SYNC_COMPUTED_DATA :: "SLAVE_RX_SYNC_COMPUTED_DATA_t \<Rightarrow> byte list" where
  "enc_SLAVE_RX_SYNC_COMPUTED_DATA d =
     enc_PortIdentity (SLAVE_RX_SYNC_COMPUTED_DATA_t.sourcePortIdentity d) @
     [mask_flags 0x7 (SLAVE_RX_SYNC_COMPUTED_DATA_t.computedFlags d)] @ [0] @
     concat (map enc_SLAVE_RX_SYNC_COMPUTED_DATA_rec (SLAVE_RX_SYNC_COMPUTED_DATA_t.rec_list d))"

definition ok_SLAVE_TX_EVENT_TIMESTAMPS :: "SLAVE_TX_EVENT_TIMESTAMPS_t \<Rightarrow> bool" where
  "ok_SLAVE_TX_EVENT_TIMESTAMPS d \<longleftrightarrow>
     ok_PortIdentity (SLAVE_TX_EVENT_TIMESTAMPS_t.sourcePortIdentity d) \<and>
     list_all ok_SLAVE_TX_EVENT_TIMESTAMPS_rec (SLAVE_TX_EVENT_TIMESTAMPS_t.rec_list d)"

definition enc_SLAVE_TX_EVENT_TIMESTAMPS :: "SLAVE_TX_EVENT_TIMESTAMPS_t \<Rightarrow> byte list" where
  "enc_SLAVE_TX_EVENT_TIMESTAMPS d =
     enc_PortIdentity (SLAVE_TX_EVENT_TIMESTAMPS_t.sourcePortIdentity d) @
     [SLAVE_TX_EVENT_TIMESTAMPS_t.eventMessageType d] @ [0] @
     concat (map enc_SLAVE_TX_EVENT_TIMESTAMPS_rec (SLAVE_TX_EVENT_TIMESTAMPS_t.rec_list d))"

definition enc_CUMULATIVE_RATE_RATIO :: "CUMULATIVE_RATE_RATIO_t \<Rightarrow> byte list" where
  "enc_CUMULATIVE_RATE_RATIO d =
     bytes_be 4 (CUMULATIVE_RATE_RATIO_t.scaledCumulativeRateRatio d)"

definition ok_SLAVE_DELAY_TIMING_DATA_NP :: "SLAVE_DELAY_TIMING_DATA_NP_t \<Rightarrow> bool" where
  "ok_SLAVE_DELAY_TIMING_DATA_NP d \<longleftrightarrow>
     ok_PortIdentity (SLAVE_DELAY_TIMING_DATA_NP_t.sourcePortIdentity d) \<and>
     list_all ok_SLAVE_DELAY_TIMING_DATA_NP_rec (SLAVE_DELAY_TIMING_DATA_NP_t.rec_list d)"

definition enc_SLAVE_DELAY_TIMING_DATA_NP :: "SLAVE_DELAY_TIMING_DATA_NP_t \<Rightarrow> byte list" where
  "enc_SLAVE_DELAY_TIMING_DATA_NP d =
     enc_PortIdentity (SLAVE_DELAY_TIMING_DATA_NP_t.sourcePortIdentity d) @
     concat (map enc_SLAVE_DELAY_TIMING_DATA_NP_rec (SLAVE_DELAY_TIMING_DATA_NP_t.rec_list d))"

section \<open>The functions implement the encodings\<close>

text \<open>\<^verbatim>\<open>proc(d.dataField, m_left)\<close>: the binary takes the rest of the window.\<close>

lemma codec_rest_binary [codec_rules]:
  "wire_codec (\<lambda>d s. field get upd (proc_binary (word_of_int (m_left s))) d s)
     (\<lambda>d. length (get d) < 65536) get (\<lambda>d d0. upd (\<lambda>_. get d) d0) (\<lambda>d d0 rest. rest = 0)"
proof (unfold_locales, goal_cases)
  case (1 s d)
  then show ?case
    using wire_codec.build_fits [OF codec_binary [where len = "\<lambda>_. word_of_int (m_left s)"], of s get d upd]
    by simp
next
  case (2 s d)
  then show ?case
    using wire_codec.build_short [OF codec_binary [where len = "\<lambda>_. word_of_int (m_left s)"], of s get d upd]
    by simp
next
  case (3 s d d0)
  then have "m_left s = int (length (get d))" by simp
  with 3 show ?case
    using wire_codec.parse_back [OF codec_binary [where len = "\<lambda>_. word_of_int (m_left s)"],
        of s get d upd d0]
    by simp
qed

lemma window_rest_binary [window_rules]:
  "windowed (\<lambda>d s. field get upd (proc_binary (g s)) d s)"
proof (rule windowedI, goal_cases)
  case (1 s d)
  obtain e v s' where "proc_binary (g s) (get d) s = Some (e, v, s')" "parse_frame s s'"
    using windowedE [OF window_binary 1] by blast
  then show ?case by (simp add: field_def)
qed

lemma codec_SLAVE_RX_SYNC_TIMING_DATA_rec [codec_rules]:
  "wire_codec proc_SLAVE_RX_SYNC_TIMING_DATA_rec ok_SLAVE_RX_SYNC_TIMING_DATA_rec enc_SLAVE_RX_SYNC_TIMING_DATA_rec (\<lambda>x _. x) no_pre"
  unfolding proc_SLAVE_RX_SYNC_TIMING_DATA_rec_def
  by (rule codec_weaken, (rule codec_rules)+) (auto simp: enc_SLAVE_RX_SYNC_TIMING_DATA_rec_def ok_SLAVE_RX_SYNC_TIMING_DATA_rec_def new_SLAVE_RX_SYNC_TIMING_DATA_rec_def)

lemma length_enc_SLAVE_RX_SYNC_TIMING_DATA_rec [simp]: "length (enc_SLAVE_RX_SYNC_TIMING_DATA_rec d) = size_SLAVE_RX_SYNC_TIMING_DATA_rec"
  by (simp add: enc_SLAVE_RX_SYNC_TIMING_DATA_rec_def size_SLAVE_RX_SYNC_TIMING_DATA_rec_def TimeInterval_size_def Timestamp_size_def)

lemma size_SLAVE_RX_SYNC_TIMING_DATA_rec_pos [simp]: "0 < size_SLAVE_RX_SYNC_TIMING_DATA_rec"
  by (simp add: size_SLAVE_RX_SYNC_TIMING_DATA_rec_def)

lemma codec_SLAVE_RX_SYNC_COMPUTED_DATA_rec [codec_rules]:
  "wire_codec proc_SLAVE_RX_SYNC_COMPUTED_DATA_rec (\<lambda>_. True) enc_SLAVE_RX_SYNC_COMPUTED_DATA_rec (\<lambda>x _. x) no_pre"
  unfolding proc_SLAVE_RX_SYNC_COMPUTED_DATA_rec_def
  by (rule codec_weaken, (rule codec_rules)+) (auto simp: enc_SLAVE_RX_SYNC_COMPUTED_DATA_rec_def new_SLAVE_RX_SYNC_COMPUTED_DATA_rec_def)

lemma length_enc_SLAVE_RX_SYNC_COMPUTED_DATA_rec [simp]: "length (enc_SLAVE_RX_SYNC_COMPUTED_DATA_rec d) = size_SLAVE_RX_SYNC_COMPUTED_DATA_rec"
  by (simp add: enc_SLAVE_RX_SYNC_COMPUTED_DATA_rec_def size_SLAVE_RX_SYNC_COMPUTED_DATA_rec_def TimeInterval_size_def Timestamp_size_def)

lemma size_SLAVE_RX_SYNC_COMPUTED_DATA_rec_pos [simp]: "0 < size_SLAVE_RX_SYNC_COMPUTED_DATA_rec"
  by (simp add: size_SLAVE_RX_SYNC_COMPUTED_DATA_rec_def)

lemma codec_SLAVE_TX_EVENT_TIMESTAMPS_rec [codec_rules]:
  "wire_codec proc_SLAVE_TX_EVENT_TIMESTAMPS_rec ok_SLAVE_TX_EVENT_TIMESTAMPS_rec enc_SLAVE_TX_EVENT_TIMESTAMPS_rec (\<lambda>x _. x) no_pre"
  unfolding proc_SLAVE_TX_EVENT_TIMESTAMPS_rec_def
  by (rule codec_weaken, (rule codec_rules)+) (auto simp: enc_SLAVE_TX_EVENT_TIMESTAMPS_rec_def ok_SLAVE_TX_EVENT_TIMESTAMPS_rec_def new_SLAVE_TX_EVENT_TIMESTAMPS_rec_def)

lemma length_enc_SLAVE_TX_EVENT_TIMESTAMPS_rec [simp]: "length (enc_SLAVE_TX_EVENT_TIMESTAMPS_rec d) = size_SLAVE_TX_EVENT_TIMESTAMPS_rec"
  by (simp add: enc_SLAVE_TX_EVENT_TIMESTAMPS_rec_def size_SLAVE_TX_EVENT_TIMESTAMPS_rec_def TimeInterval_size_def Timestamp_size_def)

lemma size_SLAVE_TX_EVENT_TIMESTAMPS_rec_pos [simp]: "0 < size_SLAVE_TX_EVENT_TIMESTAMPS_rec"
  by (simp add: size_SLAVE_TX_EVENT_TIMESTAMPS_rec_def)

lemma codec_SLAVE_DELAY_TIMING_DATA_NP_rec [codec_rules]:
  "wire_codec proc_SLAVE_DELAY_TIMING_DATA_NP_rec ok_SLAVE_DELAY_TIMING_DATA_NP_rec enc_SLAVE_DELAY_TIMING_DATA_NP_rec (\<lambda>x _. x) no_pre"
  unfolding proc_SLAVE_DELAY_TIMING_DATA_NP_rec_def
  by (rule codec_weaken, (rule codec_rules)+) (auto simp: enc_SLAVE_DELAY_TIMING_DATA_NP_rec_def ok_SLAVE_DELAY_TIMING_DATA_NP_rec_def new_SLAVE_DELAY_TIMING_DATA_NP_rec_def)

lemma length_enc_SLAVE_DELAY_TIMING_DATA_NP_rec [simp]: "length (enc_SLAVE_DELAY_TIMING_DATA_NP_rec d) = size_SLAVE_DELAY_TIMING_DATA_NP_rec"
  by (simp add: enc_SLAVE_DELAY_TIMING_DATA_NP_rec_def size_SLAVE_DELAY_TIMING_DATA_NP_rec_def TimeInterval_size_def Timestamp_size_def)

lemma size_SLAVE_DELAY_TIMING_DATA_NP_rec_pos [simp]: "0 < size_SLAVE_DELAY_TIMING_DATA_NP_rec"
  by (simp add: size_SLAVE_DELAY_TIMING_DATA_NP_rec_def)

lemma codec_ORGANIZATION_EXTENSION:
  "wire_codec ORGANIZATION_EXTENSION_f ok_ORGANIZATION_EXTENSION enc_ORGANIZATION_EXTENSION (\<lambda>x _. x) (exact new_ORGANIZATION_EXTENSION)"
  unfolding ORGANIZATION_EXTENSION_f_def
  by (rule codec_weaken, (rule codec_rules)+)
    (auto simp: enc_ORGANIZATION_EXTENSION_def ok_ORGANIZATION_EXTENSION_def new_ORGANIZATION_EXTENSION_def)

lemma codec_PATH_TRACE:
  "wire_codec PATH_TRACE_f ok_PATH_TRACE enc_PATH_TRACE (\<lambda>x _. x) (exact new_PATH_TRACE)"
  unfolding PATH_TRACE_f_def
  by (rule codec_weaken, (rule codec_rules)+)
    (auto simp: enc_PATH_TRACE_def ok_PATH_TRACE_def new_PATH_TRACE_def ClockIdentity_size_def intro: codec_procs_Nil)

lemma codec_ALTERNATE_TIME_OFFSET_INDICATOR:
  "wire_codec ALTERNATE_TIME_OFFSET_INDICATOR_f ok_ALTERNATE_TIME_OFFSET_INDICATOR enc_ALTERNATE_TIME_OFFSET_INDICATOR (\<lambda>x _. norm_ALTERNATE_TIME_OFFSET_INDICATOR x) (exact new_ALTERNATE_TIME_OFFSET_INDICATOR)"
  unfolding ALTERNATE_TIME_OFFSET_INDICATOR_f_def
  by (rule codec_weaken, (rule codec_rules)+)
    (auto simp: enc_ALTERNATE_TIME_OFFSET_INDICATOR_def ok_ALTERNATE_TIME_OFFSET_INDICATOR_def norm_ALTERNATE_TIME_OFFSET_INDICATOR_def new_ALTERNATE_TIME_OFFSET_INDICATOR_def)

lemma codec_L1_SYNC:
  "wire_codec L1_SYNC_f (\<lambda>_. True) enc_L1_SYNC (\<lambda>x _. norm_L1_SYNC x) (exact new_L1_SYNC)"
  unfolding L1_SYNC_f_def
  by (rule codec_weaken, (rule codec_rules)+)
    (auto simp: enc_L1_SYNC_def norm_L1_SYNC_def new_L1_SYNC_def)

lemma codec_PORT_COMMUNICATION_AVAILABILITY:
  "wire_codec PORT_COMMUNICATION_AVAILABILITY_f (\<lambda>_. True) enc_PORT_COMMUNICATION_AVAILABILITY (\<lambda>x _. norm_PORT_COMMUNICATION_AVAILABILITY x) (exact new_PORT_COMMUNICATION_AVAILABILITY)"
  unfolding PORT_COMMUNICATION_AVAILABILITY_f_def
  by (rule codec_weaken, (rule codec_rules)+)
    (auto simp: enc_PORT_COMMUNICATION_AVAILABILITY_def norm_PORT_COMMUNICATION_AVAILABILITY_def new_PORT_COMMUNICATION_AVAILABILITY_def)

lemma codec_PROTOCOL_ADDRESS:
  "wire_codec PROTOCOL_ADDRESS_f ok_PROTOCOL_ADDRESS enc_PROTOCOL_ADDRESS (\<lambda>x _. norm_PROTOCOL_ADDRESS x) (exact new_PROTOCOL_ADDRESS)"
  unfolding PROTOCOL_ADDRESS_f_def
  by (rule codec_weaken, (rule codec_rules)+)
    (auto simp: enc_PROTOCOL_ADDRESS_def ok_PROTOCOL_ADDRESS_def norm_PROTOCOL_ADDRESS_def new_PROTOCOL_ADDRESS_def)

lemma codec_SLAVE_RX_SYNC_TIMING_DATA:
  "wire_codec SLAVE_RX_SYNC_TIMING_DATA_f ok_SLAVE_RX_SYNC_TIMING_DATA enc_SLAVE_RX_SYNC_TIMING_DATA (\<lambda>x _. x) (exact new_SLAVE_RX_SYNC_TIMING_DATA)"
  unfolding SLAVE_RX_SYNC_TIMING_DATA_f_def
  by (rule codec_weaken, (rule codec_rules)+)
    (auto simp: enc_SLAVE_RX_SYNC_TIMING_DATA_def ok_SLAVE_RX_SYNC_TIMING_DATA_def new_SLAVE_RX_SYNC_TIMING_DATA_def intro: codec_procs_Nil)

lemma codec_SLAVE_RX_SYNC_COMPUTED_DATA:
  "wire_codec SLAVE_RX_SYNC_COMPUTED_DATA_f ok_SLAVE_RX_SYNC_COMPUTED_DATA enc_SLAVE_RX_SYNC_COMPUTED_DATA (\<lambda>x _. norm_SLAVE_RX_SYNC_COMPUTED_DATA x) (exact new_SLAVE_RX_SYNC_COMPUTED_DATA)"
  unfolding SLAVE_RX_SYNC_COMPUTED_DATA_f_def
  by (rule codec_weaken, (rule codec_rules)+)
    (auto simp: list_all_iff enc_SLAVE_RX_SYNC_COMPUTED_DATA_def ok_SLAVE_RX_SYNC_COMPUTED_DATA_def norm_SLAVE_RX_SYNC_COMPUTED_DATA_def new_SLAVE_RX_SYNC_COMPUTED_DATA_def intro: codec_procs_Nil)

lemma codec_SLAVE_TX_EVENT_TIMESTAMPS:
  "wire_codec SLAVE_TX_EVENT_TIMESTAMPS_f ok_SLAVE_TX_EVENT_TIMESTAMPS enc_SLAVE_TX_EVENT_TIMESTAMPS (\<lambda>x _. x) (exact new_SLAVE_TX_EVENT_TIMESTAMPS)"
  unfolding SLAVE_TX_EVENT_TIMESTAMPS_f_def
  by (rule codec_weaken, (rule codec_rules)+)
    (auto simp: enc_SLAVE_TX_EVENT_TIMESTAMPS_def ok_SLAVE_TX_EVENT_TIMESTAMPS_def new_SLAVE_TX_EVENT_TIMESTAMPS_def intro: codec_procs_Nil)

lemma codec_CUMULATIVE_RATE_RATIO:
  "wire_codec CUMULATIVE_RATE_RATIO_f (\<lambda>_. True) enc_CUMULATIVE_RATE_RATIO (\<lambda>x _. x) (exact new_CUMULATIVE_RATE_RATIO)"
  unfolding CUMULATIVE_RATE_RATIO_f_def
  by (rule codec_weaken, (rule codec_rules)+)
    (auto simp: enc_CUMULATIVE_RATE_RATIO_def new_CUMULATIVE_RATE_RATIO_def)

lemma codec_SLAVE_DELAY_TIMING_DATA_NP:
  "wire_codec SLAVE_DELAY_TIMING_DATA_NP_f ok_SLAVE_DELAY_TIMING_DATA_NP enc_SLAVE_DELAY_TIMING_DATA_NP (\<lambda>x _. x) (exact new_SLAVE_DELAY_TIMING_DATA_NP)"
  unfolding SLAVE_DELAY_TIMING_DATA_NP_f_def
  by (rule codec_weaken, (rule codec_rules)+)
    (auto simp: enc_SLAVE_DELAY_TIMING_DATA_NP_def ok_SLAVE_DELAY_TIMING_DATA_NP_def new_SLAVE_DELAY_TIMING_DATA_NP_def intro: codec_procs_Nil)

section \<open>The functions stay in their windows\<close>

lemma progress_SLAVE_RX_SYNC_TIMING_DATA_rec [window_rules]: "progressing proc_SLAVE_RX_SYNC_TIMING_DATA_rec"
  unfolding proc_SLAVE_RX_SYNC_TIMING_DATA_rec_def by (rule window_rules)+

lemma progress_SLAVE_RX_SYNC_COMPUTED_DATA_rec [window_rules]: "progressing proc_SLAVE_RX_SYNC_COMPUTED_DATA_rec"
  unfolding proc_SLAVE_RX_SYNC_COMPUTED_DATA_rec_def by (rule window_rules)+

lemma progress_SLAVE_TX_EVENT_TIMESTAMPS_rec [window_rules]: "progressing proc_SLAVE_TX_EVENT_TIMESTAMPS_rec"
  unfolding proc_SLAVE_TX_EVENT_TIMESTAMPS_rec_def by (rule window_rules)+

lemma progress_SLAVE_DELAY_TIMING_DATA_NP_rec [window_rules]: "progressing proc_SLAVE_DELAY_TIMING_DATA_NP_rec"
  unfolding proc_SLAVE_DELAY_TIMING_DATA_NP_rec_def by (rule window_rules)+

lemma window_ORGANIZATION_EXTENSION: "windowed ORGANIZATION_EXTENSION_f"
  unfolding ORGANIZATION_EXTENSION_f_def by (rule window_rules)+

lemma window_PATH_TRACE: "windowed PATH_TRACE_f"
  unfolding PATH_TRACE_f_def by (rule window_rules)+

lemma window_ALTERNATE_TIME_OFFSET_INDICATOR: "windowed ALTERNATE_TIME_OFFSET_INDICATOR_f"
  unfolding ALTERNATE_TIME_OFFSET_INDICATOR_f_def by (rule window_rules)+

lemma window_L1_SYNC: "windowed L1_SYNC_f"
  unfolding L1_SYNC_f_def by (rule window_rules)+

lemma window_PORT_COMMUNICATION_AVAILABILITY: "windowed PORT_COMMUNICATION_AVAILABILITY_f"
  unfolding PORT_COMMUNICATION_AVAILABILITY_f_def by (rule window_rules)+

lemma window_PROTOCOL_ADDRESS: "windowed PROTOCOL_ADDRESS_f"
  unfolding PROTOCOL_ADDRESS_f_def by (rule window_rules)+

lemma window_SLAVE_RX_SYNC_TIMING_DATA: "windowed SLAVE_RX_SYNC_TIMING_DATA_f"
  unfolding SLAVE_RX_SYNC_TIMING_DATA_f_def by (rule window_rules)+

lemma window_SLAVE_RX_SYNC_COMPUTED_DATA: "windowed SLAVE_RX_SYNC_COMPUTED_DATA_f"
  unfolding SLAVE_RX_SYNC_COMPUTED_DATA_f_def by (rule window_rules)+

lemma window_SLAVE_TX_EVENT_TIMESTAMPS: "windowed SLAVE_TX_EVENT_TIMESTAMPS_f"
  unfolding SLAVE_TX_EVENT_TIMESTAMPS_f_def by (rule window_rules)+

lemma window_CUMULATIVE_RATE_RATIO: "windowed CUMULATIVE_RATE_RATIO_f"
  unfolding CUMULATIVE_RATE_RATIO_f_def by (rule window_rules)+

lemma window_SLAVE_DELAY_TIMING_DATA_NP: "windowed SLAVE_DELAY_TIMING_DATA_NP_f"
  unfolding SLAVE_DELAY_TIMING_DATA_NP_f_def by (rule window_rules)+

end
