(* ===== verification/Message.thy ===== *)
theory Message
  imports SigTlv
begin

text \<open>
  Class \<^verbatim>\<open>Message\<close> of \<^verbatim>\<open>src/msg.h\<close> and \<^verbatim>\<open>src/msg.cpp\<close>: the parameters of an
  application, the management message it sends (\<^verbatim>\<open>setAction\<close>, \<^verbatim>\<open>build\<close>) and the reply or
  signaling message it receives (\<^verbatim>\<open>parse\<close>, \<^verbatim>\<open>parseSig\<close>).

  The record extends the engine's state \<open>mst\<close>, whose members are the temporary members of the
  class. A buffer is a memory block; a packed structure on it is read and written at the offsets its
  members have. \<open>m_dataSend\<close> is the application's structure the pointer refers to, and
  \<open>m_dataGet\<close> the structure the message owns. A method returns \<^term>\<open>None\<close> when the C++ code
  would access memory outside the buffer, follow a null pointer or use an unset one.
\<close>

section \<open>Constants\<close>

definition ptp_major_ver :: u8 where "ptp_major_ver = 0x2"

definition ptp_minor_ver :: u8 where "ptp_minor_ver = 0x0"

definition ptp_version :: u8 where "ptp_version = push_bit 4 ptp_minor_ver OR ptp_major_ver"

definition controlFieldMng :: u8 where "controlFieldMng = 0x04"

definition controlFieldDef :: u8 where "controlFieldDef = 0x05"

definition logMessageIntervalDef :: u8 where "logMessageIntervalDef = 0x7f"

definition allPorts :: u16 where "allPorts = 0xffff"

definition allClocks :: ClockIdentity_t where "allClocks = \<lparr>v_octets = replicate 8 0xff\<rparr>"

definition unicastFlag :: u8 where "unicastFlag = push_bit 2 1"

text \<open>Sizes of the packed structures.\<close>

definition sizeof_managementMessage_p :: nat where "sizeof_managementMessage_p = 48"

definition sizeof_managementTLV_t :: nat where "sizeof_managementTLV_t = 6"

definition sizeof_managementErrorTLV_p :: nat where "sizeof_managementErrorTLV_p = 8"

definition sigBaseSize :: nat where "sigBaseSize = 34 + 10"

definition tlvSize :: nat where "tlvSize = 4"

definition lengthFieldMngBase :: nat where "lengthFieldMngBase = sizeof_managementTLV_t - tlvSize"

definition mngMsgBaseSize :: nat where
  "mngMsgBaseSize = sizeof_managementMessage_p + sizeof_managementTLV_t"

lemmas size_consts = sizeof_managementMessage_p_def sizeof_managementTLV_t_def
  sizeof_managementErrorTLV_p_def sigBaseSize_def tlvSize_def lengthFieldMngBase_def
  mngMsgBaseSize_def

section \<open>State\<close>

text \<open>
  \<^verbatim>\<open>sigTlv\<close>: its copy and move constructors copy the type and leave the pointer of the new
  object null.
\<close>

record sigTlv =
  tlvType :: tlvType_e
  tlv_ptr :: "BaseSigTlv option"

definition copy_sigTlv :: "sigTlv \<Rightarrow> sigTlv" where
  "copy_sigTlv rhs = \<lparr>tlvType = tlvType rhs, tlv_ptr = None\<rparr>"

text \<open>
  The vector of signaling TLVs has a capacity; \<open>sig_grow\<close> is the library's choice of the capacity
  to allocate when an element is inserted into a full vector of a given size.
\<close>

record Message = mst +
  sig_grow :: "nat \<Rightarrow> nat"
  m_sendAction :: actionField_e
  m_msgLen :: nat
  m_dataSend :: "BaseMngTlv option"
  m_sequence :: u16
  m_isUnicast :: bool
  m_replyAction :: actionField_e
  m_sdoId :: u32
  m_type :: msgType_e
  m_mngType :: tlvType_e
  m_domainNumber :: u8
  m_versionPTP :: u8
  m_minorVersionPTP :: u8
  m_sigTlvs :: "sigTlv list"
  m_sigCap :: nat
  m_dataGet :: "BaseMngTlv option"
  m_tlv_id :: mng_vals_e
  m_prms :: MsgParams
  m_peer :: PortIdentity_t
  m_target :: PortIdentity_t
  m_errorId :: u16
  m_errorDisplay :: PTPText_t

section \<open>Construction and parameters\<close>

definition MsgParams_zero :: MsgParams where
  "MsgParams_zero = \<lparr>transportSpecific = 0, domainNumber = 0, boundaryHops = 0, isUnicast = False,
     implementSpecific = noImplementSpecific, target = new_PortIdentity, self_id = new_PortIdentity,
     useZeroGet = False, rcvSignaling = False, filterSignaling = False, allowSigTlvs = Map.empty\<rparr>"

definition setAllClocks :: "Message \<Rightarrow> Message" where
  "setAllClocks s = s\<lparr>m_prms := (m_prms s)\<lparr>target :=
     \<lparr>PortIdentity_t.clockIdentity = allClocks, portNumber = allPorts\<rparr>\<rparr>\<rparr>"

definition isAllClocks :: "Message \<Rightarrow> bool" where
  "isAllClocks s \<longleftrightarrow> PortIdentity_t.portNumber (target (m_prms s)) = allPorts \<and>
     PortIdentity_t.clockIdentity (target (m_prms s)) = allClocks"

text \<open>
  The members a constructor initialises; the others keep what the memory held, the argument.
\<close>

definition construct :: "MsgParams \<Rightarrow> Message \<Rightarrow> Message" where
  "construct prms junk = junk\<lparr>m_sendAction := GET, m_msgLen := 0, m_dataSend := None,
     m_sequence := 0, m_isUnicast := True, m_replyAction := RESPONSE, m_tlv_id := FIRST_MNG_ID,
     m_prms := prms, m_peer := new_PortIdentity, m_target := new_PortIdentity, m_sigTlvs := [],
     m_sigCap := 0, m_dataGet := None, m_errorDisplay := new_PTPText\<rparr>"

definition new_Message :: "Message \<Rightarrow> Message" where
  "new_Message junk = setAllClocks (construct (MsgParams_zero\<lparr>boundaryHops := 1,
     isUnicast := True, implementSpecific := linuxptp, filterSignaling := True\<rparr>) junk)"

definition new_Message_prms :: "MsgParams \<Rightarrow> Message \<Rightarrow> Message" where
  "new_Message_prms prms junk =
     (let s = construct prms junk
      in if transportSpecific (m_prms s) > 0xf
         then s\<lparr>m_prms := (m_prms s)\<lparr>transportSpecific := 0\<rparr>\<rparr> else s)"

definition updateParams :: "MsgParams \<Rightarrow> Message \<Rightarrow> bool \<times> Message" where
  "updateParams prms s =
     (if transportSpecific prms > 0xf then (False, s) else (True, s\<lparr>m_prms := prms\<rparr>))"

text \<open>
  \<^verbatim>\<open>useConfig(cfg, section)\<close>, given what the configuration answers for the transport specific
  value of the section and for the domain number of the default section.
\<close>

definition useConfig :: "u8 \<Rightarrow> u8 \<Rightarrow> Message \<Rightarrow> bool \<times> Message" where
  "useConfig cfg_transportSpecific cfg_domainNumber s =
     (if cfg_transportSpecific > 0xf then (False, s)
      else (True, s\<lparr>m_prms := (m_prms s)\<lparr>transportSpecific := cfg_transportSpecific,
              MsgParams.domainNumber := cfg_domainNumber\<rparr>\<rparr>))"

section \<open>Choosing what to send\<close>

definition setAction :: "actionField_e \<Rightarrow> mng_vals_e \<Rightarrow> Message \<Rightarrow> bool \<times> Message" where
  "setAction actionField tlv_id s =
     (if \<not> allowedAction (implementSpecific (m_prms s)) tlv_id actionField then (False, s)
      else if actionField \<noteq> GET \<and> mng_size (mng_all_vals ! tlv_id) \<noteq> 0 then (False, s)
      else (True, s\<lparr>m_sendAction := actionField, m_tlv_id := tlv_id, m_dataSend := None\<rparr>))"

definition setAction_data ::
    "actionField_e \<Rightarrow> mng_vals_e \<Rightarrow> BaseMngTlv \<Rightarrow> Message \<Rightarrow> bool \<times> Message" where
  "setAction_data actionField tlv_id dataSend s =
     (if \<not> allowedAction (implementSpecific (m_prms s)) tlv_id actionField then (False, s)
      else (True, s\<lparr>m_sendAction := actionField, m_tlv_id := tlv_id,
        m_dataSend := (if tlv_id > FIRST_MNG_ID \<and> actionField \<noteq> GET \<and>
            mng_size (mng_all_vals ! tlv_id) \<noteq> 0 then Some dataSend else None)\<rparr>))"

text \<open>\<^verbatim>\<open>getMsgPlanedLen\<close>.\<close>

definition getMsgPlanedLen :: "Message \<Rightarrow> int option" where
  "getMsgPlanedLen s =
     (if m_tlv_id s < FIRST_MNG_ID \<or> m_tlv_id s > LAST_MNG_ID then Some (- 1)
      else if m_sendAction s = GET \<and> useZeroGet (m_prms s) then Some (int mngMsgBaseSize)
      else
        let data = (if m_sendAction s \<noteq> GET then m_dataSend s else None);
            sz = mng_size (mng_all_vals ! m_tlv_id s)
        in if sz = - 2 \<and> data = None \<and> m_sendAction s \<noteq> GET then Some (- 2)
           else
             (case (if sz = - 2 then dataFieldSize (m_tlv_id s) data else Some sz) of
                None \<Rightarrow> None
              | Some ret \<Rightarrow>
                  if ret < 0 then Some ret
                  else Some ((if odd ret then ret + 1 else ret) + int mngMsgBaseSize)))"

section \<open>Building a management message\<close>

fun pokes :: "(nat \<times> byte list) list \<Rightarrow> byte list \<Rightarrow> byte list option" where
  "pokes [] m = Some m"
| "pokes ((off, bs) # ws) m = (case poke off bs m of None \<Rightarrow> None | Some m' \<Rightarrow> pokes ws m')"

text \<open>
  The stores through \<^verbatim>\<open>msg\<close> and \<^verbatim>\<open>tlv\<close>, in the order of the source, as offsets and
  octets.
\<close>

definition header_stores :: "byte_order \<Rightarrow> MsgParams \<Rightarrow> actionField_e \<Rightarrow> u16 \<Rightarrow> u16 \<Rightarrow>
    (nat \<times> byte list) list" where
  "header_stores h prms act sequence mngId =
     [(0, replicate sizeof_managementMessage_p 0),
      (0, [(Management OR push_bit 4 (transportSpecific prms)) AND 0xff]),
      (1, [ptp_version]),
      (4, [MsgParams.domainNumber prms]),
      (6, [if isUnicast prms then 0 OR unicastFlag else 0]),
      (30, store h 2 (cpu_to_net16 h sequence)),
      (32, [controlFieldMng]),
      (33, [logMessageIntervalDef]),
      (44, [boundaryHops prms]),
      (45, [boundaryHops prms]),
      (46, [act]),
      (34, v_octets (PortIdentity_t.clockIdentity (target prms))),
      (42, store h 2 (cpu_to_net16 h (PortIdentity_t.portNumber (target prms)))),
      (20, v_octets (PortIdentity_t.clockIdentity (self_id prms))),
      (28, store h 2 (cpu_to_net16 h (PortIdentity_t.portNumber (self_id prms)))),
      (48, store h 2 (cpu_to_net16 h MANAGEMENT)),
      (52, store h 2 (cpu_to_net16 h mngId))]"

text \<open>The dataField: the TLV to send and its pad, zeros for a GET, or nothing.\<close>

definition build_data :: "int \<Rightarrow> Message \<Rightarrow> (MNG_PARSE_ERROR_e \<times> Message) option" where
  "build_data sz s =
     (if m_sendAction s \<noteq> GET \<and> m_dataSend s \<noteq> None then
        (case call_tlv_data (m_tlv_id s) (m_dataSend s) (s\<lparr>m_build := True, reserved := 0\<rparr>) of
           None \<Rightarrow> None
         | Some (err, data, s') \<Rightarrow>
             let s1 = s'\<lparr>m_dataSend := data\<rparr>
             in if err \<noteq> MNG_PARSE_ERROR_OK then Some (err, s1)
                else
                  let s2 = s1\<lparr>reserved := 0\<rparr>
                  in if odd (m_size s2) then
                       (case proc_reserved () s2 of
                          None \<Rightarrow> None
                        | Some (e, _, s3) \<Rightarrow>
                            Some (if e then MNG_PARSE_ERROR_TOO_SMALL else MNG_PARSE_ERROR_OK, s3))
                     else Some (MNG_PARSE_ERROR_OK, s2))
      else if m_sendAction s = GET \<and> \<not> useZeroGet (m_prms s) \<and> sz \<noteq> 0 then
        (case (if sz = - 2 then dataFieldSize (m_tlv_id s) None else Some sz) of
           None \<Rightarrow> None
         | Some n \<Rightarrow>
             if n < 0 then Some (MNG_PARSE_ERROR_INVALID_ID, s)
             else
               let n' = (if odd n then n + 1 else n)
               in if n' > m_left s then Some (MNG_PARSE_ERROR_TOO_SMALL, s)
                  else map_option (\<lambda>s'. (MNG_PARSE_ERROR_OK, s'))
                    (put_bytes (replicate (nat n') 0) (s\<lparr>m_size := nat n'\<rparr>)))
      else Some (MNG_PARSE_ERROR_OK, s))"

definition build :: "byte list option \<Rightarrow> nat \<Rightarrow> u16 \<Rightarrow> Message \<Rightarrow>
    (MNG_PARSE_ERROR_e \<times> Message) option" where
  "build buf bufSize sequence s0 =
     (case buf of
        None \<Rightarrow> Some (MNG_PARSE_ERROR_TOO_SMALL, s0)
      | Some b \<Rightarrow>
          if bufSize < mngMsgBaseSize then Some (MNG_PARSE_ERROR_TOO_SMALL, s0\<lparr>mem := b\<rparr>)
          else do {
            val \<leftarrow> mng_val (m_tlv_id s0);
            m1 \<leftarrow> pokes (header_stores (host s0) (m_prms s0) (m_sendAction s0) sequence
                    (mng_value val)) b;
            (err, s1) \<leftarrow> build_data (mng_size val)
              (s0\<lparr>mem := m1, m_size := 0, m_cur := mngMsgBaseSize,
                 m_left := int bufSize - int mngMsgBaseSize\<rparr>);
            if err \<noteq> MNG_PARSE_ERROR_OK then Some (err, s1)
            else
              let sz = mngMsgBaseSize + m_size s1
              in if odd sz then Some (MNG_PARSE_ERROR_SIZE, s1)
                 else do {
                   m2 \<leftarrow> pokes
                     [(50, store (host s1) 2
                         (cpu_to_net16 (host s1) (word_of_nat (lengthFieldMngBase + m_size s1)))),
                      (2, store (host s1) 2 (cpu_to_net16 (host s1) (word_of_nat sz)))] (mem s1);
                   Some (MNG_PARSE_ERROR_OK, s1\<lparr>m_msgLen := sz, mem := m2\<rparr>)
                 }
          })"

section \<open>Parsing a signaling message\<close>

definition rd8 :: "nat \<Rightarrow> 'z mst_scheme \<Rightarrow> u8 option" where
  "rd8 off s = map_option hd (peek off 1 (mem s))"

text \<open>Two octets as loaded by the machine; \<^verbatim>\<open>net_to_cpu16\<close> is applied by the reader.\<close>

definition rd16 :: "nat \<Rightarrow> 'z mst_scheme \<Rightarrow> u16 option" where
  "rd16 off s = map_option (load (host s)) (peek off 2 (mem s))"

text \<open>
  \<^verbatim>\<open>caseBuildAct\<close>: a parse error ends \<^verbatim>\<open>parseSig\<close> (left value), otherwise the pointer is set.
\<close>

definition caseBuildAct :: "('d \<Rightarrow> BaseSigTlv) \<Rightarrow> ('d, 'z) proc \<Rightarrow> 'd \<Rightarrow> 'z mst_scheme \<Rightarrow>
    ((MNG_PARSE_ERROR_e + BaseSigTlv option) \<times> 'z mst_scheme) option" where
  "caseBuildAct con f new s =
     (case f new s of
        None \<Rightarrow> None
      | Some (True, d, s') \<Rightarrow> Some (Inl (m_err s'), s')
      | Some (False, d, s') \<Rightarrow> Some (Inr (Some (con d)), s'))"

definition sig_management :: "implementSpecific_e \<Rightarrow> 'z mst_scheme \<Rightarrow>
    ((MNG_PARSE_ERROR_e + BaseSigTlv option) \<times> 'z mst_scheme) option" where
  "sig_management spec s =
     (if m_left s < 2 then Some (Inl MNG_PARSE_ERROR_TOO_SMALL, s)
      else do {
        val \<leftarrow> rd16 (m_cur s) s;
        let s1 = s\<lparr>m_cur := m_cur s + 2, m_left := m_left s - 2\<rparr>;
        case findTlvId (host s) val spec of
          None \<Rightarrow> Some (Inr None, s1)
        | Some tlv_id \<Rightarrow>
            if m_left s1 > 0 then
              (case call_tlv_data tlv_id None s1 of
                 None \<Rightarrow> None
               | Some (err, mtlv, s2) \<Rightarrow>
                   if err \<noteq> MNG_PARSE_ERROR_OK then Some (Inl err, s2)
                   else (case mtlv of
                           None \<Rightarrow> None
                         | Some t \<Rightarrow> Some (Inr (Some (SIG_MANAGEMENT tlv_id t)), s2)))
            else Some (Inr None, s1)
      })"

definition sig_switch :: "implementSpecific_e \<Rightarrow> tlvType_e \<Rightarrow> 'z mst_scheme \<Rightarrow>
    ((MNG_PARSE_ERROR_e + BaseSigTlv option) \<times> 'z mst_scheme) option" where
  "sig_switch spec type s =
     (if type = ORGANIZATION_EXTENSION_PROPAGATE \<or> type = ORGANIZATION_EXTENSION_DO_NOT_PROPAGATE \<or>
         type = ORGANIZATION_EXTENSION then
        caseBuildAct SIG_ORGANIZATION_EXTENSION ORGANIZATION_EXTENSION_f new_ORGANIZATION_EXTENSION s
      else if type = PATH_TRACE then caseBuildAct SIG_PATH_TRACE PATH_TRACE_f new_PATH_TRACE s
      else if type = ALTERNATE_TIME_OFFSET_INDICATOR then
        caseBuildAct SIG_ALTERNATE_TIME_OFFSET_INDICATOR ALTERNATE_TIME_OFFSET_INDICATOR_f
          new_ALTERNATE_TIME_OFFSET_INDICATOR s
      else if type = ENHANCED_ACCURACY_METRICS then
        caseBuildAct SIG_ENHANCED_ACCURACY_METRICS ENHANCED_ACCURACY_METRICS_f
          new_ENHANCED_ACCURACY_METRICS s
      else if type = L1_SYNC then caseBuildAct SIG_L1_SYNC L1_SYNC_f new_L1_SYNC s
      else if type = PORT_COMMUNICATION_AVAILABILITY then
        caseBuildAct SIG_PORT_COMMUNICATION_AVAILABILITY PORT_COMMUNICATION_AVAILABILITY_f
          new_PORT_COMMUNICATION_AVAILABILITY s
      else if type = PROTOCOL_ADDRESS then
        caseBuildAct SIG_PROTOCOL_ADDRESS PROTOCOL_ADDRESS_f new_PROTOCOL_ADDRESS s
      else if type = SLAVE_RX_SYNC_TIMING_DATA then
        caseBuildAct SIG_SLAVE_RX_SYNC_TIMING_DATA SLAVE_RX_SYNC_TIMING_DATA_f
          new_SLAVE_RX_SYNC_TIMING_DATA s
      else if type = SLAVE_RX_SYNC_COMPUTED_DATA then
        caseBuildAct SIG_SLAVE_RX_SYNC_COMPUTED_DATA SLAVE_RX_SYNC_COMPUTED_DATA_f
          new_SLAVE_RX_SYNC_COMPUTED_DATA s
      else if type = SLAVE_TX_EVENT_TIMESTAMPS then
        caseBuildAct SIG_SLAVE_TX_EVENT_TIMESTAMPS SLAVE_TX_EVENT_TIMESTAMPS_f
          new_SLAVE_TX_EVENT_TIMESTAMPS s
      else if type = CUMULATIVE_RATE_RATIO then
        caseBuildAct SIG_CUMULATIVE_RATE_RATIO CUMULATIVE_RATE_RATIO_f new_CUMULATIVE_RATE_RATIO s
      else if type = MANAGEMENT then sig_management spec s
      else if type = SLAVE_DELAY_TIMING_DATA_NP then
        (if spec = linuxptp then
           caseBuildAct SIG_SLAVE_DELAY_TIMING_DATA_NP SLAVE_DELAY_TIMING_DATA_NP_f
             new_SLAVE_DELAY_TIMING_DATA_NP s
         else Some (Inr None, s))
      else Some (Inr None, s))"

text \<open>
  \<^verbatim>\<open>m_sigTlvs.insert(m_sigTlvs.end(), rec)\<close> and the assignment of the pointer: inserting into a
  full vector moves every element to new storage through the constructor of \<^verbatim>\<open>sigTlv\<close>.
\<close>

definition sig_insert :: "tlvType_e \<Rightarrow> BaseSigTlv \<Rightarrow> Message \<Rightarrow> Message" where
  "sig_insert type tlv s =
     (let rec = \<lparr>tlvType = type, tlv_ptr = None\<rparr>;
          full = (length (m_sigTlvs s) \<ge> m_sigCap s);
          old = (if full then map copy_sigTlv (m_sigTlvs s) else m_sigTlvs s);
          cap = (if full then sig_grow s (length (m_sigTlvs s)) else m_sigCap s)
      in s\<lparr>m_sigTlvs := old @ [(copy_sigTlv rec)\<lparr>tlv_ptr := Some tlv\<rparr>], m_sigCap := cap\<rparr>)"

text \<open>One round of the loop: the octets left after it, or the error it returns.\<close>

definition sig_step :: "int \<Rightarrow> Message \<Rightarrow> ((MNG_PARSE_ERROR_e + int) \<times> Message) option" where
  "sig_step leftAll0 s0 = do {
     tt \<leftarrow> rd16 (m_cur s0) s0;
     lf \<leftarrow> rd16 (m_cur s0 + 2) s0;
     let type = net_to_cpu16 (host s0) tt;
     let lengthField = unat (net_to_cpu16 (host s0) lf);
     let s = s0\<lparr>m_cur := m_cur s0 + tlvSize\<rparr>;
     let leftAll = leftAll0 - int tlvSize;
     if int lengthField > leftAll then Some (Inl MNG_PARSE_ERROR_TOO_SMALL, s)
     else if filterSignaling (m_prms s) \<and> allowSigTlvs (m_prms s) type = None then
       Some (Inr (leftAll - int lengthField), s\<lparr>m_cur := m_cur s + lengthField\<rparr>)
     else
       (case sig_switch (implementSpecific (m_prms s)) type
           (s\<lparr>m_left := int lengthField, m_err := MNG_PARSE_ERROR_TOO_SMALL\<rparr>) of
          None \<Rightarrow> None
        | Some (Inl err, s1) \<Rightarrow> Some (Inl err, s1)
        | Some (Inr tlv, s1) \<Rightarrow>
            let s2 = (if m_left s1 > 0 then s1\<lparr>m_cur := m_cur s1 + nat (m_left s1)\<rparr> else s1)
            in Some (Inr (leftAll - int lengthField),
                 case tlv of None \<Rightarrow> s2 | Some t \<Rightarrow> sig_insert type t s2))
   }"

lemma sig_step_less: "sig_step leftAll s = Some (Inr left', s') \<Longrightarrow> left' < leftAll"
  by (auto simp: sig_step_def Let_def tlvSize_def simp del: of_nat_unat
      split: bind_splits if_splits option.splits sum.splits)

function parseSig_loop :: "int \<Rightarrow> Message \<Rightarrow> (MNG_PARSE_ERROR_e \<times> Message) option" where
  "parseSig_loop leftAll s =
     (if leftAll < int tlvSize then Some (MNG_PARSE_ERROR_SIG, s)
      else
        (case sig_step leftAll s of
           None \<Rightarrow> None
         | Some (Inl err, s') \<Rightarrow> Some (err, s')
         | Some (Inr left', s') \<Rightarrow> parseSig_loop left' s'))"
  by pat_completeness auto
termination
  by (relation "measure (\<lambda>(leftAll, s). nat leftAll)")
    (auto simp: tlvSize_def dest: sig_step_less)

definition parseSig :: "Message \<Rightarrow> (MNG_PARSE_ERROR_e \<times> Message) option" where
  "parseSig s = parseSig_loop (int (m_size s)) (s\<lparr>m_sigTlvs := []\<rparr>)"

section \<open>Parsing a message\<close>

text \<open>The switch on the message type: the error it returns, if any.\<close>

definition check_type :: "int \<Rightarrow> Message \<Rightarrow> MNG_PARSE_ERROR_e option option" where
  "check_type msgSize s =
     (if m_type s = Signaling then
        if \<not> rcvSignaling (m_prms s) then Some (Some MNG_PARSE_ERROR_HEADER)
        else do {
          ctl \<leftarrow> rd8 32 s;
          Some (if ctl \<noteq> controlFieldDef then Some MNG_PARSE_ERROR_HEADER else None)
        }
      else if m_type s = Management then
        if msgSize < int sizeof_managementMessage_p + int tlvSize
        then Some (Some MNG_PARSE_ERROR_TOO_SMALL)
        else do {
          ctl \<leftarrow> rd8 32 s;
          Some (if ctl \<noteq> controlFieldMng then Some MNG_PARSE_ERROR_HEADER else None)
        }
      else Some (Some MNG_PARSE_ERROR_HEADER))"

text \<open>The members both kinds of message share.\<close>

definition parse_ids :: "Message \<Rightarrow> Message option" where
  "parse_ids s = do {
     mt \<leftarrow> rd8 0 s;
     minor \<leftarrow> rd8 5 s;
     dom \<leftarrow> rd8 4 s;
     flag0 \<leftarrow> rd8 6 s;
     sq \<leftarrow> rd16 30 s;
     peerPort \<leftarrow> rd16 28 s;
     peerId \<leftarrow> peek 20 8 (mem s);
     targetPort \<leftarrow> rd16 42 s;
     targetId \<leftarrow> peek 34 8 (mem s);
     Some (s\<lparr>m_sdoId := ucast minor OR push_bit 4 (ucast (mt AND 0xf0)),
       m_domainNumber := dom,
       m_isUnicast := flag0 AND unicastFlag \<noteq> 0,
       m_sequence := net_to_cpu16 (host s) sq,
       m_peer := \<lparr>PortIdentity_t.clockIdentity = \<lparr>v_octets = peerId\<rparr>,
         portNumber = net_to_cpu16 (host s) peerPort\<rparr>,
       m_target := \<lparr>PortIdentity_t.clockIdentity = \<lparr>v_octets = targetId\<rparr>,
         portNumber = net_to_cpu16 (host s) targetPort\<rparr>,
       m_build := False\<rparr>)
   }"

text \<open>The branch of a \<^verbatim>\<open>MANAGEMENT_ERROR_STATUS\<close> TLV.\<close>

definition parse_error_status :: "int \<Rightarrow> u8 \<Rightarrow> Message \<Rightarrow> (MNG_PARSE_ERROR_e \<times> Message) option" where
  "parse_error_status sz actionField s =
     (if sz < int sizeof_managementErrorTLV_p then Some (MNG_PARSE_ERROR_TOO_SMALL, s)
      else do {
        val \<leftarrow> rd16 54 s;
        case findTlvId (host s) val (implementSpecific (m_prms s)) of
          None \<Rightarrow> Some (MNG_PARSE_ERROR_INVALID_ID, s)
        | Some tid \<Rightarrow>
            let s1 = s\<lparr>m_tlv_id := tid\<rparr>
            in if \<not> checkReplyAction tid actionField then Some (MNG_PARSE_ERROR_ACTION, s1)
               else do {
                 eid \<leftarrow> rd16 52 s1;
                 let s2 = s1\<lparr>m_errorId := net_to_cpu16 (host s1) eid\<rparr>;
                 if m_left s2 < int sizeof_managementErrorTLV_p \<or> odd (m_left s2)
                 then Some (MNG_PARSE_ERROR_TOO_SMALL, s2)
                 else
                   let s3 = s2\<lparr>m_left := m_left s2 - int sizeof_managementErrorTLV_p, m_cur := 60\<rparr>
                   in if sz - int sizeof_managementErrorTLV_p < m_left s3
                      then Some (MNG_PARSE_ERROR_TOO_SMALL, s3)
                      else if m_left s3 > 1 then
                        (case proc_PTPText (m_errorDisplay s3) s3 of
                           None \<Rightarrow> None
                         | Some (True, d, s4) \<Rightarrow>
                             Some (MNG_PARSE_ERROR_TOO_SMALL, s4\<lparr>m_errorDisplay := d\<rparr>)
                         | Some (False, d, s4) \<Rightarrow>
                             Some (MNG_PARSE_ERROR_MSG, s4\<lparr>m_errorDisplay := d,
                               m_mngType := MANAGEMENT_ERROR_STATUS\<rparr>))
                      else Some (MNG_PARSE_ERROR_MSG, s3\<lparr>m_mngType := MANAGEMENT_ERROR_STATUS\<rparr>)
               }
      })"

text \<open>
  The branch of a \<^verbatim>\<open>MANAGEMENT\<close> TLV. The local pointer \<^verbatim>\<open>tlv\<close> is unset when
  \<^verbatim>\<open>call_tlv_data\<close> is called, and moved into \<^verbatim>\<open>m_dataGet\<close> after it returns without error.
\<close>

definition parse_management :: "int \<Rightarrow> u8 \<Rightarrow> Message \<Rightarrow> (MNG_PARSE_ERROR_e \<times> Message) option" where
  "parse_management sz actionField s =
     (if sz < 2 then Some (MNG_PARSE_ERROR_TOO_SMALL, s)
      else do {
        val \<leftarrow> rd16 52 s;
        case findTlvId (host s) val (implementSpecific (m_prms s)) of
          None \<Rightarrow> Some (MNG_PARSE_ERROR_INVALID_ID, s)
        | Some tid \<Rightarrow>
            let s1 = s\<lparr>m_tlv_id := tid\<rparr>
            in if \<not> checkReplyAction tid actionField then Some (MNG_PARSE_ERROR_ACTION, s1)
               else if m_left s1 < int lengthFieldMngBase \<or> odd (m_left s1)
               then Some (MNG_PARSE_ERROR_TOO_SMALL, s1)
               else
                 let s2 = s1\<lparr>m_left := m_left s1 - int lengthFieldMngBase\<rparr>
                 in if m_left s2 = 0 then Some (MNG_PARSE_ERROR_OK, s2)
                    else
                      let s3 = s2\<lparr>m_cur := mngMsgBaseSize\<rparr>
                      in if sz - 2 < m_left s3 then Some (MNG_PARSE_ERROR_TOO_SMALL, s3)
                         else
                           (case call_tlv_data tid None s3 of
                              None \<Rightarrow> None
                            | Some (err, tlv, s4) \<Rightarrow>
                                if err \<noteq> MNG_PARSE_ERROR_OK then Some (err, s4)
                                else
                                  (case tlv of
                                     None \<Rightarrow> None
                                   | Some t \<Rightarrow> Some (MNG_PARSE_ERROR_OK,
                                       s4\<lparr>m_dataGet := Some t, m_mngType := MANAGEMENT\<rparr>)))
      })"

definition parse_mng :: "int \<Rightarrow> Message \<Rightarrow> (MNG_PARSE_ERROR_e \<times> Message) option" where
  "parse_mng msgSize s = do {
     act \<leftarrow> rd8 46 s;
     let actionField = 0xf AND act;
     if actionField \<noteq> RESPONSE \<and> actionField \<noteq> ACKNOWLEDGE then Some (MNG_PARSE_ERROR_ACTION, s)
     else do {
       tt \<leftarrow> rd16 48 s;
       lf \<leftarrow> rd16 50 s;
       let type = net_to_cpu16 (host s) tt;
       let s1 = s\<lparr>m_replyAction := actionField, m_left := int (unat (net_to_cpu16 (host s) lf))\<rparr>;
       let sz = msgSize - int sizeof_managementMessage_p - int tlvSize;
       if type = MANAGEMENT_ERROR_STATUS then parse_error_status sz actionField s1
       else if type \<noteq> MANAGEMENT then Some (MNG_PARSE_ERROR_INVALID_TLV, s1)
       else parse_management sz actionField s1
     }
   }"

definition parse :: "byte list \<Rightarrow> int \<Rightarrow> Message \<Rightarrow> (MNG_PARSE_ERROR_e \<times> Message) option" where
  "parse buf msgSize s0 =
     (if msgSize < int sigBaseSize then Some (MNG_PARSE_ERROR_TOO_SMALL, s0\<lparr>mem := buf\<rparr>)
      else do {
        mt \<leftarrow> rd8 0 (s0\<lparr>mem := buf\<rparr>);
        let s1 = s0\<lparr>mem := buf, m_type := mt AND 0xf\<rparr>;
        chk \<leftarrow> check_type msgSize s1;
        case chk of
          Some err \<Rightarrow> Some (err, s1)
        | None \<Rightarrow> do {
            ver \<leftarrow> rd8 1 s1;
            lmi \<leftarrow> rd8 33 s1;
            let s2 = s1\<lparr>m_versionPTP := ver AND 0xf, m_minorVersionPTP := drop_bit 4 ver\<rparr>;
            if m_versionPTP s2 \<noteq> ptp_major_ver \<or> lmi \<noteq> logMessageIntervalDef
            then Some (MNG_PARSE_ERROR_HEADER, s2)
            else do {
              s3 \<leftarrow> parse_ids s2;
              if m_type s3 = Signaling
              then parseSig (s3\<lparr>m_cur := sigBaseSize, m_size := nat (msgSize - int sigBaseSize)\<rparr>)
              else parse_mng msgSize s3
            }
          }
      })"

section \<open>Reading the parsed message\<close>

text \<open>
  \<^verbatim>\<open>for(auto tlv : m_sigTlvs)\<close> copies each element. The callback's own state is the last
  argument.
\<close>

fun travers_loop :: "(tlvType_e \<Rightarrow> BaseSigTlv option \<Rightarrow> 'c \<Rightarrow> bool \<times> 'c) \<Rightarrow>
    sigTlv list \<Rightarrow> 'c \<Rightarrow> bool \<times> 'c" where
  "travers_loop callback [] c = (False, c)"
| "travers_loop callback (x # xs) c =
     (let tlv = copy_sigTlv x; (stop, c') = callback (tlvType tlv) (tlv_ptr tlv) c
      in if stop then (True, c') else travers_loop callback xs c')"

definition traversSigTlvs :: "(tlvType_e \<Rightarrow> BaseSigTlv option \<Rightarrow> 'c \<Rightarrow> bool \<times> 'c) \<Rightarrow>
    Message \<Rightarrow> 'c \<Rightarrow> bool \<times> 'c" where
  "traversSigTlvs callback s c =
     (if m_type s = Signaling then travers_loop callback (m_sigTlvs s) c else (False, c))"

definition getSigTlvsCount :: "Message \<Rightarrow> nat" where
  "getSigTlvsCount s = (if m_type s = Signaling then length (m_sigTlvs s) else 0)"

definition getSigTlv :: "nat \<Rightarrow> Message \<Rightarrow> BaseSigTlv option" where
  "getSigTlv pos s =
     (if m_type s = Signaling \<and> pos < length (m_sigTlvs s) then tlv_ptr (m_sigTlvs s ! pos)
      else None)"

definition getSigTlvType :: "nat \<Rightarrow> Message \<Rightarrow> tlvType_e" where
  "getSigTlvType pos s =
     (if m_type s = Signaling \<and> pos < length (m_sigTlvs s) then tlvType (m_sigTlvs s ! pos)
      else 0)"

text \<open>\<^verbatim>\<open>getSigMngTlvType\<close> follows the pointer without looking at it.\<close>

definition getSigMngTlvType :: "nat \<Rightarrow> Message \<Rightarrow> mng_vals_e option" where
  "getSigMngTlvType pos s =
     (if m_type s = Signaling \<and> pos < length (m_sigTlvs s) \<and>
         tlvType (m_sigTlvs s ! pos) = MANAGEMENT then
        (case tlv_ptr (m_sigTlvs s ! pos) of
           Some (SIG_MANAGEMENT tid t) \<Rightarrow> Some tid
         | _ \<Rightarrow> None)
      else Some NULL_PTP_MANAGEMENT)"

definition getSigMngTlv :: "nat \<Rightarrow> Message \<Rightarrow> BaseMngTlv option option" where
  "getSigMngTlv pos s =
     (if m_type s = Signaling \<and> pos < length (m_sigTlvs s) \<and>
         tlvType (m_sigTlvs s ! pos) = MANAGEMENT then
        (case tlv_ptr (m_sigTlvs s ! pos) of
           Some (SIG_MANAGEMENT tid t) \<Rightarrow> Some (Some t)
         | _ \<Rightarrow> None)
      else Some None)"

end
