(* ===== verification/MsgBuild.thy ===== *)
theory MsgBuild
  imports SigCodec Message
begin

text \<open>
  \<^verbatim>\<open>Message::build\<close> against a reference layout of the management message: the 34 octets of
  the PTP header, the management part, the TLV header and the dataField, written out as one octet
  list. The stores of the source, which clear the structure first and set the lengths last, produce
  exactly that list.
\<close>

section \<open>Reference layout\<close>

definition mng_header :: "MsgParams \<Rightarrow> actionField_e \<Rightarrow> u16 \<Rightarrow> u16 \<Rightarrow> byte list" where
  "mng_header prms act sequence len =
     [Management OR push_bit 4 (transportSpecific prms), 0x02] @ bytes_be 2 len @
     [MsgParams.domainNumber prms, 0, if isUnicast prms then 0x04 else 0, 0] @
     replicate 8 0 @ replicate 4 0 @
     enc_PortIdentity (self_id prms) @ bytes_be 2 sequence @ [0x04, 0x7f] @
     enc_PortIdentity (target prms) @ [boundaryHops prms, boundaryHops prms, act, 0]"

definition mng_message :: "MsgParams \<Rightarrow> actionField_e \<Rightarrow> u16 \<Rightarrow> u16 \<Rightarrow> byte list \<Rightarrow> byte list" where
  "mng_message prms act sequence mngId data =
     mng_header prms act sequence (word_of_nat (54 + length data)) @
     bytes_be 2 MANAGEMENT @ bytes_be 2 (word_of_nat (2 + length data) :: u16) @
     bytes_be 2 mngId @ data"

definition pad_even :: "byte list \<Rightarrow> byte list" where
  "pad_even bs = (if odd (length bs) then bs @ [0] else bs)"

definition ok_prms :: "MsgParams \<Rightarrow> bool" where
  "ok_prms prms \<longleftrightarrow> ok_PortIdentity (self_id prms) \<and> ok_PortIdentity (target prms)"

lemma bytes_be_2: "bytes_be 2 (w :: u16) = [ucast (drop_bit 8 w), ucast w]"
proof -
  have "[0..<2] = [0, 1]" by (simp add: upt_rec)
  then show ?thesis by (simp add: bytes_be_def bytes_le_def)
qed

lemma length_8_conv: "length xs = 8 \<longleftrightarrow> (\<exists>a b c d e f g h. xs = [a, b, c, d, e, f, g, h])"
  by (auto simp: numeral_eq_Suc length_Suc_conv)

lemma length_6_conv: "length xs = 6 \<longleftrightarrow> (\<exists>a b c d e f. xs = [a, b, c, d, e, f])"
  by (auto simp: numeral_eq_Suc length_Suc_conv)

lemma length_mng_header: "ok_prms prms \<Longrightarrow> length (mng_header prms act sequence len) = 48"
  by (simp add: mng_header_def ok_prms_def)

lemma byte_mask_full: "(x :: u8) AND 0xff = x"
proof -
  have "(0xff :: u8) = - 1" by simp
  then show ?thesis by (simp only: and.right_neutral)
qed

definition zeros48 :: "byte list" where
  "zeros48 = [0,0,0,0,0,0,0,0,0,0,0,0,0,0,0,0,0,0,0,0,0,0,0,0,0,0,0,0,0,0,0,0,0,0,0,0,0,0,0,0,0,0,0,0,0,0,0,0]"

lemma zeros48_eq: "replicate 48 0 = zeros48"
  by (simp add: numeral_eq_Suc zeros48_def)

lemma replicate_8: "replicate 8 x = [x, x, x, x, x, x, x, x]"
  and replicate_4: "replicate 4 x = [x, x, x, x]"
  by (simp_all add: numeral_eq_Suc)

lemma header_pokes:
  assumes "ok_prms prms" and "54 \<le> length b"
  shows "pokes (header_stores h prms act sequence mngId) b =
    Some (mng_header prms act sequence 0 @ bytes_be 2 MANAGEMENT @ take 2 (drop 50 b) @
      bytes_be 2 mngId @ drop 54 b)"
proof -
  obtain s0 s1 s2 s3 s4 s5 s6 s7 where s: "v_octets (PortIdentity_t.clockIdentity (self_id prms)) =
      [s0, s1, s2, s3, s4, s5, s6, s7]"
    using assms(1) by (auto simp: ok_prms_def ok_PortIdentity_def ok_ClockIdentity_def length_8_conv)
  obtain t0 t1 t2 t3 t4 t5 t6 t7 where t: "v_octets (PortIdentity_t.clockIdentity (target prms)) =
      [t0, t1, t2, t3, t4, t5, t6, t7]"
    using assms(1) by (auto simp: ok_prms_def ok_PortIdentity_def ok_ClockIdentity_def length_8_conv)
  obtain x0 x1 x2 x3 x4 x5 where x: "drop 48 b = x0 # x1 # x2 # x3 # x4 # x5 # drop 54 b"
  proof -
    have "length (take 6 (drop 48 b)) = 6" using assms(2) by simp
    then obtain x0 x1 x2 x3 x4 x5 where "take 6 (drop 48 b) = [x0, x1, x2, x3, x4, x5]"
      unfolding length_6_conv by blast
    moreover have "drop 48 b = take 6 (drop 48 b) @ drop 54 b"
      using append_take_drop_id [of 6 "drop 48 b"] by (simp del: append_take_drop_id)
    ultimately show thesis using that by simp
  qed
  have x50: "take 2 (drop 50 b) = [x2, x3]"
  proof -
    have "drop 50 b = drop 2 (drop 48 b)" by simp
    then show ?thesis unfolding x by simp
  qed
  have z: "poke 0 (replicate 48 0) b = Some (zeros48 @ x0 # x1 # x2 # x3 # x4 # x5 # drop 54 b)"
    using assms(2) unfolding zeros48_eq [symmetric] by (simp add: poke_def patch_def x)
  show ?thesis
    unfolding header_stores_def x50 sizeof_managementMessage_p_def pokes.simps z option.case
    by (simp add: poke_def patch_def s t bytes_be_2 mng_header_def enc_PortIdentity_def zeros48_def
        enc_ClockIdentity_def ptp_version_def ptp_major_ver_def ptp_minor_ver_def
        controlFieldMng_def logMessageIntervalDef_def unicastFlag_def byte_mask_full
        replicate_8 replicate_4)
qed


lemma patch_seg:
  "length pre = off \<Longrightarrow> length old = length bs \<Longrightarrow> patch off bs (pre @ old @ post) = pre @ bs @ post"
  by (simp add: patch_def)

text \<open>The last two stores: the length of the TLV and of the message.\<close>

lemma length_pokes:
  assumes "ok_prms prms" and "length old = 2"
  shows "pokes [(50, store h 2 (cpu_to_net16 h (word_of_nat (2 + length data)))),
      (2, store h 2 (cpu_to_net16 h (word_of_nat (54 + length data))))]
      (mng_header prms act sequence 0 @ bytes_be 2 MANAGEMENT @ old @ bytes_be 2 mngId @ data @ post) =
    Some (mng_message prms act sequence mngId data @ post)"
proof -
  have hd: "mng_header prms act sequence len = take 2 (mng_header prms act sequence 0) @
      bytes_be 2 len @ drop 4 (mng_header prms act sequence 0)" for len
    by (simp add: mng_header_def bytes_be_2)
  have l48: "length (mng_header prms act sequence 0) = 48"
    using assms(1) by (rule length_mng_header)
  have "patch 50 bs (mng_header prms act sequence 0 @ bytes_be 2 MANAGEMENT @ old @ rest) =
      mng_header prms act sequence 0 @ bytes_be 2 MANAGEMENT @ bs @ rest" if "length bs = 2" for bs rest
    using patch_seg [of "mng_header prms act sequence 0 @ bytes_be 2 MANAGEMENT" 50 old bs rest]
      assms(2) l48 that by simp
  moreover have "patch 2 (bytes_be 2 len) (mng_header prms act sequence 0 @ rest) =
      mng_header prms act sequence len @ rest" for len :: u16 and rest
  proof -
    have "length (take 2 (mng_header prms act sequence 0)) = 2" by (simp add: l48)
    from patch_seg [OF this, of "bytes_be 2 (0 :: u16)" "bytes_be 2 len"
        "drop 4 (mng_header prms act sequence 0) @ rest"]
    show ?thesis by (subst hd, subst (2) hd) simp
  qed
  ultimately show ?thesis
    using assms(2) l48 by (simp add: poke_def mng_message_def)
qed


section \<open>What a message sends\<close>

definition empty_size :: "mng_vals_e \<Rightarrow> int" where
  "empty_size tid =
     (if ids_size (ids ! tid) = - 2
      then (case new_tlv tid of None \<Rightarrow> 0 | Some t \<Rightarrow> int (case tlv_s t of None \<Rightarrow> 0 | Some n \<Rightarrow> n))
      else ids_size (ids ! tid))"

definition send_data :: "Message \<Rightarrow> byte list" where
  "send_data s =
     (if m_sendAction s \<noteq> GET
      then (case m_dataSend s of None \<Rightarrow> [] | Some t \<Rightarrow> pad_even (enc_tlv t))
      else if useZeroGet (m_prms s) then []
      else replicate (nat (even_up (empty_size (m_tlv_id s)))) 0)"

definition send_ok :: "Message \<Rightarrow> bool" where
  "send_ok s \<longleftrightarrow> m_tlv_id s < 58 \<and> ok_prms (m_prms s) \<and>
     (case m_dataSend s of None \<Rightarrow> True | Some t \<Rightarrow> tlv_type t = m_tlv_id s \<and> ok_tlv t)"

lemma empty_size:
  assumes "tid < 58"
  shows "0 \<le> empty_size tid"
    and "(if ids_size (ids ! tid) = - 2 then dataFieldSize tid None else Some (ids_size (ids ! tid))) =
      Some (empty_size tid)"
proof -
  let ?Q = "\<lambda>i r. if ids_size r = - 2 then ids_fun r \<in> {UFS, UFBS} \<and>
      (case new_tlv i of None \<Rightarrow> False | Some t \<Rightarrow> tlv_s t \<noteq> None \<and> tlv_type t = i) else 0 \<le> ids_size r"
  have "list_all (\<lambda>(i, r). ?Q i r) (enumerate 0 ids)"
    unfolding ids_def by (simp add: row_def new_tlv_def tlv_s_def)
  then have "?Q tid (ids ! tid)" using assms by (rule ids_all)
  then show "0 \<le> empty_size tid"
    and "(if ids_size (ids ! tid) = - 2 then dataFieldSize tid None else Some (ids_size (ids ! tid))) =
      Some (empty_size tid)"
    using assms
    by (cases "new_tlv tid"; cases "ids_size (ids ! tid) = - 2";
        auto simp: empty_size_def dataFieldSize_def)+
qed

lemma even_length_pad_even: "even (length (pad_even bs))"
  by (simp add: pad_even_def)

lemma even_length_send_data: "even (length (send_data s))"
proof -
  have "even (nat (even_up n))" for n
    by (cases "0 \<le> even_up n") (auto simp: even_up_def even_nat_iff)
  then show ?thesis
    by (simp add: send_data_def even_length_pad_even split: option.split)
qed

lemma emit_dataSend: "(emit bs s)\<lparr>m_dataSend := x\<rparr> = emit bs (s\<lparr>m_dataSend := x\<rparr>)"
  and emit_reserved: "(emit bs s)\<lparr>reserved := r\<rparr> = emit bs (s\<lparr>reserved := r\<rparr>)"
  for s :: Message
  by (simp_all add: emit_def move_def)

lemma emit_Message [simp]:
  "m_prms (emit bs s) = m_prms s" "m_tlv_id (emit bs s) = m_tlv_id s"
  "m_dataSend (emit bs s) = m_dataSend s" "m_sendAction (emit bs s) = m_sendAction s"
  for s :: Message
  by (simp_all add: emit_def move_def)

lemma wf_Message [simp]:
  "wf (s\<lparr>m_dataSend := x\<rparr>) = wf s" "wf (s\<lparr>m_build := b\<rparr>) = wf s" for s :: Message
  by (simp_all add: wf_def)

lemma build_data_send:
  assumes "m_sendAction s \<noteq> GET" "m_dataSend s = Some t" "tlv_type t = m_tlv_id s" "ok_tlv t"
    and "wf s" "m_size s = 0" and fits: "int (length (pad_even (enc_tlv t))) \<le> m_left s"
  shows "build_data sz s = Some (MNG_PARSE_ERROR_OK, emit (pad_even (enc_tlv t))
    (s\<lparr>m_build := True, m_err := MNG_PARSE_ERROR_TOO_SMALL,
       m_dataSend := Some (norm_tlv t), reserved := 0\<rparr>))"
proof -
  let ?s = "s\<lparr>m_build := True, reserved := 0\<rparr>"
    and ?s1 = "s\<lparr>m_build := True, m_err := MNG_PARSE_ERROR_TOO_SMALL,
       m_dataSend := Some (norm_tlv t), reserved := 0\<rparr>"
  have len: "int (length (enc_tlv t)) \<le> m_left s"
    using fits by (simp add: pad_even_def split: if_splits)
  have c: "call_tlv_data (m_tlv_id s) (Some t) ?s =
      Some (MNG_PARSE_ERROR_OK, Some (norm_tlv t),
        emit (enc_tlv t) (?s\<lparr>m_err := MNG_PARSE_ERROR_TOO_SMALL\<rparr>))"
    using call_tlv_build [of ?s t] assms len by simp
  have r: "proc_reserved () (emit (enc_tlv t) ?s1) = Some (False, (), emit [0] (emit (enc_tlv t) ?s1))"
    if "odd (length (enc_tlv t))"
    using that fits len assms(5)
    by (intro wire_codec.build_fits [OF codec_reserved]) (auto simp: pad_even_def wf_emit)
  show ?thesis
    using assms c r fits
    by (auto simp: build_data_def Let_def emit_dataSend emit_reserved pad_even_def emit_append)
qed


lemma build_data_get:
  assumes get: "m_sendAction s = GET" and "m_tlv_id s < 58" and "wf s" and "m_size s = 0"
    and fits: "int (length (send_data s)) \<le> m_left s"
  shows "build_data (ids_size (ids ! m_tlv_id s)) s = Some (MNG_PARSE_ERROR_OK,
    s\<lparr>mem := patch (m_cur s) (send_data s) (mem s), m_size := length (send_data s)\<rparr>)"
proof (cases "useZeroGet (m_prms s) \<or> ids_size (ids ! m_tlv_id s) = 0")
  case True
  then have "send_data s = []" by (auto simp: send_data_def get empty_size_def even_up_def)
  moreover have "m_cur s \<le> length (mem s)" using assms(3) by (simp add: wf_def)
  ultimately show ?thesis using True assms by (auto simp: build_data_def)
next
  case False
  note e = empty_size [OF assms(2)]
  have d: "send_data s = replicate (nat (even_up (empty_size (m_tlv_id s)))) 0"
    using False get by (simp add: send_data_def)
  have "0 \<le> even_up (empty_size (m_tlv_id s))" using e(1) by (simp add: even_up_def)
  moreover have "m_cur s + length (send_data s) \<le> length (mem s)"
    using assms(3) fits by (rule wf_room)
  ultimately show ?thesis
    using False get fits e(1)
    by (auto simp: build_data_def e(2) d Let_def put_bytes_def poke_def even_up_def split: if_splits)
qed


lemma build_data_ok:
  assumes "send_ok s" "wf s" "m_size s = 0" "int (length (send_data s)) \<le> m_left s"
  shows "\<exists>s2. build_data (ids_size (ids ! m_tlv_id s)) s = Some (MNG_PARSE_ERROR_OK, s2) \<and>
    mem s2 = patch (m_cur s) (send_data s) (mem s) \<and> m_size s2 = length (send_data s) \<and>
    host s2 = host s \<and> m_prms s2 = m_prms s \<and> m_tlv_id s2 = m_tlv_id s"
proof -
  have id: "m_tlv_id s < 58" using assms(1) by (simp add: send_ok_def)
  consider (get) "m_sendAction s = GET" | (none) "m_sendAction s \<noteq> GET" "m_dataSend s = None"
    | (data) t where "m_sendAction s \<noteq> GET" "m_dataSend s = Some t"
    by (cases "m_dataSend s") auto
  then show ?thesis
  proof cases
    case get
    then show ?thesis using build_data_get [OF get id assms(2-4)] by simp
  next
    case none
    moreover have "m_cur s \<le> length (mem s)" using assms(2) by (simp add: wf_def)
    ultimately show ?thesis using assms(3) by (simp add: build_data_def send_data_def)
  next
    case data
    then have "send_data s = pad_even (enc_tlv t)" by (simp add: send_data_def)
    then show ?thesis
      using data assms build_data_send [of s t] by (simp add: send_ok_def)
  qed
qed

lemma build_data_small:
  assumes "send_ok s" "wf s" "m_size s = 0" "m_left s < int (length (send_data s))"
  shows "\<exists>s2. build_data (ids_size (ids ! m_tlv_id s)) s = Some (MNG_PARSE_ERROR_TOO_SMALL, s2) \<and>
    length (mem s2) = length (mem s) \<and>
    drop (m_cur s + nat (m_left s)) (mem s2) = drop (m_cur s + nat (m_left s)) (mem s)"
proof -
  have id: "m_tlv_id s < 58" using assms(1) by (simp add: send_ok_def)
  note e = empty_size [OF id]
  show ?thesis
  proof (cases "m_sendAction s = GET")
    case True
    with assms(2,4) have z: "\<not> useZeroGet (m_prms s)"
        "send_data s = replicate (nat (even_up (empty_size (m_tlv_id s)))) 0"
      by (auto simp: send_data_def wf_def split: if_splits)
    moreover have "ids_size (ids ! m_tlv_id s) \<noteq> 0"
      using z assms(2,4) by (auto simp: empty_size_def even_up_def wf_def)
    ultimately show ?thesis
      using True assms(4) e(1) by (auto simp: build_data_def e(2) Let_def even_up_def split: if_splits)
  next
    case False
    with assms(2,4) obtain t where t: "m_dataSend s = Some t" "send_data s = pad_even (enc_tlv t)"
      by (auto simp: send_data_def wf_def split: option.splits)
    then have ok: "tlv_type t = m_tlv_id s" "ok_tlv t" using assms(1) by (auto simp: send_ok_def)
    let ?s = "s\<lparr>m_build := True, reserved := 0\<rparr>"
    show ?thesis
    proof (cases "m_left s < int (length (enc_tlv t))")
      case True
      then obtain t' s' where "call_tlv_data (m_tlv_id s) (Some t) ?s =
          Some (MNG_PARSE_ERROR_TOO_SMALL, Some t', s')"
          and "build_frame (?s\<lparr>m_err := MNG_PARSE_ERROR_TOO_SMALL\<rparr>) s'"
        using call_tlv_short [of ?s t] ok assms(2) by auto
      with \<open>m_sendAction s \<noteq> GET\<close> t show ?thesis by (auto simp: build_data_def Let_def build_frame_def)
    next
      case fits: False
      then have odd: "odd (length (enc_tlv t))" and left: "m_left s = int (length (enc_tlv t))"
        using assms(4) t(2) by (auto simp: pad_even_def split: if_splits)
      let ?s1 = "s\<lparr>m_build := True, m_err := MNG_PARSE_ERROR_TOO_SMALL,
        m_dataSend := Some (norm_tlv t), reserved := 0\<rparr>"
      have c: "call_tlv_data (m_tlv_id s) (Some t) ?s = Some (MNG_PARSE_ERROR_OK, Some (norm_tlv t),
          emit (enc_tlv t) (?s\<lparr>m_err := MNG_PARSE_ERROR_TOO_SMALL\<rparr>))"
        using call_tlv_build [of ?s t] ok assms(2) fits by simp
      have "wf (emit (enc_tlv t) ?s1)" using assms(2) fits by (intro wf_emit) simp_all
      then obtain s3 where "proc_reserved () (emit (enc_tlv t) ?s1) = Some (True, (), s3)"
          and "build_frame (emit (enc_tlv t) ?s1) s3"
        using wire_codec.build_short [OF codec_reserved, of "emit (enc_tlv t) ?s1" "()"] left by auto
      moreover have "build_frame ?s1 (emit (enc_tlv t) ?s1)"
        using assms(2) fits by (intro build_frame_emit) simp_all
      ultimately have "build_frame ?s1 s3" and "proc_reserved () (emit (enc_tlv t) ?s1) = Some (True, (), s3)"
        by (auto intro: build_frame_trans)
      with \<open>m_sendAction s \<noteq> GET\<close> t odd c assms(3) show ?thesis
        by (simp add: build_data_def Let_def emit_dataSend emit_reserved build_frame_def)
    qed
  qed
qed

lemma mng_val_ids: "tid < 58 \<Longrightarrow> mng_val tid = Some (mng_all_vals ! tid)"
  by (simp add: mng_val_def)

lemma build_correct:
  assumes "send_ok s" and "bufSize \<le> length b" and "54 + length (send_data s) \<le> bufSize"
  shows "\<exists>s'. build (Some b) bufSize sequence s = Some (MNG_PARSE_ERROR_OK, s') \<and>
    mem s' = mng_message (m_prms s) (m_sendAction s) sequence (ids_value (ids ! m_tlv_id s))
      (send_data s) @ drop (54 + length (send_data s)) b \<and>
    m_msgLen s' = 54 + length (send_data s)"
proof -
  have id: "m_tlv_id s < 58" and prms: "ok_prms (m_prms s)" using assms(1) by (auto simp: send_ok_def)
  let ?H = "mng_header (m_prms s) (m_sendAction s) sequence 0 @ bytes_be 2 MANAGEMENT"
    and ?I = "bytes_be 2 (ids_value (ids ! m_tlv_id s))"
  let ?m1 = "?H @ take 2 (drop 50 b) @ ?I @ drop 54 b"
  let ?s1 = "s\<lparr>mem := ?m1, m_size := 0, m_cur := 54, m_left := int bufSize - 54\<rparr>"
  have l: "length (?H @ take 2 (drop 50 b) @ ?I) = 54" "length ?m1 = length b"
    using assms(2,3) length_mng_header [OF prms] by simp_all
  have "send_ok ?s1" "send_data ?s1 = send_data s"
    using assms(1) by (simp_all add: send_ok_def send_data_def split: option.splits)
  moreover have "wf ?s1" using assms(2,3) l(2) by (simp add: wf_def)
  ultimately obtain s2 where s2: "build_data (ids_size (ids ! m_tlv_id s)) ?s1 = Some (MNG_PARSE_ERROR_OK, s2)"
      "mem s2 = patch 54 (send_data s) ?m1" "m_size s2 = length (send_data s)" "host s2 = host s"
    using build_data_ok [of ?s1] assms(3) by auto
  have "patch 54 (send_data s) ?m1 =
      ?H @ take 2 (drop 50 b) @ ?I @ send_data s @ drop (54 + length (send_data s)) b"
    using l(1) by (simp add: patch_def add.commute)
  then have "pokes [(50, store (host s) 2 (cpu_to_net16 (host s) (word_of_nat (2 + length (send_data s))))),
      (2, store (host s) 2 (cpu_to_net16 (host s) (word_of_nat (54 + length (send_data s)))))] (mem s2) =
    Some (mng_message (m_prms s) (m_sendAction s) sequence (ids_value (ids ! m_tlv_id s))
      (send_data s) @ drop (54 + length (send_data s)) b)"
    using length_pokes [OF prms, of "take 2 (drop 50 b)"] assms(2,3) s2(2) by simp
  moreover have "even (54 + length (send_data s))" using even_length_send_data by simp
  ultimately show ?thesis
    using assms(2,3) id s2 header_pokes [OF prms, of b]
    by (simp add: build_def mng_val_ids nth_mng_all_vals size_consts Let_def)
qed

lemma build_small:
  assumes "send_ok s" and "bufSize \<le> length b" and "bufSize < 54 + length (send_data s)"
  shows "\<exists>s'. build (Some b) bufSize sequence s = Some (MNG_PARSE_ERROR_TOO_SMALL, s') \<and>
    length (mem s') = length b \<and> drop bufSize (mem s') = drop bufSize b"
proof (cases "bufSize < 54")
  case True
  then show ?thesis by (simp add: build_def size_consts)
next
  case False
  have id: "m_tlv_id s < 58" and prms: "ok_prms (m_prms s)" using assms(1) by (auto simp: send_ok_def)
  let ?m1 = "mng_header (m_prms s) (m_sendAction s) sequence 0 @ bytes_be 2 MANAGEMENT @
      take 2 (drop 50 b) @ bytes_be 2 (ids_value (ids ! m_tlv_id s)) @ drop 54 b"
  let ?s1 = "s\<lparr>mem := ?m1, m_size := 0, m_cur := 54, m_left := int bufSize - 54\<rparr>"
  have l: "length (mng_header (m_prms s) (m_sendAction s) sequence 0) = 48" "length ?m1 = length b"
    using assms(2) False length_mng_header [OF prms] by simp_all
  have "send_ok ?s1" "send_data ?s1 = send_data s"
    using assms(1) by (simp_all add: send_ok_def send_data_def split: option.splits)
  moreover have "wf ?s1" using assms(2) False l(2) by (simp add: wf_def)
  ultimately obtain s2 where
      "build_data (ids_size (ids ! m_tlv_id s)) ?s1 = Some (MNG_PARSE_ERROR_TOO_SMALL, s2)"
      "length (mem s2) = length ?m1" "drop (54 + nat (int bufSize - 54)) (mem s2) =
        drop (54 + nat (int bufSize - 54)) ?m1"
    using build_data_small [of ?s1] assms(3) by auto
  moreover have "54 + nat (int bufSize - 54) = bufSize" using False by simp
  moreover have "drop bufSize ?m1 = drop bufSize b" using False l(1) assms(2) by simp
  ultimately show ?thesis
    using assms(2) False id l(2) header_pokes [OF prms, of b]
    by (simp add: build_def mng_val_ids nth_mng_all_vals size_consts)
qed

definition action_ok :: "Message \<Rightarrow> bool" where
  "action_ok s \<longleftrightarrow> m_tlv_id s < 58 \<and>
     (m_sendAction s = GET \<or> m_sendAction s = SET \<or> m_sendAction s = COMMAND) \<and>
     ids_allow (ids ! m_tlv_id s) AND push_bit (unat (m_sendAction s)) 1 \<noteq> 0 \<and>
     (m_dataSend s \<noteq> None \<longleftrightarrow> m_sendAction s \<noteq> GET \<and> ids_size (ids ! m_tlv_id s) \<noteq> 0)"

lemma length_pad_even: "int (length (pad_even bs)) = even_up (int (length bs))"
  by (simp add: pad_even_def even_up_def)

lemma sizes_of_ids:
  assumes "tid < 58"
  shows "ids_size (ids ! tid) = - 2 \<or> 0 \<le> ids_size (ids ! tid)"
proof -
  have "list_all (\<lambda>(i, r). ids_size r = - 2 \<or> 0 \<le> ids_size r) (enumerate 0 ids)"
    unfolding ids_def by (simp add: row_def)
  then show ?thesis using assms by (rule ids_all)
qed

lemma enc_tlv_planned:
  assumes "ok_tlv t" "tlv_type t \<noteq> CLOCK_DESCRIPTION" "ids_size (ids ! tlv_type t) \<noteq> 0"
  shows "(if ids_size (ids ! tlv_type t) = - 2 then dataFieldSize (tlv_type t) (Some t)
      else Some (ids_size (ids ! tlv_type t))) =
    Some (if ids_size (ids ! tlv_type t) = - 2 then int (length (enc_tlv t))
      else even_up (int (length (enc_tlv t))))"
  using assms enc_tlv_fixed [of t] enc_tlv_variable [of t] sizes_of_ids [of "tlv_type t"] by auto

lemma planned_length_aux:
  assumes "send_ok s" and "action_ok s"
  shows "getMsgPlanedLen s = Some (int (54 + length (send_data s)))"
proof -
  have id: "m_tlv_id s < 58" using assms(2) by (simp add: action_ok_def)
  note e = empty_size [OF id]
  show ?thesis
  proof (cases "m_sendAction s = GET")
    case True
    then show ?thesis
      using id e(1) by (simp add: getMsgPlanedLen_def send_data_def size_consts nth_mng_all_vals e(2)
          Let_def even_up_def)
  next
    case False
    show ?thesis
    proof (cases "m_dataSend s")
      case None
      then have "ids_size (ids ! m_tlv_id s) = 0" using False assms(2) by (simp add: action_ok_def)
      then show ?thesis
        using False None id
        by (simp add: getMsgPlanedLen_def send_data_def size_consts nth_mng_all_vals Let_def)
    next
      case (Some t)
      then have t: "tlv_type t = m_tlv_id s" "ok_tlv t" "ids_size (ids ! m_tlv_id s) \<noteq> 0"
        using False assms by (auto simp: send_ok_def action_ok_def)
      moreover have "m_tlv_id s \<noteq> CLOCK_DESCRIPTION"
        using assms(2) False by (auto simp: action_ok_def ids_def row_def A_GET_def)
      ultimately have "(if ids_size (ids ! m_tlv_id s) = - 2 then dataFieldSize (m_tlv_id s) (Some t)
          else Some (ids_size (ids ! m_tlv_id s))) =
        Some (if ids_size (ids ! m_tlv_id s) = - 2 then int (length (enc_tlv t))
          else even_up (int (length (enc_tlv t))))"
        using enc_tlv_planned [of t, unfolded t(1)] by simp
      then show ?thesis
        using False Some id
        by (auto simp: getMsgPlanedLen_def send_data_def size_consts nth_mng_all_vals Let_def
            length_pad_even even_up_def split: if_splits)
    qed
  qed
qed

end
