(* ===== verification/MsgParse.thy ===== *)
theory MsgParse
  imports MsgBuild
begin

text \<open>
  \<^verbatim>\<open>Message::parse\<close>. The first part follows it on a well-formed reply, octet by octet; the
  second part follows it on arbitrary octets and shows that it reads nothing outside the received
  ones.
\<close>

section \<open>Reads of a reference message\<close>

lemma net16_pair [simp]:
  "net_to_cpu16 h (load h [ucast (drop_bit 8 x), ucast x]) = (x :: u16)"
  using load_net16 [of "bytes_be 2 x" h] of_bytes_be_bytes_be [of 2 x]
  by (simp add: bytes_be_2)

definition holds_message :: "MsgParams \<Rightarrow> actionField_e \<Rightarrow> u16 \<Rightarrow> u16 \<Rightarrow> u16 \<Rightarrow> u16 \<Rightarrow> u16 \<Rightarrow>
    byte list \<Rightarrow> byte list \<Rightarrow> bool" where
  "holds_message prms act sequence len type lf mngId data m \<longleftrightarrow> ok_prms prms \<and>
     m = mng_header prms act sequence len @ bytes_be 2 type @ bytes_be 2 lf @
       bytes_be 2 mngId @ data"

lemma holds_message_explicit:
  assumes "holds_message prms act sequence len type lf mngId data m"
  obtains s0 s1 s2 s3 s4 s5 s6 s7 t0 t1 t2 t3 t4 t5 t6 t7 where
    "v_octets (PortIdentity_t.clockIdentity (self_id prms)) = [s0, s1, s2, s3, s4, s5, s6, s7]"
    "v_octets (PortIdentity_t.clockIdentity (target prms)) = [t0, t1, t2, t3, t4, t5, t6, t7]"
    "m = [Management OR push_bit 4 (transportSpecific prms), 2,
       ucast (drop_bit 8 len), ucast len, MsgParams.domainNumber prms, 0,
       if isUnicast prms then 4 else 0, 0, 0, 0, 0, 0, 0, 0, 0, 0, 0, 0, 0, 0,
       s0, s1, s2, s3, s4, s5, s6, s7,
       ucast (drop_bit 8 (PortIdentity_t.portNumber (self_id prms))),
       ucast (PortIdentity_t.portNumber (self_id prms)),
       ucast (drop_bit 8 sequence), ucast sequence, 4, 0x7f, t0, t1, t2, t3, t4, t5, t6, t7,
       ucast (drop_bit 8 (PortIdentity_t.portNumber (target prms))),
       ucast (PortIdentity_t.portNumber (target prms)),
       boundaryHops prms, boundaryHops prms, act, 0, ucast (drop_bit 8 type), ucast type,
       ucast (drop_bit 8 lf), ucast lf, ucast (drop_bit 8 mngId), ucast mngId] @ data"
  using assms
  by (auto simp: holds_message_def ok_prms_def ok_PortIdentity_def ok_ClockIdentity_def length_8_conv
      mng_header_def bytes_be_2 enc_PortIdentity_def enc_ClockIdentity_def replicate_8 replicate_4)

lemma reads8:
  assumes "holds_message prms act sequence len type lf mngId data (mem s)"
  shows "rd8 0 s = Some (Management OR push_bit 4 (transportSpecific prms))"
    and "rd8 1 s = Some 2"
    and "rd8 4 s = Some (MsgParams.domainNumber prms)"
    and "rd8 5 s = Some 0"
    and "rd8 6 s = Some (if isUnicast prms then 4 else 0)"
    and "rd8 32 s = Some 4"
    and "rd8 33 s = Some 0x7f"
    and "rd8 46 s = Some act"
  by (rule holds_message_explicit [OF assms], simp add: rd8_def peek_def)+

lemma reads16:
  assumes "holds_message prms act sequence len type lf mngId data (mem s)"
  shows "\<exists>x. rd16 30 s = Some x \<and> net_to_cpu16 (host s) x = sequence"
    and "\<exists>x. rd16 28 s = Some x \<and> net_to_cpu16 (host s) x = PortIdentity_t.portNumber (self_id prms)"
    and "\<exists>x. rd16 42 s = Some x \<and> net_to_cpu16 (host s) x = PortIdentity_t.portNumber (target prms)"
    and "\<exists>x. rd16 48 s = Some x \<and> net_to_cpu16 (host s) x = type"
    and "\<exists>x. rd16 50 s = Some x \<and> net_to_cpu16 (host s) x = lf"
    and "\<exists>x. rd16 52 s = Some x \<and> net_to_cpu16 (host s) x = mngId"
  by (rule holds_message_explicit [OF assms], simp add: rd16_def peek_def)+

lemma reads_ids:
  assumes "holds_message prms act sequence len type lf mngId data (mem s)"
  shows "peek 20 8 (mem s) = Some (v_octets (PortIdentity_t.clockIdentity (self_id prms)))"
    and "peek 34 8 (mem s) = Some (v_octets (PortIdentity_t.clockIdentity (target prms)))"
  by (rule holds_message_explicit [OF assms], simp add: peek_def)+

lemma holds_message_length:
  "holds_message prms act sequence len type lf mngId data m \<Longrightarrow> length m = 54 + length data"
  by (simp add: holds_message_def length_mng_header)

lemma holds_message_data:
  "holds_message prms act sequence len type lf mngId data m \<Longrightarrow> drop 54 m = data"
  by (simp add: holds_message_def length_mng_header)

section \<open>The header\<close>

lemma rd_update [simp]:
  "rd8 off (s\<lparr>m_type := a\<rparr>) = rd8 off s" "rd8 off (s\<lparr>m_versionPTP := b\<rparr>) = rd8 off s"
  "rd8 off (s\<lparr>m_minorVersionPTP := b\<rparr>) = rd8 off s"
  "rd16 off (s\<lparr>m_type := a\<rparr>) = rd16 off s" "rd16 off (s\<lparr>m_versionPTP := b\<rparr>) = rd16 off s"
  "rd16 off (s\<lparr>m_minorVersionPTP := b\<rparr>) = rd16 off s"
  "rd16 off (s\<lparr>m_replyAction := b\<rparr>) = rd16 off s" "rd16 off (s\<lparr>m_left := l\<rparr>) = rd16 off s"
  "rd16 off (s\<lparr>m_tlv_id := i\<rparr>) = rd16 off s" for s :: Message
  by (simp_all add: rd8_def rd16_def)

text \<open>What \<^verbatim>\<open>parse\<close> stores from the header of a management message.\<close>

definition header_read :: "MsgParams \<Rightarrow> u16 \<Rightarrow> Message \<Rightarrow> Message" where
  "header_read prms sequence s = s\<lparr>
     m_type := Management, m_versionPTP := 2, m_minorVersionPTP := 0,
     m_sdoId := push_bit 8 (ucast (transportSpecific prms)),
     m_domainNumber := MsgParams.domainNumber prms,
     m_isUnicast := isUnicast prms,
     m_sequence := sequence,
     m_peer := self_id prms,
     m_target := target prms,
     m_build := False\<rparr>"

lemma nibbles:
  assumes "ts \<le> (0xf :: u8)"
  shows "(0xd OR push_bit 4 ts) AND 0xf = 0xd"
    and "push_bit 4 (ucast ((0xd OR push_bit 4 ts) AND 0xf0)) = push_bit 8 (ucast ts :: u32)"
proof -
  have "unat ts < 16" using assms by (simp add: word_le_nat_alt)
  then have "ts = word_of_nat (unat ts) \<and> unat ts \<in> set [0..<16]" by simp
  moreover have "list_all (\<lambda>n. ((0xd OR push_bit 4 (word_of_nat n)) AND 0xf = (0xd :: u8)) \<and>
      push_bit 4 (ucast ((0xd OR push_bit 4 (word_of_nat n)) AND (0xf0 :: u8))) =
      push_bit 8 (ucast (word_of_nat n :: u8) :: u32)) [0..<16]"
    by (simp add: upt_rec)
  ultimately show "(0xd OR push_bit 4 ts) AND 0xf = 0xd"
    and "push_bit 4 (ucast ((0xd OR push_bit 4 ts) AND 0xf0)) = push_bit 8 (ucast ts :: u32)"
    unfolding list_all_iff by metis+
qed

lemma PortIdentity_eta [simp]:
  "\<lparr>PortIdentity_t.clockIdentity = \<lparr>v_octets = v_octets (PortIdentity_t.clockIdentity p)\<rparr>,
     portNumber = PortIdentity_t.portNumber p\<rparr> = p"
  by (cases p) (simp add: ClockIdentity_t.equality)

lemma parse_header:
  assumes m: "holds_message prms act sequence len type lf mngId data buf"
    and ts: "transportSpecific prms \<le> 0xf" and sz: "54 \<le> msgSize"
  shows "parse buf msgSize s0 = parse_mng msgSize (header_read prms sequence (s0\<lparr>mem := buf\<rparr>))"
proof -
  let ?s = "s0\<lparr>mem := buf\<rparr>"
  note r8 = reads8 [of prms act sequence len type lf mngId data ?s]
    and r16 = reads16 [of prms act sequence len type lf mngId data ?s]
    and rid = reads_ids [of prms act sequence len type lf mngId data ?s]
  have h: "holds_message prms act sequence len type lf mngId data (mem ?s)" using m by simp
  obtain q p t where "rd16 30 ?s = Some q" "net_to_cpu16 (host s0) q = sequence"
    "rd16 28 ?s = Some p" "net_to_cpu16 (host s0) p = PortIdentity_t.portNumber (self_id prms)"
    "rd16 42 ?s = Some t" "net_to_cpu16 (host s0) t = PortIdentity_t.portNumber (target prms)"
    using r16(1-3) [OF h] by auto
  then show ?thesis
    using r8 [OF h] rid [OF h] sz nibbles [OF ts]
    by (simp add: parse_def check_type_def parse_ids_def header_read_def size_consts Let_def
        controlFieldMng_def ptp_major_ver_def logMessageIntervalDef_def unicastFlag_def)
qed


section \<open>A reply\<close>

lemma findTlvId_of_type:
  assumes "net_to_cpu16 h x = ids_value (ids ! tid)" and "tid < 58"
    and "spec = linuxptp \<or> \<not> uses_linuxptp tid"
  shows "findTlvId h x spec = Some tid"
proof -
  have "switch_value (net_to_cpu16 h x) 0 ids = Some tid"
    using assms(1,2) by (simp add: switch_ids_iff)
  then show ?thesis using assms(3) by (auto simp: findTlvId_def)
qed

lemma header_read_simps [simp]:
  "mem (header_read prms sequence s) = mem s" "host (header_read prms sequence s) = host s"
  "m_prms (header_read prms sequence s) = m_prms s"
  "m_build (header_read prms sequence s) = False"
  by (simp_all add: header_read_def)

lemma parse_reply_aux:
  fixes prms :: MsgParams and t :: BaseMngTlv
  defines "data \<equiv> pad_even (enc_tlv t)"
  assumes "holds_message prms act sequence len MANAGEMENT (word_of_nat (2 + length data))
      (ids_value (ids ! tlv_type t)) (data @ rest) (mem s)"
    and "act = RESPONSE \<or> act = ACKNOWLEDGE" and "checkReplyAction (tlv_type t) act"
    and "implementSpecific (m_prms s) = linuxptp \<or> \<not> uses_linuxptp (tlv_type t)"
    and "ok_tlv t" and "enc_tlv t \<noteq> []" and "2 + length data < 65536"
    and "54 + int (length data) \<le> msgSize" and "\<not> m_build s"
  shows "\<exists>s'. parse_mng msgSize s = Some (MNG_PARSE_ERROR_OK, s') \<and>
    m_dataGet s' = Some (norm_tlv t) \<and> m_tlv_id s' = tlv_type t \<and> m_replyAction s' = act \<and>
    m_mngType s' = MANAGEMENT \<and> m_sequence s' = m_sequence s \<and> m_peer s' = m_peer s \<and>
    m_target s' = m_target s \<and> m_domainNumber s' = m_domainNumber s \<and> m_sdoId s' = m_sdoId s \<and>
    m_isUnicast s' = m_isUnicast s \<and> m_type s' = m_type s"
proof -
  have ne: "data \<noteq> []" "even (length data)"
    using assms(7) even_length_pad_even by (auto simp: data_def pad_even_def)
  note h = assms(2)
  obtain a b c where r: "rd16 48 s = Some a" "net_to_cpu16 (host s) a = MANAGEMENT"
    "rd16 50 s = Some b" "net_to_cpu16 (host s) b = word_of_nat (2 + length data)"
    "rd16 52 s = Some c" "net_to_cpu16 (host s) c = ids_value (ids ! tlv_type t)"
    using reads16(4-6) [OF h] by auto
  have f: "findTlvId (host s) c (implementSpecific (m_prms s)) = Some (tlv_type t)"
    using r(6) assms(5) by (intro findTlvId_of_type) simp_all
  let ?s3 = "s\<lparr>m_replyAction := act, m_tlv_id := tlv_type t, m_left := int (length data), m_cur := 54\<rparr>"
  have "int (length data) \<le> int (length (mem s)) - 54"
    using holds_message_length [OF h] by simp
  then have wf: "wf ?s3" by (simp add: wf_def)
  have "take (length (enc_tlv t)) (data @ rest) = enc_tlv t"
    by (simp add: data_def pad_even_def)
  then have sw: "starts_with ?s3 (enc_tlv t)"
    using holds_message_data [OF h] by (simp add: starts_with_def data_def pad_even_def)
  have "m_left ?s3 - int (length (enc_tlv t)) < 2" by (simp add: data_def pad_even_def)
  then obtain s4 where c4: "call_tlv_data (tlv_type t) None ?s3 =
      Some (MNG_PARSE_ERROR_OK, Some (norm_tlv t), s4)" and
    "mst.more s4 = mst.more ?s3"
    using call_tlv_parse [of ?s3 t None] assms(6,10) wf sw by auto
  then have more: "m_tlv_id s4 = tlv_type t" "m_replyAction s4 = act" "m_sequence s4 = m_sequence s"
    "m_peer s4 = m_peer s" "m_target s4 = m_target s" "m_domainNumber s4 = m_domainNumber s"
    "m_sdoId s4 = m_sdoId s" "m_isUnicast s4 = m_isUnicast s" "m_type s4 = m_type s"
    by (cases s; cases s4; auto)+
  have act: "0xf AND act = act" using assms(3) by auto
  have u: "uint (word_of_nat (2 + length data) :: u16) = 2 + int (length data)"
    using uint_word_of_nat [OF assms(8)] by simp
  have "parse_mng msgSize s = parse_management (msgSize - 52) act
      (s\<lparr>m_replyAction := act, m_left := 2 + int (length data)\<rparr>)"
    using r act assms(3) u reads8(8) [OF h]
    by (auto simp: parse_mng_def size_consts Let_def)
  also have "\<dots> = Some (MNG_PARSE_ERROR_OK, s4\<lparr>m_dataGet := Some (norm_tlv t), m_mngType := MANAGEMENT\<rparr>)"
    using r(5) f c4 assms(4,9) ne
    by (simp add: parse_management_def size_consts Let_def)
  finally show ?thesis using more by simp
qed


lemma holds_mng_message:
  "ok_prms prms \<Longrightarrow> holds_message prms act sequence (word_of_nat (54 + length data)) MANAGEMENT
     (word_of_nat (2 + length data)) mngId (data @ rest) (mng_message prms act sequence mngId data @ rest)"
  by (simp add: holds_message_def mng_message_def)

lemma parse_reply_exact:
  assumes "ok_prms prms" and "transportSpecific prms \<le> 0xf"
    and "act = RESPONSE \<or> act = ACKNOWLEDGE" and "checkReplyAction (tlv_type t) act"
    and "implementSpecific (m_prms s) = linuxptp \<or> \<not> uses_linuxptp (tlv_type t)"
    and "ok_tlv t" and "enc_tlv t \<noteq> []" and "2 + length (pad_even (enc_tlv t)) < 65536"
  shows "\<exists>s'. parse (mng_message prms act sequence (ids_value (ids ! tlv_type t)) (pad_even (enc_tlv t)) @ rest)
      (54 + int (length (pad_even (enc_tlv t)))) s = Some (MNG_PARSE_ERROR_OK, s') \<and>
    m_dataGet s' = Some (norm_tlv t) \<and> m_tlv_id s' = tlv_type t \<and> m_replyAction s' = act \<and>
    m_mngType s' = MANAGEMENT \<and> m_sequence s' = sequence \<and> m_peer s' = self_id prms \<and>
    m_target s' = target prms \<and> m_domainNumber s' = MsgParams.domainNumber prms \<and>
    m_sdoId s' = push_bit 8 (ucast (transportSpecific prms)) \<and> m_isUnicast s' = isUnicast prms \<and>
    m_type s' = Management"
proof -
  let ?buf = "mng_message prms act sequence (ids_value (ids ! tlv_type t)) (pad_even (enc_tlv t)) @ rest"
    and ?n = "54 + int (length (pad_even (enc_tlv t)))"
  let ?s = "header_read prms sequence (s\<lparr>mem := ?buf\<rparr>)"
  note h = holds_mng_message [OF assms(1), of act sequence "pad_even (enc_tlv t)"
      "ids_value (ids ! tlv_type t)" rest]
  have p: "parse ?buf ?n s = parse_mng ?n ?s"
    using parse_header [OF h assms(2)] by simp
  show ?thesis
    unfolding p using parse_reply_aux [of prms act sequence _ t rest ?s ?n] h assms(3-8)
    by (simp add: header_read_def)
qed

lemma update_action:
  assumes "ok_prms prms"
  shows "(mng_message prms act sequence mngId data @ rest)[46 := a] =
    mng_message prms a sequence mngId data @ rest"
proof -
  have "(mng_header prms act sequence len)[46 := a] = mng_header prms a sequence len" for len
    using assms by (simp add: mng_header_def ok_prms_def list_update_append replicate_8 replicate_4
        bytes_be_2)
  then show ?thesis
    by (simp add: mng_message_def list_update_append length_mng_header [OF assms])
qed

section \<open>Parsing arbitrary octets\<close>

lemma rd8_in: "off < length (mem s) \<Longrightarrow> rd8 off s = Some (mem s ! off)"
  by (simp add: rd8_def peek_def hd_drop_conv_nth)

lemma rd16_in: "off + 2 \<le> length (mem s) \<Longrightarrow> \<exists>x. rd16 off s = Some x"
  by (simp add: rd16_def peek_def)

lemma peek_in: "off + n \<le> length m \<Longrightarrow> \<exists>x. peek off n m = Some x"
  by (simp add: peek_def)

text \<open>
  The signaling TLVs whose functions keep to their window and set the pointer: all but
  \<^verbatim>\<open>ENHANCED_ACCURACY_METRICS\<close> and \<^verbatim>\<open>MANAGEMENT\<close>.
\<close>

definition safe_sig :: "tlvType_e \<Rightarrow> bool" where
  "safe_sig type \<longleftrightarrow> type \<noteq> ENHANCED_ACCURACY_METRICS \<and> type \<noteq> MANAGEMENT"

definition admits :: "MsgParams \<Rightarrow> tlvType_e \<Rightarrow> bool" where
  "admits prms type \<longleftrightarrow> \<not> filterSignaling prms \<or> allowSigTlvs prms type \<noteq> None"

lemma caseBuildAct_window:
  assumes "windowed f" "\<not> m_build s" "wf s"
  shows "\<exists>r s'. caseBuildAct con f new s = Some (r, s') \<and> parse_frame s s'"
proof -
  obtain e d s' where "f new s = Some (e, d, s')" "parse_frame s s'"
    using windowedE [OF assms] by blast
  then show ?thesis by (cases e) (auto simp: caseBuildAct_def)
qed

lemma sig_switch_window:
  assumes "\<not> m_build s" "wf s" "safe_sig type"
  shows "\<exists>r s'. sig_switch spec type s = Some (r, s') \<and> parse_frame s s'"
proof -
  have frame: "parse_frame s s" using assms(2) by (simp add: wf_def)
  note win = window_ORGANIZATION_EXTENSION window_PATH_TRACE window_ALTERNATE_TIME_OFFSET_INDICATOR
    window_L1_SYNC window_PORT_COMMUNICATION_AVAILABILITY window_PROTOCOL_ADDRESS
    window_SLAVE_RX_SYNC_TIMING_DATA window_SLAVE_RX_SYNC_COMPUTED_DATA
    window_SLAVE_TX_EVENT_TIMESTAMPS window_CUMULATIVE_RATE_RATIO window_SLAVE_DELAY_TIMING_DATA_NP
  show ?thesis
    using assms(3) unfolding sig_switch_def safe_sig_def
    by (simp add: caseBuildAct_window win assms(1,2) frame)
qed

lemma sig_step_window:
  assumes "\<not> m_build s" and "4 \<le> leftAll" and "int (m_cur s) + leftAll \<le> int (length (mem s))"
    and "\<And>type. admits (m_prms s) type \<Longrightarrow> safe_sig type"
  shows "\<exists>r s'. sig_step leftAll s = Some (r, s') \<and> mem s' = mem s \<and> \<not> m_build s' \<and>
    m_prms s' = m_prms s \<and>
    (\<forall>left'. r = Inr left' \<longrightarrow> int (m_cur s') + left' = int (m_cur s) + leftAll \<and> 0 \<le> left')"
proof -
  have "m_cur s + 2 + 2 \<le> length (mem s)" using assms(2,3) by linarith
  then obtain tt lf where r: "rd16 (m_cur s) s = Some tt" "rd16 (m_cur s + 2) s = Some lf"
    using rd16_in [of "m_cur s" s] rd16_in [of "m_cur s + 2" s] by auto
  let ?type = "net_to_cpu16 (host s) tt" and ?n = "unat (net_to_cpu16 (host s) lf)"
  show ?thesis
  proof (cases "leftAll - 4 < int ?n \<or> \<not> admits (m_prms s) ?type")
    case True
    then show ?thesis
      using assms r by (auto simp: sig_step_def Let_def tlvSize_def admits_def simp del: of_nat_unat)
  next
    case False
    let ?s1 = "s\<lparr>m_cur := m_cur s + 4, m_left := int ?n, m_err := MNG_PARSE_ERROR_TOO_SMALL\<rparr>"
    have "wf ?s1" "\<not> m_build ?s1" "safe_sig ?type"
      using False assms by (simp_all add: wf_def del: of_nat_unat)
    then obtain x s2 where sw: "sig_switch (implementSpecific (m_prms s)) ?type ?s1 = Some (x, s2)"
        and "parse_frame ?s1 s2"
      using sig_switch_window [of ?s1 ?type "implementSpecific (m_prms s)"] by blast
    then have "mem s2 = mem s" "\<not> m_build s2" "mst.more s2 = mst.more s" "0 \<le> m_left s2"
      "int (m_cur s2) + m_left s2 = int (m_cur s) + 4 + int ?n"
      using assms(1) by (auto simp: parse_frame_def simp del: of_nat_unat)
    moreover from this(3) have "m_prms s2 = m_prms s" by (cases s; cases s2) simp
    ultimately show ?thesis
      using False r sw
      by (auto simp: sig_step_def Let_def tlvSize_def admits_def sig_insert_def
          simp del: of_nat_unat split: sum.splits option.splits)
  qed
qed

lemma parseSig_loop_safe:
  "\<not> m_build s \<Longrightarrow> int (m_cur s) + leftAll \<le> int (length (mem s)) \<Longrightarrow>
   (\<And>type. admits (m_prms s) type \<Longrightarrow> safe_sig type) \<Longrightarrow>
   \<exists>err s'. parseSig_loop leftAll s = Some (err, s') \<and> mem s' = mem s"
proof (induction leftAll s rule: parseSig_loop.induct)
  case (1 leftAll s)
  show ?case
  proof (cases "leftAll < 4")
    case True
    then show ?thesis by (simp add: tlvSize_def)
  next
    case False
    then obtain r s' where st: "sig_step leftAll s = Some (r, s')" "mem s' = mem s" "\<not> m_build s'"
        "m_prms s' = m_prms s"
        "\<And>left'. r = Inr left' \<Longrightarrow> int (m_cur s') + left' = int (m_cur s) + leftAll"
      using sig_step_window [of s leftAll] "1.prems" by auto
    show ?thesis
    proof (cases r)
      case (Inl err)
      with False st show ?thesis by (simp add: tlvSize_def)
    next
      case (Inr left')
      then have "\<exists>err s''. parseSig_loop left' s' = Some (err, s'') \<and> mem s'' = mem s'"
        using False st "1.prems" by (intro "1.IH" [of "(r, s')" r s']) (auto simp: tlvSize_def)
      with False st Inr show ?thesis by (simp add: tlvSize_def)
    qed
  qed
qed

definition data_for_empty_id :: "byte list \<Rightarrow> Message \<Rightarrow> bool" where
  "data_for_empty_id buf s =
     (case (rd16 50 (s\<lparr>mem := buf\<rparr>), rd16 52 (s\<lparr>mem := buf\<rparr>)) of
        (Some lf, Some val) \<Rightarrow>
          (case findTlvId (host s) val (implementSpecific (m_prms s)) of
             None \<Rightarrow> False
           | Some tid \<Rightarrow> ids_fun (ids ! tid) = NA \<and> net_to_cpu16 (host s) lf \<noteq> 2)
      | _ \<Rightarrow> False)"

lemma parse_frame_mem: "parse_frame s s' \<Longrightarrow> mem s' = mem s"
  by (simp add: parse_frame_def)

lemma parse_error_status_safe:
  assumes "\<not> m_build s" and "sz \<le> int (length (mem s)) - 52"
  shows "\<exists>err s'. parse_error_status sz a s = Some (err, s') \<and> mem s' = mem s"
proof (cases "sz < 8")
  case True
  then show ?thesis by (simp add: parse_error_status_def size_consts)
next
  case False
  then obtain v e where r: "rd16 54 s = Some v" "rd16 52 s = Some e"
    using assms(2) rd16_in [of 54 s] rd16_in [of 52 s] by auto
  let ?s3 = "\<lambda>tid. s\<lparr>m_tlv_id := tid, m_errorId := net_to_cpu16 (host s) e,
      m_left := m_left s - 8, m_cur := 60\<rparr>"
  have "\<exists>e d s4. proc_PTPText (m_errorDisplay s) (?s3 tid) = Some (e, d, s4) \<and> mem s4 = mem s"
    if "8 \<le> m_left s" "m_left s - 8 \<le> sz - 8" for tid
  proof -
    have "wf (?s3 tid)" "\<not> m_build (?s3 tid)" using that assms by (simp_all add: wf_def)
    then obtain e d s4 where "proc_PTPText (m_errorDisplay s) (?s3 tid) = Some (e, d, s4)"
        "parse_frame (?s3 tid) s4"
      using windowedE [OF window_structs(7), of "?s3 tid"] by blast
    then show ?thesis using parse_frame_mem [of "?s3 tid" s4] by auto
  qed
  note pt = this
  show ?thesis
  proof (cases "findTlvId (host s) v (implementSpecific (m_prms s))")
    case None
    with False r show ?thesis by (simp add: parse_error_status_def size_consts)
  next
    case (Some tid)
    show ?thesis
    proof (cases "checkReplyAction tid a \<and> 8 \<le> m_left s \<and> even (m_left s) \<and> m_left s - 8 \<le> sz - 8")
      case True
      then obtain e d s4 where "proc_PTPText (m_errorDisplay s) (?s3 tid) = Some (e, d, s4)" "mem s4 = mem s"
        using pt by blast
      with False True Some r show ?thesis
        by (cases e) (auto simp: parse_error_status_def size_consts Let_def)
    next
      case no: False
      with False Some r show ?thesis
        by (auto simp: parse_error_status_def size_consts Let_def)
    qed
  qed
qed

lemma parse_management_safe:
  assumes "\<not> m_build s" and "sz \<le> int (length (mem s)) - 52" and "0 \<le> m_left s"
    and na: "\<And>v tid. rd16 52 s = Some v \<Longrightarrow>
      findTlvId (host s) v (implementSpecific (m_prms s)) = Some tid \<Longrightarrow>
      ids_fun (ids ! tid) = NA \<Longrightarrow> m_left s = 2"
  shows "\<exists>err s'. parse_management sz a s = Some (err, s') \<and> mem s' = mem s"
proof (cases "sz < 2")
  case True
  then show ?thesis by (simp add: parse_management_def size_consts)
next
  case False
  then obtain v where r: "rd16 52 s = Some v"
    using assms(2) rd16_in [of 52 s] by auto
  show ?thesis
  proof (cases "findTlvId (host s) v (implementSpecific (m_prms s))")
    case None
    with False r show ?thesis by (simp add: parse_management_def size_consts)
  next
    case (Some tid)
    let ?s3 = "s\<lparr>m_tlv_id := tid, m_left := m_left s - 2, m_cur := 54\<rparr>"
    show ?thesis
    proof (cases "checkReplyAction tid a \<and> 2 < m_left s \<and> even (m_left s) \<and> m_left s \<le> sz")
      case True
      have w: "wf ?s3" "\<not> m_build ?s3" using True assms by (simp_all add: wf_def)
      have "ids_fun (ids ! tid) \<noteq> NA" using na [OF r Some] True by auto
      then obtain err tlv s4 where "call_tlv_data tid None ?s3 = Some (err, tlv, s4)"
          "mem s4 = mem s" "err = MNG_PARSE_ERROR_OK \<Longrightarrow> tlv \<noteq> None"
        using call_tlv_window [OF w(2,1), of tid None] parse_frame_mem [of ?s3] by fastforce
      with False True Some r show ?thesis
        by (cases "err = MNG_PARSE_ERROR_OK")
          (auto simp: parse_management_def size_consts Let_def)
    next
      case no: False
      with False Some r show ?thesis
        by (auto simp: parse_management_def size_consts Let_def)
    qed
  qed
qed

lemma parse_mng_safe:
  assumes "\<not> m_build s" and "msgSize \<le> int (length (mem s))" and "52 \<le> msgSize"
    and "\<not> data_for_empty_id (mem s) s"
  shows "\<exists>err s'. parse_mng msgSize s = Some (err, s') \<and> mem s' = mem s"
proof -
  obtain tt lf where r: "rd16 48 s = Some tt" "rd16 50 s = Some lf"
    using assms(2,3) rd16_in [of 48 s] rd16_in [of 50 s] by auto
  let ?act = "0xf AND (mem s ! 46)"
  let ?s1 = "s\<lparr>m_replyAction := ?act, m_left := int (unat (net_to_cpu16 (host s) lf))\<rparr>"
  have a: "rd8 46 s = Some (mem s ! 46)" using assms(2,3) by (intro rd8_in) simp
  have "\<exists>err s'. parse_error_status (msgSize - 52) ?act ?s1 = Some (err, s') \<and> mem s' = mem ?s1"
    using assms(1,2) by (intro parse_error_status_safe) simp_all
  moreover have "\<exists>err s'. parse_management (msgSize - 52) ?act ?s1 = Some (err, s') \<and> mem s' = mem ?s1"
  proof (rule parse_management_safe)
    fix v tid
    assume "rd16 52 ?s1 = Some v" "findTlvId (host ?s1) v (implementSpecific (m_prms ?s1)) = Some tid"
      "ids_fun (ids ! tid) = NA"
    then have "net_to_cpu16 (host s) lf = 2"
      using assms(4) r by (simp add: data_for_empty_id_def)
    then show "m_left ?s1 = 2" by simp
  qed (use assms in simp_all)
  ultimately show ?thesis
    using r a by (auto simp: parse_mng_def size_consts Let_def simp del: of_nat_unat)
qed

lemma check_type_total:
  assumes "44 \<le> length (mem s)"
  shows "\<exists>chk. check_type msgSize s = Some chk \<and>
    (chk = None \<longrightarrow> m_type s = Signaling \<and> rcvSignaling (m_prms s) \<or>
      m_type s = Management \<and> 52 \<le> msgSize)"
  using rd8_in [of 32 s] assms by (auto simp: check_type_def size_consts)

lemma parse_ids_total:
  assumes "44 \<le> length (mem s)"
  shows "\<exists>s'. parse_ids s = Some s' \<and> mem s' = mem s \<and> \<not> m_build s' \<and> m_prms s' = m_prms s \<and>
    host s' = host s \<and> m_type s' = m_type s"
proof -
  have "rd8 off s = Some (mem s ! off)" if "off < 44" for off
    using rd8_in [of off s] assms that by simp
  moreover obtain q p t a b where "rd16 30 s = Some q" "rd16 28 s = Some p" "rd16 42 s = Some t"
      "peek 20 8 (mem s) = Some a" "peek 34 8 (mem s) = Some b"
    using assms rd16_in [of 30 s] rd16_in [of 28 s] rd16_in [of 42 s] peek_in [of 20 8 "mem s"]
      peek_in [of 34 8 "mem s"] by auto
  ultimately show ?thesis by (simp add: parse_ids_def)
qed

lemma parse_safe_aux:
  assumes "msgSize \<le> int (length buf)"
    and sig: "rcvSignaling (m_prms s) \<Longrightarrow> \<forall>type. admits (m_prms s) type \<longrightarrow> safe_sig type"
    and na: "\<not> data_for_empty_id buf s"
  shows "\<exists>err s'. parse buf msgSize s = Some (err, s') \<and> mem s' = buf"
proof (cases "msgSize < 44")
  case True
  then show ?thesis by (simp add: parse_def size_consts)
next
  case False
  let ?s1 = "s\<lparr>mem := buf, m_type := (buf ! 0) AND 0xf\<rparr>"
  let ?s2 = "?s1\<lparr>m_versionPTP := (buf ! 1) AND 0xf, m_minorVersionPTP := drop_bit 4 (buf ! 1)\<rparr>"
  have len: "44 \<le> length (mem ?s1)" "44 \<le> length (mem ?s2)" using False assms(1) by simp_all
  have "buf \<noteq> []" using len by auto
  then have r: "rd8 0 (s\<lparr>mem := buf\<rparr>) = Some (buf ! 0)" "rd8 1 ?s1 = Some (buf ! 1)"
      "rd8 33 ?s1 = Some (buf ! 33)"
    using rd8_in [of 0 "s\<lparr>mem := buf\<rparr>"] rd8_in [of 1 ?s1] rd8_in [of 33 ?s1] len
    by simp_all
  obtain chk where chk: "check_type msgSize ?s1 = Some chk"
      "chk = None \<Longrightarrow> m_type ?s1 = Signaling \<and> rcvSignaling (m_prms s) \<or>
         m_type ?s1 = Management \<and> 52 \<le> msgSize"
    using check_type_total [OF len(1), of msgSize] by auto
  obtain s3 where s3: "parse_ids ?s2 = Some s3" "mem s3 = buf" "\<not> m_build s3"
      "m_prms s3 = m_prms s" "host s3 = host s" "m_type s3 = m_type ?s1"
    using parse_ids_total [OF len(2)] by auto
  let ?s4 = "s3\<lparr>m_cur := 44, m_size := nat (msgSize - 44)\<rparr>"
  have "\<exists>err s'. parseSig ?s4 = Some (err, s') \<and> mem s' = buf" if "rcvSignaling (m_prms s)"
    unfolding parseSig_def using parseSig_loop_safe [of "?s4\<lparr>m_sigTlvs := []\<rparr>"] s3 sig [OF that]
      False assms(1) by simp
  moreover have "\<exists>err s'. parse_mng msgSize s3 = Some (err, s') \<and> mem s' = buf" if "52 \<le> msgSize"
    using parse_mng_safe [of s3 msgSize] s3 that assms(1) na
    by (simp add: data_for_empty_id_def rd16_def cong: option.case_cong)
  ultimately show ?thesis
    using False r chk s3 by (cases chk) (auto simp: parse_def size_consts Let_def)
qed

end
