(* ===== verification/SigParse.thy ===== *)
theory SigParse
  imports MsgParse
begin

text \<open>
  \<^verbatim>\<open>Message::parseSig\<close> on a sequence of well-formed signaling TLVs: a reference encoding of
  each TLV, the switch that parses it back, and the loop, whose vector is that of inserting the
  parsed TLVs one by one.
\<close>

section \<open>Reference encoding of signaling TLVs\<close>

primrec sig_type :: "BaseSigTlv \<Rightarrow> tlvType_e" where
  "sig_type (SIG_MANAGEMENT tid t) = MANAGEMENT"
| "sig_type (SIG_ORGANIZATION_EXTENSION d) = ORGANIZATION_EXTENSION"
| "sig_type (SIG_PATH_TRACE d) = PATH_TRACE"
| "sig_type (SIG_ALTERNATE_TIME_OFFSET_INDICATOR d) = ALTERNATE_TIME_OFFSET_INDICATOR"
| "sig_type (SIG_ENHANCED_ACCURACY_METRICS d) = ENHANCED_ACCURACY_METRICS"
| "sig_type (SIG_L1_SYNC d) = L1_SYNC"
| "sig_type (SIG_PORT_COMMUNICATION_AVAILABILITY d) = PORT_COMMUNICATION_AVAILABILITY"
| "sig_type (SIG_PROTOCOL_ADDRESS d) = PROTOCOL_ADDRESS"
| "sig_type (SIG_SLAVE_RX_SYNC_TIMING_DATA d) = SLAVE_RX_SYNC_TIMING_DATA"
| "sig_type (SIG_SLAVE_RX_SYNC_COMPUTED_DATA d) = SLAVE_RX_SYNC_COMPUTED_DATA"
| "sig_type (SIG_SLAVE_TX_EVENT_TIMESTAMPS d) = SLAVE_TX_EVENT_TIMESTAMPS"
| "sig_type (SIG_CUMULATIVE_RATE_RATIO d) = CUMULATIVE_RATE_RATIO"
| "sig_type (SIG_SLAVE_DELAY_TIMING_DATA_NP d) = SLAVE_DELAY_TIMING_DATA_NP"

primrec ok_sig :: "implementSpecific_e \<Rightarrow> BaseSigTlv \<Rightarrow> bool" where
  "ok_sig spec (SIG_MANAGEMENT tid t) = (tid = tlv_type t \<and> ok_tlv t \<and> enc_tlv t \<noteq> [] \<and>
     (spec = linuxptp \<or> \<not> uses_linuxptp tid))"
| "ok_sig spec (SIG_ORGANIZATION_EXTENSION d) = ok_ORGANIZATION_EXTENSION d"
| "ok_sig spec (SIG_PATH_TRACE d) = ok_PATH_TRACE d"
| "ok_sig spec (SIG_ALTERNATE_TIME_OFFSET_INDICATOR d) = ok_ALTERNATE_TIME_OFFSET_INDICATOR d"
| "ok_sig spec (SIG_ENHANCED_ACCURACY_METRICS d) = False"
| "ok_sig spec (SIG_L1_SYNC d) = True"
| "ok_sig spec (SIG_PORT_COMMUNICATION_AVAILABILITY d) = True"
| "ok_sig spec (SIG_PROTOCOL_ADDRESS d) = ok_PROTOCOL_ADDRESS d"
| "ok_sig spec (SIG_SLAVE_RX_SYNC_TIMING_DATA d) = ok_SLAVE_RX_SYNC_TIMING_DATA d"
| "ok_sig spec (SIG_SLAVE_RX_SYNC_COMPUTED_DATA d) = ok_SLAVE_RX_SYNC_COMPUTED_DATA d"
| "ok_sig spec (SIG_SLAVE_TX_EVENT_TIMESTAMPS d) = ok_SLAVE_TX_EVENT_TIMESTAMPS d"
| "ok_sig spec (SIG_CUMULATIVE_RATE_RATIO d) = True"
| "ok_sig spec (SIG_SLAVE_DELAY_TIMING_DATA_NP d) = (spec = linuxptp \<and> ok_SLAVE_DELAY_TIMING_DATA_NP d)"

primrec norm_sig :: "BaseSigTlv \<Rightarrow> BaseSigTlv" where
  "norm_sig (SIG_MANAGEMENT tid t) = SIG_MANAGEMENT tid (norm_tlv t)"
| "norm_sig (SIG_ORGANIZATION_EXTENSION d) = SIG_ORGANIZATION_EXTENSION d"
| "norm_sig (SIG_PATH_TRACE d) = SIG_PATH_TRACE d"
| "norm_sig (SIG_ALTERNATE_TIME_OFFSET_INDICATOR d) = SIG_ALTERNATE_TIME_OFFSET_INDICATOR (norm_ALTERNATE_TIME_OFFSET_INDICATOR d)"
| "norm_sig (SIG_ENHANCED_ACCURACY_METRICS d) = SIG_ENHANCED_ACCURACY_METRICS d"
| "norm_sig (SIG_L1_SYNC d) = SIG_L1_SYNC (norm_L1_SYNC d)"
| "norm_sig (SIG_PORT_COMMUNICATION_AVAILABILITY d) = SIG_PORT_COMMUNICATION_AVAILABILITY (norm_PORT_COMMUNICATION_AVAILABILITY d)"
| "norm_sig (SIG_PROTOCOL_ADDRESS d) = SIG_PROTOCOL_ADDRESS (norm_PROTOCOL_ADDRESS d)"
| "norm_sig (SIG_SLAVE_RX_SYNC_TIMING_DATA d) = SIG_SLAVE_RX_SYNC_TIMING_DATA d"
| "norm_sig (SIG_SLAVE_RX_SYNC_COMPUTED_DATA d) = SIG_SLAVE_RX_SYNC_COMPUTED_DATA (norm_SLAVE_RX_SYNC_COMPUTED_DATA d)"
| "norm_sig (SIG_SLAVE_TX_EVENT_TIMESTAMPS d) = SIG_SLAVE_TX_EVENT_TIMESTAMPS d"
| "norm_sig (SIG_CUMULATIVE_RATE_RATIO d) = SIG_CUMULATIVE_RATE_RATIO d"
| "norm_sig (SIG_SLAVE_DELAY_TIMING_DATA_NP d) = SIG_SLAVE_DELAY_TIMING_DATA_NP d"

primrec enc_sig :: "BaseSigTlv \<Rightarrow> byte list" where
  "enc_sig (SIG_MANAGEMENT tid t) = bytes_be 2 (ids_value (ids ! tid)) @ enc_tlv t"
| "enc_sig (SIG_ORGANIZATION_EXTENSION d) = enc_ORGANIZATION_EXTENSION d"
| "enc_sig (SIG_PATH_TRACE d) = enc_PATH_TRACE d"
| "enc_sig (SIG_ALTERNATE_TIME_OFFSET_INDICATOR d) = enc_ALTERNATE_TIME_OFFSET_INDICATOR d"
| "enc_sig (SIG_ENHANCED_ACCURACY_METRICS d) = []"
| "enc_sig (SIG_L1_SYNC d) = enc_L1_SYNC d"
| "enc_sig (SIG_PORT_COMMUNICATION_AVAILABILITY d) = enc_PORT_COMMUNICATION_AVAILABILITY d"
| "enc_sig (SIG_PROTOCOL_ADDRESS d) = enc_PROTOCOL_ADDRESS d"
| "enc_sig (SIG_SLAVE_RX_SYNC_TIMING_DATA d) = enc_SLAVE_RX_SYNC_TIMING_DATA d"
| "enc_sig (SIG_SLAVE_RX_SYNC_COMPUTED_DATA d) = enc_SLAVE_RX_SYNC_COMPUTED_DATA d"
| "enc_sig (SIG_SLAVE_TX_EVENT_TIMESTAMPS d) = enc_SLAVE_TX_EVENT_TIMESTAMPS d"
| "enc_sig (SIG_CUMULATIVE_RATE_RATIO d) = enc_CUMULATIVE_RATE_RATIO d"
| "enc_sig (SIG_SLAVE_DELAY_TIMING_DATA_NP d) = enc_SLAVE_DELAY_TIMING_DATA_NP d"

definition enc_sig_tlv :: "BaseSigTlv \<Rightarrow> byte list" where
  "enc_sig_tlv t = bytes_be 2 (sig_type t) @ bytes_be 2 (word_of_nat (length (enc_sig t)) :: u16) @
     enc_sig t"

definition parses_to :: "'z mst_scheme \<Rightarrow> nat \<Rightarrow> BaseSigTlv \<Rightarrow>
    ((MNG_PARSE_ERROR_e + BaseSigTlv option) \<times> 'z mst_scheme) option \<Rightarrow> bool" where
  "parses_to s n t r \<longleftrightarrow> (\<exists>s'. r = Some (Inr (Some t), s') \<and> mem s' = mem s \<and> host s' = host s \<and>
     m_build s' = m_build s \<and> mst.more s' = mst.more s \<and> m_cur s' = m_cur s + n \<and> m_left s' = 0)"

lemma caseBuildAct_parse:
  assumes c: "wire_codec f ok enc (\<lambda>x _. nrm x) (exact new)"
    and "\<not> m_build s" "wf s" "ok d" "starts_with s (enc d)" "m_left s = int (length (enc d))"
  shows "parses_to s (length (enc d)) (con (nrm d)) (caseBuildAct con f new s)"
proof -
  obtain r where "f new s = Some (False, nrm d, (move (length (enc d)) s)\<lparr>reserved := r\<rparr>)"
    using wire_codec.parse_back [OF c, of s d new] assms by auto
  then show ?thesis using assms(6) by (auto simp: parses_to_def caseBuildAct_def)
qed

lemma rd16_starts:
  assumes "starts_with s (bytes_be 2 x @ bs)" "wf s"
  shows "\<exists>v. rd16 (m_cur s) s = Some v \<and> net_to_cpu16 (host s) v = (x :: u16)"
proof -
  have "starts_with s (bytes_be 2 x)" using assms(1) by (rule starts_with_append)
  then have "take 2 (drop (m_cur s) (mem s)) = bytes_be 2 x" "2 \<le> m_left s"
    by (simp_all add: starts_with_def)
  moreover have "m_cur s + 2 \<le> length (mem s)"
    using assms(2) calculation(2) by (intro wf_room) simp_all
  ultimately show ?thesis by (simp add: rd16_def peek_def bytes_be_2)
qed

lemma sig_management_parse:
  assumes "\<not> m_build s" "wf s" "ok_sig spec (SIG_MANAGEMENT tid t)"
    and "starts_with s (enc_sig (SIG_MANAGEMENT tid t))"
    and "m_left s = int (length (enc_sig (SIG_MANAGEMENT tid t)))"
  shows "parses_to s (length (enc_sig (SIG_MANAGEMENT tid t))) (SIG_MANAGEMENT tid (norm_tlv t))
    (sig_management spec s)"
proof -
  obtain v where v: "rd16 (m_cur s) s = Some v" "net_to_cpu16 (host s) v = ids_value (ids ! tid)"
    using rd16_starts [of s "ids_value (ids ! tid)" "enc_tlv t"] assms(2,4) by auto
  have f: "findTlvId (host s) v spec = Some tid"
    using v(2) assms(3) by (intro findTlvId_of_type) auto
  let ?s1 = "s\<lparr>m_cur := m_cur s + 2, m_left := m_left s - 2\<rparr>"
  have "starts_with ?s1 (enc_tlv t)" "wf ?s1"
    using starts_with_append(2) [of s "bytes_be 2 (ids_value (ids ! tid))" "enc_tlv t"] assms(2,4,5)
    by (simp_all add: starts_with_def wf_def)
  then obtain r where "call_tlv_data tid None ?s1 = Some (MNG_PARSE_ERROR_OK, Some (norm_tlv t),
      (move (length (enc_tlv t)) (?s1\<lparr>m_err := MNG_PARSE_ERROR_TOO_SMALL\<rparr>))\<lparr>reserved := r\<rparr>)"
    using call_tlv_parse [of ?s1 t None] assms(1,3,5) by auto
  then show ?thesis
    using v(1) f assms(3,5) by (auto simp: sig_management_def parses_to_def Let_def)
qed

lemmas codec_sig_tlvs =
  codec_ORGANIZATION_EXTENSION
  codec_PATH_TRACE
  codec_ALTERNATE_TIME_OFFSET_INDICATOR
  codec_L1_SYNC
  codec_PORT_COMMUNICATION_AVAILABILITY
  codec_PROTOCOL_ADDRESS
  codec_SLAVE_RX_SYNC_TIMING_DATA
  codec_SLAVE_RX_SYNC_COMPUTED_DATA
  codec_SLAVE_TX_EVENT_TIMESTAMPS
  codec_CUMULATIVE_RATE_RATIO
  codec_SLAVE_DELAY_TIMING_DATA_NP

lemma sig_switch_parse:
  assumes "\<not> m_build s" "wf s" "ok_sig spec t" "starts_with s (enc_sig t)"
    and "m_left s = int (length (enc_sig t))"
  shows "parses_to s (length (enc_sig t)) (norm_sig t) (sig_switch spec (sig_type t) s)"
proof (cases "\<exists>tid x. t = SIG_MANAGEMENT tid x")
  case True
  then obtain tid x where t: "t = SIG_MANAGEMENT tid x" by blast
  then have "sig_switch spec (sig_type t) s = sig_management spec s" by (simp add: sig_switch_def)
  then show ?thesis using assms sig_management_parse [of s spec tid x] t by auto
next
  case False
  with assms show ?thesis
    by (cases t) (simp_all add: sig_switch_def codec_sig_tlvs [THEN caseBuildAct_parse])
qed

text \<open>What one round keeps of the message, and the vector it works on.\<close>

definition sig_frame :: "Message \<Rightarrow> Message \<Rightarrow> bool" where
  "sig_frame s s' \<longleftrightarrow> mem s' = mem s \<and> host s' = host s \<and> m_build s' = m_build s \<and>
     m_prms s' = m_prms s \<and> sig_grow s' = sig_grow s \<and> m_type s' = m_type s"

lemma sig_step_parse:
  assumes "\<not> m_build s" "ok_sig (implementSpecific (m_prms s)) t" "admits (m_prms s) (sig_type t)"
    and "length (enc_sig t) < 65536"
    and pos: "take (length (enc_sig_tlv t)) (drop (m_cur s) (mem s)) = enc_sig_tlv t"
    and left: "int (length (enc_sig_tlv t)) \<le> leftAll"
    and room: "int (m_cur s) + leftAll \<le> int (length (mem s))"
  shows "\<exists>s'. sig_step leftAll s = Some (Inr (leftAll - int (length (enc_sig_tlv t))), s') \<and>
    sig_frame s s' \<and> m_cur s' = m_cur s + length (enc_sig_tlv t) \<and>
    m_sigTlvs s' = m_sigTlvs (sig_insert (sig_type t) (norm_sig t) s) \<and>
    m_sigCap s' = m_sigCap (sig_insert (sig_type t) (norm_sig t) s)"
proof -
  let ?n = "length (enc_sig t)"
  have n: "length (enc_sig_tlv t) = 4 + ?n" by (simp add: enc_sig_tlv_def)
  let ?s = "s\<lparr>m_left := leftAll\<rparr>"
  have "starts_with ?s (enc_sig_tlv t)" "wf ?s"
    using pos left room n by (simp_all add: starts_with_def wf_def)
  then obtain tt where tt: "rd16 (m_cur s) s = Some tt" "net_to_cpu16 (host s) tt = sig_type t"
    using rd16_starts [of ?s "sig_type t"] by (auto simp: enc_sig_tlv_def)
  let ?sm = "(move 2 ?s)\<lparr>reserved := 0\<rparr>"
  have "starts_with ?sm (bytes_be 2 (word_of_nat ?n :: u16) @ enc_sig t)" "wf ?sm"
    using \<open>starts_with ?s (enc_sig_tlv t)\<close> \<open>wf ?s\<close> left n
      starts_with_append(2) [of ?s "bytes_be 2 (sig_type t)"]
    by (auto simp: enc_sig_tlv_def intro: wf_move)
  then obtain lf where lf: "rd16 (m_cur s + 2) s = Some lf"
      "net_to_cpu16 (host s) lf = word_of_nat ?n"
    using rd16_starts [of ?sm "word_of_nat ?n" "enc_sig t"] by (auto simp: rd16_def)
  let ?s1 = "s\<lparr>m_cur := m_cur s + 4, m_left := int ?n, m_err := MNG_PARSE_ERROR_TOO_SMALL\<rparr>"
  have "starts_with ?s1 (enc_sig t)" "wf ?s1" "\<not> m_build ?s1"
    using \<open>starts_with ?sm (bytes_be 2 (word_of_nat ?n :: u16) @ enc_sig t)\<close> assms(1) left room n
      starts_with_append(2) [of ?sm "bytes_be 2 (word_of_nat ?n :: u16)" "enc_sig t" 0]
    by (auto simp: starts_with_def wf_def add.assoc)
  then have "parses_to ?s1 ?n (norm_sig t) (sig_switch (implementSpecific (m_prms s)) (sig_type t) ?s1)"
    using assms(2) by (intro sig_switch_parse) simp_all
  then obtain s2 where sw: "sig_switch (implementSpecific (m_prms s)) (sig_type t) ?s1 =
      Some (Inr (Some (norm_sig t)), s2)" and s2: "mem s2 = mem s" "host s2 = host s" "\<not> m_build s2"
      "mst.more s2 = mst.more s" "m_cur s2 = m_cur s + 4 + ?n" "m_left s2 = 0"
    using assms(1) by (auto simp: parses_to_def)
  from s2(4) have more: "m_prms s2 = m_prms s" "sig_grow s2 = sig_grow s" "m_type s2 = m_type s"
      "m_sigTlvs s2 = m_sigTlvs s" "m_sigCap s2 = m_sigCap s"
    by (cases s; cases s2; simp)+
  have "uint (word_of_nat ?n :: u16) = int ?n" "unat (word_of_nat ?n :: u16) = ?n"
    using assms(4) by simp_all
  then show ?thesis
    using assms(1,3) tt lf sw s2 more left n
    by (auto simp: sig_step_def Let_def tlvSize_def admits_def sig_frame_def sig_insert_def)
qed


definition sig_inserts :: "BaseSigTlv list \<Rightarrow> Message \<Rightarrow> Message" where
  "sig_inserts ts s = fold (\<lambda>t. sig_insert (sig_type t) (norm_sig t)) ts s"

lemma sig_insert_cong:
  assumes "m_sigTlvs s' = m_sigTlvs s" "m_sigCap s' = m_sigCap s" "sig_grow s' = sig_grow s"
  shows "m_sigTlvs (sig_insert type t s') = m_sigTlvs (sig_insert type t s) \<and>
    m_sigCap (sig_insert type t s') = m_sigCap (sig_insert type t s) \<and>
    sig_grow (sig_insert type t s') = sig_grow (sig_insert type t s)"
  using assms by (simp add: sig_insert_def Let_def)

lemma sig_grow_insert [simp]: "sig_grow (sig_insert type t s) = sig_grow s"
  by (simp add: sig_insert_def Let_def)

lemma sig_inserts_cong:
  "m_sigTlvs s' = m_sigTlvs s \<Longrightarrow> m_sigCap s' = m_sigCap s \<Longrightarrow> sig_grow s' = sig_grow s \<Longrightarrow>
   m_sigTlvs (sig_inserts ts s') = m_sigTlvs (sig_inserts ts s)"
proof (induction ts arbitrary: s s')
  case (Cons t ts)
  note c = sig_insert_cong [OF Cons.prems, of "sig_type t" "norm_sig t"]
  show ?case
    using Cons.IH [OF c [THEN conjunct1] c [THEN conjunct2, THEN conjunct1]
        c [THEN conjunct2, THEN conjunct2]]
    by (simp add: sig_inserts_def)
qed (simp add: sig_inserts_def)

lemma parseSig_loop_parse:
  assumes "\<not> m_build s"
    and "list_all (\<lambda>t. ok_sig (implementSpecific (m_prms s)) t \<and> admits (m_prms s) (sig_type t) \<and>
      length (enc_sig t) < 65536) ts"
    and "take (length (concat (map enc_sig_tlv ts))) (drop (m_cur s) (mem s)) = concat (map enc_sig_tlv ts)"
    and "m_cur s + length (concat (map enc_sig_tlv ts)) \<le> length (mem s)"
  shows "\<exists>s'. parseSig_loop (int (length (concat (map enc_sig_tlv ts)))) s = Some (MNG_PARSE_ERROR_SIG, s') \<and>
    m_sigTlvs s' = m_sigTlvs (sig_inserts ts s) \<and> sig_frame s s'"
  using assms
proof (induction ts arbitrary: s)
  case Nil
  then show ?case by (simp add: tlvSize_def sig_inserts_def sig_frame_def)
next
  case (Cons t ts)
  let ?n = "length (enc_sig_tlv t)" and ?m = "length (concat (map enc_sig_tlv ts))"
  have n: "4 \<le> ?n" by (simp add: enc_sig_tlv_def)
  have split: "take (?n + ?m) (drop (m_cur s) (mem s)) = enc_sig_tlv t @ concat (map enc_sig_tlv ts)"
    using Cons.prems(3) by simp
  have "take ?n (take (?n + ?m) (drop (m_cur s) (mem s))) = enc_sig_tlv t"
    and "drop ?n (take (?n + ?m) (drop (m_cur s) (mem s))) = concat (map enc_sig_tlv ts)"
    unfolding split by simp_all
  then have pos: "take ?n (drop (m_cur s) (mem s)) = enc_sig_tlv t"
    and pos': "take ?m (drop (m_cur s + ?n) (mem s)) = concat (map enc_sig_tlv ts)"
    by (simp_all add: drop_take add.commute)
  obtain s1 where s1: "sig_step (int ?n + int ?m) s = Some (Inr (int ?m), s1)" "sig_frame s s1"
      "m_cur s1 = m_cur s + ?n" "m_sigTlvs s1 = m_sigTlvs (sig_insert (sig_type t) (norm_sig t) s)"
      "m_sigCap s1 = m_sigCap (sig_insert (sig_type t) (norm_sig t) s)"
    using sig_step_parse [of s t "int ?n + int ?m"] Cons.prems pos by auto
  obtain s' where s': "parseSig_loop (int ?m) s1 = Some (MNG_PARSE_ERROR_SIG, s')"
      "m_sigTlvs s' = m_sigTlvs (sig_inserts ts s1)" "sig_frame s1 s'"
    using Cons.IH [of s1] Cons.prems s1(2,3) pos' by (auto simp: sig_frame_def)
  have "m_sigTlvs (sig_inserts ts s1) = m_sigTlvs (sig_inserts (t # ts) s)"
    using sig_inserts_cong [of s1 "sig_insert (sig_type t) (norm_sig t) s" ts] s1(2,4,5)
    by (simp add: sig_inserts_def sig_frame_def)
  with s1(1,2) s' n show ?case
    by (auto simp: tlvSize_def sig_frame_def)
qed

lemma map_tlvType_sig_insert:
  "map tlvType (m_sigTlvs (sig_insert type t s)) = map tlvType (m_sigTlvs s) @ [type]"
  by (simp add: sig_insert_def Let_def copy_sigTlv_def comp_def)

lemma map_tlvType_sig_inserts:
  "map tlvType (m_sigTlvs (sig_inserts ts s)) = map tlvType (m_sigTlvs s) @ map sig_type ts"
proof (induction ts arbitrary: s)
  case (Cons t ts)
  then show ?case by (simp add: sig_inserts_def map_tlvType_sig_insert)
qed (simp add: sig_inserts_def)

text \<open>Without reallocation the vector holds every TLV.\<close>

lemma sig_inserts_room:
  assumes "length (m_sigTlvs s) + length ts \<le> m_sigCap s"
  shows "m_sigTlvs (sig_inserts ts s) =
    m_sigTlvs s @ map (\<lambda>t. \<lparr>tlvType = sig_type t, tlv_ptr = Some (norm_sig t)\<rparr>) ts"
  using assms
proof (induction ts arbitrary: s)
  case (Cons t ts)
  let ?s = "sig_insert (sig_type t) (norm_sig t) s"
  have "m_sigTlvs ?s = m_sigTlvs s @ [\<lparr>tlvType = sig_type t, tlv_ptr = Some (norm_sig t)\<rparr>]"
      "m_sigCap ?s = m_sigCap s"
    using Cons.prems by (simp_all add: sig_insert_def Let_def copy_sigTlv_def)
  with Cons.IH [of ?s] Cons.prems show ?case by (simp add: sig_inserts_def)
qed (simp add: sig_inserts_def)

end
