(* ===== verification/Framing.thy ===== *)
theory Framing
  imports SigParse
begin

text \<open>
  What every \<open>proc\<close> leaves alone, in both directions and on every input: the members of the
  message outside the engine, the direction, the machine, and the size of the memory block. This
  holds without any assumption on the window, so it also covers
  \<^verbatim>\<open>ENHANCED_ACCURACY_METRICS\<close>.
\<close>

definition frame :: "'z mst_scheme \<Rightarrow> 'z mst_scheme \<Rightarrow> bool" where
  "frame s s' \<longleftrightarrow> mst.more s' = mst.more s \<and> host s' = host s \<and> m_build s' = m_build s \<and>
     length (mem s') = length (mem s)"

locale framing =
  fixes p :: "('d, 'z) proc"
  assumes keeps: "p d s = Some (e, d', s') \<Longrightarrow> frame s s'"

lemma frame_refl [simp]: "frame s s"
  by (simp add: frame_def)

lemma frame_trans: "frame s t \<Longrightarrow> frame t u \<Longrightarrow> frame s u"
  by (simp add: frame_def)

lemma frame_simps [simp]:
  "frame s (move n s') = frame s s'" "frame s (s'\<lparr>reserved := r\<rparr>) = frame s s'"
  "frame s (s'\<lparr>m_err := x\<rparr>) = frame s s'"
  by (simp_all add: frame_def)

lemma frame_put: "put_bytes bs s = Some s' \<Longrightarrow> frame s s'"
  by (auto simp: put_bytes_def poke_def frame_def split: if_splits)

lemma framing_procs_Nil [frame_rules]: "framing (procs [])"
  by unfold_locales simp

lemma framing_procs_Cons [frame_rules]:
  assumes "framing p" "framing (procs ps)"
  shows "framing (procs (p # ps))"
proof (unfold_locales, goal_cases)
  case (1 d s e d' s')
  then show ?case
    using framing.keeps [OF assms(1)] framing.keeps [OF assms(2)]
    by (auto split: option.splits bool.splits) (blast intro: frame_trans)
qed

lemma framing_field_dep [frame_rules]:
  "(\<And>n. framing (p n)) \<Longrightarrow> framing (\<lambda>d s. field get upd (p (len d s)) d s)"
  by unfold_locales (auto simp: field_def framing_def split: option.splits)

lemma framing_field_val [frame_rules]:
  "(\<And>n. framing (p n)) \<Longrightarrow> framing (\<lambda>d. field get upd (p (len d)) d)"
  by unfold_locales (auto simp: field_def framing_def split: option.splits)

lemma framing_field [frame_rules]: "framing p \<Longrightarrow> framing (field get upd p)"
  by unfold_locales (auto simp: field_def framing_def split: option.splits)

lemma framing_assign [frame_rules]: "framing (assign f)"
  by unfold_locales (simp add: assign_def)

lemma framing_scalar: "framing (proc_scalar n wr rd)"
  by unfold_locales (auto simp: proc_scalar_def dest: frame_put split: if_splits bind_splits)

lemma framing_scalars [frame_rules]:
  "framing proc_u8" "framing proc_u16" "framing proc_u32" "framing proc_u64"
  "framing proc_i8" "framing proc_i16" "framing proc_i32" "framing proc_i64" "framing procLe"
  unfolding proc_u8_def proc_u16_def proc_u32_def proc_u64_def procLe_def
    proc_i8_def proc_i16_def proc_i32_def proc_i64_def
  by (rule framing_scalar)+

lemma framing_enums [frame_rules]:
  "framing proc_networkProtocol" "framing proc_clockAccuracy" "framing proc_faultRecord"
  "framing proc_timeSource" "framing proc_portState" "framing proc_msgType"
  "framing proc_linuxptpTimeStamp"
  unfolding enum_procs by (rule frame_rules)+

lemma framing_reserved [frame_rules]: "framing proc_reserved"
  using framing.keeps [OF framing_scalars(1)]
  by unfold_locales (auto simp: proc_reserved_def split: option.splits)

lemma framing_flags [frame_rules]: "framing (procFlags m)"
  using framing.keeps [OF framing_scalars(1)] by unfold_locales (simp add: procFlags_def)

lemma framing_high_low: "framing proc_high_low"
  unfolding proc_high_low_def by (rule frame_rules)+

lemma framing_proc48 [frame_rules]: "framing proc48_u64"
  using framing.keeps [OF framing_high_low]
  by unfold_locales (auto simp: proc48_u64_def Let_def split: option.splits bool.splits if_splits)

lemma framing_float64 [frame_rules]: "framing proc_float64"
  using framing.keeps [OF framing_scalars(4)] framing.keeps [OF framing_scalar]
  by unfold_locales
    (auto simp: proc_float64_def split: option.splits bool.splits if_splits byte_order.splits)

lemma framing_string [frame_rules]: "framing (proc_string n)"
  by unfold_locales (auto simp: proc_string_def Let_def dest: frame_put split: if_splits bind_splits)

lemma framing_binary [frame_rules]: "framing (proc_binary n)"
  by unfold_locales (auto simp: proc_binary_def Let_def dest: frame_put split: if_splits bind_splits)

lemma framing_octets [frame_rules]: "framing (proc_octets n)"
  by unfold_locales (auto simp: proc_octets_def dest: frame_put split: if_splits bind_splits)

lemma framing_FaultRecord_check [frame_rules]: "framing FaultRecord_check"
  by unfold_locales (auto simp: FaultRecord_check_def split: if_splits)

lemma framing_structs [frame_rules]:
  "framing proc_TimeInterval" "framing proc_Timestamp" "framing proc_ClockIdentity"
  "framing proc_PortIdentity" "framing proc_PortAddress" "framing proc_ClockQuality"
  "framing proc_PTPText" "framing proc_AcceptableMaster"
  unfolding proc_TimeInterval_def proc_Timestamp_def proc_ClockIdentity_def
    proc_PortIdentity_def proc_PortAddress_def proc_ClockQuality_def proc_PTPText_def
    proc_AcceptableMaster_def
  by (rule frame_rules)+

lemma framing_FaultRecord [frame_rules]: "framing proc_FaultRecord"
  unfolding proc_FaultRecord_def by (rule frame_rules)+

lemma framing_array [frame_rules]: "framing p \<Longrightarrow> framing (proc_array is p)"
  unfolding proc_array_eq by (induction "is") (auto intro: frame_rules)

lemma framing_vec_build:
  assumes "framing p"
  shows "vec_build p vec s = Some (e, vec', s') \<Longrightarrow> frame s s'"
proof (induction vec arbitrary: s vec' s')
  case (Cons x vec)
  then show ?case
    using framing.keeps [OF assms]
    by (auto split: option.splits bool.splits) (blast intro: frame_trans)
qed simp

lemma framing_vec_count:
  assumes "framing p"
  shows "vec_count n p new vec s = Some (e, vec', s') \<Longrightarrow> frame s s'"
proof (induction n arbitrary: s vec)
  case (Suc n)
  then show ?case
    using framing.keeps [OF assms]
    by (auto split: option.splits bool.splits) (blast intro: frame_trans)
qed simp

lemma framing_vec_rest:
  assumes "framing p"
  shows "vec_rest fuel sz p new vec s = Some (e, vec', s') \<Longrightarrow> frame s s'"
proof (induction fuel arbitrary: s vec)
  case (Suc n)
  then show ?case
    using framing.keeps [OF assms]
    by (auto split: option.splits bool.splits if_splits) (blast intro: frame_trans)
qed simp

lemma framing_vector_f [frame_rules]: "framing p \<Longrightarrow> framing (vector_f get upd cnt p new)"
  by unfold_locales (auto simp: vector_f_def field_def dest: framing_vec_build framing_vec_count
      split: option.splits if_splits)

lemma framing_vector_o [frame_rules]: "framing p \<Longrightarrow> framing (vector_o get upd sz p new)"
  by unfold_locales (auto simp: vector_o_def field_def simp del: vec_rest.simps
      dest: framing_vec_build framing_vec_rest split: option.splits if_splits)

section \<open>The TLVs\<close>

lemma framing_SLAVE_RX_SYNC_TIMING_DATA_rec [frame_rules]: "framing proc_SLAVE_RX_SYNC_TIMING_DATA_rec"
  unfolding proc_SLAVE_RX_SYNC_TIMING_DATA_rec_def by (rule frame_rules)+

lemma framing_SLAVE_RX_SYNC_COMPUTED_DATA_rec [frame_rules]: "framing proc_SLAVE_RX_SYNC_COMPUTED_DATA_rec"
  unfolding proc_SLAVE_RX_SYNC_COMPUTED_DATA_rec_def by (rule frame_rules)+

lemma framing_SLAVE_TX_EVENT_TIMESTAMPS_rec [frame_rules]: "framing proc_SLAVE_TX_EVENT_TIMESTAMPS_rec"
  unfolding proc_SLAVE_TX_EVENT_TIMESTAMPS_rec_def by (rule frame_rules)+

lemma framing_SLAVE_DELAY_TIMING_DATA_NP_rec [frame_rules]: "framing proc_SLAVE_DELAY_TIMING_DATA_NP_rec"
  unfolding proc_SLAVE_DELAY_TIMING_DATA_NP_rec_def by (rule frame_rules)+

lemma framing_ORGANIZATION_EXTENSION: "framing ORGANIZATION_EXTENSION_f"
  unfolding ORGANIZATION_EXTENSION_f_def by (rule frame_rules)+

lemma framing_PATH_TRACE: "framing PATH_TRACE_f"
  unfolding PATH_TRACE_f_def by (rule frame_rules)+

lemma framing_ALTERNATE_TIME_OFFSET_INDICATOR: "framing ALTERNATE_TIME_OFFSET_INDICATOR_f"
  unfolding ALTERNATE_TIME_OFFSET_INDICATOR_f_def by (rule frame_rules)+

lemma framing_ENHANCED_ACCURACY_METRICS: "framing ENHANCED_ACCURACY_METRICS_f"
  unfolding ENHANCED_ACCURACY_METRICS_f_def by (rule frame_rules)+

lemma framing_L1_SYNC: "framing L1_SYNC_f"
  unfolding L1_SYNC_f_def by (rule frame_rules)+

lemma framing_PORT_COMMUNICATION_AVAILABILITY: "framing PORT_COMMUNICATION_AVAILABILITY_f"
  unfolding PORT_COMMUNICATION_AVAILABILITY_f_def by (rule frame_rules)+

lemma framing_PROTOCOL_ADDRESS: "framing PROTOCOL_ADDRESS_f"
  unfolding PROTOCOL_ADDRESS_f_def by (rule frame_rules)+

lemma framing_SLAVE_RX_SYNC_TIMING_DATA: "framing SLAVE_RX_SYNC_TIMING_DATA_f"
  unfolding SLAVE_RX_SYNC_TIMING_DATA_f_def by (rule frame_rules)+

lemma framing_SLAVE_RX_SYNC_COMPUTED_DATA: "framing SLAVE_RX_SYNC_COMPUTED_DATA_f"
  unfolding SLAVE_RX_SYNC_COMPUTED_DATA_f_def by (rule frame_rules)+

lemma framing_SLAVE_TX_EVENT_TIMESTAMPS: "framing SLAVE_TX_EVENT_TIMESTAMPS_f"
  unfolding SLAVE_TX_EVENT_TIMESTAMPS_f_def by (rule frame_rules)+

lemma framing_CUMULATIVE_RATE_RATIO: "framing CUMULATIVE_RATE_RATIO_f"
  unfolding CUMULATIVE_RATE_RATIO_f_def by (rule frame_rules)+

lemma framing_SLAVE_DELAY_TIMING_DATA_NP: "framing SLAVE_DELAY_TIMING_DATA_NP_f"
  unfolding SLAVE_DELAY_TIMING_DATA_NP_f_def by (rule frame_rules)+

lemma framing_CLOCK_DESCRIPTION: "framing CLOCK_DESCRIPTION_f"
  unfolding CLOCK_DESCRIPTION_f_def by (rule frame_rules)+

lemma framing_USER_DESCRIPTION: "framing USER_DESCRIPTION_f"
  unfolding USER_DESCRIPTION_f_def by (rule frame_rules)+

lemma framing_INITIALIZE: "framing INITIALIZE_f"
  unfolding INITIALIZE_f_def by (rule frame_rules)+

lemma framing_FAULT_LOG: "framing FAULT_LOG_f"
  unfolding FAULT_LOG_f_def by (rule frame_rules)+

lemma framing_DEFAULT_DATA_SET: "framing DEFAULT_DATA_SET_f"
  unfolding DEFAULT_DATA_SET_f_def by (rule frame_rules)+

lemma framing_CURRENT_DATA_SET: "framing CURRENT_DATA_SET_f"
  unfolding CURRENT_DATA_SET_f_def by (rule frame_rules)+

lemma framing_PARENT_DATA_SET: "framing PARENT_DATA_SET_f"
  unfolding PARENT_DATA_SET_f_def by (rule frame_rules)+

lemma framing_TIME_PROPERTIES_DATA_SET: "framing TIME_PROPERTIES_DATA_SET_f"
  unfolding TIME_PROPERTIES_DATA_SET_f_def by (rule frame_rules)+

lemma framing_PORT_DATA_SET: "framing PORT_DATA_SET_f"
  unfolding PORT_DATA_SET_f_def by (rule frame_rules)+

lemma framing_PRIORITY1: "framing PRIORITY1_f"
  unfolding PRIORITY1_f_def by (rule frame_rules)+

lemma framing_PRIORITY2: "framing PRIORITY2_f"
  unfolding PRIORITY2_f_def by (rule frame_rules)+

lemma framing_DOMAIN: "framing DOMAIN_f"
  unfolding DOMAIN_f_def by (rule frame_rules)+

lemma framing_SLAVE_ONLY: "framing SLAVE_ONLY_f"
  unfolding SLAVE_ONLY_f_def by (rule frame_rules)+

lemma framing_LOG_ANNOUNCE_INTERVAL: "framing LOG_ANNOUNCE_INTERVAL_f"
  unfolding LOG_ANNOUNCE_INTERVAL_f_def by (rule frame_rules)+

lemma framing_ANNOUNCE_RECEIPT_TIMEOUT: "framing ANNOUNCE_RECEIPT_TIMEOUT_f"
  unfolding ANNOUNCE_RECEIPT_TIMEOUT_f_def by (rule frame_rules)+

lemma framing_LOG_SYNC_INTERVAL: "framing LOG_SYNC_INTERVAL_f"
  unfolding LOG_SYNC_INTERVAL_f_def by (rule frame_rules)+

lemma framing_VERSION_NUMBER: "framing VERSION_NUMBER_f"
  unfolding VERSION_NUMBER_f_def by (rule frame_rules)+

lemma framing_TIME: "framing TIME_f"
  unfolding TIME_f_def by (rule frame_rules)+

lemma framing_CLOCK_ACCURACY: "framing CLOCK_ACCURACY_f"
  unfolding CLOCK_ACCURACY_f_def by (rule frame_rules)+

lemma framing_UTC_PROPERTIES: "framing UTC_PROPERTIES_f"
  unfolding UTC_PROPERTIES_f_def by (rule frame_rules)+

lemma framing_TRACEABILITY_PROPERTIES: "framing TRACEABILITY_PROPERTIES_f"
  unfolding TRACEABILITY_PROPERTIES_f_def by (rule frame_rules)+

lemma framing_TIMESCALE_PROPERTIES: "framing TIMESCALE_PROPERTIES_f"
  unfolding TIMESCALE_PROPERTIES_f_def by (rule frame_rules)+

lemma framing_UNICAST_NEGOTIATION_ENABLE: "framing UNICAST_NEGOTIATION_ENABLE_f"
  unfolding UNICAST_NEGOTIATION_ENABLE_f_def by (rule frame_rules)+

lemma framing_PATH_TRACE_LIST: "framing PATH_TRACE_LIST_f"
  unfolding PATH_TRACE_LIST_f_def by (rule frame_rules)+

lemma framing_PATH_TRACE_ENABLE: "framing PATH_TRACE_ENABLE_f"
  unfolding PATH_TRACE_ENABLE_f_def by (rule frame_rules)+

lemma framing_GRANDMASTER_CLUSTER_TABLE: "framing GRANDMASTER_CLUSTER_TABLE_f"
  unfolding GRANDMASTER_CLUSTER_TABLE_f_def by (rule frame_rules)+

lemma framing_UNICAST_MASTER_TABLE: "framing UNICAST_MASTER_TABLE_f"
  unfolding UNICAST_MASTER_TABLE_f_def by (rule frame_rules)+

lemma framing_UNICAST_MASTER_MAX_TABLE_SIZE: "framing UNICAST_MASTER_MAX_TABLE_SIZE_f"
  unfolding UNICAST_MASTER_MAX_TABLE_SIZE_f_def by (rule frame_rules)+

lemma framing_ACCEPTABLE_MASTER_TABLE: "framing ACCEPTABLE_MASTER_TABLE_f"
  unfolding ACCEPTABLE_MASTER_TABLE_f_def by (rule frame_rules)+

lemma framing_ACCEPTABLE_MASTER_TABLE_ENABLED: "framing ACCEPTABLE_MASTER_TABLE_ENABLED_f"
  unfolding ACCEPTABLE_MASTER_TABLE_ENABLED_f_def by (rule frame_rules)+

lemma framing_ACCEPTABLE_MASTER_MAX_TABLE_SIZE: "framing ACCEPTABLE_MASTER_MAX_TABLE_SIZE_f"
  unfolding ACCEPTABLE_MASTER_MAX_TABLE_SIZE_f_def by (rule frame_rules)+

lemma framing_ALTERNATE_MASTER: "framing ALTERNATE_MASTER_f"
  unfolding ALTERNATE_MASTER_f_def by (rule frame_rules)+

lemma framing_ALTERNATE_TIME_OFFSET_ENABLE: "framing ALTERNATE_TIME_OFFSET_ENABLE_f"
  unfolding ALTERNATE_TIME_OFFSET_ENABLE_f_def by (rule frame_rules)+

lemma framing_ALTERNATE_TIME_OFFSET_NAME: "framing ALTERNATE_TIME_OFFSET_NAME_f"
  unfolding ALTERNATE_TIME_OFFSET_NAME_f_def by (rule frame_rules)+

lemma framing_ALTERNATE_TIME_OFFSET_MAX_KEY: "framing ALTERNATE_TIME_OFFSET_MAX_KEY_f"
  unfolding ALTERNATE_TIME_OFFSET_MAX_KEY_f_def by (rule frame_rules)+

lemma framing_ALTERNATE_TIME_OFFSET_PROPERTIES: "framing ALTERNATE_TIME_OFFSET_PROPERTIES_f"
  unfolding ALTERNATE_TIME_OFFSET_PROPERTIES_f_def by (rule frame_rules)+

lemma framing_TRANSPARENT_CLOCK_PORT_DATA_SET: "framing TRANSPARENT_CLOCK_PORT_DATA_SET_f"
  unfolding TRANSPARENT_CLOCK_PORT_DATA_SET_f_def by (rule frame_rules)+

lemma framing_LOG_MIN_PDELAY_REQ_INTERVAL: "framing LOG_MIN_PDELAY_REQ_INTERVAL_f"
  unfolding LOG_MIN_PDELAY_REQ_INTERVAL_f_def by (rule frame_rules)+

lemma framing_TRANSPARENT_CLOCK_DEFAULT_DATA_SET: "framing TRANSPARENT_CLOCK_DEFAULT_DATA_SET_f"
  unfolding TRANSPARENT_CLOCK_DEFAULT_DATA_SET_f_def by (rule frame_rules)+

lemma framing_PRIMARY_DOMAIN: "framing PRIMARY_DOMAIN_f"
  unfolding PRIMARY_DOMAIN_f_def by (rule frame_rules)+

lemma framing_DELAY_MECHANISM: "framing DELAY_MECHANISM_f"
  unfolding DELAY_MECHANISM_f_def by (rule frame_rules)+

lemma framing_EXTERNAL_PORT_CONFIGURATION_ENABLED: "framing EXTERNAL_PORT_CONFIGURATION_ENABLED_f"
  unfolding EXTERNAL_PORT_CONFIGURATION_ENABLED_f_def by (rule frame_rules)+

lemma framing_MASTER_ONLY: "framing MASTER_ONLY_f"
  unfolding MASTER_ONLY_f_def by (rule frame_rules)+

lemma framing_HOLDOVER_UPGRADE_ENABLE: "framing HOLDOVER_UPGRADE_ENABLE_f"
  unfolding HOLDOVER_UPGRADE_ENABLE_f_def by (rule frame_rules)+

lemma framing_EXT_PORT_CONFIG_PORT_DATA_SET: "framing EXT_PORT_CONFIG_PORT_DATA_SET_f"
  unfolding EXT_PORT_CONFIG_PORT_DATA_SET_f_def by (rule frame_rules)+

lemma framing_TIME_STATUS_NP: "framing TIME_STATUS_NP_f"
  unfolding TIME_STATUS_NP_f_def by (rule frame_rules)+

lemma framing_GRANDMASTER_SETTINGS_NP: "framing GRANDMASTER_SETTINGS_NP_f"
  unfolding GRANDMASTER_SETTINGS_NP_f_def by (rule frame_rules)+

lemma framing_PORT_DATA_SET_NP: "framing PORT_DATA_SET_NP_f"
  unfolding PORT_DATA_SET_NP_f_def by (rule frame_rules)+

lemma framing_SUBSCRIBE_EVENTS_NP: "framing SUBSCRIBE_EVENTS_NP_f"
  unfolding SUBSCRIBE_EVENTS_NP_f_def by (rule frame_rules)+

lemma framing_PORT_PROPERTIES_NP: "framing PORT_PROPERTIES_NP_f"
  unfolding PORT_PROPERTIES_NP_f_def by (rule frame_rules)+

lemma framing_PORT_STATS_NP: "framing PORT_STATS_NP_f"
  unfolding PORT_STATS_NP_f_def by (rule frame_rules)+

lemma framing_SYNCHRONIZATION_UNCERTAIN_NP: "framing SYNCHRONIZATION_UNCERTAIN_NP_f"
  unfolding SYNCHRONIZATION_UNCERTAIN_NP_f_def by (rule frame_rules)+

lemmas framing_sig_tlvs =
  framing_ORGANIZATION_EXTENSION framing_PATH_TRACE framing_ALTERNATE_TIME_OFFSET_INDICATOR
  framing_ENHANCED_ACCURACY_METRICS framing_L1_SYNC framing_PORT_COMMUNICATION_AVAILABILITY
  framing_PROTOCOL_ADDRESS framing_SLAVE_RX_SYNC_TIMING_DATA framing_SLAVE_RX_SYNC_COMPUTED_DATA
  framing_SLAVE_TX_EVENT_TIMESTAMPS framing_CUMULATIVE_RATE_RATIO
  framing_SLAVE_DELAY_TIMING_DATA_NP

lemmas framing_mng_tlvs =
  framing_CLOCK_DESCRIPTION framing_USER_DESCRIPTION framing_INITIALIZE framing_FAULT_LOG
  framing_DEFAULT_DATA_SET framing_CURRENT_DATA_SET framing_PARENT_DATA_SET
  framing_TIME_PROPERTIES_DATA_SET framing_PORT_DATA_SET framing_PRIORITY1 framing_PRIORITY2
  framing_DOMAIN framing_SLAVE_ONLY framing_LOG_ANNOUNCE_INTERVAL
  framing_ANNOUNCE_RECEIPT_TIMEOUT framing_LOG_SYNC_INTERVAL framing_VERSION_NUMBER framing_TIME
  framing_CLOCK_ACCURACY framing_UTC_PROPERTIES framing_TRACEABILITY_PROPERTIES
  framing_TIMESCALE_PROPERTIES framing_UNICAST_NEGOTIATION_ENABLE framing_PATH_TRACE_LIST
  framing_PATH_TRACE_ENABLE framing_GRANDMASTER_CLUSTER_TABLE framing_UNICAST_MASTER_TABLE
  framing_UNICAST_MASTER_MAX_TABLE_SIZE framing_ACCEPTABLE_MASTER_TABLE
  framing_ACCEPTABLE_MASTER_TABLE_ENABLED framing_ACCEPTABLE_MASTER_MAX_TABLE_SIZE
  framing_ALTERNATE_MASTER framing_ALTERNATE_TIME_OFFSET_ENABLE
  framing_ALTERNATE_TIME_OFFSET_NAME framing_ALTERNATE_TIME_OFFSET_MAX_KEY
  framing_ALTERNATE_TIME_OFFSET_PROPERTIES framing_TRANSPARENT_CLOCK_PORT_DATA_SET
  framing_LOG_MIN_PDELAY_REQ_INTERVAL framing_TRANSPARENT_CLOCK_DEFAULT_DATA_SET
  framing_PRIMARY_DOMAIN framing_DELAY_MECHANISM framing_EXTERNAL_PORT_CONFIGURATION_ENABLED
  framing_MASTER_ONLY framing_HOLDOVER_UPGRADE_ENABLE framing_EXT_PORT_CONFIG_PORT_DATA_SET
  framing_TIME_STATUS_NP framing_GRANDMASTER_SETTINGS_NP framing_PORT_DATA_SET_NP
  framing_SUBSCRIBE_EVENTS_NP framing_PORT_PROPERTIES_NP framing_PORT_STATS_NP
  framing_SYNCHRONIZATION_UNCERTAIN_NP

lemma framing_lift: "framing f \<Longrightarrow> lift_tlv con f d s = Some (e, t, s') \<Longrightarrow> frame s s'"
  by (auto simp: lift_tlv_def dest: framing.keeps)

lemma framing_tlv: "framing tlv_f"
proof (unfold_locales, goal_cases)
  case (1 t s e t' s')
  then show ?case by (cases t) (simp_all, (erule framing_mng_tlvs [THEN framing_lift])+)
qed

interpretation mng_frame: framing tlv_f
  by (rule framing_tlv)

end
