(* ===== verification/MsgApi.thy ===== *)
theory MsgApi
  imports Framing
begin

text \<open>
  The class as an application uses it: which members each call keeps, the calls as a step relation
  on messages, and what holds after any sequence of calls, whatever octets were received.
\<close>

section \<open>The members a call of the message class keeps\<close>

lemma call_tlv_frame:
  "call_tlv_data tid tlv s = Some (err, tlv', s') \<Longrightarrow> frame s s'"
proof -
  have f: "tlv_f t (s\<lparr>m_err := MNG_PARSE_ERROR_TOO_SMALL\<rparr>) = Some (e, t', s'') \<Longrightarrow> frame s s''" for t e t' s''
    using mng_frame.keeps [of t "s\<lparr>m_err := MNG_PARSE_ERROR_TOO_SMALL\<rparr>" e t' s'']
    by (simp add: frame_def)
  show "call_tlv_data tid tlv s = Some (err, tlv', s') \<Longrightarrow> frame s s'"
    by (auto simp: call_tlv_data_def Let_def dest!: f split: if_splits option.splits bool.splits)
qed

lemma caseBuildAct_frame:
  "framing f \<Longrightarrow> caseBuildAct con f new s = Some (r, s') \<Longrightarrow> frame s s'"
  by (auto simp: caseBuildAct_def dest: framing.keeps split: option.splits bool.splits)

lemma sig_management_frame: "sig_management spec s = Some (r, s') \<Longrightarrow> frame s s'"
  by (auto simp: sig_management_def Let_def frame_def dest!: call_tlv_frame
      split: if_splits option.splits bind_splits)

lemma sig_switch_frame: "sig_switch spec type s = Some (r, s') \<Longrightarrow> frame s s'"
  unfolding sig_switch_def
  by (auto dest: framing_sig_tlvs [THEN caseBuildAct_frame] sig_management_frame split: if_splits)

text \<open>
  \<open>sends_same\<close>: the parameters and what the message is going to send.
\<close>

definition sends_same :: "Message \<Rightarrow> Message \<Rightarrow> bool" where
  "sends_same s s' \<longleftrightarrow> m_prms s' = m_prms s \<and> m_sendAction s' = m_sendAction s \<and>
     m_dataSend s' = m_dataSend s"

lemma frame_Message:
  assumes "frame s s'"
  shows "sends_same s s'" "m_tlv_id s' = m_tlv_id s" "m_type s' = m_type s"
    "m_sigTlvs s' = m_sigTlvs s" "m_dataGet s' = m_dataGet s"
  using assms by (cases s; cases s'; simp add: frame_def sends_same_def)+

lemma sends_same_refl [simp]: "sends_same s s"
  by (simp add: sends_same_def)

lemma sends_same_trans: "sends_same s t \<Longrightarrow> sends_same t u \<Longrightarrow> sends_same s u"
  by (simp add: sends_same_def)

lemma sig_step_sends:
  "sig_step leftAll s = Some (r, s') \<Longrightarrow> sends_same s s' \<and> m_tlv_id s' = m_tlv_id s"
proof -
  have f: "sends_same s1 s2 \<and> m_tlv_id s2 = m_tlv_id s1"
    if "sig_switch spec type s1 = Some (x, s2)" for spec type and s1 s2 :: Message and x
    using frame_Message [OF sig_switch_frame [OF that]] by simp
  show "sig_step leftAll s = Some (r, s') \<Longrightarrow> sends_same s s' \<and> m_tlv_id s' = m_tlv_id s"
    by (auto simp: sig_step_def Let_def sig_insert_def sends_same_def dest!: f
        split: if_splits option.splits sum.splits bind_splits)
qed

lemma parseSig_loop_sends:
  "parseSig_loop leftAll s = Some (err, s') \<Longrightarrow> sends_same s s' \<and> m_tlv_id s' = m_tlv_id s"
proof (induction leftAll s rule: parseSig_loop.induct)
  case (1 leftAll s)
  show ?case
  proof (cases "leftAll < int tlvSize")
    case True
    with "1.prems" show ?thesis by simp
  next
    case False
    with "1.prems" obtain r s1 where st: "sig_step leftAll s = Some (r, s1)"
      by (auto split: option.splits)
    then have k: "sends_same s s1 \<and> m_tlv_id s1 = m_tlv_id s" by (rule sig_step_sends)
    show ?thesis
    proof (cases r)
      case (Inl e)
      with False st k "1.prems" show ?thesis by simp
    next
      case (Inr left')
      then have "sends_same s1 s' \<and> m_tlv_id s' = m_tlv_id s1"
        using False st "1.prems" by (intro "1.IH" [of "(r, s1)" r s1]) auto
      with k show ?thesis by (auto intro: sends_same_trans)
    qed
  qed
qed

lemma PTPText_sends:
  "proc_PTPText d s = Some (e, d', s') \<Longrightarrow> sends_same s s' \<and> m_tlv_id s' = m_tlv_id s" for s :: Message
  using frame_Message [OF framing.keeps [OF framing_structs(7)]] by blast

lemma call_tlv_sends:
  "call_tlv_data tid tlv s = Some (err, tlv', s') \<Longrightarrow> sends_same s s' \<and> m_tlv_id s' = m_tlv_id s"
  for s :: Message
  using frame_Message [OF call_tlv_frame] by blast

lemma parse_mng_sends:
  "parse_mng msgSize s = Some (err, s') \<Longrightarrow>
   sends_same s s' \<and> (m_tlv_id s' = m_tlv_id s \<or> m_tlv_id s' < 58)"
  by (auto simp: parse_mng_def parse_error_status_def parse_management_def Let_def sends_same_def
      dest!: findTlvId_range PTPText_sends call_tlv_sends
      split: if_splits option.splits bind_splits bool.splits)

lemma parse_ids_sends:
  "parse_ids s = Some s' \<Longrightarrow> sends_same s s' \<and> m_tlv_id s' = m_tlv_id s"
  by (auto simp: parse_ids_def sends_same_def split: bind_splits)

lemma parse_sends:
  "parse buf msgSize s = Some (err, s') \<Longrightarrow>
   sends_same s s' \<and> (m_tlv_id s' = m_tlv_id s \<or> m_tlv_id s' < 58)"
  by (auto simp: parse_def parseSig_def Let_def sends_same_def
      dest!: parse_mng_sends parse_ids_sends parseSig_loop_sends
      simp del: parseSig_loop.simps split: if_splits option.splits bind_splits)


lemma put_bytes_sends: "put_bytes bs s = Some s' \<Longrightarrow> m_prms s' = m_prms s \<and> m_tlv_id s' = m_tlv_id s \<and>
   m_sendAction s' = m_sendAction s" for s :: Message
  by (auto simp: put_bytes_def)

lemma reserved_sends:
  fixes s :: Message
  assumes "proc_reserved d s = Some (e, d', s')"
  shows "sends_same s s' \<and> m_tlv_id s' = m_tlv_id s"
  using frame_Message [OF framing.keeps [OF framing_reserved assms]] by simp

lemma build_data_keeps:
  "build_data sz s = Some (err, s') \<Longrightarrow>
   m_prms s' = m_prms s \<and> m_tlv_id s' = m_tlv_id s \<and> m_sendAction s' = m_sendAction s"
  by (auto simp: build_data_def Let_def sends_same_def
      dest!: call_tlv_sends reserved_sends put_bytes_sends
      split: if_splits option.splits)

lemma build_keeps:
  "build buf n sequence s = Some (err, s') \<Longrightarrow>
   m_prms s' = m_prms s \<and> m_tlv_id s' = m_tlv_id s \<and> m_sendAction s' = m_sendAction s"
  by (auto simp: build_def Let_def dest!: build_data_keeps
      split: if_splits option.splits bind_splits)

section \<open>Accepted and rejected replies\<close>

lemma rd8_nth: "rd8 off s = Some x \<Longrightarrow> x = mem s ! off"
  by (auto simp: rd8_def peek_def hd_drop_conv_nth split: if_splits)

lemma frame_replyAction: "frame s s' \<Longrightarrow> m_replyAction s' = m_replyAction s" for s s' :: Message
  by (cases s; cases s') (simp add: frame_def)

lemma call_tlv_reply:
  "call_tlv_data tid tlv s = Some (err, tlv', s') \<Longrightarrow>
   m_replyAction s' = m_replyAction s \<and> m_tlv_id s' = m_tlv_id s" for s :: Message
  using call_tlv_frame frame_Message frame_replyAction by blast

lemma PTPText_reply:
  "proc_PTPText d s = Some (e, d', s') \<Longrightarrow>
   m_replyAction s' = m_replyAction s \<and> m_tlv_id s' = m_tlv_id s" for s :: Message
  using framing.keeps [OF framing_structs(7)] frame_Message frame_replyAction by blast

lemma parse_mng_accepts:
  assumes "parse_mng msgSize s = Some (err, s')" and "err = MNG_PARSE_ERROR_OK \<or> err = MNG_PARSE_ERROR_MSG"
  shows "m_replyAction s' = 0xf AND (mem s ! 46) \<and>
    (m_replyAction s' = RESPONSE \<or> m_replyAction s' = ACKNOWLEDGE) \<and>
    m_tlv_id s' < 58 \<and> checkReplyAction (m_tlv_id s') (m_replyAction s')"
  using assms
  by (auto simp: parse_mng_def parse_error_status_def parse_management_def Let_def
      dest!: rd8_nth findTlvId_range PTPText_reply call_tlv_reply
      split: if_splits option.splits bind_splits bool.splits)

lemma parse_ids_keeps: "parse_ids s = Some s' \<Longrightarrow> mem s' = mem s \<and> m_type s' = m_type s"
  by (auto simp: parse_ids_def split: bind_splits)

lemma parse_no_data_id:
  assumes "holds_message prms act sequence len MANAGEMENT (word_of_nat (2 + length data))
      (ids_value (ids ! tid)) (data @ rest) buf"
    and "transportSpecific prms \<le> 0xf" and "act = RESPONSE \<or> act = ACKNOWLEDGE"
    and "tid < 58" and "ids_fun (ids ! tid) = NA" and "checkReplyAction tid act"
    and "data \<noteq> []" and "even (length data)" and "2 + length data < 65536"
  shows "parse buf (54 + int (length data)) s = None"
proof -
  let ?s = "header_read prms sequence (s\<lparr>mem := buf\<rparr>)"
  have h: "holds_message prms act sequence len MANAGEMENT (word_of_nat (2 + length data))
      (ids_value (ids ! tid)) (data @ rest) (mem ?s)" using assms(1) by simp
  obtain a b c where r: "rd16 48 ?s = Some a" "net_to_cpu16 (host s) a = MANAGEMENT"
    "rd16 50 ?s = Some b" "net_to_cpu16 (host s) b = word_of_nat (2 + length data)"
    "rd16 52 ?s = Some c" "net_to_cpu16 (host s) c = ids_value (ids ! tid)"
    using reads16(4-6) [OF h] by auto
  have nl: "\<not> uses_linuxptp tid"
  proof -
    have "list_all (\<lambda>(i, r). ids_fun r = NA \<longrightarrow> ids_allow r AND A_USE_LINUXPTP = 0) (enumerate 0 ids)"
      unfolding ids_def by (simp add: row_def A_USE_LINUXPTP_def use_GSC_def A_GET_def A_SET_def A_COMMAND_def)
    then have "ids_fun (ids ! tid) = NA \<longrightarrow> ids_allow (ids ! tid) AND A_USE_LINUXPTP = 0"
      using assms(4) by (rule ids_all)
    then show ?thesis using assms(4,5) by (simp add: uses_linuxptp_def nth_mng_all_vals)
  qed
  have f: "findTlvId (host s) c (implementSpecific (m_prms s)) = Some tid"
    using r(6) assms(4) nl by (intro findTlvId_of_type) simp_all
  have act: "0xf AND act = act" using assms(3) by auto
  have u: "uint (word_of_nat (2 + length data) :: u16) = 2 + int (length data)"
    using uint_word_of_nat [OF assms(9)] by simp
  have "parse buf (54 + int (length data)) s = parse_mng (54 + int (length data)) ?s"
    using parse_header [OF assms(1,2)] by simp
  also have "\<dots> = parse_management (2 + int (length data)) act
      (?s\<lparr>m_replyAction := act, m_left := 2 + int (length data)\<rparr>)"
    using r act assms(3) u reads8(8) [OF h]
    by (auto simp: parse_mng_def size_consts Let_def)
  also have "\<dots> = None"
    using r(5) f assms(4-8)
    by (simp add: parse_management_def size_consts Let_def call_tlv_data_def)
  finally show ?thesis .
qed

lemma parse_empty_reply:
  assumes "ok_prms prms" and "transportSpecific prms \<le> 0xf" and "act = RESPONSE \<or> act = ACKNOWLEDGE"
    and "tid < 58" and "checkReplyAction tid act"
    and "implementSpecific (m_prms s) = linuxptp \<or> \<not> uses_linuxptp tid"
  shows "\<exists>s'. parse (mng_message prms act sequence (ids_value (ids ! tid)) []) 54 s = Some (MNG_PARSE_ERROR_OK, s') \<and>
    m_tlv_id s' = tid \<and> m_dataGet s' = m_dataGet s \<and> m_mngType s' = m_mngType s \<and> m_type s' = Management"
proof -
  let ?buf = "mng_message prms act sequence (ids_value (ids ! tid)) []"
  let ?s = "header_read prms sequence (s\<lparr>mem := ?buf\<rparr>)"
  note h0 = holds_mng_message [OF assms(1), of act sequence "[]" "ids_value (ids ! tid)" "[]"]
  then have h: "holds_message prms act sequence (word_of_nat 54) MANAGEMENT (word_of_nat 2)
      (ids_value (ids ! tid)) [] (mem ?s)" by simp
  obtain a b c where r: "rd16 48 ?s = Some a" "net_to_cpu16 (host s) a = MANAGEMENT"
    "rd16 50 ?s = Some b" "net_to_cpu16 (host s) b = word_of_nat 2"
    "rd16 52 ?s = Some c" "net_to_cpu16 (host s) c = ids_value (ids ! tid)"
    using reads16(4-6) [OF h] by auto
  have f: "findTlvId (host s) c (implementSpecific (m_prms s)) = Some tid"
    using r(6) assms(4,6) by (intro findTlvId_of_type) simp_all
  have act: "0xf AND act = act" using assms(3) by auto
  have "parse ?buf 54 s = parse_mng 54 ?s"
    using parse_header [OF h0 assms(2)] by simp
  also have "\<dots> = parse_management 2 act (?s\<lparr>m_replyAction := act, m_left := 2\<rparr>)"
    using r act assms(3) reads8(8) [OF h]
    by (auto simp: parse_mng_def size_consts Let_def)
  finally show ?thesis
    using r(5) f assms(4,5)
    by (simp add: parse_management_def size_consts Let_def header_read_def)
qed

lemma build_type_mismatch:
  assumes "m_sendAction s \<noteq> GET" and "m_dataSend s = Some t" and "tlv_type t \<noteq> m_tlv_id s"
    and "m_tlv_id s < 58" and "ids_fun (ids ! m_tlv_id s) \<noteq> NA" and "ok_prms (m_prms s)"
    and "54 \<le> bufSize" and "bufSize \<le> length b"
  shows "build (Some b) bufSize sequence s = None"
  using assms header_pokes [OF assms(6), of b]
  by (auto simp: build_def build_data_def call_tlv_data_def mng_val_ids size_consts nth_mng_all_vals Let_def)

section \<open>The class as a state machine\<close>

text \<open>One call of an application on the message, with any arguments and any received octets.\<close>

inductive api_step :: "Message \<Rightarrow> Message \<Rightarrow> bool" where
  update: "updateParams prms s = (r, s') \<Longrightarrow> api_step s s'"
| config: "useConfig ts dn s = (r, s') \<Longrightarrow> api_step s s'"
| clocks: "api_step s (setAllClocks s)"
| action: "setAction a tid s = (r, s') \<Longrightarrow> api_step s s'"
| action_data: "setAction_data a tid t s = (r, s') \<Longrightarrow> api_step s s'"
| build: "build buf n sequence s = Some (err, s') \<Longrightarrow> api_step s s'"
| parse: "parse b m s = Some (err, s') \<Longrightarrow> api_step s s'"

inductive api_reachable :: "Message \<Rightarrow> bool" where
  fresh: "api_reachable (new_Message junk)"
| fresh_prms: "api_reachable (new_Message_prms prms junk)"
| step: "api_reachable s \<Longrightarrow> api_step s s' \<Longrightarrow> api_reachable s'"

inductive_cases api_stepE: "api_step s s'"

definition api_inv :: "Message \<Rightarrow> bool" where
  "api_inv s \<longleftrightarrow> m_tlv_id s < 58 \<and> transportSpecific (m_prms s) \<le> 0xf \<and>
     (m_sendAction s = GET \<or> m_sendAction s = SET \<or> m_sendAction s = COMMAND)"

lemma allowedAction_range:
  "allowedAction spec tid a \<Longrightarrow> tid < 58 \<and> (a = GET \<or> a = SET \<or> a = COMMAND)"
  by (auto simp: allowedAction_def split: if_splits)

lemma api_inv_step:
  assumes "api_inv s" and "api_step s s'"
  shows "api_inv s'"
  using assms(2)
proof cases
  case (parse b m err)
  then show ?thesis using assms(1) parse_sends [OF parse] by (auto simp: api_inv_def sends_same_def)
next
  case (build buf n sequence err)
  then show ?thesis using assms(1) build_keeps [OF build] by (auto simp: api_inv_def)
qed (use assms(1) in \<open>auto simp: api_inv_def updateParams_def useConfig_def setAllClocks_def setAction_def
    setAction_data_def dest!: allowedAction_range split: if_splits\<close>)

lemma api_inv_reachable: "api_reachable s \<Longrightarrow> api_inv s"
proof (induction rule: api_reachable.induct)
  case (step s s')
  then show ?case by (blast intro: api_inv_step)
qed (auto simp: api_inv_def new_Message_def new_Message_prms_def construct_def setAllClocks_def
    MsgParams_zero_def Let_def not_less)

end
