(* ===== verification/Samples.thy ===== *)
theory Samples
  imports MsgApi
begin

text \<open>
  Concrete messages on which the properties are evaluated: a message in freshly zeroed memory, one
  that sends \<^verbatim>\<open>SET PRIORITY1\<close>, a received pair of signaling TLVs, and the parameters of a
  peer.
\<close>

definition blank :: "byte_order \<Rightarrow> Message" where
  "blank h = \<lparr>host = h, mem = [], m_build = False, m_cur = 0, m_left = 0, m_size = 0,
     m_err = MNG_PARSE_ERROR_OK, reserved = 0, sig_grow = (\<lambda>n. if n = 0 then 1 else 2 * n),
     m_sendAction = GET, m_msgLen = 0, m_dataSend = None, m_sequence = 0, m_isUnicast = False,
     m_replyAction = GET, m_sdoId = 0, m_type = 0, m_mngType = 0, m_domainNumber = 0,
     m_versionPTP = 0, m_minorVersionPTP = 0, m_sigTlvs = [], m_sigCap = 0, m_dataGet = None,
     m_tlv_id = 0, m_prms = MsgParams_zero, m_peer = new_PortIdentity, m_target = new_PortIdentity,
     m_errorId = 0, m_errorDisplay = new_PTPText\<rparr>"

definition demo_tlv :: BaseMngTlv where
  "demo_tlv = TLV_PRIORITY1 \<lparr>PRIORITY1_t.priority1 = 100\<rparr>"

definition demo_set :: "byte_order \<Rightarrow> Message" where
  "demo_set h = snd (setAction_data SET PRIORITY1 demo_tlv (new_Message (blank h)))"

lemma demo_set_fields:
  "m_sendAction (demo_set h) = SET" "m_tlv_id (demo_set h) = PRIORITY1"
  "m_dataSend (demo_set h) = Some demo_tlv" "transportSpecific (m_prms (demo_set h)) = 0"
  "implementSpecific (m_prms (demo_set h)) = linuxptp" "host (demo_set h) = h"
  "fst (setAction_data SET PRIORITY1 demo_tlv (new_Message (blank h)))"
  "ok_prms (m_prms (new_Message (blank h)))" "m_prms (demo_set h) = m_prms (new_Message (blank h))"
  "\<not> rcvSignaling (m_prms (demo_set h))"
  by (simp_all add: demo_set_def setAction_data_def allowedAction_def nth_mng_all_vals ids_def row_def
      use_GSC_def use_GS_def A_GET_def A_SET_def A_COMMAND_def new_Message_def construct_def setAllClocks_def blank_def
      MsgParams_zero_def ok_prms_def ok_PortIdentity_def ok_ClockIdentity_def allClocks_def
      new_PortIdentity_def new_ClockIdentity_def)

lemma demo_tlv_facts:
  "ok_tlv demo_tlv" "tlv_type demo_tlv = PRIORITY1" "enc_tlv demo_tlv = [100]" "norm_tlv demo_tlv = demo_tlv"
  by (simp_all add: demo_tlv_def enc_PRIORITY1_def)

lemma demo_send: "send_ok (demo_set h)" "send_data (demo_set h) = [100, 0]"
  by (simp_all add: send_ok_def send_data_def demo_set_fields demo_tlv_facts pad_even_def)

lemma new_Message_fields:
  "implementSpecific (m_prms (new_Message s)) = linuxptp" "\<not> rcvSignaling (m_prms (new_Message s))"
  "ok_prms (m_prms (new_Message s))" "transportSpecific (m_prms (new_Message s)) = 0"
  by (simp_all add: new_Message_def construct_def setAllClocks_def MsgParams_zero_def ok_prms_def
      ok_PortIdentity_def ok_ClockIdentity_def allClocks_def new_PortIdentity_def new_ClockIdentity_def)

lemma PRIORITY_replies:
  "checkReplyAction PRIORITY1 RESPONSE" "checkReplyAction PRIORITY2 RESPONSE"
  "checkReplyAction ENABLE_PORT ACKNOWLEDGE"
  by (simp_all add: checkReplyAction_def nth_mng_all_vals ids_def row_def use_GS_def  A_GET_def A_SET_def
      A_COMMAND_def)

definition demo_rate :: "i32 \<Rightarrow> BaseSigTlv" where
  "demo_rate r = SIG_CUMULATIVE_RATE_RATIO \<lparr>scaledCumulativeRateRatio = r\<rparr>"

definition demo_sig :: "nat \<Rightarrow> Message" where
  "demo_sig cap = (blank LITTLE)\<lparr>mem := enc_sig_tlv (demo_rate 5) @ enc_sig_tlv (demo_rate 6),
     m_size := 16, m_sigCap := cap\<rparr>"

lemma demo_rate_facts:
  "ok_sig spec (demo_rate r)" "norm_sig (demo_rate r) = demo_rate r"
  "sig_type (demo_rate r) = CUMULATIVE_RATE_RATIO" "length (enc_sig (demo_rate r)) = 4"
  "length (enc_sig_tlv (demo_rate r)) = 8"
  by (simp_all add: demo_rate_def enc_CUMULATIVE_RATE_RATIO_def enc_sig_tlv_def)

lemma demo_sig_facts:
  "\<not> m_build (demo_sig cap)" "m_size (demo_sig cap) = 16" "m_cur (demo_sig cap) = 0"
  "mem (demo_sig cap) = enc_sig_tlv (demo_rate 5) @ enc_sig_tlv (demo_rate 6)"
  "admits (m_prms (demo_sig cap)) type" "m_sigCap (demo_sig cap) = cap" "sig_grow (demo_sig cap) 0 = 1"
  by (simp_all add: demo_sig_def blank_def admits_def MsgParams_zero_def)

definition demo_prms :: MsgParams where
  "demo_prms = (m_prms (new_Message (blank BIG)))\<lparr>self_id :=
     \<lparr>PortIdentity_t.clockIdentity = \<lparr>v_octets = [1, 2, 3, 4, 5, 6, 7, 8]\<rparr>, portNumber = 9\<rparr>\<rparr>"

lemma demo_prms_facts: "ok_prms demo_prms" "transportSpecific demo_prms = 0"
  by (simp_all add: demo_prms_def new_Message_def construct_def setAllClocks_def MsgParams_zero_def
      ok_prms_def ok_PortIdentity_def ok_ClockIdentity_def allClocks_def)

lemma demo_action: "action_ok (demo_set h)"
  by (simp add: action_ok_def demo_set_fields ids_def row_def use_GS_def A_GET_def A_SET_def)

end
