(* ===== verification/FloatCursor.thy ===== *)
theory FloatCursor
  imports SigCodec
begin

text \<open>
  How far \<^verbatim>\<open>proc(Float64_t &)\<close> moves the cursor, and what follows for
  \<^verbatim>\<open>ENHANCED_ACCURACY_METRICS\<close>, the only TLV with floating-point members: the octets it needs
  and the octets it moves over differ, because the function moves the cursor twice.
\<close>

section \<open>Cursor arithmetic of a parse\<close>

text \<open>
  \<open>steps k n p\<close>: parsing with \<open>p\<close> fails when fewer than \<open>k\<close> octets are left and moves the cursor by
  \<open>n\<close> octets otherwise. The window may be overrun (\<open>n\<close> may exceed \<open>k\<close>), so the octets left may be
  negative; \<open>inside\<close> only relates cursor, octets left and memory.
\<close>

definition inside :: "'z mst_scheme \<Rightarrow> bool" where
  "inside s \<longleftrightarrow> \<not> m_build s \<and> int (m_cur s) + m_left s \<le> int (length (mem s))"

definition steps :: "nat \<Rightarrow> nat \<Rightarrow> ('d, 'z) proc \<Rightarrow> bool" where
  "steps k n p \<longleftrightarrow> (\<forall>d s. inside s \<longrightarrow>
     (if m_left s < int k then \<exists>d' s'. p d s = Some (True, d', s') \<and> m_err s' = m_err s
      else \<exists>d' s'. p d s = Some (False, d', s') \<and> inside s' \<and> m_err s' = m_err s \<and>
        m_cur s' = m_cur s + n \<and> m_left s' = m_left s - int n))"

lemma steps_short:
  "steps k n p \<Longrightarrow> inside s \<Longrightarrow> m_left s < int k \<Longrightarrow>
   \<exists>d' s'. p d s = Some (True, d', s') \<and> m_err s' = m_err s"
  by (simp add: steps_def)

lemma steps_long:
  "steps k n p \<Longrightarrow> inside s \<Longrightarrow> \<not> m_left s < int k \<Longrightarrow>
   \<exists>d' s'. p d s = Some (False, d', s') \<and> inside s' \<and> m_err s' = m_err s \<and>
     m_cur s' = m_cur s + n \<and> m_left s' = m_left s - int n"
  by (simp add: steps_def)

fun fits :: "(nat \<times> nat) list \<Rightarrow> int \<Rightarrow> bool" where
  "fits [] left = True"
| "fits ((k, n) # kns) left = (int k \<le> left \<and> fits kns (left - int n))"

lemma procs_steps:
  assumes "list_all2 (\<lambda>p (k, n). steps k n p) ps kns" and "inside s"
  shows "if fits kns (m_left s)
    then \<exists>d' s'. procs ps d s = Some (False, d', s') \<and> inside s' \<and> m_err s' = m_err s \<and>
      m_cur s' = m_cur s + sum_list (map snd kns) \<and>
      m_left s' = m_left s - int (sum_list (map snd kns))
    else \<exists>d' s'. procs ps d s = Some (True, d', s') \<and> m_err s' = m_err s"
  using assms
proof (induction ps kns arbitrary: d s rule: list_all2_induct)
  case Nil
  then show ?case by simp
next
  case (Cons p ps kn kns)
  obtain k n where kn: "kn = (k, n)" by (cases kn)
  with Cons.hyps have st: "steps k n p" by simp
  show ?case
  proof (cases "m_left s < int k")
    case True
    then obtain d' s' where "p d s = Some (True, d', s')" "m_err s' = m_err s"
      using steps_short [OF st Cons.prems] by blast
    with True kn show ?thesis by simp
  next
    case False
    then obtain d1 s1 where s1: "p d s = Some (False, d1, s1)" "inside s1" "m_err s1 = m_err s"
        "m_cur s1 = m_cur s + n" "m_left s1 = m_left s - int n"
      using steps_long [OF st Cons.prems] by blast
    show ?thesis using Cons.IH [OF s1(2), of d1] s1 False kn by (auto split: if_splits)
  qed
qed

lemma steps_field:
  fixes p :: "('v, 'z) proc"
  assumes "steps k n p"
  shows "steps k n (field get upd p)"
  unfolding steps_def
proof (intro allI impI)
  fix d and s :: "'z mst_scheme"
  assume "inside s"
  then show "if m_left s < int k
    then \<exists>d' s'. field get upd p d s = Some (True, d', s') \<and> m_err s' = m_err s
    else \<exists>d' s'. field get upd p d s = Some (False, d', s') \<and> inside s' \<and> m_err s' = m_err s \<and>
      m_cur s' = m_cur s + n \<and> m_left s' = m_left s - int n"
    using steps_short [OF assms, of s "get d"] steps_long [OF assms, of s "get d"]
    by (auto simp: field_def)
qed

lemma steps_scalar: "steps n n (proc_scalar n wr rd)"
  unfolding steps_def
  by (auto simp: proc_scalar_def inside_def get_bytes_def peek_def)

lemma steps_u8: "steps 1 1 proc_u8"
  unfolding proc_u8_def by (rule steps_scalar)

lemma steps_reserved: "steps 1 1 proc_reserved"
  unfolding steps_def
  by (auto simp: proc_reserved_def proc_u8_def proc_scalar_def inside_def get_bytes_def peek_def)

lemma steps_TimeInterval: "steps 8 8 proc_TimeInterval"
  unfolding steps_def proc_TimeInterval_def proc_i64_def
  by (auto simp: field_def proc_scalar_def inside_def get_bytes_def peek_def)

lemma steps_float64: "steps 8 16 proc_float64"
  unfolding steps_def
  by (auto simp: proc_float64_def proc_u64_def proc_scalar_def inside_def get_bytes_def peek_def
      split: byte_order.split)

text \<open>The octets each member of the TLV needs and the octets the cursor moves over.\<close>

definition enhanced_steps :: "(nat \<times> nat) list" where
  "enhanced_steps = [(1, 1), (1, 1), (1, 1), (1, 1), (8, 8), (8, 16), (8, 8), (8, 16), (8, 8),
     (8, 16), (8, 8), (8, 16), (8, 8), (8, 16)]"

lemma enhanced_all2:
  "\<exists>ps. ENHANCED_ACCURACY_METRICS_f = procs ps \<and> list_all2 (\<lambda>p (k, n). steps k n p) ps enhanced_steps"
  unfolding ENHANCED_ACCURACY_METRICS_f_def enhanced_steps_def
  by (rule exI, rule conjI, rule refl)
    (simp add: steps_field steps_u8 steps_reserved steps_TimeInterval steps_float64
      del: One_nat_def)

lemma fits_enhanced: "fits enhanced_steps left \<longleftrightarrow> 116 \<le> left"
  by (auto simp: enhanced_steps_def)

lemma enhanced_parse:
  fixes s :: "'z mst_scheme"
  assumes "inside s"
  shows "if 116 \<le> m_left s
    then \<exists>d s'. ENHANCED_ACCURACY_METRICS_f d0 s = Some (False, d, s') \<and>
      m_cur s' = m_cur s + 124 \<and> m_left s' = m_left s - 124
    else \<exists>d s'. ENHANCED_ACCURACY_METRICS_f d0 s = Some (True, d, s') \<and> m_err s' = m_err s"
proof -
  obtain ps :: "(ENHANCED_ACCURACY_METRICS_t, 'z) proc list" where ps: "ENHANCED_ACCURACY_METRICS_f = procs ps"
      "list_all2 (\<lambda>p (k, n). steps k n p) ps enhanced_steps"
    using enhanced_all2 by blast
  have "sum_list (map snd enhanced_steps) = 124" by (simp add: enhanced_steps_def)
  then show ?thesis using procs_steps [OF ps(2) assms, where d = d0] unfolding ps(1) fits_enhanced
    by (auto split: if_splits)
qed

section \<open>Properties\<close>

text \<open>
  Property C27. Parsing \<^verbatim>\<open>ENHANCED_ACCURACY_METRICS\<close>, a TLV of 84 octets, succeeds exactly when
  at least 116 octets are left, and then the cursor moves over 124 octets: a well-formed TLV is
  always refused, and one of 116 octets leaves the cursor eight octets behind its end.
\<close>

theorem enhanced_metrics_size:
  fixes s :: "'z mst_scheme"
  assumes "inside s"
  shows "if 116 \<le> m_left s
    then \<exists>d s'. ENHANCED_ACCURACY_METRICS_f d0 s = Some (False, d, s') \<and>
      m_cur s' = m_cur s + 124 \<and> m_left s' = m_left s - 124
    else \<exists>d s'. ENHANCED_ACCURACY_METRICS_f d0 s = Some (True, d, s') \<and> m_err s' = m_err s"
  using assms by (rule enhanced_parse)

theorem enhanced_metrics_size_witness:
  "\<exists>d s'. ENHANCED_ACCURACY_METRICS_f new_ENHANCED_ACCURACY_METRICS
      (\<lparr>host = LITTLE, mem = replicate 100 0, m_build = False, m_cur = 0, m_left = 84, m_size = 0,
        m_err = MNG_PARSE_ERROR_TOO_SMALL, reserved = 0\<rparr> :: mst) = Some (True, d, s') \<and>
    m_err s' = MNG_PARSE_ERROR_TOO_SMALL"
  using enhanced_metrics_size [of "\<lparr>host = LITTLE, mem = replicate 100 0, m_build = False, m_cur = 0,
      m_left = 84, m_size = 0, m_err = MNG_PARSE_ERROR_TOO_SMALL, reserved = 0\<rparr> :: mst"]
  by (simp add: inside_def)

end
