(* ===== verification/FloatCalc.thy ===== *)
theory FloatCalc
  imports Complex_Main Codec
begin

text \<open>
  \<^verbatim>\<open>proc(Float64_t &)\<close> on a machine whose floating-point numbers are not known to be IEEE 754 in a
  known order of octets, where the function calculates the 64 bits (\<^verbatim>\<open>sizeMod\<close> and
  \<^verbatim>\<open>ordMod\<close> zero). A number is its sign and its exact value; scaling by powers of two is exact
  on such a machine, the binary logarithm \<^verbatim>\<open>floorl(log2l(x))\<close> and which numbers it calls subnormal
  are parameters.
\<close>

section \<open>Constants\<close>

definition ieee754_mnt_size :: nat where "ieee754_mnt_size = 52"
definition ieee754_exp_size :: nat where "ieee754_exp_size = 11"
definition ieee754_exp_nan :: int where "ieee754_exp_nan = push_bit (ieee754_exp_size - 1) 1"
definition ieee754_exp_max :: int where "ieee754_exp_max = ieee754_exp_nan - 1"
definition ieee754_exp_sub :: int where "ieee754_exp_sub = - ieee754_exp_max"
definition ieee754_exp_min :: int where "ieee754_exp_min = ieee754_exp_sub + 1"
definition ieee754_exp_bias :: int where "ieee754_exp_bias = ieee754_exp_max"
definition ieee754_exp_mask :: u64 where "ieee754_exp_mask = push_bit ieee754_mnt_size (push_bit ieee754_exp_size 1 - 1)"
definition ieee754_mnt_base :: int where "ieee754_mnt_base = push_bit ieee754_mnt_size 1"
definition ieee754_mnt_mask :: int where "ieee754_mnt_mask = ieee754_mnt_base - 1"

lemma ieee754_values:
  "ieee754_exp_nan = 1024" "ieee754_exp_max = 1023" "ieee754_exp_sub = - 1023" "ieee754_exp_min = - 1022"
  "ieee754_exp_bias = 1023" "ieee754_mnt_base = 2 ^ 52" "ieee754_mnt_mask = 2 ^ 52 - 1"
  "ieee754_exp_mask = push_bit 52 (mask 11)"
  by (simp_all add: ieee754_exp_nan_def ieee754_exp_max_def ieee754_exp_sub_def ieee754_exp_min_def ieee754_exp_bias_def
      ieee754_exp_mask_def ieee754_mnt_base_def ieee754_mnt_mask_def ieee754_mnt_size_def ieee754_exp_size_def
      push_bit_eq_mult mask_eq_exp_minus_1)

section \<open>Numbers\<close>

datatype float_val = FNaN bool | FInf bool | FNum bool rat

definition pack :: "u64 \<Rightarrow> int \<Rightarrow> int \<Rightarrow> u64" where
  "pack num ex mnt = num OR (push_bit ieee754_mnt_size (word_of_int (ex + ieee754_exp_bias)) OR
     word_of_int (mnt AND ieee754_mnt_mask))"

definition subnormal_bits :: "u64 \<Rightarrow> rat \<Rightarrow> u64 option" where
  "subnormal_bits num x =
     (let mnt = \<lfloor>x / 2 powi ieee754_exp_min * of_int ieee754_mnt_base\<rfloor>
      in if mnt < 0 \<or> mnt \<ge> ieee754_mnt_base then None
         else Some (pack num ieee754_exp_sub (if mnt = 0 then 1 else mnt)))"

definition normal_bits :: "(rat \<Rightarrow> int) \<Rightarrow> u64 \<Rightarrow> rat \<Rightarrow> u64 option" where
  "normal_bits log2 num x =
     (let ex = log2 x
      in if ex > ieee754_exp_max then None
         else if ex \<ge> ieee754_exp_min \<and> x / 2 powi ex \<ge> 1 then
           let mnt = \<lfloor>x / 2 powi ex * of_int ieee754_mnt_base - of_int ieee754_mnt_base\<rfloor>
           in if mnt < 0 \<or> mnt \<ge> ieee754_mnt_base then None else Some (pack num ex mnt)
         else subnormal_bits num x)"

text \<open>The 64 bits of a number; \<^term>\<open>None\<close> when the function returns an error.\<close>

definition float_bits :: "(rat \<Rightarrow> int) \<Rightarrow> (rat \<Rightarrow> bool) \<Rightarrow> float_val \<Rightarrow> u64 option" where
  "float_bits log2 is_sub val =
     (let sg = (\<lambda>b. if b then u64_sig_bit else 0)
      in case val of
           FNaN b \<Rightarrow> Some (pack (sg b) ieee754_exp_nan 1)
         | FInf b \<Rightarrow> Some (pack (sg b) ieee754_exp_nan 0)
         | FNum b x \<Rightarrow>
             if x = 0 then Some (pack (sg b) ieee754_exp_sub 0)
             else if is_sub x then subnormal_bits (sg b) x
             else normal_bits log2 (sg b) x)"

definition float_value :: "u64 \<Rightarrow> float_val" where
  "float_value num =
     (let ex = uint (drop_bit ieee754_mnt_size (num AND ieee754_exp_mask)) - ieee754_exp_bias;
          mnt = uint (num AND word_of_int ieee754_mnt_mask);
          neg = (num AND u64_sig_bit \<noteq> 0)
      in if ex = ieee754_exp_nan then if mnt = 0 then FInf neg else FNaN neg
         else if ex = ieee754_exp_sub then
           FNum neg (2 powi ieee754_exp_min * of_int mnt / of_int ieee754_mnt_base)
         else FNum neg (2 powi ex * of_int (mnt + ieee754_mnt_base) / of_int ieee754_mnt_base))"

text \<open>\<^verbatim>\<open>val = fabsl(val)\<close>, for finite numbers; \<^verbatim>\<open>val\<close> is the reference the caller passed.\<close>

fun drop_sign :: "float_val \<Rightarrow> float_val" where
  "drop_sign (FNum b x) = FNum False x"
| "drop_sign v = v"

definition proc_float_calc :: "(rat \<Rightarrow> int) \<Rightarrow> (rat \<Rightarrow> bool) \<Rightarrow> (float_val, 'z) proc" where
  "proc_float_calc log2 is_sub val s =
     (if m_left s < 8 then Some (True, val, s)
      else
        let val1 = (if m_build s then drop_sign val else val)
        in case (if m_build s then float_bits log2 is_sub val else Some 0) of
             None \<Rightarrow> Some (True, val1, s)
           | Some num \<Rightarrow>
               (case proc_u64 num s of
                  None \<Rightarrow> None
                | Some (True, _, s') \<Rightarrow> Some (True, val1, s')
                | Some (False, num', s') \<Rightarrow>
                    Some (False, if m_build s then val1 else float_value num', move 8 s')))"

section \<open>The format\<close>

text \<open>The number of 64 bits by IEEE 754: an integer significand and a power of two.\<close>

definition ieee_value :: "u64 \<Rightarrow> float_val" where
  "ieee_value w =
     (let neg = bit w 63; e = uint (drop_bit 52 w AND mask 11); m = uint (w AND mask 52)
      in if e = 2047 then if m = 0 then FInf neg else FNaN neg
         else if e = 0 then FNum neg (of_int m * 2 powi (- 1074))
         else FNum neg (of_int (2 ^ 52 + m) * 2 powi (e - 1075)))"

definition exact_log2 :: "(rat \<Rightarrow> int) \<Rightarrow> bool" where
  "exact_log2 log2 \<longleftrightarrow> (\<forall>x>0. 2 powi log2 x \<le> x \<and> x < 2 powi (log2 x + 1))"

definition binary64_sub :: "(rat \<Rightarrow> bool) \<Rightarrow> bool" where
  "binary64_sub is_sub \<longleftrightarrow> (\<forall>x. is_sub x \<longrightarrow> x < 2 powi (- 1022))"

lemma powi_diff: "(2 :: rat) powi (a - b) = 2 powi a / 2 powi b"
  by (simp add: power_int_diff)

lemma log2_unique:
  assumes "exact_log2 log2" "2 powi k \<le> x" "x < 2 powi (k + 1)"
  shows "log2 x = k"
proof (rule ccontr)
  have "(0 :: rat) < 2 powi k" by simp
  then have "0 < x" using assms(2) by linarith
  then have l: "2 powi log2 x \<le> x" "x < 2 powi (log2 x + 1)" using assms(1) by (auto simp: exact_log2_def)
  have mono: "(2 :: rat) powi a \<le> 2 powi b" if "a \<le> b" for a b using that by (rule power_int_increasing) simp
  assume "log2 x \<noteq> k"
  then consider "log2 x + 1 \<le> k" | "k + 1 \<le> log2 x" by linarith
  then show False
  proof cases
    case 1
    then show False using mono [OF 1] l(2) assms(2) by linarith
  next
    case 2
    then show False using mono [OF 2] l(1) assms(3) by linarith
  qed
qed

lemma sig_bit: "u64_sig_bit = push_bit 63 1"
  by (simp add: u64_sig_bit_def push_bit_eq_mult)

lemma bit_sig: "bit u64_sig_bit n \<longleftrightarrow> n = 63"
proof -
  have a: "bit (push_bit k 1 :: u64) n \<longleftrightarrow> k = n \<and> n < 64" for k by (auto simp: bit_simps bit_1_iff)
  show ?thesis unfolding sig_bit a by auto
qed

lemma sig_bit_set: "w AND u64_sig_bit = (if bit w 63 then u64_sig_bit else 0)"
  by (rule bit_word_eqI) (auto simp: bit_simps bit_sig)

lemma sig_bit_nonzero: "u64_sig_bit \<noteq> 0"
  by (simp add: u64_sig_bit_def)

lemma fields_join:
  "(w AND u64_sig_bit) OR (push_bit 52 (drop_bit 52 w AND mask 11) OR (w AND mask 52)) = (w :: u64)"
proof -
  have "n = 63" if "n < 64" "\<not> n - 52 < 11" for n :: nat using that by linarith
  then show ?thesis by (intro bit_word_eqI) (use bit_sig in \<open>auto simp: bit_simps\<close>)
qed

lemma float_value_ieee: "float_value w = ieee_value w"
proof -
  have e: "drop_bit 52 (w AND push_bit 52 (mask 11)) = drop_bit 52 w AND mask 11"
    by (rule bit_word_eqI) (auto simp: bit_simps)
  have m: "word_of_int (2 ^ 52 - 1) = (mask 52 :: u64)" by (simp add: mask_eq_exp_minus_1)
  have p: "(2 :: rat) powi (ex - 1075) = 2 powi (ex - 1023) / 2 ^ 52" "(2 :: rat) powi (- 1074) = 2 powi (- 1022) / 2 ^ 52" for ex
    using powi_diff [of "ex - 1023" 52] powi_diff [of "- 1022" 52] by simp_all
  show ?thesis
    unfolding float_value_def ieee_value_def ieee754_values ieee754_mnt_size_def Let_def e m p
    by (auto simp: sig_bit_set sig_bit_nonzero)
qed

definition fields :: "u64 \<Rightarrow> bool \<times> int \<times> int" where
  "fields w = (bit w 63, uint (drop_bit 52 w AND mask 11), uint (w AND mask 52))"

lemma fields_range:
  assumes "fields w = (neg, e, m)"
  shows "0 \<le> e" "e < 2048" "0 \<le> m" "m < 2 ^ 52"
proof -
  have "drop_bit 52 w AND mask 11 < 2 ^ 11" "w AND mask 52 < 2 ^ 52" by (rule and_mask_less', simp)+
  then show "0 \<le> e" "e < 2048" "0 \<le> m" "m < 2 ^ 52" using assms by (auto simp: fields_def word_less_def)
qed

lemma pack_fields:
  assumes "fields w = (neg, e, m)" "0 \<le> k" "k < 2 ^ 52"
  shows "pack (if neg then u64_sig_bit else 0) (e - 1023) k =
    (w AND u64_sig_bit) OR (push_bit 52 (drop_bit 52 w AND mask 11) OR word_of_int k)"
proof -
  have "k AND mask 52 = k" using assms(2,3) by (metis take_bit_eq_mask take_bit_int_eq_self)
  then have "k AND (2 ^ 52 - 1) = k" unfolding mask_eq_exp_minus_1 .
  then show ?thesis using assms(1) by (auto simp: pack_def ieee754_values ieee754_mnt_size_def sig_bit_set fields_def)
qed


lemma pack_all:
  assumes "fields w = (neg, e, m)"
  shows "pack (if neg then u64_sig_bit else 0) (e - 1023) m = w"
proof -
  note r = fields_range [OF assms]
  have "word_of_int m = w AND mask 52" using assms by (auto simp: fields_def)
  then show ?thesis using pack_fields [OF assms r(3,4)] fields_join by simp
qed

lemma scaled: "of_int a * 2 powi (k - 52) / 2 powi k * of_int (2 ^ 52) = (of_int a :: rat)"
  by (simp add: powi_diff)

lemma subnormal_bits_ieee:
  assumes "fields w = (neg, 0, m)" "m \<noteq> 0"
  shows "subnormal_bits (if neg then u64_sig_bit else 0) (of_int m * 2 powi (- 1074)) = Some w"
proof -
  have "of_int m * 2 powi (- 1074) / 2 powi (- 1022) * of_int (2 ^ 52) = (of_int m :: rat)"
    using scaled [of m "- 1022"] by simp
  then show ?thesis
    using fields_range [OF assms(1)] assms(2) pack_all [OF assms(1)]
    by (simp add: subnormal_bits_def ieee754_values(3,4,6) Let_def)
qed

lemma normal_bits_ieee:
  assumes "exact_log2 log2" "fields w = (neg, e, m)" "e \<noteq> 0" "e \<noteq> 2047"
  shows "normal_bits log2 (if neg then u64_sig_bit else 0) (of_int (2 ^ 52 + m) * 2 powi (e - 1075)) = Some w"
    and "2 powi (- 1022) \<le> (of_int (2 ^ 52 + m) * 2 powi (e - 1075) :: rat)"
proof -
  let ?x = "of_int (2 ^ 52 + m) * 2 powi (e - 1075) :: rat"
  note r = fields_range [OF assms(2)]
  have x: "?x = of_int (2 ^ 52 + m) * 2 powi (e - 1023 - 52)" by simp
  have q: "?x / 2 powi (e - 1023) = 1 + of_int m / 2 ^ 52" unfolding x powi_diff [of "e - 1023"] by (simp add: field_simps)
  have m: "0 \<le> (of_int m :: rat)" "(of_int m :: rat) < 2 ^ 52" using r(3,4) by (simp, metis of_int_less_iff of_int_numeral of_int_power)
  then have "2 powi (e - 1023) * 1 \<le> ?x" "?x < 2 powi (e - 1023) * 2"
    using q by (simp_all add: divide_eq_eq mult.commute) 
  then have b: "2 powi (e - 1023) \<le> ?x" "?x < 2 powi (e - 1023 + 1)" 
    using power_int_add_1 [of "2 :: rat" "e - 1023"] by (simp_all add: mult.commute)
  have "(2 :: rat) powi (- 1022) \<le> 2 powi (e - 1023)" using r(1) assms(3) by (intro power_int_increasing) auto
  then show "2 powi (- 1022) \<le> ?x" using b(1) by linarith
  have l: "log2 ?x = e - 1023" by (rule log2_unique [OF assms(1) b])
  have "?x / 2 powi (e - 1023) * of_int (2 ^ 52) - of_int (2 ^ 52) = of_int m" unfolding q by (simp add: field_simps)
  then show "normal_bits log2 (if neg then u64_sig_bit else 0) ?x = Some w"
    using r assms(3,4) l q m pack_all [OF assms(2)] by (simp add: normal_bits_def ieee754_values(2,4,6) Let_def)
qed

lemma nan_bits: "\<exists>w. float_bits log2 is_sub (FNaN neg) = Some w \<and> ieee_value w = FNaN neg"
  by (cases neg) (simp_all add: float_bits_def pack_def ieee754_values ieee754_mnt_size_def u64_sig_bit_def ieee_value_def
      push_bit_eq_mult mask_eq_exp_minus_1)

lemma float_bits_ieee:
  assumes "exact_log2 log2" "binary64_sub is_sub" "\<forall>neg. ieee_value w \<noteq> FNaN neg"
  shows "float_bits log2 is_sub (ieee_value w) = Some w"
proof -
  obtain neg e m where f: "fields w = (neg, e, m)" by (cases "fields w")
  note p = pack_all [OF f]
  have v: "ieee_value w = (if e = 2047 then if m = 0 then FInf neg else FNaN neg
      else if e = 0 then FNum neg (of_int m * 2 powi (- 1074))
      else FNum neg (of_int (2 ^ 52 + m) * 2 powi (e - 1075)))"
    using f by (auto simp: ieee_value_def fields_def)
  have "\<not> (e = 2047 \<and> m \<noteq> 0)"
  proof
    assume "e = 2047 \<and> m \<noteq> 0"
    then show False using assms(3) [rule_format, of neg] v by simp
  qed
  then consider "e = 2047" "m = 0" | "e = 0" "m = 0" | "e = 0" "m \<noteq> 0" | "e \<noteq> 0" "e \<noteq> 2047" by blast
  then show ?thesis
  proof cases
    case 3
    let ?x = "of_int m * 2 powi (- 1074) :: rat"
    have s: "subnormal_bits (if neg then u64_sig_bit else 0) ?x = Some w" by (rule subnormal_bits_ieee [OF _ 3(2)]) (use f 3 in simp)
    have m: "0 < m" "m < 2 ^ 52" using fields_range [OF f] 3(2) by simp_all
    have "of_int m < (2 ^ 52 :: rat)" using m(2) by (metis of_int_less_iff of_int_numeral of_int_power)
    then have "?x < 2 ^ 52 * 2 powi (- 1074)" by (intro mult_strict_right_mono) simp_all
    also have "\<dots> = 2 powi (- 1022)" using power_int_add [of "2 :: rat" 52 "- 1074"] by simp
    finally have x: "0 < ?x" "?x < 2 powi (- 1022)" using m(1) by simp_all
    have "log2 ?x < - 1022"
    proof (rule ccontr)
      assume "\<not> log2 ?x < - 1022"
      then have "(2 :: rat) powi (- 1022) \<le> 2 powi log2 ?x" by (intro power_int_increasing) auto
      then show False using x assms(1) unfolding exact_log2_def by fastforce
    qed
    then have "normal_bits log2 (if neg then u64_sig_bit else 0) ?x = Some w"
      using s by (simp add: normal_bits_def ieee754_values(2,4) Let_def)
    then show ?thesis using s 3 v x(1) by (simp add: float_bits_def Let_def)
  next
    case 4
    note n = normal_bits_ieee [OF assms(1) f 4]
    have "\<not> is_sub (of_int (2 ^ 52 + m) * 2 powi (e - 1075))" using assms(2) n(2) unfolding binary64_sub_def by fastforce
    moreover have "(of_int (2 ^ 52 + m) * 2 powi (e - 1075) :: rat) \<noteq> 0"
      using fields_range [OF f] by simp
    ultimately show ?thesis using n(1) v 4 by (simp add: float_bits_def Let_def del: of_int_add)
  qed (use p v in \<open>simp_all add: float_bits_def ieee754_values Let_def\<close>)
qed

text \<open>
  A logarithm that was rounded up to the next integer, as \<^verbatim>\<open>log2l\<close> does just below a power of two
  when \<^verbatim>\<open>long double\<close> is no wider than \<^verbatim>\<open>double\<close>: the number is refused.
\<close>

lemma rounded_log_refused:
  assumes "2 powi (- 1022) \<le> x" "x < 2 powi (log2 x)" "log2 x \<le> 1023"
  shows "normal_bits log2 num x = None"
proof -
  have "1 \<le> x / 2 powi (- 1022)" using assms(1) by (simp add: le_divide_eq)
  then have "2 ^ 52 \<le> \<lfloor>x / 2 powi (- 1022) * of_int (2 ^ 52)\<rfloor>" unfolding le_floor_iff by simp
  then have "subnormal_bits num x = None" unfolding subnormal_bits_def ieee754_values Let_def by simp
  moreover have "\<not> x / 2 powi (log2 x) \<ge> 1" using assms(2) by (simp add: le_divide_eq)
  ultimately show ?thesis using assms(3) by (simp add: normal_bits_def ieee754_values(2) Let_def)
qed

definition floor_log2 :: "rat \<Rightarrow> int" where
  "floor_log2 x = \<lfloor>log 2 (of_rat x)\<rfloor>"

lemma of_rat_powi: "real_of_rat (2 powi k) = 2 powi k"
  by (simp add: power_int_def of_rat_inverse of_rat_power of_rat_divide)

lemma floor_log2_exact: "exact_log2 floor_log2"
proof -
  have "2 powi floor_log2 x \<le> x \<and> x < 2 powi (floor_log2 x + 1)" if "0 < x" for x :: rat
  proof -
    have "0 < real_of_rat x" using that by simp
    then have "2 powr of_int (floor_log2 x) \<le> real_of_rat x \<and> real_of_rat x < 2 powr of_int (floor_log2 x + 1)"
      using floor_log_eq_powr_iff [of "real_of_rat x" 2 "floor_log2 x"] by (simp add: floor_log2_def)
    then have "real_of_rat (2 powi floor_log2 x) \<le> real_of_rat x \<and> real_of_rat x < real_of_rat (2 powi (floor_log2 x + 1))"
      unfolding of_rat_powi
      using powr_real_of_int' [of "2 :: real" "floor_log2 x"] powr_real_of_int' [of "2 :: real" "floor_log2 x + 1"] by simp
    then show ?thesis by (simp add: of_rat_less of_rat_less_eq)
  qed
  then show ?thesis by (simp add: exact_log2_def)
qed

section \<open>Properties\<close>



end
