(* ===== verification/CString.thy ===== *)
theory CString
  imports Prelude
begin

text \<open>
  What the sources use of the C library on strings: white space, \<^verbatim>\<open>strtol\<close>,
  \<^verbatim>\<open>strtok_r\<close>, and the conversions \<^verbatim>\<open>%02x\<close>, \<^verbatim>\<open>%u\<close>, \<^verbatim>\<open>%.9u\<close> of
  \<^verbatim>\<open>printf\<close> and \<^verbatim>\<open>std::to_string\<close>. A \<^verbatim>\<open>long\<close> has 64 bits.
\<close>

section \<open>Characters\<close>

definition isspace :: "char \<Rightarrow> bool" where
  "isspace c \<longleftrightarrow> of_char c = (32 :: nat) \<or> (9 :: nat) \<le> of_char c \<and> of_char c \<le> (13 :: nat)"

abbreviation NUL :: char where "NUL \<equiv> CHR 0x00"

text \<open>The characters of \<^verbatim>\<open>c_str()\<close> before the terminating zero.\<close>

definition c_str :: "string \<Rightarrow> string" where
  "c_str s = takeWhile (\<lambda>c. c \<noteq> NUL) s"

definition digit_val :: "char \<Rightarrow> nat option" where
  "digit_val c =
     (let n = of_char c :: nat
      in if 48 \<le> n \<and> n \<le> 57 then Some (n - 48)
         else if 97 \<le> n \<and> n \<le> 122 then Some (n - 97 + 10)
         else if 65 \<le> n \<and> n \<le> 90 then Some (n - 65 + 10)
         else None)"

definition is_digit :: "nat \<Rightarrow> char \<Rightarrow> bool" where
  "is_digit base c \<longleftrightarrow> (case digit_val c of None \<Rightarrow> False | Some d \<Rightarrow> d < base)"

definition digits_val :: "nat \<Rightarrow> string \<Rightarrow> nat" where
  "digits_val base s = foldl (\<lambda>a c. a * base + the (digit_val c)) 0 s"

section \<open>\<open>strtol\<close>\<close>

definition strtol_sign :: "string \<Rightarrow> bool \<times> string" where
  "strtol_sign s =
     (case s of
        [] \<Rightarrow> (False, s)
      | c # cs \<Rightarrow> if c = CHR ''-'' then (True, cs) else if c = CHR ''+'' then (False, cs) else (False, s))"

definition hex_prefix :: "string \<Rightarrow> bool" where
  "hex_prefix s =
     (case s of
        z # x # d # _ \<Rightarrow> z = CHR ''0'' \<and> (x = CHR ''x'' \<or> x = CHR ''X'') \<and> is_digit 16 d
      | _ \<Rightarrow> False)"

definition strtol_base :: "nat \<Rightarrow> string \<Rightarrow> nat \<times> string" where
  "strtol_base base s =
     (if (base = 16 \<or> base = 0) \<and> hex_prefix s then (16, drop 2 s)
      else if base = 0 then (if s \<noteq> [] \<and> hd s = CHR ''0'' then 8 else 10, s)
      else (base, s))"

definition LONG_MAX :: int where "LONG_MAX = 2 ^ 63 - 1"

definition LONG_MIN :: int where "LONG_MIN = - (2 ^ 63)"

text \<open>The value and what \<^verbatim>\<open>endptr\<close> points to, the argument itself when there is no number.\<close>

definition strtol :: "nat \<Rightarrow> string \<Rightarrow> int \<times> string" where
  "strtol base s =
     (let (neg, s2) = strtol_sign (dropWhile isspace s);
          (b, s3) = strtol_base base s2;
          ds = takeWhile (is_digit b) s3;
          n = int (digits_val b ds)
      in if ds = [] then (0, s)
         else (max LONG_MIN (min LONG_MAX (if neg then - n else n)), drop (length ds) s3))"

section \<open>\<open>strtok_r\<close>\<close>

text \<open>The tokens a loop over \<^verbatim>\<open>strtok_r\<close> sees: the maximal non-empty parts without separators.\<close>

function strtok :: "(char \<Rightarrow> bool) \<Rightarrow> string \<Rightarrow> string list" where
  "strtok sep s =
     (let t = dropWhile sep s
      in if t = [] then []
         else takeWhile (\<lambda>c. \<not> sep c) t # strtok sep (dropWhile (\<lambda>c. \<not> sep c) t))"
  by pat_completeness auto
termination
proof (relation "measure (\<lambda>(sep, s). length s)")
  fix sep :: "char \<Rightarrow> bool" and s t :: string
  assume t: "t = dropWhile sep s" "t \<noteq> []"
  then have "\<not> sep (hd t)" using hd_dropWhile by blast
  then have "length (dropWhile (\<lambda>c. \<not> sep c) t) < length t"
    using t(2) by (cases t) (simp_all add: length_dropWhile_le le_imp_less_Suc)
  also have "\<dots> \<le> length s" using t(1) by (simp add: length_dropWhile_le)
  finally show "((sep, dropWhile (\<lambda>c. \<not> sep c) t), sep, s) \<in> measure (\<lambda>(sep, s). length s)" by simp
qed simp

declare strtok.simps [simp del]

section \<open>Printing numbers\<close>

definition digit :: "nat \<Rightarrow> char" where
  "digit n = ''0123456789abcdef'' ! n"

definition hex2 :: "byte \<Rightarrow> string" where
  "hex2 b = [digit (unat b div 16), digit (unat b mod 16)]"

fun dec :: "nat \<Rightarrow> string" where
  "dec n = (if n < 10 then [digit n] else dec (n div 10) @ [digit (n mod 10)])"

declare dec.simps [simp del]

definition to_string :: "int \<Rightarrow> string" where
  "to_string n = (if n < 0 then CHR ''-'' # dec (nat (- n)) else dec (nat n))"

definition pad_left :: "nat \<Rightarrow> string \<Rightarrow> string" where
  "pad_left n s = replicate (n - length s) (CHR ''0'') @ s"

section \<open>Laws\<close>

lemma digit_table:
  "list_all (\<lambda>n. \<not> isspace (digit n) \<and> digit n \<noteq> CHR ''-'' \<and> digit n \<noteq> CHR ''+'' \<and>
     digit n \<noteq> CHR ''x'' \<and> digit n \<noteq> CHR ''X'' \<and> digit_val (digit n) = Some n \<and>
     digit n \<notin> {CHR '':'', CHR ''.'', CHR ''-''} \<and> digit n \<noteq> NUL) [0..<16]"
  by code_simp

lemma digit_facts:
  assumes "n < 16"
  shows "\<not> isspace (digit n)" "digit n \<noteq> CHR ''-''" "digit n \<noteq> CHR ''+''" "digit n \<noteq> CHR ''x''"
    "digit n \<noteq> CHR ''X''" "digit_val (digit n) = Some n" "digit n \<notin> {CHR '':'', CHR ''.'', CHR ''-''}"
    "digit n \<noteq> NUL"
  using digit_table assms unfolding list_all_iff set_upt by simp_all

lemma is_digit_digit: "n < base \<Longrightarrow> base \<le> 16 \<Longrightarrow> is_digit base (digit n)"
  by (simp add: is_digit_def digit_facts)

lemma unat_byte_nibbles: "unat (b :: byte) div 16 < 16" "unat b mod 16 < 16"
proof -
  have "unat b < 2 ^ LENGTH(8)" by (rule unsigned_less)
  then show "unat b div 16 < 16" "unat b mod 16 < 16" by simp_all
qed

lemma strtol_hex2: "strtol 16 (hex2 b) = (uint b, [])"
proof -
  note n = unat_byte_nibbles [of b]
  have "hex_prefix (hex2 b) = False" by (simp add: hex_prefix_def hex2_def)
  moreover have "int (unat b div 16) * 16 + int (unat b mod 16) = uint b"
    by (metis int_ops(7) of_nat_add of_nat_numeral div_mult_mod_eq uint_nat)
  moreover have "uint b < 256" using uint_lt2p [of b] by simp
  ultimately show ?thesis
    by (simp add: strtol_def strtol_sign_def strtol_base_def hex2_def digit_facts [OF n(1)] digit_facts [OF n(2)]
        is_digit_digit n digits_val_def Let_def LONG_MAX_def LONG_MIN_def)
qed

text \<open>Tokens of a text made of separator-free parts.\<close>

lemma strtok_one: "t \<noteq> [] \<Longrightarrow> \<forall>c\<in>set t. \<not> sep c \<Longrightarrow> strtok sep t = [t]"
proof -
  assume t: "t \<noteq> []" "\<forall>c\<in>set t. \<not> sep c"
  then have "dropWhile sep t = t" by (cases t) simp_all
  moreover have "strtok sep (dropWhile (\<lambda>c. \<not> sep c) t) = []"
    using t(2) by (simp add: strtok.simps [of sep "[]"] dropWhile_eq_Nil_conv [THEN iffD2])
  ultimately show ?thesis using t by (subst strtok.simps) simp
qed

lemma strtok_cons:
  assumes "t \<noteq> []" "\<forall>c\<in>set t. \<not> sep c" "sep x"
  shows "strtok sep (t @ x # rest) = t # strtok sep rest"
proof -
  have t: "dropWhile sep (t @ x # rest) = t @ x # rest" "takeWhile (\<lambda>c. \<not> sep c) (t @ x # rest) = t"
      "dropWhile (\<lambda>c. \<not> sep c) (t @ x # rest) = x # rest"
    using assms by (cases t; simp add: takeWhile_append dropWhile_append)+
  have "strtok sep (x # rest) = strtok sep rest"
    using assms(3) by (simp add: strtok.simps [of sep "x # rest"] strtok.simps [of sep rest])
  then show ?thesis by (subst strtok.simps) (simp add: t assms(1))
qed

end
