(* ===== verification/Bin.thy ===== *)
theory Bin
  imports MsgTypes CString
begin

text \<open>
  Class \<^verbatim>\<open>Binary\<close> of \<^verbatim>\<open>src/bin.h\<close> and \<^verbatim>\<open>src/bin.cpp\<close>: the octets of an address and
  their text forms. The object is its member \<^verbatim>\<open>m_str\<close>, a list of octets; a method that changes it
  takes it as its last argument and returns the new one.

  \<^verbatim>\<open>inet_ntop\<close> and \<^verbatim>\<open>inet_pton\<close> of the system are arguments of the functions that call them:
  the text of an address, and the address of a text.
\<close>

section \<open>Access\<close>

definition EUI48 :: nat where "EUI48 = 6"

definition EUI64 :: nat where "EUI64 = 8"

definition resize :: "nat \<Rightarrow> Binary \<Rightarrow> Binary" where
  "resize n b = take n b @ replicate (n - length b) 0"

definition setBin_at :: "nat \<Rightarrow> u8 \<Rightarrow> Binary \<Rightarrow> Binary" where
  "setBin_at position val b =
     (let b' = (if position \<ge> length b then resize (position + 1) b else b) in b'[position := val])"

definition getBin :: "nat \<Rightarrow> Binary \<Rightarrow> u8" where
  "getBin position b = (if position \<ge> length b then 0 else b ! position)"

definition append_octet :: "u8 \<Rightarrow> Binary \<Rightarrow> Binary" where
  "append_octet octet b = b @ [octet]"

definition append_Binary :: "Binary \<Rightarrow> Binary \<Rightarrow> Binary" where
  "append_Binary rhs b = b @ rhs"

definition isMacLen :: "Binary \<Rightarrow> bool" where
  "isMacLen b \<longleftrightarrow> length b = EUI48 \<or> length b = EUI64"

section \<open>Texts\<close>

definition idsep :: "char \<Rightarrow> bool" where
  "idsep c \<longleftrightarrow> c \<in> set '':.-''"

definition bufToId :: "byte list \<Rightarrow> string" where
  "bufToId bs = (case bs of [] \<Rightarrow> [] | b # cs \<Rightarrow> hex2 b @ concat (map (\<lambda>c. CHR '':'' # hex2 c) cs))"

definition toId :: "Binary \<Rightarrow> string" where "toId b = bufToId b"

definition bufToHex :: "byte list \<Rightarrow> string" where
  "bufToHex bs = concat (map hex2 bs)"

definition toHex :: "Binary \<Rightarrow> string" where "toHex b = bufToHex b"

text \<open>The loop of \<^verbatim>\<open>fromId\<close> over the tokens; \<^term>\<open>None\<close> is the early return.\<close>

fun fromId_loop :: "string list \<Rightarrow> byte list \<Rightarrow> byte list option" where
  "fromId_loop [] bs = Some bs"
| "fromId_loop (cur # ts) bs =
     (let (a, end) = strtol 16 cur
      in if length end = length cur \<or> end \<noteq> [] \<or> a < 0 \<or> a > 0xff then None
         else fromId_loop ts (bs @ [word_of_int a]))"

definition fromId :: "string \<Rightarrow> Binary \<Rightarrow> bool \<times> Binary" where
  "fromId s b =
     (if length s < 2 then (False, b)
      else case fromId_loop (strtok idsep (c_str s)) [] of None \<Rightarrow> (False, b) | Some bs \<Rightarrow> (True, bs))"

definition fromMac :: "string \<Rightarrow> Binary \<Rightarrow> bool \<times> Binary" where
  "fromMac s b = (let (r, b') = fromId s b in (r \<and> isMacLen b', b'))"

definition eui48ToEui64 :: "Binary \<Rightarrow> bool \<times> Binary" where
  "eui48ToEui64 b =
     (if length b = EUI64 then (True, b)
      else if length b \<noteq> EUI48 then (False, b)
      else (True, take 3 b @ [0xff] @ [0xfe] @ drop 3 b))"

text \<open>
  The inner steps of \<^verbatim>\<open>fromHex\<close> on one token: two characters at a time, the last octet may have
  one.
\<close>

definition nibbles_val :: "string \<Rightarrow> byte option" where
  "nibbles_val ns =
     (let (val, end) = strtol 16 ns
      in if end \<noteq> [] \<or> val < 0 \<or> val > 0xff then None else Some (word_of_int val))"

fun hex_token :: "string \<Rightarrow> byte list \<Rightarrow> byte list option" where
  "hex_token [] bs = Some bs"
| "hex_token [c] bs = map_option (\<lambda>v. bs @ [v]) (nibbles_val [c])"
| "hex_token (c # d # cs) bs =
     (case nibbles_val [c, d] of None \<Rightarrow> None | Some v \<Rightarrow> hex_token cs (bs @ [v]))"

fun fromHex_loop :: "string list \<Rightarrow> byte list \<Rightarrow> byte list option" where
  "fromHex_loop [] bs = Some bs"
| "fromHex_loop (t # ts) bs = (case hex_token t bs of None \<Rightarrow> None | Some bs' \<Rightarrow> fromHex_loop ts bs')"

definition fromHex :: "string \<Rightarrow> Binary \<Rightarrow> bool \<times> Binary" where
  "fromHex hex b =
     (if hex = [] then (False, b)
      else case fromHex_loop (strtok idsep (c_str hex)) [] of None \<Rightarrow> (False, b) | Some bs \<Rightarrow> (True, bs))"

section \<open>Internet addresses\<close>

datatype domain = AF_INET | AF_INET6 | AF_OTHER

definition toIp :: "(domain \<Rightarrow> byte list \<Rightarrow> string option) \<Rightarrow> Binary \<Rightarrow> string" where
  "toIp inet_ntop b =
     (let ret = (if length b = 4 then inet_ntop AF_INET b else None);
          ret' = (if length b = 16 then inet_ntop AF_INET6 b else ret)
      in case ret' of None \<Rightarrow> [] | Some t \<Rightarrow> t)"

definition fromIp_domain :: "(domain \<Rightarrow> string \<Rightarrow> byte list option) \<Rightarrow> domain \<Rightarrow> string \<Rightarrow> Binary \<Rightarrow>
    bool \<times> Binary" where
  "fromIp_domain inet_pton af s b =
     (if length s < 2 \<or> af = AF_OTHER then (False, b)
      else case inet_pton af (c_str s) of
             None \<Rightarrow> (False, b)
           | Some buf \<Rightarrow> (True, take (if af = AF_INET then 4 else 16) buf))"

definition fromIp :: "(domain \<Rightarrow> string \<Rightarrow> byte list option) \<Rightarrow> string \<Rightarrow> Binary \<Rightarrow> bool \<times> Binary" where
  "fromIp inet_pton s b =
     (if length s < 2 then (False, b)
      else if CHR ''.'' \<in> set s then fromIp_domain inet_pton AF_INET s b
      else if CHR '':'' \<in> set s then fromIp_domain inet_pton AF_INET6 s b
      else (False, b))"

section \<open>Lemmas\<close>

lemma hex2_chars: "c \<in> set (hex2 b) \<Longrightarrow> \<not> idsep c \<and> c \<noteq> NUL"
  using digit_facts [OF unat_byte_nibbles(1) [of b]] digit_facts [OF unat_byte_nibbles(2) [of b]]
  by (auto simp: hex2_def idsep_def)

lemma hex2_ne [simp]: "hex2 b \<noteq> []" "length (hex2 b) = 2"
  by (simp_all add: hex2_def)

lemma c_str_id: "NUL \<notin> set s \<Longrightarrow> c_str s = s"
  by (auto simp: c_str_def)

lemma uint_byte: "0 \<le> uint (b :: byte)" "uint b \<le> 0xff"
  using uint_lt2p [of b] by simp_all

lemma strtok_bufToId: "strtok idsep (bufToId bs) = map hex2 bs"
proof (cases bs)
  case Nil
  then show ?thesis by (simp add: bufToId_def strtok.simps)
next
  case (Cons b cs)
  have "strtok idsep (hex2 b @ concat (map (\<lambda>c. CHR '':'' # hex2 c) cs)) = hex2 b # map hex2 cs"
  proof (induction cs arbitrary: b)
    case Nil
    then show ?case using strtok_one [of "hex2 b" idsep] hex2_chars [of _ b] by auto
  next
    case (Cons c cs)
    have "idsep (CHR '':'')" by (simp add: idsep_def)
    then have "strtok idsep (hex2 b @ CHR '':'' # rest) = hex2 b # strtok idsep rest" for rest
      using hex2_chars [of _ b] by (intro strtok_cons) auto
    with Cons show ?case by simp
  qed
  with Cons show ?thesis by (simp add: bufToId_def)
qed

lemma NUL_bufToId: "NUL \<notin> set (bufToId bs)"
  using hex2_chars by (cases bs) (auto simp: bufToId_def)

lemma fromId_loop_hex2: "fromId_loop (map hex2 bs) cs = Some (cs @ bs)"
  by (induction bs arbitrary: cs) (simp_all add: strtol_hex2 uint_byte not_less)

lemma hex_token_hex2: "hex_token (concat (map hex2 bs)) cs = Some (cs @ bs)"
proof (induction bs arbitrary: cs)
  case (Cons b bs)
  have "nibbles_val (hex2 b) = Some b" by (simp add: nibbles_val_def strtol_hex2 uint_byte not_less)
  then show ?case using Cons by (simp add: hex2_def)
qed simp

lemma bufToHex_chars: "c \<in> set (bufToHex bs) \<Longrightarrow> \<not> idsep c \<and> c \<noteq> NUL"
  using hex2_chars by (auto simp: bufToHex_def)

section \<open>Properties\<close>

text \<open>
  Property C31. The text of octets that \<^verbatim>\<open>toId\<close> and \<^verbatim>\<open>toHex\<close> give is read back by
  \<^verbatim>\<open>fromId\<close> and \<^verbatim>\<open>fromHex\<close>, whatever the object held before.
\<close>

theorem binary_text_roundtrip:
  assumes "b \<noteq> []"
  shows "fromId (toId b) old = (True, b) \<and> fromHex (toHex b) old = (True, b)"
proof
  obtain x xs where b: "b = x # xs" using assms by (cases b) auto
  then have "\<not> length (toId b) < 2" by (simp add: toId_def bufToId_def)
  then show "fromId (toId b) old = (True, b)"
    by (simp add: fromId_def toId_def c_str_id NUL_bufToId strtok_bufToId fromId_loop_hex2)
  have ne: "bufToHex b \<noteq> []" using b by (simp add: bufToHex_def hex2_def)
  have "strtok idsep (bufToHex b) = [bufToHex b]"
    using strtok_one [OF ne, of idsep] bufToHex_chars by blast
  moreover have "NUL \<notin> set (bufToHex b)" using bufToHex_chars by blast
  ultimately show "fromHex (toHex b) old = (True, b)"
    using ne hex_token_hex2 [of b "[]"]
    by (simp add: fromHex_def toHex_def c_str_id) (simp add: bufToHex_def)
qed

theorem binary_text_roundtrip_witness:
  "toId [0, 0x1b, 0xff] = ''00:1b:ff'' \<and> fromId ''00:1b:ff'' [] = (True, [0, 0x1b, 0xff])"
proof -
  have "toId [0, 0x1b, 0xff] = ''00:1b:ff''" by code_simp
  then show ?thesis using binary_text_roundtrip [of "[0, 0x1b, 0xff]" "[]"] by simp
qed

text \<open>
  The text of an IPv6 address is read back by \<^verbatim>\<open>fromIp\<close> when the system writes it
  without dots, and refused when it has dots, as the text of an IPv4-mapped address has:
  \<^verbatim>\<open>fromIp\<close> takes every text with a dot for an IPv4 address. The hypotheses say that the system
  reads back what it writes and does not take the text for an IPv4 address.
\<close>

lemma ip_text_roundtrip:
  assumes "length b = 16" and "inet_ntop AF_INET6 b = Some txt"
    and "inet_pton AF_INET6 txt = Some b" and "inet_pton AF_INET txt = None"
    and "CHR '':'' \<in> set txt" and "2 \<le> length txt" and "NUL \<notin> set txt"
  shows "fromIp inet_pton (toIp inet_ntop b) old =
    (if CHR ''.'' \<in> set txt then (False, old) else (True, b))"
  using assms by (simp add: toIp_def fromIp_def fromIp_domain_def c_str_id not_less)

lemma ip_text_roundtrip_example:
  "fromIp (\<lambda>d t. if d = AF_INET6 \<and> t = ''::ffff:1.2.3.4'' then Some (replicate 10 0 @ [255, 255, 1, 2, 3, 4]) else None)
     (toIp (\<lambda>d b. Some ''::ffff:1.2.3.4'') (replicate 10 0 @ [255, 255, 1, 2, 3, 4])) [9] = (False, [9])"
  using ip_text_roundtrip [of "replicate 10 0 @ [255, 255, 1, 2, 3, 4]" "\<lambda>d b. Some ''::ffff:1.2.3.4''"
      "''::ffff:1.2.3.4''" "\<lambda>d t. if d = AF_INET6 \<and> t = ''::ffff:1.2.3.4''
        then Some (replicate 10 0 @ [255, 255, 1, 2, 3, 4]) else None" "[9]"]
  by simp

end
