(* ===== verification/MsgStr.thy ===== *)
theory MsgStr
  imports Bin
begin

text \<open>
  The texts of \<^verbatim>\<open>src/msg.cpp\<close>: the names of errors, TLV types, actions and the other enumerations
  (\<^verbatim>\<open>err2str_c\<close> to \<^verbatim>\<open>ts2str_c\<close>), and the texts of time stamps, identities and addresses. A switch
  whose cases all return the name of the enumerator is the table of its cases.
\<close>

section \<open>Names\<close>

fun err2str_c :: "MNG_PARSE_ERROR_e \<Rightarrow> string" where
  "err2str_c MNG_PARSE_ERROR_OK = ''MNG_PARSE_ERROR_OK''"
| "err2str_c MNG_PARSE_ERROR_MSG = ''MNG_PARSE_ERROR_MSG''"
| "err2str_c MNG_PARSE_ERROR_INVALID_ID = ''MNG_PARSE_ERROR_INVALID_ID''"
| "err2str_c MNG_PARSE_ERROR_INVALID_TLV = ''MNG_PARSE_ERROR_INVALID_TLV''"
| "err2str_c MNG_PARSE_ERROR_SIZE_MISS = ''MNG_PARSE_ERROR_SIZE_MISS''"
| "err2str_c MNG_PARSE_ERROR_TOO_SMALL = ''MNG_PARSE_ERROR_TOO_SMALL''"
| "err2str_c MNG_PARSE_ERROR_SIZE = ''MNG_PARSE_ERROR_SIZE''"
| "err2str_c MNG_PARSE_ERROR_VAL = ''MNG_PARSE_ERROR_VAL''"
| "err2str_c MNG_PARSE_ERROR_HEADER = ''MNG_PARSE_ERROR_HEADER''"
| "err2str_c MNG_PARSE_ERROR_ACTION = ''MNG_PARSE_ERROR_ACTION''"
| "err2str_c MNG_PARSE_ERROR_UNSUPPORT = ''MNG_PARSE_ERROR_UNSUPPORT''"
| "err2str_c MNG_PARSE_ERROR_MEM = ''MNG_PARSE_ERROR_MEM''"
| "err2str_c MNG_PARSE_ERROR_SIG = ''unknown''"

text \<open>The name of a value in the table of a switch, or the text of its default.\<close>

definition name_of :: "('v \<times> string) list \<Rightarrow> string \<Rightarrow> 'v \<Rightarrow> string" where
  "name_of tbl dflt v = (case map_of tbl v of None \<Rightarrow> dflt | Some s \<Rightarrow> s)"

definition tlv2str_names :: "(tlvType_e \<times> string) list" where
  "tlv2str_names = [
     (0x01, ''MANAGEMENT''),
     (0x02, ''MANAGEMENT_ERROR_STATUS''),
     (0x03, ''ORGANIZATION_EXTENSION''),
     (0x04, ''REQUEST_UNICAST_TRANSMISSION''),
     (0x05, ''GRANT_UNICAST_TRANSMISSION''),
     (0x06, ''CANCEL_UNICAST_TRANSMISSION''),
     (0x07, ''ACKNOWLEDGE_CANCEL_UNICAST_TRANSMISSION''),
     (0x08, ''PATH_TRACE''),
     (0x09, ''ALTERNATE_TIME_OFFSET_INDICATOR''),
     (0x4000, ''ORGANIZATION_EXTENSION_PROPAGATE''),
     (0x4001, ''ENHANCED_ACCURACY_METRICS''),
     (0x8000, ''ORGANIZATION_EXTENSION_DO_NOT_PROPAGATE''),
     (0x8001, ''L1_SYNC''),
     (0x8002, ''PORT_COMMUNICATION_AVAILABILITY''),
     (0x8003, ''PROTOCOL_ADDRESS''),
     (0x8004, ''SLAVE_RX_SYNC_TIMING_DATA''),
     (0x8005, ''SLAVE_RX_SYNC_COMPUTED_DATA''),
     (0x8006, ''SLAVE_TX_EVENT_TIMESTAMPS''),
     (0x8007, ''CUMULATIVE_RATE_RATIO''),
     (0x8009, ''AUTHENTICATION''),
     (0x7f00, ''SLAVE_DELAY_TIMING_DATA_NP''),
     (0x8008, ''PAD'')]"

definition tlv2str_c :: "tlvType_e \<Rightarrow> string" where
  "tlv2str_c val = name_of tlv2str_names ''unknown TLV'' val"

definition act2str_names :: "(actionField_e \<times> string) list" where
  "act2str_names = [
     (0x00, ''GET''),
     (0x01, ''SET''),
     (0x02, ''RESPONSE''),
     (0x03, ''COMMAND''),
     (0x04, ''ACKNOWLEDGE'')]"

definition act2str_c :: "actionField_e \<Rightarrow> string" where
  "act2str_c val = name_of act2str_names ''unknown'' val"

definition errId2str_names :: "(managementErrorId_e \<times> string) list" where
  "errId2str_names = [
     (0x01, ''RESPONSE_TOO_BIG''),
     (0x02, ''NO_SUCH_ID''),
     (0x03, ''WRONG_LENGTH''),
     (0x04, ''WRONG_VALUE''),
     (0x05, ''NOT_SETABLE''),
     (0x06, ''NOT_SUPPORTED''),
     (0xfffe, ''GENERAL_ERROR'')]"

definition errId2str_c :: "managementErrorId_e \<Rightarrow> string" where
  "errId2str_c val = name_of errId2str_names ''unknown'' val"

definition clkType2str_names :: "(clockType_e \<times> string) list" where
  "clkType2str_names = [
     (0x8000, ''ordinaryClock''),
     (0x4000, ''boundaryClock''),
     (0x2000, ''p2pTransparentClock''),
     (0x1000, ''e2eTransparentClock''),
     (0x800, ''managementClock'')]"

definition clkType2str_c :: "clockType_e \<Rightarrow> string" where
  "clkType2str_c val = name_of clkType2str_names ''unknown'' val"

definition netProt2str_names :: "(networkProtocol_e \<times> string) list" where
  "netProt2str_names = [
     (0x01, ''UDP_IPv4''),
     (0x02, ''UDP_IPv6''),
     (0x03, ''IEEE_802_3''),
     (0x04, ''DeviceNet''),
     (0x05, ''ControlNet''),
     (0x06, ''PROFINET'')]"

definition netProt2str_c :: "networkProtocol_e \<Rightarrow> string" where
  "netProt2str_c val = name_of netProt2str_names ''unknown'' val"

definition clockAcc2str_names :: "(clockAccuracy_e \<times> string) list" where
  "clockAcc2str_names = [
     (0x17, ''Accurate_within_1ps''),
     (0x18, ''Accurate_within_2_5ps''),
     (0x19, ''Accurate_within_10ps''),
     (0x1a, ''Accurate_within_25ps''),
     (0x1b, ''Accurate_within_100ps''),
     (0x1c, ''Accurate_within_250ps''),
     (0x1d, ''Accurate_within_1ns''),
     (0x1e, ''Accurate_within_2_5ns''),
     (0x1f, ''Accurate_within_10ns''),
     (0x20, ''Accurate_within_25ns''),
     (0x21, ''Accurate_within_100ns''),
     (0x22, ''Accurate_within_250ns''),
     (0x23, ''Accurate_within_1us''),
     (0x24, ''Accurate_within_2_5us''),
     (0x25, ''Accurate_within_10us''),
     (0x26, ''Accurate_within_25us''),
     (0x27, ''Accurate_within_100us''),
     (0x28, ''Accurate_within_250us''),
     (0x29, ''Accurate_within_1ms''),
     (0x2a, ''Accurate_within_2_5ms''),
     (0x2b, ''Accurate_within_10ms''),
     (0x2c, ''Accurate_within_25ms''),
     (0x2d, ''Accurate_within_100ms''),
     (0x2e, ''Accurate_within_250ms''),
     (0x2f, ''Accurate_within_1s''),
     (0x30, ''Accurate_within_10s''),
     (0x31, ''Accurate_more_10s''),
     (0xef, ''Accurate_Unknown'')]"

definition clockAcc2str_c :: "clockAccuracy_e \<Rightarrow> string" where
  "clockAcc2str_c val =
     name_of clockAcc2str_names (if val < 0x17 then ''small 1ps'' else ''unknown val'') val"

definition faultRec2str_names :: "(faultRecord_e \<times> string) list" where
  "faultRec2str_names = [
     (0x00, ''Emergency''),
     (0x01, ''Alert''),
     (0x02, ''Critical''),
     (0x03, ''Error''),
     (0x04, ''Warning''),
     (0x05, ''Notice''),
     (0x06, ''Informational''),
     (0x07, ''Debug'')]"

definition faultRec2str_c :: "faultRecord_e \<Rightarrow> string" where
  "faultRec2str_c val = name_of faultRec2str_names ''unknown fault record'' val"

definition timeSrc2str_names :: "(timeSource_e \<times> string) list" where
  "timeSrc2str_names = [
     (0x10, ''ATOMIC_CLOCK''),
     (0x20, ''GNSS''),
     (0x30, ''TERRESTRIAL_RADIO''),
     (0x39, ''SERIAL_TIME_CODE''),
     (0x40, ''PTP''),
     (0x50, ''NTP''),
     (0x60, ''HAND_SET''),
     (0x90, ''OTHER''),
     (0xa0, ''INTERNAL_OSCILLATOR'')]"

definition timeSrc2str_c :: "timeSource_e \<Rightarrow> string" where
  "timeSrc2str_c val = name_of timeSrc2str_names ''unknown clock'' val"

definition portState2str_names :: "(portState_e \<times> string) list" where
  "portState2str_names = [
     (0x01, ''INITIALIZING''),
     (0x02, ''FAULTY''),
     (0x03, ''DISABLED''),
     (0x04, ''LISTENING''),
     (0x05, ''PRE_MASTER''),
     (0x06, ''MASTER''),
     (0x07, ''PASSIVE''),
     (0x08, ''UNCALIBRATED''),
     (0x09, ''CLIENT'')]"

definition portState2str_c :: "portState_e \<Rightarrow> string" where
  "portState2str_c val = name_of portState2str_names ''unknown state'' val"

definition ts2str_names :: "(linuxptpTimeStamp_e \<times> string) list" where
  "ts2str_names = [
     (0x00, ''TS_SOFTWARE''),
     (0x01, ''TS_HARDWARE''),
     (0x02, ''TS_LEGACY_HW''),
     (0x03, ''TS_ONESTEP''),
     (0x04, ''TS_P2P1STEP'')]"

definition ts2str_c :: "linuxptpTimeStamp_e \<Rightarrow> string" where
  "ts2str_c val = name_of ts2str_names ''unknown'' val"

section \<open>Texts of structures\<close>

definition Timestamp_string :: "Timestamp_t \<Rightarrow> string" where
  "Timestamp_string t =
     dec (unat (secondsField t)) @ ''.'' @ pad_left 9 (dec (unat (nanosecondsField t)))"

definition ClockIdentity_string :: "ClockIdentity_t \<Rightarrow> string" where
  "ClockIdentity_string c =
     (let v = v_octets c
      in hex2 (v ! 0) @ hex2 (v ! 1) @ hex2 (v ! 2) @ ''.'' @ hex2 (v ! 3) @ hex2 (v ! 4) @ ''.'' @
         hex2 (v ! 5) @ hex2 (v ! 6) @ hex2 (v ! 7))"

definition PortIdentity_string :: "PortIdentity_t \<Rightarrow> string" where
  "PortIdentity_string p =
     ClockIdentity_string (PortIdentity_t.clockIdentity p) @ ''-'' @ to_string (uint (PortIdentity_t.portNumber p))"

definition PortAddress_string :: "(domain \<Rightarrow> byte list \<Rightarrow> string option) \<Rightarrow> PortAddress_t \<Rightarrow> string" where
  "PortAddress_string inet_ntop a =
     (if networkProtocol a = UDP_IPv4 \<or> networkProtocol a = UDP_IPv6 then toIp inet_ntop (addressField a)
      else toId (addressField a))"

section \<open>Properties\<close>

lemma name_of_inj:
  assumes "distinct (map snd tbl)" and "name_of tbl d x = name_of tbl d y" and "map_of tbl x \<noteq> None"
    and "d \<notin> set (map snd tbl)"
  shows "x = y"
proof -
  obtain s where s: "map_of tbl x = Some s" using assms(3) by blast
  have "map_of tbl y = Some s"
  proof (cases "map_of tbl y")
    case None
    then show ?thesis using assms(2,4) s by (force simp: name_of_def dest: map_of_SomeD)
  next
    case (Some s')
    then show ?thesis using assms(2) s by (simp add: name_of_def)
  qed
  then have "(x, s) \<in> set tbl" "(y, s) \<in> set tbl" using s by (auto dest: map_of_SomeD)
  then show ?thesis using assms(1) unfolding distinct_map inj_on_def by fastforce
qed

text \<open>
  \<^verbatim>\<open>tlv2str_c\<close> gives two TLV types the same name only when they are the same or have no name,
  and \<^verbatim>\<open>err2str_c\<close> names all errors but \<^verbatim>\<open>MNG_PARSE_ERROR_SIG\<close>.
\<close>

lemma names_distinct:
  "(tlv2str_c a = tlv2str_c b \<longleftrightarrow> a = b \<or> tlv2str_c a = ''unknown TLV'' \<and> tlv2str_c b = ''unknown TLV'') \<and>
   (err2str_c e = ''unknown'' \<longleftrightarrow> e = MNG_PARSE_ERROR_SIG)"
proof
  have t: "distinct (map snd tlv2str_names)" "''unknown TLV'' \<notin> set (map snd tlv2str_names)"
    by code_simp+
  have "map_of tlv2str_names x = None \<Longrightarrow> tlv2str_c x = ''unknown TLV''" for x
    by (simp add: tlv2str_c_def name_of_def)
  then show "tlv2str_c a = tlv2str_c b \<longleftrightarrow> a = b \<or> tlv2str_c a = ''unknown TLV'' \<and> tlv2str_c b = ''unknown TLV''"
    using name_of_inj [OF t(1) _ _ t(2), of a b] name_of_inj [OF t(1) _ _ t(2), of b a]
    unfolding tlv2str_c_def by (cases "map_of tlv2str_names a"; cases "map_of tlv2str_names b") fastforce+
  show "err2str_c e = ''unknown'' \<longleftrightarrow> e = MNG_PARSE_ERROR_SIG" by (cases e) simp_all
qed

lemma hex_token_app: "hex_token (concat (map hex2 bs) @ cs) acc = hex_token cs (acc @ bs)"
proof (induction bs arbitrary: acc)
  case (Cons b bs)
  have "nibbles_val (hex2 b) = Some b" by (simp add: nibbles_val_def strtol_hex2 uint_byte not_less)
  then show ?case using Cons by (simp add: hex2_def)
qed simp

text \<open>
  The text of a clock identity determines it: \<^verbatim>\<open>Binary::fromHex\<close> reads the eight octets back.
\<close>

lemma clock_identity_text:
  assumes "length (v_octets c) = 8"
  shows "fromHex (ClockIdentity_string c) old = (True, v_octets c)"
proof -
  obtain a0 a1 a2 a3 a4 a5 a6 a7 where v: "v_octets c = [a0, a1, a2, a3, a4, a5, a6, a7]"
    using assms by (auto simp: numeral_eq_Suc length_Suc_conv)
  let ?x = "bufToHex [a0, a1, a2]" and ?y = "bufToHex [a3, a4]" and ?z = "bufToHex [a5, a6, a7]"
  have str: "ClockIdentity_string c = ?x @ CHR ''.'' # ?y @ CHR ''.'' # ?z"
    by (simp add: ClockIdentity_string_def v bufToHex_def numeral_eq_Suc)
  have "idsep (CHR ''.'')" by (simp add: idsep_def)
  moreover have "\<forall>ch\<in>set (bufToHex bs). \<not> idsep ch" for bs using bufToHex_chars by blast
  moreover have "bufToHex (b # bs) \<noteq> []" for b bs by (simp add: bufToHex_def)
  ultimately have "strtok idsep (?x @ CHR ''.'' # ?y @ CHR ''.'' # ?z) = [?x, ?y, ?z]"
    by (simp add: strtok_cons strtok_one)
  moreover have "NUL \<notin> set (?x @ CHR ''.'' # ?y @ CHR ''.'' # ?z)" using bufToHex_chars by auto
  moreover have "fromHex_loop [?x, ?y, ?z] [] = Some (v_octets c)"
    by (simp only: fromHex_loop.simps bufToHex_def hex_token_hex2 option.case) (simp add: v)
  ultimately show ?thesis unfolding fromHex_def str by (simp add: c_str_id)
qed

end
