(* ===== verification/Json.thy ===== *)
theory Json
  imports Message MsgStr
begin

text \<open>
  \<^verbatim>\<open>src/json.cpp\<close>: a message as JSON text. \<open>JsonProcToJson\<close> is the writer with its result, the
  stack of saved \<^verbatim>\<open>m_first\<close> values and the current one; a method takes and returns it, and
  \<^term>\<open>None\<close> is \<^verbatim>\<open>top()\<close> of an empty stack or a cast to the wrong structure. A method that
  returns a boolean returns it with the state; the members of a TLV are written in a chain of
  \<^verbatim>\<open>&&\<close>. The overloads for \<^verbatim>\<open>float\<close> and \<^verbatim>\<open>long double\<close> have no caller.
\<close>

section \<open>Numbers\<close>

text \<open>
  \<^verbatim>\<open>std::to_string(double)\<close> of the scaled nanoseconds divided by \<open>2\<^sup>1\<^sup>6\<close>: conversion of the 64-bit
  integer to a double (53 bits, ties to even), an exact division, and \<^verbatim>\<open>%f\<close>, which rounds the
  exact value to six decimals, ties to even. The sign is printed also when the value rounds to zero.
\<close>

definition round_even :: "nat \<Rightarrow> nat \<Rightarrow> nat" where
  "round_even n k =
     (let q = n div k; r = n mod k
      in if 2 * r > k \<or> 2 * r = k \<and> odd q then q + 1 else q)"

fun bit_len :: "nat \<Rightarrow> nat" where
  "bit_len n = (if n = 0 then 0 else Suc (bit_len (n div 2)))"

declare bit_len.simps [simp del]

definition to_double :: "nat \<Rightarrow> nat" where
  "to_double n = (let k = bit_len n - 53 in round_even n (2 ^ k) * 2 ^ k)"

definition interval_string :: "TimeInterval_t \<Rightarrow> string" where
  "interval_string t =
     (let n = sint (scaledNanoseconds t);
          m = round_even (to_double (nat \<bar>n\<bar>) * 10 ^ 6) (2 ^ 16)
      in (if n < 0 then ''-'' else []) @ dec (m div 10 ^ 6) @ ''.'' @ pad_left 6 (dec (m mod 10 ^ 6)))"

section \<open>The writer\<close>

record JsonProcToJson =
  result :: string
  m_first_vals :: "bool list"
  m_first :: bool

type_synonym jproc = "JsonProcToJson \<Rightarrow> (bool \<times> JsonProcToJson) option"

definition new_JsonProcToJson :: JsonProcToJson where
  "new_JsonProcToJson = \<lparr>result = [], m_first_vals = [], m_first = False\<rparr>"

definition add :: "string \<Rightarrow> JsonProcToJson \<Rightarrow> JsonProcToJson" where
  "add txt s = s\<lparr>result := result s @ txt\<rparr>"

definition j_close :: "JsonProcToJson \<Rightarrow> JsonProcToJson" where
  "j_close s =
     (let s1 = (if \<not> m_first s then add '','' s else s) in (add [CHR 0x0A] s1)\<lparr>m_first := False\<rparr>)"

definition indent :: "JsonProcToJson \<Rightarrow> JsonProcToJson" where
  "indent s = add (concat (replicate (length (m_first_vals s)) ''  '')) s"

definition startName :: "string \<Rightarrow> string \<Rightarrow> JsonProcToJson \<Rightarrow> JsonProcToJson" where
  "startName nm end s = add (CHR 0x22 # nm @ [CHR 0x22] @ '' :'' @ end) (indent (j_close s))"

definition startObject :: "JsonProcToJson \<Rightarrow> JsonProcToJson" where
  "startObject s =
     (let s1 = add ''{'' (indent s) in s1\<lparr>m_first_vals := m_first s1 # m_first_vals s1, m_first := True\<rparr>)"

definition closeObject :: "JsonProcToJson \<Rightarrow> JsonProcToJson option" where
  "closeObject s =
     (let s1 = add [CHR 0x0A] s
      in case m_first_vals s1 of
           [] \<Rightarrow> None
         | t # ts \<Rightarrow> Some (add ''}'' (indent (s1\<lparr>m_first := t, m_first_vals := ts\<rparr>))))"

definition procObject :: "string \<Rightarrow> JsonProcToJson \<Rightarrow> JsonProcToJson" where
  "procObject nm s = startObject (startName nm [CHR 0x0A] s)"

definition startArray :: "JsonProcToJson \<Rightarrow> JsonProcToJson" where
  "startArray s =
     (let s1 = add ''['' (indent s) in s1\<lparr>m_first_vals := m_first s1 # m_first_vals s1, m_first := True\<rparr>)"

definition closeArray :: "JsonProcToJson \<Rightarrow> JsonProcToJson option" where
  "closeArray s =
     (let s1 = add [CHR 0x0A] s
      in case m_first_vals s1 of
           [] \<Rightarrow> None
         | t # ts \<Rightarrow> Some (add '']'' (indent (s1\<lparr>m_first := t, m_first_vals := ts\<rparr>))))"

definition procArray_start :: "string \<Rightarrow> JsonProcToJson \<Rightarrow> JsonProcToJson" where
  "procArray_start nm s = startArray (startName nm [CHR 0x0A] s)"

definition procString :: "string \<Rightarrow> string \<Rightarrow> JsonProcToJson \<Rightarrow> JsonProcToJson" where
  "procString nm val s = add (val @ [CHR 0x22]) (startName nm ('' '' @ [CHR 0x22]) s)"

definition procValue_str :: "string \<Rightarrow> string \<Rightarrow> JsonProcToJson \<Rightarrow> JsonProcToJson" where
  "procValue_str nm val s = add val (startName nm '' '' s)"

definition procValue_Binary :: "string \<Rightarrow> Binary \<Rightarrow> JsonProcToJson \<Rightarrow> JsonProcToJson" where
  "procValue_Binary nm val s = procString nm (toId val) s"

definition procBool :: "string \<Rightarrow> bool \<Rightarrow> JsonProcToJson \<Rightarrow> JsonProcToJson" where
  "procBool nm val s = add (if val then ''true'' else ''false'') (startName nm '' '' s)"

text \<open>A number of any of the integer types, given as its value.\<close>

definition procValue_int :: "string \<Rightarrow> int \<Rightarrow> JsonProcToJson \<Rightarrow> JsonProcToJson" where
  "procValue_int nm val s = add (to_string val) (startName nm '' '' s)"

definition procValue_num :: "string \<Rightarrow> int \<Rightarrow> jproc" where
  "procValue_num nm val s = Some (True, procValue_int nm val s)"

definition procValue_enum :: "('e \<Rightarrow> string) \<Rightarrow> string \<Rightarrow> 'e \<Rightarrow> jproc" where
  "procValue_enum func nm val s = Some (True, procString nm (func val) s)"

definition procValue_clockAccuracy :: "string \<Rightarrow> clockAccuracy_e \<Rightarrow> jproc" where
  "procValue_clockAccuracy nm val s = (let v = val in procValue_num nm (uint v) s)"

fun jprocs :: "jproc list \<Rightarrow> jproc" where
  "jprocs [] s = Some (True, s)"
| "jprocs (p # ps) s =
     (case p s of
        None \<Rightarrow> None
      | Some (False, s') \<Rightarrow> Some (False, s')
      | Some (True, s') \<Rightarrow> jprocs ps s')"

text \<open>The statements of a body, whatever they return, then the end of the object.\<close>

fun jseq :: "jproc list \<Rightarrow> JsonProcToJson \<Rightarrow> JsonProcToJson option" where
  "jseq [] s = Some s"
| "jseq (p # ps) s = (case p s of None \<Rightarrow> None | Some (_, s') \<Rightarrow> jseq ps s')"

definition object_body :: "jproc list \<Rightarrow> JsonProcToJson \<Rightarrow> JsonProcToJson option" where
  "object_body ps s = do { s' \<leftarrow> jseq ps s; closeObject s' }"

definition ret_true :: "JsonProcToJson option \<Rightarrow> (bool \<times> JsonProcToJson) option" where
  "ret_true r = map_option (\<lambda>s. (True, s)) r"

definition procValue_TimeInterval :: "string \<Rightarrow> TimeInterval_t \<Rightarrow> jproc" where
  "procValue_TimeInterval nm val s = Some (True, procValue_str nm (interval_string val) s)"

definition procValue_Timestamp :: "string \<Rightarrow> Timestamp_t \<Rightarrow> jproc" where
  "procValue_Timestamp nm val s = Some (True, procValue_str nm (Timestamp_string val) s)"

definition procValue_ClockIdentity :: "string \<Rightarrow> ClockIdentity_t \<Rightarrow> jproc" where
  "procValue_ClockIdentity nm val s = Some (True, procString nm (ClockIdentity_string val) s)"

definition procValue_PTPText :: "string \<Rightarrow> PTPText_t \<Rightarrow> jproc" where
  "procValue_PTPText nm val s = Some (True, procString nm (textField val) s)"

definition procValue_PortIdentity :: "string \<Rightarrow> PortIdentity_t \<Rightarrow> jproc" where
  "procValue_PortIdentity nm val s = ret_true (object_body
     [procValue_ClockIdentity ''clockIdentity'' (PortIdentity_t.clockIdentity val),
      procValue_num ''portNumber'' (uint (PortIdentity_t.portNumber val))] (procObject nm s))"

definition procValue_ClockQuality :: "string \<Rightarrow> ClockQuality_t \<Rightarrow> jproc" where
  "procValue_ClockQuality nm val s = ret_true (object_body
     [procValue_num ''clockClass'' (uint (ClockQuality_t.clockClass val)),
      procValue_clockAccuracy ''clockAccuracy'' (ClockQuality_t.clockAccuracy val),
      procValue_num ''offsetScaledLogVariance'' (uint (ClockQuality_t.offsetScaledLogVariance val))]
     (procObject nm s))"

definition procValue_PortAddress_obj :: "PortAddress_t \<Rightarrow> JsonProcToJson \<Rightarrow> JsonProcToJson option" where
  "procValue_PortAddress_obj val s = object_body
     [procValue_enum netProt2str_c ''networkProtocol'' (PortAddress_t.networkProtocol val),
      (\<lambda>s. Some (True, procValue_Binary ''addressField'' (addressField val) s))] (startObject s)"

definition procValue_PortAddress :: "string \<Rightarrow> PortAddress_t \<Rightarrow> jproc" where
  "procValue_PortAddress nm val s = ret_true (procValue_PortAddress_obj val (startName nm [CHR 0x0A] s))"

definition procValue_FaultRecord_obj :: "FaultRecord_t \<Rightarrow> JsonProcToJson \<Rightarrow> JsonProcToJson option" where
  "procValue_FaultRecord_obj val s = object_body
     [procValue_num ''faultRecordLength'' (uint (faultRecordLength val)),
      procValue_Timestamp ''faultTime'' (faultTime val),
      procValue_enum faultRec2str_c ''severityCode'' (severityCode val),
      procValue_PTPText ''faultName'' (faultName val),
      procValue_PTPText ''faultValue'' (faultValue val),
      procValue_PTPText ''faultDescription'' (faultDescription val)] (startObject s)"

definition procValue_FaultRecord :: "string \<Rightarrow> FaultRecord_t \<Rightarrow> jproc" where
  "procValue_FaultRecord nm val s = ret_true (procValue_FaultRecord_obj val (startName nm [CHR 0x0A] s))"

definition procValue_AcceptableMaster_obj :: "AcceptableMaster_t \<Rightarrow> JsonProcToJson \<Rightarrow> JsonProcToJson option" where
  "procValue_AcceptableMaster_obj val s = object_body
     [procValue_PortIdentity ''acceptablePortIdentity'' (acceptablePortIdentity val),
      procValue_num ''alternatePriority1'' (uint (alternatePriority1 val))] (startObject s)"

definition procValue_AcceptableMaster :: "string \<Rightarrow> AcceptableMaster_t \<Rightarrow> jproc" where
  "procValue_AcceptableMaster nm val s =
     ret_true (procValue_AcceptableMaster_obj val (startName nm [CHR 0x0A] s))"

definition procValue_ClockIdentity_elem :: "ClockIdentity_t \<Rightarrow> JsonProcToJson \<Rightarrow> JsonProcToJson" where
  "procValue_ClockIdentity_elem val s =
     add ([CHR 0x22] @ ClockIdentity_string val @ [CHR 0x22]) (indent (j_close s))"

definition procBinary :: "string \<Rightarrow> Binary \<Rightarrow> jproc" where
  "procBinary nm val s = Some (True, procString nm (toId val) s)"

definition procBinary_oct :: "string \<Rightarrow> byte list \<Rightarrow> jproc" where
  "procBinary_oct nm val s = Some (True, procString nm (bufToId val) s)"

definition procFlag :: "string \<Rightarrow> u8 \<Rightarrow> u8 \<Rightarrow> jproc" where
  "procFlag nm fl msk s = Some (True, procBool nm (fl AND msk > 0) s)"

text \<open>\<^verbatim>\<open>procArray\<close> opens and closes the array; the elements are not used.\<close>

definition procArray :: "string \<Rightarrow> 'e list \<Rightarrow> jproc" where
  "procArray nm val s = ret_true (closeArray (procArray_start nm s))"

section \<open>The flags of the time properties\<close>

definition F_LI_61 :: u8 where "F_LI_61 = push_bit 0 1"
definition F_LI_59 :: u8 where "F_LI_59 = push_bit 1 1"
definition F_UTCV :: u8 where "F_UTCV = push_bit 2 1"
definition F_PTP :: u8 where "F_PTP = push_bit 3 1"
definition F_TTRA :: u8 where "F_TTRA = push_bit 4 1"
definition F_FTRA :: u8 where "F_FTRA = push_bit 5 1"

section \<open>The structures\<close>

definition proc_CLOCK_DESCRIPTION :: "CLOCK_DESCRIPTION_t \<Rightarrow> jproc" where
  "proc_CLOCK_DESCRIPTION d = jprocs
     [procValue_num ''clockType'' (uint (CLOCK_DESCRIPTION_t.clockType d)),
      procValue_PTPText ''physicalLayerProtocol'' (CLOCK_DESCRIPTION_t.physicalLayerProtocol d),
      procBinary ''physicalAddress'' (CLOCK_DESCRIPTION_t.physicalAddress d),
      procValue_PortAddress ''protocolAddress'' (CLOCK_DESCRIPTION_t.protocolAddress d),
      procBinary_oct ''manufacturerIdentity'' (CLOCK_DESCRIPTION_t.manufacturerIdentity d),
      procValue_PTPText ''productDescription'' (CLOCK_DESCRIPTION_t.productDescription d),
      procValue_PTPText ''revisionData'' (CLOCK_DESCRIPTION_t.revisionData d),
      procValue_PTPText ''userDescription'' (CLOCK_DESCRIPTION_t.userDescription d),
      procBinary_oct ''profileIdentity'' (CLOCK_DESCRIPTION_t.profileIdentity d)]"

definition proc_USER_DESCRIPTION :: "USER_DESCRIPTION_t \<Rightarrow> jproc" where
  "proc_USER_DESCRIPTION d = jprocs
     [procValue_PTPText ''userDescription'' (USER_DESCRIPTION_t.userDescription d)]"

definition proc_INITIALIZE :: "INITIALIZE_t \<Rightarrow> jproc" where
  "proc_INITIALIZE d = jprocs
     [procValue_num ''initializationKey'' (uint (INITIALIZE_t.initializationKey d))]"

definition proc_FAULT_LOG :: "FAULT_LOG_t \<Rightarrow> jproc" where
  "proc_FAULT_LOG d = jprocs
     [procValue_num ''numberOfFaultRecords'' (uint (FAULT_LOG_t.numberOfFaultRecords d)),
      procArray ''faultRecords'' (FAULT_LOG_t.faultRecords d)]"

definition proc_DEFAULT_DATA_SET :: "DEFAULT_DATA_SET_t \<Rightarrow> jproc" where
  "proc_DEFAULT_DATA_SET d = jprocs
     [procFlag ''twoStepFlag'' (DEFAULT_DATA_SET_t.flags d) 1,
      procFlag ''slaveOnly'' (DEFAULT_DATA_SET_t.flags d) 2,
      procValue_num ''numberPorts'' (uint (DEFAULT_DATA_SET_t.numberPorts d)),
      procValue_num ''priority1'' (uint (DEFAULT_DATA_SET_t.priority1 d)),
      procValue_ClockQuality ''clockQuality'' (DEFAULT_DATA_SET_t.clockQuality d),
      procValue_num ''priority2'' (uint (DEFAULT_DATA_SET_t.priority2 d)),
      procValue_ClockIdentity ''clockIdentity'' (DEFAULT_DATA_SET_t.clockIdentity d),
      procValue_num ''domainNumber'' (uint (DEFAULT_DATA_SET_t.domainNumber d))]"

definition proc_CURRENT_DATA_SET :: "CURRENT_DATA_SET_t \<Rightarrow> jproc" where
  "proc_CURRENT_DATA_SET d = jprocs
     [procValue_num ''stepsRemoved'' (uint (CURRENT_DATA_SET_t.stepsRemoved d)),
      procValue_TimeInterval ''offsetFromMaster'' (CURRENT_DATA_SET_t.offsetFromMaster d),
      procValue_TimeInterval ''meanPathDelay'' (CURRENT_DATA_SET_t.meanPathDelay d)]"

definition proc_PARENT_DATA_SET :: "PARENT_DATA_SET_t \<Rightarrow> jproc" where
  "proc_PARENT_DATA_SET d = jprocs
     [procValue_PortIdentity ''parentPortIdentity'' (PARENT_DATA_SET_t.parentPortIdentity d),
      procFlag ''parentStats'' (PARENT_DATA_SET_t.flags d) 1,
      procValue_num ''observedParentOffsetScaledLogVariance'' (uint (PARENT_DATA_SET_t.observedParentOffsetScaledLogVariance d)),
      procValue_num ''observedParentClockPhaseChangeRate'' (sint (PARENT_DATA_SET_t.observedParentClockPhaseChangeRate d)),
      procValue_num ''grandmasterPriority1'' (uint (PARENT_DATA_SET_t.grandmasterPriority1 d)),
      procValue_ClockQuality ''grandmasterClockQuality'' (PARENT_DATA_SET_t.grandmasterClockQuality d),
      procValue_num ''grandmasterPriority2'' (uint (PARENT_DATA_SET_t.grandmasterPriority2 d)),
      procValue_ClockIdentity ''grandmasterIdentity'' (PARENT_DATA_SET_t.grandmasterIdentity d)]"

definition proc_TIME_PROPERTIES_DATA_SET :: "TIME_PROPERTIES_DATA_SET_t \<Rightarrow> jproc" where
  "proc_TIME_PROPERTIES_DATA_SET d = jprocs
     [procValue_num ''currentUtcOffset'' (sint (TIME_PROPERTIES_DATA_SET_t.currentUtcOffset d)),
      procFlag ''leap61'' (TIME_PROPERTIES_DATA_SET_t.flags d) F_LI_61,
      procFlag ''leap59'' (TIME_PROPERTIES_DATA_SET_t.flags d) F_LI_59,
      procFlag ''currentUtcOffsetValid'' (TIME_PROPERTIES_DATA_SET_t.flags d) F_UTCV,
      procFlag ''ptpTimescale'' (TIME_PROPERTIES_DATA_SET_t.flags d) F_PTP,
      procFlag ''timeTraceable'' (TIME_PROPERTIES_DATA_SET_t.flags d) F_TTRA,
      procFlag ''frequencyTraceable'' (TIME_PROPERTIES_DATA_SET_t.flags d) F_FTRA,
      procValue_enum timeSrc2str_c ''timeSource'' (TIME_PROPERTIES_DATA_SET_t.timeSource d)]"

definition proc_PORT_DATA_SET :: "PORT_DATA_SET_t \<Rightarrow> jproc" where
  "proc_PORT_DATA_SET d = jprocs
     [procValue_PortIdentity ''portIdentity'' (PORT_DATA_SET_t.portIdentity d),
      procValue_enum portState2str_c ''portState'' (PORT_DATA_SET_t.portState d),
      procValue_num ''logMinDelayReqInterval'' (sint (PORT_DATA_SET_t.logMinDelayReqInterval d)),
      procValue_TimeInterval ''peerMeanPathDelay'' (PORT_DATA_SET_t.peerMeanPathDelay d),
      procValue_num ''logAnnounceInterval'' (sint (PORT_DATA_SET_t.logAnnounceInterval d)),
      procValue_num ''announceReceiptTimeout'' (uint (PORT_DATA_SET_t.announceReceiptTimeout d)),
      procValue_num ''logSyncInterval'' (sint (PORT_DATA_SET_t.logSyncInterval d)),
      procValue_num ''delayMechanism'' (uint (PORT_DATA_SET_t.delayMechanism d)),
      procValue_num ''logMinPdelayReqInterval'' (sint (PORT_DATA_SET_t.logMinPdelayReqInterval d)),
      procValue_num ''versionNumber'' (uint (PORT_DATA_SET_t.versionNumber d))]"

definition proc_PRIORITY1 :: "PRIORITY1_t \<Rightarrow> jproc" where
  "proc_PRIORITY1 d = jprocs
     [procValue_num ''priority1'' (uint (PRIORITY1_t.priority1 d))]"

definition proc_PRIORITY2 :: "PRIORITY2_t \<Rightarrow> jproc" where
  "proc_PRIORITY2 d = jprocs
     [procValue_num ''priority2'' (uint (PRIORITY2_t.priority2 d))]"

definition proc_DOMAIN :: "DOMAIN_t \<Rightarrow> jproc" where
  "proc_DOMAIN d = jprocs
     [procValue_num ''domainNumber'' (uint (DOMAIN_t.domainNumber d))]"

definition proc_SLAVE_ONLY :: "SLAVE_ONLY_t \<Rightarrow> jproc" where
  "proc_SLAVE_ONLY d = jprocs
     [procFlag ''slaveOnly'' (SLAVE_ONLY_t.flags d) 1]"

definition proc_LOG_ANNOUNCE_INTERVAL :: "LOG_ANNOUNCE_INTERVAL_t \<Rightarrow> jproc" where
  "proc_LOG_ANNOUNCE_INTERVAL d = jprocs
     [procValue_num ''logAnnounceInterval'' (sint (LOG_ANNOUNCE_INTERVAL_t.logAnnounceInterval d))]"

definition proc_ANNOUNCE_RECEIPT_TIMEOUT :: "ANNOUNCE_RECEIPT_TIMEOUT_t \<Rightarrow> jproc" where
  "proc_ANNOUNCE_RECEIPT_TIMEOUT d = jprocs
     [procValue_num ''announceReceiptTimeout'' (uint (ANNOUNCE_RECEIPT_TIMEOUT_t.announceReceiptTimeout d))]"

definition proc_LOG_SYNC_INTERVAL :: "LOG_SYNC_INTERVAL_t \<Rightarrow> jproc" where
  "proc_LOG_SYNC_INTERVAL d = jprocs
     [procValue_num ''logSyncInterval'' (sint (LOG_SYNC_INTERVAL_t.logSyncInterval d))]"

definition proc_VERSION_NUMBER :: "VERSION_NUMBER_t \<Rightarrow> jproc" where
  "proc_VERSION_NUMBER d = jprocs
     [procValue_num ''versionNumber'' (uint (VERSION_NUMBER_t.versionNumber d))]"

definition proc_TIME :: "TIME_t \<Rightarrow> jproc" where
  "proc_TIME d = jprocs
     [procValue_Timestamp ''currentTime'' (TIME_t.currentTime d)]"

definition proc_CLOCK_ACCURACY :: "CLOCK_ACCURACY_t \<Rightarrow> jproc" where
  "proc_CLOCK_ACCURACY d = jprocs
     [procValue_clockAccuracy ''clockAccuracy'' (CLOCK_ACCURACY_t.clockAccuracy d)]"

definition proc_UTC_PROPERTIES :: "UTC_PROPERTIES_t \<Rightarrow> jproc" where
  "proc_UTC_PROPERTIES d = jprocs
     [procValue_num ''currentUtcOffset'' (sint (UTC_PROPERTIES_t.currentUtcOffset d)),
      procFlag ''leap61'' (UTC_PROPERTIES_t.flags d) F_LI_61,
      procFlag ''leap59'' (UTC_PROPERTIES_t.flags d) F_LI_59,
      procFlag ''currentUtcOffsetValid'' (UTC_PROPERTIES_t.flags d) F_UTCV]"

definition proc_TRACEABILITY_PROPERTIES :: "TRACEABILITY_PROPERTIES_t \<Rightarrow> jproc" where
  "proc_TRACEABILITY_PROPERTIES d = jprocs
     [procFlag ''timeTraceable'' (TRACEABILITY_PROPERTIES_t.flags d) F_TTRA,
      procFlag ''frequencyTraceable'' (TRACEABILITY_PROPERTIES_t.flags d) F_FTRA]"

definition proc_TIMESCALE_PROPERTIES :: "TIMESCALE_PROPERTIES_t \<Rightarrow> jproc" where
  "proc_TIMESCALE_PROPERTIES d = jprocs
     [procFlag ''ptpTimescale'' (TIMESCALE_PROPERTIES_t.flags d) F_PTP,
      procValue_enum timeSrc2str_c ''timeSource'' (TIMESCALE_PROPERTIES_t.timeSource d)]"

definition proc_UNICAST_NEGOTIATION_ENABLE :: "UNICAST_NEGOTIATION_ENABLE_t \<Rightarrow> jproc" where
  "proc_UNICAST_NEGOTIATION_ENABLE d = jprocs
     [procFlag ''unicastNegotiationPortDS'' (UNICAST_NEGOTIATION_ENABLE_t.flags d) 1]"

definition proc_PATH_TRACE_LIST :: "PATH_TRACE_LIST_t \<Rightarrow> jproc" where
  "proc_PATH_TRACE_LIST d = jprocs
     [procArray ''pathSequence'' (PATH_TRACE_LIST_t.pathSequence d)]"

definition proc_PATH_TRACE_ENABLE :: "PATH_TRACE_ENABLE_t \<Rightarrow> jproc" where
  "proc_PATH_TRACE_ENABLE d = jprocs
     [procFlag ''pathTraceDS'' (PATH_TRACE_ENABLE_t.flags d) 1]"

definition proc_GRANDMASTER_CLUSTER_TABLE :: "GRANDMASTER_CLUSTER_TABLE_t \<Rightarrow> jproc" where
  "proc_GRANDMASTER_CLUSTER_TABLE d = jprocs
     [procValue_num ''logQueryInterval'' (sint (GRANDMASTER_CLUSTER_TABLE_t.logQueryInterval d)),
      procValue_num ''actualTableSize'' (uint (GRANDMASTER_CLUSTER_TABLE_t.actualTableSize d)),
      procArray ''PortAddress'' (GRANDMASTER_CLUSTER_TABLE_t.PortAddress d)]"

definition proc_UNICAST_MASTER_TABLE :: "UNICAST_MASTER_TABLE_t \<Rightarrow> jproc" where
  "proc_UNICAST_MASTER_TABLE d = jprocs
     [procValue_num ''logQueryInterval'' (sint (UNICAST_MASTER_TABLE_t.logQueryInterval d)),
      procValue_num ''actualTableSize'' (uint (UNICAST_MASTER_TABLE_t.actualTableSize d)),
      procArray ''PortAddress'' (UNICAST_MASTER_TABLE_t.PortAddress d)]"

definition proc_UNICAST_MASTER_MAX_TABLE_SIZE :: "UNICAST_MASTER_MAX_TABLE_SIZE_t \<Rightarrow> jproc" where
  "proc_UNICAST_MASTER_MAX_TABLE_SIZE d = jprocs
     [procValue_num ''maxTableSize'' (uint (UNICAST_MASTER_MAX_TABLE_SIZE_t.maxTableSize d))]"

definition proc_ACCEPTABLE_MASTER_TABLE :: "ACCEPTABLE_MASTER_TABLE_t \<Rightarrow> jproc" where
  "proc_ACCEPTABLE_MASTER_TABLE d = jprocs
     [procValue_num ''actualTableSize'' (sint (ACCEPTABLE_MASTER_TABLE_t.actualTableSize d)),
      procArray ''list'' (ACCEPTABLE_MASTER_TABLE_t.master_list d)]"

definition proc_ACCEPTABLE_MASTER_TABLE_ENABLED :: "ACCEPTABLE_MASTER_TABLE_ENABLED_t \<Rightarrow> jproc" where
  "proc_ACCEPTABLE_MASTER_TABLE_ENABLED d = jprocs
     [procFlag ''acceptableMasterPortDS'' (ACCEPTABLE_MASTER_TABLE_ENABLED_t.flags d) 1]"

definition proc_ACCEPTABLE_MASTER_MAX_TABLE_SIZE :: "ACCEPTABLE_MASTER_MAX_TABLE_SIZE_t \<Rightarrow> jproc" where
  "proc_ACCEPTABLE_MASTER_MAX_TABLE_SIZE d = jprocs
     [procValue_num ''maxTableSize'' (uint (ACCEPTABLE_MASTER_MAX_TABLE_SIZE_t.maxTableSize d))]"

definition proc_ALTERNATE_MASTER :: "ALTERNATE_MASTER_t \<Rightarrow> jproc" where
  "proc_ALTERNATE_MASTER d = jprocs
     [procFlag ''transmitAlternateMulticastSync'' (ALTERNATE_MASTER_t.flags d) 1,
      procValue_num ''logAlternateMulticastSyncInterval'' (sint (ALTERNATE_MASTER_t.logAlternateMulticastSyncInterval d)),
      procValue_num ''numberOfAlternateMasters'' (uint (ALTERNATE_MASTER_t.numberOfAlternateMasters d))]"

definition proc_ALTERNATE_TIME_OFFSET_ENABLE :: "ALTERNATE_TIME_OFFSET_ENABLE_t \<Rightarrow> jproc" where
  "proc_ALTERNATE_TIME_OFFSET_ENABLE d = jprocs
     [procValue_num ''keyField'' (uint (ALTERNATE_TIME_OFFSET_ENABLE_t.keyField d)),
      procFlag ''alternateTimescaleOffsetsDS'' (ALTERNATE_TIME_OFFSET_ENABLE_t.flags d) 1]"

definition proc_ALTERNATE_TIME_OFFSET_NAME :: "ALTERNATE_TIME_OFFSET_NAME_t \<Rightarrow> jproc" where
  "proc_ALTERNATE_TIME_OFFSET_NAME d = jprocs
     [procValue_num ''keyField'' (uint (ALTERNATE_TIME_OFFSET_NAME_t.keyField d)),
      procValue_PTPText ''displayName'' (ALTERNATE_TIME_OFFSET_NAME_t.displayName d)]"

definition proc_ALTERNATE_TIME_OFFSET_MAX_KEY :: "ALTERNATE_TIME_OFFSET_MAX_KEY_t \<Rightarrow> jproc" where
  "proc_ALTERNATE_TIME_OFFSET_MAX_KEY d = jprocs
     [procValue_num ''maxKey'' (uint (ALTERNATE_TIME_OFFSET_MAX_KEY_t.maxKey d))]"

definition proc_ALTERNATE_TIME_OFFSET_PROPERTIES :: "ALTERNATE_TIME_OFFSET_PROPERTIES_t \<Rightarrow> jproc" where
  "proc_ALTERNATE_TIME_OFFSET_PROPERTIES d = jprocs
     [procValue_num ''keyField'' (uint (ALTERNATE_TIME_OFFSET_PROPERTIES_t.keyField d)),
      procValue_num ''currentOffset'' (sint (ALTERNATE_TIME_OFFSET_PROPERTIES_t.currentOffset d)),
      procValue_num ''jumpSeconds'' (sint (ALTERNATE_TIME_OFFSET_PROPERTIES_t.jumpSeconds d)),
      procValue_num ''timeOfNextJump'' (uint (ALTERNATE_TIME_OFFSET_PROPERTIES_t.timeOfNextJump d))]"

definition proc_TRANSPARENT_CLOCK_PORT_DATA_SET :: "TRANSPARENT_CLOCK_PORT_DATA_SET_t \<Rightarrow> jproc" where
  "proc_TRANSPARENT_CLOCK_PORT_DATA_SET d = jprocs
     [procValue_PortIdentity ''portIdentity'' (TRANSPARENT_CLOCK_PORT_DATA_SET_t.portIdentity d),
      procFlag ''transparentClockPortDS'' (TRANSPARENT_CLOCK_PORT_DATA_SET_t.flags d) 1,
      procValue_num ''logMinPdelayReqInterval'' (sint (TRANSPARENT_CLOCK_PORT_DATA_SET_t.logMinPdelayReqInterval d)),
      procValue_TimeInterval ''peerMeanPathDelay'' (TRANSPARENT_CLOCK_PORT_DATA_SET_t.peerMeanPathDelay d)]"

definition proc_LOG_MIN_PDELAY_REQ_INTERVAL :: "LOG_MIN_PDELAY_REQ_INTERVAL_t \<Rightarrow> jproc" where
  "proc_LOG_MIN_PDELAY_REQ_INTERVAL d = jprocs
     [procValue_num ''logMinPdelayReqInterval'' (sint (LOG_MIN_PDELAY_REQ_INTERVAL_t.logMinPdelayReqInterval d))]"

definition proc_TRANSPARENT_CLOCK_DEFAULT_DATA_SET :: "TRANSPARENT_CLOCK_DEFAULT_DATA_SET_t \<Rightarrow> jproc" where
  "proc_TRANSPARENT_CLOCK_DEFAULT_DATA_SET d = jprocs
     [procValue_ClockIdentity ''clockIdentity'' (TRANSPARENT_CLOCK_DEFAULT_DATA_SET_t.clockIdentity d),
      procValue_num ''numberPorts'' (uint (TRANSPARENT_CLOCK_DEFAULT_DATA_SET_t.numberPorts d)),
      procValue_num ''delayMechanism'' (uint (TRANSPARENT_CLOCK_DEFAULT_DATA_SET_t.delayMechanism d)),
      procValue_num ''primaryDomain'' (uint (TRANSPARENT_CLOCK_DEFAULT_DATA_SET_t.primaryDomain d))]"

definition proc_PRIMARY_DOMAIN :: "PRIMARY_DOMAIN_t \<Rightarrow> jproc" where
  "proc_PRIMARY_DOMAIN d = jprocs
     [procValue_num ''primaryDomain'' (uint (PRIMARY_DOMAIN_t.primaryDomain d))]"

definition proc_DELAY_MECHANISM :: "DELAY_MECHANISM_t \<Rightarrow> jproc" where
  "proc_DELAY_MECHANISM d = jprocs
     [procValue_num ''delayMechanism'' (uint (DELAY_MECHANISM_t.delayMechanism d))]"

definition proc_EXTERNAL_PORT_CONFIGURATION_ENABLED :: "EXTERNAL_PORT_CONFIGURATION_ENABLED_t \<Rightarrow> jproc" where
  "proc_EXTERNAL_PORT_CONFIGURATION_ENABLED d = jprocs
     [procFlag ''externalPortConfiguration'' (EXTERNAL_PORT_CONFIGURATION_ENABLED_t.flags d) 1]"

definition proc_MASTER_ONLY :: "MASTER_ONLY_t \<Rightarrow> jproc" where
  "proc_MASTER_ONLY d = jprocs
     [procFlag ''masterOnly'' (MASTER_ONLY_t.flags d) 1]"

definition proc_HOLDOVER_UPGRADE_ENABLE :: "HOLDOVER_UPGRADE_ENABLE_t \<Rightarrow> jproc" where
  "proc_HOLDOVER_UPGRADE_ENABLE d = jprocs
     [procFlag ''holdoverUpgradeDS'' (HOLDOVER_UPGRADE_ENABLE_t.flags d) 1]"

definition proc_EXT_PORT_CONFIG_PORT_DATA_SET :: "EXT_PORT_CONFIG_PORT_DATA_SET_t \<Rightarrow> jproc" where
  "proc_EXT_PORT_CONFIG_PORT_DATA_SET d = jprocs
     [procFlag ''acceptableMasterPortDS'' (EXT_PORT_CONFIG_PORT_DATA_SET_t.flags d) 1,
      procValue_enum portState2str_c ''desiredState'' (EXT_PORT_CONFIG_PORT_DATA_SET_t.desiredState d)]"

definition proc_TIME_STATUS_NP :: "TIME_STATUS_NP_t \<Rightarrow> jproc" where
  "proc_TIME_STATUS_NP d = jprocs
     [procValue_num ''master_offset'' (sint (TIME_STATUS_NP_t.master_offset d)),
      procValue_num ''ingress_time'' (sint (TIME_STATUS_NP_t.ingress_time d)),
      procValue_num ''cumulativeScaledRateOffset'' (sint (TIME_STATUS_NP_t.cumulativeScaledRateOffset d)),
      procValue_num ''scaledLastGmPhaseChange'' (sint (TIME_STATUS_NP_t.scaledLastGmPhaseChange d)),
      procValue_num ''gmTimeBaseIndicator'' (uint (TIME_STATUS_NP_t.gmTimeBaseIndicator d)),
      procValue_num ''nanoseconds_msb'' (uint (TIME_STATUS_NP_t.nanoseconds_msb d)),
      procValue_num ''nanoseconds_lsb'' (uint (TIME_STATUS_NP_t.nanoseconds_lsb d)),
      procValue_num ''fractional_nanoseconds'' (uint (TIME_STATUS_NP_t.fractional_nanoseconds d)),
      procValue_num ''gmPresent'' (sint (TIME_STATUS_NP_t.gmPresent d)),
      procValue_ClockIdentity ''gmIdentity'' (TIME_STATUS_NP_t.gmIdentity d)]"

definition proc_GRANDMASTER_SETTINGS_NP :: "GRANDMASTER_SETTINGS_NP_t \<Rightarrow> jproc" where
  "proc_GRANDMASTER_SETTINGS_NP d = jprocs
     [procValue_ClockQuality ''clockQuality'' (GRANDMASTER_SETTINGS_NP_t.clockQuality d),
      procValue_num ''currentUtcOffset'' (sint (GRANDMASTER_SETTINGS_NP_t.currentUtcOffset d)),
      procFlag ''leap61'' (GRANDMASTER_SETTINGS_NP_t.flags d) F_LI_61,
      procFlag ''leap59'' (GRANDMASTER_SETTINGS_NP_t.flags d) F_LI_59,
      procFlag ''currentUtcOffsetValid'' (GRANDMASTER_SETTINGS_NP_t.flags d) F_UTCV,
      procFlag ''ptpTimescale'' (GRANDMASTER_SETTINGS_NP_t.flags d) F_PTP,
      procFlag ''timeTraceable'' (GRANDMASTER_SETTINGS_NP_t.flags d) F_TTRA,
      procFlag ''frequencyTraceable'' (GRANDMASTER_SETTINGS_NP_t.flags d) F_FTRA,
      procValue_enum timeSrc2str_c ''timeSource'' (GRANDMASTER_SETTINGS_NP_t.timeSource d)]"

definition proc_PORT_DATA_SET_NP :: "PORT_DATA_SET_NP_t \<Rightarrow> jproc" where
  "proc_PORT_DATA_SET_NP d = jprocs
     [procValue_num ''neighborPropDelayThresh'' (uint (PORT_DATA_SET_NP_t.neighborPropDelayThresh d)),
      procValue_num ''asCapable'' (sint (PORT_DATA_SET_NP_t.asCapable d))]"

definition proc_SUBSCRIBE_EVENTS_NP :: "SUBSCRIBE_EVENTS_NP_t \<Rightarrow> jproc" where
  "proc_SUBSCRIBE_EVENTS_NP d = jprocs
     [procValue_num ''duration'' (uint (SUBSCRIBE_EVENTS_NP_t.duration d))]"

definition proc_PORT_PROPERTIES_NP :: "PORT_PROPERTIES_NP_t \<Rightarrow> jproc" where
  "proc_PORT_PROPERTIES_NP d = jprocs
     [procValue_PortIdentity ''portIdentity'' (PORT_PROPERTIES_NP_t.portIdentity d),
      procValue_enum portState2str_c ''portState'' (PORT_PROPERTIES_NP_t.portState d),
      procValue_enum ts2str_c ''timestamping'' (PORT_PROPERTIES_NP_t.timestamping d),
      procValue_PTPText ''interface'' (PORT_PROPERTIES_NP_t.interface d)]"

definition proc_PORT_STATS_NP :: "PORT_STATS_NP_t \<Rightarrow> jproc" where
  "proc_PORT_STATS_NP d = jprocs
     [procValue_PortIdentity ''portIdentity'' (PORT_STATS_NP_t.portIdentity d)]"

definition proc_SYNCHRONIZATION_UNCERTAIN_NP :: "SYNCHRONIZATION_UNCERTAIN_NP_t \<Rightarrow> jproc" where
  "proc_SYNCHRONIZATION_UNCERTAIN_NP d = jprocs
     [procValue_num ''val'' (uint (SYNCHRONIZATION_UNCERTAIN_NP_t.uncertain_val d))]"

primrec proc_tlv :: "BaseMngTlv \<Rightarrow> jproc" where
  "proc_tlv (TLV_CLOCK_DESCRIPTION d) = proc_CLOCK_DESCRIPTION d"
| "proc_tlv (TLV_USER_DESCRIPTION d) = proc_USER_DESCRIPTION d"
| "proc_tlv (TLV_INITIALIZE d) = proc_INITIALIZE d"
| "proc_tlv (TLV_FAULT_LOG d) = proc_FAULT_LOG d"
| "proc_tlv (TLV_DEFAULT_DATA_SET d) = proc_DEFAULT_DATA_SET d"
| "proc_tlv (TLV_CURRENT_DATA_SET d) = proc_CURRENT_DATA_SET d"
| "proc_tlv (TLV_PARENT_DATA_SET d) = proc_PARENT_DATA_SET d"
| "proc_tlv (TLV_TIME_PROPERTIES_DATA_SET d) = proc_TIME_PROPERTIES_DATA_SET d"
| "proc_tlv (TLV_PORT_DATA_SET d) = proc_PORT_DATA_SET d"
| "proc_tlv (TLV_PRIORITY1 d) = proc_PRIORITY1 d"
| "proc_tlv (TLV_PRIORITY2 d) = proc_PRIORITY2 d"
| "proc_tlv (TLV_DOMAIN d) = proc_DOMAIN d"
| "proc_tlv (TLV_SLAVE_ONLY d) = proc_SLAVE_ONLY d"
| "proc_tlv (TLV_LOG_ANNOUNCE_INTERVAL d) = proc_LOG_ANNOUNCE_INTERVAL d"
| "proc_tlv (TLV_ANNOUNCE_RECEIPT_TIMEOUT d) = proc_ANNOUNCE_RECEIPT_TIMEOUT d"
| "proc_tlv (TLV_LOG_SYNC_INTERVAL d) = proc_LOG_SYNC_INTERVAL d"
| "proc_tlv (TLV_VERSION_NUMBER d) = proc_VERSION_NUMBER d"
| "proc_tlv (TLV_TIME d) = proc_TIME d"
| "proc_tlv (TLV_CLOCK_ACCURACY d) = proc_CLOCK_ACCURACY d"
| "proc_tlv (TLV_UTC_PROPERTIES d) = proc_UTC_PROPERTIES d"
| "proc_tlv (TLV_TRACEABILITY_PROPERTIES d) = proc_TRACEABILITY_PROPERTIES d"
| "proc_tlv (TLV_TIMESCALE_PROPERTIES d) = proc_TIMESCALE_PROPERTIES d"
| "proc_tlv (TLV_UNICAST_NEGOTIATION_ENABLE d) = proc_UNICAST_NEGOTIATION_ENABLE d"
| "proc_tlv (TLV_PATH_TRACE_LIST d) = proc_PATH_TRACE_LIST d"
| "proc_tlv (TLV_PATH_TRACE_ENABLE d) = proc_PATH_TRACE_ENABLE d"
| "proc_tlv (TLV_GRANDMASTER_CLUSTER_TABLE d) = proc_GRANDMASTER_CLUSTER_TABLE d"
| "proc_tlv (TLV_UNICAST_MASTER_TABLE d) = proc_UNICAST_MASTER_TABLE d"
| "proc_tlv (TLV_UNICAST_MASTER_MAX_TABLE_SIZE d) = proc_UNICAST_MASTER_MAX_TABLE_SIZE d"
| "proc_tlv (TLV_ACCEPTABLE_MASTER_TABLE d) = proc_ACCEPTABLE_MASTER_TABLE d"
| "proc_tlv (TLV_ACCEPTABLE_MASTER_TABLE_ENABLED d) = proc_ACCEPTABLE_MASTER_TABLE_ENABLED d"
| "proc_tlv (TLV_ACCEPTABLE_MASTER_MAX_TABLE_SIZE d) = proc_ACCEPTABLE_MASTER_MAX_TABLE_SIZE d"
| "proc_tlv (TLV_ALTERNATE_MASTER d) = proc_ALTERNATE_MASTER d"
| "proc_tlv (TLV_ALTERNATE_TIME_OFFSET_ENABLE d) = proc_ALTERNATE_TIME_OFFSET_ENABLE d"
| "proc_tlv (TLV_ALTERNATE_TIME_OFFSET_NAME d) = proc_ALTERNATE_TIME_OFFSET_NAME d"
| "proc_tlv (TLV_ALTERNATE_TIME_OFFSET_MAX_KEY d) = proc_ALTERNATE_TIME_OFFSET_MAX_KEY d"
| "proc_tlv (TLV_ALTERNATE_TIME_OFFSET_PROPERTIES d) = proc_ALTERNATE_TIME_OFFSET_PROPERTIES d"
| "proc_tlv (TLV_TRANSPARENT_CLOCK_PORT_DATA_SET d) = proc_TRANSPARENT_CLOCK_PORT_DATA_SET d"
| "proc_tlv (TLV_LOG_MIN_PDELAY_REQ_INTERVAL d) = proc_LOG_MIN_PDELAY_REQ_INTERVAL d"
| "proc_tlv (TLV_TRANSPARENT_CLOCK_DEFAULT_DATA_SET d) = proc_TRANSPARENT_CLOCK_DEFAULT_DATA_SET d"
| "proc_tlv (TLV_PRIMARY_DOMAIN d) = proc_PRIMARY_DOMAIN d"
| "proc_tlv (TLV_DELAY_MECHANISM d) = proc_DELAY_MECHANISM d"
| "proc_tlv (TLV_EXTERNAL_PORT_CONFIGURATION_ENABLED d) = proc_EXTERNAL_PORT_CONFIGURATION_ENABLED d"
| "proc_tlv (TLV_MASTER_ONLY d) = proc_MASTER_ONLY d"
| "proc_tlv (TLV_HOLDOVER_UPGRADE_ENABLE d) = proc_HOLDOVER_UPGRADE_ENABLE d"
| "proc_tlv (TLV_EXT_PORT_CONFIG_PORT_DATA_SET d) = proc_EXT_PORT_CONFIG_PORT_DATA_SET d"
| "proc_tlv (TLV_TIME_STATUS_NP d) = proc_TIME_STATUS_NP d"
| "proc_tlv (TLV_GRANDMASTER_SETTINGS_NP d) = proc_GRANDMASTER_SETTINGS_NP d"
| "proc_tlv (TLV_PORT_DATA_SET_NP d) = proc_PORT_DATA_SET_NP d"
| "proc_tlv (TLV_SUBSCRIBE_EVENTS_NP d) = proc_SUBSCRIBE_EVENTS_NP d"
| "proc_tlv (TLV_PORT_PROPERTIES_NP d) = proc_PORT_PROPERTIES_NP d"
| "proc_tlv (TLV_PORT_STATS_NP d) = proc_PORT_STATS_NP d"
| "proc_tlv (TLV_SYNCHRONIZATION_UNCERTAIN_NP d) = proc_SYNCHRONIZATION_UNCERTAIN_NP d"

text \<open>The switch over the ids; an id without dataField has no case.\<close>

definition data2json :: "mng_vals_e \<Rightarrow> BaseMngTlv \<Rightarrow> JsonProcToJson \<Rightarrow> JsonProcToJson option" where
  "data2json tid t s =
     (if tid < 58 \<and> ids_fun (ids ! tid) \<noteq> NA then
        if tlv_type t = tid then map_option snd (proc_tlv t s) else None
      else Some s)"

section \<open>A message\<close>

definition type_string :: "msgType_e \<Rightarrow> string" where
  "type_string type = (if type = Management then ''Management'' else ''Unsupported'')"

definition msg2json_mng :: "Message \<Rightarrow> JsonProcToJson \<Rightarrow> JsonProcToJson option" where
  "msg2json_mng msg s =
     (let s1 = procString ''actionField'' (act2str_c (m_replyAction msg)) s;
          s2 = procString ''tlvType'' (tlv2str_c (m_mngType msg)) s1;
          s3 = procString ''managementId'' (mng2str_c (m_tlv_id msg)) s2
      in if m_mngType msg = MANAGEMENT then
           (case m_dataGet msg of
              None \<Rightarrow> Some s3
            | Some data \<Rightarrow> do {
                s4 \<leftarrow> data2json (m_tlv_id msg) data (procObject ''dataField'' s3);
                closeObject s4
              })
         else if m_mngType msg = MANAGEMENT_ERROR_STATUS then
           Some (procString ''displayData'' (textField (m_errorDisplay msg))
             (procString ''managementErrorId'' (errId2str_c (m_errorId msg)) s3))
         else Some s3)"

definition msg2json :: "Message \<Rightarrow> string option" where
  "msg2json msg = do {
     let s0 = startObject new_JsonProcToJson;
     let s1 = procValue_int ''sequenceId'' (uint (m_sequence msg)) s0;
     let s2 = procValue_int ''sdoId'' (uint (m_sdoId msg)) s1;
     let s3 = procValue_int ''domainNumber'' (uint (m_domainNumber msg)) s2;
     let s4 = procValue_int ''versionPTP'' (uint (m_versionPTP msg)) s3;
     let s5 = procValue_int ''minorVersionPTP'' (uint (m_minorVersionPTP msg)) s4;
     let s6 = procString ''messageType'' (type_string (m_type msg)) s5;
     (_, s7) \<leftarrow> procValue_PortIdentity ''sourcePortIdentity'' (m_peer msg) s6;
     s8 \<leftarrow> (if m_type msg = Management then msg2json_mng msg s7 else Some s7);
     s9 \<leftarrow> closeObject s8;
     Some (result s9)
   }"

end
