(* ===== verification/JsonLaws.thy ===== *)
theory JsonLaws
  imports Json
begin

text \<open>
  The writer of \<^verbatim>\<open>src/json.cpp\<close> against a tree of JSON values and a printer of trees: the stack of
  saved flags, the commas and the indentation produce exactly the printed tree.
\<close>

section \<open>Trees and their text\<close>

datatype json =
    JTok string
  | JStr string
  | JArr
  | JObj "(string \<times> json) list"

definition ind :: "nat \<Rightarrow> string" where
  "ind d = concat (replicate d ''  '')"

fun show_json :: "nat \<Rightarrow> json \<Rightarrow> string" and show_members :: "nat \<Rightarrow> bool \<Rightarrow> (string \<times> json) list \<Rightarrow> string" where
  "show_json d (JTok t) = '' '' @ t"
| "show_json d (JStr t) = '' '' @ [CHR 0x22] @ t @ [CHR 0x22]"
| "show_json d JArr = [CHR 0x0A] @ ind d @ ''['' @ [CHR 0x0A] @ ind d @ '']''"
| "show_json d (JObj ms) = [CHR 0x0A] @ ind d @ ''{'' @ show_members (Suc d) True ms @ [CHR 0x0A] @ ind d @ ''}''"
| "show_members d first [] = []"
| "show_members d first ((n, v) # ms) =
     (if first then [] else '','') @ [CHR 0x0A] @ ind d @ [CHR 0x22] @ n @ [CHR 0x22] @ '' :'' @ show_json d v @
     show_members d False ms"

section \<open>The trees of the structures\<close>

definition json_bool :: "bool \<Rightarrow> string" where
  "json_bool b = (if b then ''true'' else ''false'')"

definition json_TimeInterval :: "TimeInterval_t \<Rightarrow> json" where
  "json_TimeInterval t = JTok (interval_string t)"

definition json_Timestamp :: "Timestamp_t \<Rightarrow> json" where
  "json_Timestamp t = JTok (Timestamp_string t)"

definition json_ClockIdentity :: "ClockIdentity_t \<Rightarrow> json" where
  "json_ClockIdentity c = JStr (ClockIdentity_string c)"

definition json_PTPText :: "PTPText_t \<Rightarrow> json" where
  "json_PTPText t = JStr (textField t)"

definition json_PortIdentity :: "PortIdentity_t \<Rightarrow> json" where
  "json_PortIdentity p = JObj
     [(''clockIdentity'', json_ClockIdentity (PortIdentity_t.clockIdentity p)),
      (''portNumber'', JTok (to_string (uint (PortIdentity_t.portNumber p))))]"

definition json_ClockQuality :: "ClockQuality_t \<Rightarrow> json" where
  "json_ClockQuality q = JObj
     [(''clockClass'', JTok (to_string (uint (ClockQuality_t.clockClass q)))),
      (''clockAccuracy'', JTok (to_string (uint (ClockQuality_t.clockAccuracy q)))),
      (''offsetScaledLogVariance'', JTok (to_string (uint (ClockQuality_t.offsetScaledLogVariance q))))]"

definition json_PortAddress :: "PortAddress_t \<Rightarrow> json" where
  "json_PortAddress a = JObj
     [(''networkProtocol'', JStr (netProt2str_c (PortAddress_t.networkProtocol a))),
      (''addressField'', JStr (toId (addressField a)))]"

definition json_CLOCK_DESCRIPTION :: "CLOCK_DESCRIPTION_t \<Rightarrow> (string \<times> json) list" where
  "json_CLOCK_DESCRIPTION d =
     [(''clockType'', JTok (to_string (uint (CLOCK_DESCRIPTION_t.clockType d)))),
      (''physicalLayerProtocol'', json_PTPText (CLOCK_DESCRIPTION_t.physicalLayerProtocol d)),
      (''physicalAddress'', JStr (toId (CLOCK_DESCRIPTION_t.physicalAddress d))),
      (''protocolAddress'', json_PortAddress (CLOCK_DESCRIPTION_t.protocolAddress d)),
      (''manufacturerIdentity'', JStr (bufToId (CLOCK_DESCRIPTION_t.manufacturerIdentity d))),
      (''productDescription'', json_PTPText (CLOCK_DESCRIPTION_t.productDescription d)),
      (''revisionData'', json_PTPText (CLOCK_DESCRIPTION_t.revisionData d)),
      (''userDescription'', json_PTPText (CLOCK_DESCRIPTION_t.userDescription d)),
      (''profileIdentity'', JStr (bufToId (CLOCK_DESCRIPTION_t.profileIdentity d)))]"

definition json_USER_DESCRIPTION :: "USER_DESCRIPTION_t \<Rightarrow> (string \<times> json) list" where
  "json_USER_DESCRIPTION d =
     [(''userDescription'', json_PTPText (USER_DESCRIPTION_t.userDescription d))]"

definition json_INITIALIZE :: "INITIALIZE_t \<Rightarrow> (string \<times> json) list" where
  "json_INITIALIZE d =
     [(''initializationKey'', JTok (to_string (uint (INITIALIZE_t.initializationKey d))))]"

definition json_FAULT_LOG :: "FAULT_LOG_t \<Rightarrow> (string \<times> json) list" where
  "json_FAULT_LOG d =
     [(''numberOfFaultRecords'', JTok (to_string (uint (FAULT_LOG_t.numberOfFaultRecords d)))),
      (''faultRecords'', JArr)]"

definition json_DEFAULT_DATA_SET :: "DEFAULT_DATA_SET_t \<Rightarrow> (string \<times> json) list" where
  "json_DEFAULT_DATA_SET d =
     [(''twoStepFlag'', JTok (json_bool (DEFAULT_DATA_SET_t.flags d AND 1 \<noteq> 0))),
      (''slaveOnly'', JTok (json_bool (DEFAULT_DATA_SET_t.flags d AND 2 \<noteq> 0))),
      (''numberPorts'', JTok (to_string (uint (DEFAULT_DATA_SET_t.numberPorts d)))),
      (''priority1'', JTok (to_string (uint (DEFAULT_DATA_SET_t.priority1 d)))),
      (''clockQuality'', json_ClockQuality (DEFAULT_DATA_SET_t.clockQuality d)),
      (''priority2'', JTok (to_string (uint (DEFAULT_DATA_SET_t.priority2 d)))),
      (''clockIdentity'', json_ClockIdentity (DEFAULT_DATA_SET_t.clockIdentity d)),
      (''domainNumber'', JTok (to_string (uint (DEFAULT_DATA_SET_t.domainNumber d))))]"

definition json_CURRENT_DATA_SET :: "CURRENT_DATA_SET_t \<Rightarrow> (string \<times> json) list" where
  "json_CURRENT_DATA_SET d =
     [(''stepsRemoved'', JTok (to_string (uint (CURRENT_DATA_SET_t.stepsRemoved d)))),
      (''offsetFromMaster'', json_TimeInterval (CURRENT_DATA_SET_t.offsetFromMaster d)),
      (''meanPathDelay'', json_TimeInterval (CURRENT_DATA_SET_t.meanPathDelay d))]"

definition json_PARENT_DATA_SET :: "PARENT_DATA_SET_t \<Rightarrow> (string \<times> json) list" where
  "json_PARENT_DATA_SET d =
     [(''parentPortIdentity'', json_PortIdentity (PARENT_DATA_SET_t.parentPortIdentity d)),
      (''parentStats'', JTok (json_bool (PARENT_DATA_SET_t.flags d AND 1 \<noteq> 0))),
      (''observedParentOffsetScaledLogVariance'', JTok (to_string (uint (PARENT_DATA_SET_t.observedParentOffsetScaledLogVariance d)))),
      (''observedParentClockPhaseChangeRate'', JTok (to_string (sint (PARENT_DATA_SET_t.observedParentClockPhaseChangeRate d)))),
      (''grandmasterPriority1'', JTok (to_string (uint (PARENT_DATA_SET_t.grandmasterPriority1 d)))),
      (''grandmasterClockQuality'', json_ClockQuality (PARENT_DATA_SET_t.grandmasterClockQuality d)),
      (''grandmasterPriority2'', JTok (to_string (uint (PARENT_DATA_SET_t.grandmasterPriority2 d)))),
      (''grandmasterIdentity'', json_ClockIdentity (PARENT_DATA_SET_t.grandmasterIdentity d))]"

definition json_TIME_PROPERTIES_DATA_SET :: "TIME_PROPERTIES_DATA_SET_t \<Rightarrow> (string \<times> json) list" where
  "json_TIME_PROPERTIES_DATA_SET d =
     [(''currentUtcOffset'', JTok (to_string (sint (TIME_PROPERTIES_DATA_SET_t.currentUtcOffset d)))),
      (''leap61'', JTok (json_bool (TIME_PROPERTIES_DATA_SET_t.flags d AND F_LI_61 \<noteq> 0))),
      (''leap59'', JTok (json_bool (TIME_PROPERTIES_DATA_SET_t.flags d AND F_LI_59 \<noteq> 0))),
      (''currentUtcOffsetValid'', JTok (json_bool (TIME_PROPERTIES_DATA_SET_t.flags d AND F_UTCV \<noteq> 0))),
      (''ptpTimescale'', JTok (json_bool (TIME_PROPERTIES_DATA_SET_t.flags d AND F_PTP \<noteq> 0))),
      (''timeTraceable'', JTok (json_bool (TIME_PROPERTIES_DATA_SET_t.flags d AND F_TTRA \<noteq> 0))),
      (''frequencyTraceable'', JTok (json_bool (TIME_PROPERTIES_DATA_SET_t.flags d AND F_FTRA \<noteq> 0))),
      (''timeSource'', JStr (timeSrc2str_c (TIME_PROPERTIES_DATA_SET_t.timeSource d)))]"

definition json_PORT_DATA_SET :: "PORT_DATA_SET_t \<Rightarrow> (string \<times> json) list" where
  "json_PORT_DATA_SET d =
     [(''portIdentity'', json_PortIdentity (PORT_DATA_SET_t.portIdentity d)),
      (''portState'', JStr (portState2str_c (PORT_DATA_SET_t.portState d))),
      (''logMinDelayReqInterval'', JTok (to_string (sint (PORT_DATA_SET_t.logMinDelayReqInterval d)))),
      (''peerMeanPathDelay'', json_TimeInterval (PORT_DATA_SET_t.peerMeanPathDelay d)),
      (''logAnnounceInterval'', JTok (to_string (sint (PORT_DATA_SET_t.logAnnounceInterval d)))),
      (''announceReceiptTimeout'', JTok (to_string (uint (PORT_DATA_SET_t.announceReceiptTimeout d)))),
      (''logSyncInterval'', JTok (to_string (sint (PORT_DATA_SET_t.logSyncInterval d)))),
      (''delayMechanism'', JTok (to_string (uint (PORT_DATA_SET_t.delayMechanism d)))),
      (''logMinPdelayReqInterval'', JTok (to_string (sint (PORT_DATA_SET_t.logMinPdelayReqInterval d)))),
      (''versionNumber'', JTok (to_string (uint (PORT_DATA_SET_t.versionNumber d))))]"

definition json_PRIORITY1 :: "PRIORITY1_t \<Rightarrow> (string \<times> json) list" where
  "json_PRIORITY1 d =
     [(''priority1'', JTok (to_string (uint (PRIORITY1_t.priority1 d))))]"

definition json_PRIORITY2 :: "PRIORITY2_t \<Rightarrow> (string \<times> json) list" where
  "json_PRIORITY2 d =
     [(''priority2'', JTok (to_string (uint (PRIORITY2_t.priority2 d))))]"

definition json_DOMAIN :: "DOMAIN_t \<Rightarrow> (string \<times> json) list" where
  "json_DOMAIN d =
     [(''domainNumber'', JTok (to_string (uint (DOMAIN_t.domainNumber d))))]"

definition json_SLAVE_ONLY :: "SLAVE_ONLY_t \<Rightarrow> (string \<times> json) list" where
  "json_SLAVE_ONLY d =
     [(''slaveOnly'', JTok (json_bool (SLAVE_ONLY_t.flags d AND 1 \<noteq> 0)))]"

definition json_LOG_ANNOUNCE_INTERVAL :: "LOG_ANNOUNCE_INTERVAL_t \<Rightarrow> (string \<times> json) list" where
  "json_LOG_ANNOUNCE_INTERVAL d =
     [(''logAnnounceInterval'', JTok (to_string (sint (LOG_ANNOUNCE_INTERVAL_t.logAnnounceInterval d))))]"

definition json_ANNOUNCE_RECEIPT_TIMEOUT :: "ANNOUNCE_RECEIPT_TIMEOUT_t \<Rightarrow> (string \<times> json) list" where
  "json_ANNOUNCE_RECEIPT_TIMEOUT d =
     [(''announceReceiptTimeout'', JTok (to_string (uint (ANNOUNCE_RECEIPT_TIMEOUT_t.announceReceiptTimeout d))))]"

definition json_LOG_SYNC_INTERVAL :: "LOG_SYNC_INTERVAL_t \<Rightarrow> (string \<times> json) list" where
  "json_LOG_SYNC_INTERVAL d =
     [(''logSyncInterval'', JTok (to_string (sint (LOG_SYNC_INTERVAL_t.logSyncInterval d))))]"

definition json_VERSION_NUMBER :: "VERSION_NUMBER_t \<Rightarrow> (string \<times> json) list" where
  "json_VERSION_NUMBER d =
     [(''versionNumber'', JTok (to_string (uint (VERSION_NUMBER_t.versionNumber d))))]"

definition json_TIME :: "TIME_t \<Rightarrow> (string \<times> json) list" where
  "json_TIME d =
     [(''currentTime'', json_Timestamp (TIME_t.currentTime d))]"

definition json_CLOCK_ACCURACY :: "CLOCK_ACCURACY_t \<Rightarrow> (string \<times> json) list" where
  "json_CLOCK_ACCURACY d =
     [(''clockAccuracy'', JTok (to_string (uint (CLOCK_ACCURACY_t.clockAccuracy d))))]"

definition json_UTC_PROPERTIES :: "UTC_PROPERTIES_t \<Rightarrow> (string \<times> json) list" where
  "json_UTC_PROPERTIES d =
     [(''currentUtcOffset'', JTok (to_string (sint (UTC_PROPERTIES_t.currentUtcOffset d)))),
      (''leap61'', JTok (json_bool (UTC_PROPERTIES_t.flags d AND F_LI_61 \<noteq> 0))),
      (''leap59'', JTok (json_bool (UTC_PROPERTIES_t.flags d AND F_LI_59 \<noteq> 0))),
      (''currentUtcOffsetValid'', JTok (json_bool (UTC_PROPERTIES_t.flags d AND F_UTCV \<noteq> 0)))]"

definition json_TRACEABILITY_PROPERTIES :: "TRACEABILITY_PROPERTIES_t \<Rightarrow> (string \<times> json) list" where
  "json_TRACEABILITY_PROPERTIES d =
     [(''timeTraceable'', JTok (json_bool (TRACEABILITY_PROPERTIES_t.flags d AND F_TTRA \<noteq> 0))),
      (''frequencyTraceable'', JTok (json_bool (TRACEABILITY_PROPERTIES_t.flags d AND F_FTRA \<noteq> 0)))]"

definition json_TIMESCALE_PROPERTIES :: "TIMESCALE_PROPERTIES_t \<Rightarrow> (string \<times> json) list" where
  "json_TIMESCALE_PROPERTIES d =
     [(''ptpTimescale'', JTok (json_bool (TIMESCALE_PROPERTIES_t.flags d AND F_PTP \<noteq> 0))),
      (''timeSource'', JStr (timeSrc2str_c (TIMESCALE_PROPERTIES_t.timeSource d)))]"

definition json_UNICAST_NEGOTIATION_ENABLE :: "UNICAST_NEGOTIATION_ENABLE_t \<Rightarrow> (string \<times> json) list" where
  "json_UNICAST_NEGOTIATION_ENABLE d =
     [(''unicastNegotiationPortDS'', JTok (json_bool (UNICAST_NEGOTIATION_ENABLE_t.flags d AND 1 \<noteq> 0)))]"

definition json_PATH_TRACE_LIST :: "PATH_TRACE_LIST_t \<Rightarrow> (string \<times> json) list" where
  "json_PATH_TRACE_LIST d =
     [(''pathSequence'', JArr)]"

definition json_PATH_TRACE_ENABLE :: "PATH_TRACE_ENABLE_t \<Rightarrow> (string \<times> json) list" where
  "json_PATH_TRACE_ENABLE d =
     [(''pathTraceDS'', JTok (json_bool (PATH_TRACE_ENABLE_t.flags d AND 1 \<noteq> 0)))]"

definition json_GRANDMASTER_CLUSTER_TABLE :: "GRANDMASTER_CLUSTER_TABLE_t \<Rightarrow> (string \<times> json) list" where
  "json_GRANDMASTER_CLUSTER_TABLE d =
     [(''logQueryInterval'', JTok (to_string (sint (GRANDMASTER_CLUSTER_TABLE_t.logQueryInterval d)))),
      (''actualTableSize'', JTok (to_string (uint (GRANDMASTER_CLUSTER_TABLE_t.actualTableSize d)))),
      (''PortAddress'', JArr)]"

definition json_UNICAST_MASTER_TABLE :: "UNICAST_MASTER_TABLE_t \<Rightarrow> (string \<times> json) list" where
  "json_UNICAST_MASTER_TABLE d =
     [(''logQueryInterval'', JTok (to_string (sint (UNICAST_MASTER_TABLE_t.logQueryInterval d)))),
      (''actualTableSize'', JTok (to_string (uint (UNICAST_MASTER_TABLE_t.actualTableSize d)))),
      (''PortAddress'', JArr)]"

definition json_UNICAST_MASTER_MAX_TABLE_SIZE :: "UNICAST_MASTER_MAX_TABLE_SIZE_t \<Rightarrow> (string \<times> json) list" where
  "json_UNICAST_MASTER_MAX_TABLE_SIZE d =
     [(''maxTableSize'', JTok (to_string (uint (UNICAST_MASTER_MAX_TABLE_SIZE_t.maxTableSize d))))]"

definition json_ACCEPTABLE_MASTER_TABLE :: "ACCEPTABLE_MASTER_TABLE_t \<Rightarrow> (string \<times> json) list" where
  "json_ACCEPTABLE_MASTER_TABLE d =
     [(''actualTableSize'', JTok (to_string (sint (ACCEPTABLE_MASTER_TABLE_t.actualTableSize d)))),
      (''list'', JArr)]"

definition json_ACCEPTABLE_MASTER_TABLE_ENABLED :: "ACCEPTABLE_MASTER_TABLE_ENABLED_t \<Rightarrow> (string \<times> json) list" where
  "json_ACCEPTABLE_MASTER_TABLE_ENABLED d =
     [(''acceptableMasterPortDS'', JTok (json_bool (ACCEPTABLE_MASTER_TABLE_ENABLED_t.flags d AND 1 \<noteq> 0)))]"

definition json_ACCEPTABLE_MASTER_MAX_TABLE_SIZE :: "ACCEPTABLE_MASTER_MAX_TABLE_SIZE_t \<Rightarrow> (string \<times> json) list" where
  "json_ACCEPTABLE_MASTER_MAX_TABLE_SIZE d =
     [(''maxTableSize'', JTok (to_string (uint (ACCEPTABLE_MASTER_MAX_TABLE_SIZE_t.maxTableSize d))))]"

definition json_ALTERNATE_MASTER :: "ALTERNATE_MASTER_t \<Rightarrow> (string \<times> json) list" where
  "json_ALTERNATE_MASTER d =
     [(''transmitAlternateMulticastSync'', JTok (json_bool (ALTERNATE_MASTER_t.flags d AND 1 \<noteq> 0))),
      (''logAlternateMulticastSyncInterval'', JTok (to_string (sint (ALTERNATE_MASTER_t.logAlternateMulticastSyncInterval d)))),
      (''numberOfAlternateMasters'', JTok (to_string (uint (ALTERNATE_MASTER_t.numberOfAlternateMasters d))))]"

definition json_ALTERNATE_TIME_OFFSET_ENABLE :: "ALTERNATE_TIME_OFFSET_ENABLE_t \<Rightarrow> (string \<times> json) list" where
  "json_ALTERNATE_TIME_OFFSET_ENABLE d =
     [(''keyField'', JTok (to_string (uint (ALTERNATE_TIME_OFFSET_ENABLE_t.keyField d)))),
      (''alternateTimescaleOffsetsDS'', JTok (json_bool (ALTERNATE_TIME_OFFSET_ENABLE_t.flags d AND 1 \<noteq> 0)))]"

definition json_ALTERNATE_TIME_OFFSET_NAME :: "ALTERNATE_TIME_OFFSET_NAME_t \<Rightarrow> (string \<times> json) list" where
  "json_ALTERNATE_TIME_OFFSET_NAME d =
     [(''keyField'', JTok (to_string (uint (ALTERNATE_TIME_OFFSET_NAME_t.keyField d)))),
      (''displayName'', json_PTPText (ALTERNATE_TIME_OFFSET_NAME_t.displayName d))]"

definition json_ALTERNATE_TIME_OFFSET_MAX_KEY :: "ALTERNATE_TIME_OFFSET_MAX_KEY_t \<Rightarrow> (string \<times> json) list" where
  "json_ALTERNATE_TIME_OFFSET_MAX_KEY d =
     [(''maxKey'', JTok (to_string (uint (ALTERNATE_TIME_OFFSET_MAX_KEY_t.maxKey d))))]"

definition json_ALTERNATE_TIME_OFFSET_PROPERTIES :: "ALTERNATE_TIME_OFFSET_PROPERTIES_t \<Rightarrow> (string \<times> json) list" where
  "json_ALTERNATE_TIME_OFFSET_PROPERTIES d =
     [(''keyField'', JTok (to_string (uint (ALTERNATE_TIME_OFFSET_PROPERTIES_t.keyField d)))),
      (''currentOffset'', JTok (to_string (sint (ALTERNATE_TIME_OFFSET_PROPERTIES_t.currentOffset d)))),
      (''jumpSeconds'', JTok (to_string (sint (ALTERNATE_TIME_OFFSET_PROPERTIES_t.jumpSeconds d)))),
      (''timeOfNextJump'', JTok (to_string (uint (ALTERNATE_TIME_OFFSET_PROPERTIES_t.timeOfNextJump d))))]"

definition json_TRANSPARENT_CLOCK_PORT_DATA_SET :: "TRANSPARENT_CLOCK_PORT_DATA_SET_t \<Rightarrow> (string \<times> json) list" where
  "json_TRANSPARENT_CLOCK_PORT_DATA_SET d =
     [(''portIdentity'', json_PortIdentity (TRANSPARENT_CLOCK_PORT_DATA_SET_t.portIdentity d)),
      (''transparentClockPortDS'', JTok (json_bool (TRANSPARENT_CLOCK_PORT_DATA_SET_t.flags d AND 1 \<noteq> 0))),
      (''logMinPdelayReqInterval'', JTok (to_string (sint (TRANSPARENT_CLOCK_PORT_DATA_SET_t.logMinPdelayReqInterval d)))),
      (''peerMeanPathDelay'', json_TimeInterval (TRANSPARENT_CLOCK_PORT_DATA_SET_t.peerMeanPathDelay d))]"

definition json_LOG_MIN_PDELAY_REQ_INTERVAL :: "LOG_MIN_PDELAY_REQ_INTERVAL_t \<Rightarrow> (string \<times> json) list" where
  "json_LOG_MIN_PDELAY_REQ_INTERVAL d =
     [(''logMinPdelayReqInterval'', JTok (to_string (sint (LOG_MIN_PDELAY_REQ_INTERVAL_t.logMinPdelayReqInterval d))))]"

definition json_TRANSPARENT_CLOCK_DEFAULT_DATA_SET :: "TRANSPARENT_CLOCK_DEFAULT_DATA_SET_t \<Rightarrow> (string \<times> json) list" where
  "json_TRANSPARENT_CLOCK_DEFAULT_DATA_SET d =
     [(''clockIdentity'', json_ClockIdentity (TRANSPARENT_CLOCK_DEFAULT_DATA_SET_t.clockIdentity d)),
      (''numberPorts'', JTok (to_string (uint (TRANSPARENT_CLOCK_DEFAULT_DATA_SET_t.numberPorts d)))),
      (''delayMechanism'', JTok (to_string (uint (TRANSPARENT_CLOCK_DEFAULT_DATA_SET_t.delayMechanism d)))),
      (''primaryDomain'', JTok (to_string (uint (TRANSPARENT_CLOCK_DEFAULT_DATA_SET_t.primaryDomain d))))]"

definition json_PRIMARY_DOMAIN :: "PRIMARY_DOMAIN_t \<Rightarrow> (string \<times> json) list" where
  "json_PRIMARY_DOMAIN d =
     [(''primaryDomain'', JTok (to_string (uint (PRIMARY_DOMAIN_t.primaryDomain d))))]"

definition json_DELAY_MECHANISM :: "DELAY_MECHANISM_t \<Rightarrow> (string \<times> json) list" where
  "json_DELAY_MECHANISM d =
     [(''delayMechanism'', JTok (to_string (uint (DELAY_MECHANISM_t.delayMechanism d))))]"

definition json_EXTERNAL_PORT_CONFIGURATION_ENABLED :: "EXTERNAL_PORT_CONFIGURATION_ENABLED_t \<Rightarrow> (string \<times> json) list" where
  "json_EXTERNAL_PORT_CONFIGURATION_ENABLED d =
     [(''externalPortConfiguration'', JTok (json_bool (EXTERNAL_PORT_CONFIGURATION_ENABLED_t.flags d AND 1 \<noteq> 0)))]"

definition json_MASTER_ONLY :: "MASTER_ONLY_t \<Rightarrow> (string \<times> json) list" where
  "json_MASTER_ONLY d =
     [(''masterOnly'', JTok (json_bool (MASTER_ONLY_t.flags d AND 1 \<noteq> 0)))]"

definition json_HOLDOVER_UPGRADE_ENABLE :: "HOLDOVER_UPGRADE_ENABLE_t \<Rightarrow> (string \<times> json) list" where
  "json_HOLDOVER_UPGRADE_ENABLE d =
     [(''holdoverUpgradeDS'', JTok (json_bool (HOLDOVER_UPGRADE_ENABLE_t.flags d AND 1 \<noteq> 0)))]"

definition json_EXT_PORT_CONFIG_PORT_DATA_SET :: "EXT_PORT_CONFIG_PORT_DATA_SET_t \<Rightarrow> (string \<times> json) list" where
  "json_EXT_PORT_CONFIG_PORT_DATA_SET d =
     [(''acceptableMasterPortDS'', JTok (json_bool (EXT_PORT_CONFIG_PORT_DATA_SET_t.flags d AND 1 \<noteq> 0))),
      (''desiredState'', JStr (portState2str_c (EXT_PORT_CONFIG_PORT_DATA_SET_t.desiredState d)))]"

definition json_TIME_STATUS_NP :: "TIME_STATUS_NP_t \<Rightarrow> (string \<times> json) list" where
  "json_TIME_STATUS_NP d =
     [(''master_offset'', JTok (to_string (sint (TIME_STATUS_NP_t.master_offset d)))),
      (''ingress_time'', JTok (to_string (sint (TIME_STATUS_NP_t.ingress_time d)))),
      (''cumulativeScaledRateOffset'', JTok (to_string (sint (TIME_STATUS_NP_t.cumulativeScaledRateOffset d)))),
      (''scaledLastGmPhaseChange'', JTok (to_string (sint (TIME_STATUS_NP_t.scaledLastGmPhaseChange d)))),
      (''gmTimeBaseIndicator'', JTok (to_string (uint (TIME_STATUS_NP_t.gmTimeBaseIndicator d)))),
      (''nanoseconds_msb'', JTok (to_string (uint (TIME_STATUS_NP_t.nanoseconds_msb d)))),
      (''nanoseconds_lsb'', JTok (to_string (uint (TIME_STATUS_NP_t.nanoseconds_lsb d)))),
      (''fractional_nanoseconds'', JTok (to_string (uint (TIME_STATUS_NP_t.fractional_nanoseconds d)))),
      (''gmPresent'', JTok (to_string (sint (TIME_STATUS_NP_t.gmPresent d)))),
      (''gmIdentity'', json_ClockIdentity (TIME_STATUS_NP_t.gmIdentity d))]"

definition json_GRANDMASTER_SETTINGS_NP :: "GRANDMASTER_SETTINGS_NP_t \<Rightarrow> (string \<times> json) list" where
  "json_GRANDMASTER_SETTINGS_NP d =
     [(''clockQuality'', json_ClockQuality (GRANDMASTER_SETTINGS_NP_t.clockQuality d)),
      (''currentUtcOffset'', JTok (to_string (sint (GRANDMASTER_SETTINGS_NP_t.currentUtcOffset d)))),
      (''leap61'', JTok (json_bool (GRANDMASTER_SETTINGS_NP_t.flags d AND F_LI_61 \<noteq> 0))),
      (''leap59'', JTok (json_bool (GRANDMASTER_SETTINGS_NP_t.flags d AND F_LI_59 \<noteq> 0))),
      (''currentUtcOffsetValid'', JTok (json_bool (GRANDMASTER_SETTINGS_NP_t.flags d AND F_UTCV \<noteq> 0))),
      (''ptpTimescale'', JTok (json_bool (GRANDMASTER_SETTINGS_NP_t.flags d AND F_PTP \<noteq> 0))),
      (''timeTraceable'', JTok (json_bool (GRANDMASTER_SETTINGS_NP_t.flags d AND F_TTRA \<noteq> 0))),
      (''frequencyTraceable'', JTok (json_bool (GRANDMASTER_SETTINGS_NP_t.flags d AND F_FTRA \<noteq> 0))),
      (''timeSource'', JStr (timeSrc2str_c (GRANDMASTER_SETTINGS_NP_t.timeSource d)))]"

definition json_PORT_DATA_SET_NP :: "PORT_DATA_SET_NP_t \<Rightarrow> (string \<times> json) list" where
  "json_PORT_DATA_SET_NP d =
     [(''neighborPropDelayThresh'', JTok (to_string (uint (PORT_DATA_SET_NP_t.neighborPropDelayThresh d)))),
      (''asCapable'', JTok (to_string (sint (PORT_DATA_SET_NP_t.asCapable d))))]"

definition json_SUBSCRIBE_EVENTS_NP :: "SUBSCRIBE_EVENTS_NP_t \<Rightarrow> (string \<times> json) list" where
  "json_SUBSCRIBE_EVENTS_NP d =
     [(''duration'', JTok (to_string (uint (SUBSCRIBE_EVENTS_NP_t.duration d))))]"

definition json_PORT_PROPERTIES_NP :: "PORT_PROPERTIES_NP_t \<Rightarrow> (string \<times> json) list" where
  "json_PORT_PROPERTIES_NP d =
     [(''portIdentity'', json_PortIdentity (PORT_PROPERTIES_NP_t.portIdentity d)),
      (''portState'', JStr (portState2str_c (PORT_PROPERTIES_NP_t.portState d))),
      (''timestamping'', JStr (ts2str_c (PORT_PROPERTIES_NP_t.timestamping d))),
      (''interface'', json_PTPText (PORT_PROPERTIES_NP_t.interface d))]"

definition json_PORT_STATS_NP :: "PORT_STATS_NP_t \<Rightarrow> (string \<times> json) list" where
  "json_PORT_STATS_NP d =
     [(''portIdentity'', json_PortIdentity (PORT_STATS_NP_t.portIdentity d))]"

definition json_SYNCHRONIZATION_UNCERTAIN_NP :: "SYNCHRONIZATION_UNCERTAIN_NP_t \<Rightarrow> (string \<times> json) list" where
  "json_SYNCHRONIZATION_UNCERTAIN_NP d =
     [(''val'', JTok (to_string (uint (SYNCHRONIZATION_UNCERTAIN_NP_t.uncertain_val d))))]"

primrec json_tlv :: "BaseMngTlv \<Rightarrow> (string \<times> json) list" where
  "json_tlv (TLV_CLOCK_DESCRIPTION d) = json_CLOCK_DESCRIPTION d"
| "json_tlv (TLV_USER_DESCRIPTION d) = json_USER_DESCRIPTION d"
| "json_tlv (TLV_INITIALIZE d) = json_INITIALIZE d"
| "json_tlv (TLV_FAULT_LOG d) = json_FAULT_LOG d"
| "json_tlv (TLV_DEFAULT_DATA_SET d) = json_DEFAULT_DATA_SET d"
| "json_tlv (TLV_CURRENT_DATA_SET d) = json_CURRENT_DATA_SET d"
| "json_tlv (TLV_PARENT_DATA_SET d) = json_PARENT_DATA_SET d"
| "json_tlv (TLV_TIME_PROPERTIES_DATA_SET d) = json_TIME_PROPERTIES_DATA_SET d"
| "json_tlv (TLV_PORT_DATA_SET d) = json_PORT_DATA_SET d"
| "json_tlv (TLV_PRIORITY1 d) = json_PRIORITY1 d"
| "json_tlv (TLV_PRIORITY2 d) = json_PRIORITY2 d"
| "json_tlv (TLV_DOMAIN d) = json_DOMAIN d"
| "json_tlv (TLV_SLAVE_ONLY d) = json_SLAVE_ONLY d"
| "json_tlv (TLV_LOG_ANNOUNCE_INTERVAL d) = json_LOG_ANNOUNCE_INTERVAL d"
| "json_tlv (TLV_ANNOUNCE_RECEIPT_TIMEOUT d) = json_ANNOUNCE_RECEIPT_TIMEOUT d"
| "json_tlv (TLV_LOG_SYNC_INTERVAL d) = json_LOG_SYNC_INTERVAL d"
| "json_tlv (TLV_VERSION_NUMBER d) = json_VERSION_NUMBER d"
| "json_tlv (TLV_TIME d) = json_TIME d"
| "json_tlv (TLV_CLOCK_ACCURACY d) = json_CLOCK_ACCURACY d"
| "json_tlv (TLV_UTC_PROPERTIES d) = json_UTC_PROPERTIES d"
| "json_tlv (TLV_TRACEABILITY_PROPERTIES d) = json_TRACEABILITY_PROPERTIES d"
| "json_tlv (TLV_TIMESCALE_PROPERTIES d) = json_TIMESCALE_PROPERTIES d"
| "json_tlv (TLV_UNICAST_NEGOTIATION_ENABLE d) = json_UNICAST_NEGOTIATION_ENABLE d"
| "json_tlv (TLV_PATH_TRACE_LIST d) = json_PATH_TRACE_LIST d"
| "json_tlv (TLV_PATH_TRACE_ENABLE d) = json_PATH_TRACE_ENABLE d"
| "json_tlv (TLV_GRANDMASTER_CLUSTER_TABLE d) = json_GRANDMASTER_CLUSTER_TABLE d"
| "json_tlv (TLV_UNICAST_MASTER_TABLE d) = json_UNICAST_MASTER_TABLE d"
| "json_tlv (TLV_UNICAST_MASTER_MAX_TABLE_SIZE d) = json_UNICAST_MASTER_MAX_TABLE_SIZE d"
| "json_tlv (TLV_ACCEPTABLE_MASTER_TABLE d) = json_ACCEPTABLE_MASTER_TABLE d"
| "json_tlv (TLV_ACCEPTABLE_MASTER_TABLE_ENABLED d) = json_ACCEPTABLE_MASTER_TABLE_ENABLED d"
| "json_tlv (TLV_ACCEPTABLE_MASTER_MAX_TABLE_SIZE d) = json_ACCEPTABLE_MASTER_MAX_TABLE_SIZE d"
| "json_tlv (TLV_ALTERNATE_MASTER d) = json_ALTERNATE_MASTER d"
| "json_tlv (TLV_ALTERNATE_TIME_OFFSET_ENABLE d) = json_ALTERNATE_TIME_OFFSET_ENABLE d"
| "json_tlv (TLV_ALTERNATE_TIME_OFFSET_NAME d) = json_ALTERNATE_TIME_OFFSET_NAME d"
| "json_tlv (TLV_ALTERNATE_TIME_OFFSET_MAX_KEY d) = json_ALTERNATE_TIME_OFFSET_MAX_KEY d"
| "json_tlv (TLV_ALTERNATE_TIME_OFFSET_PROPERTIES d) = json_ALTERNATE_TIME_OFFSET_PROPERTIES d"
| "json_tlv (TLV_TRANSPARENT_CLOCK_PORT_DATA_SET d) = json_TRANSPARENT_CLOCK_PORT_DATA_SET d"
| "json_tlv (TLV_LOG_MIN_PDELAY_REQ_INTERVAL d) = json_LOG_MIN_PDELAY_REQ_INTERVAL d"
| "json_tlv (TLV_TRANSPARENT_CLOCK_DEFAULT_DATA_SET d) = json_TRANSPARENT_CLOCK_DEFAULT_DATA_SET d"
| "json_tlv (TLV_PRIMARY_DOMAIN d) = json_PRIMARY_DOMAIN d"
| "json_tlv (TLV_DELAY_MECHANISM d) = json_DELAY_MECHANISM d"
| "json_tlv (TLV_EXTERNAL_PORT_CONFIGURATION_ENABLED d) = json_EXTERNAL_PORT_CONFIGURATION_ENABLED d"
| "json_tlv (TLV_MASTER_ONLY d) = json_MASTER_ONLY d"
| "json_tlv (TLV_HOLDOVER_UPGRADE_ENABLE d) = json_HOLDOVER_UPGRADE_ENABLE d"
| "json_tlv (TLV_EXT_PORT_CONFIG_PORT_DATA_SET d) = json_EXT_PORT_CONFIG_PORT_DATA_SET d"
| "json_tlv (TLV_TIME_STATUS_NP d) = json_TIME_STATUS_NP d"
| "json_tlv (TLV_GRANDMASTER_SETTINGS_NP d) = json_GRANDMASTER_SETTINGS_NP d"
| "json_tlv (TLV_PORT_DATA_SET_NP d) = json_PORT_DATA_SET_NP d"
| "json_tlv (TLV_SUBSCRIBE_EVENTS_NP d) = json_SUBSCRIBE_EVENTS_NP d"
| "json_tlv (TLV_PORT_PROPERTIES_NP d) = json_PORT_PROPERTIES_NP d"
| "json_tlv (TLV_PORT_STATS_NP d) = json_PORT_STATS_NP d"
| "json_tlv (TLV_SYNCHRONIZATION_UNCERTAIN_NP d) = json_SYNCHRONIZATION_UNCERTAIN_NP d"

definition json_data :: "Message \<Rightarrow> (string \<times> json) list" where
  "json_data msg =
     [(''actionField'', JStr (act2str_c (m_replyAction msg))),
      (''tlvType'', JStr (tlv2str_c (m_mngType msg))),
      (''managementId'', JStr (mng2str_c (m_tlv_id msg)))] @
     (if m_mngType msg = MANAGEMENT then
        (case m_dataGet msg of None \<Rightarrow> [] | Some t \<Rightarrow> [(''dataField'', JObj (json_tlv t))])
      else if m_mngType msg = MANAGEMENT_ERROR_STATUS then
        [(''managementErrorId'', JStr (errId2str_c (m_errorId msg))),
         (''displayData'', JStr (textField (m_errorDisplay msg)))]
      else [])"

definition json_message :: "Message \<Rightarrow> (string \<times> json) list" where
  "json_message msg =
     [(''sequenceId'', JTok (to_string (uint (m_sequence msg)))),
      (''sdoId'', JTok (to_string (uint (m_sdoId msg)))),
      (''domainNumber'', JTok (to_string (uint (m_domainNumber msg)))),
      (''versionPTP'', JTok (to_string (uint (m_versionPTP msg)))),
      (''minorVersionPTP'', JTok (to_string (uint (m_minorVersionPTP msg)))),
      (''messageType'', JStr (if m_type msg = Management then ''Management'' else ''Unsupported'')),
      (''sourcePortIdentity'', json_PortIdentity (m_peer msg))] @
     (if m_type msg = Management then json_data msg else [])"

section \<open>Refinement\<close>

text \<open>The writer after the text of some members.\<close>

definition wrote :: "(string \<times> json) list \<Rightarrow> JsonProcToJson \<Rightarrow> JsonProcToJson" where
  "wrote ms s = s\<lparr>result := result s @ show_members (length (m_first_vals s)) (m_first s) ms,
     m_first := (m_first s \<and> ms = [])\<rparr>"

lemma show_members_append:
  "show_members d first (ms @ ns) = show_members d first ms @ show_members d (first \<and> ms = []) ns"
  by (induction ms arbitrary: first) auto

lemma wrote_Nil [simp]: "wrote [] s = s"
  by (simp add: wrote_def)

lemma wrote_wrote: "wrote ns (wrote ms s) = wrote (ms @ ns) s"
  by (auto simp: wrote_def show_members_append)

text \<open>A method that writes members and succeeds.\<close>

locale json_writer =
  fixes p :: jproc and ms :: "(string \<times> json) list"
  assumes writes: "p s = Some (True, wrote ms s)"
begin

lemma writes_then: "jprocs (p # ps) s = jprocs ps (wrote ms s)"
  by (simp add: writes)

lemma never_fails: "\<exists>s'. p s = Some (True, s')"
  by (simp add: writes)

end

abbreviation writers :: "jproc list \<Rightarrow> (string \<times> json) list \<Rightarrow> bool" where
  "writers \<equiv> list_all2 (\<lambda>p m. json_writer p [m])"

lemma writer_jprocs: "writers ps ms \<Longrightarrow> json_writer (jprocs ps) ms"
proof (induction ps ms rule: list_all2_induct)
  case Nil
  then show ?case by unfold_locales simp
next
  case (Cons p ps m ms)
  then show ?case by (intro json_writer.intro) (simp add: json_writer.writes wrote_wrote)
qed

lemma jseq_written: "writers ps ms \<Longrightarrow> jseq ps s = Some (wrote ms s)"
  by (induction ps ms arbitrary: s rule: list_all2_induct) (simp_all add: json_writer.writes wrote_wrote)

lemmas writer_defs = procString_def procValue_str_def procValue_Binary_def procBool_def procValue_int_def
  startName_def j_close_def indent_def add_def wrote_def ind_def

lemma writer_num: "json_writer (procValue_num n v) [(n, JTok (to_string v))]"
  by unfold_locales (simp add: procValue_num_def writer_defs Let_def)

lemma writer_clockAccuracy: "json_writer (procValue_clockAccuracy n v) [(n, JTok (to_string (uint v)))]"
  unfolding procValue_clockAccuracy_def Let_def by (rule writer_num)

lemma writer_enum: "json_writer (procValue_enum f n v) [(n, JStr (f v))]"
  by unfold_locales (simp add: procValue_enum_def writer_defs Let_def)

lemma writer_TimeInterval: "json_writer (procValue_TimeInterval n v) [(n, json_TimeInterval v)]"
  by unfold_locales (simp add: procValue_TimeInterval_def json_TimeInterval_def writer_defs Let_def)

lemma writer_Timestamp: "json_writer (procValue_Timestamp n v) [(n, json_Timestamp v)]"
  by unfold_locales (simp add: procValue_Timestamp_def json_Timestamp_def writer_defs Let_def)

lemma writer_ClockIdentity: "json_writer (procValue_ClockIdentity n v) [(n, json_ClockIdentity v)]"
  by unfold_locales (simp add: procValue_ClockIdentity_def json_ClockIdentity_def writer_defs Let_def)

lemma writer_PTPText: "json_writer (procValue_PTPText n v) [(n, json_PTPText v)]"
  by unfold_locales (simp add: procValue_PTPText_def json_PTPText_def writer_defs Let_def)

lemma writer_Binary: "json_writer (\<lambda>s. Some (True, procValue_Binary n v s)) [(n, JStr (toId v))]"
  by unfold_locales (simp add: writer_defs Let_def)

lemma writer_procBinary: "json_writer (procBinary n v) [(n, JStr (toId v))]"
  by unfold_locales (simp add: procBinary_def writer_defs Let_def)

lemma writer_procBinary_oct: "json_writer (procBinary_oct n v) [(n, JStr (bufToId v))]"
  by unfold_locales (simp add: procBinary_oct_def writer_defs Let_def)

lemma writer_procFlag: "json_writer (procFlag n f m) [(n, JTok (json_bool (f AND m \<noteq> 0)))]"
  by unfold_locales (simp add: procFlag_def json_bool_def word_gt_0 writer_defs Let_def)

lemma writer_procArray: "json_writer (procArray n v) [(n, JArr)]"
  by unfold_locales
    (simp add: procArray_def procArray_start_def startArray_def closeArray_def ret_true_def writer_defs Let_def)

text \<open>An object: what is written between its braces is written one level deeper.\<close>

lemma wrote_fields [simp]:
  "m_first_vals (wrote ms s) = m_first_vals s"
  by (simp add: wrote_def)

lemma object_written:
  "closeObject (wrote ms (procObject n s)) = Some (wrote [(n, JObj ms)] s)"
  by (simp add: closeObject_def procObject_def startObject_def writer_defs Let_def)

lemma object_written_at:
  "closeObject (wrote ms (startObject (startName n [CHR 0x0A] s))) = Some (wrote [(n, JObj ms)] s)"
  using object_written [of ms n s] by (simp add: procObject_def)

lemma object_body_written: "writers ps ms \<Longrightarrow> object_body ps s = closeObject (wrote ms s)"
  by (simp add: object_body_def jseq_written)

lemmas writer_scalars [simp] = writer_num writer_clockAccuracy writer_enum writer_TimeInterval writer_Timestamp
  writer_ClockIdentity writer_PTPText writer_Binary writer_procBinary writer_procBinary_oct writer_procFlag
  writer_procArray

lemma writer_PortIdentity [simp]: "json_writer (procValue_PortIdentity n v) [(n, json_PortIdentity v)]"
  unfolding procValue_PortIdentity_def json_PortIdentity_def
  by (intro json_writer.intro, subst object_body_written) (simp_all add: object_written ret_true_def)

lemma writer_ClockQuality [simp]: "json_writer (procValue_ClockQuality n v) [(n, json_ClockQuality v)]"
  unfolding procValue_ClockQuality_def json_ClockQuality_def
  by (intro json_writer.intro, subst object_body_written) (simp_all add: object_written ret_true_def)

lemma writer_PortAddress [simp]: "json_writer (procValue_PortAddress n v) [(n, json_PortAddress v)]"
  unfolding procValue_PortAddress_def procValue_PortAddress_obj_def json_PortAddress_def
  by (intro json_writer.intro, subst object_body_written) (simp_all add: object_written_at ret_true_def)

lemmas proc_json_defs =
  proc_CLOCK_DESCRIPTION_def json_CLOCK_DESCRIPTION_def
  proc_USER_DESCRIPTION_def json_USER_DESCRIPTION_def
  proc_INITIALIZE_def json_INITIALIZE_def
  proc_FAULT_LOG_def json_FAULT_LOG_def
  proc_DEFAULT_DATA_SET_def json_DEFAULT_DATA_SET_def
  proc_CURRENT_DATA_SET_def json_CURRENT_DATA_SET_def
  proc_PARENT_DATA_SET_def json_PARENT_DATA_SET_def
  proc_TIME_PROPERTIES_DATA_SET_def json_TIME_PROPERTIES_DATA_SET_def
  proc_PORT_DATA_SET_def json_PORT_DATA_SET_def
  proc_PRIORITY1_def json_PRIORITY1_def
  proc_PRIORITY2_def json_PRIORITY2_def
  proc_DOMAIN_def json_DOMAIN_def
  proc_SLAVE_ONLY_def json_SLAVE_ONLY_def
  proc_LOG_ANNOUNCE_INTERVAL_def json_LOG_ANNOUNCE_INTERVAL_def
  proc_ANNOUNCE_RECEIPT_TIMEOUT_def json_ANNOUNCE_RECEIPT_TIMEOUT_def
  proc_LOG_SYNC_INTERVAL_def json_LOG_SYNC_INTERVAL_def
  proc_VERSION_NUMBER_def json_VERSION_NUMBER_def
  proc_TIME_def json_TIME_def
  proc_CLOCK_ACCURACY_def json_CLOCK_ACCURACY_def
  proc_UTC_PROPERTIES_def json_UTC_PROPERTIES_def
  proc_TRACEABILITY_PROPERTIES_def json_TRACEABILITY_PROPERTIES_def
  proc_TIMESCALE_PROPERTIES_def json_TIMESCALE_PROPERTIES_def
  proc_UNICAST_NEGOTIATION_ENABLE_def json_UNICAST_NEGOTIATION_ENABLE_def
  proc_PATH_TRACE_LIST_def json_PATH_TRACE_LIST_def
  proc_PATH_TRACE_ENABLE_def json_PATH_TRACE_ENABLE_def
  proc_GRANDMASTER_CLUSTER_TABLE_def json_GRANDMASTER_CLUSTER_TABLE_def
  proc_UNICAST_MASTER_TABLE_def json_UNICAST_MASTER_TABLE_def
  proc_UNICAST_MASTER_MAX_TABLE_SIZE_def json_UNICAST_MASTER_MAX_TABLE_SIZE_def
  proc_ACCEPTABLE_MASTER_TABLE_def json_ACCEPTABLE_MASTER_TABLE_def
  proc_ACCEPTABLE_MASTER_TABLE_ENABLED_def json_ACCEPTABLE_MASTER_TABLE_ENABLED_def
  proc_ACCEPTABLE_MASTER_MAX_TABLE_SIZE_def json_ACCEPTABLE_MASTER_MAX_TABLE_SIZE_def
  proc_ALTERNATE_MASTER_def json_ALTERNATE_MASTER_def
  proc_ALTERNATE_TIME_OFFSET_ENABLE_def json_ALTERNATE_TIME_OFFSET_ENABLE_def
  proc_ALTERNATE_TIME_OFFSET_NAME_def json_ALTERNATE_TIME_OFFSET_NAME_def
  proc_ALTERNATE_TIME_OFFSET_MAX_KEY_def json_ALTERNATE_TIME_OFFSET_MAX_KEY_def
  proc_ALTERNATE_TIME_OFFSET_PROPERTIES_def json_ALTERNATE_TIME_OFFSET_PROPERTIES_def
  proc_TRANSPARENT_CLOCK_PORT_DATA_SET_def json_TRANSPARENT_CLOCK_PORT_DATA_SET_def
  proc_LOG_MIN_PDELAY_REQ_INTERVAL_def json_LOG_MIN_PDELAY_REQ_INTERVAL_def
  proc_TRANSPARENT_CLOCK_DEFAULT_DATA_SET_def json_TRANSPARENT_CLOCK_DEFAULT_DATA_SET_def
  proc_PRIMARY_DOMAIN_def json_PRIMARY_DOMAIN_def
  proc_DELAY_MECHANISM_def json_DELAY_MECHANISM_def
  proc_EXTERNAL_PORT_CONFIGURATION_ENABLED_def json_EXTERNAL_PORT_CONFIGURATION_ENABLED_def
  proc_MASTER_ONLY_def json_MASTER_ONLY_def
  proc_HOLDOVER_UPGRADE_ENABLE_def json_HOLDOVER_UPGRADE_ENABLE_def
  proc_EXT_PORT_CONFIG_PORT_DATA_SET_def json_EXT_PORT_CONFIG_PORT_DATA_SET_def
  proc_TIME_STATUS_NP_def json_TIME_STATUS_NP_def
  proc_GRANDMASTER_SETTINGS_NP_def json_GRANDMASTER_SETTINGS_NP_def
  proc_PORT_DATA_SET_NP_def json_PORT_DATA_SET_NP_def
  proc_SUBSCRIBE_EVENTS_NP_def json_SUBSCRIBE_EVENTS_NP_def
  proc_PORT_PROPERTIES_NP_def json_PORT_PROPERTIES_NP_def
  proc_PORT_STATS_NP_def json_PORT_STATS_NP_def
  proc_SYNCHRONIZATION_UNCERTAIN_NP_def json_SYNCHRONIZATION_UNCERTAIN_NP_def

lemma writer_tlv: "json_writer (proc_tlv t) (json_tlv t)"
  by (cases t) (simp_all add: proc_json_defs writer_jprocs)

interpretation tlv_json: json_writer "proc_tlv t" "json_tlv t" for t
  by (rule writer_tlv)

lemma data2json_written:
  assumes "tlv_type t = tid" and "tid < 58"
  shows "data2json tid t s = Some (wrote (json_tlv t) s)"
proof -
  have "ids_fun (ids ! tlv_type t) \<noteq> NA" by (cases t) (simp_all add: ids_def row_def)
  then show ?thesis using assms by (simp add: data2json_def tlv_json.writes)
qed

lemma procValue_int_written: "procValue_int n v s = wrote [(n, JTok (to_string v))] s"
  using json_writer.writes [OF writer_num, of n v s] by (simp add: procValue_num_def)

lemma procString_written: "procString n v s = wrote [(n, JStr v)] s"
  using json_writer.writes [OF writer_enum, of "\<lambda>x. x" n v s] by (simp add: procValue_enum_def)

lemma msg2json_mng_written:
  assumes "\<And>t. m_mngType msg = MANAGEMENT \<Longrightarrow> m_dataGet msg = Some t \<Longrightarrow> tlv_type t = m_tlv_id msg"
    and "m_tlv_id msg < 58"
  shows "msg2json_mng msg s = Some (wrote (json_data msg) s)"
  using assms
  by (auto simp: msg2json_mng_def json_data_def procString_written data2json_written object_written wrote_wrote
      Let_def split: option.split)

lemma msg2json_written:
  assumes "m_type msg = Management \<Longrightarrow> m_tlv_id msg < 58"
    and "\<And>t. m_type msg = Management \<Longrightarrow> m_mngType msg = MANAGEMENT \<Longrightarrow> m_dataGet msg = Some t \<Longrightarrow>
      tlv_type t = m_tlv_id msg"
  shows "msg2json msg = Some (''{'' @ show_members 1 True (json_message msg) @ [CHR 0x0A] @ ''}'')"
proof -
  have "msg2json_mng msg s = Some (wrote (json_data msg) s)" if "m_type msg = Management" for s
    using assms that by (intro msg2json_mng_written) auto
  moreover have "closeObject (wrote ms (startObject new_JsonProcToJson)) =
      Some \<lparr>result = ''{'' @ show_members 1 True ms @ [CHR 0x0A] @ ''}'', m_first_vals = [], m_first = False\<rparr>" for ms
    by (simp add: closeObject_def startObject_def new_JsonProcToJson_def indent_def add_def wrote_def Let_def)
  ultimately show ?thesis
    by (simp add: msg2json_def procValue_int_written procString_written json_writer.writes [OF writer_PortIdentity]
        wrote_wrote json_message_def type_string_def)
qed

end
