(* ===== verification/Cfg.thy ===== *)
theory Cfg
  imports Bin
begin

text \<open>
  Classes \<^verbatim>\<open>ConfigSection\<close> and \<^verbatim>\<open>ConfigFile\<close> of \<^verbatim>\<open>src/cfg.h\<close> and \<^verbatim>\<open>src/cfg.cpp\<close>:
  the reader of a ptp4l configuration file.

  A line is read into the buffer of 512 characters of \<^verbatim>\<open>read_cfg\<close> and worked on in place, so
  the model keeps the buffer and positions in it; \<^term>\<open>None\<close> is an access outside the buffer.
  The class holds a reference to a node of its map, which clearing the map destroys. The model
  therefore keeps the nodes in a store: \<open>nodes\<close> maps the address of a live node to its section,
  \<open>cfgSec\<close> a name to an address, \<open>cfgGlobal\<close> is the address the reference was bound to, and
  following the reference when the address is not live is \<^term>\<open>None\<close>. Where the allocator puts
  a new node and what its uninitialised values hold are arguments.
\<close>

section \<open>Values and ranges\<close>

abbreviation (input) transportSpecific_val :: nat where "transportSpecific_val \<equiv> 0"
abbreviation (input) domainNumber_val :: nat where "domainNumber_val \<equiv> 1"
abbreviation (input) udp6_scope_val :: nat where "udp6_scope_val \<equiv> 2"
abbreviation (input) udp_ttl_val :: nat where "udp_ttl_val \<equiv> 3"
abbreviation (input) socket_priority_val :: nat where "socket_priority_val \<equiv> 4"
abbreviation (input) network_transport_val :: nat where "network_transport_val \<equiv> 5"
abbreviation (input) uds_address_val :: nat where "uds_address_val \<equiv> 6"
abbreviation (input) ptp_dst_mac_val :: nat where "ptp_dst_mac_val \<equiv> 7"
abbreviation (input) p2p_dst_mac_val :: nat where "p2p_dst_mac_val \<equiv> 8"
abbreviation (input) last_val :: nat where "last_val \<equiv> 9"

definition val_limit :: nat where "val_limit = uds_address_val"

definition str_base_val :: nat where "str_base_val = uds_address_val"

definition bin_base_val :: nat where "bin_base_val = uds_address_val + 1"

record range_t =
  rng_name :: string
  rng_def :: u8
  rng_min :: u8
  rng_max :: u8

definition rng :: "string \<Rightarrow> u8 \<Rightarrow> u8 \<Rightarrow> u8 \<Rightarrow> range_t" where
  "rng n d lo hi = \<lparr>rng_name = n, rng_def = d, rng_min = lo, rng_max = hi\<rparr>"

definition ranges :: "range_t list" where
  "ranges = [
     rng ''transportSpecific'' 0 0 0xf,
     rng ''domainNumber'' 0 0 239,
     rng ''udp6_scope'' 0xe 0 0xf,
     rng ''udp_ttl'' 1 1 255,
     rng ''socket_priority'' 0 0 15,
     rng ''network_transport'' (byte_of_char (CHR ''4'')) (byte_of_char (CHR ''2'')) (byte_of_char (CHR ''6'')),
     rng ''uds_address'' 0 0 0,
     rng ''ptp_dst_mac'' 0 0 0,
     rng ''p2p_dst_mac'' 0 0 0]"

definition ptp_dst_mac_def :: string where "ptp_dst_mac_def = ''1:1b:19:0:0:0''"

definition p2p_dst_mac_def :: string where "p2p_dst_mac_def = ''1:80:c2:0:0:e''"

definition uds_address_def :: string where "uds_address_def = ''/var/run/ptp4l''"

definition globalSection :: string where "globalSection = ''global''"

section \<open>Positions in the line buffer\<close>

function skip_spaces :: "string \<Rightarrow> nat \<Rightarrow> nat option" where
  "skip_spaces buf cur =
     (if cur < length buf then if isspace (buf ! cur) then skip_spaces buf (cur + 1) else Some cur
      else None)"
  by pat_completeness auto
termination by (relation "measure (\<lambda>(buf, cur). length buf - cur)") auto

function find_space :: "string \<Rightarrow> nat \<Rightarrow> nat option" where
  "find_space buf cur =
     (if cur < length buf then if \<not> isspace (buf ! cur) then find_space buf (cur + 1) else Some cur
      else None)"
  by pat_completeness auto
termination by (relation "measure (\<lambda>(buf, cur). length buf - cur)") auto

declare skip_spaces.simps [simp del] find_space.simps [simp del]

text \<open>The position after the last character before \<open>end\<close> that is not a space.\<close>

fun last_space :: "string \<Rightarrow> nat \<Rightarrow> nat option" where
  "last_space buf 0 = None"
| "last_space buf (Suc e) = (if isspace (buf ! e) then last_space buf e else Some (Suc e))"

definition strip_end_spaces :: "nat \<Rightarrow> string \<Rightarrow> string option" where
  "strip_end_spaces end buf =
     (if end \<le> length buf then
        (case last_space buf end of
           None \<Rightarrow> None
         | Some e \<Rightarrow> if e < length buf then Some (buf[e := NUL]) else None)
      else None)"

definition cstr_at :: "string \<Rightarrow> nat \<Rightarrow> string option" where
  "cstr_at buf cur = (if NUL \<in> set (drop cur buf) then Some (c_str (drop cur buf)) else None)"

section \<open>A section\<close>

record ConfigSection =
  m_str_vals :: "string list"
  m_bin_vals :: "Binary list"
  m_vals :: "u8 list"
  m_set :: "bool list"

definition new_ConfigSection :: "u8 list \<Rightarrow> ConfigSection" where
  "new_ConfigSection junk = \<lparr>m_str_vals = [[]], m_bin_vals = [[], [], []], m_vals = junk,
     m_set = replicate last_val False\<rparr>"

definition setGlobal :: "ConfigSection \<Rightarrow> ConfigSection" where
  "setGlobal s = s\<lparr>
     m_str_vals := (m_str_vals s)[uds_address_val - str_base_val := uds_address_def],
     m_bin_vals := (m_bin_vals s)[
       ptp_dst_mac_val - bin_base_val :=
         snd (fromMac ptp_dst_mac_def (m_bin_vals s ! (ptp_dst_mac_val - bin_base_val))),
       p2p_dst_mac_val - bin_base_val :=
         snd (fromMac p2p_dst_mac_def (m_bin_vals s ! (p2p_dst_mac_val - bin_base_val)))],
     m_vals := map rng_def (take val_limit ranges) @ drop val_limit (m_vals s)\<rparr>"

fun find_range :: "string \<Rightarrow> nat \<Rightarrow> range_t list \<Rightarrow> nat option" where
  "find_range key i [] = None"
| "find_range key i (r # rs) = (if key = rng_name r then Some i else find_range key (i + 1) rs)"

text \<open>The switch of \<^verbatim>\<open>set_val\<close>: the section with the value, or the refusal.\<close>

definition set_idx :: "nat \<Rightarrow> string \<Rightarrow> ConfigSection \<Rightarrow> ConfigSection option" where
  "set_idx idx val s =
     (if idx = uds_address_val then
        if hd val \<noteq> CHR ''/'' \<or> length val < 2 then None
        else Some (s\<lparr>m_str_vals := (m_str_vals s)[idx - str_base_val := val]\<rparr>)
      else if idx = ptp_dst_mac_val \<or> idx = p2p_dst_mac_val then
        (case fromMac val [] of
           (False, _) \<Rightarrow> None
         | (True, mac) \<Rightarrow> Some (s\<lparr>m_bin_vals := (m_bin_vals s)[idx - bin_base_val := mac]\<rparr>))
      else if idx = network_transport_val then
        if val = ''UDPv4'' then Some (s\<lparr>m_vals := (m_vals s)[idx := byte_of_char (CHR ''4'')]\<rparr>)
        else if val = ''UDPv6'' then Some (s\<lparr>m_vals := (m_vals s)[idx := byte_of_char (CHR ''6'')]\<rparr>)
        else if val = ''L2'' then Some (s\<lparr>m_vals := (m_vals s)[idx := byte_of_char (CHR ''2'')]\<rparr>)
        else None
      else
        let ret = fst (strtol 0 val)
        in if uint (rng_min (ranges ! idx)) \<le> ret \<and> ret \<le> uint (rng_max (ranges ! idx))
           then Some (s\<lparr>m_vals := (m_vals s)[idx := word_of_int ret]\<rparr>)
           else None)"

definition set_val :: "string \<Rightarrow> nat \<Rightarrow> ConfigSection \<Rightarrow> (bool \<times> string \<times> ConfigSection) option" where
  "set_val buf line s = do {
     v0 \<leftarrow> find_space buf line;
     let buf1 = buf[v0 := NUL];
     key \<leftarrow> cstr_at buf1 line;
     case find_range key 0 ranges of
       None \<Rightarrow> Some (True, buf1, s)
     | Some idx \<Rightarrow> do {
         v \<leftarrow> skip_spaces buf1 (v0 + 1);
         txt \<leftarrow> cstr_at buf1 v;
         buf2 \<leftarrow> strip_end_spaces (v + length txt) buf1;
         if buf2 ! v = NUL then Some (False, buf2, s)
         else do {
           val \<leftarrow> cstr_at buf2 v;
           Some (case set_idx idx val s of
                   None \<Rightarrow> (False, buf2, s)
                 | Some s' \<Rightarrow> (True, buf2, s'\<lparr>m_set := (m_set s')[idx := True]\<rparr>))
         }
       }
   }"

section \<open>The file\<close>

record ConfigFile =
  nodes :: "nat \<rightharpoonup> ConfigSection"
  cfgSec :: "string \<rightharpoonup> nat"
  cfgGlobal :: nat

text \<open>What the system decides: the address of the next node, and the values it is born with.\<close>

record cfg_env =
  new_node :: "ConfigFile \<Rightarrow> nat"
  junk_vals :: "u8 list"

text \<open>\<^verbatim>\<open>cfgSec[name]\<close>.\<close>

definition sec_at :: "cfg_env \<Rightarrow> string \<Rightarrow> ConfigFile \<Rightarrow> nat \<times> ConfigFile" where
  "sec_at env name c =
     (case cfgSec c name of
        Some a \<Rightarrow> (a, c)
      | None \<Rightarrow> let a = new_node env c
                in (a, c\<lparr>nodes := (nodes c)(a \<mapsto> new_ConfigSection (junk_vals env)),
                         cfgSec := (cfgSec c)(name \<mapsto> a)\<rparr>))"

definition clear :: "ConfigFile \<Rightarrow> ConfigFile" where
  "clear c = c\<lparr>nodes := Map.empty, cfgSec := Map.empty\<rparr>"

definition setGlobal_at :: "nat \<Rightarrow> ConfigFile \<Rightarrow> ConfigFile option" where
  "setGlobal_at a c = map_option (\<lambda>s. c\<lparr>nodes := (nodes c)(a \<mapsto> setGlobal s)\<rparr>) (nodes c a)"

definition new_ConfigFile :: "cfg_env \<Rightarrow> ConfigFile option" where
  "new_ConfigFile env =
     (let (a, c) = sec_at env globalSection \<lparr>nodes = Map.empty, cfgSec = Map.empty, cfgGlobal = 0\<rparr>
      in setGlobal_at a (c\<lparr>cfgGlobal := a\<rparr>))"

text \<open>\<^verbatim>\<open>fgets\<close> with a buffer of 512 characters: the characters read, and the rest of the file.\<close>

definition fgets :: "string \<Rightarrow> (string \<times> string) option" where
  "fgets file =
     (if file = [] then None
      else let n = min 511 (length (takeWhile (\<lambda>c. c \<noteq> CHR 0x0A) file) + 1)
           in Some (take n file, drop n file))"

lemma fgets_less: "fgets file = Some (line, rest) \<Longrightarrow> length rest < length file"
  by (auto simp: fgets_def Let_def split: if_splits)

definition fill_buf :: "string \<Rightarrow> string \<Rightarrow> string" where
  "fill_buf line buf = line @ [NUL] @ drop (length line + 1) buf"

text \<open>One line: the buffer, the current section and the object after it; \<^term>\<open>False\<close> is a wrong line.\<close>

definition read_line :: "cfg_env \<Rightarrow> string \<Rightarrow> string \<Rightarrow> ConfigFile \<Rightarrow>
    (bool \<times> string \<times> string \<times> ConfigFile) option" where
  "read_line env buf curSection c = do {
     cur \<leftarrow> skip_spaces buf 0;
     if buf ! cur = CHR ''['' then do {
       cur' \<leftarrow> skip_spaces buf (cur + 1);
       txt \<leftarrow> cstr_at buf cur';
       if CHR '']'' \<notin> set txt then Some (False, buf, curSection, c)
       else do {
         buf' \<leftarrow> strip_end_spaces (cur' + length (takeWhile (\<lambda>ch. ch \<noteq> CHR '']'') txt)) buf;
         name \<leftarrow> cstr_at buf' cur';
         Some (True, buf', name, c)
       }
     }
     else if buf ! cur \<noteq> NUL \<and> buf ! cur \<noteq> CHR ''#'' then do {
       let (a, c1) = sec_at env curSection c;
       s \<leftarrow> nodes c1 a;
       (r, buf', s') \<leftarrow> set_val buf cur s;
       Some (r, buf', curSection, c1\<lparr>nodes := (nodes c1)(a \<mapsto> s')\<rparr>)
     }
     else Some (True, buf, curSection, c)
   }"

function read_loop :: "cfg_env \<Rightarrow> string \<Rightarrow> string \<Rightarrow> string \<Rightarrow> ConfigFile \<Rightarrow> (bool \<times> ConfigFile) option" where
  "read_loop env file buf curSection c =
     (case fgets file of
        None \<Rightarrow> Some (True, c)
      | Some (line, rest) \<Rightarrow>
          (case read_line env (fill_buf line buf) curSection c of
             None \<Rightarrow> None
           | Some (False, _, _, c') \<Rightarrow> Some (False, c')
           | Some (True, buf', sec', c') \<Rightarrow> read_loop env rest buf' sec' c'))"
  by pat_completeness auto
termination
  by (relation "measure (\<lambda>(env, file, buf, sec, c). length file)") (auto dest: fgets_less)

declare read_loop.simps [simp del]

text \<open>The argument \<open>buf\<close> is what the local buffer holds before the first line.\<close>

definition read_cfg :: "cfg_env \<Rightarrow> string \<Rightarrow> string option \<Rightarrow> ConfigFile \<Rightarrow> (bool \<times> ConfigFile) option" where
  "read_cfg env buf file c =
     (case file of
        None \<Rightarrow> Some (False, c)
      | Some f \<Rightarrow> do {
          let (a, c1) = sec_at env globalSection (clear c);
          _ \<leftarrow> nodes c1 (cfgGlobal c1);
          s \<leftarrow> nodes c1 a;
          c2 \<leftarrow> setGlobal_at (cfgGlobal c1) (c1\<lparr>nodes := (nodes c1)(cfgGlobal c1 \<mapsto> s)\<rparr>);
          read_loop env f buf globalSection c2
        })"

section \<open>Reading values\<close>

text \<open>Is the value taken from the global section?\<close>

definition is_global :: "nat \<Rightarrow> string \<Rightarrow> ConfigFile \<Rightarrow> bool option" where
  "is_global idx sec c =
     (if sec = [] then Some True
      else case cfgSec c sec of
             None \<Rightarrow> Some True
           | Some a \<Rightarrow> map_option (\<lambda>s. \<not> m_set s ! idx) (nodes c a))"

definition get_from :: "nat \<Rightarrow> string \<Rightarrow> ConfigFile \<Rightarrow> ConfigSection option" where
  "get_from idx sec c = do {
     g \<leftarrow> is_global idx sec c;
     if g then nodes c (cfgGlobal c)
     else do { a \<leftarrow> cfgSec c sec; nodes c a }
   }"

definition get_val :: "nat \<Rightarrow> string \<Rightarrow> ConfigFile \<Rightarrow> u8 option" where
  "get_val idx sec c = map_option (\<lambda>s. m_vals s ! idx) (get_from idx sec c)"

definition get_str :: "nat \<Rightarrow> string \<Rightarrow> ConfigFile \<Rightarrow> string option" where
  "get_str idx sec c = map_option (\<lambda>s. m_str_vals s ! (idx - str_base_val)) (get_from idx sec c)"

definition get_bin :: "nat \<Rightarrow> string \<Rightarrow> ConfigFile \<Rightarrow> Binary option" where
  "get_bin idx sec c = map_option (\<lambda>s. m_bin_vals s ! (idx - bin_base_val)) (get_from idx sec c)"

definition cfg_transportSpecific :: "string \<Rightarrow> ConfigFile \<Rightarrow> u8 option" where
  "cfg_transportSpecific = get_val transportSpecific_val"

definition cfg_domainNumber :: "string \<Rightarrow> ConfigFile \<Rightarrow> u8 option" where
  "cfg_domainNumber = get_val domainNumber_val"

definition cfg_udp6_scope :: "string \<Rightarrow> ConfigFile \<Rightarrow> u8 option" where
  "cfg_udp6_scope = get_val udp6_scope_val"

definition cfg_udp_ttl :: "string \<Rightarrow> ConfigFile \<Rightarrow> u8 option" where
  "cfg_udp_ttl = get_val udp_ttl_val"

definition cfg_socket_priority :: "string \<Rightarrow> ConfigFile \<Rightarrow> u8 option" where
  "cfg_socket_priority = get_val socket_priority_val"

definition cfg_network_transport :: "string \<Rightarrow> ConfigFile \<Rightarrow> u8 option" where
  "cfg_network_transport = get_val network_transport_val"

definition cfg_uds_address :: "string \<Rightarrow> ConfigFile \<Rightarrow> string option" where
  "cfg_uds_address = get_str uds_address_val"

definition cfg_ptp_dst_mac :: "string \<Rightarrow> ConfigFile \<Rightarrow> Binary option" where
  "cfg_ptp_dst_mac = get_bin ptp_dst_mac_val"

definition cfg_p2p_dst_mac :: "string \<Rightarrow> ConfigFile \<Rightarrow> Binary option" where
  "cfg_p2p_dst_mac = get_bin p2p_dst_mac_val"

section \<open>Every value is in its range\<close>

definition in_range :: "nat \<Rightarrow> u8 \<Rightarrow> bool" where
  "in_range idx v \<longleftrightarrow> rng_min (ranges ! idx) \<le> v \<and> v \<le> rng_max (ranges ! idx)"

definition value_ok :: "nat \<Rightarrow> ConfigSection \<Rightarrow> bool" where
  "value_ok idx s \<longleftrightarrow>
     (if idx < val_limit then in_range idx (m_vals s ! idx)
      else if idx = uds_address_val then
        2 \<le> length (m_str_vals s ! 0) \<and> hd (m_str_vals s ! 0) = CHR ''/''
      else isMacLen (m_bin_vals s ! (idx - bin_base_val)))"

definition shape_ok :: "ConfigSection \<Rightarrow> bool" where
  "shape_ok s \<longleftrightarrow> length (m_str_vals s) = 1 \<and> length (m_bin_vals s) = 3 \<and>
     length (m_vals s) = val_limit \<and> length (m_set s) = last_val"

definition sec_ok :: "ConfigSection \<Rightarrow> bool" where
  "sec_ok s \<longleftrightarrow> shape_ok s \<and> (\<forall>i<last_val. m_set s ! i \<longrightarrow> value_ok i s)"

definition glob_ok :: "ConfigSection \<Rightarrow> bool" where
  "glob_ok s \<longleftrightarrow> shape_ok s \<and> (\<forall>i<last_val. value_ok i s)"

definition env_ok :: "cfg_env \<Rightarrow> bool" where
  "env_ok env \<longleftrightarrow> (\<forall>c. finite (dom (nodes c)) \<longrightarrow> nodes c (new_node env c) = None) \<and>
     length (junk_vals env) = val_limit"

definition cfg_inv :: "ConfigFile \<Rightarrow> bool" where
  "cfg_inv c \<longleftrightarrow> finite (dom (nodes c)) \<and> (\<exists>s. nodes c (cfgGlobal c) = Some s \<and> glob_ok s) \<and>
     (\<forall>name a. cfgSec c name = Some a \<longrightarrow> (\<exists>s. nodes c a = Some s \<and> sec_ok s))"

lemmas idx_consts = val_limit_def str_base_val_def bin_base_val_def

lemma glob_sec_ok: "glob_ok s \<Longrightarrow> sec_ok s"
  by (simp add: glob_ok_def sec_ok_def)

lemma less_9_cases: "i < (9 :: nat) \<Longrightarrow> i < 6 \<or> i = 6 \<or> i = 7 \<or> i = 8"
  by linarith

lemma sec_ok_new: "length junk = val_limit \<Longrightarrow> sec_ok (new_ConfigSection junk)"
  by (simp add: sec_ok_def shape_ok_def new_ConfigSection_def)

lemma default_macs:
  "isMacLen (snd (fromMac ptp_dst_mac_def b))" "isMacLen (snd (fromMac p2p_dst_mac_def b))"
proof -
  have "fromId_loop (strtok idsep (c_str ptp_dst_mac_def)) [] = Some [0x1, 0x1b, 0x19, 0, 0, 0]"
    and "fromId_loop (strtok idsep (c_str p2p_dst_mac_def)) [] = Some [0x1, 0x80, 0xc2, 0, 0, 0xe]"
    by code_simp+
  then show "isMacLen (snd (fromMac ptp_dst_mac_def b))" "isMacLen (snd (fromMac p2p_dst_mac_def b))"
    by (simp_all add: fromMac_def fromId_def isMacLen_def EUI48_def ptp_dst_mac_def_def p2p_dst_mac_def_def)
qed

lemma default_ranges: "i < val_limit \<Longrightarrow> in_range i (map rng_def (take val_limit ranges) ! i)"
proof -
  have "list_all (\<lambda>i. in_range i (map rng_def (take val_limit ranges) ! i)) [0..<6]" by code_simp
  then show "i < val_limit \<Longrightarrow> in_range i (map rng_def (take val_limit ranges) ! i)"
    unfolding list_all_iff set_upt by (simp add: val_limit_def)
qed

lemma glob_ok_setGlobal:
  assumes "shape_ok s"
  shows "glob_ok (setGlobal s)"
proof -
  have l: "length ranges = 9" by (simp add: ranges_def)
  have "value_ok i (setGlobal s)" if "i < 9" for i
    using less_9_cases [OF that] assms default_macs default_ranges [of i] l
    by (auto simp: value_ok_def setGlobal_def shape_ok_def idx_consts uds_address_def_def nth_append)
  then show ?thesis using assms l by (simp add: glob_ok_def shape_ok_def setGlobal_def idx_consts)
qed

lemma word_of_int_between:
  fixes lo hi :: u8
  assumes "uint lo \<le> r" and "r \<le> uint hi"
  shows "lo \<le> word_of_int r \<and> word_of_int r \<le> hi"
proof -
  have "0 \<le> r" "r < 256" using assms uint_byte [of lo] uint_byte [of hi] by linarith+
  then have "uint (word_of_int r :: u8) = r" by (simp add: word_of_int_inverse)
  with assms show ?thesis by (simp add: word_le_def)
qed

lemma network_values:
  "in_range 5 (byte_of_char (CHR ''4''))" "in_range 5 (byte_of_char (CHR ''6''))"
  "in_range 5 (byte_of_char (CHR ''2''))"
  by code_simp+

lemma set_idx_ok:
  assumes "set_idx idx val s = Some s'" and "shape_ok s" and "idx < last_val" and "val \<noteq> []"
  shows "shape_ok s'" "m_set s' = m_set s" "value_ok idx s'"
    "\<And>j. j < last_val \<Longrightarrow> j \<noteq> idx \<Longrightarrow> value_ok j s' = value_ok j s"
  using assms less_9_cases [of idx] network_values
    word_of_int_between [of "rng_min (ranges ! idx)" "fst (strtol 0 val)" "rng_max (ranges ! idx)"]
  by (auto simp: set_idx_def shape_ok_def value_ok_def in_range_def idx_consts Let_def fromMac_def
      split: if_splits prod.splits bool.splits)

lemma find_range_less: "find_range key i rs = Some idx \<Longrightarrow> idx < i + length rs"
proof (induction rs arbitrary: i)
  case (Cons r rs)
  then show ?case using Cons.IH [of "i + 1"] by (auto split: if_splits)
qed simp

lemma cstr_at_ne: "cstr_at buf v = Some txt \<Longrightarrow> buf ! v \<noteq> NUL \<Longrightarrow> txt \<noteq> []"
  by (cases "drop v buf") (auto simp: cstr_at_def c_str_def nth_via_drop split: if_splits)

lemma set_val_ok:
  assumes "set_val buf line s = Some (r, buf', s')"
  shows "(sec_ok s \<longrightarrow> sec_ok s') \<and> (glob_ok s \<longrightarrow> glob_ok s')"
proof (cases "s' = s")
  case False
  with assms obtain idx val s1 v buf2 where v: "set_idx idx val s = Some s1"
      "s' = s1\<lparr>m_set := (m_set s1)[idx := True]\<rparr>"
      "find_range (the (cstr_at (buf[the (find_space buf line) := NUL]) line)) 0 ranges = Some idx"
      "cstr_at buf2 v = Some val" "buf2 ! v \<noteq> NUL"
    by (auto simp: set_val_def Let_def split: bind_splits option.splits if_splits)
  have idx: "idx < 9" using find_range_less [OF v(3)] by (simp add: ranges_def)
  have ne: "val \<noteq> []" using cstr_at_ne [OF v(4,5)] .
  have vo: "value_ok j s' = value_ok j s1" for j by (simp add: v(2) value_ok_def)
  have "sec_ok s'" "glob_ok s \<Longrightarrow> glob_ok s'" if "sec_ok s"
  proof -
    have sh: "shape_ok s" using that by (simp add: sec_ok_def)
    note o = set_idx_ok [OF v(1) sh idx ne]
    have "shape_ok s'" using o(1) by (simp add: v(2) shape_ok_def)
    moreover have "value_ok j s'" if "j < 9" "value_ok j s \<or> j = idx" for j
      using that o(3,4) vo by auto
    ultimately show "sec_ok s'" "glob_ok s \<Longrightarrow> glob_ok s'"
      using \<open>sec_ok s\<close> o(2) idx by (auto simp: sec_ok_def glob_ok_def shape_ok_def v(2) nth_list_update)
  qed
  then show ?thesis using glob_sec_ok by blast
qed simp

lemma sec_at_ok:
  assumes "cfg_inv c" and "env_ok env" and "sec_at env name c = (a, c')"
  shows "cfg_inv c' \<and> cfgGlobal c' = cfgGlobal c \<and> (\<exists>s. nodes c' a = Some s \<and> sec_ok s)"
proof -
  have fresh: "nodes c (new_node env c) = None" and junk: "length (junk_vals env) = val_limit"
    using assms(1,2) by (simp_all add: env_ok_def cfg_inv_def)
  show ?thesis
  proof (cases "cfgSec c name")
    case None
    then have c': "a = new_node env c" "c' = c\<lparr>nodes := (nodes c)(a \<mapsto> new_ConfigSection (junk_vals env)),
        cfgSec := (cfgSec c)(name \<mapsto> a)\<rparr>"
      using assms(3) by (auto simp: sec_at_def Let_def)
    have keep: "nodes c b = Some s \<Longrightarrow> nodes c' b = Some s" for b s using c' fresh by auto
    have new: "nodes c' a = Some (new_ConfigSection (junk_vals env))" using c' by simp
    have "\<exists>s. nodes c' b = Some s \<and> sec_ok s" if "cfgSec c' n = Some b" for n b
    proof (cases "n = name")
      case True
      then show ?thesis using that c' new sec_ok_new [OF junk] by auto
    next
      case False
      then have "cfgSec c n = Some b" using that c'(2) by simp
      then show ?thesis using assms(1) keep unfolding cfg_inv_def by blast
    qed
    moreover have "\<exists>s. nodes c' (cfgGlobal c) = Some s \<and> glob_ok s"
      using assms(1) keep unfolding cfg_inv_def by blast
    moreover have "finite (dom (nodes c'))" using assms(1) c'(2) by (simp add: cfg_inv_def)
    ultimately show ?thesis using new sec_ok_new [OF junk] c'(2) by (auto simp: cfg_inv_def)
  next
    case (Some b)
    then show ?thesis using assms(1,3) by (auto simp: sec_at_def cfg_inv_def)
  qed
qed

lemma cfg_inv_update:
  assumes "cfg_inv c" and "nodes c a = Some s" and "sec_ok s'" and "glob_ok s \<longrightarrow> glob_ok s'"
  shows "cfg_inv (c\<lparr>nodes := (nodes c)(a \<mapsto> s')\<rparr>)"
  using assms unfolding cfg_inv_def by auto

lemma read_line_ok:
  assumes "cfg_inv c" and "env_ok env" and "read_line env buf sec c = Some (r, buf', sec', c')"
  shows "cfg_inv c' \<and> cfgGlobal c' = cfgGlobal c"
proof -
  obtain a c1 where sa: "sec_at env sec c = (a, c1)" by (cases "sec_at env sec c")
  note o = sec_at_ok [OF assms(1,2) sa]
  from assms(3) consider "c' = c"
    | s s' cur where "nodes c1 a = Some s" "set_val buf cur s = Some (r, buf', s')"
        "c' = c1\<lparr>nodes := (nodes c1)(a \<mapsto> s')\<rparr>"
    by (auto simp: read_line_def Let_def sa split: bind_splits if_splits)
  then show ?thesis
  proof cases
    case 2
    then have "sec_ok s" using o by auto
    then show ?thesis using o 2 set_val_ok [OF 2(2)] cfg_inv_update [of c1 a s s'] by auto
  qed (use assms(1) in simp)
qed

lemma read_loop_ok:
  "cfg_inv c \<Longrightarrow> env_ok env \<Longrightarrow> read_loop env fl buf sec c = Some (r, c') \<Longrightarrow>
   cfg_inv c' \<and> cfgGlobal c' = cfgGlobal c"
proof (induction env fl buf sec c rule: read_loop.induct)
  case (1 env fl buf sec c)
  show ?case
  proof (cases "fgets fl")
    case None
    then show ?thesis using "1.prems" by (simp add: read_loop.simps [of env fl])
  next
    case (Some p)
    obtain line rest where p: "p = (line, rest)" by (cases p)
    with Some "1.prems"(3) obtain q b1 s1 c1 where
        l: "read_line env (fill_buf line buf) sec c = Some (q, b1, s1, c1)"
        "if q then read_loop env rest b1 s1 c1 = Some (r, c') else c' = c1"
      by (auto simp: read_loop.simps [of env fl] split: option.splits bool.splits)
    note o = read_line_ok [OF "1.prems"(1,2) l(1)]
    show ?thesis
    proof (cases q)
      case True
      then show ?thesis
        using "1.IH" [OF Some p [symmetric] l(1) refl, of b1 "(s1, c1)" s1 c1] o l "1.prems"(2) by auto
    qed (use l o in auto)
  qed
qed

section \<open>Properties\<close>

text \<open>
  A configuration an application can have: after construction, and after any number of files read
  with any contents. The allocator places a node at an address that is not in use, and at the same
  address whenever no other node is alive.
\<close>

inductive cfg_reachable :: "cfg_env \<Rightarrow> ConfigFile \<Rightarrow> bool" for env where
  new: "new_ConfigFile env = Some c \<Longrightarrow> cfg_reachable env c"
| step: "cfg_reachable env c \<Longrightarrow> read_cfg env buf fl c = Some (r, c') \<Longrightarrow> cfg_reachable env c'"

definition reuses :: "cfg_env \<Rightarrow> bool" where
  "reuses env \<longleftrightarrow> (\<forall>c c'. nodes c = Map.empty \<and> nodes c' = Map.empty \<longrightarrow> new_node env c = new_node env c')"

abbreviation first_node :: "cfg_env \<Rightarrow> nat" where
  "first_node env \<equiv> new_node env \<lparr>nodes = Map.empty, cfgSec = Map.empty, cfgGlobal = 0\<rparr>"

lemma cfg_inv_start:
  assumes "env_ok env" and "nodes c = Map.empty" and "cfgSec c = Map.empty" and "new_node env c = cfgGlobal c"
    and "sec_at env globalSection c = (a, c1)"
  shows "a = cfgGlobal c" "nodes c1 a = Some (new_ConfigSection (junk_vals env))" "cfgGlobal c1 = cfgGlobal c"
    "cfg_inv (c1\<lparr>nodes := (nodes c1)(a \<mapsto> setGlobal (new_ConfigSection (junk_vals env)))\<rparr>)"
proof -
  have c1: "a = cfgGlobal c" "c1 = c\<lparr>nodes := [a \<mapsto> new_ConfigSection (junk_vals env)],
      cfgSec := [globalSection \<mapsto> a]\<rparr>"
    using assms(2-5) by (auto simp: sec_at_def Let_def)
  have "length (junk_vals env) = val_limit" using assms(1) by (simp add: env_ok_def)
  then have "shape_ok (new_ConfigSection (junk_vals env))"
    by (simp add: shape_ok_def new_ConfigSection_def)
  then have g: "glob_ok (setGlobal (new_ConfigSection (junk_vals env)))" by (rule glob_ok_setGlobal)
  show "a = cfgGlobal c" "nodes c1 a = Some (new_ConfigSection (junk_vals env))" "cfgGlobal c1 = cfgGlobal c"
    using c1 by simp_all
  show "cfg_inv (c1\<lparr>nodes := (nodes c1)(a \<mapsto> setGlobal (new_ConfigSection (junk_vals env)))\<rparr>)"
    using g glob_sec_ok [OF g] c1 by (auto simp: cfg_inv_def split: if_splits)
qed

lemma cfg_inv_reachable:
  assumes "env_ok env" and "reuses env"
  shows "cfg_reachable env c \<Longrightarrow> cfg_inv c \<and> cfgGlobal c = first_node env"
proof (induction rule: cfg_reachable.induct)
  case (new c)
  let ?c0 = "\<lparr>nodes = Map.empty, cfgSec = Map.empty, cfgGlobal = first_node env\<rparr>"
  obtain a c1 where sa: "sec_at env globalSection ?c0 = (a, c1)" by (cases "sec_at env globalSection ?c0")
  have "new_node env ?c0 = first_node env" using assms(2) unfolding reuses_def by force
  then have o: "a = first_node env" "nodes c1 a = Some (new_ConfigSection (junk_vals env))"
      "cfgGlobal c1 = first_node env"
      "cfg_inv (c1\<lparr>nodes := (nodes c1)(a \<mapsto> setGlobal (new_ConfigSection (junk_vals env)))\<rparr>)"
    using cfg_inv_start [OF assms(1) _ _ _ sa] by simp_all
  have "c = c1\<lparr>nodes := (nodes c1)(a \<mapsto> setGlobal (new_ConfigSection (junk_vals env)))\<rparr>"
    using new sa o(1-3) \<open>new_node env ?c0 = first_node env\<close>
    by (auto simp: new_ConfigFile_def sec_at_def setGlobal_at_def Let_def)
  with o show ?case by simp
next
  case (step c buf fl r c')
  show ?case
  proof (cases fl)
    case None
    then show ?thesis using step by (simp add: read_cfg_def)
  next
    case (Some f)
    obtain a c1 where sa: "sec_at env globalSection (clear c) = (a, c1)"
      by (cases "sec_at env globalSection (clear c)")
    have "new_node env (clear c) = first_node env" using assms(2) unfolding reuses_def clear_def by force
    then have "new_node env (clear c) = cfgGlobal (clear c)" using step.IH by (simp add: clear_def)
    note o = cfg_inv_start [OF assms(1) _ _ this sa]
    have "read_loop env f buf globalSection
        (c1\<lparr>nodes := (nodes c1)(a \<mapsto> setGlobal (new_ConfigSection (junk_vals env)))\<rparr>) = Some (r, c')"
      using step.hyps(2) Some sa o(1-3)
      by (auto simp: read_cfg_def Let_def setGlobal_at_def clear_def)
    from read_loop_ok [OF o(4) assms(1) this] show ?thesis
      using o(3) step.IH by (simp add: clear_def)
  qed
qed

lemma config_range_aux:
  assumes "env_ok env" and "reuses env" and "cfg_reachable env c" and "idx < val_limit"
  shows "\<exists>v. get_val idx sec c = Some v \<and> in_range idx v"
proof -
  have inv: "cfg_inv c" using cfg_inv_reachable [OF assms(1-3)] by simp
  have idx: "idx < 9" using assms(4) by (simp add: val_limit_def)
  obtain g where g: "nodes c (cfgGlobal c) = Some g" "glob_ok g" using inv by (auto simp: cfg_inv_def)
  then have gv: "in_range idx (m_vals g ! idx)"
    using assms(4) idx by (auto simp: glob_ok_def value_ok_def)
  have "in_range idx (m_vals s ! idx)" if "cfgSec c sec = Some a" "nodes c a = Some s" "m_set s ! idx" for a s
  proof -
    have "sec_ok s" using that(1,2) inv unfolding cfg_inv_def by fastforce
    then show ?thesis using that(3) assms(4) idx by (auto simp: sec_ok_def value_ok_def)
  qed
  moreover have "\<exists>s. nodes c a = Some s" if "cfgSec c sec = Some a" for a
    using that inv by (auto simp: cfg_inv_def)
  ultimately show ?thesis
    using g(1) gv by (auto simp: get_val_def get_from_def is_global_def split: option.splits)
qed


definition demo_env :: "nat \<Rightarrow> cfg_env" where
  "demo_env base = \<lparr>new_node = (\<lambda>c. if nodes c base = None then base else Suc (Max (dom (nodes c)))),
     junk_vals = [9, 9, 9, 9, 9, 9]\<rparr>"

lemma demo_env_ok: "env_ok (demo_env base)" "reuses (demo_env base)"
proof -
  have "nodes c (Suc (Max (dom (nodes c)))) = None" if "finite (dom (nodes c))" for c :: ConfigFile
  proof (rule ccontr)
    assume "nodes c (Suc (Max (dom (nodes c)))) \<noteq> None"
    then have "Suc (Max (dom (nodes c))) \<in> dom (nodes c)" by blast
    then show False using Max_ge [OF that] by fastforce
  qed
  then show "env_ok (demo_env base)" by (auto simp: env_ok_def demo_env_def val_limit_def)
  show "reuses (demo_env base)" by (auto simp: reuses_def demo_env_def)
qed

definition demo_text :: string where
  "demo_text = ''domainNumber 7'' @ [CHR 0x0A]"

lemma demo_line:
  "fgets demo_text = Some (demo_text, [])" "fgets [] = None"
  "skip_spaces (fill_buf demo_text []) 0 = Some 0" "fill_buf demo_text [] ! 0 = CHR ''d''"
  by code_simp+

lemma demo_set_val:
  "set_val (fill_buf demo_text []) 0 s =
     Some (True, (fill_buf demo_text [])[12 := NUL, 14 := NUL],
       s\<lparr>m_vals := (m_vals s)[1 := 7], m_set := (m_set s)[1 := True]\<rparr>)"
  by code_simp simp


text \<open>
  Property C35. Reading a file writes through a reference to a destroyed object when the allocator
  does not put the new global section where the old one was.
\<close>

theorem read_cfg_dangles:
  assumes "new_node env (clear c) \<noteq> cfgGlobal c"
  shows "read_cfg env buf (Some fl) c = None"
  using assms by (simp add: read_cfg_def sec_at_def clear_def Let_def)

theorem read_cfg_dangles_witness:
  "\<exists>c. new_ConfigFile (demo_env 1) = Some c \<and> read_cfg (demo_env 2) [] (Some []) c = None"
proof -
  obtain c where "new_ConfigFile (demo_env 1) = Some c" "cfgGlobal c = 1"
    by (simp add: new_ConfigFile_def sec_at_def setGlobal_at_def demo_env_def Let_def)
  then show ?thesis
    using read_cfg_dangles [of "demo_env 2" c "[]" "[]"] by (auto simp: clear_def demo_env_def)
qed

end
