(* ===== verification/CfgUse.thy ===== *)
theory CfgUse
  imports Cfg Message
begin

text \<open>
  What a message needs of a configuration: \<^verbatim>\<open>Message::useConfig\<close> asks for the transport specific
  value of a section and for the domain number, and \<^verbatim>\<open>ConfigFile\<close> keeps both in range.
\<close>

locale cfg_provider =
  fixes valid :: "'c \<Rightarrow> bool"
    and ts :: "string \<Rightarrow> 'c \<Rightarrow> u8 option"
    and dn :: "string \<Rightarrow> 'c \<Rightarrow> u8 option"
  assumes ts_range: "valid c \<Longrightarrow> \<exists>v. ts sec c = Some v \<and> v \<le> 0xf"
    and dn_total: "valid c \<Longrightarrow> \<exists>v. dn sec c = Some v"
begin

lemma use_accepts:
  assumes "valid c"
  shows "\<exists>v w. ts sec c = Some v \<and> dn [] c = Some w \<and>
    useConfig v w s = (True, s\<lparr>m_prms := (m_prms s)\<lparr>transportSpecific := v, MsgParams.domainNumber := w\<rparr>\<rparr>)"
proof -
  obtain v where "ts sec c = Some v" "v \<le> 0xf" using ts_range [OF assms] by blast
  moreover obtain w where "dn [] c = Some w" using dn_total [OF assms] by blast
  ultimately show ?thesis by (auto simp: useConfig_def not_less)
qed

end

definition cfg_valid :: "cfg_env \<times> ConfigFile \<Rightarrow> bool" where
  "cfg_valid ec \<longleftrightarrow> env_ok (fst ec) \<and> reuses (fst ec) \<and> cfg_reachable (fst ec) (snd ec)"

interpretation cfg: cfg_provider cfg_valid "\<lambda>sec ec. cfg_transportSpecific sec (snd ec)"
    "\<lambda>sec ec. cfg_domainNumber sec (snd ec)"
proof
  fix ec sec
  assume "cfg_valid ec"
  then have r: "\<exists>v. get_val idx sec (snd ec) = Some v \<and> in_range idx v" if "idx < val_limit" for idx
    using config_range_aux [of "fst ec" "snd ec" idx sec] that by (simp add: cfg_valid_def)
  show "\<exists>v. cfg_transportSpecific sec (snd ec) = Some v \<and> v \<le> 0xf"
    using r [of 0] by (auto simp: cfg_transportSpecific_def val_limit_def in_range_def ranges_def rng_def)
  show "\<exists>v. cfg_domainNumber sec (snd ec) = Some v"
    using r [of 1] by (auto simp: cfg_domainNumber_def val_limit_def)
qed

end
