(* ===== verification/Dump.thy ===== *)
theory Dump
  imports Json
begin

text \<open>
  What the \<^verbatim>\<open>pmc\<close> tool prints of a received message, the first half of \<^verbatim>\<open>src/pmc_dump.cpp\<close>: one
  function per management id, here the text it prints, and \<^verbatim>\<open>call_dump\<close> and
  \<^verbatim>\<open>call_dumpSig\<close>, which choose it. \<^term>\<open>None\<close> is the use of a null pointer or of a pointer to
  another structure.
\<close>

section \<open>Formats\<close>

definition IDENT :: string where "IDENT = [CHR 0x0A, CHR 0x09, CHR 0x09]"

fun hex :: "nat \<Rightarrow> string" where
  "hex n = (if n < 16 then [digit n] else hex (n div 16) @ [digit (n mod 16)])"

declare hex.simps [simp del]

definition pad_with :: "char \<Rightarrow> nat \<Rightarrow> string \<Rightarrow> string" where
  "pad_with c n s = replicate (n - length s) c @ s"

definition pad_number :: "nat \<Rightarrow> int \<Rightarrow> string" where
  "pad_number n i = (if i < 0 then CHR ''-'' # pad_left (n - 1) (dec (nat (- i))) else pad_left n (dec (nat i)))"

text \<open>
  A floating-point number with \<open>k\<close> decimals: the time interval is the scaled nanoseconds as a double
  divided by \<open>2\<^sup>1\<^sup>6\<close>, the rate offset a 32-bit number divided by \<open>2\<^sup>4\<^sup>1\<close>; both divisions are exact and
  the conversion rounds the exact value, ties to even.
\<close>

definition interval_text :: "nat \<Rightarrow> TimeInterval_t \<Rightarrow> string" where
  "interval_text k t =
     (let n = sint (scaledNanoseconds t);
          m = round_even (to_double (nat \<bar>n\<bar>) * 10 ^ k) (2 ^ 16)
      in (if n < 0 then ''-'' else []) @ dec (m div 10 ^ k) @ ''.'' @ pad_left k (dec (m mod 10 ^ k)))"

definition rate_text :: "i32 \<Rightarrow> string" where
  "rate_text r =
     (let n = sint r; m = round_even (nat \<bar>n\<bar> * 10 ^ 9) (2 ^ 41)
      in (if n < 0 then ''-'' else ''+'') @ dec (m div 10 ^ 9) @ ''.'' @ pad_left 9 (dec (m mod 10 ^ 9)))"

definition flag_text :: "u8 \<Rightarrow> u8 \<Rightarrow> string" where
  "flag_text flg f = (if flg AND f \<noteq> 0 then ''1'' else ''0'')"

definition event_text :: "byte list \<Rightarrow> nat \<Rightarrow> string" where
  "event_text bits ev = (if (bits ! (ev div 8)) AND push_bit (ev mod 8) 1 \<noteq> 0 then ''on'' else ''off'')"

text \<open>A loop over a vector with a 16-bit index, printed in brackets.\<close>

definition number_list :: "(string \<Rightarrow> 'r \<Rightarrow> string) \<Rightarrow> 'r list \<Rightarrow> string" where
  "number_list f xs = concat (map (\<lambda>(i, x). f (''['' @ dec (i mod 65536) @ '']'') x) (enumerate 0 xs))"

section \<open>The ids\<close>

definition dump_CLOCK_DESCRIPTION :: "(domain \<Rightarrow> byte list \<Rightarrow> string option) \<Rightarrow> CLOCK_DESCRIPTION_t \<Rightarrow> string" where
  "dump_CLOCK_DESCRIPTION inet_ntop d =
     IDENT @ ''clockType             0x'' @ pad_with (CHR '' '') 4 (hex (unat (CLOCK_DESCRIPTION_t.clockType d))) @
     IDENT @ ''physicalLayerProtocol '' @ c_str (textField (CLOCK_DESCRIPTION_t.physicalLayerProtocol d)) @
     IDENT @ ''physicalAddress       '' @ toId (CLOCK_DESCRIPTION_t.physicalAddress d) @
     IDENT @ ''protocolAddress       '' @ netProt2str_c (networkProtocol (CLOCK_DESCRIPTION_t.protocolAddress d)) @ '' '' @ PortAddress_string inet_ntop (CLOCK_DESCRIPTION_t.protocolAddress d) @
     IDENT @ ''manufacturerId        '' @ bufToId (CLOCK_DESCRIPTION_t.manufacturerIdentity d) @
     IDENT @ ''productDescription    '' @ c_str (textField (CLOCK_DESCRIPTION_t.productDescription d)) @
     IDENT @ ''revisionData          '' @ c_str (textField (CLOCK_DESCRIPTION_t.revisionData d)) @
     IDENT @ ''userDescription       '' @ c_str (textField (CLOCK_DESCRIPTION_t.userDescription d)) @
     IDENT @ ''profileId             '' @ bufToId (CLOCK_DESCRIPTION_t.profileIdentity d)"

definition dump_USER_DESCRIPTION :: "USER_DESCRIPTION_t \<Rightarrow> string" where
  "dump_USER_DESCRIPTION d =
     IDENT @ ''userDescription  '' @ c_str (textField (USER_DESCRIPTION_t.userDescription d))"

definition dump_INITIALIZE :: "INITIALIZE_t \<Rightarrow> string" where
  "dump_INITIALIZE d =
     IDENT @ ''initializationKey '' @ dec (unat (INITIALIZE_t.initializationKey d))"

definition dump_FAULT_LOG :: "FAULT_LOG_t \<Rightarrow> string" where
  "dump_FAULT_LOG d =
     IDENT @ ''numberOfFaultRecords '' @ dec (unat (FAULT_LOG_t.numberOfFaultRecords d)) @
     number_list (\<lambda>i rec.
       IDENT @ i @ '' faultTime        '' @ Timestamp_string (faultTime rec) @
       IDENT @ i @ '' severityCode     '' @ faultRec2str_c (severityCode rec) @
       IDENT @ i @ '' faultName        '' @ c_str (textField (faultName rec)) @
       IDENT @ i @ '' faultValue       '' @ c_str (textField (faultValue rec)) @
       IDENT @ i @ '' faultDescription '' @ c_str (textField (faultDescription rec)))
       (FAULT_LOG_t.faultRecords d)"

definition dump_DEFAULT_DATA_SET :: "DEFAULT_DATA_SET_t \<Rightarrow> string" where
  "dump_DEFAULT_DATA_SET d =
     IDENT @ ''twoStepFlag             '' @ dec (unat (DEFAULT_DATA_SET_t.flags d AND 1)) @
     IDENT @ ''slaveOnly               '' @ dec (unat (drop_bit 1 (DEFAULT_DATA_SET_t.flags d))) @
     IDENT @ ''numberPorts             '' @ dec (unat (DEFAULT_DATA_SET_t.numberPorts d)) @
     IDENT @ ''priority1               '' @ dec (unat (DEFAULT_DATA_SET_t.priority1 d)) @
     IDENT @ ''clockClass              '' @ dec (unat (ClockQuality_t.clockClass (DEFAULT_DATA_SET_t.clockQuality d))) @
     IDENT @ ''clockAccuracy           0x'' @ hex (unat (ClockQuality_t.clockAccuracy (DEFAULT_DATA_SET_t.clockQuality d))) @
     IDENT @ ''offsetScaledLogVariance 0x'' @ hex (unat (ClockQuality_t.offsetScaledLogVariance (DEFAULT_DATA_SET_t.clockQuality d))) @
     IDENT @ ''priority2               '' @ dec (unat (DEFAULT_DATA_SET_t.priority2 d)) @
     IDENT @ ''clockIdentity           '' @ ClockIdentity_string (DEFAULT_DATA_SET_t.clockIdentity d) @
     IDENT @ ''domainNumber            '' @ dec (unat (DEFAULT_DATA_SET_t.domainNumber d))"

definition dump_CURRENT_DATA_SET :: "CURRENT_DATA_SET_t \<Rightarrow> string" where
  "dump_CURRENT_DATA_SET d =
     IDENT @ ''stepsRemoved     '' @ dec (unat (CURRENT_DATA_SET_t.stepsRemoved d)) @
     IDENT @ ''offsetFromMaster '' @ interval_text 1 (CURRENT_DATA_SET_t.offsetFromMaster d) @
     IDENT @ ''meanPathDelay    '' @ interval_text 1 (CURRENT_DATA_SET_t.meanPathDelay d)"

definition dump_PARENT_DATA_SET :: "PARENT_DATA_SET_t \<Rightarrow> string" where
  "dump_PARENT_DATA_SET d =
     IDENT @ ''parentPortIdentity                    '' @ PortIdentity_string (PARENT_DATA_SET_t.parentPortIdentity d) @
     IDENT @ ''parentStats                           '' @ dec (unat (PARENT_DATA_SET_t.flags d)) @
     IDENT @ ''observedParentOffsetScaledLogVariance 0x'' @ hex (unat (PARENT_DATA_SET_t.observedParentOffsetScaledLogVariance d)) @
     IDENT @ ''observedParentClockPhaseChangeRate    0x'' @ hex (unat (PARENT_DATA_SET_t.observedParentClockPhaseChangeRate d)) @
     IDENT @ ''grandmasterPriority1                  '' @ dec (unat (PARENT_DATA_SET_t.grandmasterPriority1 d)) @
     IDENT @ ''gm.ClockClass                         '' @ dec (unat (ClockQuality_t.clockClass (PARENT_DATA_SET_t.grandmasterClockQuality d))) @
     IDENT @ ''gm.ClockAccuracy                      0x'' @ hex (unat (ClockQuality_t.clockAccuracy (PARENT_DATA_SET_t.grandmasterClockQuality d))) @
     IDENT @ ''gm.OffsetScaledLogVariance            0x'' @ hex (unat (ClockQuality_t.offsetScaledLogVariance (PARENT_DATA_SET_t.grandmasterClockQuality d))) @
     IDENT @ ''grandmasterPriority2                  '' @ dec (unat (PARENT_DATA_SET_t.grandmasterPriority2 d)) @
     IDENT @ ''grandmasterIdentity                   '' @ ClockIdentity_string (PARENT_DATA_SET_t.grandmasterIdentity d)"

definition dump_TIME_PROPERTIES_DATA_SET :: "TIME_PROPERTIES_DATA_SET_t \<Rightarrow> string" where
  "dump_TIME_PROPERTIES_DATA_SET d =
     IDENT @ ''currentUtcOffset      '' @ to_string (sint (TIME_PROPERTIES_DATA_SET_t.currentUtcOffset d)) @
     IDENT @ ''leap61                '' @ flag_text (TIME_PROPERTIES_DATA_SET_t.flags d) F_LI_61 @
     IDENT @ ''leap59                '' @ flag_text (TIME_PROPERTIES_DATA_SET_t.flags d) F_LI_59 @
     IDENT @ ''currentUtcOffsetValid '' @ flag_text (TIME_PROPERTIES_DATA_SET_t.flags d) F_UTCV @
     IDENT @ ''ptpTimescale          '' @ flag_text (TIME_PROPERTIES_DATA_SET_t.flags d) F_PTP @
     IDENT @ ''timeTraceable         '' @ flag_text (TIME_PROPERTIES_DATA_SET_t.flags d) F_TTRA @
     IDENT @ ''frequencyTraceable    '' @ flag_text (TIME_PROPERTIES_DATA_SET_t.flags d) F_FTRA @
     IDENT @ ''timeSource            '' @ timeSrc2str_c (TIME_PROPERTIES_DATA_SET_t.timeSource d)"

definition dump_PORT_DATA_SET :: "PORT_DATA_SET_t \<Rightarrow> string" where
  "dump_PORT_DATA_SET d =
     IDENT @ ''portIdentity            '' @ PortIdentity_string (PORT_DATA_SET_t.portIdentity d) @
     IDENT @ ''portState               '' @ portState2str_c (PORT_DATA_SET_t.portState d) @
     IDENT @ ''logMinDelayReqInterval  '' @ to_string (sint (PORT_DATA_SET_t.logMinDelayReqInterval d)) @
     IDENT @ ''peerMeanPathDelay       '' @ to_string (sint (getIntervalInt (PORT_DATA_SET_t.peerMeanPathDelay d))) @
     IDENT @ ''logAnnounceInterval     '' @ to_string (sint (PORT_DATA_SET_t.logAnnounceInterval d)) @
     IDENT @ ''announceReceiptTimeout  '' @ dec (unat (PORT_DATA_SET_t.announceReceiptTimeout d)) @
     IDENT @ ''logSyncInterval         '' @ to_string (sint (PORT_DATA_SET_t.logSyncInterval d)) @
     IDENT @ ''delayMechanism          '' @ dec (unat (PORT_DATA_SET_t.delayMechanism d)) @
     IDENT @ ''logMinPdelayReqInterval '' @ to_string (sint (PORT_DATA_SET_t.logMinPdelayReqInterval d)) @
     IDENT @ ''versionNumber           '' @ dec (unat (PORT_DATA_SET_t.versionNumber d))"

definition dump_PRIORITY1 :: "PRIORITY1_t \<Rightarrow> string" where
  "dump_PRIORITY1 d =
     IDENT @ ''priority1 '' @ dec (unat (PRIORITY1_t.priority1 d))"

definition dump_PRIORITY2 :: "PRIORITY2_t \<Rightarrow> string" where
  "dump_PRIORITY2 d =
     IDENT @ ''priority2 '' @ dec (unat (PRIORITY2_t.priority2 d))"

definition dump_DOMAIN :: "DOMAIN_t \<Rightarrow> string" where
  "dump_DOMAIN d =
     IDENT @ ''domainNumber '' @ dec (unat (DOMAIN_t.domainNumber d))"

definition dump_SLAVE_ONLY :: "SLAVE_ONLY_t \<Rightarrow> string" where
  "dump_SLAVE_ONLY d =
     IDENT @ ''slaveOnly '' @ dec (unat (SLAVE_ONLY_t.flags d))"

definition dump_LOG_ANNOUNCE_INTERVAL :: "LOG_ANNOUNCE_INTERVAL_t \<Rightarrow> string" where
  "dump_LOG_ANNOUNCE_INTERVAL d =
     IDENT @ ''logAnnounceInterval '' @ to_string (sint (LOG_ANNOUNCE_INTERVAL_t.logAnnounceInterval d))"

definition dump_ANNOUNCE_RECEIPT_TIMEOUT :: "ANNOUNCE_RECEIPT_TIMEOUT_t \<Rightarrow> string" where
  "dump_ANNOUNCE_RECEIPT_TIMEOUT d =
     IDENT @ ''announceReceiptTimeout '' @ dec (unat (ANNOUNCE_RECEIPT_TIMEOUT_t.announceReceiptTimeout d))"

definition dump_LOG_SYNC_INTERVAL :: "LOG_SYNC_INTERVAL_t \<Rightarrow> string" where
  "dump_LOG_SYNC_INTERVAL d =
     IDENT @ ''logSyncInterval '' @ to_string (sint (LOG_SYNC_INTERVAL_t.logSyncInterval d))"

definition dump_VERSION_NUMBER :: "VERSION_NUMBER_t \<Rightarrow> string" where
  "dump_VERSION_NUMBER d =
     IDENT @ ''versionNumber '' @ dec (unat (VERSION_NUMBER_t.versionNumber d))"

definition dump_TIME :: "TIME_t \<Rightarrow> string" where
  "dump_TIME d =
     IDENT @ ''currentTime '' @ Timestamp_string (TIME_t.currentTime d)"

definition dump_CLOCK_ACCURACY :: "CLOCK_ACCURACY_t \<Rightarrow> string" where
  "dump_CLOCK_ACCURACY d =
     IDENT @ ''clockAccuracy 0x'' @ hex (unat (CLOCK_ACCURACY_t.clockAccuracy d))"

definition dump_UTC_PROPERTIES :: "UTC_PROPERTIES_t \<Rightarrow> string" where
  "dump_UTC_PROPERTIES d =
     IDENT @ ''currentUtcOffset      '' @ to_string (sint (UTC_PROPERTIES_t.currentUtcOffset d)) @
     IDENT @ ''leap61                '' @ flag_text (UTC_PROPERTIES_t.flags d) F_LI_61 @
     IDENT @ ''leap59                '' @ flag_text (UTC_PROPERTIES_t.flags d) F_LI_59 @
     IDENT @ ''currentUtcOffsetValid '' @ flag_text (UTC_PROPERTIES_t.flags d) F_UTCV"

definition dump_TRACEABILITY_PROPERTIES :: "TRACEABILITY_PROPERTIES_t \<Rightarrow> string" where
  "dump_TRACEABILITY_PROPERTIES d =
     IDENT @ ''timeTraceable      '' @ flag_text (TRACEABILITY_PROPERTIES_t.flags d) F_TTRA @
     IDENT @ ''frequencyTraceable '' @ flag_text (TRACEABILITY_PROPERTIES_t.flags d) F_FTRA"

definition dump_TIMESCALE_PROPERTIES :: "TIMESCALE_PROPERTIES_t \<Rightarrow> string" where
  "dump_TIMESCALE_PROPERTIES d =
     IDENT @ ''ptpTimescale '' @ flag_text (TIMESCALE_PROPERTIES_t.flags d) F_PTP"

definition dump_UNICAST_NEGOTIATION_ENABLE :: "UNICAST_NEGOTIATION_ENABLE_t \<Rightarrow> string" where
  "dump_UNICAST_NEGOTIATION_ENABLE d =
     IDENT @ ''unicastNegotiationPortDS '' @ (if UNICAST_NEGOTIATION_ENABLE_t.flags d \<noteq> 0 then ''e'' else ''dis'') @ ''abled''"

definition dump_PATH_TRACE_LIST :: "PATH_TRACE_LIST_t \<Rightarrow> string" where
  "dump_PATH_TRACE_LIST d =
     number_list (\<lambda>i rec. IDENT @ i @ '' '' @ ClockIdentity_string rec) (PATH_TRACE_LIST_t.pathSequence d)"

definition dump_PATH_TRACE_ENABLE :: "PATH_TRACE_ENABLE_t \<Rightarrow> string" where
  "dump_PATH_TRACE_ENABLE d =
     IDENT @ ''pathTraceDS '' @ (if PATH_TRACE_ENABLE_t.flags d \<noteq> 0 then ''e'' else ''dis'') @ ''abled''"

definition dump_GRANDMASTER_CLUSTER_TABLE :: "(domain \<Rightarrow> byte list \<Rightarrow> string option) \<Rightarrow> GRANDMASTER_CLUSTER_TABLE_t \<Rightarrow> string" where
  "dump_GRANDMASTER_CLUSTER_TABLE inet_ntop d =
     IDENT @ ''logQueryInterval '' @ to_string (sint (GRANDMASTER_CLUSTER_TABLE_t.logQueryInterval d)) @
     IDENT @ ''actualTableSize  '' @ dec (unat (GRANDMASTER_CLUSTER_TABLE_t.actualTableSize d)) @
     number_list (\<lambda>i rec. IDENT @ i @ '' '' @ PortAddress_string inet_ntop rec)
       (GRANDMASTER_CLUSTER_TABLE_t.PortAddress d)"

definition dump_UNICAST_MASTER_TABLE :: "(domain \<Rightarrow> byte list \<Rightarrow> string option) \<Rightarrow> UNICAST_MASTER_TABLE_t \<Rightarrow> string" where
  "dump_UNICAST_MASTER_TABLE inet_ntop d =
     IDENT @ ''logQueryInterval '' @ to_string (sint (UNICAST_MASTER_TABLE_t.logQueryInterval d)) @
     IDENT @ ''actualTableSize  '' @ dec (unat (UNICAST_MASTER_TABLE_t.actualTableSize d)) @
     number_list (\<lambda>i rec. IDENT @ i @ '' '' @ PortAddress_string inet_ntop rec)
       (UNICAST_MASTER_TABLE_t.PortAddress d)"

definition dump_UNICAST_MASTER_MAX_TABLE_SIZE :: "UNICAST_MASTER_MAX_TABLE_SIZE_t \<Rightarrow> string" where
  "dump_UNICAST_MASTER_MAX_TABLE_SIZE d =
     IDENT @ ''maxTableSize '' @ dec (unat (UNICAST_MASTER_MAX_TABLE_SIZE_t.maxTableSize d))"

definition dump_ACCEPTABLE_MASTER_TABLE :: "ACCEPTABLE_MASTER_TABLE_t \<Rightarrow> string" where
  "dump_ACCEPTABLE_MASTER_TABLE d =
     IDENT @ ''actualTableSize '' @ to_string (sint (ACCEPTABLE_MASTER_TABLE_t.actualTableSize d)) @
     number_list (\<lambda>i rec.
       IDENT @ i @ '' acceptablePortIdentity '' @ PortIdentity_string (acceptablePortIdentity rec) @
       IDENT @ i @ '' alternatePriority1     '' @ dec (unat (alternatePriority1 rec)))
       (ACCEPTABLE_MASTER_TABLE_t.master_list d)"

definition dump_ACCEPTABLE_MASTER_TABLE_ENABLED :: "ACCEPTABLE_MASTER_TABLE_ENABLED_t \<Rightarrow> string" where
  "dump_ACCEPTABLE_MASTER_TABLE_ENABLED d =
     IDENT @ ''acceptableMasterPortDS '' @ (if ACCEPTABLE_MASTER_TABLE_ENABLED_t.flags d \<noteq> 0 then ''e'' else ''dis'') @ ''abled''"

definition dump_ACCEPTABLE_MASTER_MAX_TABLE_SIZE :: "ACCEPTABLE_MASTER_MAX_TABLE_SIZE_t \<Rightarrow> string" where
  "dump_ACCEPTABLE_MASTER_MAX_TABLE_SIZE d =
     IDENT @ ''maxTableSize '' @ dec (unat (ACCEPTABLE_MASTER_MAX_TABLE_SIZE_t.maxTableSize d))"

definition dump_ALTERNATE_MASTER :: "ALTERNATE_MASTER_t \<Rightarrow> string" where
  "dump_ALTERNATE_MASTER d =
     IDENT @ ''transmitAlternateMulticastSync    '' @ (if ALTERNATE_MASTER_t.flags d \<noteq> 0 then ''e'' else ''dis'') @ ''abled'' @
     IDENT @ ''logAlternateMulticastSyncInterval '' @ to_string (sint (ALTERNATE_MASTER_t.logAlternateMulticastSyncInterval d)) @
     IDENT @ ''numberOfAlternateMasters          '' @ dec (unat (ALTERNATE_MASTER_t.numberOfAlternateMasters d))"

definition dump_ALTERNATE_TIME_OFFSET_ENABLE :: "ALTERNATE_TIME_OFFSET_ENABLE_t \<Rightarrow> string" where
  "dump_ALTERNATE_TIME_OFFSET_ENABLE d =
     IDENT @ ''alternateTimescaleOffsetsDS['' @ dec (unat (ALTERNATE_TIME_OFFSET_ENABLE_t.keyField d)) @ ''] '' @ (if ALTERNATE_TIME_OFFSET_ENABLE_t.flags d \<noteq> 0 then ''e'' else ''dis'') @ ''abled''"

definition dump_ALTERNATE_TIME_OFFSET_NAME :: "ALTERNATE_TIME_OFFSET_NAME_t \<Rightarrow> string" where
  "dump_ALTERNATE_TIME_OFFSET_NAME d =
     IDENT @ ''['' @ dec (unat (ALTERNATE_TIME_OFFSET_NAME_t.keyField d)) @ ''] '' @ c_str (textField (ALTERNATE_TIME_OFFSET_NAME_t.displayName d))"

definition dump_ALTERNATE_TIME_OFFSET_MAX_KEY :: "ALTERNATE_TIME_OFFSET_MAX_KEY_t \<Rightarrow> string" where
  "dump_ALTERNATE_TIME_OFFSET_MAX_KEY d =
     IDENT @ ''maxKey '' @ dec (unat (ALTERNATE_TIME_OFFSET_MAX_KEY_t.maxKey d))"

definition dump_ALTERNATE_TIME_OFFSET_PROPERTIES :: "ALTERNATE_TIME_OFFSET_PROPERTIES_t \<Rightarrow> string" where
  "dump_ALTERNATE_TIME_OFFSET_PROPERTIES d =
     IDENT @ ''keyField       '' @ dec (unat (ALTERNATE_TIME_OFFSET_PROPERTIES_t.keyField d)) @
     IDENT @ ''currentOffset  '' @ to_string (sint (ALTERNATE_TIME_OFFSET_PROPERTIES_t.currentOffset d)) @
     IDENT @ ''jumpSeconds    '' @ to_string (sint (ALTERNATE_TIME_OFFSET_PROPERTIES_t.jumpSeconds d)) @
     IDENT @ ''timeOfNextJump '' @ dec (unat (ALTERNATE_TIME_OFFSET_PROPERTIES_t.timeOfNextJump d))"

definition dump_TRANSPARENT_CLOCK_PORT_DATA_SET :: "TRANSPARENT_CLOCK_PORT_DATA_SET_t \<Rightarrow> string" where
  "dump_TRANSPARENT_CLOCK_PORT_DATA_SET d =
     IDENT @ ''portIdentity            '' @ PortIdentity_string (TRANSPARENT_CLOCK_PORT_DATA_SET_t.portIdentity d) @
     IDENT @ ''transparentClockPortDS  '' @ (if TRANSPARENT_CLOCK_PORT_DATA_SET_t.flags d \<noteq> 0 then ''true'' else ''false'') @
     IDENT @ ''logMinPdelayReqInterval '' @ to_string (sint (TRANSPARENT_CLOCK_PORT_DATA_SET_t.logMinPdelayReqInterval d)) @
     IDENT @ ''peerMeanPathDelay       '' @ to_string (sint (getIntervalInt (TRANSPARENT_CLOCK_PORT_DATA_SET_t.peerMeanPathDelay d)))"

definition dump_LOG_MIN_PDELAY_REQ_INTERVAL :: "LOG_MIN_PDELAY_REQ_INTERVAL_t \<Rightarrow> string" where
  "dump_LOG_MIN_PDELAY_REQ_INTERVAL d =
     IDENT @ ''logMinPdelayReqInterval '' @ to_string (sint (LOG_MIN_PDELAY_REQ_INTERVAL_t.logMinPdelayReqInterval d))"

definition dump_TRANSPARENT_CLOCK_DEFAULT_DATA_SET :: "TRANSPARENT_CLOCK_DEFAULT_DATA_SET_t \<Rightarrow> string" where
  "dump_TRANSPARENT_CLOCK_DEFAULT_DATA_SET d =
     IDENT @ ''clockIdentity  '' @ ClockIdentity_string (TRANSPARENT_CLOCK_DEFAULT_DATA_SET_t.clockIdentity d) @
     IDENT @ ''numberPorts    '' @ dec (unat (TRANSPARENT_CLOCK_DEFAULT_DATA_SET_t.numberPorts d)) @
     IDENT @ ''delayMechanism '' @ dec (unat (TRANSPARENT_CLOCK_DEFAULT_DATA_SET_t.delayMechanism d)) @
     IDENT @ ''primaryDomain  '' @ dec (unat (TRANSPARENT_CLOCK_DEFAULT_DATA_SET_t.primaryDomain d))"

definition dump_PRIMARY_DOMAIN :: "PRIMARY_DOMAIN_t \<Rightarrow> string" where
  "dump_PRIMARY_DOMAIN d =
     IDENT @ ''primaryDomain '' @ dec (unat (PRIMARY_DOMAIN_t.primaryDomain d))"

definition dump_DELAY_MECHANISM :: "DELAY_MECHANISM_t \<Rightarrow> string" where
  "dump_DELAY_MECHANISM d =
     IDENT @ ''delayMechanism '' @ dec (unat (DELAY_MECHANISM_t.delayMechanism d))"

definition dump_EXTERNAL_PORT_CONFIGURATION_ENABLED :: "EXTERNAL_PORT_CONFIGURATION_ENABLED_t \<Rightarrow> string" where
  "dump_EXTERNAL_PORT_CONFIGURATION_ENABLED d =
     IDENT @ ''externalPortConfiguration '' @ (if EXTERNAL_PORT_CONFIGURATION_ENABLED_t.flags d \<noteq> 0 then ''e'' else ''dis'') @ ''abled''"

definition dump_MASTER_ONLY :: "MASTER_ONLY_t \<Rightarrow> string" where
  "dump_MASTER_ONLY d =
     IDENT @ ''masterOnly '' @ (if MASTER_ONLY_t.flags d \<noteq> 0 then ''true'' else ''false'')"

definition dump_HOLDOVER_UPGRADE_ENABLE :: "HOLDOVER_UPGRADE_ENABLE_t \<Rightarrow> string" where
  "dump_HOLDOVER_UPGRADE_ENABLE d =
     IDENT @ ''holdoverUpgradeDS '' @ (if HOLDOVER_UPGRADE_ENABLE_t.flags d \<noteq> 0 then ''e'' else ''dis'') @ ''abled''"

definition dump_EXT_PORT_CONFIG_PORT_DATA_SET :: "EXT_PORT_CONFIG_PORT_DATA_SET_t \<Rightarrow> string" where
  "dump_EXT_PORT_CONFIG_PORT_DATA_SET d =
     IDENT @ ''acceptableMasterPortDS '' @ (if EXT_PORT_CONFIG_PORT_DATA_SET_t.flags d \<noteq> 0 then ''e'' else ''dis'') @ ''abled'' @
     IDENT @ ''desiredState           '' @ portState2str_c (EXT_PORT_CONFIG_PORT_DATA_SET_t.desiredState d)"

definition dump_TIME_STATUS_NP :: "TIME_STATUS_NP_t \<Rightarrow> string" where
  "dump_TIME_STATUS_NP d =
     IDENT @ ''master_offset              '' @ to_string (sint (TIME_STATUS_NP_t.master_offset d)) @
     IDENT @ ''ingress_time               '' @ to_string (sint (TIME_STATUS_NP_t.ingress_time d)) @
     IDENT @ ''cumulativeScaledRateOffset '' @ rate_text (TIME_STATUS_NP_t.cumulativeScaledRateOffset d) @
     IDENT @ ''scaledLastGmPhaseChange    '' @ to_string (sint (TIME_STATUS_NP_t.scaledLastGmPhaseChange d)) @
     IDENT @ ''gmTimeBaseIndicator        '' @ dec (unat (TIME_STATUS_NP_t.gmTimeBaseIndicator d)) @
     IDENT @ ''lastGmPhaseChange          0x'' @ pad_left 4 (hex (unat (TIME_STATUS_NP_t.nanoseconds_msb d))) @ [CHR 0x27] @ pad_number 16 (sint (TIME_STATUS_NP_t.nanoseconds_lsb d)) @ ''.'' @ pad_left 4 (hex (unat (TIME_STATUS_NP_t.fractional_nanoseconds d))) @
     IDENT @ ''gmPresent                  '' @ (if TIME_STATUS_NP_t.gmPresent d \<noteq> 0 then ''true'' else ''false'') @
     IDENT @ ''gmIdentity                 '' @ ClockIdentity_string (TIME_STATUS_NP_t.gmIdentity d)"

definition dump_GRANDMASTER_SETTINGS_NP :: "GRANDMASTER_SETTINGS_NP_t \<Rightarrow> string" where
  "dump_GRANDMASTER_SETTINGS_NP d =
     IDENT @ ''clockClass              '' @ dec (unat (ClockQuality_t.clockClass (GRANDMASTER_SETTINGS_NP_t.clockQuality d))) @
     IDENT @ ''clockAccuracy           0x'' @ hex (unat (ClockQuality_t.clockAccuracy (GRANDMASTER_SETTINGS_NP_t.clockQuality d))) @
     IDENT @ ''offsetScaledLogVariance 0x'' @ hex (unat (ClockQuality_t.offsetScaledLogVariance (GRANDMASTER_SETTINGS_NP_t.clockQuality d))) @
     IDENT @ ''currentUtcOffset        '' @ to_string (sint (GRANDMASTER_SETTINGS_NP_t.currentUtcOffset d)) @
     IDENT @ ''leap61                  '' @ flag_text (GRANDMASTER_SETTINGS_NP_t.flags d) F_LI_61 @
     IDENT @ ''leap59                  '' @ flag_text (GRANDMASTER_SETTINGS_NP_t.flags d) F_LI_59 @
     IDENT @ ''currentUtcOffsetValid   '' @ flag_text (GRANDMASTER_SETTINGS_NP_t.flags d) F_UTCV @
     IDENT @ ''ptpTimescale            '' @ flag_text (GRANDMASTER_SETTINGS_NP_t.flags d) F_PTP @
     IDENT @ ''timeTraceable           '' @ flag_text (GRANDMASTER_SETTINGS_NP_t.flags d) F_TTRA @
     IDENT @ ''frequencyTraceable      '' @ flag_text (GRANDMASTER_SETTINGS_NP_t.flags d) F_FTRA @
     IDENT @ ''timeSource              '' @ timeSrc2str_c (GRANDMASTER_SETTINGS_NP_t.timeSource d)"

definition dump_PORT_DATA_SET_NP :: "PORT_DATA_SET_NP_t \<Rightarrow> string" where
  "dump_PORT_DATA_SET_NP d =
     IDENT @ ''neighborPropDelayThresh '' @ dec (unat (PORT_DATA_SET_NP_t.neighborPropDelayThresh d)) @
     IDENT @ ''asCapable               '' @ to_string (sint (PORT_DATA_SET_NP_t.asCapable d))"

definition dump_SUBSCRIBE_EVENTS_NP :: "SUBSCRIBE_EVENTS_NP_t \<Rightarrow> string" where
  "dump_SUBSCRIBE_EVENTS_NP d =
     IDENT @ ''duration          '' @ dec (unat (SUBSCRIBE_EVENTS_NP_t.duration d)) @
     IDENT @ ''NOTIFY_PORT_STATE '' @ event_text (SUBSCRIBE_EVENTS_NP_t.bitmask d) 0 @
     IDENT @ ''NOTIFY_TIME_SYNC  '' @ event_text (SUBSCRIBE_EVENTS_NP_t.bitmask d) 1"

definition dump_PORT_PROPERTIES_NP :: "PORT_PROPERTIES_NP_t \<Rightarrow> string" where
  "dump_PORT_PROPERTIES_NP d =
     IDENT @ ''portIdentity            '' @ PortIdentity_string (PORT_PROPERTIES_NP_t.portIdentity d) @
     IDENT @ ''portState               '' @ portState2str_c (PORT_PROPERTIES_NP_t.portState d) @
     IDENT @ ''timestamping            '' @ drop 3 (ts2str_c (PORT_PROPERTIES_NP_t.timestamping d)) @
     IDENT @ ''interface               '' @ c_str (textField (PORT_PROPERTIES_NP_t.interface d))"

definition dump_PORT_STATS_NP :: "PORT_STATS_NP_t \<Rightarrow> string" where
  "dump_PORT_STATS_NP d =
     IDENT @ ''portIdentity              '' @ PortIdentity_string (PORT_STATS_NP_t.portIdentity d) @
     IDENT @ ''rx_Sync                   '' @ dec (unat (PORT_STATS_NP_t.rxMsgType d ! 0)) @
     IDENT @ ''rx_Delay_Req              '' @ dec (unat (PORT_STATS_NP_t.rxMsgType d ! 1)) @
     IDENT @ ''rx_Pdelay_Req             '' @ dec (unat (PORT_STATS_NP_t.rxMsgType d ! 2)) @
     IDENT @ ''rx_Pdelay_Resp            '' @ dec (unat (PORT_STATS_NP_t.rxMsgType d ! 3)) @
     IDENT @ ''rx_Follow_Up              '' @ dec (unat (PORT_STATS_NP_t.rxMsgType d ! 8)) @
     IDENT @ ''rx_Delay_Resp             '' @ dec (unat (PORT_STATS_NP_t.rxMsgType d ! 9)) @
     IDENT @ ''rx_Pdelay_Resp_Follow_Up  '' @ dec (unat (PORT_STATS_NP_t.rxMsgType d ! 10)) @
     IDENT @ ''rx_Announce               '' @ dec (unat (PORT_STATS_NP_t.rxMsgType d ! 11)) @
     IDENT @ ''rx_Signaling              '' @ dec (unat (PORT_STATS_NP_t.rxMsgType d ! 12)) @
     IDENT @ ''rx_Management             '' @ dec (unat (PORT_STATS_NP_t.rxMsgType d ! 13)) @
     IDENT @ ''tx_Sync                   '' @ dec (unat (PORT_STATS_NP_t.txMsgType d ! 0)) @
     IDENT @ ''tx_Delay_Req              '' @ dec (unat (PORT_STATS_NP_t.txMsgType d ! 1)) @
     IDENT @ ''tx_Pdelay_Req             '' @ dec (unat (PORT_STATS_NP_t.txMsgType d ! 2)) @
     IDENT @ ''tx_Pdelay_Resp            '' @ dec (unat (PORT_STATS_NP_t.txMsgType d ! 3)) @
     IDENT @ ''tx_Follow_Up              '' @ dec (unat (PORT_STATS_NP_t.txMsgType d ! 8)) @
     IDENT @ ''tx_Delay_Resp             '' @ dec (unat (PORT_STATS_NP_t.txMsgType d ! 9)) @
     IDENT @ ''tx_Pdelay_Resp_Follow_Up  '' @ dec (unat (PORT_STATS_NP_t.txMsgType d ! 10)) @
     IDENT @ ''tx_Announce               '' @ dec (unat (PORT_STATS_NP_t.txMsgType d ! 11)) @
     IDENT @ ''tx_Signaling              '' @ dec (unat (PORT_STATS_NP_t.txMsgType d ! 12)) @
     IDENT @ ''tx_Management             '' @ dec (unat (PORT_STATS_NP_t.txMsgType d ! 13))"

definition dump_SYNCHRONIZATION_UNCERTAIN_NP :: "SYNCHRONIZATION_UNCERTAIN_NP_t \<Rightarrow> string" where
  "dump_SYNCHRONIZATION_UNCERTAIN_NP d =
     IDENT @ ''uncertain '' @ dec (unat (SYNCHRONIZATION_UNCERTAIN_NP_t.uncertain_val d))"

section \<open>A received message\<close>

primrec dump_tlv :: "(domain \<Rightarrow> byte list \<Rightarrow> string option) \<Rightarrow> BaseMngTlv \<Rightarrow> string" where
  "dump_tlv inet_ntop (TLV_CLOCK_DESCRIPTION d) = dump_CLOCK_DESCRIPTION inet_ntop d"
| "dump_tlv inet_ntop (TLV_USER_DESCRIPTION d) = dump_USER_DESCRIPTION d"
| "dump_tlv inet_ntop (TLV_INITIALIZE d) = dump_INITIALIZE d"
| "dump_tlv inet_ntop (TLV_FAULT_LOG d) = dump_FAULT_LOG d"
| "dump_tlv inet_ntop (TLV_DEFAULT_DATA_SET d) = dump_DEFAULT_DATA_SET d"
| "dump_tlv inet_ntop (TLV_CURRENT_DATA_SET d) = dump_CURRENT_DATA_SET d"
| "dump_tlv inet_ntop (TLV_PARENT_DATA_SET d) = dump_PARENT_DATA_SET d"
| "dump_tlv inet_ntop (TLV_TIME_PROPERTIES_DATA_SET d) = dump_TIME_PROPERTIES_DATA_SET d"
| "dump_tlv inet_ntop (TLV_PORT_DATA_SET d) = dump_PORT_DATA_SET d"
| "dump_tlv inet_ntop (TLV_PRIORITY1 d) = dump_PRIORITY1 d"
| "dump_tlv inet_ntop (TLV_PRIORITY2 d) = dump_PRIORITY2 d"
| "dump_tlv inet_ntop (TLV_DOMAIN d) = dump_DOMAIN d"
| "dump_tlv inet_ntop (TLV_SLAVE_ONLY d) = dump_SLAVE_ONLY d"
| "dump_tlv inet_ntop (TLV_LOG_ANNOUNCE_INTERVAL d) = dump_LOG_ANNOUNCE_INTERVAL d"
| "dump_tlv inet_ntop (TLV_ANNOUNCE_RECEIPT_TIMEOUT d) = dump_ANNOUNCE_RECEIPT_TIMEOUT d"
| "dump_tlv inet_ntop (TLV_LOG_SYNC_INTERVAL d) = dump_LOG_SYNC_INTERVAL d"
| "dump_tlv inet_ntop (TLV_VERSION_NUMBER d) = dump_VERSION_NUMBER d"
| "dump_tlv inet_ntop (TLV_TIME d) = dump_TIME d"
| "dump_tlv inet_ntop (TLV_CLOCK_ACCURACY d) = dump_CLOCK_ACCURACY d"
| "dump_tlv inet_ntop (TLV_UTC_PROPERTIES d) = dump_UTC_PROPERTIES d"
| "dump_tlv inet_ntop (TLV_TRACEABILITY_PROPERTIES d) = dump_TRACEABILITY_PROPERTIES d"
| "dump_tlv inet_ntop (TLV_TIMESCALE_PROPERTIES d) = dump_TIMESCALE_PROPERTIES d"
| "dump_tlv inet_ntop (TLV_UNICAST_NEGOTIATION_ENABLE d) = dump_UNICAST_NEGOTIATION_ENABLE d"
| "dump_tlv inet_ntop (TLV_PATH_TRACE_LIST d) = dump_PATH_TRACE_LIST d"
| "dump_tlv inet_ntop (TLV_PATH_TRACE_ENABLE d) = dump_PATH_TRACE_ENABLE d"
| "dump_tlv inet_ntop (TLV_GRANDMASTER_CLUSTER_TABLE d) = dump_GRANDMASTER_CLUSTER_TABLE inet_ntop d"
| "dump_tlv inet_ntop (TLV_UNICAST_MASTER_TABLE d) = dump_UNICAST_MASTER_TABLE inet_ntop d"
| "dump_tlv inet_ntop (TLV_UNICAST_MASTER_MAX_TABLE_SIZE d) = dump_UNICAST_MASTER_MAX_TABLE_SIZE d"
| "dump_tlv inet_ntop (TLV_ACCEPTABLE_MASTER_TABLE d) = dump_ACCEPTABLE_MASTER_TABLE d"
| "dump_tlv inet_ntop (TLV_ACCEPTABLE_MASTER_TABLE_ENABLED d) = dump_ACCEPTABLE_MASTER_TABLE_ENABLED d"
| "dump_tlv inet_ntop (TLV_ACCEPTABLE_MASTER_MAX_TABLE_SIZE d) = dump_ACCEPTABLE_MASTER_MAX_TABLE_SIZE d"
| "dump_tlv inet_ntop (TLV_ALTERNATE_MASTER d) = dump_ALTERNATE_MASTER d"
| "dump_tlv inet_ntop (TLV_ALTERNATE_TIME_OFFSET_ENABLE d) = dump_ALTERNATE_TIME_OFFSET_ENABLE d"
| "dump_tlv inet_ntop (TLV_ALTERNATE_TIME_OFFSET_NAME d) = dump_ALTERNATE_TIME_OFFSET_NAME d"
| "dump_tlv inet_ntop (TLV_ALTERNATE_TIME_OFFSET_MAX_KEY d) = dump_ALTERNATE_TIME_OFFSET_MAX_KEY d"
| "dump_tlv inet_ntop (TLV_ALTERNATE_TIME_OFFSET_PROPERTIES d) = dump_ALTERNATE_TIME_OFFSET_PROPERTIES d"
| "dump_tlv inet_ntop (TLV_TRANSPARENT_CLOCK_PORT_DATA_SET d) = dump_TRANSPARENT_CLOCK_PORT_DATA_SET d"
| "dump_tlv inet_ntop (TLV_LOG_MIN_PDELAY_REQ_INTERVAL d) = dump_LOG_MIN_PDELAY_REQ_INTERVAL d"
| "dump_tlv inet_ntop (TLV_TRANSPARENT_CLOCK_DEFAULT_DATA_SET d) = dump_TRANSPARENT_CLOCK_DEFAULT_DATA_SET d"
| "dump_tlv inet_ntop (TLV_PRIMARY_DOMAIN d) = dump_PRIMARY_DOMAIN d"
| "dump_tlv inet_ntop (TLV_DELAY_MECHANISM d) = dump_DELAY_MECHANISM d"
| "dump_tlv inet_ntop (TLV_EXTERNAL_PORT_CONFIGURATION_ENABLED d) = dump_EXTERNAL_PORT_CONFIGURATION_ENABLED d"
| "dump_tlv inet_ntop (TLV_MASTER_ONLY d) = dump_MASTER_ONLY d"
| "dump_tlv inet_ntop (TLV_HOLDOVER_UPGRADE_ENABLE d) = dump_HOLDOVER_UPGRADE_ENABLE d"
| "dump_tlv inet_ntop (TLV_EXT_PORT_CONFIG_PORT_DATA_SET d) = dump_EXT_PORT_CONFIG_PORT_DATA_SET d"
| "dump_tlv inet_ntop (TLV_TIME_STATUS_NP d) = dump_TIME_STATUS_NP d"
| "dump_tlv inet_ntop (TLV_GRANDMASTER_SETTINGS_NP d) = dump_GRANDMASTER_SETTINGS_NP d"
| "dump_tlv inet_ntop (TLV_PORT_DATA_SET_NP d) = dump_PORT_DATA_SET_NP d"
| "dump_tlv inet_ntop (TLV_SUBSCRIBE_EVENTS_NP d) = dump_SUBSCRIBE_EVENTS_NP d"
| "dump_tlv inet_ntop (TLV_PORT_PROPERTIES_NP d) = dump_PORT_PROPERTIES_NP d"
| "dump_tlv inet_ntop (TLV_PORT_STATS_NP d) = dump_PORT_STATS_NP d"
| "dump_tlv inet_ntop (TLV_SYNCHRONIZATION_UNCERTAIN_NP d) = dump_SYNCHRONIZATION_UNCERTAIN_NP d"

text \<open>
  \<^verbatim>\<open>call_dump\<close>: the structure is the argument, or else the one of the message; it is used as the
  structure of the message's id.
\<close>

definition call_dump :: "(domain \<Rightarrow> byte list \<Rightarrow> string option) \<Rightarrow> Message \<Rightarrow> BaseMngTlv option \<Rightarrow> string option" where
  "call_dump inet_ntop msg data =
     (let tid = m_tlv_id msg; dp = (case data of None \<Rightarrow> m_dataGet msg | Some d \<Rightarrow> Some d)
      in map_option (\<lambda>s. s @ [CHR 0x0A])
        (if tid < length ids \<and> ids_fun (ids ! tid) \<noteq> NA then
           (case dp of
              None \<Rightarrow> Some []
            | Some t \<Rightarrow> if tlv_type t = tid then Some (dump_tlv inet_ntop t) else None)
         else Some []))"

definition dump_SLAVE_RX_SYNC_TIMING_DATA :: "SLAVE_RX_SYNC_TIMING_DATA_t \<Rightarrow> string" where
  "dump_SLAVE_RX_SYNC_TIMING_DATA d =
     ''SLAVE_RX_SYNC_TIMING_DATA N '' @ dec (length (SLAVE_RX_SYNC_TIMING_DATA_t.rec_list d)) @ '' '' @
     IDENT @ ''syncSourcePortIdentity     '' @ PortIdentity_string (SLAVE_RX_SYNC_TIMING_DATA_t.syncSourcePortIdentity d) @
     concat (map (\<lambda>rec.
       IDENT @ ''sequenceId                 '' @ dec (unat (SLAVE_RX_SYNC_TIMING_DATA_rec_t.sequenceId rec)) @
       IDENT @ ''syncOriginTimestamp        '' @ Timestamp_string (SLAVE_RX_SYNC_TIMING_DATA_rec_t.syncOriginTimestamp rec) @
       IDENT @ ''totalCorrectionField       '' @
         to_string (sint (getIntervalInt (SLAVE_RX_SYNC_TIMING_DATA_rec_t.totalCorrectionField rec))) @
       IDENT @ ''scaledCumulativeRateOffset '' @ dec (unat (SLAVE_RX_SYNC_TIMING_DATA_rec_t.scaledCumulativeRateOffset rec)) @
       IDENT @ ''syncEventIngressTimestamp  '' @ Timestamp_string (SLAVE_RX_SYNC_TIMING_DATA_rec_t.syncEventIngressTimestamp rec))
       (SLAVE_RX_SYNC_TIMING_DATA_t.rec_list d))"

definition dump_SLAVE_DELAY_TIMING_DATA_NP :: "SLAVE_DELAY_TIMING_DATA_NP_t \<Rightarrow> string" where
  "dump_SLAVE_DELAY_TIMING_DATA_NP d =
     ''SLAVE_DELAY_TIMING_DATA_NP N '' @ dec (length (SLAVE_DELAY_TIMING_DATA_NP_t.rec_list d)) @ '' '' @
     IDENT @ ''sourcePortIdentity         '' @ PortIdentity_string (SLAVE_DELAY_TIMING_DATA_NP_t.sourcePortIdentity d) @
     concat (map (\<lambda>rec.
       IDENT @ ''sequenceId                 '' @ dec (unat (SLAVE_DELAY_TIMING_DATA_NP_rec_t.sequenceId rec)) @
       IDENT @ ''delayOriginTimestamp       '' @ Timestamp_string (SLAVE_DELAY_TIMING_DATA_NP_rec_t.delayOriginTimestamp rec) @
       IDENT @ ''totalCorrectionField       '' @
         to_string (sint (getIntervalInt (SLAVE_DELAY_TIMING_DATA_NP_rec_t.totalCorrectionField rec))) @
       IDENT @ ''delayResponseTimestamp     '' @ Timestamp_string (SLAVE_DELAY_TIMING_DATA_NP_rec_t.delayResponseTimestamp rec))
       (SLAVE_DELAY_TIMING_DATA_NP_t.rec_list d))"

text \<open>\<^verbatim>\<open>call_dumpSig\<close> follows the pointer without looking at it; it always returns \<^verbatim>\<open>false\<close>.\<close>

definition call_dumpSig :: "tlvType_e \<Rightarrow> BaseSigTlv option \<Rightarrow> (bool \<times> string) option" where
  "call_dumpSig type tlv =
     (if type = SLAVE_RX_SYNC_TIMING_DATA then
        (case tlv of
           Some (SIG_SLAVE_RX_SYNC_TIMING_DATA d) \<Rightarrow> Some (False, dump_SLAVE_RX_SYNC_TIMING_DATA d @ [CHR 0x0A])
         | _ \<Rightarrow> None)
      else if type = SLAVE_DELAY_TIMING_DATA_NP then
        (case tlv of
           Some (SIG_SLAVE_DELAY_TIMING_DATA_NP d) \<Rightarrow> Some (False, dump_SLAVE_DELAY_TIMING_DATA_NP d @ [CHR 0x0A])
         | _ \<Rightarrow> None)
      else Some (False, []))"

end
