(* ===== verification/Typed.thy ===== *)
theory Typed
  imports Samples Dump
begin

text \<open>
  The static casts of the library: an object behind a pointer to a base class is used as the class its
  tag says. What \<^verbatim>\<open>parse\<close> makes has the class of its tag, whatever octets arrive, for the TLVs of a
  signaling message (\<^verbatim>\<open>sigTlv::tlvType\<close>) and for the management TLV (\<^verbatim>\<open>m_tlv_id\<close>).
\<close>

section \<open>The class of an object and its tag\<close>

definition sig_class :: "tlvType_e \<Rightarrow> BaseSigTlv \<Rightarrow> bool" where
  "sig_class type t \<longleftrightarrow>
     (case t of
        SIG_MANAGEMENT tid mng \<Rightarrow> type = MANAGEMENT \<and> tlv_type mng = tid
      | SIG_ORGANIZATION_EXTENSION d \<Rightarrow> type \<in> {ORGANIZATION_EXTENSION, ORGANIZATION_EXTENSION_PROPAGATE,
          ORGANIZATION_EXTENSION_DO_NOT_PROPAGATE}
      | _ \<Rightarrow> type = sig_type t)"

definition typed_sigs :: "Message \<Rightarrow> bool" where
  "typed_sigs m \<longleftrightarrow> (\<forall>x\<in>set (m_sigTlvs m). \<forall>t. tlv_ptr x = Some t \<longrightarrow> sig_class (tlvType x) t)"

section \<open>Management\<close>

lemma tlv_f_type: "tlv_f t s = Some (e, t', s') \<Longrightarrow> tlv_type t' = tlv_type t"
  by (cases t) (auto simp: lift_tlv_def)

lemma new_tlv_class: "new_tlv tid = Some t \<Longrightarrow> tlv_type t = tid"
  by (auto simp: new_tlv_def split: if_splits)

lemma call_tlv_class: "call_tlv_data tid None s = Some (err, Some t, s') \<Longrightarrow> tlv_type t = tid"
  by (auto simp: call_tlv_data_def Let_def dest!: tlv_f_type new_tlv_class split: if_splits option.splits bool.splits)

section \<open>Signaling\<close>

lemma caseBuildAct_class: "caseBuildAct con f new s = Some (Inr (Some t), s') \<Longrightarrow> \<exists>d. t = con d"
  by (auto simp: caseBuildAct_def split: option.splits bool.splits)

lemma sig_switch_class: "sig_switch spec type s = Some (Inr (Some t), s') \<Longrightarrow> sig_class type t"
  unfolding sig_switch_def
  by (auto simp: sig_class_def sig_management_def Let_def dest!: caseBuildAct_class call_tlv_class
      split: if_splits option.splits bind_splits)

lemma typed_insert: "typed_sigs s \<Longrightarrow> sig_class type t \<Longrightarrow> typed_sigs (sig_insert type t s)"
  by (auto simp: typed_sigs_def sig_insert_def copy_sigTlv_def Let_def)

lemma sig_step_typed:
  assumes "sig_step leftAll s = Some (r, s')" "typed_sigs s"
  shows "typed_sigs s'"
proof -
  have f: "m_sigTlvs s2 = m_sigTlvs s1 \<and> (\<forall>t. x = Inr (Some t) \<longrightarrow> sig_class type t)"
    if "sig_switch spec type s1 = Some (x, s2)" for spec type and s1 s2 :: Message and x
    using frame_Message [OF sig_switch_frame [OF that]] sig_switch_class that by blast
  show ?thesis
    using assms
    by (auto simp: sig_step_def Let_def split: if_splits option.splits sum.splits bind_splits
        intro!: typed_insert dest!: f) (auto simp: typed_sigs_def)
qed

lemma parseSig_loop_typed:
  "parseSig_loop leftAll s = Some (err, s') \<Longrightarrow> typed_sigs s \<Longrightarrow> typed_sigs s'"
proof (induction leftAll s rule: parseSig_loop.induct)
  case (1 leftAll s)
  show ?case
  proof (cases "leftAll < int tlvSize")
    case False
    with "1.prems" obtain r s1 where st: "sig_step leftAll s = Some (r, s1)" by (auto split: option.splits)
    then have k: "typed_sigs s1" using "1.prems"(2) by (rule sig_step_typed)
    show ?thesis
    proof (cases r)
      case (Inr left')
      then show ?thesis using False st "1.prems" k by (intro "1.IH" [of "(r, s1)" r s1]) auto
    qed (use False st k "1.prems" in simp)
  qed (use "1.prems" in simp)
qed

lemma parseSig_loop_data: "parseSig_loop leftAll s = Some (err, s') \<Longrightarrow> m_dataGet s' = m_dataGet s"
proof (induction leftAll s rule: parseSig_loop.induct)
  case (1 leftAll s)
  have f: "m_dataGet s2 = m_dataGet s1" if "sig_switch spec type s1 = Some (x, s2)" for spec type and s1 s2 :: Message and x
    using frame_Message [OF sig_switch_frame [OF that]] by simp
  have d: "m_dataGet s2 = m_dataGet s1" if "sig_step l s1 = Some (r, s2)" for l r s1 s2
    using that by (auto simp: sig_step_def Let_def sig_insert_def dest!: f
        split: if_splits option.splits sum.splits bind_splits)
  show ?case
  proof (cases "leftAll < int tlvSize")
    case False
    with "1.prems" obtain r s1 where st: "sig_step leftAll s = Some (r, s1)" by (auto split: option.splits)
    show ?thesis
    proof (cases r)
      case (Inr left')
      then have "m_dataGet s' = m_dataGet s1" using False st "1.prems" by (intro "1.IH" [of "(r, s1)" r s1]) auto
      then show ?thesis using d [OF st] by simp
    qed (use False st d "1.prems" in simp)
  qed (use "1.prems" in simp)
qed

section \<open>The message\<close>

lemma parse_mng_class:
  assumes "parse_mng msgSize s = Some (err, s')"
  shows "m_sigTlvs s' = m_sigTlvs s \<and>
    (m_dataGet s' = m_dataGet s \<or> (\<exists>t. m_dataGet s' = Some t \<and> tlv_type t = m_tlv_id s'))"
proof -
  have c: "m_sigTlvs s2 = m_sigTlvs s1 \<and> m_dataGet s2 = m_dataGet s1 \<and> m_tlv_id s2 = m_tlv_id s1 \<and>
      (\<forall>t. x = Some t \<longrightarrow> tlv_type t = tid)"
    if "call_tlv_data tid None s1 = Some (e, x, s2)" for tid e x and s1 s2 :: Message
    using frame_Message [OF call_tlv_frame [OF that]] call_tlv_class that by blast
  have p: "m_sigTlvs s2 = m_sigTlvs s1 \<and> m_dataGet s2 = m_dataGet s1"
    if "proc_PTPText d s1 = Some (e, d', s2)" for d e d' and s1 s2 :: Message
    using frame_Message [OF framing.keeps [OF framing_structs(7) that]] by blast
  show ?thesis
    using assms
    by (auto simp: parse_mng_def parse_error_status_def parse_management_def Let_def dest!: c p
        split: if_splits option.splits bind_splits bool.splits)
qed

lemma parse_class:
  assumes "parse buf msgSize s = Some (err, s')" "typed_sigs s"
  shows "typed_sigs s' \<and> (m_dataGet s' = m_dataGet s \<or> (\<exists>t. m_dataGet s' = Some t \<and> tlv_type t = m_tlv_id s'))"
proof -
  have i: "m_sigTlvs s2 = m_sigTlvs s1 \<and> m_dataGet s2 = m_dataGet s1" if "parse_ids s1 = Some s2" for s1 s2
    using that by (auto simp: parse_ids_def split: bind_splits)
  have g: "typed_sigs s2 \<and> m_dataGet s2 = m_dataGet s1" if "parseSig s1 = Some (e, s2)" for s1 s2 e
    using parseSig_loop_typed [of _ "s1\<lparr>m_sigTlvs := []\<rparr>"] parseSig_loop_data [of _ "s1\<lparr>m_sigTlvs := []\<rparr>"] that
    by (auto simp: parseSig_def typed_sigs_def simp del: parseSig_loop.simps)
  show ?thesis
    using assms
    by (auto simp: parse_def typed_sigs_def Let_def dest!: g i parse_mng_class
        split: if_splits option.splits bind_splits)
qed

lemma build_sigs: "build buf n sequence s = Some (err, s') \<Longrightarrow> m_sigTlvs s' = m_sigTlvs s"
proof -
  have c: "m_sigTlvs s2 = m_sigTlvs s1" if "call_tlv_data tid t s1 = Some (e, x, s2)" for tid t e x and s1 s2 :: Message
    using frame_Message [OF call_tlv_frame [OF that]] by simp
  have r: "m_sigTlvs s2 = m_sigTlvs s1" if "proc_reserved d s1 = Some (e, d', s2)" for d e d' and s1 s2 :: Message
    using frame_Message [OF framing.keeps [OF framing_reserved that]] by simp
  have p: "m_sigTlvs s2 = m_sigTlvs s1" if "put_bytes bs s1 = Some s2" for bs and s1 s2 :: Message
    using that by (auto simp: put_bytes_def)
  have d: "m_sigTlvs s2 = m_sigTlvs s1" if "build_data sz s1 = Some (e, s2)" for sz e s1 s2
    using that by (auto simp: build_data_def Let_def dest!: c r p split: if_splits option.splits)
  show "build buf n sequence s = Some (err, s') \<Longrightarrow> m_sigTlvs s' = m_sigTlvs s"
    by (auto simp: build_def Let_def dest!: d split: if_splits option.splits bind_splits)
qed

lemma typed_step:
  assumes "api_step s s'" "typed_sigs s"
  shows "typed_sigs s'"
  using assms(1)
proof cases
  case (parse b m err)
  then show ?thesis using parse_class assms(2) by blast
next
  case (build buf n sequence err)
  then show ?thesis using build_sigs assms(2) by (simp add: typed_sigs_def)
qed (use assms(2) in \<open>auto simp: typed_sigs_def updateParams_def useConfig_def setAllClocks_def setAction_def
    setAction_data_def split: if_splits\<close>)

lemma typed_reachable: "api_reachable s \<Longrightarrow> typed_sigs s"
proof (induction rule: api_reachable.induct)
  case (step s s')
  then show ?case using typed_step by blast
qed (auto simp: typed_sigs_def new_Message_def new_Message_prms_def construct_def setAllClocks_def Let_def)

lemma call_dumpSig_class: "sig_class type t \<Longrightarrow> call_dumpSig type (Some t) \<noteq> None"
  by (cases t) (auto simp: sig_class_def call_dumpSig_def)

section \<open>Properties\<close>



end
