(* ===== verification/Sys.thy ===== *)
theory Sys
  imports Bin
begin

text \<open>
  The system calls of \<^verbatim>\<open>src/sock.cpp\<close> and \<^verbatim>\<open>src/ptp.cpp\<close>. The operating system is a
  parameter of every definition that calls it, a function \<open>os\<close> from a call and a state of the
  world to the result and the next state. A call is a constructor of \<open>syscall\<close> with the arguments
  the sources pass, structures as the values of their members; \<open>sysret\<close> holds what comes back:
  the return value, and what the system stores through the pointers it gets.
\<close>

section \<open>Arguments\<close>

datatype sa_family = AF_UNIX | AF_PACKET | AF_IP domain

datatype sock_type = SOCK_DGRAM | SOCK_RAW

text \<open>
  Socket addresses. Port and protocol are the two octets the structure holds, an address its
  octets, \<^verbatim>\<open>sun_path\<close> all of its 108 characters.
\<close>

record sockaddr_un =
  sun_path :: string

record sockaddr_in =
  sin_port :: "byte list"
  sin_addr :: "byte list"

record sockaddr_in6 =
  sin6_port :: "byte list"
  sin6_addr :: "byte list"
  sin6_scope_id :: int

record sockaddr_ll =
  sll_ifindex :: int
  sll_family :: int
  sll_protocol :: "byte list"
  sll_halen :: nat
  sll_addr :: "byte list"

datatype sockaddr = Addr_un sockaddr_un | Addr_in sockaddr_in | Addr_in6 sockaddr_in6 |
  Addr_ll sockaddr_ll

text \<open>An instruction of a packet filter: code, the two jumps, the operand.\<close>

type_synonym sock_filter = "u16 \<times> u8 \<times> u8 \<times> u32"

text \<open>Socket options with their values; a membership has the group's octets and the interface.\<close>

datatype sockopt =
    SO_REUSEADDR int
  | SO_BINDTODEVICE string
  | SO_PRIORITY int
  | SO_ATTACH_FILTER "sock_filter list"
  | IP_MULTICAST_TTL int
  | IP_ADD_MEMBERSHIP "byte list" int
  | IP_MULTICAST_LOOP int
  | IP_MULTICAST_IF "byte list" int
  | IPV6_MULTICAST_HOPS int
  | IPV6_ADD_MEMBERSHIP "byte list" int
  | IPV6_MULTICAST_LOOP int
  | IPV6_MULTICAST_IF "byte list" int
  | PACKET_ADD_MEMBERSHIP int nat "byte list"

text \<open>
  The requests of \<^verbatim>\<open>ioctl\<close>. Receiving calls have the room for octets and whether
  \<^verbatim>\<open>MSG_DONTWAIT\<close> is set; \<^verbatim>\<open>select\<close> has the one descriptor of its set and the time
  limit in seconds and microseconds.
\<close>

datatype ioctl_req = SIOCGIFINDEX string | SIOCGIFNAME int | SIOCGIFHWADDR string | SIOCETHTOOL string

datatype syscall =
    Socket sa_family sock_type "byte list"
  | Close int
  | Bind int sockaddr
  | Setsockopt int sockopt
  | Unlink string
  | Sendto int "byte list" sockaddr
  | Sendmsg int sockaddr "byte list list"
  | Recv int nat bool
  | Recvfrom int nat bool
  | Recvmsg int nat bool
  | Select int "(int \<times> int) option"
  | Gettimeofday
  | Getuid
  | Getpid
  | Getpwuid int
  | Ioctl int ioctl_req
  | Open string

section \<open>Results\<close>

text \<open>
  \<open>rc\<close> is the return value; \<open>out\<close> the octets received, or of the hardware address; \<open>name\<close> the
  path of the sender, the name of the interface or the home directory; \<open>num\<close> the index of the
  interface or of the clock; \<open>ready\<close> whether the descriptor is still in the set; \<open>tv\<close> the time.
\<close>

record sysret =
  rc :: int
  out :: "byte list"
  name :: string
  num :: int
  ready :: bool
  tv :: "int \<times> int"

type_synonym 'w os = "syscall \<Rightarrow> 'w \<Rightarrow> sysret \<times> 'w"

text \<open>Calls in order, up to the first that does not return zero; the sources then return an error.\<close>

fun sys_all :: "'w os \<Rightarrow> syscall list \<Rightarrow> 'w \<Rightarrow> bool \<times> 'w" where
  "sys_all os [] w = (True, w)"
| "sys_all os (c # cs) w = (let (r, w') = os c w in if rc r \<noteq> 0 then (False, w') else sys_all os cs w')"

section \<open>Descriptors\<close>

text \<open>
  What POSIX says of descriptors, for a system whose open descriptors are \<open>fds\<close>: a call that opens
  one fails and changes nothing or returns a number that was not in use, \<^verbatim>\<open>close\<close> frees its
  argument, and no other call opens or closes one.
\<close>

fun opens :: "syscall \<Rightarrow> bool" where
  "opens (Socket _ _ _) = True"
| "opens (Open _) = True"
| "opens _ = False"

fun closes :: "syscall \<Rightarrow> bool" where
  "closes (Close _) = True"
| "closes _ = False"

definition posix_fds :: "'w os \<Rightarrow> ('w \<Rightarrow> int set) \<Rightarrow> bool" where
  "posix_fds os fds \<longleftrightarrow>
     (\<forall>c w r w'. os c w = (r, w') \<longrightarrow>
        (opens c \<longrightarrow> (if rc r < 0 then fds w' = fds w else rc r \<notin> fds w \<and> fds w' = insert (rc r) (fds w))) \<and>
        (\<forall>fd. c = Close fd \<longrightarrow> fds w' = fds w - {fd}) \<and>
        (\<not> opens c \<and> \<not> closes c \<longrightarrow> fds w' = fds w))"

lemma posix_open:
  assumes "posix_fds os fds" "os c w = (r, w')" "opens c"
  shows "rc r < 0 \<Longrightarrow> fds w' = fds w" "0 \<le> rc r \<Longrightarrow> rc r \<notin> fds w \<and> fds w' = insert (rc r) (fds w)"
  using assms unfolding posix_fds_def by (metis not_less)+

lemma posix_close: "posix_fds os fds \<Longrightarrow> os (Close fd) w = (r, w') \<Longrightarrow> fds w' = fds w - {fd}"
  unfolding posix_fds_def by blast

lemma posix_other: "posix_fds os fds \<Longrightarrow> os c w = (r, w') \<Longrightarrow> \<not> opens c \<Longrightarrow> \<not> closes c \<Longrightarrow> fds w' = fds w"
  unfolding posix_fds_def by blast

lemma posix_all:
  "posix_fds os fds \<Longrightarrow> sys_all os cs w = (ok, w') \<Longrightarrow> \<forall>c\<in>set cs. \<not> opens c \<and> \<not> closes c \<Longrightarrow> fds w' = fds w"
proof (induction cs arbitrary: w)
  case (Cons c cs)
  then show ?case by (auto split: prod.splits if_splits dest: posix_other)
qed simp

end
