(* ===== verification/Ptp.thy ===== *)
theory Ptp
  imports Sys
begin

text \<open>
  Classes \<^verbatim>\<open>IfInfo\<close> and \<^verbatim>\<open>PtpClock\<close> of \<^verbatim>\<open>src/ptp.h\<close> and \<^verbatim>\<open>src/ptp.cpp\<close>: what the
  system knows of a network interface, and the PTP hardware clock of an index. Messages on the
  standard error stream are left out.
\<close>

section \<open>Network interface\<close>

record IfInfo =
  m_isInit :: bool
  m_ifIndex :: int
  m_ptpIndex :: int
  m_ifName :: string
  m_mac :: Binary

definition new_IfInfo :: IfInfo where
  "new_IfInfo = \<lparr>m_isInit = False, m_ifIndex = - 1, m_ptpIndex = - 1, m_ifName = [], m_mac = []\<rparr>"

definition IFNAMSIZ :: nat where "IFNAMSIZ = 16"

text \<open>
  \<^verbatim>\<open>initPtp\<close>; the name is the one \<^verbatim>\<open>ifr\<close> holds, and the hardware address the first six
  octets of \<^verbatim>\<open>sa_data\<close>.
\<close>

definition initPtp :: "'w os \<Rightarrow> int \<Rightarrow> string \<Rightarrow> IfInfo \<Rightarrow> 'w \<Rightarrow> bool \<times> IfInfo \<times> 'w" where
  "initPtp os fd ifr_name s w =
     (let (r, w1) = os (Ioctl fd (SIOCGIFHWADDR ifr_name)) w
      in if rc r = - 1 then (False, s, snd (os (Close fd) w1))
         else
           let s1 = s\<lparr>m_mac := take EUI48 (out r)\<rparr>;
               (r2, w2) = os (Ioctl fd (SIOCETHTOOL ifr_name)) w1
           in if rc r2 = - 1 then (False, s1, snd (os (Close fd) w2))
              else (True, s1\<lparr>m_ptpIndex := num r2, m_isInit := True\<rparr>, snd (os (Close fd) w2)))"

definition initUsingName :: "'w os \<Rightarrow> string \<Rightarrow> IfInfo \<Rightarrow> 'w \<Rightarrow> bool \<times> IfInfo \<times> 'w" where
  "initUsingName os ifName s w =
     (if m_isInit s \<or> ifName = [] \<or> length ifName \<ge> IFNAMSIZ then (False, s, w)
      else
        let (f, w1) = os (Socket AF_UNIX SOCK_DGRAM [0, 0]) w
        in if rc f < 0 then (False, s, w1)
           else
             let (r, w2) = os (Ioctl (rc f) (SIOCGIFINDEX (c_str ifName))) w1
             in if rc r = - 1 then (False, s, snd (os (Close (rc f)) w2))
                else initPtp os (rc f) (c_str ifName) (s\<lparr>m_ifName := ifName, m_ifIndex := num r\<rparr>) w2)"

definition initUsingIndex :: "'w os \<Rightarrow> int \<Rightarrow> IfInfo \<Rightarrow> 'w \<Rightarrow> bool \<times> IfInfo \<times> 'w" where
  "initUsingIndex os ifIndex s w =
     (if m_isInit s then (False, s, w)
      else
        let (f, w1) = os (Socket AF_UNIX SOCK_DGRAM [0, 0]) w
        in if rc f < 0 then (False, s, w1)
           else
             let (r, w2) = os (Ioctl (rc f) (SIOCGIFNAME ifIndex)) w1
             in if rc r = - 1 then (False, s, snd (os (Close (rc f)) w2))
                else initPtp os (rc f) (c_str (name r))
                  (s\<lparr>m_ifName := c_str (name r), m_ifIndex := ifIndex\<rparr>) w2)"

section \<open>Hardware clock\<close>

record PtpClock =
  clk_fd :: int
  clk_ptpIndex :: int
  clk_isInit :: bool
  m_clkId :: "32 word"
  m_ptpDevice :: string

text \<open>\<^verbatim>\<open>FD_TO_CLOCKID\<close> on a 32-bit \<^verbatim>\<open>clockid_t\<close>.\<close>

definition get_clockid_fd :: "int \<Rightarrow> 32 word" where
  "get_clockid_fd fd = push_bit 3 (NOT (word_of_int fd)) OR 3"

definition new_PtpClock :: "'w os \<Rightarrow> int \<Rightarrow> 'w \<Rightarrow> PtpClock \<times> 'w" where
  "new_PtpClock os ptpIndex w =
     (let dev = ''/dev/ptp'' @ to_string ptpIndex;
          (r, w1) = os (Open dev) w;
          s = \<lparr>clk_fd = rc r, clk_ptpIndex = ptpIndex, clk_isInit = False, m_clkId = - 1, m_ptpDevice = []\<rparr>
      in if rc r < 0 then (s, w1)
         else
           let s1 = s\<lparr>m_clkId := get_clockid_fd (rc r)\<rparr>
           in if m_clkId s1 = - 1 then (s1, w1)
              else (s1\<lparr>m_ptpDevice := dev, clk_isInit := True\<rparr>, w1))"

definition delete_PtpClock :: "'w os \<Rightarrow> PtpClock \<Rightarrow> 'w \<Rightarrow> 'w" where
  "delete_PtpClock os s w = (if clk_fd s \<ge> 0 then snd (os (Close (clk_fd s)) w) else w)"

section \<open>Descriptors and clock ids\<close>

lemma fds_ioctl [simp]: "posix_fds os fds \<Longrightarrow> fds (snd (os (Ioctl fd q) w)) = fds w"
  using posix_other [of os fds "Ioctl fd q" w] by (cases "os (Ioctl fd q) w") simp

lemma fds_close [simp]: "posix_fds os fds \<Longrightarrow> fds (snd (os (Close fd) w)) = fds w - {fd}"
  using posix_close [of os fds fd w] by (cases "os (Close fd) w") simp

lemma initPtp_fds [simp]: "posix_fds os fds \<Longrightarrow> fds (snd (snd (initPtp os fd ifr s w))) = fds w - {fd}"
  by (simp add: initPtp_def Let_def split_beta)

lemma fds_socket:
  assumes "posix_fds os fds" "os (Socket a b c) w = (f, w1)"
  shows "rc f < 0 \<Longrightarrow> fds w1 = fds w" "\<not> rc f < 0 \<Longrightarrow> fds w1 - {rc f} = fds w"
  using posix_open [OF assms] by auto

text \<open>Looking an interface up leaves no descriptor open, whether it succeeds or not.\<close>

lemma initUsing_fds:
  assumes "posix_fds os fds"
  shows "fds (snd (snd (initUsingName os nm s w))) = fds w" "fds (snd (snd (initUsingIndex os i s w))) = fds w"
proof -
  obtain f w1 where f: "os (Socket AF_UNIX SOCK_DGRAM [0, 0]) w = (f, w1)" by fastforce
  show "fds (snd (snd (initUsingName os nm s w))) = fds w" "fds (snd (snd (initUsingIndex os i s w))) = fds w"
    using fds_socket [OF assms f] assms
    by (simp_all add: initUsingName_def initUsingIndex_def f Let_def split_beta)
qed

lemma clockid_bit: "\<not> bit (get_clockid_fd fd) 2"
  by (simp add: get_clockid_fd_def bit_simps)

lemma clockid_valid: "get_clockid_fd fd \<noteq> - 1"
proof
  assume "get_clockid_fd fd = - 1"
  then have "bit (- 1 :: 32 word) 2" using clockid_bit [of fd] by simp
  moreover have "bit (- 1 :: 32 word) 2" by simp
  ultimately show False using \<open>get_clockid_fd fd = - 1\<close> clockid_bit [of fd] by simp
qed

end
