(* ===== verification/Sock.thy ===== *)
theory Sock
  imports Ptp Cfg
begin

text \<open>
  The socket classes of \<^verbatim>\<open>src/sock.h\<close> and \<^verbatim>\<open>src/sock.cpp\<close>. The base classes are records
  that the derived ones extend; a virtual function a base class calls is an argument. A method that
  calls the system takes and returns the state of the world; \<^term>\<open>None\<close> is undefined behaviour:
  a descriptor outside an \<^verbatim>\<open>fd_set\<close>, a null pointer, a copy outside an array.

  A message to send is the list of the \<^verbatim>\<open>len\<close> octets at the pointer. A receive buffer is a memory
  block; the system stores at most as many octets as it is given room for. The members
  \<^verbatim>\<open>m_msg_tx\<close>, \<^verbatim>\<open>m_msg_rx\<close> and \<^verbatim>\<open>m_iov_*\<close> of \<^verbatim>\<open>SockRaw\<close>, which only ever point
  to the other members and to the arguments, are left out, as are messages on the standard error
  stream.
\<close>

section \<open>Constants\<close>

definition udp_port :: u16 where "udp_port = 320"

definition ipv4_udp_mc :: string where "ipv4_udp_mc = ''224.0.1.129''"

definition ipv6_udp_mc :: string where "ipv6_udp_mc = ''ff0e::181''"

definition useDefstr :: string where "useDefstr = ''/.pmc.''"

definition rootBasestr :: string where "rootBasestr = ''/var/run/pmc.''"

definition unix_path_max :: nat where "unix_path_max = 107"

definition ETH_P_ALL :: u16 where "ETH_P_ALL = 3"

definition ETH_P_1588 :: u16 where "ETH_P_1588 = 0x88F7"

definition bpf_code :: "sock_filter list" where
  "bpf_code =
     [(0x28, 0, 0, 12),
      (0x15, 0, 1, ucast ETH_P_1588),
      (0x06, 0, 0, 0x40000),
      (0x06, 0, 0, 0)]"

section \<open>Base class\<close>

record SockBase =
  m_fd :: int
  m_isInit :: bool

definition SockBase_closeBase :: "'w os \<Rightarrow> 'z SockBase_scheme \<Rightarrow> 'w \<Rightarrow> 'z SockBase_scheme \<times> 'w" where
  "SockBase_closeBase os s w =
     (if m_fd s \<ge> 0 then let (r, w') = os (Close (m_fd s)) w in (s\<lparr>m_fd := - 1\<rparr>, w') else (s, w))"

definition sendReply :: "int \<Rightarrow> nat \<Rightarrow> bool" where
  "sendReply cnt len = (if cnt < 0 then False else if cnt \<noteq> int len then False else True)"

definition FD_SETSIZE :: int where "FD_SETSIZE = 1024"

definition poll :: "'w os \<Rightarrow> u64 \<Rightarrow> 'z SockBase_scheme \<Rightarrow> 'w \<Rightarrow> (bool \<times> 'w) option" where
  "poll os timeout_ms s w =
     (let to = (if timeout_ms > 0
                then Some (uint (timeout_ms div 1000), uint (timeout_ms mod 1000) * 1000) else None)
      in if m_fd s < 0 \<or> m_fd s \<ge> FD_SETSIZE then None
         else let (r, w') = os (Select (m_fd s) to) w in Some (rc r > 0 \<and> ready r, w'))"

text \<open>\<^verbatim>\<open>timersub\<close> on seconds and microseconds.\<close>

definition timersub :: "int \<times> int \<Rightarrow> int \<times> int \<Rightarrow> int \<times> int" where
  "timersub a b =
     (let sec = fst a - fst b; usec = snd a - snd b
      in if usec < 0 then (sec - 1, usec + 1000000) else (sec, usec))"

definition tpoll :: "'w os \<Rightarrow> u64 \<Rightarrow> 'z SockBase_scheme \<Rightarrow> 'w \<Rightarrow> (bool \<times> u64 \<times> 'w) option" where
  "tpoll os timeout_ms s w =
     (let (start, w1) = (if timeout_ms > 0 then let (r, w1) = os Gettimeofday w in (tv r, w1) else ((0, 0), w))
      in case poll os timeout_ms s w1 of
           None \<Rightarrow> None
         | Some (ret, w2) \<Rightarrow>
             if timeout_ms > 0 then
               let (r, w3) = os Gettimeofday w2;
                   left = timersub (tv r) start;
                   pass = word_of_int (fst left * 1000 + snd left div 1000) :: u64
               in Some (ret, if timeout_ms > pass then timeout_ms - pass else 0, w3)
             else Some (ret, timeout_ms, w2))"

text \<open>What a receiving call leaves in a buffer with room for \<open>n\<close> octets.\<close>

definition received :: "nat \<Rightarrow> byte list \<Rightarrow> byte list \<Rightarrow> byte list" where
  "received n octets buf = take n octets @ drop (length (take n octets)) buf"

section \<open>Unix sockets\<close>

record SockUnix = SockBase +
  m_me :: string
  m_peer :: string
  m_homeDir :: string
  m_lastFrom :: string
  m_peerAddr :: sockaddr_un

definition testUnix :: "string \<Rightarrow> bool" where
  "testUnix str =
     (if length str < 2 \<or> length str > unix_path_max \<or> take 1 str \<noteq> ''/'' then False else True)"

definition setUnixAddr :: "string \<Rightarrow> sockaddr_un" where
  "setUnixAddr str =
     (let p = take unix_path_max (c_str str)
      in \<lparr>sun_path = p @ replicate (unix_path_max + 1 - length p) NUL\<rparr>)"

definition new_SockUnix :: SockUnix where
  "new_SockUnix = \<lparr>m_fd = - 1, m_isInit = False, m_me = [], m_peer = [], m_homeDir = [],
     m_lastFrom = [], m_peerAddr = setUnixAddr []\<rparr>"

definition SockUnix_closeBase :: "'w os \<Rightarrow> SockUnix \<Rightarrow> 'w \<Rightarrow> SockUnix \<times> 'w" where
  "SockUnix_closeBase os s w =
     (let (s1, w1) = SockBase_closeBase os s w
      in if m_isInit s1 then let (r, w2) = os (Unlink (c_str (m_me s1))) w1 in (s1\<lparr>m_isInit := False\<rparr>, w2)
         else (s1, w1))"

definition SockUnix_initBase :: "'w os \<Rightarrow> SockUnix \<Rightarrow> 'w \<Rightarrow> bool \<times> SockUnix \<times> 'w" where
  "SockUnix_initBase os s w =
     (if m_isInit s \<or> \<not> testUnix (m_me s) then (False, s, w)
      else
        let (s1, w1) = SockBase_closeBase os s w;
            (f, w2) = os (Socket AF_UNIX SOCK_DGRAM [0, 0]) w1;
            s2 = s1\<lparr>m_fd := rc f\<rparr>
        in if m_fd s2 < 0 then (False, s2, w2)
           else
             let (r, w3) = os (Bind (m_fd s2) (Addr_un (setUnixAddr (m_me s2)))) w2
             in if rc r \<noteq> 0 then (False, s2, w3) else (True, s2\<lparr>m_isInit := True\<rparr>, w3))"

definition setPeerInternal :: "string \<Rightarrow> SockUnix \<Rightarrow> bool \<times> SockUnix" where
  "setPeerInternal str s =
     (if \<not> testUnix str then (False, s)
      else let s1 = s\<lparr>m_peer := str\<rparr> in (True, s1\<lparr>m_peerAddr := setUnixAddr (m_peer s1)\<rparr>))"

definition setPeerAddress_cfg :: "ConfigFile \<Rightarrow> string \<Rightarrow> SockUnix \<Rightarrow> (bool \<times> SockUnix) option" where
  "setPeerAddress_cfg cfg sec s = map_option (\<lambda>a. setPeerInternal a s) (cfg_uds_address sec cfg)"

definition setSelfAddress :: "string \<Rightarrow> SockUnix \<Rightarrow> bool \<times> SockUnix" where
  "setSelfAddress str s = (if m_isInit s \<or> \<not> testUnix str then (False, s) else (True, s\<lparr>m_me := str\<rparr>))"

text \<open>\<^verbatim>\<open>getpwuid\<close> returns a null pointer (\<open>rc = 0\<close>) when there is no such user.\<close>

definition getHomeDir :: "'w os \<Rightarrow> SockUnix \<Rightarrow> 'w \<Rightarrow> (string \<times> SockUnix \<times> 'w) option" where
  "getHomeDir os s w =
     (let (u, w1) = os Getuid w; (pwd, w2) = os (Getpwuid (rc u)) w1
      in if rc pwd = 0 then None
         else Some (c_str (name pwd), s\<lparr>m_homeDir := c_str (name pwd)\<rparr>, w2))"

definition setDefSelfAddress :: "'w os \<Rightarrow> string \<Rightarrow> string \<Rightarrow> SockUnix \<Rightarrow> 'w \<Rightarrow>
    (bool \<times> SockUnix \<times> 'w) option" where
  "setDefSelfAddress os rootBase useDef s w =
     (if m_isInit s then Some (False, s, w)
      else
        let (u, w1) = os Getuid w
        in case (if rc u \<noteq> 0 then
                   map_option (\<lambda>(home, s1, w2). (home @ (if useDef = [] then useDefstr else useDef), s1, w2))
                     (getHomeDir os s w1)
                 else Some (if rootBase = [] then rootBasestr else rootBase, s, w1)) of
             None \<Rightarrow> None
           | Some (new_me, s1, w2) \<Rightarrow>
               let (p, w3) = os Getpid w2;
                   (r, s2) = setSelfAddress (new_me @ to_string (rc p)) s1
               in Some (r, s2, w3))"

definition sendAny :: "'w os \<Rightarrow> byte list \<Rightarrow> sockaddr_un \<Rightarrow> SockUnix \<Rightarrow> 'w \<Rightarrow> bool \<times> 'w" where
  "sendAny os msg addr s w =
     (let (r, w') = os (Sendto (m_fd s) msg (Addr_un addr)) w in (sendReply (rc r) (length msg), w'))"

definition SockUnix_sendBase :: "'w os \<Rightarrow> byte list \<Rightarrow> SockUnix \<Rightarrow> 'w \<Rightarrow> bool \<times> 'w" where
  "SockUnix_sendBase os msg s w =
     (if \<not> m_isInit s \<or> \<not> testUnix (m_peer s) then (False, w) else sendAny os msg (m_peerAddr s) s w)"

definition sendTo :: "'w os \<Rightarrow> byte list \<Rightarrow> string \<Rightarrow> SockUnix \<Rightarrow> 'w \<Rightarrow> bool \<times> 'w" where
  "sendTo os msg addrStr s w =
     (if \<not> m_isInit s \<or> \<not> testUnix addrStr then (False, w) else sendAny os msg (setUnixAddr addrStr) s w)"

text \<open>The count, the buffer and the sender's address \<open>from\<close> after \<^verbatim>\<open>rcvFrom\<close>.\<close>

definition rcvFrom :: "'w os \<Rightarrow> byte list \<Rightarrow> nat \<Rightarrow> string \<Rightarrow> bool \<Rightarrow> SockUnix \<Rightarrow> 'w \<Rightarrow>
    int \<times> byte list \<times> string \<times> 'w" where
  "rcvFrom os buf bufSize from block s w =
     (if \<not> m_isInit s then (- 1, buf, from, w)
      else
        let (r, w') = os (Recvfrom (m_fd s) bufSize (\<not> block)) w; buf' = received bufSize (out r) buf
        in if rc r < 0 then (- 1, buf', from, w')
           else if rc r > int bufSize then (- 1, buf', from, w')
           else (rc r, buf', c_str (take unix_path_max (name r)), w'))"

definition rcvFrom_last :: "'w os \<Rightarrow> byte list \<Rightarrow> nat \<Rightarrow> bool \<Rightarrow> SockUnix \<Rightarrow> 'w \<Rightarrow>
    int \<times> byte list \<times> SockUnix \<times> 'w" where
  "rcvFrom_last os buf bufSize block s w =
     (let (cnt, buf', from, w') = rcvFrom os buf bufSize (m_lastFrom s) block s w
      in (cnt, buf', s\<lparr>m_lastFrom := from\<rparr>, w'))"

definition SockUnix_rcvBase :: "'w os \<Rightarrow> byte list \<Rightarrow> nat \<Rightarrow> bool \<Rightarrow> SockUnix \<Rightarrow> 'w \<Rightarrow>
    int \<times> byte list \<times> 'w" where
  "SockUnix_rcvBase os buf bufSize block s w =
     (if \<not> testUnix (m_peer s) then (- 1, buf, w)
      else
        let (cnt, buf', from, w') = rcvFrom os buf bufSize [] block s w
        in if cnt > 0 \<and> from = m_peer s then (cnt, buf', w') else (- 1, buf', w'))"

section \<open>Sockets of an interface\<close>

record SockBaseIf = SockBase +
  m_ifName :: string
  m_mac :: Binary
  m_ifIndex :: int
  m_have_if :: bool

definition setInt :: "IfInfo \<Rightarrow> 'z SockBaseIf_scheme \<Rightarrow> bool \<times> 'z SockBaseIf_scheme" where
  "setInt ifObj s = (True, s\<lparr>m_ifName := IfInfo.m_ifName ifObj, m_ifIndex := IfInfo.m_ifIndex ifObj,
     m_mac := IfInfo.m_mac ifObj, m_have_if := True\<rparr>)"

definition setIfUsingName :: "'w os \<Rightarrow> string \<Rightarrow> 'z SockBaseIf_scheme \<Rightarrow> 'w \<Rightarrow>
    bool \<times> 'z SockBaseIf_scheme \<times> 'w" where
  "setIfUsingName os ifName s w =
     (if m_isInit s then (False, s, w)
      else let (ok, ifObj, w') = initUsingName os ifName new_IfInfo w
           in if ok then let (r, s') = setInt ifObj s in (r, s', w') else (False, s, w'))"

definition setIfUsingIndex :: "'w os \<Rightarrow> int \<Rightarrow> 'z SockBaseIf_scheme \<Rightarrow> 'w \<Rightarrow>
    bool \<times> 'z SockBaseIf_scheme \<times> 'w" where
  "setIfUsingIndex os ifIndex s w =
     (if m_isInit s then (False, s, w)
      else let (ok, ifObj, w') = initUsingIndex os ifIndex new_IfInfo w
           in if ok then let (r, s') = setInt ifObj s in (r, s', w') else (False, s, w'))"

definition setIf :: "IfInfo \<Rightarrow> 'z SockBaseIf_scheme \<Rightarrow> bool \<times> 'z SockBaseIf_scheme" where
  "setIf ifObj s = (if m_isInit s then (False, s) else if IfInfo.m_isInit ifObj then setInt ifObj s else (False, s))"

text \<open>\<^verbatim>\<open>setAll\<close>, given the virtual function \<^verbatim>\<open>setAllBase\<close>.\<close>

definition setAll :: "(ConfigFile \<Rightarrow> string \<Rightarrow> 'z SockBaseIf_scheme \<Rightarrow> (bool \<times> 'z SockBaseIf_scheme) option) \<Rightarrow>
    IfInfo \<Rightarrow> ConfigFile \<Rightarrow> string \<Rightarrow> 'z SockBaseIf_scheme \<Rightarrow> (bool \<times> 'z SockBaseIf_scheme) option" where
  "setAll setAllBase ifObj cfg sec s =
     (case setIf ifObj s of (False, s1) \<Rightarrow> Some (False, s1) | (True, s1) \<Rightarrow> setAllBase cfg sec s1)"

text \<open>\<^verbatim>\<open>setAllInit\<close>, given the virtual functions \<^verbatim>\<open>setAllBase\<close> and \<^verbatim>\<open>initBase\<close>.\<close>

definition setAllInit :: "(ConfigFile \<Rightarrow> string \<Rightarrow> 'z SockBaseIf_scheme \<Rightarrow> (bool \<times> 'z SockBaseIf_scheme) option) \<Rightarrow>
    ('z SockBaseIf_scheme \<Rightarrow> 'w \<Rightarrow> (bool \<times> 'z SockBaseIf_scheme \<times> 'w) option) \<Rightarrow>
    IfInfo \<Rightarrow> ConfigFile \<Rightarrow> string \<Rightarrow> 'z SockBaseIf_scheme \<Rightarrow> 'w \<Rightarrow>
    (bool \<times> 'z SockBaseIf_scheme \<times> 'w) option" where
  "setAllInit setAllBase initBase ifObj cfg sec s w =
     (case setAll setAllBase ifObj cfg sec s of
        None \<Rightarrow> None
      | Some (False, s1) \<Rightarrow> Some (False, s1, w)
      | Some (True, s1) \<Rightarrow> initBase s1 w)"

section \<open>Internet sockets\<close>

record SockIp = SockBaseIf +
  m_domain :: domain
  m_udp_ttl :: int
  m_mcast_str :: string
  m_mcast :: Binary

definition setUdpTtl :: "u8 \<Rightarrow> 'z SockIp_scheme \<Rightarrow> bool \<times> 'z SockIp_scheme" where
  "setUdpTtl udp_ttl s = (if m_isInit s then (False, s) else (True, s\<lparr>m_udp_ttl := uint udp_ttl\<rparr>))"

definition setUdpTtl_cfg :: "ConfigFile \<Rightarrow> string \<Rightarrow> 'z SockIp_scheme \<Rightarrow> (bool \<times> 'z SockIp_scheme) option" where
  "setUdpTtl_cfg cfg sec s =
     (if m_isInit s then Some (False, s)
      else map_option (\<lambda>v. (True, s\<lparr>m_udp_ttl := uint v\<rparr>)) (cfg_udp_ttl sec cfg))"

text \<open>\<^verbatim>\<open>m_addr\<close> points to the address member of the derived class, which \<open>addr\<close> reads.\<close>

definition SockIp_sendBase :: "('z SockIp_scheme \<Rightarrow> sockaddr) \<Rightarrow> 'w os \<Rightarrow> byte list \<Rightarrow> 'z SockIp_scheme \<Rightarrow>
    'w \<Rightarrow> bool \<times> 'w" where
  "SockIp_sendBase addr os msg s w =
     (if \<not> m_isInit s then (False, w)
      else let (r, w') = os (Sendto (m_fd s) msg (addr s)) w in (sendReply (rc r) (length msg), w'))"

definition SockIp_rcvBase :: "'w os \<Rightarrow> byte list \<Rightarrow> nat \<Rightarrow> bool \<Rightarrow> 'z SockIp_scheme \<Rightarrow> 'w \<Rightarrow>
    int \<times> byte list \<times> 'w" where
  "SockIp_rcvBase os buf bufSize block s w =
     (if \<not> m_isInit s then (- 1, buf, w)
      else
        let (r, w') = os (Recv (m_fd s) bufSize (\<not> block)) w; buf' = received bufSize (out r) buf
        in if rc r < 0 then (- 1, buf', w')
           else if rc r > int bufSize then (- 1, buf', w')
           else (rc r, buf', w'))"

definition SockIp_initBase :: "('z SockIp_scheme \<Rightarrow> sockaddr) \<Rightarrow>
    ('w os \<Rightarrow> 'z SockIp_scheme \<Rightarrow> 'w \<Rightarrow> (bool \<times> 'z SockIp_scheme \<times> 'w) option) \<Rightarrow>
    (domain \<Rightarrow> string \<Rightarrow> byte list option) \<Rightarrow> 'w os \<Rightarrow> 'z SockIp_scheme \<Rightarrow> 'w \<Rightarrow>
    (bool \<times> 'z SockIp_scheme \<times> 'w) option" where
  "SockIp_initBase addr init2 inet_pton os s w =
     (if m_isInit s \<or> \<not> m_have_if s \<or> m_udp_ttl s < 0 then Some (False, s, w)
      else
        let (s1, w1) = SockBase_closeBase os s w;
            (f, w2) = os (Socket (AF_IP (m_domain s1)) SOCK_DGRAM [0, 0]) w1;
            s2 = s1\<lparr>m_fd := rc f\<rparr>
        in if m_fd s2 < 0 then Some (False, s2, w2)
           else
             let (ok, w3) = sys_all os
                   [Setsockopt (m_fd s2) (SO_REUSEADDR 1), Bind (m_fd s2) (addr s2),
                    Setsockopt (m_fd s2) (SO_BINDTODEVICE (m_ifName s2))] w2
             in if \<not> ok then Some (False, s2, w3)
                else
                  (case fromIp_domain inet_pton (m_domain s2) (m_mcast_str s2) (m_mcast s2) of
                     (False, _) \<Rightarrow> Some (False, s2, w3)
                   | (True, mc) \<Rightarrow>
                       (case init2 os (s2\<lparr>m_mcast := mc\<rparr>) w3 of
                          None \<Rightarrow> None
                        | Some (False, s4, w4) \<Rightarrow> Some (False, s4, w4)
                        | Some (True, s4, w4) \<Rightarrow> Some (True, s4\<lparr>m_isInit := True\<rparr>, w4))))"

subsection \<open>IPv4\<close>

record SockIp4 = SockIp +
  m_addr4 :: sockaddr_in

text \<open>The members no constructor sets keep what the memory held, the argument.\<close>

definition new_SockIp4 :: "byte_order \<Rightarrow> int \<Rightarrow> SockIp4" where
  "new_SockIp4 h junk = \<lparr>m_fd = - 1, m_isInit = False, m_ifName = [], m_mac = [], m_ifIndex = junk,
     m_have_if = False, m_domain = AF_INET, m_udp_ttl = - 1, m_mcast_str = ipv4_udp_mc, m_mcast = [],
     m_addr4 = \<lparr>sin_port = store h 2 (cpu_to_net16 h udp_port), sin_addr = store h 4 (cpu_to_net32 h 0)\<rparr>\<rparr>"

definition ip4_addr :: "SockIp4 \<Rightarrow> sockaddr" where "ip4_addr s = Addr_in (m_addr4 s)"

text \<open>The octets at \<^verbatim>\<open>m_mcast.get()\<close>, which end with a zero.\<close>

definition SockIp4_init2 :: "'w os \<Rightarrow> SockIp4 \<Rightarrow> 'w \<Rightarrow> (bool \<times> SockIp4 \<times> 'w) option" where
  "SockIp4_init2 os s w =
     (case sys_all os [Setsockopt (m_fd s) (IP_MULTICAST_TTL (m_udp_ttl s))] w of
        (False, w1) \<Rightarrow> Some (False, s, w1)
      | (True, w1) \<Rightarrow>
          (case peek 0 4 (m_mcast s @ [0]) of
             None \<Rightarrow> None
           | Some grp \<Rightarrow>
               (case sys_all os
                   [Setsockopt (m_fd s) (IP_ADD_MEMBERSHIP grp (m_ifIndex s)),
                    Setsockopt (m_fd s) (IP_MULTICAST_LOOP 0),
                    Setsockopt (m_fd s) (IP_MULTICAST_IF (replicate 4 0) (m_ifIndex s))] w1 of
                  (False, w2) \<Rightarrow> Some (False, s, w2)
                | (True, w2) \<Rightarrow> Some (True, s\<lparr>m_addr4 := (m_addr4 s)\<lparr>sin_addr := grp\<rparr>\<rparr>, w2))))"

definition SockIp4_setAllBase :: "ConfigFile \<Rightarrow> string \<Rightarrow> SockIp4 \<Rightarrow> (bool \<times> SockIp4) option" where
  "SockIp4_setAllBase cfg sec s = setUdpTtl_cfg cfg sec s"

subsection \<open>IPv6\<close>

record SockIp6 = SockIp +
  m_addr6 :: sockaddr_in6
  m_udp6_scope :: int

definition new_SockIp6 :: "byte_order \<Rightarrow> int \<Rightarrow> SockIp6" where
  "new_SockIp6 h junk = \<lparr>m_fd = - 1, m_isInit = False, m_ifName = [], m_mac = [], m_ifIndex = junk,
     m_have_if = False, m_domain = AF_INET6, m_udp_ttl = - 1, m_mcast_str = ipv6_udp_mc, m_mcast = [],
     m_addr6 = \<lparr>sin6_port = store h 2 (cpu_to_net16 h udp_port), sin6_addr = replicate 16 0,
       sin6_scope_id = 0\<rparr>, m_udp6_scope = - 1\<rparr>"

definition ip6_addr :: "SockIp6 \<Rightarrow> sockaddr" where "ip6_addr s = Addr_in6 (m_addr6 s)"

definition SockIp6_init2 :: "'w os \<Rightarrow> SockIp6 \<Rightarrow> 'w \<Rightarrow> (bool \<times> SockIp6 \<times> 'w) option" where
  "SockIp6_init2 os s w =
     (if m_udp6_scope s < 0 then Some (False, s, w)
      else
        case sys_all os [Setsockopt (m_fd s) (IPV6_MULTICAST_HOPS (m_udp_ttl s))] w of
          (False, w1) \<Rightarrow> Some (False, s, w1)
        | (True, w1) \<Rightarrow>
            let s1 = s\<lparr>m_mcast := setBin_at 1 (word_of_int (m_udp6_scope s)) (m_mcast s)\<rparr>
            in case peek 0 16 (m_mcast s1 @ [0]) of
                 None \<Rightarrow> None
               | Some grp \<Rightarrow>
                   (case sys_all os
                       [Setsockopt (m_fd s1) (IPV6_ADD_MEMBERSHIP grp (m_ifIndex s1)),
                        Setsockopt (m_fd s1) (IPV6_MULTICAST_LOOP 0),
                        Setsockopt (m_fd s1) (IPV6_MULTICAST_IF (replicate 16 0) (m_ifIndex s1))] w1 of
                      (False, w2) \<Rightarrow> Some (False, s1, w2)
                    | (True, w2) \<Rightarrow>
                        let a = (m_addr6 s1)\<lparr>sin6_addr := grp\<rparr>
                        in Some (True, s1\<lparr>m_addr6 :=
                             (if m_udp6_scope s1 = 2 then a\<lparr>sin6_scope_id := m_ifIndex s1\<rparr> else a)\<rparr>, w2)))"

definition setScope :: "u8 \<Rightarrow> SockIp6 \<Rightarrow> bool \<times> SockIp6" where
  "setScope udp6_scope s =
     (if m_isInit s \<or> udp6_scope > 0xf then (False, s) else (True, s\<lparr>m_udp6_scope := uint udp6_scope\<rparr>))"

definition setScope_cfg :: "ConfigFile \<Rightarrow> string \<Rightarrow> SockIp6 \<Rightarrow> (bool \<times> SockIp6) option" where
  "setScope_cfg cfg sec s =
     (if m_isInit s then Some (False, s)
      else map_option (\<lambda>v. (True, s\<lparr>m_udp6_scope := uint v\<rparr>)) (cfg_udp6_scope sec cfg))"

definition SockIp6_setAllBase :: "ConfigFile \<Rightarrow> string \<Rightarrow> SockIp6 \<Rightarrow> (bool \<times> SockIp6) option" where
  "SockIp6_setAllBase cfg sec s =
     (case setUdpTtl_cfg cfg sec s of
        None \<Rightarrow> None
      | Some (False, s1) \<Rightarrow> Some (False, s1)
      | Some (True, s1) \<Rightarrow> setScope_cfg cfg sec s1)"

section \<open>Raw sockets\<close>

text \<open>The header is an \<^verbatim>\<open>ethhdr\<close>: six octets of destination, six of source, two of protocol.\<close>

record SockRaw = SockBaseIf +
  m_ptp_dst_mac :: Binary
  m_socket_priority :: int
  m_addr :: sockaddr_ll
  m_hdr :: "byte list"
  m_rx_buf :: "byte list"

definition sizeof_ethhdr :: nat where "sizeof_ethhdr = 14"

definition new_SockRaw :: "int \<Rightarrow> byte list \<Rightarrow> SockRaw" where
  "new_SockRaw junk rx_junk = \<lparr>m_fd = - 1, m_isInit = False, m_ifName = [], m_mac = [], m_ifIndex = junk,
     m_have_if = False, m_ptp_dst_mac = [], m_socket_priority = - 1,
     m_addr = \<lparr>sll_ifindex = 0, sll_family = 0, sll_protocol = [0, 0], sll_halen = 0, sll_addr = replicate 8 0\<rparr>,
     m_hdr = replicate sizeof_ethhdr 0, m_rx_buf = rx_junk\<rparr>"

definition setPtpDstMacStr :: "string \<Rightarrow> SockRaw \<Rightarrow> bool \<times> SockRaw" where
  "setPtpDstMacStr str s =
     (if m_isInit s \<or> str = [] then (False, s)
      else case fromMac str [] of (False, _) \<Rightarrow> (False, s) | (True, mac) \<Rightarrow> (True, s\<lparr>m_ptp_dst_mac := mac\<rparr>))"

text \<open>Both overloads that take the octets.\<close>

definition setPtpDstMac :: "Binary \<Rightarrow> SockRaw \<Rightarrow> bool \<times> SockRaw" where
  "setPtpDstMac ptp_dst_mac s =
     (let len = length ptp_dst_mac
      in if m_isInit s \<or> len \<noteq> EUI48 \<and> len \<noteq> EUI64 then (False, s)
         else (True, s\<lparr>m_ptp_dst_mac := ptp_dst_mac\<rparr>))"

definition setPtpDstMac_cfg :: "ConfigFile \<Rightarrow> string \<Rightarrow> SockRaw \<Rightarrow> (bool \<times> SockRaw) option" where
  "setPtpDstMac_cfg cfg sec s =
     (if m_isInit s then Some (False, s)
      else map_option (\<lambda>v. (True, s\<lparr>m_ptp_dst_mac := v\<rparr>)) (cfg_ptp_dst_mac sec cfg))"

definition setSocketPriority :: "u8 \<Rightarrow> SockRaw \<Rightarrow> bool \<times> SockRaw" where
  "setSocketPriority socket_priority s =
     (if m_isInit s \<or> socket_priority > 15 then (False, s)
      else (True, s\<lparr>m_socket_priority := uint socket_priority\<rparr>))"

definition setSocketPriority_cfg :: "ConfigFile \<Rightarrow> string \<Rightarrow> SockRaw \<Rightarrow> (bool \<times> SockRaw) option" where
  "setSocketPriority_cfg cfg sec s =
     (if m_isInit s then Some (False, s)
      else map_option (\<lambda>v. (True, s\<lparr>m_socket_priority := uint v\<rparr>)) (cfg_socket_priority sec cfg))"

definition SockRaw_setAllBase :: "ConfigFile \<Rightarrow> string \<Rightarrow> SockRaw \<Rightarrow> (bool \<times> SockRaw) option" where
  "SockRaw_setAllBase cfg sec s =
     (case setPtpDstMac_cfg cfg sec s of
        None \<Rightarrow> None
      | Some (False, s1) \<Rightarrow> Some (False, s1)
      | Some (True, s1) \<Rightarrow> setSocketPriority_cfg cfg sec s1)"

text \<open>The stores for sending, at the end of \<^verbatim>\<open>initBase\<close>.\<close>

definition raw_tx :: "byte_order \<Rightarrow> SockRaw \<Rightarrow> SockRaw option" where
  "raw_tx h s = do {
     a \<leftarrow> poke 0 (m_ptp_dst_mac s) (sll_addr (m_addr s));
     h1 \<leftarrow> poke 12 (store h 2 (cpu_to_net16 h ETH_P_1588)) (m_hdr s);
     h2 \<leftarrow> poke 0 (m_ptp_dst_mac s) h1;
     h3 \<leftarrow> poke 6 (m_mac s) h2;
     Some (s\<lparr>m_addr := (m_addr s)\<lparr>sll_halen := length (m_ptp_dst_mac s), sll_addr := a\<rparr>, m_hdr := h3\<rparr>)
   }"

definition SockRaw_initBase :: "byte_order \<Rightarrow> 'w os \<Rightarrow> SockRaw \<Rightarrow> 'w \<Rightarrow> (bool \<times> SockRaw \<times> 'w) option" where
  "SockRaw_initBase h os s w =
     (if m_isInit s \<or> \<not> m_have_if s \<or> m_ptp_dst_mac s = [] \<or> m_socket_priority s < 0
      then Some (False, s, w)
      else
        let port_all = store h 2 (cpu_to_net16 h ETH_P_ALL);
            (f, w1) = os (Socket AF_PACKET SOCK_RAW port_all) w;
            s1 = s\<lparr>m_fd := rc f\<rparr>
        in if m_fd s1 < 0 then Some (False, s1, w1)
           else
             let s2 = s1\<lparr>m_addr := (m_addr s1)\<lparr>sll_ifindex := m_ifIndex s1, sll_family := 17,
                   sll_protocol := port_all\<rparr>\<rparr>
             in case sys_all os
                    [Bind (m_fd s2) (Addr_ll (m_addr s2)),
                     Setsockopt (m_fd s2) (SO_BINDTODEVICE (m_ifName s2)),
                     Setsockopt (m_fd s2) (SO_PRIORITY (m_socket_priority s2)),
                     Setsockopt (m_fd s2) (SO_ATTACH_FILTER bpf_code)] w1 of
                  (False, w2) \<Rightarrow> Some (False, s2, w2)
                | (True, w2) \<Rightarrow>
                    (case poke 0 (m_ptp_dst_mac s2) (replicate 8 0) of
                       None \<Rightarrow> None
                     | Some mr_address \<Rightarrow>
                         (case sys_all os
                             [Setsockopt (m_fd s2) (PACKET_ADD_MEMBERSHIP (m_ifIndex s2)
                                (length (m_ptp_dst_mac s2)) mr_address)] w2 of
                            (False, w3) \<Rightarrow> Some (False, s2, w3)
                          | (True, w3) \<Rightarrow>
                              map_option (\<lambda>s3. (True, s3\<lparr>m_isInit := True\<rparr>, w3)) (raw_tx h s2))))"

definition SockRaw_sendBase :: "'w os \<Rightarrow> byte list \<Rightarrow> SockRaw \<Rightarrow> 'w \<Rightarrow> bool \<times> 'w" where
  "SockRaw_sendBase os msg s w =
     (if \<not> m_isInit s then (False, w)
      else let (r, w') = os (Sendmsg (m_fd s) (Addr_ll (m_addr s)) [m_hdr s, msg]) w
           in (sendReply (rc r) (length msg + sizeof_ethhdr), w'))"

definition SockRaw_rcvBase :: "'w os \<Rightarrow> byte list \<Rightarrow> nat \<Rightarrow> bool \<Rightarrow> SockRaw \<Rightarrow> 'w \<Rightarrow>
    int \<times> byte list \<times> SockRaw \<times> 'w" where
  "SockRaw_rcvBase os buf bufSize block s w =
     (if \<not> m_isInit s then (- 1, buf, s, w)
      else
        let (r, w') = os (Recvmsg (m_fd s) (sizeof_ethhdr + bufSize) (\<not> block)) w;
            s1 = s\<lparr>m_rx_buf := received sizeof_ethhdr (out r) (m_rx_buf s)\<rparr>;
            buf' = received bufSize (drop sizeof_ethhdr (out r)) buf
        in if rc r < 0 then (- 1, buf', s1, w')
           else if rc r > int (bufSize + sizeof_ethhdr) then (- 1, buf', s1, w')
           else (rc r, buf', s1, w'))"

section \<open>A socket of any class\<close>

text \<open>The object behind a \<^verbatim>\<open>SockBase\<close> pointer, and the calls of its virtual functions.\<close>

datatype Sock = SkUnix SockUnix | SkIp4 SockIp4 | SkIp6 SockIp6 | SkRaw SockRaw

fun sk_fd :: "Sock \<Rightarrow> int" where
  "sk_fd (SkUnix s) = m_fd s"
| "sk_fd (SkIp4 s) = m_fd s"
| "sk_fd (SkIp6 s) = m_fd s"
| "sk_fd (SkRaw s) = m_fd s"

fun sk_isInit :: "Sock \<Rightarrow> bool" where
  "sk_isInit (SkUnix s) = m_isInit s"
| "sk_isInit (SkIp4 s) = m_isInit s"
| "sk_isInit (SkIp6 s) = m_isInit s"
| "sk_isInit (SkRaw s) = m_isInit s"

fun sk_close :: "'w os \<Rightarrow> Sock \<Rightarrow> 'w \<Rightarrow> Sock \<times> 'w" where
  "sk_close os (SkUnix s) w = (let (s', w') = SockUnix_closeBase os s w in (SkUnix s', w'))"
| "sk_close os (SkIp4 s) w = (let (s', w') = SockBase_closeBase os s w in (SkIp4 s', w'))"
| "sk_close os (SkIp6 s) w = (let (s', w') = SockBase_closeBase os s w in (SkIp6 s', w'))"
| "sk_close os (SkRaw s) w = (let (s', w') = SockBase_closeBase os s w in (SkRaw s', w'))"

fun sk_init :: "byte_order \<Rightarrow> (domain \<Rightarrow> string \<Rightarrow> byte list option) \<Rightarrow> 'w os \<Rightarrow> Sock \<Rightarrow> 'w \<Rightarrow>
    (bool \<times> Sock \<times> 'w) option" where
  "sk_init h inet_pton os (SkUnix s) w = (let (r, s', w') = SockUnix_initBase os s w in Some (r, SkUnix s', w'))"
| "sk_init h inet_pton os (SkIp4 s) w =
     map_option (\<lambda>(r, s', w'). (r, SkIp4 s', w')) (SockIp_initBase ip4_addr SockIp4_init2 inet_pton os s w)"
| "sk_init h inet_pton os (SkIp6 s) w =
     map_option (\<lambda>(r, s', w'). (r, SkIp6 s', w')) (SockIp_initBase ip6_addr SockIp6_init2 inet_pton os s w)"
| "sk_init h inet_pton os (SkRaw s) w =
     map_option (\<lambda>(r, s', w'). (r, SkRaw s', w')) (SockRaw_initBase h os s w)"

fun sk_send :: "'w os \<Rightarrow> byte list \<Rightarrow> Sock \<Rightarrow> 'w \<Rightarrow> bool \<times> 'w" where
  "sk_send os msg (SkUnix s) w = SockUnix_sendBase os msg s w"
| "sk_send os msg (SkIp4 s) w = SockIp_sendBase ip4_addr os msg s w"
| "sk_send os msg (SkIp6 s) w = SockIp_sendBase ip6_addr os msg s w"
| "sk_send os msg (SkRaw s) w = SockRaw_sendBase os msg s w"

fun sk_rcv :: "'w os \<Rightarrow> byte list \<Rightarrow> nat \<Rightarrow> bool \<Rightarrow> Sock \<Rightarrow> 'w \<Rightarrow> int \<times> byte list \<times> Sock \<times> 'w" where
  "sk_rcv os buf bufSize block (SkUnix s) w =
     (let (cnt, buf', w') = SockUnix_rcvBase os buf bufSize block s w in (cnt, buf', SkUnix s, w'))"
| "sk_rcv os buf bufSize block (SkIp4 s) w =
     (let (cnt, buf', w') = SockIp_rcvBase os buf bufSize block s w in (cnt, buf', SkIp4 s, w'))"
| "sk_rcv os buf bufSize block (SkIp6 s) w =
     (let (cnt, buf', w') = SockIp_rcvBase os buf bufSize block s w in (cnt, buf', SkIp6 s, w'))"
| "sk_rcv os buf bufSize block (SkRaw s) w =
     (let (cnt, buf', s', w') = SockRaw_rcvBase os buf bufSize block s w in (cnt, buf', SkRaw s', w'))"

fun sk_tpoll :: "'w os \<Rightarrow> u64 \<Rightarrow> Sock \<Rightarrow> 'w \<Rightarrow> (bool \<times> u64 \<times> 'w) option" where
  "sk_tpoll os timeout_ms (SkUnix s) w = tpoll os timeout_ms s w"
| "sk_tpoll os timeout_ms (SkIp4 s) w = tpoll os timeout_ms s w"
| "sk_tpoll os timeout_ms (SkIp6 s) w = tpoll os timeout_ms s w"
| "sk_tpoll os timeout_ms (SkRaw s) w = tpoll os timeout_ms s w"

end
