(* ===== verification/SockLaws.thy ===== *)
theory SockLaws
  imports Sock
begin

text \<open>
  The sockets over any sequence of calls: which descriptors are open, when a socket can be used
  again, how \<^verbatim>\<open>tpoll\<close> accounts for time, and what a raw socket does differently. The locale
  \<open>descriptor_owner\<close> is the contract of \<^verbatim>\<open>init\<close> and \<^verbatim>\<open>close\<close>: the object owns at most
  one descriptor and leaves all others alone. The Unix and the internet sockets keep it; the raw
  socket does not.
\<close>

section \<open>Owning a descriptor\<close>

definition own :: "int \<Rightarrow> int set" where
  "own fd = (if 0 \<le> fd then {fd} else {})"

definition owns :: "('w \<Rightarrow> int set) \<Rightarrow> int set \<Rightarrow> int \<Rightarrow> 'w \<Rightarrow> bool" where
  "owns fds others fd w \<longleftrightarrow> fds w = others \<union> own fd \<and> own fd \<inter> others = {}"

lemma own_neg [simp]: "fd < 0 \<Longrightarrow> own fd = {}" "own (- 1) = {}"
  by (simp_all add: own_def)

lemma owns_neg: "fd < 0 \<Longrightarrow> owns fds B fd w = owns fds B (- 1) w"
  by (simp add: owns_def)

lemma owns_other [simp]:
  "posix_fds os fds \<Longrightarrow> \<not> opens c \<Longrightarrow> \<not> closes c \<Longrightarrow> owns fds B fd (snd (os c w)) = owns fds B fd w"
  using posix_other [of os fds c w] by (cases "os c w") (simp add: owns_def)

lemma owns_all [simp]:
  "posix_fds os fds \<Longrightarrow> list_all (\<lambda>c. \<not> opens c \<and> \<not> closes c) cs \<Longrightarrow>
   owns fds B fd (snd (sys_all os cs w)) = owns fds B fd w"
  by (induction cs arbitrary: w) (simp_all add: Let_def split_beta)

lemma owns_run:
  "posix_fds os fds \<Longrightarrow> sys_all os cs w = (ok, w') \<Longrightarrow> list_all (\<lambda>c. \<not> opens c \<and> \<not> closes c) cs \<Longrightarrow>
   owns fds B fd w' = owns fds B fd w"
  using owns_all [of os fds cs B fd w] by simp

lemma owns_socket [simp]:
  assumes "posix_fds os fds" "owns fds B (- 1) w"
  shows "owns fds B (rc (fst (os (Socket a b c) w))) (snd (os (Socket a b c) w))"
  using posix_open [OF assms(1), of "Socket a b c" w] assms(2)
  by (cases "os (Socket a b c) w") (cases "rc (fst (os (Socket a b c) w)) < 0"; auto simp: owns_def own_def)

lemma owns_close [simp]:
  assumes "posix_fds os fds" "owns fds B (m_fd s) w"
  shows "owns fds B (- 1) (snd (SockBase_closeBase os s w))"
  using assms posix_close [OF assms(1), of "m_fd s" w]
  by (cases "os (Close (m_fd s)) w") (auto simp: SockBase_closeBase_def owns_def own_def)

lemma close_fd [simp]: "m_fd (fst (SockBase_closeBase os s w)) < 0"
  by (auto simp: SockBase_closeBase_def split_beta)

lemma SockBase_close_owns:
  "posix_fds os fds \<Longrightarrow> owns fds B (m_fd s) w \<Longrightarrow>
   owns fds B (m_fd (fst (SockBase_closeBase os s w))) (snd (SockBase_closeBase os s w))"
  by (simp add: owns_neg [OF close_fd])

locale descriptor_owner =
  fixes fd :: "'s \<Rightarrow> int"
    and init :: "'w os \<Rightarrow> 's \<Rightarrow> 'w \<Rightarrow> (bool \<times> 's \<times> 'w) option"
    and close :: "'w os \<Rightarrow> 's \<Rightarrow> 'w \<Rightarrow> 's \<times> 'w"
  assumes init_owns: "posix_fds os fds \<Longrightarrow> owns fds B (fd s) w \<Longrightarrow> init os s w = Some (r, s', w') \<Longrightarrow>
      owns fds B (fd s') w'"
    and close_owns: "posix_fds os fds \<Longrightarrow> owns fds B (fd s) w \<Longrightarrow> owns fds B (fd (fst (close os s w))) (snd (close os s w))"
    and close_none: "fd (fst (close os s w)) < 0"
begin

lemma init_close_frees:
  assumes "posix_fds os fds" "owns fds B (fd s) w" "init os s w = Some (r, s1, w1)"
  shows "fds (snd (close os s1 w1)) = B"
  using close_owns [OF assms(1) init_owns [OF assms(1,2,3)]] close_none [of os s1 w1] by (simp add: owns_def)

end

interpretation unix_fd: descriptor_owner m_fd "\<lambda>os s w. Some (SockUnix_initBase os s w)" SockUnix_closeBase
proof
  fix os :: "'w os" and fds B and s s' :: SockUnix and w r w'
  assume p: "posix_fds os fds" "owns fds B (m_fd s) w"
  show "owns fds B (m_fd (fst (SockUnix_closeBase os s w))) (snd (SockUnix_closeBase os s w))"
    using p by (simp add: SockUnix_closeBase_def Let_def split_beta SockBase_close_owns)
  assume "Some (SockUnix_initBase os s w) = Some (r, s', w')"
  then have "m_fd s' = m_fd (fst (snd (SockUnix_initBase os s w)))" "w' = snd (snd (SockUnix_initBase os s w))" by simp_all
  then show "owns fds B (m_fd s') w'" using p by (simp add: SockUnix_initBase_def Let_def split_beta)
qed (simp add: SockUnix_closeBase_def Let_def split_beta)

lemma SockIp_init_owns:
  assumes p: "posix_fds os fds" "owns fds B (m_fd s) w" "SockIp_initBase addr init2 pton os s w = Some (r, s', w')"
    and i2: "\<And>s w x. owns fds B (m_fd s) w \<Longrightarrow> init2 os s w = Some x \<Longrightarrow> owns fds B (m_fd (fst (snd x))) (snd (snd x))"
  shows "owns fds B (m_fd s') w'"
proof -
  obtain s1 w1 where c: "SockBase_closeBase os s w = (s1, w1)" by fastforce
  obtain f w2 where f: "os (Socket (AF_IP (m_domain s1)) SOCK_DGRAM [0, 0]) w1 = (f, w2)" by fastforce
  let ?s2 = "s1\<lparr>m_fd := rc f\<rparr>"
  obtain ok w3 where a: "sys_all os [Setsockopt (rc f) (SO_REUSEADDR 1), Bind (rc f) (addr ?s2),
      Setsockopt (rc f) (SO_BINDTODEVICE (m_ifName s1))] w2 = (ok, w3)" by fastforce
  obtain b mc where m: "fromIp_domain pton (m_domain s1) (m_mcast_str s1) (m_mcast s1) = (b, mc)" by fastforce
  have o2: "owns fds B (rc f) w2" using owns_socket [OF p(1) owns_close [OF p(1,2)]] c f by (metis fst_conv snd_conv)
  then have o3: "owns fds B (rc f) w3" using owns_run [OF p(1) a] by simp
  show ?thesis
    using p(2,3) o2 o3 i2 [of "?s2\<lparr>m_mcast := mc\<rparr>" w3]
    by (auto simp: SockIp_initBase_def Let_def c f a m simp del: sys_all.simps split: if_splits option.splits bool.splits)
qed

lemma SockIp4_init2_owns:
  "posix_fds os fds \<Longrightarrow> owns fds B (m_fd s) w \<Longrightarrow> SockIp4_init2 os s w = Some x \<Longrightarrow>
   owns fds B (m_fd (fst (snd x))) (snd (snd x))"
  by (auto simp: SockIp4_init2_def split_beta simp del: sys_all.simps split: bool.splits option.splits)

lemma SockIp6_init2_owns:
  "posix_fds os fds \<Longrightarrow> owns fds B (m_fd s) w \<Longrightarrow> SockIp6_init2 os s w = Some x \<Longrightarrow>
   owns fds B (m_fd (fst (snd x))) (snd (snd x))"
  by (auto simp: SockIp6_init2_def Let_def split_beta simp del: sys_all.simps split: if_splits bool.splits option.splits)

interpretation ip4_fd: descriptor_owner m_fd "SockIp_initBase ip4_addr SockIp4_init2 pton" SockBase_closeBase for pton
  by unfold_locales (rule SockIp_init_owns, assumption+, erule SockIp4_init2_owns, assumption+,
      simp_all add: SockBase_close_owns)

interpretation ip6_fd: descriptor_owner m_fd "SockIp_initBase ip6_addr SockIp6_init2 pton" SockBase_closeBase for pton
  by unfold_locales (rule SockIp_init_owns, assumption+, erule SockIp6_init2_owns, assumption+,
      simp_all add: SockBase_close_owns)

section \<open>The calls on a socket\<close>

text \<open>The calls that only change the settings of the object.\<close>

inductive setting :: "Sock \<Rightarrow> Sock \<Rightarrow> bool" where
  peer: "setPeerInternal str s = (r, s') \<Longrightarrow> setting (SkUnix s) (SkUnix s')"
| peer_cfg: "setPeerAddress_cfg cfg sec s = Some (r, s') \<Longrightarrow> setting (SkUnix s) (SkUnix s')"
| self: "setSelfAddress str s = (r, s') \<Longrightarrow> setting (SkUnix s) (SkUnix s')"
| if4: "setIf ifObj s = (r, s') \<Longrightarrow> setting (SkIp4 s) (SkIp4 s')"
| if6: "setIf ifObj s = (r, s') \<Longrightarrow> setting (SkIp6 s) (SkIp6 s')"
| ifr: "setIf ifObj s = (r, s') \<Longrightarrow> setting (SkRaw s) (SkRaw s')"
| all4: "setAll SockIp4_setAllBase ifObj cfg sec s = Some (r, s') \<Longrightarrow> setting (SkIp4 s) (SkIp4 s')"
| all6: "setAll SockIp6_setAllBase ifObj cfg sec s = Some (r, s') \<Longrightarrow> setting (SkIp6 s) (SkIp6 s')"
| allr: "setAll SockRaw_setAllBase ifObj cfg sec s = Some (r, s') \<Longrightarrow> setting (SkRaw s) (SkRaw s')"
| ttl4: "setUdpTtl v s = (r, s') \<Longrightarrow> setting (SkIp4 s) (SkIp4 s')"
| ttl6: "setUdpTtl v s = (r, s') \<Longrightarrow> setting (SkIp6 s) (SkIp6 s')"
| scope: "setScope v s = (r, s') \<Longrightarrow> setting (SkIp6 s) (SkIp6 s')"
| mac_str: "setPtpDstMacStr str s = (r, s') \<Longrightarrow> setting (SkRaw s) (SkRaw s')"
| mac: "setPtpDstMac m s = (r, s') \<Longrightarrow> setting (SkRaw s) (SkRaw s')"
| prio: "setSocketPriority v s = (r, s') \<Longrightarrow> setting (SkRaw s) (SkRaw s')"

inductive sock_call :: "byte_order \<Rightarrow> (domain \<Rightarrow> string \<Rightarrow> byte list option) \<Rightarrow> 'w os \<Rightarrow> Sock \<times> 'w \<Rightarrow>
    Sock \<times> 'w \<Rightarrow> bool" for h pton os where
  init: "sk_init h pton os s w = Some (r, s', w') \<Longrightarrow> sock_call h pton os (s, w) (s', w')"
| close: "sk_close os s w = (s', w') \<Longrightarrow> sock_call h pton os (s, w) (s', w')"
| send: "sk_send os msg s w = (r, w') \<Longrightarrow> sock_call h pton os (s, w) (s, w')"
| rcv: "sk_rcv os buf n block s w = (cnt, buf', s', w') \<Longrightarrow> sock_call h pton os (s, w) (s', w')"
| tpoll: "sk_tpoll os t s w = Some (r, t', w') \<Longrightarrow> sock_call h pton os (s, w) (s, w')"
| sendTo: "sendTo os msg addr s w = (r, w') \<Longrightarrow> sock_call h pton os (SkUnix s, w) (SkUnix s, w')"
| rcvFrom: "rcvFrom_last os buf n block s w = (cnt, buf', s', w') \<Longrightarrow>
    sock_call h pton os (SkUnix s, w) (SkUnix s', w')"
| def_self: "setDefSelfAddress os rootBase useDef s w = Some (r, s', w') \<Longrightarrow>
    sock_call h pton os (SkUnix s, w) (SkUnix s', w')"
| name4: "setIfUsingName os nm s w = (r, s', w') \<Longrightarrow> sock_call h pton os (SkIp4 s, w) (SkIp4 s', w')"
| name6: "setIfUsingName os nm s w = (r, s', w') \<Longrightarrow> sock_call h pton os (SkIp6 s, w) (SkIp6 s', w')"
| namer: "setIfUsingName os nm s w = (r, s', w') \<Longrightarrow> sock_call h pton os (SkRaw s, w) (SkRaw s', w')"
| index4: "setIfUsingIndex os i s w = (r, s', w') \<Longrightarrow> sock_call h pton os (SkIp4 s, w) (SkIp4 s', w')"
| index6: "setIfUsingIndex os i s w = (r, s', w') \<Longrightarrow> sock_call h pton os (SkIp6 s, w) (SkIp6 s', w')"
| indexr: "setIfUsingIndex os i s w = (r, s', w') \<Longrightarrow> sock_call h pton os (SkRaw s, w) (SkRaw s', w')"
| setting: "setting s s' \<Longrightarrow> sock_call h pton os (s, w) (s', w)"

fun is_raw :: "Sock \<Rightarrow> bool" where
  "is_raw (SkRaw s) = True"
| "is_raw _ = False"

lemmas setter_defs = setPeerInternal_def setPeerAddress_cfg_def setSelfAddress_def setIf_def setInt_def setAll_def
  SockIp4_setAllBase_def SockIp6_setAllBase_def SockRaw_setAllBase_def setUdpTtl_def setUdpTtl_cfg_def
  setScope_def setScope_cfg_def setPtpDstMacStr_def setPtpDstMac_def setPtpDstMac_cfg_def
  setSocketPriority_def setSocketPriority_cfg_def

lemma setting_keeps: "setting s s' \<Longrightarrow> sk_fd s' = sk_fd s \<and> is_raw s' = is_raw s \<and> sk_isInit s' = sk_isInit s"
  by (induction rule: setting.induct)
    (auto simp: setter_defs Let_def split: if_splits prod.splits bool.splits option.splits)

lemma owns_if [simp]:
  assumes "posix_fds os fds"
  shows "owns fds B fd (snd (snd (initUsingName os nm s w))) = owns fds B fd w"
    "owns fds B fd (snd (snd (initUsingIndex os i s w))) = owns fds B fd w"
  using initUsing_fds [OF assms] by (simp_all add: owns_def)

lemma owns_tpoll: "posix_fds os fds \<Longrightarrow> tpoll os t s w = Some (r, t', w') \<Longrightarrow> owns fds B fd w' = owns fds B fd w"
  by (auto simp: tpoll_def poll_def Let_def split_beta split: if_splits option.splits)

lemma owns_home:
  "posix_fds os fds \<Longrightarrow> setDefSelfAddress os rb ud s w = Some (r, s', w') \<Longrightarrow>
   owns fds B fd w' = owns fds B fd w \<and> m_fd s' = m_fd s \<and> m_isInit s' = m_isInit s"
  by (auto simp: setDefSelfAddress_def getHomeDir_def setSelfAddress_def Let_def split_beta
      split: if_splits option.splits)

lemma sock_call_owns:
  assumes "sock_call h pton os c c'" and p: "posix_fds os fds" and "\<not> is_raw (fst c)" "owns fds B (sk_fd (fst c)) (snd c)"
  shows "\<not> is_raw (fst c') \<and> owns fds B (sk_fd (fst c')) (snd c')"
  using assms(1,3,4)
proof cases
  case (init s w r s' w')
  then show ?thesis
    using assms(3,4) unix_fd.init_owns [OF p] ip4_fd.init_owns [OF p] ip6_fd.init_owns [OF p]
    by (cases s) (auto simp: Let_def split: prod.splits)
next
  case (close s w s' w')
  then show ?thesis
    using assms(3,4) unix_fd.close_owns [OF p] ip4_fd.close_owns [OF p] ip6_fd.close_owns [OF p]
    by (cases s) (auto simp: Let_def split_beta)
next
  case (send msg s w r w')
  then show ?thesis
    using assms(3,4) p
    by (cases s) (auto simp: SockUnix_sendBase_def sendAny_def SockIp_sendBase_def Let_def split_beta split: if_splits)
next
  case (rcv buf n block s w cnt buf' s' w')
  then show ?thesis
    using assms(3,4) p
    by (cases s) (auto simp: SockUnix_rcvBase_def rcvFrom_def SockIp_rcvBase_def Let_def split_beta split: if_splits)
next
  case (tpoll t s w r t' w')
  then show ?thesis using assms(3,4) by (cases s) (auto simp: owns_tpoll [OF p])
next
  case (sendTo msg addr s w r w')
  then show ?thesis using assms(4) p by (auto simp: sendTo_def sendAny_def Let_def split_beta split: if_splits)
next
  case (rcvFrom buf n block s w cnt buf' s' w')
  then show ?thesis
    using assms(4) p by (auto simp: rcvFrom_last_def rcvFrom_def Let_def split_beta split: if_splits)
next
  case (def_self rootBase useDef s w r s' w')
  then show ?thesis using assms(4) owns_home [OF p] by auto
next
  case (setting s s' w)
  then show ?thesis using assms(3,4) setting_keeps by auto
qed (use p in \<open>auto simp: setIfUsingName_def setIfUsingIndex_def setInt_def Let_def split_beta split: if_splits\<close>)

lemma sock_reach_owns:
  assumes "(sock_call h pton os)\<^sup>*\<^sup>* c c'" "posix_fds os fds" "\<not> is_raw (fst c)" "owns fds B (sk_fd (fst c)) (snd c)"
  shows "\<not> is_raw (fst c') \<and> owns fds B (sk_fd (fst c')) (snd c')"
  using assms(1,3,4) by (induction rule: rtranclp_induct) (auto dest: sock_call_owns [OF _ assms(2)])

lemma sk_close_frees:
  assumes "posix_fds os fds" "owns fds B (sk_fd s) w"
  shows "fds (snd (sk_close os s w)) = B" "sk_fd (fst (sk_close os s w)) < 0"
proof -
  show n: "sk_fd (fst (sk_close os s w)) < 0"
    by (cases s) (auto simp: SockUnix_closeBase_def Let_def split_beta)
  have "owns fds B (sk_fd (fst (sk_close os s w))) (snd (sk_close os s w))"
    using assms unix_fd.close_owns [OF assms(1)]
    by (cases s) (auto simp: Let_def split_beta SockBase_close_owns)
  with n show "fds (snd (sk_close os s w)) = B" by (simp add: owns_def)
qed

section \<open>After a close\<close>

fun is_unix :: "Sock \<Rightarrow> bool" where
  "is_unix (SkUnix s) = True"
| "is_unix _ = False"

definition dead :: "Sock \<Rightarrow> bool" where
  "dead s \<longleftrightarrow> \<not> is_unix s \<and> sk_isInit s \<and> sk_fd s < 0"

lemma setting_unix: "setting s s' \<Longrightarrow> is_unix s' = is_unix s"
  by (induction rule: setting.induct) simp_all

lemma dead_call:
  assumes "sock_call h pton os c c'" "dead (fst c)"
  shows "dead (fst c')"
  using assms
proof cases
  case (init s w r s' w')
  then show ?thesis using assms(2)
    by (cases s) (auto simp: dead_def SockIp_initBase_def SockRaw_initBase_def)
next
  case (close s w s' w')
  then show ?thesis using assms(2)
    by (cases s) (auto simp: dead_def SockBase_closeBase_def Let_def split_beta)
next
  case (rcv buf n block s w cnt buf' s' w')
  then show ?thesis using assms(2)
    by (cases s) (auto simp: dead_def SockRaw_rcvBase_def Let_def split_beta split: if_splits)
next
  case (setting s s' w)
  then show ?thesis using assms(2) setting_keeps setting_unix by (auto simp: dead_def)
qed (auto simp: dead_def setIfUsingName_def setIfUsingIndex_def setInt_def Let_def split_beta split: if_splits)

lemma dead_reach: "(sock_call h pton os)\<^sup>*\<^sup>* c c' \<Longrightarrow> dead (fst c) \<Longrightarrow> dead (fst c')"
  by (induction rule: rtranclp_induct) (auto dest: dead_call)

lemma unix_init_inv:
  assumes "sock_call h pton os c c'" "is_unix (fst c)" "sk_isInit (fst c) \<longrightarrow> 0 \<le> sk_fd (fst c)"
  shows "is_unix (fst c') \<and> (sk_isInit (fst c') \<longrightarrow> 0 \<le> sk_fd (fst c'))"
  using assms
proof cases
  case (init s w r s' w')
  then show ?thesis using assms(2,3)
    by (cases s) (auto simp: SockUnix_initBase_def Let_def split_beta SockBase_closeBase_def split: if_splits)
next
  case (close s w s' w')
  then show ?thesis using assms(2,3)
    by (cases s) (auto simp: SockUnix_closeBase_def SockBase_closeBase_def Let_def split_beta split: if_splits)
next
  case (rcv buf n block s w cnt buf' s' w')
  then show ?thesis using assms(2,3) by (cases s) (auto simp: Let_def split_beta)
next
  case (setting s s' w)
  then show ?thesis using assms(2,3) setting_keeps setting_unix by auto
next
  case (def_self rootBase useDef s w r s' w')
  then show ?thesis using assms(3)
    by (auto simp: setDefSelfAddress_def getHomeDir_def setSelfAddress_def Let_def split_beta
        split: if_splits option.splits)
qed (auto simp: rcvFrom_last_def Let_def split_beta)

lemma unix_reach_inv:
  "(sock_call h pton os)\<^sup>*\<^sup>* c c' \<Longrightarrow> is_unix (fst c) \<Longrightarrow> sk_isInit (fst c) \<longrightarrow> 0 \<le> sk_fd (fst c) \<Longrightarrow>
   is_unix (fst c') \<and> (sk_isInit (fst c') \<longrightarrow> 0 \<le> sk_fd (fst c'))"
  by (induction rule: rtranclp_induct) (blast dest: unix_init_inv)+

section \<open>Time\<close>

definition valid_time :: "int \<times> int \<Rightarrow> bool" where
  "valid_time t \<longleftrightarrow> 0 \<le> snd t \<and> snd t < 1000000"

definition usecs :: "int \<times> int \<Rightarrow> int" where
  "usecs t = fst t * 1000000 + snd t"

lemma timersub_usecs:
  assumes "valid_time a" "valid_time b"
  shows "valid_time (timersub a b)" "usecs (timersub a b) = usecs a - usecs b"
  using assms by (auto simp: valid_time_def usecs_def timersub_def Let_def)

lemma passed_ms: "valid_time t \<Longrightarrow> fst t * 1000 + snd t div 1000 = usecs t div 1000"
  by (simp add: usecs_def valid_time_def)

lemma tpoll_left:
  assumes "0 < t" and "os Gettimeofday w = (r1, w1)" and "poll os t s w1 = Some (b, w2)"
    and "os Gettimeofday w2 = (r2, w3)" and "valid_time (tv r1)" and "valid_time (tv r2)"
  shows "tpoll os t s w = Some (b, let pass = word_of_int ((usecs (tv r2) - usecs (tv r1)) div 1000)
      in if t > pass then t - pass else 0, w3)"
  using assms timersub_usecs [OF assms(6,5)] passed_ms [OF timersub_usecs(1) [OF assms(6,5)]]
  by (simp add: tpoll_def Let_def del: of_int_add of_int_mult)

lemma word_left:
  assumes "0 \<le> e" "e < 2 ^ 64"
  shows "uint (if (t :: u64) > word_of_int e then t - word_of_int e else 0) = max 0 (uint t - e)"
proof -
  have "uint (word_of_int e :: u64) = e" using assms by (simp add: uint_word_of_int_eq take_bit_int_eq_self_iff)
  then show ?thesis by (auto simp: word_less_def uint_sub_if' max_def)
qed

lemma word_past:
  assumes "- (2 ^ 63) \<le> e" "e < 0" "uint (t :: u64) \<le> 2 ^ 63"
  shows "\<not> t > word_of_int e"
proof -
  have "(e + 2 ^ 64) mod 2 ^ 64 = e + 2 ^ 64" using assms(1,2) by (intro mod_pos_pos_trivial) simp_all
  then have "uint (word_of_int e :: u64) = e + 2 ^ 64" by (simp add: uint_word_of_int_eq take_bit_eq_mod)
  then show ?thesis using assms by (simp add: word_less_def)
qed

section \<open>Raw sockets\<close>

lemma sys_all_fds:
  "posix_fds os fds \<Longrightarrow> list_all (\<lambda>c. \<not> opens c \<and> \<not> closes c) cs \<Longrightarrow> fds (snd (sys_all os cs w)) = fds w"
  using posix_all [of os fds cs w] by (cases "sys_all os cs w") (auto simp: list_all_iff)

lemma raw_init_fds:
  assumes "posix_fds os fds" "SockRaw_initBase h os s w = Some (r, s', w')" "\<not> m_isInit s" "m_have_if s"
    "m_ptp_dst_mac s \<noteq> []" "0 \<le> m_socket_priority s"
  shows "fds w \<subseteq> fds w' \<and> m_fd s' \<notin> fds w \<or> fds w' = fds w \<and> m_fd s' < 0"
proof -
  obtain f w1 where f: "os (Socket AF_PACKET SOCK_RAW (bytes_be 2 ETH_P_ALL)) w = (f, w1)" by fastforce
  have "fds w1 = (if rc f < 0 then fds w else insert (rc f) (fds w))" "\<not> rc f < 0 \<Longrightarrow> rc f \<notin> fds w"
    using posix_open [OF assms(1) f] by auto
  then show ?thesis
    using assms(2-6) sys_all_fds [OF assms(1)]
    by (auto simp: SockRaw_initBase_def raw_tx_def f Let_def split_beta simp del: sys_all.simps
        split: if_splits bool.splits option.splits bind_splits)
qed

section \<open>A small system\<close>

text \<open>
  A system for the witnesses: the world is the list of open descriptors, a new one is larger than
  all of them, the time passes by 3.5 milliseconds with each question, and every other call
  succeeds.
\<close>

definition ok_ret :: "int \<Rightarrow> sysret" where
  "ok_ret n = \<lparr>rc = n, out = [], name = [], num = 1, ready = True, tv = (0, 0)\<rparr>"

fun small_os :: "(int list \<times> int) os" where
  "small_os (Socket _ _ _) (w, t) = (ok_ret (foldr max w 2 + 1), (foldr max w 2 + 1) # w, t)"
| "small_os (Open _) (w, t) = (ok_ret (foldr max w 2 + 1), (foldr max w 2 + 1) # w, t)"
| "small_os (Close fd) (w, t) = (ok_ret 0, removeAll fd w, t)"
| "small_os (Bind _ (Addr_ll _)) (w, t) = (ok_ret (- 1), w, t)"
| "small_os (Sendto _ msg _) (w, t) = (ok_ret (int (length msg)), w, t)"
| "small_os (Select _ _) (w, t) = (ok_ret 1, w, t)"
| "small_os Gettimeofday (w, t) = ((ok_ret 0)\<lparr>tv := (t div 1000000, t mod 1000000)\<rparr>, w, t + 3500)"
| "small_os (Recvmsg _ _ _) (w, t) = ((ok_ret 17)\<lparr>out := replicate 14 0xff @ [1, 2, 3]\<rparr>, w, t)"
| "small_os _ (w, t) = (ok_ret 0, w, t)"

lemma foldr_max: "x \<in> set w \<Longrightarrow> x \<le> foldr max w (k :: int)"
  by (induction w) auto

lemma small_posix: "posix_fds small_os (\<lambda>w. set (fst w))"
proof -
  have fresh: "foldr max w 2 + 1 \<notin> set w" for w :: "int list" using foldr_max [of _ w 2] by fastforce
  have pos: "2 \<le> foldr max w (2 :: int)" for w by (induction w) auto
  show ?thesis
    unfolding posix_fds_def
  proof (intro allI impI)
    fix c w r w'
    assume "small_os c w = (r, w')"
    then show "(opens c \<longrightarrow> (if rc r < 0 then set (fst w') = set (fst w)
          else rc r \<notin> set (fst w) \<and> set (fst w') = insert (rc r) (set (fst w)))) \<and>
        (\<forall>fd. c = Close fd \<longrightarrow> set (fst w') = set (fst w) - {fd}) \<and>
        (\<not> opens c \<and> \<not> closes c \<longrightarrow> set (fst w') = set (fst w))"
      using fresh pos [of "fst w"] by (cases "(c, w)" rule: small_os.cases) (auto simp: ok_ret_def)
  qed
qed

section \<open>Properties\<close>

text \<open>
  Property C37. Whatever sequence of calls is made on a Unix or internet socket, the only descriptor
  it adds to those open at the start is its own, \<^verbatim>\<open>close\<close> gives exactly that one back, and a Unix
  socket that says it is initialised has it open.
\<close>

theorem socket_descriptors:
  assumes "posix_fds os fds" and "\<not> is_raw s0" and "sk_fd s0 < 0" and "\<not> sk_isInit s0"
    and "(sock_call h inet_pton os)\<^sup>*\<^sup>* (s0, w0) (s, w)"
  shows "fds w = fds w0 \<union> own (sk_fd s) \<and> own (sk_fd s) \<inter> fds w0 = {} \<and>
    fds (snd (sk_close os s w)) = fds w0 \<and> (is_unix s0 \<and> sk_isInit s \<longrightarrow> sk_fd s \<in> fds w)"
proof -
  have "owns fds (fds w0) (sk_fd s0) w0" using assms(3) by (simp add: owns_def)
  then have o: "owns fds (fds w0) (sk_fd s) w" using sock_reach_owns [OF assms(5,1)] assms(2) by simp
  moreover have "is_unix s0 \<Longrightarrow> sk_isInit s \<Longrightarrow> 0 \<le> sk_fd s"
    using unix_reach_inv [OF assms(5)] assms(4) by simp
  ultimately show ?thesis using sk_close_frees(1) [OF assms(1) o] by (auto simp: owns_def own_def)
qed

theorem socket_descriptors_witness:
  "sk_init LITTLE (\<lambda>_ _. None) small_os (SkUnix (new_SockUnix\<lparr>m_me := ''/tmp/me''\<rparr>)) ([1, 0], 7) =
     Some (True, SkUnix (new_SockUnix\<lparr>m_me := ''/tmp/me'', m_fd := 3, m_isInit := True\<rparr>), [3, 1, 0], 7) \<and>
   set (fst (snd (sk_close small_os (SkUnix (new_SockUnix\<lparr>m_me := ''/tmp/me'', m_fd := 3, m_isInit := True\<rparr>))
     ([3, 1, 0], 7)))) = {1, 0}"
proof -
  have i: "sk_init LITTLE (\<lambda>_ _. None) small_os (SkUnix (new_SockUnix\<lparr>m_me := ''/tmp/me''\<rparr>)) ([1, 0], 7) =
     Some (True, SkUnix (new_SockUnix\<lparr>m_me := ''/tmp/me'', m_fd := 3, m_isInit := True\<rparr>), [3, 1, 0], 7)"
    by code_simp
  then have c: "(sock_call LITTLE (\<lambda>_ _. None) small_os)\<^sup>*\<^sup>* (SkUnix (new_SockUnix\<lparr>m_me := ''/tmp/me''\<rparr>), [1, 0], 7)
      (SkUnix (new_SockUnix\<lparr>m_me := ''/tmp/me'', m_fd := 3, m_isInit := True\<rparr>), [3, 1, 0], 7)"
    by (blast intro: sock_call.init)
  with i show ?thesis
    using socket_descriptors [OF small_posix _ _ _ c]
    by (simp add: new_SockUnix_def insert_commute del: sk_close.simps sk_init.simps)
qed

text \<open>
  An internet or raw socket that was initialised and then closed stays marked as
  initialised without a descriptor whatever is called on it, and \<^verbatim>\<open>init\<close> refuses to open it again.
\<close>

lemma closed_socket_dead:
  assumes "\<not> is_unix s" and "sk_isInit s" and "(sock_call h inet_pton os)\<^sup>*\<^sup>* (sk_close os s w) (s', w')"
  shows "sk_isInit s' \<and> sk_fd s' < 0 \<and> sk_init h inet_pton os s' w' = Some (False, s', w')"
proof -
  have "dead (fst (sk_close os s w))"
    using assms(1,2) by (cases s) (auto simp: dead_def SockBase_closeBase_def Let_def split_beta)
  then have d: "dead s'" using dead_reach [OF assms(3)] by simp
  then have "sk_init h inet_pton os s' w' = Some (False, s', w')"
    by (cases s') (auto simp: dead_def SockIp_initBase_def SockRaw_initBase_def)
  with d show ?thesis by (simp add: dead_def)
qed

lemma closed_socket_dead_example:
  "sk_init BIG (\<lambda>_ _. None) small_os (fst (sk_close small_os (SkIp4 ((new_SockIp4 BIG 0)\<lparr>m_fd := 3, m_isInit := True\<rparr>)) ([3], 0)))
     ([], 0) = Some (False, SkIp4 ((new_SockIp4 BIG 0)\<lparr>m_isInit := True\<rparr>), ([], 0))"
proof -
  have "sk_close small_os (SkIp4 ((new_SockIp4 BIG 0)\<lparr>m_fd := 3, m_isInit := True\<rparr>)) ([3], 0) =
      (SkIp4 ((new_SockIp4 BIG 0)\<lparr>m_isInit := True\<rparr>), [], 0)"
    by (simp add: SockBase_closeBase_def new_SockIp4_def)
  then show ?thesis
    using closed_socket_dead [of "SkIp4 ((new_SockIp4 BIG 0)\<lparr>m_fd := 3, m_isInit := True\<rparr>)" BIG "\<lambda>_ _. None" small_os
        "([3], 0)" "SkIp4 ((new_SockIp4 BIG 0)\<lparr>m_isInit := True\<rparr>)" "([], 0)"] by simp
qed

text \<open>
  Property C39. \<^verbatim>\<open>tpoll\<close> takes from the time limit the whole milliseconds that passed, not below
  zero; when the clock is set back meanwhile, the limit becomes zero.
\<close>

theorem tpoll_time:
  assumes "0 < t" and "os Gettimeofday w = (r1, w1)" and "poll os t s w1 = Some (b, w2)"
    and "os Gettimeofday w2 = (r2, w3)" and "valid_time (tv r1)" and "valid_time (tv r2)"
  shows "\<exists>t'. tpoll os t s w = Some (b, t', w3) \<and>
    (let e = (usecs (tv r2) - usecs (tv r1)) div 1000
     in (0 \<le> e \<and> e < 2 ^ 64 \<longrightarrow> uint t' = max 0 (uint t - e)) \<and>
        (e < 0 \<and> - (2 ^ 63) \<le> e \<and> uint t \<le> 2 ^ 63 \<longrightarrow> t' = 0))"
  using tpoll_left [OF assms] word_left word_past by (simp add: Let_def)

theorem tpoll_time_witness:
  "\<exists>t'. tpoll small_os 500 (new_SockUnix\<lparr>m_fd := 3\<rparr>) ([3], 999000) = Some (True, t', [3], 1006000) \<and> uint t' = 497"
proof -
  have p: "poll small_os 500 (new_SockUnix\<lparr>m_fd := 3\<rparr>) ([3], 1002500) = Some (True, [3], 1002500)"
    by (simp add: poll_def FD_SETSIZE_def Let_def ok_ret_def)
  show ?thesis
    using tpoll_time [of 500 small_os "([3], 999000)" "(ok_ret 0)\<lparr>tv := (0, 999000)\<rparr>" "([3], 1002500)"
        "new_SockUnix\<lparr>m_fd := 3\<rparr>" True "([3], 1002500)" "(ok_ret 0)\<lparr>tv := (1, 2500)\<rparr>" "([3], 1006000)", OF _ _ p]
    by (simp add: valid_time_def usecs_def ok_ret_def Let_def)
qed

text \<open>
  When \<^verbatim>\<open>init\<close> of a raw socket fails after it opened a descriptor and is tried again,
  the first descriptor stays open although the object no longer knows it.
\<close>

lemma raw_init_leaks:
  assumes "posix_fds os fds" and "SockRaw_initBase h os s w = Some (False, s1, w1)" and "0 \<le> m_fd s1"
    and "m_fd s1 \<in> fds w1" and "\<not> m_isInit s1" and "m_have_if s1" and "m_ptp_dst_mac s1 \<noteq> []"
    and "0 \<le> m_socket_priority s1" and "SockRaw_initBase h os s1 w1 = Some (r, s2, w2)"
  shows "m_fd s1 \<in> fds w2 \<and> m_fd s2 \<noteq> m_fd s1"
  using raw_init_fds [OF assms(1,9,5,6,7,8)] assms(3,4) by auto

definition raw_ready :: SockRaw where
  "raw_ready = (new_SockRaw 2 [])\<lparr>m_ifName := ''eth0'', m_mac := [2, 0, 0, 0, 0, 1], m_have_if := True,
     m_ptp_dst_mac := [1, 0x1b, 0x19, 0, 0, 0], m_socket_priority := 0\<rparr>"

definition raw_bound :: "int \<Rightarrow> SockRaw" where
  "raw_bound fd = raw_ready\<lparr>m_fd := fd, m_addr := (m_addr raw_ready)\<lparr>sll_ifindex := 2, sll_family := 17,
     sll_protocol := [0, 3]\<rparr>\<rparr>"

lemma raw_init_leaks_example:
  "SockRaw_initBase LITTLE small_os raw_ready ([], 0) = Some (False, raw_bound 3, [3], 0) \<and>
   SockRaw_initBase LITTLE small_os (raw_bound 3) ([3], 0) = Some (False, raw_bound 4, [4, 3], 0) \<and>
   m_fd (raw_bound 4) \<noteq> m_fd (raw_bound 3)"
proof -
  have i: "SockRaw_initBase LITTLE small_os raw_ready ([], 0) = Some (False, raw_bound 3, [3], 0)"
      "SockRaw_initBase LITTLE small_os (raw_bound 3) ([3], 0) = Some (False, raw_bound 4, [4, 3], 0)"
    by code_simp+
  then show ?thesis
    using raw_init_leaks [OF small_posix i(1) _ _ _ _ _ _ i(2)] by (simp add: raw_bound_def raw_ready_def new_SockRaw_def)
qed

text \<open>
  \<^verbatim>\<open>rcv\<close> of a raw socket stores the message behind the Ethernet header in the buffer
  and returns fourteen more than its length, so the caller takes fourteen octets after the message
  for a part of it.
\<close>

lemma raw_rcv_count:
  assumes "m_isInit s" and "os (Recvmsg (m_fd s) (14 + n) (\<not> block)) w = (r, w')" and "out r = hdr @ msg"
    and "length hdr = 14" and "rc r = int (length (out r))" and "length msg \<le> n"
  shows "\<exists>s'. SockRaw_rcvBase os buf n block s w = (int (length msg) + 14, msg @ drop (length msg) buf, s', w')"
  using assms by (simp add: SockRaw_rcvBase_def received_def sizeof_ethhdr_def Let_def)

lemma raw_rcv_count_example:
  "\<exists>s'. SockRaw_rcvBase small_os [9, 9, 9, 9, 9] 5 True (raw_ready\<lparr>m_fd := 3, m_isInit := True\<rparr>) ([3], 0) =
     (17, [1, 2, 3, 9, 9], s', ([3], 0))"
  using raw_rcv_count [of "raw_ready\<lparr>m_fd := 3, m_isInit := True\<rparr>" small_os 5 True "([3], 0)"
      "(ok_ret 17)\<lparr>out := replicate 14 0xff @ [1, 2, 3]\<rparr>" "([3], 0)" "replicate 14 0xff" "[1, 2, 3]" "[9, 9, 9, 9, 9]"]
  by (simp add: ok_ret_def)

end
