(* ===== verification/Cmd.thy ===== *)
theory Cmd
  imports Json Cfg
begin

text \<open>
  The command parser of the \<^verbatim>\<open>pmc\<close> tool, the second half of \<^verbatim>\<open>src/pmc_dump.cpp\<close>: the values
  of a \<^verbatim>\<open>SET\<close> or \<^verbatim>\<open>COMMAND\<close> line are read by \<^verbatim>\<open>parseKeysFunc\<close> into a map of keys, from
  which the function of the management id makes the TLV to send.

  The line lies in a memory block \<open>buf\<close>, a list of characters; a \<^verbatim>\<open>char *\<close> into it is a position.
  The functions write into the block as the source does, and \<^term>\<open>None\<close> is an access outside it.
  The map of keys is a list ordered by name, as the iteration over a \<^verbatim>\<open>std::map\<close> sees it.
\<close>

section \<open>Strings\<close>

definition toksep :: string where
  "toksep = [CHR '' '', CHR 0x09, CHR 0x0A, CHR 0x0D]"

definition toupper :: "char \<Rightarrow> char" where
  "toupper c = (let n = of_char c :: nat in if 97 \<le> n \<and> n \<le> 122 then char_of (n - 32) else c)"

definition strcaseeq :: "string \<Rightarrow> string \<Rightarrow> bool" where
  "strcaseeq a b \<longleftrightarrow> map toupper a = map toupper b"

fun strstr :: "string \<Rightarrow> string \<Rightarrow> bool" where
  "strstr [] t = (t = [])"
| "strstr (c # cs) t = (take (length t) (c # cs) = t \<or> strstr cs t)"

text \<open>
  \<^verbatim>\<open>strtok_r\<close> with the separators \<^verbatim>\<open>toksep\<close> from a position: the token, if any, the block with
  the token closed, and the position saved for the next call.
\<close>

definition strtok_r :: "string \<Rightarrow> nat \<Rightarrow> (nat option \<times> string \<times> nat) option" where
  "strtok_r buf p =
     (case cstr_at buf p of
        None \<Rightarrow> None
      | Some s \<Rightarrow>
          let s1 = dropWhile (\<lambda>c. c \<in> set toksep) s;
              q = p + (length s - length s1);
              e = q + length (takeWhile (\<lambda>c. c \<notin> set toksep) s1)
          in if s1 = [] then Some (None, buf, q)
             else if e = p + length s then Some (Some q, buf, e)
             else Some (Some q, buf[e := NUL], e + 1))"

section \<open>Quoted strings\<close>

text \<open>
  The first loop of \<^verbatim>\<open>parse_quote\<close>. \<^verbatim>\<open>strchr\<close> finds the terminating zero of \<^verbatim>\<open>toksep\<close>
  too, so a zero does not end the loop.
\<close>

function skip_seps :: "string \<Rightarrow> nat \<Rightarrow> nat option" where
  "skip_seps buf cur =
     (if cur < length buf
      then if buf ! cur \<in> set toksep \<or> buf ! cur = NUL then skip_seps buf (cur + 1) else Some cur
      else None)"
  by pat_completeness auto
termination by (relation "measure (\<lambda>(buf, cur). length buf - cur)") auto

declare skip_seps.simps [simp del]

text \<open>The closing quote that has no backslash before it; \<^term>\<open>Some None\<close> when the string ends first.\<close>

function find_close :: "string \<Rightarrow> nat \<Rightarrow> char \<Rightarrow> nat option option" where
  "find_close buf cur c =
     (if cur < length buf then
        if buf ! cur = c then
          if buf ! (cur - 1) = CHR 0x5C then find_close buf (cur + 1) c else Some (Some cur)
        else if buf ! cur = NUL then Some None
        else find_close buf (cur + 1) c
      else None)"
  by pat_completeness auto
termination by (relation "measure (\<lambda>(buf, cur, c). length buf - cur)") auto

declare find_close.simps [simp del]

definition escape :: "char \<Rightarrow> string" where
  "escape d =
     (if d = CHR ''t'' then [CHR 0x09]
      else if d = CHR ''n'' then [CHR 0x0A]
      else if d = CHR ''r'' then [CHR 0x0D]
      else if d = CHR ''a'' then [CHR 0x07]
      else if d = CHR ''b'' then [CHR 0x08]
      else if d = CHR ''e'' then [CHR 0x1B]
      else if d = CHR ''f'' then [CHR 0x0C]
      else if d = CHR ''v'' then [CHR 0x0B]
      else if d \<in> {CHR '' '', CHR 0x22, CHR 0x3F, CHR 0x27, CHR 0x5C} then [d]
      else [CHR 0x5C, d])"

text \<open>
  The loop over the escapes writes at or before the place it reads, so its result is a function of
  the text; after a backslash at the very end it would run past the terminating zero.
\<close>

fun unescape :: "string \<Rightarrow> string option" where
  "unescape [] = Some []"
| "unescape (c # cs) =
     (if c = CHR 0x5C then
        (case cs of [] \<Rightarrow> None | d # ds \<Rightarrow> map_option (\<lambda>u. escape d @ u) (unescape ds))
      else map_option (Cons c) (unescape cs))"

text \<open>Where to go on: after the last quoted token, or where \<^verbatim>\<open>strtok_r\<close> stopped.\<close>

definition pos :: "nat \<Rightarrow> nat option \<Rightarrow> nat" where
  "pos save lastStr = (case lastStr of Some p \<Rightarrow> p | None \<Rightarrow> save)"

text \<open>
  What the next token is: none, an error, or its position; \<open>Plain\<close> leaves it to \<^verbatim>\<open>strtok_r\<close>. A
  quoted token comes with the position after its closing quote, \<^verbatim>\<open>lastStr\<close>.
\<close>

datatype quote = NoMore | Plain | Quoted nat nat | Unclosed

definition parse_quote :: "string \<Rightarrow> nat \<Rightarrow> nat option \<Rightarrow> (quote \<times> string) option" where
  "parse_quote buf save lastStr = do {
     cur \<leftarrow> skip_seps buf (pos save lastStr);
     if buf ! cur = NUL then Some (NoMore, buf)
     else if buf ! cur \<noteq> CHR 0x22 \<and> buf ! cur \<noteq> CHR 0x27 then Some (Plain, buf)
     else do {
       let start = cur + 1;
       close \<leftarrow> find_close buf start (buf ! cur);
       case close of
         None \<Rightarrow> Some (Unclosed, buf)
       | Some p \<Rightarrow> do {
           u \<leftarrow> unescape (take (p - start) (drop start buf));
           Some (Quoted start (p + 1), patch start (u @ [NUL]) (buf[p := NUL]))
         }
     }
   }"

section \<open>Keys\<close>

datatype handler = NoHandle | HTimeSource | HPortState

datatype cptr = NullPtr | Lit string | At nat

record val_key_t =
  k_can_str :: bool
  k_base :: nat
  k_def :: int
  k_max :: int
  k_min :: int
  k_req :: bool
  k_flag :: bool
  k_num :: int
  k_got_num :: bool
  k_str_val :: cptr
  k_handle :: handler

definition new_val_key :: val_key_t where
  "new_val_key = \<lparr>k_can_str = False, k_base = 0, k_def = 0, k_max = 0, k_min = 0, k_req = False,
     k_flag = False, k_num = 0, k_got_num = False, k_str_val = NullPtr, k_handle = NoHandle\<rparr>"

type_synonym keys = "(string \<times> val_key_t) list"

fun str_less :: "string \<Rightarrow> string \<Rightarrow> bool" where
  "str_less _ [] = False"
| "str_less [] (d # ds) = True"
| "str_less (c # cs) (d # ds) =
     (if c = d then str_less cs ds else (of_char c :: nat) < of_char d)"

text \<open>An assignment \<^verbatim>\<open>keys[n].member = value\<close>, which adds the key when it is not there.\<close>

fun kset :: "string \<Rightarrow> (val_key_t \<Rightarrow> val_key_t) \<Rightarrow> keys \<Rightarrow> keys" where
  "kset n f [] = [(n, f new_val_key)]"
| "kset n f ((m, k) # ks) =
     (if n = m then (m, f k) # ks
      else if str_less n m then (n, f new_val_key) # (m, k) # ks
      else (m, k) # kset n f ks)"

definition kget :: "string \<Rightarrow> keys \<Rightarrow> val_key_t" where
  "kget n ks = (case map_of ks n of None \<Rightarrow> new_val_key | Some k \<Rightarrow> k)"

text \<open>An assignment through a reference to a key that is in the map.\<close>

definition kput :: "string \<Rightarrow> val_key_t \<Rightarrow> keys \<Rightarrow> keys" where
  "kput n k ks = map (\<lambda>(m, q). (m, if m = n then k else q)) ks"

abbreviation knum :: "string \<Rightarrow> keys \<Rightarrow> int" where "knum n ks \<equiv> k_num (kget n ks)"

definition kstr :: "string \<Rightarrow> string \<Rightarrow> keys \<Rightarrow> string option" where
  "kstr buf n ks =
     (case k_str_val (kget n ks) of NullPtr \<Rightarrow> None | Lit s \<Rightarrow> Some s | At p \<Rightarrow> cstr_at buf p)"

section \<open>Values with names\<close>

text \<open>Both return whether the value is wrong; \<^verbatim>\<open>getTimeSource\<close> writes the text in upper case.\<close>

definition time_source :: "string \<Rightarrow> int option" where
  "time_source tkn =
     (if tkn = ''GNSS'' then Some 0x20
      else if tkn = ''GPS'' then Some 0x20
      else if tkn = ''PTP'' then Some 0x40
      else if tkn = ''NTP'' then Some 0x50
      else if strstr tkn ''ATOMIC'' then Some 0x10
      else if strstr tkn ''RADIO'' then Some 0x30
      else if strstr tkn ''TERR'' then Some 0x30
      else if strstr tkn ''SERIAL'' then Some 0x39
      else if strstr tkn ''OSCILL'' then Some 0xa0
      else if strstr tkn ''INTERN'' then Some 0xa0
      else if strstr tkn ''OTHER'' then Some 0x90
      else if strstr tkn ''HAND'' then Some 0x60
      else let (n, end) = strtol 16 tkn in if end \<noteq> [] \<or> n < 0 \<or> n > 255 then None else Some n)"

definition getTimeSource :: "string \<Rightarrow> nat \<Rightarrow> val_key_t \<Rightarrow> (bool \<times> string \<times> val_key_t) option" where
  "getTimeSource buf p key = do {
     tkn \<leftarrow> cstr_at buf p;
     let up = map toupper tkn;
     Some (case time_source up of
             None \<Rightarrow> (True, patch p up buf, key)
           | Some n \<Rightarrow> (False, patch p up buf, key\<lparr>k_num := n\<rparr>))
   }"

definition port_state :: "string \<Rightarrow> int option" where
  "port_state tkn =
     (if strcaseeq ''INITIALIZING'' tkn then Some 1
      else if strcaseeq ''FAULTY'' tkn then Some 2
      else if strcaseeq ''DISABLED'' tkn then Some 3
      else if strcaseeq ''LISTENING'' tkn then Some 4
      else if strcaseeq ''PRE_MASTER'' tkn then Some 5
      else if strcaseeq ''MASTER'' tkn \<or> strcaseeq ''SOURCE'' tkn then Some 6
      else if strcaseeq ''PASSIVE'' tkn then Some 7
      else if strcaseeq ''UNCALIBRATED'' tkn then Some 8
      else if strcaseeq ''SLAVE'' tkn \<or> strcaseeq ''CLIENT'' tkn then Some 9
      else None)"

definition getPortState :: "string \<Rightarrow> nat \<Rightarrow> val_key_t \<Rightarrow> (bool \<times> string \<times> val_key_t) option" where
  "getPortState buf p key = do {
     tkn \<leftarrow> cstr_at buf p;
     Some (case port_state tkn of None \<Rightarrow> (True, buf, key) | Some n \<Rightarrow> (False, buf, key\<lparr>k_num := n\<rparr>))
   }"

section \<open>Reading the keys\<close>

text \<open>The number or flag of a key without a function of its own; \<^term>\<open>None\<close> is the error.\<close>

definition number_value :: "string \<Rightarrow> val_key_t \<Rightarrow> val_key_t option" where
  "number_value tkn key0 =
     (let key = (if k_flag key0 then key0\<lparr>k_min := 0, k_max := 255\<rparr> else key0);
          (n, end) = strtol (k_base key) tkn
      in if end = [] \<and> n \<ge> k_min key \<and> n \<le> k_max key then Some (key\<lparr>k_got_num := True, k_num := n\<rparr>)
         else if k_flag key then
           Some (key\<lparr>k_num := (if strcaseeq tkn ''enable'' \<or> strcaseeq tkn ''on'' \<or> strcaseeq tkn ''true''
                               then 1 else 0)\<rparr>)
         else if \<not> k_can_str key then None
         else Some key)"

text \<open>What a round does with the token at \<open>p\<close>: whether it is an error, the block, the key.\<close>

definition take_value :: "string \<Rightarrow> nat \<Rightarrow> val_key_t \<Rightarrow> (bool \<times> string \<times> val_key_t) option" where
  "take_value buf p key0 =
     (let key = key0\<lparr>k_str_val := At p\<rparr>
      in case (case k_handle key of
                 NoHandle \<Rightarrow> map_option (\<lambda>tkn. case number_value tkn key of
                     None \<Rightarrow> (True, buf, key) | Some k \<Rightarrow> (False, buf, k)) (cstr_at buf p)
               | HTimeSource \<Rightarrow> getTimeSource buf p key
               | HPortState \<Rightarrow> getPortState buf p key) of
           None \<Rightarrow> None
         | Some (True, buf', k) \<Rightarrow> Some (True, buf', k)
         | Some (False, buf', k) \<Rightarrow> Some (False, buf', k\<lparr>k_req := False\<rparr>))"

text \<open>
  The next token, quoted if the key may have a string, otherwise by \<^verbatim>\<open>strtok_r\<close>. The place to go on
  from is \<^verbatim>\<open>lastStr\<close> after a quoted token and \<^verbatim>\<open>save\<close> after another.
\<close>

datatype tok = NoTok | BadTok | Tok nat

definition next_tok :: "bool \<Rightarrow> string \<Rightarrow> nat \<Rightarrow> nat option \<Rightarrow> (tok \<times> string \<times> nat \<times> nat option) option" where
  "next_tok can_str buf save lastStr = do {
     (q, buf1) \<leftarrow> (if can_str then parse_quote buf save lastStr else Some (Plain, buf));
     case q of
       Unclosed \<Rightarrow> Some (BadTok, buf1, save, lastStr)
     | NoMore \<Rightarrow> Some (NoTok, buf1, save, lastStr)
     | Quoted t l \<Rightarrow> Some (Tok t, buf1, save, Some l)
     | Plain \<Rightarrow> do {
         (t, buf2, save') \<leftarrow> strtok_r buf1 (pos save lastStr);
         Some (case t of None \<Rightarrow> NoTok | Some p \<Rightarrow> Tok p, buf2, save', None)
       }
   }"

fun find_key :: "string \<Rightarrow> keys \<Rightarrow> string option" where
  "find_key tkn [] = None"
| "find_key tkn ((n, k) # ks) = (if strcaseeq n tkn then Some n else find_key tkn ks)"

text \<open>One round of the loop, with what it tells the loop to do next.\<close>

datatype round = Again | Break | Fail

definition key_round :: "string \<Rightarrow> nat \<Rightarrow> nat option \<Rightarrow> keys \<Rightarrow>
    (round \<times> string \<times> nat \<times> nat option \<times> keys) option" where
  "key_round buf save lastStr ks = do {
     let singleKey = (length ks = 1);
     (t1, buf1, save1, last1) \<leftarrow> next_tok (singleKey \<and> k_can_str (snd (hd ks))) buf save lastStr;
     case t1 of
       BadTok \<Rightarrow> Some (Fail, buf1, save1, last1, ks)
     | NoTok \<Rightarrow> Some (Break, buf1, save1, last1, ks)
     | Tok tkn \<Rightarrow> do {
         txt \<leftarrow> cstr_at buf1 tkn;
         case (if singleKey then Some (fst (hd ks)) else find_key txt ks) of
           None \<Rightarrow> Some (Fail, buf1, save1, last1, ks)
         | Some n \<Rightarrow> do {
             (t2, buf2, save2, last2) \<leftarrow> next_tok (k_can_str (kget n ks)) buf1 save1 last1;
             case t2 of
               BadTok \<Rightarrow> Some (Fail, buf2, save2, last2, ks)
             | NoTok \<Rightarrow>
                 if \<not> singleKey then Some (Break, buf2, save2, last2, ks)
                 else do {
                   (e, buf3, k) \<leftarrow> take_value buf2 tkn (kget n ks);
                   Some (if e then Fail else Break, buf3, save2, last2, kput n k ks)
                 }
             | Tok v \<Rightarrow> do {
                 (e, buf3, k) \<leftarrow> take_value buf2 v (kget n ks);
                 Some (if e then Fail else Again, buf3, save2, last2, kput n k ks)
               }
           }
       }
   }"

text \<open>Every round that goes on has moved forward in the block.\<close>

lemma cstr_at_length: "cstr_at buf p = Some s \<Longrightarrow> p + length s < length buf"
proof -
  assume "cstr_at buf p = Some s"
  then have n: "NUL \<in> set (drop p buf)" and s: "s = takeWhile (\<lambda>c. c \<noteq> NUL) (drop p buf)"
    by (auto simp: cstr_at_def c_str_def split: if_splits)
  have "length (takeWhile (\<lambda>c. c \<noteq> NUL) xs) < length xs" if "NUL \<in> set xs" for xs
    using that by (induction xs) auto
  then show ?thesis using n s by fastforce
qed

lemma strtok_r_moves:
  assumes "strtok_r buf p = Some (t, buf', save')"
  shows "length buf' = length buf" "t \<noteq> None \<Longrightarrow> p < save' \<and> save' \<le> length buf"
proof -
  obtain s where s: "cstr_at buf p = Some s" using assms by (auto simp: strtok_r_def split: option.splits)
  let ?s1 = "dropWhile (\<lambda>c. c \<in> set toksep) s"
  have e: "?s1 \<noteq> [] \<Longrightarrow> takeWhile (\<lambda>c. c \<notin> set toksep) ?s1 \<noteq> []"
    by (metis hd_dropWhile list.sel(1) neq_Nil_conv takeWhile.simps(2) list.distinct(1))
  have l: "length ?s1 \<le> length s" "length (takeWhile (\<lambda>c. c \<notin> set toksep) ?s1) \<le> length ?s1"
    by (simp_all add: length_dropWhile_le length_takeWhile_le)
  show "length buf' = length buf" using assms s by (auto simp: strtok_r_def Let_def split: if_splits)
  show "p < save' \<and> save' \<le> length buf" if "t \<noteq> None"
    using assms s that e l cstr_at_length [OF s]
    by (auto simp: strtok_r_def Let_def split: if_splits simp flip: length_greater_0_conv)
qed

lemma escape_length: "length (escape d) \<le> 2"
  by (simp add: escape_def)

lemma unescape_length: "unescape s = Some u \<Longrightarrow> length u \<le> length s"
proof (induction s arbitrary: u rule: unescape.induct)
  case (2 c cs)
  show ?case
  proof (cases "c = CHR 0x5C")
    case True
    then obtain d ds v where d: "cs = d # ds" "unescape ds = Some v" "u = escape d @ v"
      using 2(3) by (auto split: list.splits)
    have "length v \<le> length ds" using 2(1) [OF True d(1) d(2)] .
    then show ?thesis using d escape_length [of d] by simp
  next
    case False
    then show ?thesis using 2(2) [OF False] 2(3) by auto
  qed
qed simp

lemma skip_seps_le: "skip_seps buf cur = Some c \<Longrightarrow> cur \<le> c \<and> c < length buf"
  by (induction buf cur rule: skip_seps.induct) (subst (asm) (2) skip_seps.simps, auto split: if_splits)

lemma find_close_le: "find_close buf cur ch = Some (Some c) \<Longrightarrow> cur \<le> c \<and> c < length buf"
  by (induction buf cur ch rule: find_close.induct) (subst (asm) (3) find_close.simps, auto split: if_splits)

lemma parse_quote_moves:
  assumes "parse_quote buf save lastStr = Some (q, buf')"
  shows "length buf' = length buf" "q = Quoted t l \<Longrightarrow> pos save lastStr < l \<and> l \<le> length buf"
proof -
  have p: "length (patch (Suc cur) (u @ [NUL]) (buf[p := NUL])) = length buf"
    if "Suc cur \<le> p" "p < length buf" "unescape (take (p - Suc cur) (drop (Suc cur) buf)) = Some u" for p u cur
    using unescape_length [OF that(3)] that(1,2) by simp
  show "length buf' = length buf" "q = Quoted t l \<Longrightarrow> pos save lastStr < l \<and> l \<le> length buf"
    using assms p
    by (auto simp: parse_quote_def Let_def split: if_splits bind_splits option.splits
        dest!: skip_seps_le find_close_le)
qed

lemma next_tok_moves:
  assumes "next_tok can buf save lastStr = Some (t, buf', save', last')"
  shows "length buf' = length buf"
    "t = Tok p \<Longrightarrow> pos save lastStr < pos save' last' \<and> pos save' last' \<le> length buf"
proof -
  obtain q b1 where q: "(if can then parse_quote buf save lastStr else Some (Plain, buf)) = Some (q, b1)"
    using assms by (auto simp: next_tok_def split: bind_splits)
  have b: "length b1 = length buf" using q parse_quote_moves(1) by (auto split: if_splits)
  have l: "q = Quoted t l \<Longrightarrow> pos save lastStr < l \<and> l \<le> length buf" for t l
    using q parse_quote_moves(2) by (auto split: if_splits)
  show "length buf' = length buf"
    "t = Tok p \<Longrightarrow> pos save lastStr < pos save' last' \<and> pos save' last' \<le> length buf"
    using assms b l strtok_r_moves [of b1 "pos save lastStr"]
    by (auto simp: next_tok_def q pos_def [of _ None] pos_def [of _ "Some _"] split: quote.splits bind_splits option.splits)
qed

lemma take_value_length:
  assumes "take_value buf p key = Some (e, buf', k)"
  shows "length buf' = length buf"
proof -
  have "length (patch p (map toupper tkn) buf) = length buf" if "cstr_at buf p = Some tkn" for tkn
    using cstr_at_length [OF that] by simp
  then show ?thesis
    using assms by (auto simp: take_value_def getTimeSource_def getPortState_def Let_def
        split: handler.splits option.splits bool.splits bind_splits)
qed

lemma key_round_moves:
  assumes "key_round buf save lastStr ks = Some (Again, buf', save', last', ks')"
  shows "length buf' = length buf" "pos save lastStr < pos save' last'" "pos save' last' \<le> length buf"
proof -
  let ?single = "length ks = 1"
  obtain t1 b1 s1 l1 where a: "next_tok (?single \<and> k_can_str (snd (hd ks))) buf save lastStr = Some (t1, b1, s1, l1)"
    using assms by (auto simp: key_round_def Let_def split: bind_splits)
  obtain tkn where t1: "t1 = Tok tkn" using assms a by (auto simp: key_round_def Let_def split: tok.splits)
  obtain n where n: "(if ?single then Some (fst (hd ks)) else find_key (the (cstr_at b1 tkn)) ks) = Some n"
    using assms a t1 by (auto simp: key_round_def Let_def split: bind_splits option.splits if_splits)
  obtain t2 b2 s2 l2 where b: "next_tok (k_can_str (kget n ks)) b1 s1 l1 = Some (t2, b2, s2, l2)"
    using assms a t1 n by (auto simp: key_round_def Let_def split: bind_splits option.splits if_splits)
  obtain v where t2: "t2 = Tok v" "save' = s2" "last' = l2" and e: "\<exists>e k. take_value b2 v (kget n ks) = Some (e, buf', k)"
    using assms a t1 n b by (auto simp: key_round_def Let_def split: bind_splits option.splits if_splits tok.splits)
  show "length buf' = length buf"
    using next_tok_moves(1) [OF a] next_tok_moves(1) [OF b] e take_value_length by metis
  show "pos save lastStr < pos save' last'" "pos save' last' \<le> length buf"
    using next_tok_moves [OF a] next_tok_moves [OF b] t1 t2 by auto
qed

function parseKeys_loop :: "string \<Rightarrow> nat \<Rightarrow> nat option \<Rightarrow> keys \<Rightarrow> (bool \<times> string \<times> keys) option" where
  "parseKeys_loop buf save lastStr ks =
     (case key_round buf save lastStr ks of
        None \<Rightarrow> None
      | Some (Fail, buf', _, _, ks') \<Rightarrow> Some (True, buf', ks')
      | Some (Break, buf', _, _, ks') \<Rightarrow> Some (False, buf', ks')
      | Some (Again, buf', save', last', ks') \<Rightarrow> parseKeys_loop buf' save' last' ks')"
  by pat_completeness auto
termination
proof (relation "measure (\<lambda>(buf, save, lastStr, ks). length buf - pos save lastStr)")
  fix buf save lastStr ks and x2 :: "round \<times> string \<times> nat \<times> nat option \<times> keys" and r y b z s w l k
  assume "key_round buf save lastStr ks = Some x2" "(r, y) = x2" "(b, z) = y" "(s, w) = z" "(l, k) = w" "r = Again"
  then show "((b, s, l, k), buf, save, lastStr, ks) \<in> measure (\<lambda>(buf, save, lastStr, ks). length buf - pos save lastStr)"
    using key_round_moves [of buf save lastStr ks b s l k] by auto
qed simp

declare parseKeys_loop.simps [simp del]

definition key_defaults :: "keys \<Rightarrow> keys" where
  "key_defaults ks = map (\<lambda>(n, k). (n, if k_req k then k else k\<lparr>k_str_val := Lit [], k_num := k_def k\<rparr>)) ks"

definition parseKeysFunc :: "string \<Rightarrow> nat \<Rightarrow> keys \<Rightarrow> (bool \<times> string \<times> keys) option" where
  "parseKeysFunc buf save ks =
     (case parseKeys_loop buf save None (key_defaults ks) of
        None \<Rightarrow> None
      | Some (True, buf', ks') \<Rightarrow> Some (True, buf', ks')
      | Some (False, buf', ks') \<Rightarrow> Some (list_ex (\<lambda>(n, k). k_req k) ks', buf', ks'))"

section \<open>The functions of the ids\<close>

text \<open>The assignments to the keys in order, the parser, and what is made of the values.\<close>

definition with_keys :: "(string \<times> (val_key_t \<Rightarrow> val_key_t)) list \<Rightarrow> string \<Rightarrow> nat \<Rightarrow>
    (string \<Rightarrow> keys \<Rightarrow> BaseMngTlv option) \<Rightarrow> BaseMngTlv option option" where
  "with_keys us buf save f =
     (case parseKeysFunc buf save (foldl (\<lambda>ks (n, u). kset n u ks) [] us) of
        None \<Rightarrow> None
      | Some (True, _, _) \<Rightarrow> Some None
      | Some (False, buf', ks) \<Rightarrow> map_option Some (f buf' ks))"

definition fl :: "string \<Rightarrow> u8 \<Rightarrow> keys \<Rightarrow> u8" where
  "fl n f ks = (if knum n ks \<noteq> 0 then f else 0)"

definition event_bit :: "string \<Rightarrow> nat \<Rightarrow> keys \<Rightarrow> byte list \<Rightarrow> byte list" where
  "event_bit n ev ks bits = (if knum n ks \<noteq> 0
     then bits[ev div 8 := (bits ! (ev div 8)) OR push_bit (ev mod 8) 1] else bits)"

text \<open>
  One function per id. A member that the source leaves unset is the argument \<open>junk\<close>; the result is a
  null pointer (the inner \<^term>\<open>None\<close>) when the line is wrong.
\<close>

definition build_USER_DESCRIPTION :: "string \<Rightarrow> nat \<Rightarrow> BaseMngTlv option option" where
  "build_USER_DESCRIPTION buf save = with_keys
       [(''userDescription'', \<lambda>k. k\<lparr>k_can_str := True\<rparr>)] buf save
       (\<lambda>buf' ks. map_option (\<lambda>txt. TLV_USER_DESCRIPTION \<lparr>USER_DESCRIPTION_t.userDescription = new_PTPText\<lparr>textField := txt\<rparr>\<rparr>)
         (kstr buf' ''userDescription'' ks))"

definition build_INITIALIZE :: "string \<Rightarrow> nat \<Rightarrow> BaseMngTlv option option" where
  "build_INITIALIZE buf save = with_keys
       [(''initializationKey'', \<lambda>k. k\<lparr>k_def := 0\<rparr>),
        (''initializationKey'', \<lambda>k. k\<lparr>k_max := 65535\<rparr>)] buf save
       (\<lambda>_ ks. Some (TLV_INITIALIZE
         \<lparr>INITIALIZE_t.initializationKey = word_of_int (knum ''initializationKey'' ks)\<rparr>))"

definition build_PRIORITY1 :: "string \<Rightarrow> nat \<Rightarrow> BaseMngTlv option option" where
  "build_PRIORITY1 buf save = with_keys
       [(''priority1'', \<lambda>k. k\<lparr>k_def := 128\<rparr>),
        (''priority1'', \<lambda>k. k\<lparr>k_max := 255\<rparr>)] buf save
       (\<lambda>_ ks. Some (TLV_PRIORITY1
         \<lparr>PRIORITY1_t.priority1 = word_of_int (knum ''priority1'' ks)\<rparr>))"

definition build_PRIORITY2 :: "string \<Rightarrow> nat \<Rightarrow> BaseMngTlv option option" where
  "build_PRIORITY2 buf save = with_keys
       [(''priority2'', \<lambda>k. k\<lparr>k_def := 128\<rparr>),
        (''priority2'', \<lambda>k. k\<lparr>k_max := 255\<rparr>)] buf save
       (\<lambda>_ ks. Some (TLV_PRIORITY2
         \<lparr>PRIORITY2_t.priority2 = word_of_int (knum ''priority2'' ks)\<rparr>))"

definition build_DOMAIN :: "string \<Rightarrow> nat \<Rightarrow> BaseMngTlv option option" where
  "build_DOMAIN buf save = with_keys
       [(''domainNumber'', \<lambda>k. k\<lparr>k_max := 255\<rparr>)] buf save
       (\<lambda>_ ks. Some (TLV_DOMAIN
         \<lparr>DOMAIN_t.domainNumber = word_of_int (knum ''domainNumber'' ks)\<rparr>))"

definition build_SLAVE_ONLY :: "string \<Rightarrow> nat \<Rightarrow> BaseMngTlv option option" where
  "build_SLAVE_ONLY buf save = with_keys
       [(''slaveOnly'', \<lambda>k. k\<lparr>k_flag := True\<rparr>)] buf save
       (\<lambda>_ ks. Some (TLV_SLAVE_ONLY
         \<lparr>SLAVE_ONLY_t.flags = word_of_int (knum ''slaveOnly'' ks)\<rparr>))"

definition build_LOG_ANNOUNCE_INTERVAL :: "string \<Rightarrow> nat \<Rightarrow> BaseMngTlv option option" where
  "build_LOG_ANNOUNCE_INTERVAL buf save = with_keys
       [(''logAnnounceInterval'', \<lambda>k. k\<lparr>k_def := 1\<rparr>),
        (''logAnnounceInterval'', \<lambda>k. k\<lparr>k_max := 127\<rparr>)] buf save
       (\<lambda>_ ks. Some (TLV_LOG_ANNOUNCE_INTERVAL
         \<lparr>LOG_ANNOUNCE_INTERVAL_t.logAnnounceInterval = word_of_int (knum ''logAnnounceInterval'' ks)\<rparr>))"

definition build_ANNOUNCE_RECEIPT_TIMEOUT :: "string \<Rightarrow> nat \<Rightarrow> BaseMngTlv option option" where
  "build_ANNOUNCE_RECEIPT_TIMEOUT buf save = with_keys
       [(''announceReceiptTimeout'', \<lambda>k. k\<lparr>k_def := 3\<rparr>),
        (''announceReceiptTimeout'', \<lambda>k. k\<lparr>k_max := 255\<rparr>)] buf save
       (\<lambda>_ ks. Some (TLV_ANNOUNCE_RECEIPT_TIMEOUT
         \<lparr>ANNOUNCE_RECEIPT_TIMEOUT_t.announceReceiptTimeout = word_of_int (knum ''announceReceiptTimeout'' ks)\<rparr>))"

definition build_LOG_SYNC_INTERVAL :: "string \<Rightarrow> nat \<Rightarrow> BaseMngTlv option option" where
  "build_LOG_SYNC_INTERVAL buf save = with_keys
       [(''logSyncInterval'', \<lambda>k. k\<lparr>k_max := 127\<rparr>)] buf save
       (\<lambda>_ ks. Some (TLV_LOG_SYNC_INTERVAL
         \<lparr>LOG_SYNC_INTERVAL_t.logSyncInterval = if knum ''logSyncInterval'' ks > 0 then 1 else 0\<rparr>))"

definition build_VERSION_NUMBER :: "string \<Rightarrow> nat \<Rightarrow> BaseMngTlv option option" where
  "build_VERSION_NUMBER buf save = with_keys
       [(''versionNumber'', \<lambda>k. k\<lparr>k_def := 2\<rparr>),
        (''versionNumber'', \<lambda>k. k\<lparr>k_max := 0xf\<rparr>),
        (''versionNumber'', \<lambda>k. k\<lparr>k_min := 1\<rparr>),
        (''minor'', \<lambda>k. k\<lparr>k_def := 0\<rparr>),
        (''minor'', \<lambda>k. k\<lparr>k_max := 0xf\<rparr>)] buf save
       (\<lambda>_ ks. Some (TLV_VERSION_NUMBER
         \<lparr>VERSION_NUMBER_t.versionNumber = push_bit 4 (word_of_int (knum ''minor'' ks)) OR word_of_int (knum ''versionNumber'' ks)\<rparr>))"

definition build_TIME :: "string \<Rightarrow> nat \<Rightarrow> BaseMngTlv option option" where
  "build_TIME buf save = with_keys
       [(''secondsField'', \<lambda>k. k\<lparr>k_max := 281474976710655\<rparr>),
        (''secondsField'', \<lambda>k. k\<lparr>k_req := True\<rparr>),
        (''nanosecondsField'', \<lambda>k. k\<lparr>k_max := 4294967295\<rparr>)] buf save
       (\<lambda>_ ks. Some (TLV_TIME \<lparr>TIME_t.currentTime = \<lparr>secondsField = word_of_int (knum ''secondsField'' ks), nanosecondsField = word_of_int (knum ''nanosecondsField'' ks)\<rparr>\<rparr>))"

definition build_CLOCK_ACCURACY :: "string \<Rightarrow> nat \<Rightarrow> BaseMngTlv option option" where
  "build_CLOCK_ACCURACY buf save = with_keys
       [(''clockAccuracy'', \<lambda>k. k\<lparr>k_def := 0xef\<rparr>),
        (''clockAccuracy'', \<lambda>k. k\<lparr>k_max := 0xef\<rparr>)] buf save
       (\<lambda>_ ks. Some (TLV_CLOCK_ACCURACY
         \<lparr>CLOCK_ACCURACY_t.clockAccuracy = word_of_int (knum ''clockAccuracy'' ks)\<rparr>))"

definition build_UTC_PROPERTIES :: "string \<Rightarrow> nat \<Rightarrow> BaseMngTlv option option" where
  "build_UTC_PROPERTIES buf save = with_keys
       [(''currentUtcOffset'', \<lambda>k. k\<lparr>k_max := 32767\<rparr>),
        (''currentUtcOffset'', \<lambda>k. k\<lparr>k_req := True\<rparr>),
        (''leap61'', \<lambda>k. k\<lparr>k_flag := True\<rparr>),
        (''leap59'', \<lambda>k. k\<lparr>k_flag := True\<rparr>),
        (''currentUtcOffsetValid'', \<lambda>k. k\<lparr>k_flag := True\<rparr>)] buf save
       (\<lambda>_ ks. Some (TLV_UTC_PROPERTIES
         \<lparr>UTC_PROPERTIES_t.currentUtcOffset = word_of_int (knum ''currentUtcOffset'' ks),
          UTC_PROPERTIES_t.flags = fl ''leap61'' F_LI_61 ks OR
            fl ''leap59'' F_LI_59 ks OR
            fl ''currentUtcOffsetValid'' F_UTCV ks\<rparr>))"

definition build_TRACEABILITY_PROPERTIES :: "string \<Rightarrow> nat \<Rightarrow> BaseMngTlv option option" where
  "build_TRACEABILITY_PROPERTIES buf save = with_keys
       [(''timeTraceable'', \<lambda>k. k\<lparr>k_flag := True\<rparr>),
        (''frequencyTraceable'', \<lambda>k. k\<lparr>k_flag := True\<rparr>)] buf save
       (\<lambda>_ ks. Some (TLV_TRACEABILITY_PROPERTIES
         \<lparr>TRACEABILITY_PROPERTIES_t.flags = fl ''timeTraceable'' F_TTRA ks OR fl ''frequencyTraceable'' F_FTRA ks\<rparr>))"

definition build_TIMESCALE_PROPERTIES :: "u8 \<Rightarrow> string \<Rightarrow> nat \<Rightarrow> BaseMngTlv option option" where
  "build_TIMESCALE_PROPERTIES junk buf save = with_keys
       [(''ptpTimescale'', \<lambda>k. k\<lparr>k_flag := True\<rparr>)] buf save
       (\<lambda>_ ks. Some (TLV_TIMESCALE_PROPERTIES
         \<lparr>TIMESCALE_PROPERTIES_t.flags = fl ''ptpTimescale'' F_PTP ks,
          TIMESCALE_PROPERTIES_t.timeSource = junk\<rparr>))"

definition build_UNICAST_NEGOTIATION_ENABLE :: "string \<Rightarrow> nat \<Rightarrow> BaseMngTlv option option" where
  "build_UNICAST_NEGOTIATION_ENABLE buf save = with_keys
       [(''unicastNegotiationPortDS'', \<lambda>k. k\<lparr>k_flag := True\<rparr>)] buf save
       (\<lambda>_ ks. Some (TLV_UNICAST_NEGOTIATION_ENABLE
         \<lparr>UNICAST_NEGOTIATION_ENABLE_t.flags = word_of_int (knum ''unicastNegotiationPortDS'' ks)\<rparr>))"

definition build_PATH_TRACE_ENABLE :: "string \<Rightarrow> nat \<Rightarrow> BaseMngTlv option option" where
  "build_PATH_TRACE_ENABLE buf save = with_keys
       [(''pathTraceDS'', \<lambda>k. k\<lparr>k_flag := True\<rparr>)] buf save
       (\<lambda>_ ks. Some (TLV_PATH_TRACE_ENABLE
         \<lparr>PATH_TRACE_ENABLE_t.flags = word_of_int (knum ''pathTraceDS'' ks)\<rparr>))"

definition build_GRANDMASTER_CLUSTER_TABLE :: "string \<Rightarrow> nat \<Rightarrow> BaseMngTlv option option" where
  "build_GRANDMASTER_CLUSTER_TABLE buf save = Some None"

definition build_UNICAST_MASTER_TABLE :: "string \<Rightarrow> nat \<Rightarrow> BaseMngTlv option option" where
  "build_UNICAST_MASTER_TABLE buf save = Some None"

definition build_ACCEPTABLE_MASTER_TABLE :: "string \<Rightarrow> nat \<Rightarrow> BaseMngTlv option option" where
  "build_ACCEPTABLE_MASTER_TABLE buf save = Some None"

definition build_ACCEPTABLE_MASTER_TABLE_ENABLED :: "string \<Rightarrow> nat \<Rightarrow> BaseMngTlv option option" where
  "build_ACCEPTABLE_MASTER_TABLE_ENABLED buf save = with_keys
       [(''acceptableMasterPortDS'', \<lambda>k. k\<lparr>k_flag := True\<rparr>)] buf save
       (\<lambda>_ ks. Some (TLV_ACCEPTABLE_MASTER_TABLE_ENABLED
         \<lparr>ACCEPTABLE_MASTER_TABLE_ENABLED_t.flags = word_of_int (knum ''acceptableMasterPortDS'' ks)\<rparr>))"

definition build_ALTERNATE_MASTER :: "string \<Rightarrow> nat \<Rightarrow> BaseMngTlv option option" where
  "build_ALTERNATE_MASTER buf save = with_keys
       [(''transmitAlternateMulticastSync'', \<lambda>k. k\<lparr>k_flag := True\<rparr>),
        (''logAlternateMulticastSyncInterval'', \<lambda>k. k\<lparr>k_max := 127\<rparr>),
        (''numberOfAlternateMasters'', \<lambda>k. k\<lparr>k_max := 255\<rparr>)] buf save
       (\<lambda>_ ks. Some (TLV_ALTERNATE_MASTER
         \<lparr>ALTERNATE_MASTER_t.flags = word_of_int (knum ''transmitAlternateMulticastSync'' ks),
          ALTERNATE_MASTER_t.logAlternateMulticastSyncInterval = word_of_int (knum ''logAlternateMulticastSyncInterval'' ks),
          ALTERNATE_MASTER_t.numberOfAlternateMasters = word_of_int (knum ''numberOfAlternateMasters'' ks)\<rparr>))"

definition build_ALTERNATE_TIME_OFFSET_ENABLE :: "u8 \<Rightarrow> string \<Rightarrow> nat \<Rightarrow> BaseMngTlv option option" where
  "build_ALTERNATE_TIME_OFFSET_ENABLE junk buf save = with_keys
       [(''alternateTimescaleOffsetsDS'', \<lambda>k. k\<lparr>k_flag := True\<rparr>)] buf save
       (\<lambda>_ ks. Some (TLV_ALTERNATE_TIME_OFFSET_ENABLE
         \<lparr>ALTERNATE_TIME_OFFSET_ENABLE_t.keyField = junk,
          ALTERNATE_TIME_OFFSET_ENABLE_t.flags = word_of_int (knum ''alternateTimescaleOffsetsDS'' ks)\<rparr>))"

definition build_ALTERNATE_TIME_OFFSET_NAME :: "string \<Rightarrow> nat \<Rightarrow> BaseMngTlv option option" where
  "build_ALTERNATE_TIME_OFFSET_NAME buf save = with_keys
       [(''keyField'', \<lambda>k. k\<lparr>k_max := 255\<rparr>),
        (''keyField'', \<lambda>k. k\<lparr>k_req := True\<rparr>),
        (''displayName'', \<lambda>k. k\<lparr>k_can_str := True\<rparr>),
        (''displayName'', \<lambda>k. k\<lparr>k_req := True\<rparr>)] buf save
       (\<lambda>buf' ks. map_option (\<lambda>txt. TLV_ALTERNATE_TIME_OFFSET_NAME
         \<lparr>ALTERNATE_TIME_OFFSET_NAME_t.keyField = word_of_int (knum ''keyField'' ks),
          ALTERNATE_TIME_OFFSET_NAME_t.displayName = new_PTPText\<lparr>textField := txt\<rparr>\<rparr>)
         (kstr buf' ''displayName'' ks))"

definition build_ALTERNATE_TIME_OFFSET_PROPERTIES :: "string \<Rightarrow> nat \<Rightarrow> BaseMngTlv option option" where
  "build_ALTERNATE_TIME_OFFSET_PROPERTIES buf save = with_keys
       [(''keyField'', \<lambda>k. k\<lparr>k_max := 255\<rparr>),
        (''currentOffset'', \<lambda>k. k\<lparr>k_max := 2147483647\<rparr>),
        (''jumpSeconds'', \<lambda>k. k\<lparr>k_max := 2147483647\<rparr>),
        (''timeOfNextJump'', \<lambda>k. k\<lparr>k_max := 281474976710655\<rparr>)] buf save
       (\<lambda>_ ks. Some (TLV_ALTERNATE_TIME_OFFSET_PROPERTIES
         \<lparr>ALTERNATE_TIME_OFFSET_PROPERTIES_t.keyField = word_of_int (knum ''keyField'' ks),
          ALTERNATE_TIME_OFFSET_PROPERTIES_t.currentOffset = word_of_int (knum ''currentOffset'' ks),
          ALTERNATE_TIME_OFFSET_PROPERTIES_t.jumpSeconds = word_of_int (knum ''jumpSeconds'' ks),
          ALTERNATE_TIME_OFFSET_PROPERTIES_t.timeOfNextJump = word_of_int (knum ''timeOfNextJump'' ks)\<rparr>))"

definition build_LOG_MIN_PDELAY_REQ_INTERVAL :: "string \<Rightarrow> nat \<Rightarrow> BaseMngTlv option option" where
  "build_LOG_MIN_PDELAY_REQ_INTERVAL buf save = with_keys
       [(''logMinPdelayReqInterval'', \<lambda>k. k\<lparr>k_max := 127\<rparr>)] buf save
       (\<lambda>_ ks. Some (TLV_LOG_MIN_PDELAY_REQ_INTERVAL
         \<lparr>LOG_MIN_PDELAY_REQ_INTERVAL_t.logMinPdelayReqInterval = word_of_int (knum ''logMinPdelayReqInterval'' ks)\<rparr>))"

definition build_PRIMARY_DOMAIN :: "string \<Rightarrow> nat \<Rightarrow> BaseMngTlv option option" where
  "build_PRIMARY_DOMAIN buf save = with_keys
       [(''primaryDomain'', \<lambda>k. k\<lparr>k_max := 255\<rparr>)] buf save
       (\<lambda>_ ks. Some (TLV_PRIMARY_DOMAIN
         \<lparr>PRIMARY_DOMAIN_t.primaryDomain = word_of_int (knum ''primaryDomain'' ks)\<rparr>))"

definition build_DELAY_MECHANISM :: "string \<Rightarrow> nat \<Rightarrow> BaseMngTlv option option" where
  "build_DELAY_MECHANISM buf save = with_keys
       [(''delayMechanism'', \<lambda>k. k\<lparr>k_max := 0xfe\<rparr>)] buf save
       (\<lambda>_ ks. Some (TLV_DELAY_MECHANISM
         \<lparr>DELAY_MECHANISM_t.delayMechanism = word_of_int (knum ''delayMechanism'' ks)\<rparr>))"

definition build_EXTERNAL_PORT_CONFIGURATION_ENABLED :: "string \<Rightarrow> nat \<Rightarrow> BaseMngTlv option option" where
  "build_EXTERNAL_PORT_CONFIGURATION_ENABLED buf save = with_keys
       [(''externalPortConfiguration'', \<lambda>k. k\<lparr>k_flag := True\<rparr>)] buf save
       (\<lambda>_ ks. Some (TLV_EXTERNAL_PORT_CONFIGURATION_ENABLED
         \<lparr>EXTERNAL_PORT_CONFIGURATION_ENABLED_t.flags = word_of_int (knum ''externalPortConfiguration'' ks)\<rparr>))"

definition build_MASTER_ONLY :: "string \<Rightarrow> nat \<Rightarrow> BaseMngTlv option option" where
  "build_MASTER_ONLY buf save = with_keys
       [(''masterOnly'', \<lambda>k. k\<lparr>k_flag := True\<rparr>)] buf save
       (\<lambda>_ ks. Some (TLV_MASTER_ONLY
         \<lparr>MASTER_ONLY_t.flags = word_of_int (knum ''masterOnly'' ks)\<rparr>))"

definition build_HOLDOVER_UPGRADE_ENABLE :: "string \<Rightarrow> nat \<Rightarrow> BaseMngTlv option option" where
  "build_HOLDOVER_UPGRADE_ENABLE buf save = with_keys
       [(''holdoverUpgradeDS'', \<lambda>k. k\<lparr>k_flag := True\<rparr>)] buf save
       (\<lambda>_ ks. Some (TLV_HOLDOVER_UPGRADE_ENABLE
         \<lparr>HOLDOVER_UPGRADE_ENABLE_t.flags = word_of_int (knum ''holdoverUpgradeDS'' ks)\<rparr>))"

definition build_EXT_PORT_CONFIG_PORT_DATA_SET :: "string \<Rightarrow> nat \<Rightarrow> BaseMngTlv option option" where
  "build_EXT_PORT_CONFIG_PORT_DATA_SET buf save = with_keys
       [(''acceptableMasterPortDS'', \<lambda>k. k\<lparr>k_flag := True\<rparr>),
        (''desiredState'', \<lambda>k. k\<lparr>k_handle := HPortState\<rparr>)] buf save
       (\<lambda>_ ks. Some (TLV_EXT_PORT_CONFIG_PORT_DATA_SET
         \<lparr>EXT_PORT_CONFIG_PORT_DATA_SET_t.flags = word_of_int (knum ''acceptableMasterPortDS'' ks),
          EXT_PORT_CONFIG_PORT_DATA_SET_t.desiredState = word_of_int (knum ''desiredState'' ks)\<rparr>))"

definition build_GRANDMASTER_SETTINGS_NP :: "string \<Rightarrow> nat \<Rightarrow> BaseMngTlv option option" where
  "build_GRANDMASTER_SETTINGS_NP buf save = with_keys
       [(''clockClass'', \<lambda>k. k\<lparr>k_max := 255\<rparr>),
        (''clockClass'', \<lambda>k. k\<lparr>k_req := True\<rparr>),
        (''clockAccuracy'', \<lambda>k. k\<lparr>k_base := 16\<rparr>),
        (''clockAccuracy'', \<lambda>k. k\<lparr>k_max := 255\<rparr>),
        (''clockAccuracy'', \<lambda>k. k\<lparr>k_req := True\<rparr>),
        (''offsetScaledLogVariance'', \<lambda>k. k\<lparr>k_base := 16\<rparr>),
        (''offsetScaledLogVariance'', \<lambda>k. k\<lparr>k_max := 65535\<rparr>),
        (''offsetScaledLogVariance'', \<lambda>k. k\<lparr>k_req := True\<rparr>),
        (''currentUtcOffset'', \<lambda>k. k\<lparr>k_max := 32767\<rparr>),
        (''currentUtcOffset'', \<lambda>k. k\<lparr>k_req := True\<rparr>),
        (''leap61'', \<lambda>k. k\<lparr>k_flag := True\<rparr>),
        (''leap59'', \<lambda>k. k\<lparr>k_flag := True\<rparr>),
        (''currentUtcOffsetValid'', \<lambda>k. k\<lparr>k_flag := True\<rparr>),
        (''ptpTimescale'', \<lambda>k. k\<lparr>k_flag := True\<rparr>),
        (''timeTraceable'', \<lambda>k. k\<lparr>k_flag := True\<rparr>),
        (''frequencyTraceable'', \<lambda>k. k\<lparr>k_flag := True\<rparr>),
        (''timeSource'', \<lambda>k. k\<lparr>k_req := True\<rparr>),
        (''timeSource'', \<lambda>k. k\<lparr>k_handle := HTimeSource\<rparr>)] buf save
       (\<lambda>_ ks. Some (TLV_GRANDMASTER_SETTINGS_NP
         \<lparr>GRANDMASTER_SETTINGS_NP_t.clockQuality = \<lparr>ClockQuality_t.clockClass = word_of_int (knum ''clockClass'' ks),
            clockAccuracy = word_of_int (knum ''clockAccuracy'' ks),
            offsetScaledLogVariance = word_of_int (knum ''offsetScaledLogVariance'' ks)\<rparr>,
          GRANDMASTER_SETTINGS_NP_t.currentUtcOffset = word_of_int (knum ''currentUtcOffset'' ks),
          GRANDMASTER_SETTINGS_NP_t.flags = fl ''leap61'' F_LI_61 ks OR
            fl ''leap59'' F_LI_59 ks OR
            fl ''currentUtcOffsetValid'' F_UTCV ks OR
            fl ''ptpTimescale'' F_PTP ks OR
            fl ''timeTraceable'' F_TTRA ks OR
            fl ''frequencyTraceable'' F_FTRA ks,
          GRANDMASTER_SETTINGS_NP_t.timeSource = word_of_int (knum ''timeSource'' ks)\<rparr>))"

definition build_PORT_DATA_SET_NP :: "string \<Rightarrow> nat \<Rightarrow> BaseMngTlv option option" where
  "build_PORT_DATA_SET_NP buf save = with_keys
       [(''neighborPropDelayThresh'', \<lambda>k. k\<lparr>k_max := 4294967295\<rparr>),
        (''neighborPropDelayThresh'', \<lambda>k. k\<lparr>k_req := True\<rparr>),
        (''asCapable'', \<lambda>k. k\<lparr>k_max := 2147483647\<rparr>),
        (''asCapable'', \<lambda>k. k\<lparr>k_req := True\<rparr>)] buf save
       (\<lambda>_ ks. Some (TLV_PORT_DATA_SET_NP
         \<lparr>PORT_DATA_SET_NP_t.neighborPropDelayThresh = word_of_int (knum ''neighborPropDelayThresh'' ks),
          PORT_DATA_SET_NP_t.asCapable = word_of_int (knum ''asCapable'' ks)\<rparr>))"

definition build_SUBSCRIBE_EVENTS_NP :: "string \<Rightarrow> nat \<Rightarrow> BaseMngTlv option option" where
  "build_SUBSCRIBE_EVENTS_NP buf save = with_keys
       [(''duration'', \<lambda>k. k\<lparr>k_max := 65535\<rparr>),
        (''duration'', \<lambda>k. k\<lparr>k_req := True\<rparr>),
        (''NOTIFY_PORT_STATE'', \<lambda>k. k\<lparr>k_flag := True\<rparr>),
        (''NOTIFY_TIME_SYNC'', \<lambda>k. k\<lparr>k_flag := True\<rparr>)] buf save
       (\<lambda>_ ks. Some (TLV_SUBSCRIBE_EVENTS_NP
         \<lparr>SUBSCRIBE_EVENTS_NP_t.duration = word_of_int (knum ''duration'' ks),
          SUBSCRIBE_EVENTS_NP_t.bitmask = event_bit ''NOTIFY_TIME_SYNC'' 1 ks (event_bit ''NOTIFY_PORT_STATE'' 0 ks (replicate EVENT_BITMASK_CNT 0))\<rparr>))"

definition build_SYNCHRONIZATION_UNCERTAIN_NP :: "string \<Rightarrow> nat \<Rightarrow> BaseMngTlv option option" where
  "build_SYNCHRONIZATION_UNCERTAIN_NP buf save = with_keys
       [(''duration'', \<lambda>k. k\<lparr>k_max := 255\<rparr>),
        (''duration'', \<lambda>k. k\<lparr>k_req := True\<rparr>)] buf save
       (\<lambda>_ ks. Some (TLV_SYNCHRONIZATION_UNCERTAIN_NP
         \<lparr>SYNCHRONIZATION_UNCERTAIN_NP_t.uncertain_val = word_of_int (knum ''duration'' ks)\<rparr>))"

definition call_data :: "u8 \<Rightarrow> mng_vals_e \<Rightarrow> string \<Rightarrow> nat \<Rightarrow> BaseMngTlv option option" where
  "call_data junk tid buf save =
     (if tid = USER_DESCRIPTION then build_USER_DESCRIPTION buf save
      else if tid = INITIALIZE then build_INITIALIZE buf save
      else if tid = PRIORITY1 then build_PRIORITY1 buf save
      else if tid = PRIORITY2 then build_PRIORITY2 buf save
      else if tid = DOMAIN then build_DOMAIN buf save
      else if tid = SLAVE_ONLY then build_SLAVE_ONLY buf save
      else if tid = LOG_ANNOUNCE_INTERVAL then build_LOG_ANNOUNCE_INTERVAL buf save
      else if tid = ANNOUNCE_RECEIPT_TIMEOUT then build_ANNOUNCE_RECEIPT_TIMEOUT buf save
      else if tid = LOG_SYNC_INTERVAL then build_LOG_SYNC_INTERVAL buf save
      else if tid = VERSION_NUMBER then build_VERSION_NUMBER buf save
      else if tid = TIME then build_TIME buf save
      else if tid = CLOCK_ACCURACY then build_CLOCK_ACCURACY buf save
      else if tid = UTC_PROPERTIES then build_UTC_PROPERTIES buf save
      else if tid = TRACEABILITY_PROPERTIES then build_TRACEABILITY_PROPERTIES buf save
      else if tid = TIMESCALE_PROPERTIES then build_TIMESCALE_PROPERTIES junk buf save
      else if tid = UNICAST_NEGOTIATION_ENABLE then build_UNICAST_NEGOTIATION_ENABLE buf save
      else if tid = PATH_TRACE_ENABLE then build_PATH_TRACE_ENABLE buf save
      else if tid = GRANDMASTER_CLUSTER_TABLE then build_GRANDMASTER_CLUSTER_TABLE buf save
      else if tid = UNICAST_MASTER_TABLE then build_UNICAST_MASTER_TABLE buf save
      else if tid = ACCEPTABLE_MASTER_TABLE then build_ACCEPTABLE_MASTER_TABLE buf save
      else if tid = ACCEPTABLE_MASTER_TABLE_ENABLED then build_ACCEPTABLE_MASTER_TABLE_ENABLED buf save
      else if tid = ALTERNATE_MASTER then build_ALTERNATE_MASTER buf save
      else if tid = ALTERNATE_TIME_OFFSET_ENABLE then build_ALTERNATE_TIME_OFFSET_ENABLE junk buf save
      else if tid = ALTERNATE_TIME_OFFSET_NAME then build_ALTERNATE_TIME_OFFSET_NAME buf save
      else if tid = ALTERNATE_TIME_OFFSET_PROPERTIES then build_ALTERNATE_TIME_OFFSET_PROPERTIES buf save
      else if tid = LOG_MIN_PDELAY_REQ_INTERVAL then build_LOG_MIN_PDELAY_REQ_INTERVAL buf save
      else if tid = PRIMARY_DOMAIN then build_PRIMARY_DOMAIN buf save
      else if tid = DELAY_MECHANISM then build_DELAY_MECHANISM buf save
      else if tid = EXTERNAL_PORT_CONFIGURATION_ENABLED then build_EXTERNAL_PORT_CONFIGURATION_ENABLED buf save
      else if tid = MASTER_ONLY then build_MASTER_ONLY buf save
      else if tid = HOLDOVER_UPGRADE_ENABLE then build_HOLDOVER_UPGRADE_ENABLE buf save
      else if tid = EXT_PORT_CONFIG_PORT_DATA_SET then build_EXT_PORT_CONFIG_PORT_DATA_SET buf save
      else if tid = GRANDMASTER_SETTINGS_NP then build_GRANDMASTER_SETTINGS_NP buf save
      else if tid = PORT_DATA_SET_NP then build_PORT_DATA_SET_NP buf save
      else if tid = SUBSCRIBE_EVENTS_NP then build_SUBSCRIBE_EVENTS_NP buf save
      else if tid = SYNCHRONIZATION_UNCERTAIN_NP then build_SYNCHRONIZATION_UNCERTAIN_NP buf save
      else Some None)"

end
