(* ===== verification/CmdLaws.thy ===== *)
theory CmdLaws
  imports Cmd MngCodec
begin

text \<open>
  What the command parser makes of a line: the numbers it accepts are in the range of their key and
  the TLVs fit their ids; decimal numbers are read back; and quoted values are looked for behind the
  end of the line.
\<close>

section \<open>What a key can become\<close>

text \<open>
  The settings of a key do not change, only a flag gets its own range; and once a key without a
  function of its own is no longer required, its number is in range or its default.
\<close>

definition evolves :: "val_key_t \<Rightarrow> val_key_t \<Rightarrow> bool" where
  "evolves k k' \<longleftrightarrow> k_can_str k' = k_can_str k \<and> k_def k' = k_def k \<and> k_flag k' = k_flag k \<and>
     k_handle k' = k_handle k \<and> (\<not> k_flag k \<longrightarrow> k_max k' = k_max k \<and> k_min k' = k_min k) \<and>
     (k_flag k \<longrightarrow> (k_max k', k_min k') \<in> {(k_max k, k_min k), (255, 0)})"

definition number_ok :: "val_key_t \<Rightarrow> bool" where
  "number_ok k \<longleftrightarrow> k_req k \<or> k_can_str k \<or> k_handle k \<noteq> NoHandle \<or> k_num k = k_def k \<or>
     (if k_flag k then 0 \<le> k_num k \<and> k_num k \<le> 255 else k_min k \<le> k_num k \<and> k_num k \<le> k_max k)"

lemma evolves_refl [simp]: "evolves k k"
  by (simp add: evolves_def)

lemma evolves_trans: "evolves k k' \<Longrightarrow> evolves k' k'' \<Longrightarrow> evolves k k''"
  by (auto simp: evolves_def)

lemma take_value_evolves:
  assumes "take_value buf p k = Some (e, buf', k')"
  shows "evolves k k'" "\<not> e \<Longrightarrow> number_ok k'"
  using assms
  by (auto simp: take_value_def getTimeSource_def getPortState_def number_value_def evolves_def number_ok_def Let_def
      split: handler.splits option.splits bool.splits bind_splits if_splits prod.splits)

abbreviation keys_evolve :: "keys \<Rightarrow> keys \<Rightarrow> bool" where
  "keys_evolve \<equiv> list_all2 (\<lambda>(n, k) (n', k'). n' = n \<and> evolves k k')"

lemma keys_evolve_refl [simp]: "keys_evolve ks ks"
  by (induction ks) auto

lemma keys_evolve_trans: "keys_evolve a b \<Longrightarrow> keys_evolve b c \<Longrightarrow> keys_evolve a c"
  by (rule list_all2_trans [where ?P1.0 = "\<lambda>(n, k) (n', k'). n' = n \<and> evolves k k'"]) (auto intro: evolves_trans)

lemma keys_evolve_names: "keys_evolve ks ks' \<Longrightarrow> map fst ks' = map fst ks"
  by (induction rule: list_all2_induct) auto

lemma kput_evolves:
  assumes "distinct (map fst ks)" "evolves (kget n ks) k"
  shows "keys_evolve ks (kput n k ks)"
proof -
  have "evolves q k" if "(n, q) \<in> set ks" for q
    using assms map_of_is_SomeI [OF assms(1) that] by (simp add: kget_def)
  then show ?thesis by (auto simp: kput_def list_all2_map2 list_all2_same)
qed

definition numbers_ok :: "keys \<Rightarrow> bool" where
  "numbers_ok ks \<longleftrightarrow> (\<forall>(n, k)\<in>set ks. number_ok k)"

lemma kput_numbers: "numbers_ok ks \<Longrightarrow> number_ok k \<Longrightarrow> numbers_ok (kput n k ks)"
  by (auto simp: numbers_ok_def kput_def)

lemma key_round_evolves:
  assumes "key_round buf save lastStr ks = Some (r, buf', save', last', ks')" "distinct (map fst ks)"
  shows "keys_evolve ks ks'" "r \<noteq> Fail \<Longrightarrow> numbers_ok ks \<Longrightarrow> numbers_ok ks'"
proof -
  have t: "take_value b v (kget n ks) = Some (e, b', k) \<Longrightarrow> keys_evolve ks (kput n k ks) \<and>
      (\<not> e \<longrightarrow> numbers_ok ks \<longrightarrow> numbers_ok (kput n k ks))" for b v n e b' k
    using take_value_evolves [of b v "kget n ks" e b' k] kput_evolves [OF assms(2)] kput_numbers by blast
  show "keys_evolve ks ks'" "r \<noteq> Fail \<Longrightarrow> numbers_ok ks \<Longrightarrow> numbers_ok ks'"
    using assms(1)
    by (auto simp: key_round_def Let_def split: bind_splits tok.splits if_splits option.splits dest!: t)
qed

lemma loop_evolves:
  "parseKeys_loop buf save lastStr ks = Some (e, buf', ks') \<Longrightarrow> distinct (map fst ks) \<Longrightarrow>
   keys_evolve ks ks' \<and> (\<not> e \<longrightarrow> numbers_ok ks \<longrightarrow> numbers_ok ks')"
proof (induction buf save lastStr ks arbitrary: e buf' ks' rule: parseKeys_loop.induct)
  case (1 buf save lastStr ks)
  obtain r b s l q where k: "key_round buf save lastStr ks = Some (r, b, s, l, q)"
    using "1.prems"(1) by (subst (asm) parseKeys_loop.simps) (auto split: option.splits)
  note ev = key_round_evolves [OF k "1.prems"(2)]
  show ?case
  proof (cases r)
    case Again
    then have "parseKeys_loop b s l q = Some (e, buf', ks')"
      using "1.prems"(1) k by (subst (asm) parseKeys_loop.simps) simp
    moreover have "distinct (map fst q)" using ev(1) "1.prems"(2) keys_evolve_names by metis
    ultimately have "keys_evolve q ks' \<and> (\<not> e \<longrightarrow> numbers_ok q \<longrightarrow> numbers_ok ks')"
      using "1.IH" [OF k refl Again refl refl refl] by blast
    then show ?thesis using ev Again keys_evolve_trans by blast
  qed (use "1.prems"(1) k ev in \<open>subst (asm) parseKeys_loop.simps, simp\<close>)+
qed

lemma kset_names:
  "fst ` set (kset n f ks) = insert n (fst ` set ks)"
  by (induction n f ks rule: kset.induct) auto

lemma parseKeys_evolves:
  assumes "parseKeysFunc buf save ks = Some (False, buf', ks')" "distinct (map fst ks)"
  shows "keys_evolve ks ks'" "\<forall>(n, k)\<in>set ks'. \<not> k_req k \<and> number_ok k"
proof -
  let ?ks = "key_defaults ks"
  have d: "distinct (map fst ?ks)" "keys_evolve ks ?ks" "numbers_ok ?ks"
    using assms(2) by (auto simp: key_defaults_def numbers_ok_def number_ok_def evolves_def comp_def split_beta
        list_all2_map2 list_all2_same)
  obtain e where l: "parseKeys_loop buf save None ?ks = Some (e, buf', ks')" and e: "\<not> e" "\<not> list_ex (\<lambda>(n, k). k_req k) ks'"
    using assms(1) by (auto simp: parseKeysFunc_def split: option.splits bool.splits)
  show "keys_evolve ks ks'" using loop_evolves [OF l d(1)] d(2) keys_evolve_trans by blast
  show "\<forall>(n, k)\<in>set ks'. \<not> k_req k \<and> number_ok k"
    using loop_evolves [OF l d(1)] d(3) e by (auto simp: numbers_ok_def list_ex_iff)
qed

section \<open>What a line can make\<close>

lemma with_keys_result:
  assumes "with_keys us buf save f = Some (Some t)"
  shows "\<exists>buf' ks. f buf' ks = Some t"
  using assms by (auto simp: with_keys_def split: option.splits bool.splits) blast

lemma with_keys_numbers:
  assumes "with_keys us buf save f = Some (Some t)" "foldl (\<lambda>ks (n, u). kset n u ks) [] us = ks0" "distinct (map fst ks0)"
  shows "\<exists>buf' ks. f buf' ks = Some t \<and> keys_evolve ks0 ks \<and> (\<forall>(n, k)\<in>set ks. \<not> k_req k \<and> number_ok k)"
proof -
  obtain buf' ks where "parseKeysFunc buf save ks0 = Some (False, buf', ks)" "f buf' ks = Some t"
    using assms(1,2) by (auto simp: with_keys_def split: option.splits bool.splits)
  then show ?thesis using parseKeys_evolves [OF _ assms(3)] by blast
qed

definition plain_key :: "int \<Rightarrow> bool \<Rightarrow> val_key_t" where
  "plain_key m r = new_val_key\<lparr>k_max := m, k_req := r\<rparr>"

lemma plain_key_range:
  "evolves (plain_key m r) k \<Longrightarrow> \<not> k_req k \<Longrightarrow> number_ok k \<Longrightarrow> 0 \<le> m \<Longrightarrow> 0 \<le> k_num k \<and> k_num k \<le> m"
  by (auto simp: evolves_def number_ok_def plain_key_def new_val_key_def)

lemma word_of_int_48: "0 \<le> n \<Longrightarrow> n \<le> 281474976710655 \<Longrightarrow> (word_of_int n :: u64) \<le> UINT48_MAX"
  by (simp add: word_le_def UINT48_MAX_def uint_word_of_int_eq take_bit_int_eq_self)

lemma build_TIME_range:
  assumes "build_TIME buf save = Some (Some t)"
  shows "\<exists>d. t = TLV_TIME d \<and> secondsField (TIME_t.currentTime d) \<le> UINT48_MAX"
proof -
  have f: "foldl (\<lambda>ks (n, u). kset n u ks) []
       [(''secondsField'', \<lambda>k. k\<lparr>k_max := 281474976710655\<rparr>), (''secondsField'', \<lambda>k. k\<lparr>k_req := True\<rparr>),
        (''nanosecondsField'', \<lambda>k. k\<lparr>k_max := 4294967295\<rparr>)] =
      [(''nanosecondsField'', plain_key 4294967295 False), (''secondsField'', plain_key 281474976710655 True)]"
    by (simp add: plain_key_def new_val_key_def)
  from with_keys_numbers [OF assms [unfolded build_TIME_def] f] show ?thesis
    by (auto simp: list_all2_Cons1 kget_def plain_key_range intro!: word_of_int_48)
qed

lemma build_OFFSET_range:
  assumes "build_ALTERNATE_TIME_OFFSET_PROPERTIES buf save = Some (Some t)"
  shows "\<exists>d. t = TLV_ALTERNATE_TIME_OFFSET_PROPERTIES d \<and> ALTERNATE_TIME_OFFSET_PROPERTIES_t.timeOfNextJump d \<le> UINT48_MAX"
proof -
  have f: "foldl (\<lambda>ks (n, u). kset n u ks) []
       [(''keyField'', \<lambda>k. k\<lparr>k_max := 255\<rparr>), (''currentOffset'', \<lambda>k. k\<lparr>k_max := 2147483647\<rparr>),
        (''jumpSeconds'', \<lambda>k. k\<lparr>k_max := 2147483647\<rparr>), (''timeOfNextJump'', \<lambda>k. k\<lparr>k_max := 281474976710655\<rparr>)] =
      [(''currentOffset'', plain_key 2147483647 False), (''jumpSeconds'', plain_key 2147483647 False),
       (''keyField'', plain_key 255 False), (''timeOfNextJump'', plain_key 281474976710655 False)]"
    by (simp add: plain_key_def new_val_key_def)
  from with_keys_numbers [OF assms [unfolded build_ALTERNATE_TIME_OFFSET_PROPERTIES_def] f] show ?thesis
    by (auto simp: list_all2_Cons1 kget_def plain_key_range intro!: word_of_int_48)
qed

lemmas build_defs = build_USER_DESCRIPTION_def build_INITIALIZE_def build_PRIORITY1_def
  build_PRIORITY2_def build_DOMAIN_def build_SLAVE_ONLY_def
  build_LOG_ANNOUNCE_INTERVAL_def build_ANNOUNCE_RECEIPT_TIMEOUT_def build_LOG_SYNC_INTERVAL_def
  build_VERSION_NUMBER_def build_TIME_def build_CLOCK_ACCURACY_def
  build_UTC_PROPERTIES_def build_TRACEABILITY_PROPERTIES_def build_TIMESCALE_PROPERTIES_def
  build_UNICAST_NEGOTIATION_ENABLE_def build_PATH_TRACE_ENABLE_def build_GRANDMASTER_CLUSTER_TABLE_def
  build_UNICAST_MASTER_TABLE_def build_ACCEPTABLE_MASTER_TABLE_def build_ACCEPTABLE_MASTER_TABLE_ENABLED_def
  build_ALTERNATE_MASTER_def build_ALTERNATE_TIME_OFFSET_ENABLE_def build_ALTERNATE_TIME_OFFSET_NAME_def
  build_ALTERNATE_TIME_OFFSET_PROPERTIES_def build_LOG_MIN_PDELAY_REQ_INTERVAL_def build_PRIMARY_DOMAIN_def
  build_DELAY_MECHANISM_def build_EXTERNAL_PORT_CONFIGURATION_ENABLED_def build_MASTER_ONLY_def
  build_HOLDOVER_UPGRADE_ENABLE_def build_EXT_PORT_CONFIG_PORT_DATA_SET_def build_GRANDMASTER_SETTINGS_NP_def
  build_PORT_DATA_SET_NP_def build_SUBSCRIBE_EVENTS_NP_def build_SYNCHRONIZATION_UNCERTAIN_NP_def

text \<open>The two ids whose value is a text; the length of a text is not checked.\<close>

fun short_text :: "BaseMngTlv \<Rightarrow> bool" where
  "short_text (TLV_USER_DESCRIPTION d) = (length (textField (USER_DESCRIPTION_t.userDescription d)) < 256)"
| "short_text (TLV_ALTERNATE_TIME_OFFSET_NAME d) = (length (textField (ALTERNATE_TIME_OFFSET_NAME_t.displayName d)) < 256)"
| "short_text _ = True"

lemma event_bit_length [simp]: "length (event_bit n ev ks bits) = length bits"
  by (simp add: event_bit_def)

lemma call_data_ok:
  assumes "call_data junk tid buf save = Some (Some t)"
  shows "tlv_type t = tid \<and> (ok_tlv t \<longleftrightarrow> short_text t)"
proof (cases "tid = TIME \<or> tid = ALTERNATE_TIME_OFFSET_PROPERTIES")
  case True
  then show ?thesis
    using assms build_TIME_range [of buf save t] build_OFFSET_range [of buf save t]
    by (auto simp: call_data_def ok_TIME_def ok_Timestamp_def ok_ALTERNATE_TIME_OFFSET_PROPERTIES_def)
next
  case False
  then show ?thesis
    using assms unfolding call_data_def
    by (auto simp: build_defs ok_USER_DESCRIPTION_def ok_ALTERNATE_TIME_OFFSET_NAME_def ok_PTPText_def
        ok_SUBSCRIBE_EVENTS_NP_def EVENT_BITMASK_CNT_def dest!: with_keys_result split: if_splits)
qed

section \<open>Numbers\<close>

lemma dec_digits: "\<forall>c\<in>set (dec n). \<exists>d<10. c = digit d"
proof (induction n rule: dec.induct)
  case (1 n)
  have "\<exists>d<10. digit (n mod 10) = digit d" by (rule exI [of _ "n mod 10"]) simp
  then show ?case using 1 by (subst dec.simps) auto
qed

lemma dec_ne [simp]: "dec n \<noteq> []"
  by (subst dec.simps) simp

lemma digits_val_snoc: "d < 10 \<Longrightarrow> digits_val b (s @ [digit d]) = digits_val b s * b + d"
  using digit_facts(6) [of d] by (simp add: digits_val_def)

lemma digits_val_dec: "digits_val 10 (dec n) = n"
proof (induction n rule: dec.induct)
  case (1 n)
  show ?case
  proof (cases "n < 10")
    case True
    then show ?thesis using digits_val_snoc [of n 10 "[]"] by (subst dec.simps) (simp add: digits_val_def)
  next
    case False
    then show ?thesis using 1 by (subst dec.simps) (simp add: digits_val_snoc)
  qed
qed

lemma hd_dec: "0 < n \<Longrightarrow> \<exists>d. 0 < d \<and> d < 10 \<and> hd (dec n) = digit d"
proof (induction n rule: dec.induct)
  case (1 n)
  then show ?case by (cases "n < 10") (subst dec.simps, force)+
qed

lemma digit_inj: "a < 10 \<Longrightarrow> b < 10 \<Longrightarrow> digit a = digit b \<Longrightarrow> a = b"
proof -
  assume a: "a < 10" "b < 10" "digit a = digit b"
  have "digit_val (digit a) = Some a" "digit_val (digit b) = Some b" by (rule digit_facts(6), use a(1,2) in simp)+
  with a(3) show ?thesis by (metis option.inject)
qed

lemma strtol_dec:
  assumes "n < 2 ^ 63"
  shows "strtol 0 (dec n) = (int n, [])"
proof (cases "n = 0")
  case True
  have "strtol 0 (dec 0) = (0, [])" by code_simp
  with True show ?thesis by simp
next
  case False
  obtain d where d: "0 < d" "d < 10" "hd (dec n) = digit d" using hd_dec False by blast
  have dg: "\<forall>c\<in>set (dec n). is_digit 10 c" using dec_digits [of n] is_digit_digit [of _ 10] by fastforce
  obtain c cs where c: "dec n = c # cs" by (cases "dec n") simp_all
  have cd: "c = digit d" using c d(3) by simp
  have z: "c \<noteq> CHR ''0''"
  proof
    assume "c = CHR ''0''"
    then have "digit d = digit 0" using cd by (simp add: digit_def)
    then show False using digit_inj [of d 0] d by simp
  qed
  have "\<not> isspace c" "c \<noteq> CHR ''-''" "c \<noteq> CHR ''+''" using digit_facts [of d] d(2) cd by simp_all
  moreover have "hex_prefix (dec n) = False" using c z by (auto simp: hex_prefix_def split: list.splits)
  moreover have "takeWhile (is_digit 10) (dec n) = dec n" using dg by (simp add: takeWhile_eq_all_conv)
  moreover have "int n \<le> LONG_MAX" "LONG_MIN \<le> int n" using assms by (simp_all add: LONG_MAX_def LONG_MIN_def)
  ultimately show ?thesis
    using c z by (simp add: strtol_def strtol_sign_def strtol_base_def digits_val_dec [of n, unfolded c] Let_def)
qed

lemma dec_chars: "c \<in> set (dec n) \<Longrightarrow> c \<noteq> NUL \<and> c \<notin> set toksep"
proof -
  assume "c \<in> set (dec n)"
  then obtain d where "d < 10" "c = digit d" using dec_digits by blast
  then have "\<not> isspace c" "c \<noteq> NUL" using digit_facts [of d] by simp_all
  moreover have "\<forall>x\<in>set toksep. isspace x" by code_simp
  ultimately show ?thesis by blast
qed

lemma cstr_at_app: "NUL \<notin> set s \<Longrightarrow> cstr_at (s @ NUL # rest) 0 = Some s"
  by (auto simp: cstr_at_def c_str_def takeWhile_append)

lemma keys_made:
  "foldl (\<lambda>ks (n, u). kset n u ks) [] [(nm, f)] = [(nm, f new_val_key)]"
  "foldl (\<lambda>ks (n, u). kset n u ks) [] [(nm, f), (nm, g)] = [(nm, g (f new_val_key))]"
  by simp_all

section \<open>Quotes\<close>

lemma skip_seps_gap:
  "\<forall>x\<in>set gap. x \<in> set toksep \<or> x = NUL \<Longrightarrow> c \<notin> set toksep \<Longrightarrow> c \<noteq> NUL \<Longrightarrow>
   i \<le> length gap \<Longrightarrow> skip_seps (gap @ c # rest) i = Some (length gap)"
proof (induction "length gap - i" arbitrary: i)
  case 0
  then show ?case by (subst skip_seps.simps) (simp add: nth_append)
next
  case (Suc x)
  then have "gap ! i \<in> set toksep \<or> gap ! i = NUL" by (metis nth_mem zero_less_Suc zero_less_diff)
  with Suc show ?case by (subst skip_seps.simps) (simp add: nth_append)
qed

lemma skip_seps_out: "\<forall>x\<in>set gap. x \<in> set toksep \<or> x = NUL \<Longrightarrow> skip_seps gap i = None"
  by (induction gap i rule: skip_seps.induct) (subst skip_seps.simps, auto dest: nth_mem)

lemma find_close_at:
  "c \<notin> set str \<Longrightarrow> NUL \<notin> set str \<Longrightarrow> CHR 0x5C \<notin> set str \<Longrightarrow> x \<noteq> CHR 0x5C \<Longrightarrow>
   find_close (pre @ x # str @ c # rest) (Suc (length pre)) c = Some (Some (Suc (length pre + length str)))"
proof (induction str arbitrary: pre x)
  case Nil
  then show ?case by (subst find_close.simps) (simp add: nth_append)
next
  case (Cons a str)
  then have "find_close ((pre @ [x]) @ a # str @ c # rest) (Suc (length (pre @ [x]))) c =
      Some (Some (Suc (length (pre @ [x]) + length str)))" by (intro Cons.IH) auto
  with Cons.prems show ?case by (subst find_close.simps) (auto simp: nth_append)
qed

lemma unescape_id: "CHR 0x5C \<notin> set str \<Longrightarrow> unescape str = Some str"
  by (induction str) auto

lemma parse_quote_past:
  assumes "\<forall>x\<in>set gap. x \<in> set toksep \<or> x = NUL" and "c = CHR 0x22 \<or> c = CHR 0x27"
    and "c \<notin> set str" and "NUL \<notin> set str" and "CHR 0x5C \<notin> set str"
  shows "parse_quote (gap @ c # str @ c # rest) 0 None =
    Some (Quoted (length gap + 1) (length gap + length str + 2), gap @ c # str @ NUL # rest)"
proof -
  have c: "c \<notin> set toksep" "c \<noteq> NUL" "c \<noteq> CHR 0x5C" using assms(2) by (auto simp: toksep_def)
  note s = skip_seps_gap [OF assms(1) c(1,2), of 0 "str @ c # rest"]
  note f = find_close_at [OF assms(3,4,5) c(3), of gap rest]
  have "patch (Suc (length gap)) (str @ [NUL]) ((gap @ c # str @ c # rest)[Suc (length gap + length str) := NUL]) =
      gap @ c # str @ NUL # rest"
    by (simp add: patch_def list_update_append)
  then show ?thesis
    using assms(2) c(2) s f unescape_id [OF assms(5)] by (auto simp: parse_quote_def pos_def Let_def)
qed

section \<open>Properties\<close>

text \<open>
  Property C38. Whatever follows the id on a command line, and whatever lies behind it in memory: the
  TLV made of it is the structure of that id, with values \<^verbatim>\<open>build\<close> can send, unless it is a text
  of 256 characters or more.
\<close>

theorem command_data_ok:
  assumes "call_data junk tid buf save = Some (Some t)"
  shows "tlv_type t = tid \<and> (ok_tlv t \<longleftrightarrow> short_text t)"
  using assms by (rule call_data_ok)

theorem command_data_ok_witness:
  "\<exists>t. call_data 0 TIME (''x secondsField 12 nanosecondsField 0x10'' @ [NUL]) 1 = Some (Some t) \<and> tlv_type t = TIME \<and> ok_tlv t"
proof -
  have c: "call_data 0 TIME (''x secondsField 12 nanosecondsField 0x10'' @ [NUL]) 1 =
      Some (Some (TLV_TIME \<lparr>currentTime = \<lparr>secondsField = 12, nanosecondsField = 16\<rparr>\<rparr>))" by code_simp
  then show ?thesis using command_data_ok [OF c] by simp
qed

text \<open>
  Looking for a quoted value, \<^verbatim>\<open>parse_quote\<close> does not stop at the end of the line: it
  takes a quoted text behind it for the value, and when there is none it leaves the memory block.
\<close>

lemma quote_runs_past_end:
  assumes "\<forall>x\<in>set gap. x \<in> set toksep \<or> x = NUL" and "c = CHR 0x22 \<or> c = CHR 0x27"
    and "c \<notin> set str" and "NUL \<notin> set str" and "CHR 0x5C \<notin> set str"
  shows "parse_quote (gap @ c # str @ c # rest) 0 None =
      Some (Quoted (length gap + 1) (length gap + length str + 2), gap @ c # str @ NUL # rest) \<and>
    parse_quote gap 0 None = None"
  using parse_quote_past [OF assms] skip_seps_out [OF assms(1)] by (simp add: parse_quote_def pos_def)

lemma quote_runs_past_end_example:
  "parse_quote ([NUL, CHR '' ''] @ CHR 0x22 # ''old'' @ CHR 0x22 # [NUL]) 0 None =
     Some (Quoted 3 7, [NUL, CHR '' ''] @ CHR 0x22 # ''old'' @ NUL # [NUL]) \<and>
   parse_quote [NUL, CHR '' ''] 0 None = None"
  using quote_runs_past_end [of "[NUL, CHR '' '']" "CHR 0x22" "''old''" "[NUL]"] by (simp add: toksep_def)

end
