(* ===== verification/DumpBack.thy ===== *)
theory DumpBack
  imports CmdLaws Dump
begin

text \<open>
  The text the tool prints of a value is a command line that sets it: the tokens of a line that
  names the only key of a command, and the round trip through \<^verbatim>\<open>dump\<close> and \<^verbatim>\<open>call_data\<close>.
\<close>

lemma cstr_at_mid: "NUL \<notin> set s \<Longrightarrow> cstr_at (pre @ s @ NUL # rest) (length pre) = Some s"
  using cstr_at_app [of s rest] by (simp add: cstr_at_def)

lemma toksep_NUL: "NUL \<notin> set toksep"
  by (simp add: toksep_def)

lemma strtok_word:
  assumes "\<forall>c\<in>set gap. c \<in> set toksep" "word \<noteq> []" "\<forall>c\<in>set word. c \<noteq> NUL \<and> c \<notin> set toksep"
    "x = NUL \<or> x \<in> set toksep \<and> NUL \<in> set rest"
  shows "strtok_r (pre @ gap @ word @ x # rest) (length pre) =
    Some (Some (length pre + length gap), pre @ gap @ word @ NUL # rest,
      length pre + length gap + length word + (if x = NUL then 0 else 1))"
proof -
  let ?t = "if x = NUL then [] else x # takeWhile (\<lambda>c. c \<noteq> NUL) rest"
  have g: "NUL \<notin> set (gap @ word)" using assms(1,3) toksep_NUL by auto
  have c: "cstr_at (pre @ gap @ word @ x # rest) (length pre) = Some (gap @ word @ ?t)"
    using assms(4) g by (auto simp: cstr_at_def c_str_def takeWhile_append)
  have d: "dropWhile (\<lambda>c. c \<in> set toksep) (gap @ word @ ?t) = word @ ?t"
    using assms(1,2,3) by (cases word) (auto simp: dropWhile_append)
  have w: "takeWhile (\<lambda>c. c \<notin> set toksep) (word @ ?t) = word"
    using assms(3,4) toksep_NUL by (auto simp: takeWhile_append)
  have u: "(pre @ gap @ word @ x # rest)[length pre + length gap + length word := NUL] = pre @ gap @ word @ NUL # rest"
    by (simp add: list_update_append)
  show ?thesis using assms(2) c d w u by (auto simp: strtok_r_def Let_def simp del: takeWhile_eq_all_conv)
qed

text \<open>A line with the name of the only key, whatever it is, and the number.\<close>

lemma single_named:
  assumes "\<not> k_can_str k" "k_handle k = NoHandle" "k_base k = 0"
    "if k_flag k then n < 256 else k_min k \<le> int n \<and> int n \<le> k_max k" "n < 2 ^ 63"
    "\<forall>c\<in>set gap. c \<in> set toksep" "word \<noteq> []" "\<forall>c\<in>set word. c \<noteq> NUL \<and> c \<notin> set toksep" "x \<in> set toksep"
  shows "\<exists>b k'. parseKeysFunc (pre @ gap @ word @ x # dec n @ NUL # rest) (length pre) [(nm, k)] =
    Some (False, b, [(nm, k')]) \<and> k_num k' = int n"
proof -
  let ?buf = "pre @ gap @ word @ x # dec n @ NUL # rest" and ?cut = "pre @ gap @ word @ NUL # dec n @ NUL # rest"
  let ?q = "length pre + length gap" and ?p = "length pre + length gap + length word + 1"
  have x: "x \<noteq> NUL" using assms(9) toksep_NUL by blast
  have t1: "strtok_r ?buf (length pre) = Some (Some ?q, ?cut, ?p)"
    using strtok_word [OF assms(6,7,8), of x "dec n @ NUL # rest" pre] x assms(9) by simp
  have t2: "strtok_r ?cut ?p = Some (Some ?p, ?cut, ?p + length (dec n))"
    using strtok_word [of "[]" "dec n" NUL rest "pre @ gap @ word @ [NUL]"] dec_chars by (simp add: add.assoc)
  have t3: "strtok_r ?cut (?p + length (dec n)) = Some (None, ?cut, ?p + length (dec n))"
    using cstr_at_mid [of "[]" "pre @ gap @ word @ NUL # dec n" rest] by (simp add: strtok_r_def add.assoc)
  have c1: "cstr_at ?cut ?q = Some word" using cstr_at_mid [of word "pre @ gap"] assms(8) by auto
  have c2: "cstr_at ?cut ?p = Some (dec n)"
    using cstr_at_mid [of "dec n" "pre @ gap @ word @ [NUL]" rest] dec_chars by (auto simp: add.assoc)
  have r1: "\<exists>k'. key_round ?buf (length pre) None (key_defaults [(nm, k)]) = Some (Again, ?cut, ?p + length (dec n), None, [(nm, k')]) \<and>
      \<not> k_req k' \<and> \<not> k_can_str k' \<and> k_num k' = int n"
    using assms(1-5) t1 t2 c1 c2
    by (auto simp: key_round_def next_tok_def pos_def key_defaults_def kget_def kput_def take_value_def
        number_value_def strtol_dec Let_def)
  then obtain k' where k: "key_round ?buf (length pre) None (key_defaults [(nm, k)]) = Some (Again, ?cut, ?p + length (dec n), None, [(nm, k')])"
      "\<not> k_req k'" "\<not> k_can_str k'" "k_num k' = int n" by blast
  have "key_round ?cut (?p + length (dec n)) None [(nm, k')] = Some (Break, ?cut, ?p + length (dec n), None, [(nm, k')])"
    using k(3) t3 by (simp add: key_round_def next_tok_def pos_def)
  then have "parseKeys_loop ?buf (length pre) None (key_defaults [(nm, k)]) = Some (False, ?cut, [(nm, k')])"
    using k(1) by (subst parseKeys_loop.simps) (simp add: parseKeys_loop.simps [of ?cut])
  then show ?thesis using k(2,4) by (simp add: parseKeysFunc_def)
qed

lemma with_single_named:
  assumes "foldl (\<lambda>ks (n, u). kset n u ks) [] us = [(nm, k)]"
    and "\<not> k_can_str k" "k_handle k = NoHandle" "k_base k = 0"
    and "if k_flag k then n < 256 else k_min k \<le> int n \<and> int n \<le> k_max k" "n < 2 ^ 63"
    and "word \<noteq> []" "\<forall>c\<in>set word. c \<noteq> NUL \<and> c \<notin> set toksep"
    and "\<And>b k'. k_num k' = int n \<Longrightarrow> f b [(nm, k')] = Some t"
    and "txt = IDENT @ (word @ '' '') @ dec n"
  shows "with_keys us (pre @ txt @ NUL # rest) (length pre) f = Some (Some t)"
proof -
  have "\<forall>c\<in>set IDENT. c \<in> set toksep" "CHR '' '' \<in> set toksep" by (simp_all add: IDENT_def toksep_def)
  from single_named [OF assms(2-6) this(1) assms(7,8) this(2), of pre rest nm]
  show ?thesis using assms(1,9,10) by (auto simp: with_keys_def)
qed

section \<open>Values of one number\<close>

fun one_number :: "BaseMngTlv \<Rightarrow> bool" where
  "one_number (TLV_PRIORITY1 _) = True"
| "one_number (TLV_PRIORITY2 _) = True"
| "one_number (TLV_DOMAIN _) = True"
| "one_number (TLV_PRIMARY_DOMAIN _) = True"
| "one_number (TLV_INITIALIZE _) = True"
| "one_number (TLV_SLAVE_ONLY _) = True"
| "one_number (TLV_ANNOUNCE_RECEIPT_TIMEOUT _) = True"
| "one_number (TLV_SYNCHRONIZATION_UNCERTAIN_NP _) = True"
| "one_number _ = False"

lemma number_bounds:
  "unat (v :: u8) < 256" "uint v \<le> 255" "unat v < 2 ^ 63" "unat (w :: u16) < 65536" "uint w \<le> 65535" "unat w < 2 ^ 63"
proof -
  have "unat v < 2 ^ LENGTH(8)" "unat w < 2 ^ LENGTH(16)" "uint w < 2 ^ LENGTH(16)"
    by (rule unsigned_less uint_lt2p)+
  then show "unat v < 256" "uint v \<le> 255" "unat v < 2 ^ 63" "unat w < 65536" "uint w \<le> 65535" "unat w < 2 ^ 63"
    using uint_byte(2) [of v] by simp_all
qed

lemmas named_number = with_single_named [OF keys_made(1)] with_single_named [OF keys_made(2)]

lemmas read_back_simps = new_val_key_def kget_def toksep_def number_bounds [simplified]

lemma back_PRIORITY1: "build_PRIORITY1 (pre @ dump_PRIORITY1 d @ NUL # rest) (length pre) = Some (Some (TLV_PRIORITY1 d))"
  unfolding build_PRIORITY1_def
  by (rule named_number(2) [where word = "''priority1''" and n = "unat (PRIORITY1_t.priority1 d)"])
    (simp_all add: read_back_simps dump_PRIORITY1_def)

lemma back_PRIORITY2: "build_PRIORITY2 (pre @ dump_PRIORITY2 d @ NUL # rest) (length pre) = Some (Some (TLV_PRIORITY2 d))"
  unfolding build_PRIORITY2_def
  by (rule named_number(2) [where word = "''priority2''" and n = "unat (PRIORITY2_t.priority2 d)"])
    (simp_all add: read_back_simps dump_PRIORITY2_def)

lemma back_DOMAIN: "build_DOMAIN (pre @ dump_DOMAIN d @ NUL # rest) (length pre) = Some (Some (TLV_DOMAIN d))"
  unfolding build_DOMAIN_def
  by (rule named_number(1) [where word = "''domainNumber''" and n = "unat (DOMAIN_t.domainNumber d)"])
    (simp_all add: read_back_simps dump_DOMAIN_def)

lemma back_PRIMARY_DOMAIN: "build_PRIMARY_DOMAIN (pre @ dump_PRIMARY_DOMAIN d @ NUL # rest) (length pre) = Some (Some (TLV_PRIMARY_DOMAIN d))"
  unfolding build_PRIMARY_DOMAIN_def
  by (rule named_number(1) [where word = "''primaryDomain''" and n = "unat (PRIMARY_DOMAIN_t.primaryDomain d)"])
    (simp_all add: read_back_simps dump_PRIMARY_DOMAIN_def)

lemma back_INITIALIZE: "build_INITIALIZE (pre @ dump_INITIALIZE d @ NUL # rest) (length pre) = Some (Some (TLV_INITIALIZE d))"
  unfolding build_INITIALIZE_def
  by (rule named_number(2) [where word = "''initializationKey''" and n = "unat (INITIALIZE_t.initializationKey d)"])
    (simp_all add: read_back_simps dump_INITIALIZE_def)

lemma back_SLAVE_ONLY: "build_SLAVE_ONLY (pre @ dump_SLAVE_ONLY d @ NUL # rest) (length pre) = Some (Some (TLV_SLAVE_ONLY d))"
  unfolding build_SLAVE_ONLY_def
  by (rule named_number(1) [where word = "''slaveOnly''" and n = "unat (SLAVE_ONLY_t.flags d)"])
    (simp_all add: read_back_simps dump_SLAVE_ONLY_def)

lemma back_ANNOUNCE_RECEIPT_TIMEOUT: "build_ANNOUNCE_RECEIPT_TIMEOUT (pre @ dump_ANNOUNCE_RECEIPT_TIMEOUT d @ NUL # rest) (length pre) = Some (Some (TLV_ANNOUNCE_RECEIPT_TIMEOUT d))"
  unfolding build_ANNOUNCE_RECEIPT_TIMEOUT_def
  by (rule named_number(2) [where word = "''announceReceiptTimeout''" and n = "unat (ANNOUNCE_RECEIPT_TIMEOUT_t.announceReceiptTimeout d)"])
    (simp_all add: read_back_simps dump_ANNOUNCE_RECEIPT_TIMEOUT_def)

lemma back_SYNCHRONIZATION_UNCERTAIN_NP: "build_SYNCHRONIZATION_UNCERTAIN_NP (pre @ dump_SYNCHRONIZATION_UNCERTAIN_NP d @ NUL # rest) (length pre) = Some (Some (TLV_SYNCHRONIZATION_UNCERTAIN_NP d))"
  unfolding build_SYNCHRONIZATION_UNCERTAIN_NP_def
  by (rule named_number(2) [where word = "''uncertain''" and n = "unat (SYNCHRONIZATION_UNCERTAIN_NP_t.uncertain_val d)"])
    (simp_all add: read_back_simps dump_SYNCHRONIZATION_UNCERTAIN_NP_def)

lemmas reads_back = back_PRIORITY1 back_PRIORITY2 back_DOMAIN back_PRIMARY_DOMAIN
  back_INITIALIZE back_SLAVE_ONLY back_ANNOUNCE_RECEIPT_TIMEOUT back_SYNCHRONIZATION_UNCERTAIN_NP

text \<open>
  The text the tool prints of a received value, given to it as the values of a command
  line for the same id, sets that value again, for the ids whose value is one unsigned number;
  whatever stands before the values and whatever follows the line in memory.
\<close>

lemma dump_read_back:
  assumes "one_number t"
  shows "call_data junk (tlv_type t) (pre @ dump_tlv inet_ntop t @ NUL # rest) (length pre) = Some (Some t)"
  using assms by (cases t) (simp_all add: call_data_def reads_back)

end
