(* ===== verification/Pmc.thy ===== *)
theory Pmc
  imports SockLaws DumpBack
begin

text \<open>
  The \<^verbatim>\<open>pmc\<close> tool, \<^verbatim>\<open>src/pmc.cpp\<close>: the static objects of the file are the record \<open>pmc\<close>, with the
  text printed so far and the number of structures \<^verbatim>\<open>call_data\<close> allocated that were not deleted.
  What is written to the standard error stream is left out. A function returns \<^term>\<open>None\<close> when the
  C++ code would leave a memory block, use a null pointer or overflow a signed counter.
\<close>

section \<open>Static objects\<close>

definition pmc_wait :: u64 where "pmc_wait = 500"

definition pmc_bufSize :: nat where "pmc_bufSize = 2000"

record pmc =
  p_buf :: "byte list"
  p_msg :: Message
  p_sk :: Sock
  p_use_uds :: bool
  p_timeout :: u64
  p_seq :: int
  p_out :: string
  p_live :: nat

definition say :: "string \<Rightarrow> pmc \<Rightarrow> pmc" where
  "say t p = p\<lparr>p_out := p_out p @ t\<rparr>"

abbreviation LF :: char where "LF \<equiv> CHR 0x0A"

section \<open>Texts\<close>

definition dump_head :: "actionField_e \<Rightarrow> Message \<Rightarrow> string" where
  "dump_head act m = [CHR 0x09] @ PortIdentity_string (Message.m_peer m) @ '' seq '' @ dec (unat (m_sequence m)) @
     '' '' @ act2str_c act @ '' MANAGEMENT '' @ mng2str_c (m_tlv_id m) @ '' ''"

definition dump_sig :: "Message \<Rightarrow> string" where
  "dump_sig m = [CHR 0x09] @ PortIdentity_string (Message.m_peer m) @ '' seq '' @ dec (unat (m_sequence m)) @
     '' SIGNALING'' @ [LF]"

definition dump_err :: "Message \<Rightarrow> string" where
  "dump_err m = [CHR 0x09] @ PortIdentity_string (Message.m_peer m) @ '' seq '' @ dec (unat (m_sequence m)) @
     '' '' @ act2str_c (m_replyAction m) @ '' MANAGEMENT_ERROR_STATUS '' @ mng2str_c (m_tlv_id m) @ [LF] @
     [CHR 0x09] @ ''ERROR: '' @ errId2str_c (m_errorId m) @ ''('' @ dec (unat (m_errorId m)) @ '')'' @ [LF] @
     [CHR 0x09] @ ''ERROR DISPLAY: '' @ c_str (textField (m_errorDisplay m)) @ [LF, LF]"

section \<open>Target of the messages\<close>

text \<open>\<^verbatim>\<open>updatePortIdentity\<close> on the text at position \<open>str\<close> of the block \<open>buf\<close>.\<close>

definition updatePortIdentity :: "MsgParams \<Rightarrow> string \<Rightarrow> nat \<Rightarrow> (bool \<times> string \<times> MsgParams) option" where
  "updatePortIdentity prms buf str =
     (case cstr_at buf str of
        None \<Rightarrow> None
      | Some s \<Rightarrow>
          if CHR ''-'' \<notin> set s then Some (False, buf, prms)
          else
            let k = length (takeWhile (\<lambda>c. c \<noteq> CHR ''-'') s);
                buf' = buf[str + k := NUL];
                (ok, nc) = fromHex (take k s) [];
                (val, end) = strtol 0 (drop (k + 1) s)
            in if \<not> ok \<or> length nc \<noteq> 8 then Some (False, buf', prms)
               else if end \<noteq> [] \<or> val < 0 \<or> val > 65535 then Some (False, buf', prms)
               else Some (True, buf', prms\<lparr>target := \<lparr>PortIdentity_t.clockIdentity = \<lparr>v_octets = nc\<rparr>,
                      portNumber = word_of_int val\<rparr>\<rparr>))"

section \<open>Sending\<close>

definition INT_MAX :: int where "INT_MAX = 2 ^ 31 - 1"

definition sendAction :: "'w os \<Rightarrow> pmc \<Rightarrow> 'w \<Rightarrow> (bool \<times> pmc \<times> 'w) option" where
  "sendAction os p w =
     (case build (Some (p_buf p)) pmc_bufSize (word_of_int (p_seq p)) (p_msg p) of
        None \<Rightarrow> None
      | Some (err, m) \<Rightarrow>
          let p1 = p\<lparr>p_buf := mem m, p_msg := m\<rparr>
          in if err \<noteq> MNG_PARSE_ERROR_OK then Some (False, say (''build error '' @ err2str_c err @ [LF]) p1, w)
             else
               let (ok, w') = sk_send os (take (m_msgLen m) (p_buf p1)) (p_sk p1) w
               in if \<not> ok then Some (False, p1, w')
                  else if p_seq p1 = INT_MAX then None
                  else Some (True, p1\<lparr>p_seq := p_seq p1 + 1\<rparr>, w'))"

section \<open>Receiving\<close>

text \<open>\<^verbatim>\<open>call_dumpSig\<close> as a callback: what it printed so far, or \<^term>\<open>None\<close> after it used a null pointer.\<close>

definition dumpSig_callback :: "tlvType_e \<Rightarrow> BaseSigTlv option \<Rightarrow> string option \<Rightarrow> bool \<times> string option" where
  "dumpSig_callback type tlv printed =
     (case printed of
        None \<Rightarrow> (True, None)
      | Some t \<Rightarrow>
          (case call_dumpSig type tlv of None \<Rightarrow> (True, None) | Some (r, t') \<Rightarrow> (r, Some (t @ t'))))"

definition rcv :: "(domain \<Rightarrow> byte list \<Rightarrow> string option) \<Rightarrow> 'w os \<Rightarrow> pmc \<Rightarrow> 'w \<Rightarrow> (int \<times> pmc \<times> 'w) option" where
  "rcv inet_ntop os p w =
     (let (cnt, b, s, w') = sk_rcv os (p_buf p) pmc_bufSize True (p_sk p) w;
          p1 = p\<lparr>p_buf := b, p_sk := s\<rparr>
      in if cnt < 0 then Some (- 1, p1, w')
         else
           (case parse (p_buf p1) cnt (p_msg p1) of
              None \<Rightarrow> None
            | Some (err, m) \<Rightarrow>
                let p2 = p1\<lparr>p_msg := m\<rparr>
                in if err = MNG_PARSE_ERROR_MSG then Some (- 1, say (dump_err m) p2, w')
                   else if err = MNG_PARSE_ERROR_OK then
                     (case call_dump inet_ntop m None of
                        None \<Rightarrow> None
                      | Some t \<Rightarrow> Some (0, say (dump_head (m_replyAction m) m @ t) p2, w'))
                   else if err = MNG_PARSE_ERROR_SIG then
                     (case snd (traversSigTlvs dumpSig_callback m (Some [])) of
                        None \<Rightarrow> None
                      | Some t \<Rightarrow> Some (1, say (dump_sig m @ t) p2, w'))
                   else if (err = MNG_PARSE_ERROR_ACTION \<or> err = MNG_PARSE_ERROR_HEADER) \<and> \<not> p_use_uds p2 then
                     Some (1, p2, w')
                   else Some (- 1, say (''Parse error '' @ err2str_c err @ [LF]) p2, w')))"

text \<open>
  The loop of \<^verbatim>\<open>rcv_timeout\<close>. How long it runs depends on what arrives: \<^term>\<open>None\<close> is a loop that
  does not end, \<^term>\<open>Some None\<close> a wrong memory access.
\<close>

partial_function (option) rcv_loop :: "(domain \<Rightarrow> byte list \<Rightarrow> string option) \<Rightarrow> 'w os \<Rightarrow> pmc \<Rightarrow> 'w \<Rightarrow>
    (pmc \<times> 'w) option option" where
  [code]: "rcv_loop inet_ntop os p w =
     (case sk_tpoll os (p_timeout p) (p_sk p) w of
        None \<Rightarrow> Some None
      | Some (rdy, t, w1) \<Rightarrow>
          if \<not> rdy then Some (Some (p\<lparr>p_timeout := t\<rparr>, w1))
          else
            (case rcv inet_ntop os (p\<lparr>p_timeout := t\<rparr>) w1 of
               None \<Rightarrow> Some None
             | Some (r, p2, w2) \<Rightarrow>
                 if r = 1 \<and> p_timeout p2 > 0 then rcv_loop inet_ntop os p2 w2 else Some (Some (p2, w2))))"

definition rcv_timeout :: "(domain \<Rightarrow> byte list \<Rightarrow> string option) \<Rightarrow> 'w os \<Rightarrow> pmc \<Rightarrow> 'w \<Rightarrow>
    (pmc \<times> 'w) option option" where
  "rcv_timeout inet_ntop os p w = rcv_loop inet_ntop os (p\<lparr>p_timeout := pmc_wait\<rparr>) w"

section \<open>Command lines\<close>

fun find_loop :: "string \<Rightarrow> mng_vals_e list \<Rightarrow> mng_vals_e option \<Rightarrow> nat \<Rightarrow> mng_vals_e option" where
  "find_loop str [] tid n = (if n = 1 then tid else None)"
| "find_loop str (i # rest) tid n =
     (if mng2str_c i = str then Some i
      else if n < 2 \<and> take (length str) (mng2str_c i) = str then find_loop str rest (Some i) (n + 1)
      else find_loop str rest tid n)"

text \<open>\<^verbatim>\<open>findId\<close>: the block with the word in upper case, and the id.\<close>

definition findId :: "string \<Rightarrow> nat \<Rightarrow> (string \<times> mng_vals_e option) option" where
  "findId buf str =
     (case cstr_at buf str of
        None \<Rightarrow> None
      | Some s \<Rightarrow>
          if s = [] then Some (buf, None)
          else
            let up = map toupper s; buf' = patch str up buf
            in if strstr up ''NULL'' then Some (buf', Some NULL_PTP_MANAGEMENT)
               else Some (buf', find_loop up [FIRST_MNG_ID..<LAST_MNG_ID + 1] None 0))"

definition action_of :: "string \<Rightarrow> actionField_e option" where
  "action_of cur =
     (if strcaseeq cur ''get'' then Some GET
      else if strcaseeq cur ''set'' then Some SET
      else if strcaseeq cur ''cmd'' \<or> strcaseeq cur ''command'' then Some COMMAND
      else None)"

definition target_line :: "string \<Rightarrow> nat \<Rightarrow> pmc \<Rightarrow> pmc option" where
  "target_line buf save p = do {
     (t, b, save') \<leftarrow> strtok_r buf save;
     case t of
       None \<Rightarrow> Some p
     | Some c \<Rightarrow> do {
         cur \<leftarrow> cstr_at b c;
         if cur = [] then Some p
         else if hd cur = CHR ''*'' then Some (p\<lparr>p_msg := setAllClocks (p_msg p)\<rparr>)
         else do {
           (ok, _, prms) \<leftarrow> updatePortIdentity (m_prms (p_msg p)) b c;
           Some (if ok then p\<lparr>p_msg := snd (updateParams prms (p_msg p))\<rparr> else p)
         }
       }
   }"

text \<open>Sending the message that was set, with a structure to delete afterwards or without.\<close>

definition send_line :: "'w os \<Rightarrow> mng_vals_e \<Rightarrow> bool \<Rightarrow> pmc \<Rightarrow> 'w \<Rightarrow> (bool \<times> pmc \<times> 'w) option" where
  "send_line os tid data p w =
     (case sendAction os p w of
        None \<Rightarrow> None
      | Some (False, p1, w1) \<Rightarrow> Some (False, p1, w1)
      | Some (True, p1, w1) \<Rightarrow>
          let p2 = say (''sending: '' @ act2str_c (m_sendAction (p_msg p1)) @ '' '' @ mng2str_c tid @ [LF]) p1
          in Some (True, if data then p2\<lparr>p_live := p_live p2 - 1\<rparr> else p2, w1))"

definition run_id :: "u8 \<Rightarrow> 'w os \<Rightarrow> actionField_e \<Rightarrow> mng_vals_e \<Rightarrow> string \<Rightarrow> nat \<Rightarrow> pmc \<Rightarrow> 'w \<Rightarrow>
    (bool \<times> pmc \<times> 'w) option" where
  "run_id junk os action tid buf save p w =
     (if action = GET \<or> isEmpty tid then
        (case setAction action tid (p_msg p) of
           (False, m) \<Rightarrow> Some (False, p\<lparr>p_msg := m\<rparr>, w)
         | (True, m) \<Rightarrow> send_line os tid False (p\<lparr>p_msg := m\<rparr>) w)
      else
        (case call_data junk tid buf save of
           None \<Rightarrow> None
         | Some None \<Rightarrow> Some (False, p, w)
         | Some (Some data) \<Rightarrow>
             (case setAction_data action tid data (p_msg p) of
                (False, m) \<Rightarrow> Some (False, p\<lparr>p_msg := m, p_live := p_live p + 1\<rparr>, w)
              | (True, m) \<Rightarrow> send_line os tid True (p\<lparr>p_msg := m, p_live := p_live p + 1\<rparr>) w)))"

definition run_line :: "u8 \<Rightarrow> 'w os \<Rightarrow> string \<Rightarrow> pmc \<Rightarrow> 'w \<Rightarrow> (bool \<times> pmc \<times> 'w) option" where
  "run_line junk os line p w = do {
     (t0, b0, save0) \<leftarrow> strtok_r line 0;
     case t0 of
       None \<Rightarrow> Some (False, p, w)
     | Some c0 \<Rightarrow> do {
         cur \<leftarrow> cstr_at b0 c0;
         case action_of cur of
           None \<Rightarrow>
             if strcaseeq cur ''target'' then map_option (\<lambda>p'. (False, p', w)) (target_line b0 save0 p)
             else Some (False, p, w)
         | Some action \<Rightarrow> do {
             (t1, b1, save1) \<leftarrow> strtok_r b0 save0;
             case t1 of
               None \<Rightarrow> Some (False, p, w)
             | Some c1 \<Rightarrow> do {
                 (b2, found) \<leftarrow> findId b1 c1;
                 case found of
                   None \<Rightarrow> Some (False, p, w)
                 | Some tid \<Rightarrow> run_id junk os action tid b2 save1 p w
               }
           }
       }
   }"

section \<open>Running\<close>

text \<open>
  What the tool takes from its surroundings: the version the build sets, the byte order, the conversions of the system, the files,
  the allocator of the configuration, what uninitialised memory holds, and the memory of the static
  \<^verbatim>\<open>Message\<close>.
\<close>

record pmc_env =
  e_maj :: int
  e_min :: int
  e_host :: byte_order
  e_ntop :: "domain \<Rightarrow> byte list \<Rightarrow> string option"
  e_pton :: "domain \<Rightarrow> string \<Rightarrow> byte list option"
  e_files :: "string \<Rightarrow> string option"
  e_cfg :: cfg_env
  e_cfgbuf :: string
  e_octet :: u8
  e_int :: int
  e_rx :: "byte list"
  e_msg :: Message

text \<open>
  Batch mode. An argument is the memory block from it on: the text, the zero that ends it and what
  lies behind.
\<close>

fun send_all :: "u8 \<Rightarrow> 'w os \<Rightarrow> string list \<Rightarrow> nat \<Rightarrow> pmc \<Rightarrow> 'w \<Rightarrow> (nat \<times> pmc \<times> 'w) option" where
  "send_all junk os [] pkts p w = Some (pkts, p, w)"
| "send_all junk os (a # args) pkts p w =
     (case run_line junk os a p w of
        None \<Rightarrow> None
      | Some (r, p1, w1) \<Rightarrow> send_all junk os args (if r then pkts + 1 else pkts) p1 w1)"

fun receive_all :: "(domain \<Rightarrow> byte list \<Rightarrow> string option) \<Rightarrow> 'w os \<Rightarrow> nat \<Rightarrow> pmc \<Rightarrow> 'w \<Rightarrow> (pmc \<times> 'w) option option" where
  "receive_all inet_ntop os 0 p w = Some (Some (p, w))"
| "receive_all inet_ntop os (Suc pkts) p w =
     (case rcv_timeout inet_ntop os p w of
        None \<Rightarrow> None
      | Some None \<Rightarrow> Some None
      | Some (Some (p1, w1)) \<Rightarrow> receive_all inet_ntop os pkts p1 w1)"

text \<open>\<^verbatim>\<open>fgets\<close> with the buffer of a line.\<close>

definition fgets_line :: "string \<Rightarrow> (string \<times> string) option" where
  "fgets_line inp =
     (if inp = [] then None
      else let n = min (pmc_bufSize - 1) (length (takeWhile (\<lambda>c. c \<noteq> LF) inp) + 1)
           in Some (take n inp, drop n inp))"

lemma fgets_line_less: "fgets_line inp = Some (line, rest) \<Longrightarrow> length rest < length inp"
  by (auto simp: fgets_line_def pmc_bufSize_def Let_def split: if_splits)

text \<open>
  Interactive mode with a Unix socket; \<open>inp\<close> is what is left of the standard input and \<open>old inp\<close> what
  the buffer of the line holds then.
\<close>

function uds_loop :: "pmc_env \<Rightarrow> 'w os \<Rightarrow> (string \<Rightarrow> string) \<Rightarrow> string \<Rightarrow> pmc \<Rightarrow> 'w \<Rightarrow> (pmc \<times> 'w) option option" where
  "uds_loop env os old inp p w =
     (case fgets_line inp of
        None \<Rightarrow> Some (Some (p, w))
      | Some (line, rest) \<Rightarrow>
          (case run_line (e_octet env) os (fill_buf line (old inp)) p w of
             None \<Rightarrow> Some None
           | Some (False, p1, w1) \<Rightarrow> uds_loop env os old rest p1 w1
           | Some (True, p1, w1) \<Rightarrow>
               (case rcv_timeout (e_ntop env) os p1 w1 of
                  None \<Rightarrow> None
                | Some None \<Rightarrow> Some None
                | Some (Some (p2, w2)) \<Rightarrow> uds_loop env os old rest p2 w2)))"
  by pat_completeness auto
termination
  by (relation "measure (\<lambda>(env, os, old, inp, p, w). length inp)") (auto dest: fgets_line_less)

declare uds_loop.simps [simp del]

text \<open>
  Interactive mode on a network. The answers of \<^verbatim>\<open>poll\<close> are a list: its return value, and whether
  the socket and the standard input are ready; \<^term>\<open>False\<close> is a tool that still runs at the end of it.
\<close>

fun net_loop :: "pmc_env \<Rightarrow> 'w os \<Rightarrow> (string \<Rightarrow> string) \<Rightarrow> (int \<times> bool \<times> bool) list \<Rightarrow> string \<Rightarrow> pmc \<Rightarrow> 'w \<Rightarrow>
    (bool \<times> pmc \<times> 'w) option" where
  "net_loop env os old [] inp p w = Some (False, p, w)"
| "net_loop env os old ((r, sock_in, std_in) # polls) inp p w =
     (if r > 0 \<and> sock_in then
        (case rcv (e_ntop env) os p w of
           None \<Rightarrow> None
         | Some (_, p1, w1) \<Rightarrow> net_loop env os old polls inp p1 w1)
      else if r > 0 \<and> std_in then
        (case fgets_line inp of
           None \<Rightarrow> Some (True, p, w)
         | Some (line, rest) \<Rightarrow>
             (case run_line (e_octet env) os (fill_buf line (old inp)) p w of
                None \<Rightarrow> None
              | Some (_, p1, w1) \<Rightarrow> net_loop env os old polls rest p1 w1))
      else net_loop env os old polls inp p w)"

text \<open>The handlers of signals close the socket before they exit.\<close>

definition handle_sig :: "'w os \<Rightarrow> pmc \<Rightarrow> 'w \<Rightarrow> pmc \<times> 'w" where
  "handle_sig os p w = (let (s, w') = sk_close os (p_sk p) w in (p\<lparr>p_sk := s\<rparr>, w'))"

definition handle_sig_ctrl :: "'w os \<Rightarrow> pmc \<Rightarrow> 'w \<Rightarrow> pmc \<times> 'w" where
  "handle_sig_ctrl os p w = (let (s, w') = sk_close os (p_sk p) w in (say [LF] (p\<lparr>p_sk := s\<rparr>), w'))"

section \<open>Options\<close>

text \<open>
  The loop over the answers of \<^verbatim>\<open>getopt_long\<close>, each the option and its argument: an exit code
  and what is printed, or
  the options, the transport and the flag of \<^verbatim>\<open>-z\<close>.
\<close>

type_synonym options = "char \<rightharpoonup> string"

definition with_options :: string where "with_options = ''fbdsti''"

definition net_options :: string where "net_options = ''u246''"

definition l_options :: string where "l_options = ''MSTP''"

definition getVersion :: "int \<Rightarrow> int \<Rightarrow> string" where
  "getVersion ver_maj ver_min = to_string ver_maj @ ''.'' @ to_string ver_min"

definition getVersionMajor :: "int \<Rightarrow> int" where "getVersionMajor ver_maj = ver_maj"

definition getVersionMinor :: "int \<Rightarrow> int" where "getVersionMinor ver_min = ver_min"

fun opts_loop :: "string \<Rightarrow> (char \<times> string) list \<Rightarrow> options \<Rightarrow> char \<Rightarrow> bool \<Rightarrow>
    (int \<times> string) + options \<times> char \<times> bool" where
  "opts_loop version [] opts net_select zero_get = Inr (opts, net_select, zero_get)"
| "opts_loop version ((c, optarg) # rest) opts net_select zero_get =
     (if c = CHR '':'' then Inl (- 1, [])
      else if c = CHR ''v'' then Inl (0, version @ [LF])
      else if c = CHR ''h'' then Inl (0, [])
      else if c = CHR ''z'' then opts_loop version rest opts net_select True
      else if c = CHR ''n'' then
        if strcaseeq optarg ''UDPv4'' then opts_loop version rest opts (CHR ''4'') zero_get
        else if strcaseeq optarg ''UDPv6'' then opts_loop version rest opts (CHR ''6'') zero_get
        else if strcaseeq optarg ''L2'' then opts_loop version rest opts (CHR ''2'') zero_get
        else Inl (- 1, [])
      else if c \<in> set with_options \<or> c \<in> set l_options then opts_loop version rest (opts(c \<mapsto> optarg)) net_select zero_get
      else if c \<in> set net_options then opts_loop version rest opts c zero_get
      else Inl (- 1, []))"

text \<open>\<^verbatim>\<open>options[c]\<close>, which makes an empty text when there is none, and \<^verbatim>\<open>atoi\<close> stored in an octet.\<close>

definition opt_at :: "options \<Rightarrow> char \<Rightarrow> string" where
  "opt_at opts c = (case opts c of None \<Rightarrow> [] | Some s \<Rightarrow> s)"

definition atoi8 :: "string \<Rightarrow> u8" where
  "atoi8 s = word_of_int (fst (strtol 10 (c_str s)))"

text \<open>Boundary hops, domain number and transport specific value.\<close>

definition option_params :: "options \<Rightarrow> string \<Rightarrow> ConfigFile \<Rightarrow> MsgParams \<Rightarrow> MsgParams option" where
  "option_params opts ifName cfg prms = do {
     let hops = (if opts (CHR ''b'') \<noteq> None then atoi8 (opt_at opts (CHR ''b'')) else 1);
     dn \<leftarrow> (if opts (CHR ''d'') \<noteq> None then Some (atoi8 (opt_at opts (CHR ''b''))) else cfg_domainNumber ifName cfg);
     ts \<leftarrow> (if opts (CHR ''t'') \<noteq> None then Some (word_of_int (fst (strtol 16 (c_str (opt_at opts (CHR ''t''))))))
            else cfg_transportSpecific ifName cfg);
     Some (prms\<lparr>boundaryHops := hops, MsgParams.domainNumber := dn, transportSpecific := ts\<rparr>)
   }"

section \<open>Transports\<close>

text \<open>
  The branches of the switch on the transport: the socket when all of its calls succeed. The calls are
  made in the order of the source up to the first that fails.
\<close>

definition open_unix :: "pmc_env \<Rightarrow> 'w os \<Rightarrow> options \<Rightarrow> string \<Rightarrow> ConfigFile \<Rightarrow> 'w \<Rightarrow> (Sock option \<times> 'w) option" where
  "open_unix env os opts ifName cfg w = do {
     addr \<leftarrow> (if opts (CHR ''s'') \<noteq> None then Some (opt_at opts (CHR ''s'')) else cfg_uds_address ifName cfg);
     (r, s1, w1) \<leftarrow> setDefSelfAddress os [] [] new_SockUnix w;
     if \<not> r then Some (None, w1)
     else
       let (r2, s2, w2) = SockUnix_initBase os s1 w1; (r3, s3) = setPeerInternal addr s2
       in Some (if r2 \<and> r3 then Some (SkUnix s3) else None, w2)
   }"

definition opt_set :: "options \<Rightarrow> char \<Rightarrow> (u8 \<Rightarrow> 's \<Rightarrow> bool \<times> 's) \<Rightarrow> bool \<times> 's \<Rightarrow> bool \<times> 's" where
  "opt_set opts c f rs =
     (if fst rs \<and> opts c \<noteq> None then f (atoi8 (opt_at opts c)) (snd rs) else rs)"

definition init_or_fail :: "('s \<Rightarrow> Sock) \<Rightarrow> pmc_env \<Rightarrow> 'w os \<Rightarrow> bool \<times> 's \<Rightarrow> 'w \<Rightarrow> (Sock option \<times> 'w) option" where
  "init_or_fail mk env os rs w =
     (if \<not> fst rs then Some (None, w)
      else map_option (\<lambda>(r, s, w'). (if r then Some s else None, w')) (sk_init (e_host env) (e_pton env) os (mk (snd rs)) w))"

definition open_ip4 :: "pmc_env \<Rightarrow> 'w os \<Rightarrow> options \<Rightarrow> string \<Rightarrow> ConfigFile \<Rightarrow> IfInfo \<Rightarrow> 'w \<Rightarrow> (Sock option \<times> 'w) option" where
  "open_ip4 env os opts ifName cfg ifObj w = do {
     rs \<leftarrow> setAll SockIp4_setAllBase ifObj cfg ifName (new_SockIp4 (e_host env) (e_int env));
     init_or_fail SkIp4 env os (opt_set opts (CHR ''T'') setUdpTtl rs) w
   }"

definition open_ip6 :: "pmc_env \<Rightarrow> 'w os \<Rightarrow> options \<Rightarrow> string \<Rightarrow> ConfigFile \<Rightarrow> IfInfo \<Rightarrow> 'w \<Rightarrow> (Sock option \<times> 'w) option" where
  "open_ip6 env os opts ifName cfg ifObj w = do {
     rs \<leftarrow> setAll SockIp6_setAllBase ifObj cfg ifName (new_SockIp6 (e_host env) (e_int env));
     init_or_fail SkIp6 env os (opt_set opts (CHR ''S'') setScope (opt_set opts (CHR ''T'') setUdpTtl rs)) w
   }"

definition set_dst_mac :: "options \<Rightarrow> bool \<times> SockRaw \<Rightarrow> bool \<times> SockRaw" where
  "set_dst_mac opts rs =
     (if fst rs \<and> opts (CHR ''M'') \<noteq> None then
        (case fromMac (opt_at opts (CHR ''M'')) [] of
           (False, _) \<Rightarrow> (False, snd rs)
         | (True, mac) \<Rightarrow> setPtpDstMac mac (snd rs))
      else rs)"

definition open_raw :: "pmc_env \<Rightarrow> 'w os \<Rightarrow> options \<Rightarrow> string \<Rightarrow> ConfigFile \<Rightarrow> IfInfo \<Rightarrow> 'w \<Rightarrow> (Sock option \<times> 'w) option" where
  "open_raw env os opts ifName cfg ifObj w = do {
     rs \<leftarrow> setAll SockRaw_setAllBase ifObj cfg ifName (new_SockRaw (e_int env) (e_rx env));
     init_or_fail SkRaw env os (set_dst_mac opts (opt_set opts (CHR ''P'') setSocketPriority rs)) w
   }"

section \<open>Start\<close>

text \<open>The interface of a network transport, and the identity of the tool made of its hardware address.\<close>

definition use_interface :: "'w os \<Rightarrow> char \<Rightarrow> string \<Rightarrow> MsgParams \<Rightarrow> 'w \<Rightarrow> ((IfInfo \<times> MsgParams) option \<times> 'w) option" where
  "use_interface os net_select ifName prms w =
     (if net_select = CHR ''u'' then Some (Some (new_IfInfo, prms), w)
      else if ifName = [] then Some (None, w)
      else
        let (ok, ifObj, w') = initUsingName os ifName new_IfInfo w
        in if \<not> ok then Some (None, w')
           else
             map_option (\<lambda>v. (Some (ifObj, prms\<lparr>self_id :=
                 \<lparr>PortIdentity_t.clockIdentity = \<lparr>v_octets = v\<rparr>, portNumber = 1\<rparr>\<rparr>), w'))
               (poke 0 (snd (eui48ToEui64 (IfInfo.m_mac ifObj)))
                  (v_octets (PortIdentity_t.clockIdentity (self_id prms)))))"

definition open_transport :: "pmc_env \<Rightarrow> 'w os \<Rightarrow> char \<Rightarrow> options \<Rightarrow> string \<Rightarrow> ConfigFile \<Rightarrow> IfInfo \<Rightarrow> 'w \<Rightarrow>
    (Sock option \<times> 'w) option" where
  "open_transport env os net_select opts ifName cfg ifObj w =
     (if net_select = CHR ''u'' then open_unix env os opts ifName cfg w
      else if net_select = CHR ''6'' then open_ip6 env os opts ifName cfg ifObj w
      else if net_select = CHR ''2'' then open_raw env os opts ifName cfg ifObj w
      else open_ip4 env os opts ifName cfg ifObj w)"

text \<open>The parameters of the messages once the transport is open.\<close>

definition final_params :: "bool \<Rightarrow> bool \<Rightarrow> int \<Rightarrow> bool \<Rightarrow> MsgParams \<Rightarrow> MsgParams" where
  "final_params uds batch pid zero_get prms =
     (let p1 = (if uds then prms\<lparr>self_id := (self_id prms)\<lparr>portNumber := word_of_int pid\<rparr>\<rparr> else prms);
          p2 = p1\<lparr>allowSigTlvs := (allowSigTlvs p1)(SLAVE_RX_SYNC_TIMING_DATA \<mapsto> True, SLAVE_DELAY_TIMING_DATA_NP \<mapsto> True)\<rparr>;
          p3 = (if \<not> batch \<and> \<not> uds then p2\<lparr>rcvSignaling := True\<rparr> else p2)
      in p3\<lparr>useZeroGet := zero_get\<rparr>)"

text \<open>
  \<^verbatim>\<open>main\<close> up to the choice of the mode: the state of the tool, or \<open>Inl\<close> of the exit code.
\<close>

definition start :: "pmc_env \<Rightarrow> 'w os \<Rightarrow> options \<Rightarrow> char \<Rightarrow> bool \<Rightarrow> bool \<Rightarrow> 'w \<Rightarrow> ((int + pmc) \<times> 'w) option" where
  "start env os opts net0 zero_get batch w = do {
     cfg0 \<leftarrow> new_ConfigFile (e_cfg env);
     (ok, cfg) \<leftarrow> (if opts (CHR ''f'') \<noteq> None
        then read_cfg (e_cfg env) (e_cfgbuf env) (e_files env (opt_at opts (CHR ''f''))) cfg0 else Some (True, cfg0));
     if \<not> ok then Some (Inl (- 1), w)
     else do {
       net \<leftarrow> (if net0 = NUL then map_option (\<lambda>v. char_of (unat v)) (cfg_network_transport [] cfg) else Some net0);
       let ifName = opt_at opts (CHR ''i'');
       let msg0 = new_Message (e_msg env);
       (found, w1) \<leftarrow> use_interface os net ifName (m_prms msg0) w;
       case found of
         None \<Rightarrow> Some (Inl (- 1), w1)
       | Some (ifObj, prms1) \<Rightarrow> do {
           prms2 \<leftarrow> option_params opts ifName cfg prms1;
           (opened, w2) \<leftarrow> open_transport env os net opts ifName cfg ifObj w1;
           case opened of
             None \<Rightarrow> Some (Inl (- 1), w2)
           | Some s \<Rightarrow>
               let uds = (net = CHR ''u'');
                   (pid, w3) = (if uds then let (r, w3) = os Getpid w2 in (rc r, w3) else (0, w2));
                   msg1 = snd (updateParams (final_params uds batch pid zero_get prms2) msg0)
               in Some (Inr \<lparr>p_buf = replicate pmc_bufSize 0, p_msg = msg1, p_sk = s, p_use_uds = uds,
                    p_timeout = 0, p_seq = 0, p_out = [], p_live = 0\<rparr>, w3)
         }
     }
   }"

text \<open>
  \<^verbatim>\<open>main\<close>: the answers of \<^verbatim>\<open>getopt_long\<close>, the commands of the batch mode, the standard input and
  the answers of \<^verbatim>\<open>poll\<close>; the exit code, the text printed and the state of the system. The outer
  \<^term>\<open>None\<close> is a tool that still runs.
\<close>

definition main :: "pmc_env \<Rightarrow> 'w os \<Rightarrow> (char \<times> string) list \<Rightarrow> string list \<Rightarrow> (string \<Rightarrow> string) \<Rightarrow>
    (int \<times> bool \<times> bool) list \<Rightarrow> string \<Rightarrow> 'w \<Rightarrow> (int \<times> string \<times> 'w) option option" where
  "main env os optargs args old polls inp w =
     (case opts_loop (getVersion (e_maj env) (e_min env)) optargs Map.empty NUL False of
        Inl (code, printed) \<Rightarrow> Some (Some (code, printed, w))
      | Inr (opts, net, zero_get) \<Rightarrow>
          (case start env os opts net zero_get (args \<noteq> []) w of
             None \<Rightarrow> Some None
           | Some (Inl code, w1) \<Rightarrow> Some (Some (code, [], w1))
           | Some (Inr p, w1) \<Rightarrow>
               map_option (map_option (\<lambda>(p', w'). (0, p_out p', snd (sk_close os (p_sk p') w'))))
                 (if args \<noteq> [] then
                    (case send_all (e_octet env) os args 0 p w1 of
                       None \<Rightarrow> Some None
                     | Some (pkts, p2, w2) \<Rightarrow> receive_all (e_ntop env) os pkts p2 w2)
                  else if p_use_uds p then uds_loop env os old inp p w1
                  else
                    (case net_loop env os old polls inp p w1 of
                       None \<Rightarrow> Some None
                     | Some (False, _, _) \<Rightarrow> None
                     | Some (True, p2, w2) \<Rightarrow> Some (Some (p2, w2))))))"

end
