(* ===== verification/PmcSend.thy ===== *)
theory PmcSend
  imports Pmc MsgApi Samples
begin

text \<open>
  Sending with the \<^verbatim>\<open>pmc\<close> tool: the octets \<^verbatim>\<open>sendAction\<close> hands to the socket, the id
  \<^verbatim>\<open>findId\<close> finds for a word, and both together for a whole command line.
\<close>

section \<open>Sending\<close>

lemma build_data_length:
  "build_data sz s = Some (err, s') \<Longrightarrow> length (mem s') = length (mem s)"
proof -
  have c: "length (mem s2) = length (mem s1)" if "call_tlv_data tid t s1 = Some (e, t', s2)" for tid t e t' and s1 s2 :: Message
    using call_tlv_frame [OF that] by (simp add: frame_def)
  have r: "length (mem s2) = length (mem s1)" if "proc_reserved d s1 = Some (e, d', s2)" for d e d' and s1 s2 :: Message
    using framing.keeps [OF framing_reserved that] by (simp add: frame_def)
  show "build_data sz s = Some (err, s') \<Longrightarrow> length (mem s') = length (mem s)"
    by (auto simp: build_data_def Let_def put_bytes_def poke_eq_Some_iff dest!: c r split: if_splits option.splits)
qed

lemma pokes_keep_length: "pokes ws m = Some m' \<Longrightarrow> length m' = length m"
proof (induction ws arbitrary: m)
  case (Cons x ws)
  then show ?case by (cases x) (auto simp: poke_eq_Some_iff split: option.splits)
qed simp

lemma build_length: "build (Some b) n sequence s = Some (err, s') \<Longrightarrow> length (mem s') = length b"
  by (auto simp: build_def Let_def simp del: pokes.simps dest!: build_data_length pokes_keep_length
      split: if_splits option.splits bind_splits)

lemma sendAction_keeps:
  assumes "sendAction os p w = Some (r, p', w')"
  shows "length (p_buf p') = length (p_buf p)" "api_step (p_msg p) (p_msg p')" "m_prms (p_msg p') = m_prms (p_msg p)"
    "p_sk p' = p_sk p" "p_use_uds p' = p_use_uds p" "p_live p' = p_live p" "p_seq p' = (if r then p_seq p + 1 else p_seq p)"
    "m_sendAction (p_msg p') = m_sendAction (p_msg p)"
  using assms
  by (auto simp: sendAction_def Let_def say_def dest: build_length build_keeps intro: api_step.build
      split: option.splits prod.splits if_splits)

lemma sendAction_sent:
  assumes "sendAction os p w = Some (True, p', w')" "send_ok (p_msg p)" "length (p_buf p) = pmc_bufSize"
  shows "sk_send os (mng_message (m_prms (p_msg p)) (m_sendAction (p_msg p)) (word_of_int (p_seq p))
    (ids_value (ids ! m_tlv_id (p_msg p))) (send_data (p_msg p))) (p_sk p) w = (True, w')"
proof -
  let ?d = "send_data (p_msg p)"
  obtain m where b: "build (Some (p_buf p)) pmc_bufSize (word_of_int (p_seq p)) (p_msg p) = Some (MNG_PARSE_ERROR_OK, m)"
    and s: "sk_send os (take (m_msgLen m) (mem m)) (p_sk p) w = (True, w')"
    using assms(1) by (auto simp: sendAction_def Let_def split: option.splits prod.splits if_splits)
  have "54 + length ?d \<le> pmc_bufSize"
  proof (rule ccontr)
    assume "\<not> ?thesis"
    then show False
      using build_small [OF assms(2), of pmc_bufSize "p_buf p" "word_of_int (p_seq p)"] assms(3) b by (auto simp: pmc_bufSize_def)
  qed
  from build_correct [OF assms(2) _ this, of "p_buf p" "word_of_int (p_seq p)"] show ?thesis
    using assms(2,3) b s length_mng_header by (auto simp: send_ok_def mng_message_def)
qed

section \<open>Finding an id by name\<close>

lemma name_of_id: "tid < 58 \<Longrightarrow> mng2str_c tid = map ids_name ids ! tid"
  by (simp add: mng2str_c_def)

lemma names_inj: "inj_on mng2str_c {..<58}"
proof -
  have "distinct (map ids_name ids)" by code_simp
  then show ?thesis by (simp add: inj_on_def name_of_id nth_eq_iff_index_eq del: nth_map)
qed

lemma find_loop_exact:
  "i \<in> set xs \<Longrightarrow> mng2str_c i = str \<Longrightarrow> inj_on mng2str_c (set xs) \<Longrightarrow> find_loop str xs tid n = Some i"
  by (induction xs arbitrary: tid n) (auto simp: inj_on_def)

lemma find_loop_prefix:
  "\<forall>i\<in>set xs. mng2str_c i \<noteq> str \<Longrightarrow>
   find_loop str xs tid n =
     (case filter (\<lambda>i. take (length str) (mng2str_c i) = str) xs of
        [] \<Rightarrow> if n = 1 then tid else None
      | [i] \<Rightarrow> if n = 0 then Some i else None
      | _ \<Rightarrow> None)"
  by (induction xs arbitrary: tid n) (auto split: list.splits)

lemma filter_single: "distinct xs \<Longrightarrow> filter P xs = [x] \<longleftrightarrow> x \<in> set xs \<and> P x \<and> (\<forall>y\<in>set xs. P y \<longrightarrow> y = x)"
proof
  assume d: "distinct xs" and x: "x \<in> set xs \<and> P x \<and> (\<forall>y\<in>set xs. P y \<longrightarrow> y = x)"
  then have "set (filter P xs) = {x}" "distinct (filter P xs)" by auto
  then have "length (filter P xs) = 1" using distinct_card by fastforce
  then obtain z where z: "filter P xs = [z]" by (auto simp: length_Suc_conv)
  with \<open>set (filter P xs) = {x}\<close> show "filter P xs = [x]" by simp
next
  assume "filter P xs = [x]"
  then have "set (filter P xs) = {x}" by simp
  then show "x \<in> set xs \<and> P x \<and> (\<forall>y\<in>set xs. P y \<longrightarrow> y = x)" by auto
qed

lemma take_prefix: "take (length a) b = a \<longleftrightarrow> (\<exists>z. b = a @ z)"
  by (metis append_eq_conv_conj append_take_drop_id)

lemma find_loop_spec:
  assumes "distinct xs" and inj: "inj_on mng2str_c (set xs)"
  shows "find_loop up xs None 0 = Some tid \<longleftrightarrow>
    tid \<in> set xs \<and> (mng2str_c tid = up \<or> (\<forall>i\<in>set xs. mng2str_c i \<noteq> up) \<and> (\<exists>z. mng2str_c tid = up @ z) \<and>
      (\<forall>i\<in>set xs. (\<exists>z. mng2str_c i = up @ z) \<longrightarrow> i = tid))"
proof (cases "\<exists>i\<in>set xs. mng2str_c i = up")
  case True
  then obtain i where i: "i \<in> set xs" "mng2str_c i = up" by blast
  then have "find_loop up xs None 0 = Some i" using inj by (intro find_loop_exact)
  then show ?thesis using i inj by (auto simp: inj_on_def)
next
  case False
  let ?ps = "filter (\<lambda>i. take (length up) (mng2str_c i) = up) xs"
  have "find_loop up xs None 0 = (case ?ps of [i] \<Rightarrow> Some i | _ \<Rightarrow> None)"
    using False by (subst find_loop_prefix) (auto split: list.splits)
  then have "find_loop up xs None 0 = Some tid \<longleftrightarrow> ?ps = [tid]" by (auto split: list.splits)
  then show ?thesis using False assms(1) by (auto simp: filter_single take_prefix)
qed

text \<open>The names are made of capital letters, digits and underscores.\<close>

definition name_chars :: string where
  "name_chars = ''ET_ARNSILOPCMDUBGFYVKHXZ12Q''"

lemma name_char:
  assumes "c \<in> set name_chars"
  shows "toupper c = c" "c \<noteq> NUL" "c \<notin> set toksep"
proof -
  have "list_all (\<lambda>c. toupper c = c \<and> c \<noteq> NUL \<and> c \<notin> set toksep) name_chars" by code_simp
  with assms show "toupper c = c" "c \<noteq> NUL" "c \<notin> set toksep" by (auto simp: list_all_iff)
qed

lemma names_spelled: "list_all (\<lambda>s. s \<noteq> [] \<and> list_all (\<lambda>c. c \<in> set name_chars) s) (map ids_name ids)"
  by code_simp

lemma names_null: "list_all (\<lambda>s. \<not> strstr s ''NULL'') (map ids_name (tl ids))"
  by code_simp

lemma name_facts:
  assumes "tid < 58"
  shows "mng2str_c tid \<noteq> []" "map toupper (mng2str_c tid) = mng2str_c tid"
    "\<forall>c\<in>set (mng2str_c tid). c \<noteq> NUL \<and> c \<notin> set toksep" "strstr (mng2str_c tid) ''NULL'' \<Longrightarrow> tid = 0"
proof -
  have "mng2str_c tid \<in> set (map ids_name ids)" using assms by (simp add: mng2str_c_def)
  then have c: "mng2str_c tid \<noteq> []" "\<forall>c\<in>set (mng2str_c tid). c \<in> set name_chars"
    using names_spelled unfolding list_all_iff by blast+
  show "mng2str_c tid \<noteq> []" by (rule c(1))
  show "map toupper (mng2str_c tid) = mng2str_c tid" using c(2) name_char(1) by (simp add: map_idI)
  show "\<forall>c\<in>set (mng2str_c tid). c \<noteq> NUL \<and> c \<notin> set toksep" using c(2) name_char(2,3) by blast
  assume n: "strstr (mng2str_c tid) ''NULL''"
  show "tid = 0"
  proof (rule ccontr)
    assume "tid \<noteq> 0"
    then obtain k where k: "tid = Suc k" by (cases tid) auto
    then have "mng2str_c tid \<in> set (map ids_name (tl ids))"
      using assms by (auto simp: mng2str_c_def nth_tl [symmetric] intro!: imageI nth_mem)
    then show False using names_null n unfolding list_all_iff by blast
  qed
qed

lemma patch_same: "patch (length pre) s (pre @ s @ rest) = pre @ s @ rest"
  by (simp add: patch_def)

lemma findId_name:
  assumes "tid < 58"
  shows "findId (pre @ mng2str_c tid @ NUL # rest) (length pre) = Some (pre @ mng2str_c tid @ NUL # rest, Some tid)"
proof -
  note n = name_facts [OF assms]
  have "cstr_at (pre @ mng2str_c tid @ NUL # rest) (length pre) = Some (mng2str_c tid)"
    using n(3) by (intro cstr_at_mid) auto
  moreover have "find_loop (mng2str_c tid) [FIRST_MNG_ID..<LAST_MNG_ID + 1] None 0 = Some tid"
    by (rule find_loop_exact) (use assms names_inj in \<open>simp_all only: set_upt atLeast0LessThan lessThan_iff\<close>, simp_all)
  ultimately show ?thesis using n by (auto simp: findId_def Let_def patch_same simp del: upt_Suc upt_rec_numeral)
qed

lemma run_line_name:
  assumes "action_of word = Some act" "word \<noteq> []" "\<forall>c\<in>set word. c \<noteq> NUL \<and> c \<notin> set toksep" "tid < 58"
    "y = NUL \<or> y = CHR '' '' \<and> NUL \<in> set rest"
  shows "run_line junk os (word @ '' '' @ mng2str_c tid @ y # rest) p w =
    run_id junk os act tid (word @ [NUL] @ mng2str_c tid @ NUL # rest)
      (length word + 1 + length (mng2str_c tid) + (if y = NUL then 0 else 1)) p w"
proof -
  let ?n = "mng2str_c tid"
  note n = name_facts [OF assms(4)]
  have sp: "CHR '' '' \<in> set toksep" by (simp add: toksep_def)
  then have y: "y = NUL \<or> y \<in> set toksep \<and> NUL \<in> set rest" using assms(5) by auto
  have "strtok_r (word @ '' '' @ ?n @ y # rest) 0 = Some (Some 0, word @ [NUL] @ ?n @ y # rest, length word + 1)"
    using strtok_word [of "[]" word "CHR '' ''" "?n @ y # rest" "[]", OF _ assms(2,3)] y sp by auto
  moreover have "cstr_at (word @ [NUL] @ ?n @ y # rest) 0 = Some word"
    using cstr_at_app [of word] assms(3) by auto
  moreover have "strtok_r (word @ [NUL] @ ?n @ y # rest) (length word + 1) = Some (Some (length word + 1),
      word @ [NUL] @ ?n @ NUL # rest, length word + 1 + length ?n + (if y = NUL then 0 else 1))"
    using strtok_word [of "[]" ?n y rest "word @ [NUL]", OF _ n(1,3) y] by simp
  moreover have "findId (word @ [NUL] @ ?n @ NUL # rest) (length word + 1) = Some (word @ [NUL] @ ?n @ NUL # rest, Some tid)"
    using findId_name [OF assms(4), of "word @ [NUL]" rest] by simp
  ultimately show ?thesis using assms(1) by (simp add: run_line_def)
qed

section \<open>Command lines that send\<close>

definition request_line :: "(domain \<Rightarrow> byte list \<Rightarrow> string option) \<Rightarrow> mng_vals_e \<Rightarrow> BaseMngTlv option \<Rightarrow> string" where
  "request_line inet_ntop tid data =
     (case data of
        None \<Rightarrow> ''get '' @ mng2str_c tid
      | Some t \<Rightarrow> ''set '' @ mng2str_c tid @ '' '' @ dump_tlv inet_ntop t)"

definition request_action :: "BaseMngTlv option \<Rightarrow> actionField_e" where
  "request_action data = (case data of None \<Rightarrow> GET | Some t \<Rightarrow> SET)"

definition request_data :: "bool \<Rightarrow> mng_vals_e \<Rightarrow> BaseMngTlv option \<Rightarrow> byte list" where
  "request_data zero_get tid data =
     (case data of
        None \<Rightarrow> if zero_get then [] else replicate (nat (even_up (empty_size tid))) 0
      | Some t \<Rightarrow> pad_even (enc_tlv t))"

lemma sendAction_ok:
  assumes "send_ok (p_msg p)" "length (p_buf p) = pmc_bufSize" "54 + length (send_data (p_msg p)) \<le> pmc_bufSize"
    "p_seq p < INT_MAX"
    "sk_send os (mng_message (m_prms (p_msg p)) (m_sendAction (p_msg p)) (word_of_int (p_seq p))
      (ids_value (ids ! m_tlv_id (p_msg p))) (send_data (p_msg p))) (p_sk p) w = (True, w')"
  shows "\<exists>p'. sendAction os p w = Some (True, p', w') \<and> p_seq p' = p_seq p + 1"
proof -
  obtain m where m: "build (Some (p_buf p)) pmc_bufSize (word_of_int (p_seq p)) (p_msg p) = Some (MNG_PARSE_ERROR_OK, m)"
      "mem m = mng_message (m_prms (p_msg p)) (m_sendAction (p_msg p)) (word_of_int (p_seq p))
        (ids_value (ids ! m_tlv_id (p_msg p))) (send_data (p_msg p)) @ drop (54 + length (send_data (p_msg p))) (p_buf p)"
      "m_msgLen m = 54 + length (send_data (p_msg p))"
    using build_correct [OF assms(1) _ assms(3), of "p_buf p"] assms(2) by auto
  have "ok_prms (m_prms (p_msg p))" using assms(1) by (simp add: send_ok_def)
  then have "take (m_msgLen m) (mem m) = mng_message (m_prms (p_msg p)) (m_sendAction (p_msg p)) (word_of_int (p_seq p))
      (ids_value (ids ! m_tlv_id (p_msg p))) (send_data (p_msg p))"
    using m(2,3) length_mng_header by (simp add: mng_message_def)
  then show ?thesis using m(1) assms(4,5) by (auto simp: sendAction_def Let_def)
qed

lemma request_size: "tid < 58 \<Longrightarrow> data = None \<or> (\<exists>t. data = Some t \<and> one_number t) \<Longrightarrow> length (request_data z tid data) \<le> 1000"
proof -
  assume "tid < 58"
  have "list_all (\<lambda>tid. even_up (empty_size tid) \<le> 1000) [0..<58]" by code_simp
  then have "\<forall>tid\<in>{0..<58}. even_up (empty_size tid) \<le> 1000" unfolding list_all_iff set_upt .
  then have e: "even_up (empty_size tid) \<le> 1000" using \<open>tid < 58\<close> by simp
  have o: "length (enc_tlv t) \<le> 2" if "one_number t" for t
    using that by (cases t) (simp_all add: enc_mng_defs)
  assume "data = None \<or> (\<exists>t. data = Some t \<and> one_number t)"
  then show ?thesis
  proof
    assume "data = None"
    then show ?thesis using e by (simp add: request_data_def nat_le_iff)
  next
    assume "\<exists>t. data = Some t \<and> one_number t"
    then obtain t where "data = Some t" "one_number t" by blast
    then show ?thesis using o [of t] by (auto simp: request_data_def pad_even_def)
  qed
qed

definition pmc_ok :: "pmc \<Rightarrow> bool" where
  "pmc_ok p \<longleftrightarrow> length (p_buf p) = pmc_bufSize \<and> ok_prms (m_prms (p_msg p)) \<and> api_reachable (p_msg p)"

lemma send_line_ok:
  assumes "\<exists>p'. sendAction os p w = Some (True, p', w') \<and> p_seq p' = n"
  shows "\<exists>p'. send_line os tid data p w = Some (True, p', w') \<and> p_seq p' = n"
  using assms by (auto simp: send_line_def say_def Let_def)

lemma one_number_facts:
  assumes "one_number t"
  shows "0 < tlv_type t" "tlv_type t < 58" "\<not> isEmpty (tlv_type t)" "mng_size (mng_all_vals ! tlv_type t) \<noteq> 0" "ok_tlv t"
proof -
  let ?ids = "[PRIORITY1, PRIORITY2, DOMAIN, PRIMARY_DOMAIN, INITIALIZE, SLAVE_ONLY, ANNOUNCE_RECEIPT_TIMEOUT,
    SYNCHRONIZATION_UNCERTAIN_NP]"
  have "tlv_type t \<in> set ?ids" using assms by (cases t) simp_all
  moreover have "list_all (\<lambda>i. 0 < i \<and> i < 58 \<and> \<not> isEmpty i \<and> mng_size (mng_all_vals ! i) \<noteq> 0) ?ids" by code_simp
  ultimately show "0 < tlv_type t" "tlv_type t < 58" "\<not> isEmpty (tlv_type t)" "mng_size (mng_all_vals ! tlv_type t) \<noteq> 0"
    unfolding list_all_iff by blast+
  show "ok_tlv t" using assms by (cases t) (simp_all add: ok_mng_defs)
qed

definition demo_pmc :: "Sock \<Rightarrow> pmc" where
  "demo_pmc s = \<lparr>p_buf = replicate pmc_bufSize 0, p_msg = new_Message (blank LITTLE), p_sk = s, p_use_uds = True,
     p_timeout = 0, p_seq = 0, p_out = [], p_live = 0\<rparr>"

definition demo_sock :: Sock where
  "demo_sock = SkUnix (new_SockUnix\<lparr>m_fd := 3, m_isInit := True, SockUnix.m_peer := ''/tmp/p''\<rparr>)"

lemma demo_sock_send: "sk_send small_os b demo_sock ([3], t) = (True, [3], t)"
  by (simp add: demo_sock_def SockUnix_sendBase_def sendAny_def sendReply_def ok_ret_def testUnix_def unix_path_max_def Let_def)

lemma demo_pmc_ok: "pmc_ok (demo_pmc s)"
  by (simp add: demo_pmc_def pmc_ok_def pmc_bufSize_def new_Message_fields api_reachable.intros)

section \<open>Command lines and ids\<close>

text \<open>
  A command line for an id the action allows, with the name of the id and for a
  \<^verbatim>\<open>set\<close> the values as the tool prints them, makes the tool send exactly one message: the
  reference layout of a management message with its parameters, the next sequence number and the
  octets of the value.
\<close>

lemma command_line_sent:
  assumes "pmc_ok p" "p_seq p < INT_MAX"
    "case data of None \<Rightarrow> True | Some t \<Rightarrow> one_number t \<and> tlv_type t = tid"
    "allowedAction (implementSpecific (m_prms (p_msg p))) tid (request_action data)"
    "sk_send os (mng_message (m_prms (p_msg p)) (request_action data) (word_of_int (p_seq p)) (ids_value (ids ! tid))
      (request_data (useZeroGet (m_prms (p_msg p))) tid data)) (p_sk p) w = (True, w')"
  shows "\<exists>p'. run_line junk os (request_line inet_ntop tid data @ NUL # rest) p w = Some (True, p', w') \<and>
    p_seq p' = p_seq p + 1"
proof -
  have tid: "tid < 58" using allowedAction_range [OF assms(4)] by simp
  have sz: "54 + length (request_data (useZeroGet (m_prms (p_msg p))) tid data) \<le> pmc_bufSize"
    using request_size [OF tid, of data "useZeroGet (m_prms (p_msg p))"] assms(3)
    by (auto simp: pmc_bufSize_def split: option.splits)
  have sent: "\<exists>p'. send_line os tid b q w = Some (True, p', w') \<and> p_seq p' = p_seq p + 1"
    if "p_msg q = m" "p_buf q = p_buf p" "p_sk q = p_sk p" "p_seq q = p_seq p" "send_ok m" "m_prms m = m_prms (p_msg p)"
      "m_sendAction m = request_action data" "m_tlv_id m = tid"
      "send_data m = request_data (useZeroGet (m_prms (p_msg p))) tid data" for m q b
  proof (rule send_line_ok)
    show "\<exists>p'. sendAction os q w = Some (True, p', w') \<and> p_seq p' = p_seq p + 1"
      using sendAction_ok [of q os w w'] that assms(1,2,5) sz by (simp add: pmc_ok_def)
  qed
  show ?thesis
  proof (cases data)
    case None
    let ?m = "(p_msg p)\<lparr>m_sendAction := GET, m_tlv_id := tid, m_dataSend := None\<rparr>"
    have "run_line junk os (request_line inet_ntop tid data @ NUL # rest) p w =
        run_id junk os GET tid (''get'' @ [NUL] @ mng2str_c tid @ NUL # rest) (length (''get'' @ [NUL] @ mng2str_c tid)) p w"
      using run_line_name [of "''get''" GET tid NUL rest junk os p w] tid None
      by (simp add: request_line_def action_of_def strcaseeq_def toksep_def)
    also have "\<dots> = send_line os tid False (p\<lparr>p_msg := ?m\<rparr>) w"
      using assms(4) None by (simp add: run_id_def setAction_def request_action_def)
    finally show ?thesis using sent [where m = ?m and q = "p\<lparr>p_msg := ?m\<rparr>" and b = False] tid assms(1) None
      by (simp add: pmc_ok_def send_ok_def send_data_def request_data_def request_action_def)
  next
    case (Some t)
    let ?m = "(p_msg p)\<lparr>m_sendAction := SET, m_tlv_id := tid, m_dataSend := Some t\<rparr>"
    note t = one_number_facts [of t]
    have o: "one_number t" "tlv_type t = tid" using assms(3) Some by simp_all
    let ?pre = "''set'' @ [NUL] @ mng2str_c tid @ [NUL]"
    have "run_line junk os (request_line inet_ntop tid data @ NUL # rest) p w =
        run_id junk os SET tid (?pre @ dump_tlv inet_ntop t @ NUL # rest) (length ?pre) p w"
      using run_line_name [of "''set''" SET tid "CHR '' ''" "dump_tlv inet_ntop t @ NUL # rest" junk os p w] tid Some
      by (simp add: request_line_def action_of_def strcaseeq_def toksep_def toupper_def)
    also have "\<dots> = send_line os tid True (p\<lparr>p_msg := ?m, p_live := p_live p + 1\<rparr>) w"
      using assms(4) Some o t dump_read_back [OF o(1), of junk ?pre inet_ntop rest]
      by (simp add: run_id_def setAction_data_def request_action_def del: append_assoc)
    finally show ?thesis using sent [where m = ?m and q = "p\<lparr>p_msg := ?m, p_live := p_live p + 1\<rparr>" and b = True] tid o t assms(1) Some
      by (simp add: pmc_ok_def send_ok_def send_data_def request_data_def request_action_def)
  qed
qed

lemma command_line_sent_example:
  "\<exists>p'. run_line 0 small_os (''set PRIORITY1 '' @ IDENT @ ''priority1 100'' @ [NUL]) (demo_pmc demo_sock) ([3], 5) =
     Some (True, p', [3], 5) \<and> p_seq p' = 1"
proof -
  have a: "allowedAction (implementSpecific (m_prms (p_msg (demo_pmc demo_sock)))) PRIORITY1 SET"
    unfolding demo_pmc_def pmc.simps new_Message_fields by code_simp
  have l: "request_line (\<lambda>_ _. None) PRIORITY1 (Some demo_tlv) = ''set PRIORITY1 '' @ IDENT @ ''priority1 100''"
    by code_simp
  have f: "p_sk (demo_pmc demo_sock) = demo_sock" "p_seq (demo_pmc demo_sock) = 0" by (simp_all add: demo_pmc_def)
  have o: "case Some demo_tlv of None \<Rightarrow> True | Some t \<Rightarrow> one_number t \<and> tlv_type t = PRIORITY1"
    by (simp add: demo_tlv_def)
  show ?thesis
    using command_line_sent [OF demo_pmc_ok _ o, of demo_sock small_os "([3], 5)" "([3], 5)" 0 "\<lambda>_ _. None" "[]"]
      a f demo_sock_send
    by (simp add: l request_action_def INT_MAX_def)
qed

text \<open>
  Property C18. \<^verbatim>\<open>findId\<close> finds the id whose name is the word, in upper or lower case, or else the
  only id whose name starts with it; a word with \<^verbatim>\<open>NULL\<close> in it is \<^verbatim>\<open>NULL_PTP_MANAGEMENT\<close>.
\<close>

theorem findId_spec:
  assumes "cstr_at buf str = Some s" and "s \<noteq> []" and "up = map toupper s"
  shows "\<exists>buf' found. findId buf str = Some (buf', found) \<and>
    (if strstr up ''NULL'' then found = Some NULL_PTP_MANAGEMENT
     else \<forall>tid. found = Some tid \<longleftrightarrow> tid \<le> LAST_MNG_ID \<and>
       (mng2str_c tid = up \<or>
        (\<forall>i\<le>LAST_MNG_ID. mng2str_c i \<noteq> up) \<and> (\<exists>z. mng2str_c tid = up @ z) \<and>
        (\<forall>i\<le>LAST_MNG_ID. (\<exists>z. mng2str_c i = up @ z) \<longrightarrow> i = tid)))"
proof -
  have m: "set [FIRST_MNG_ID..<LAST_MNG_ID + 1] = {..LAST_MNG_ID}" unfolding set_upt by auto
  then have "inj_on mng2str_c (set [FIRST_MNG_ID..<LAST_MNG_ID + 1])"
    using names_inj by (auto simp: inj_on_def)
  from find_loop_spec [OF distinct_upt this, of up, unfolded m] show ?thesis
    using assms by (auto simp: findId_def Let_def Ball_def simp del: upt_Suc upt_rec_numeral)
qed


theorem findId_spec_witness:
  "\<exists>buf'. findId (''priority1'' @ [NUL]) 0 = Some (buf', Some PRIORITY1)"
proof -
  have c: "cstr_at (''priority1'' @ [NUL]) 0 = Some ''priority1''" "map toupper ''priority1'' = ''PRIORITY1''"
    "mng2str_c PRIORITY1 = ''PRIORITY1''" "\<not> strstr ''PRIORITY1'' ''NULL''" "PRIORITY1 \<le> LAST_MNG_ID" by code_simp+
  then show ?thesis using findId_spec [OF c(1) _ refl] by auto
qed

end
