(* ===== verification/PmcRcv.thy ===== *)
theory PmcRcv
  imports Pmc Samples
begin

text \<open>
  Receiving with the \<^verbatim>\<open>pmc\<close> tool: what it does with a signaling message, and when the loop of
  \<^verbatim>\<open>rcv_timeout\<close> ends.
\<close>

section \<open>Signaling messages\<close>

text \<open>The octets of a signaling message with given TLVs, at the start of a buffer.\<close>

definition signaling :: "byte list \<Rightarrow> nat \<Rightarrow> BaseSigTlv list \<Rightarrow> bool" where
  "signaling b n ts \<longleftrightarrow> n = sigBaseSize + length (concat (map enc_sig_tlv ts)) \<and> n \<le> length b \<and>
     b ! 0 AND 0xf = Signaling \<and> b ! 1 AND 0xf = ptp_major_ver \<and> b ! 32 = controlFieldDef \<and>
     b ! 33 = logMessageIntervalDef \<and>
     take (length (concat (map enc_sig_tlv ts))) (drop sigBaseSize b) = concat (map enc_sig_tlv ts)"

lemma parse_signaling:
  assumes "signaling b n ts" "rcvSignaling (m_prms s)"
    and "list_all (\<lambda>t. ok_sig (implementSpecific (m_prms s)) t \<and> admits (m_prms s) (sig_type t) \<and>
      length (enc_sig t) < 65536) ts"
  shows "\<exists>s'. parse b (int n) s = Some (MNG_PARSE_ERROR_SIG, s') \<and> m_type s' = Signaling \<and>
    map tlvType (m_sigTlvs s') = map sig_type ts"
proof -
  have n: "44 \<le> length b" "n = 44 + length (concat (map enc_sig_tlv ts))"
    using assms(1) by (simp_all add: signaling_def sigBaseSize_def)
  let ?s = "s\<lparr>mem := b, m_type := Signaling, m_versionPTP := ptp_major_ver, m_minorVersionPTP := drop_bit 4 (b ! 1)\<rparr>"
  obtain s3 where s3: "parse_ids ?s = Some s3" "mem s3 = b" "\<not> m_build s3" "m_prms s3 = m_prms s" "m_type s3 = Signaling"
    using parse_ids_total [of ?s] n(1) by auto
  let ?q = "s3\<lparr>m_cur := sigBaseSize, m_size := nat (int n - int sigBaseSize)\<rparr>"
  have r: "rd8 off q = Some (b ! off)" if "off < 44" "mem q = b" for off and q :: Message
    using rd8_in [of off q] n(1) that by simp
  have "b ! 0 AND 0xf = Signaling" "b ! 1 AND 0xf = ptp_major_ver" "b ! 32 = controlFieldDef" "b ! 33 = logMessageIntervalDef"
    using assms(1) by (simp_all add: signaling_def)
  then have "parse b (int n) s = parseSig ?q"
    using assms(2) n(2) s3(1,5) by (simp add: parse_def check_type_def r sigBaseSize_def Let_def)
  also have "\<dots> = parseSig_loop (int (length (concat (map enc_sig_tlv ts)))) (?q\<lparr>m_sigTlvs := []\<rparr>)"
    using n by (simp add: parseSig_def sigBaseSize_def del: parseSig_loop.simps)
  finally have p: "parse b (int n) s = parseSig_loop (int (length (concat (map enc_sig_tlv ts)))) (?q\<lparr>m_sigTlvs := []\<rparr>)" .
  obtain s' where s': "parseSig_loop (int (length (concat (map enc_sig_tlv ts)))) (?q\<lparr>m_sigTlvs := []\<rparr>) =
        Some (MNG_PARSE_ERROR_SIG, s')" "m_sigTlvs s' = m_sigTlvs (sig_inserts ts (?q\<lparr>m_sigTlvs := []\<rparr>))"
        "sig_frame (?q\<lparr>m_sigTlvs := []\<rparr>) s'"
    using parseSig_loop_parse [of "?q\<lparr>m_sigTlvs := []\<rparr>" ts] assms(1,3) s3 n
    by (auto simp: signaling_def sigBaseSize_def simp del: parseSig_loop.simps)
  then show ?thesis
    using p s3(5) map_tlvType_sig_inserts [of ts "?q\<lparr>m_sigTlvs := []\<rparr>"]
    by (simp add: sig_frame_def del: parseSig_loop.simps)
qed

text \<open>Whatever the callback gets of a TLV is a null pointer.\<close>

definition dumped :: "tlvType_e \<Rightarrow> bool" where
  "dumped type \<longleftrightarrow> type = SLAVE_RX_SYNC_TIMING_DATA \<or> type = SLAVE_DELAY_TIMING_DATA_NP"

lemma dump_null: "dumpSig_callback type None (Some t) = (if dumped type then (True, None) else (False, Some t))"
  by (simp add: dumpSig_callback_def call_dumpSig_def dumped_def)

lemma travers_dump:
  "snd (travers_loop dumpSig_callback xs (Some t)) = (if \<exists>x\<in>set xs. dumped (tlvType x) then None else Some t)"
  by (induction xs) (auto simp: dump_null copy_sigTlv_def Let_def)

section \<open>Waiting for a reply\<close>

text \<open>A system on which a call of \<^verbatim>\<open>select\<close> and reading the clock take a millisecond or more.\<close>

definition slow_clock :: "'w os \<Rightarrow> bool" where
  "slow_clock os \<longleftrightarrow>
     (\<forall>w r1 w1 fd to r w2 r2 w3. os Gettimeofday w = (r1, w1) \<longrightarrow> os (Select fd to) w1 = (r, w2) \<longrightarrow>
        os Gettimeofday w2 = (r2, w3) \<longrightarrow> valid_time (tv r1) \<and> valid_time (tv r2) \<and>
        usecs (tv r1) + 1000 \<le> usecs (tv r2) \<and> usecs (tv r2) < usecs (tv r1) + 2 ^ 64)"

lemma tpoll_shrinks:
  assumes "slow_clock os" "0 < t" "tpoll os t s w = Some (b, t', w')"
  shows "unat t' < unat t"
proof -
  obtain r1 w1 where g1: "os Gettimeofday w = (r1, w1)" by fastforce
  obtain b0 w2 where p: "poll os t s w1 = Some (b0, w2)"
    using assms(2,3) g1 by (auto simp: tpoll_def Let_def split: option.splits)
  obtain r2 w3 where g2: "os Gettimeofday w2 = (r2, w3)" by fastforce
  obtain fd to r where "os (Select fd to) w1 = (r, w2)"
    using p by (auto simp: poll_def Let_def split: if_splits prod.splits)
  then have c: "valid_time (tv r1)" "valid_time (tv r2)" "usecs (tv r1) + 1000 \<le> usecs (tv r2)"
      "usecs (tv r2) < usecs (tv r1) + 2 ^ 64"
    using assms(1) g1 g2 unfolding slow_clock_def by blast+
  let ?e = "(usecs (tv r2) - usecs (tv r1)) div 1000"
  have e: "1 \<le> ?e" "?e < 2 ^ 64" using c(3,4) by simp_all
  have "uint t' = max 0 (uint t - ?e)"
    using tpoll_left [OF assms(2) g1 p g2 c(1,2)] assms(3) word_left [of ?e t] e by (simp add: Let_def)
  moreover have "0 < uint t" using assms(2) by (simp add: word_less_def)
  ultimately have "uint t' < uint t" using e(1) by simp
  then have "t' < t" by (simp add: word_less_def)
  then show ?thesis by (simp add: word_less_nat_alt)
qed

lemma sk_tpoll_shrinks: "slow_clock os \<Longrightarrow> 0 < t \<Longrightarrow> sk_tpoll os t s w = Some (b, t', w') \<Longrightarrow> unat t' < unat t"
  by (cases s) (auto dest: tpoll_shrinks)

lemma rcv_timeout_kept: "rcv inet_ntop os p w = Some (r, p', w') \<Longrightarrow> p_timeout p' = p_timeout p"
  by (auto simp: rcv_def Let_def say_def split: prod.splits if_splits option.splits)

lemma rcv_loop_returns:
  assumes "slow_clock os"
  shows "0 < p_timeout p \<Longrightarrow> \<exists>r. rcv_loop inet_ntop os p w = Some r"
proof (induction "unat (p_timeout p)" arbitrary: p w rule: less_induct)
  case less
  show ?case
  proof (cases "sk_tpoll os (p_timeout p) (p_sk p) w")
    case (Some x)
    then obtain rdy t w1 where x: "sk_tpoll os (p_timeout p) (p_sk p) w = Some (rdy, t, w1)" by (cases x) auto
    show ?thesis
    proof (cases "rdy \<and> rcv inet_ntop os (p\<lparr>p_timeout := t\<rparr>) w1 \<noteq> None")
      case True
      then obtain r p2 w2 where r: "rcv inet_ntop os (p\<lparr>p_timeout := t\<rparr>) w1 = Some (r, p2, w2)" by auto
      have "unat (p_timeout p2) < unat (p_timeout p)"
        using rcv_timeout_kept [OF r] sk_tpoll_shrinks [OF assms less.prems x] by simp
      then show ?thesis using less.hyps [of p2 w2] True x r by (subst rcv_loop.simps) auto
    qed (use x in \<open>subst rcv_loop.simps, auto split: option.splits\<close>)
  qed (subst rcv_loop.simps, simp)
qed

lemma rcv_timeout_ends: "slow_clock os \<Longrightarrow> \<exists>r. rcv_timeout inet_ntop os p w = Some r"
  unfolding rcv_timeout_def by (rule rcv_loop_returns) (simp_all add: pmc_wait_def)

lemma small_slow: "slow_clock small_os"
  by (auto simp: slow_clock_def valid_time_def usecs_def ok_ret_def)

text \<open>
  A system on which messages of another kind arrive at once and no whole millisecond passes while the
  tool looks for one: the loop never ends.
\<close>

fun flood_os :: "unit os" where
  "flood_os (Select _ _) w = (\<lparr>rc = 1, out = [], name = [], num = 0, ready = True, tv = (0, 0)\<rparr>, w)"
| "flood_os (Recv _ _ _) w = (\<lparr>rc = 44, out = replicate 44 0, name = [], num = 0, ready = True, tv = (0, 0)\<rparr>, w)"
| "flood_os _ w = (\<lparr>rc = 0, out = [], name = [], num = 0, ready = True, tv = (0, 0)\<rparr>, w)"

definition flooded :: "pmc \<Rightarrow> bool" where
  "flooded p \<longleftrightarrow> 0 < p_timeout p \<and> \<not> p_use_uds p \<and>
     (\<exists>s. p_sk p = SkIp4 s \<and> m_isInit s \<and> 0 \<le> m_fd s \<and> m_fd s < FD_SETSIZE)"

lemma flood_poll: "flooded p \<Longrightarrow> sk_tpoll flood_os (p_timeout p) (p_sk p) w = Some (True, p_timeout p, ())"
  by (auto simp: flooded_def tpoll_def poll_def timersub_def Let_def)

lemma flood_rcv:
  assumes "flooded p"
  shows "\<exists>p'. rcv inet_ntop flood_os p w = Some (1, p', ()) \<and> flooded p'"
proof -
  obtain s where s: "p_sk p = SkIp4 s" "m_isInit s" using assms by (auto simp: flooded_def)
  let ?b = "replicate 44 0 @ drop 44 (p_buf p)"
  have "rd8 0 (q\<lparr>mem := ?b\<rparr>) = Some 0" for q :: Message by (simp add: rd8_in nth_append)
  then have "\<exists>m. parse ?b 44 (p_msg p) = Some (MNG_PARSE_ERROR_HEADER, m)"
    by (simp add: parse_def check_type_def sigBaseSize_def)
  then show ?thesis using assms s
    by (auto simp: rcv_def SockIp_rcvBase_def received_def pmc_bufSize_def flooded_def Let_def)
qed

lemma flood_no_return: "flooded p \<Longrightarrow> rcv_loop inet_ntop flood_os p w = None"
proof (rule ccontr)
  assume f: "flooded p" "rcv_loop inet_ntop flood_os p w \<noteq> None"
  then obtain r where r: "rcv_loop inet_ntop flood_os p w = Some r" by blast
  have "flood_os = flood_os \<longrightarrow> \<not> flooded p"
  proof (rule rcv_loop.raw_induct [where P = "\<lambda>inet_ntop os p w r. os = flood_os \<longrightarrow> \<not> flooded p", OF _ r])
    fix loop inet_ntop os p w r
    assume IH: "\<And>n os p w r. loop n os p w = Some r \<Longrightarrow> os = flood_os \<longrightarrow> \<not> flooded p"
      and step: "(case sk_tpoll os (p_timeout p) (p_sk p) w of
        None \<Rightarrow> Some None
      | Some (rdy, t, w1) \<Rightarrow>
          if \<not> rdy then Some (Some (p\<lparr>p_timeout := t\<rparr>, w1))
          else
            (case rcv inet_ntop os (p\<lparr>p_timeout := t\<rparr>) w1 of
               None \<Rightarrow> Some None
             | Some (r, p2, w2) \<Rightarrow>
                 if r = 1 \<and> p_timeout p2 > 0 then loop inet_ntop os p2 w2 else Some (Some (p2, w2)))) = Some r"
    show "os = flood_os \<longrightarrow> \<not> flooded p"
    proof (intro impI notI)
      assume os: "os = flood_os" and f: "flooded p"
      obtain p' where p': "rcv inet_ntop flood_os p () = Some (1, p', ())" "flooded p'" using flood_rcv [OF f] by blast
      then have "loop inet_ntop os p' () = Some r"
        using step flood_poll [OF f] os by (auto simp: flooded_def)
      then show False using IH p'(2) os by blast
    qed
  qed
  then show False using f(1) by simp
qed

section \<open>Properties\<close>


definition sig_os :: "byte list \<Rightarrow> unit os" where
  "sig_os b c w = (case c of
     Recv _ _ _ \<Rightarrow> (\<lparr>rc = int (length b), out = b, name = [], num = 0, ready = True, tv = (0, 0)\<rparr>, w)
   | _ \<Rightarrow> (\<lparr>rc = 0, out = [], name = [], num = 0, ready = True, tv = (0, 0)\<rparr>, w))"

definition demo_sync :: BaseSigTlv where
  "demo_sync = SIG_SLAVE_RX_SYNC_TIMING_DATA new_SLAVE_RX_SYNC_TIMING_DATA"

definition sync_msg :: "byte list" where
  "sync_msg = [Signaling, ptp_major_ver] @ replicate 30 0 @ [controlFieldDef, logMessageIntervalDef] @ replicate 10 0 @
     enc_sig_tlv demo_sync"

definition sync_sock :: Sock where
  "sync_sock = SkIp4 ((new_SockIp4 LITTLE 0)\<lparr>m_fd := 3, m_isInit := True\<rparr>)"

definition sync_pmc :: pmc where
  "sync_pmc = \<lparr>p_buf = replicate pmc_bufSize 0, p_msg = (blank LITTLE)\<lparr>m_prms := MsgParams_zero\<lparr>rcvSignaling := True\<rparr>\<rparr>,
     p_sk = sync_sock, p_use_uds = False, p_timeout = 0, p_seq = 0, p_out = [], p_live = 0\<rparr>"

lemma signaling_append: "signaling b n ts \<Longrightarrow> signaling (b @ c) n ts"
  by (auto simp: signaling_def sigBaseSize_def nth_append)


end
