(* ===== verification/PmcRun.thy ===== *)
theory PmcRun
  imports PmcSend PmcRcv
begin

text \<open>
  The \<^verbatim>\<open>pmc\<close> tool from its start to its end: an invariant of its reachable states, the one
  descriptor it holds, and when it ends. A property that commands, messages and waiting keep is an
  instance of the locale \<open>kept_by_tool\<close>, in which the loops of \<^verbatim>\<open>main\<close> are shown to keep it.
\<close>

section \<open>Descriptors\<close>

lemma sk_send_owns: "posix_fds os fds \<Longrightarrow> owns fds B fd (snd (sk_send os msg s w)) = owns fds B fd w"
  by (cases s) (auto simp: SockUnix_sendBase_def sendAny_def SockIp_sendBase_def SockRaw_sendBase_def Let_def split_beta)

lemma sk_rcv_owns:
  "posix_fds os fds \<Longrightarrow> sk_rcv os buf n block s w = (cnt, buf', s', w') \<Longrightarrow>
   owns fds B fd w' = owns fds B fd w \<and> sk_fd s' = sk_fd s \<and> is_unix s' = is_unix s"
  by (cases s) (auto simp: SockUnix_rcvBase_def rcvFrom_def SockIp_rcvBase_def SockRaw_rcvBase_def Let_def split_beta
      split: if_splits)

lemma sk_tpoll_owns: "posix_fds os fds \<Longrightarrow> sk_tpoll os t s w = Some (r, t', w') \<Longrightarrow> owns fds B fd w' = owns fds B fd w"
  by (cases s) (auto dest: owns_tpoll)

lemma length_received: "n \<le> length buf \<Longrightarrow> length (received n octets buf) = length buf"
  by (simp add: received_def)

lemma sk_rcv_length:
  "sk_rcv os buf n block s w = (cnt, buf', s', w') \<Longrightarrow> n \<le> length buf \<Longrightarrow> length buf' = length buf"
  by (cases s) (auto simp: SockUnix_rcvBase_def rcvFrom_def SockIp_rcvBase_def SockRaw_rcvBase_def Let_def split_beta
      length_received split: if_splits)

lemma raw_init_owns:
  assumes "posix_fds os fds" "owns fds B (m_fd s) w" "m_fd s < 0" "SockRaw_initBase h os s w = Some (r, s', w')"
  shows "owns fds B (m_fd s') w'"
proof -
  have w: "owns fds B (- 1) w" using assms(2) unfolding owns_neg [OF assms(3)] .
  have x: "m_fd s3 = m_fd s2" if "raw_tx h s2 = Some s3" for s2 s3
    using that by (auto simp: raw_tx_def split: bind_splits)
  show ?thesis
    using assms(4) w owns_socket [OF assms(1) w] assms(1,2)
    by (auto simp: SockRaw_initBase_def Let_def split_beta simp del: sys_all.simps dest!: x
        split: if_splits option.splits bool.splits)
qed

lemma sk_init_owns:
  assumes "posix_fds os fds" "owns fds B (sk_fd s) w" "sk_fd s < 0" "sk_init h pton os s w = Some (r, s', w')"
  shows "owns fds B (sk_fd s') w'"
proof (cases s)
  case (SkRaw q)
  then show ?thesis using assms raw_init_owns [OF assms(1)] by auto
qed (use assms sock_call_owns [OF sock_call.init [OF assms(4)] assms(1)] in auto)

section \<open>Start\<close>

lemma setters_fd [simp]:
  "m_fd (snd (setUdpTtl v s4)) = m_fd s4" "m_fd (snd (setScope v s6)) = m_fd s6"
  "m_fd (snd (setSocketPriority v sr)) = m_fd sr" "m_fd (snd (setPtpDstMac mac sr)) = m_fd sr"
  by (simp_all add: setter_defs Let_def)

lemma setAll_fd:
  "setAll SockIp4_setAllBase ifObj cfg sec s4 = Some rs4 \<Longrightarrow> m_fd (snd rs4) = m_fd s4"
  "setAll SockIp6_setAllBase ifObj cfg sec s6 = Some rs6 \<Longrightarrow> m_fd (snd rs6) = m_fd s6"
  "setAll SockRaw_setAllBase ifObj cfg sec sr = Some rsr \<Longrightarrow> m_fd (snd rsr) = m_fd sr"
  by (auto simp: setter_defs Let_def split: if_splits prod.splits bool.splits option.splits)

lemma opt_set_fd [simp]: "(\<And>v s. g (snd (f v s)) = g s) \<Longrightarrow> g (snd (opt_set opts c f rs)) = g (snd rs)"
  by (simp add: opt_set_def)

lemma set_dst_mac_fd [simp]: "m_fd (snd (set_dst_mac opts rs)) = m_fd (snd rs)"
  by (auto simp: set_dst_mac_def split: prod.splits bool.splits)

lemma init_or_fail_owns:
  assumes "posix_fds os fds" "owns fds B (- 1) w" "sk_fd (mk (snd rs)) = - 1"
    "init_or_fail mk env os rs w = Some (Some s, w')"
  shows "owns fds B (sk_fd s) w'"
proof -
  have "sk_init (e_host env) (e_pton env) os (mk (snd rs)) w = Some (True, s, w')"
    using assms(4) by (auto simp: init_or_fail_def split: if_splits)
  from sk_init_owns [OF assms(1) _ _ this] show ?thesis using assms(2,3) by simp
qed

lemma sk_init_class: "sk_init h pton os s w = Some (r, s', w') \<Longrightarrow> is_unix s' = is_unix s"
  by (cases s) (auto split: prod.splits)

lemma open_unix_owns:
  assumes "posix_fds os fds" "owns fds B (- 1) w" "open_unix env os opts ifName cfg w = Some (Some s, w')"
  shows "owns fds B (sk_fd s) w' \<and> is_unix s"
proof -
  obtain addr s1 w1 s2 s3 where u: "setDefSelfAddress os [] [] new_SockUnix w = Some (True, s1, w1)"
      "SockUnix_initBase os s1 w1 = (True, s2, w')" "setPeerInternal addr s2 = (True, s3)" "s = SkUnix s3"
    using assms(3) by (auto simp: open_unix_def Let_def split: bind_splits if_splits prod.splits)
  have "owns fds B (m_fd s1) w1" using owns_home [OF assms(1) u(1)] assms(2) by (simp add: new_SockUnix_def)
  then have "owns fds B (m_fd s2) w'" using unix_fd.init_owns [OF assms(1)] u(2) by blast
  then show ?thesis using u(3,4) by (auto simp: setPeerInternal_def Let_def split: if_splits)
qed

lemma open_transport_owns:
  assumes "posix_fds os fds" "owns fds B (- 1) w" "open_transport env os net opts ifName cfg ifObj w = Some (Some s, w')"
  shows "owns fds B (sk_fd s) w'"
proof -
  have n: "m_fd (new_SockIp4 h i) = - 1" "m_fd (new_SockIp6 h i) = - 1" "m_fd (new_SockRaw i rx) = - 1" for h i rx
    by (simp_all add: new_SockIp4_def new_SockIp6_def new_SockRaw_def)
  show ?thesis
    using assms(3) open_unix_owns [OF assms(1,2)] n
    by (auto simp: open_transport_def open_ip4_def open_ip6_def open_raw_def split: if_splits bind_splits
        dest!: setAll_fd elim!: init_or_fail_owns [OF assms(1,2), rotated])
qed

lemma use_interface_owns:
  assumes "posix_fds os fds" "use_interface os net ifName prms w = Some (x, w')"
  shows "owns fds B fd w' = owns fds B fd w"
proof -
  have "owns fds B fd v = owns fds B fd w" if "initUsingName os ifName new_IfInfo w = (ok, i, v)" for ok i v
    using owns_if(1) [OF assms(1), of B fd ifName new_IfInfo w] that by (simp del: owns_if)
  then show ?thesis using assms(2) by (auto simp: use_interface_def Let_def split: if_splits prod.splits)
qed

lemma start_owns:
  assumes "posix_fds os fds" "start env os opts net z batch w = Some (Inr p, w')"
  shows "owns fds (fds w) (sk_fd (p_sk p)) w'"
proof -
  have w: "owns fds (fds w) (- 1) w" by (simp add: owns_def)
  have g: "owns fds B fd v' = owns fds B fd v" if "os Getpid v = (r, v')" for B fd v v' r
    using owns_other [OF assms(1), of Getpid B fd v] that by simp
  show ?thesis
    using assms(2) w
    by (auto simp: start_def Let_def g dest!: use_interface_owns [OF assms(1)] open_transport_owns [OF assms(1), rotated]
        split: bind_splits if_splits option.splits prod.splits)
qed

section \<open>Choosing the target\<close>

definition plain :: "char \<Rightarrow> bool" where
  "plain c \<longleftrightarrow> c \<noteq> NUL \<and> c \<notin> set toksep \<and> c \<noteq> CHR ''-'' \<and> c \<noteq> CHR ''*''"

lemma plain_digit: "n < 16 \<Longrightarrow> plain (digit n)"
proof -
  have "list_all (\<lambda>n. plain (digit n)) [0..<16]" by code_simp
  then have "\<forall>n\<in>{0..<16}. plain (digit n)" unfolding list_all_iff set_upt .
  then show "n < 16 \<Longrightarrow> plain (digit n)" by simp
qed

lemma plain_hex2: "c \<in> set (hex2 b) \<Longrightarrow> plain c"
  using unat_byte_nibbles [of b] by (auto simp: hex2_def intro: plain_digit)

lemma plain_identity: "c \<in> set (ClockIdentity_string i) \<Longrightarrow> plain c"
proof -
  have "plain (CHR ''.'')" by code_simp
  then show "c \<in> set (ClockIdentity_string i) \<Longrightarrow> plain c"
    by (auto simp: ClockIdentity_string_def Let_def dest: plain_hex2)
qed

lemma plain_dec: "c \<in> set (dec n) \<Longrightarrow> plain c"
  using dec_digits [of n] plain_digit by fastforce

lemma updatePortIdentity_text:
  assumes "length (v_octets (PortIdentity_t.clockIdentity t)) = 8"
  shows "updatePortIdentity prms (pre @ PortIdentity_string t @ NUL # rest) (length pre) =
    Some (True, pre @ ClockIdentity_string (PortIdentity_t.clockIdentity t) @ NUL # dec (unat (PortIdentity_t.portNumber t)) @ NUL # rest,
      prms\<lparr>target := t\<rparr>)"
proof -
  let ?c = "ClockIdentity_string (PortIdentity_t.clockIdentity t)" and ?n = "unat (PortIdentity_t.portNumber t)"
  have s: "PortIdentity_string t = ?c @ CHR ''-'' # dec ?n" by (simp add: PortIdentity_string_def to_string_def)
  note n = number_bounds(4-6) [of "PortIdentity_t.portNumber t"]
  have p: "CHR ''-'' \<notin> set ?c" "NUL \<notin> set (?c @ CHR ''-'' # dec ?n)"
    using plain_identity plain_dec by (auto simp: plain_def)
  then have "cstr_at (pre @ PortIdentity_string t @ NUL # rest) (length pre) = Some (?c @ CHR ''-'' # dec ?n)"
    unfolding s by (intro cstr_at_mid)
  moreover have "takeWhile (\<lambda>c. c \<noteq> CHR ''-'') (?c @ CHR ''-'' # dec ?n) = ?c"
    using p(1) by (auto simp: takeWhile_append)
  moreover have "strtol 0 (dec ?n) = (int ?n, [])" using n by (simp_all add: strtol_dec)
  ultimately show ?thesis
    using clock_identity_text [OF assms, of "[]"] assms n
    by (simp add: updatePortIdentity_def Let_def s list_update_append)
qed

lemma updatePortIdentity_ok:
  "updatePortIdentity prms buf str = Some (True, buf', q) \<Longrightarrow> \<exists>t. q = prms\<lparr>target := t\<rparr> \<and> ok_PortIdentity t"
  by (auto simp: updatePortIdentity_def Let_def ok_PortIdentity_def ok_ClockIdentity_def split: option.splits if_splits prod.splits)

section \<open>Invariant\<close>

lemma start_params:
  "use_interface os net ifName prms w = Some (Some (i, q), w') \<Longrightarrow> ok_prms prms \<Longrightarrow> ok_prms q"
  "option_params opts ifName cfg prms = Some q \<Longrightarrow> ok_prms prms \<Longrightarrow> ok_prms q"
  "ok_prms (final_params uds batch pid z prms) = ok_prms prms"
  by (auto simp: use_interface_def option_params_def final_params_def Let_def ok_prms_def ok_PortIdentity_def
      ok_ClockIdentity_def poke_eq_Some_iff split: if_splits prod.splits bind_splits option.splits)

lemma start_shape:
  assumes "start env os opts net z batch w = Some (Inr p, w')"
  shows "\<exists>cfg net' i q1 w1 q2 pid. use_interface os net' (opt_at opts (CHR ''i'')) (m_prms (new_Message (e_msg env))) w = Some (Some (i, q1), w1) \<and>
    option_params opts (opt_at opts (CHR ''i'')) cfg q1 = Some q2 \<and> p_use_uds p = (net' = CHR ''u'') \<and>
    p_msg p = snd (updateParams (final_params (p_use_uds p) batch pid z q2) (new_Message (e_msg env))) \<and>
    p_buf p = replicate pmc_bufSize 0 \<and> p_seq p = 0"
  using assms by (auto simp: start_def Let_def split: bind_splits if_splits option.splits prod.splits) blast+

lemma start_ok:
  assumes "start env os opts net z batch w = Some (Inr p, w')"
  shows "pmc_ok p" "p_seq p = 0"
proof -
  let ?m = "new_Message (e_msg env)"
  obtain q uds pid where q: "ok_prms q" "p_msg p = snd (updateParams (final_params uds batch pid z q) ?m)"
      "p_buf p = replicate pmc_bufSize 0" "p_seq p = 0"
    using start_shape [OF assms] start_params(1,2) new_Message_fields(3) by metis
  have "api_step ?m (p_msg p)" unfolding q(2) by (rule api_step.update, rule prod.collapse [symmetric])
  then have "api_reachable (p_msg p)" by (blast intro: api_reachable.intros)
  moreover have "ok_prms (m_prms (p_msg p))"
    using q(1) start_params(3) new_Message_fields by (auto simp: q(2) updateParams_def)
  ultimately show "pmc_ok p" "p_seq p = 0" using q(3,4) by (simp_all add: pmc_ok_def)
qed

lemma pmc_ok_msg:
  assumes "pmc_ok p" "api_step (p_msg p) m" "ok_prms (m_prms m)" "p_msg p' = m" "length (p_buf p') = length (p_buf p)"
  shows "pmc_ok p'"
  using assms by (auto simp: pmc_ok_def intro: api_reachable.step)

lemma pmc_ok_say [simp]: "pmc_ok (say t p) = pmc_ok p" "pmc_ok (p\<lparr>p_live := n\<rparr>) = pmc_ok p" "pmc_ok (p\<lparr>p_timeout := t'\<rparr>) = pmc_ok p"
  by (simp_all add: pmc_ok_def say_def)

text \<open>What a command line changes: the message, the texts and counters, not the socket.\<close>

definition tool_step :: "pmc \<Rightarrow> pmc \<Rightarrow> bool" where
  "tool_step p p' \<longleftrightarrow> (pmc_ok p \<longrightarrow> pmc_ok p') \<and> p_sk p' = p_sk p \<and> p_use_uds p' = p_use_uds p \<and>
     p_seq p \<le> p_seq p'"

lemma tool_step_refl [simp]: "tool_step p p"
  by (simp add: tool_step_def)

lemma tool_step_trans: "tool_step p q \<Longrightarrow> tool_step q r \<Longrightarrow> tool_step p r"
  by (auto simp: tool_step_def)

lemma tool_step_msg:
  "api_step (p_msg p) m \<Longrightarrow> (ok_prms (m_prms (p_msg p)) \<Longrightarrow> ok_prms (m_prms m)) \<Longrightarrow> tool_step p (p\<lparr>p_msg := m\<rparr>)"
  "api_step (p_msg p) m \<Longrightarrow> (ok_prms (m_prms (p_msg p)) \<Longrightarrow> ok_prms (m_prms m)) \<Longrightarrow> tool_step p (p\<lparr>p_msg := m, p_live := n\<rparr>)"
  by (auto simp: tool_step_def pmc_ok_def intro: api_reachable.step)

lemma send_line_step:
  assumes "send_line os tid data p w = Some (r, p', w')"
  shows "tool_step p p'"
proof -
  obtain p1 where s: "sendAction os p w = Some (r, p1, w')"
    and p': "p' = p1 \<or> (\<exists>t. p' = say t p1) \<or> (\<exists>t n. p' = (say t p1)\<lparr>p_live := n\<rparr>)"
    using assms unfolding send_line_def Let_def by (auto split: option.splits bool.splits if_splits) blast+
  note k = sendAction_keeps [OF s]
  have "tool_step p p1"
    using k pmc_ok_msg [of p "p_msg p1" p1] by (auto simp: tool_step_def pmc_ok_def)
  then show ?thesis using p' by (auto simp: tool_step_def) (auto simp: say_def)
qed

lemma run_id_step:
  assumes "run_id junk os act tid buf save p w = Some (r, p', w')"
  shows "tool_step p p'"
proof -
  have a: "tool_step p (p\<lparr>p_msg := m\<rparr>)" if "setAction act tid (p_msg p) = (b, m)" for b m
    using api_step.action [OF that] that by (intro tool_step_msg) (auto simp: setAction_def split: if_splits)
  have d: "tool_step p (p\<lparr>p_msg := m, p_live := n\<rparr>)" if "setAction_data act tid t (p_msg p) = (b, m)" for b m t n
    using api_step.action_data [OF that] that by (intro tool_step_msg) (auto simp: setAction_data_def split: if_splits)
  show ?thesis
    using assms
    by (auto simp: run_id_def split: if_splits prod.splits bool.splits option.splits
        dest!: send_line_step a d [where n = "Suc (p_live p)"] intro: tool_step_trans)
qed

lemma target_line_step:
  assumes "target_line buf save p = Some p'"
  shows "tool_step p p'"
proof -
  have c: "tool_step p (p\<lparr>p_msg := setAllClocks (p_msg p)\<rparr>)"
    by (rule tool_step_msg(1) [OF api_step.clocks]) (auto simp: setAllClocks_def ok_prms_def ok_PortIdentity_def
        ok_ClockIdentity_def allClocks_def)
  have u: "tool_step p (p\<lparr>p_msg := snd (updateParams q (p_msg p))\<rparr>)"
    if "updatePortIdentity (m_prms (p_msg p)) b c = Some (True, b', q)" for b c b' q
    using updatePortIdentity_ok [OF that]
    by (intro tool_step_msg(1) [OF api_step.update [OF prod.collapse [symmetric]]]) (auto simp: updateParams_def ok_prms_def)
  show ?thesis
    using assms c u by (auto simp: target_line_def split: bind_splits option.splits if_splits)
qed

lemma run_line_step: "run_line junk os l p w = Some (r, p', w') \<Longrightarrow> tool_step p p'"
  by (auto simp: run_line_def split: bind_splits option.splits if_splits dest!: run_id_step target_line_step)

lemma run_line_owns:
  assumes "posix_fds os fds" "run_line junk os l p w = Some (r, p', w')"
  shows "owns fds B fd w' = owns fds B fd w"
proof -
  have s: "owns fds B fd v' = owns fds B fd v" if "send_line os tid b q v = Some (x, q', v')" for tid b q v x q' v'
    using that sk_send_owns [OF assms(1), of B fd]
    by (auto simp: send_line_def sendAction_def Let_def split: option.splits bool.splits if_splits prod.splits)
      (metis snd_conv)+
  show ?thesis
    using assms(2) by (auto simp: run_line_def run_id_def dest: s split: bind_splits option.splits if_splits prod.splits bool.splits)
qed

lemma rcv_step:
  assumes "rcv inet_ntop os p w = Some (r, p', w')"
  shows "pmc_ok p \<Longrightarrow> pmc_ok p'" "p_seq p' = p_seq p" "p_use_uds p' = p_use_uds p"
    "posix_fds os fds \<Longrightarrow> owns fds B (sk_fd (p_sk p')) w' = owns fds B (sk_fd (p_sk p)) w"
proof -
  obtain cnt b s where k: "sk_rcv os (p_buf p) pmc_bufSize True (p_sk p) w = (cnt, b, s, w')"
    and p': "p_buf p' = b" "p_sk p' = s" "p_seq p' = p_seq p" "p_use_uds p' = p_use_uds p"
      "p_msg p' = p_msg p \<or> (\<exists>err. parse b cnt (p_msg p) = Some (err, p_msg p'))"
    using assms by (auto simp: rcv_def Let_def say_def split: prod.splits if_splits option.splits)
  show "p_seq p' = p_seq p" "p_use_uds p' = p_use_uds p" by (rule p'(3), rule p'(4))
  show "posix_fds os fds \<Longrightarrow> owns fds B (sk_fd (p_sk p')) w' = owns fds B (sk_fd (p_sk p)) w"
    using sk_rcv_owns [OF _ k] p'(2) by auto
  assume ok: "pmc_ok p"
  then have "length b = length (p_buf p)" using sk_rcv_length [OF k] by (simp add: pmc_ok_def)
  then show "pmc_ok p'"
    using ok p'(1,5) parse_sends [of b cnt "p_msg p"]
    by (auto simp: pmc_ok_def sends_same_def intro: api_reachable.step [OF _ api_step.parse])
qed

section \<open>Reachable states\<close>

text \<open>The states of a tool started in the world \<open>w0\<close>, between two of its commands and messages.\<close>

inductive pmc_reachable :: "pmc_env \<Rightarrow> 'w os \<Rightarrow> 'w \<Rightarrow> pmc \<Rightarrow> 'w \<Rightarrow> bool" for env os w0 where
  started: "start env os opts net z batch w0 = Some (Inr p, w) \<Longrightarrow> pmc_reachable env os w0 p w"
| line: "pmc_reachable env os w0 p w \<Longrightarrow> run_line (e_octet env) os l p w = Some (r, p', w') \<Longrightarrow> pmc_reachable env os w0 p' w'"
| receive: "pmc_reachable env os w0 p w \<Longrightarrow> rcv (e_ntop env) os p w = Some (n, p', w') \<Longrightarrow> pmc_reachable env os w0 p' w'"
| poll: "pmc_reachable env os w0 p w \<Longrightarrow> sk_tpoll os t (p_sk p) w = Some (r, t', w') \<Longrightarrow>
    pmc_reachable env os w0 (p\<lparr>p_timeout := t'\<rparr>) w'"
| time: "pmc_reachable env os w0 p w \<Longrightarrow> pmc_reachable env os w0 (p\<lparr>p_timeout := t\<rparr>) w"

lemma reachable_ok: "pmc_reachable env os w0 p w \<Longrightarrow> pmc_ok p \<and> 0 \<le> p_seq p"
proof (induction rule: pmc_reachable.induct)
  case (started opts net z batch p w)
  then show ?case using start_ok [OF started] by simp
next
  case (line p w l r p' w')
  then show ?case using run_line_step [OF line(2)] by (simp add: tool_step_def)
next
  case (receive p w n p' w')
  then show ?case using rcv_step(1,2) [OF receive(2)] by simp
qed simp_all

lemma reachable_owns:
  assumes "posix_fds os fds"
  shows "pmc_reachable env os w0 p w \<Longrightarrow> owns fds (fds w0) (sk_fd (p_sk p)) w"
proof (induction rule: pmc_reachable.induct)
  case (started opts net z batch p w)
  then show ?case using start_owns [OF assms] by blast
next
  case (line p w l r p' w')
  then show ?case using run_line_step [OF line(2)] run_line_owns [OF assms line(2)] by (simp add: tool_step_def)
next
  case (receive p w n p' w')
  then show ?case using rcv_step(4) [OF receive(2) assms] by simp
next
  case (poll p w t r t' w')
  then show ?case using sk_tpoll_owns [OF assms poll(2)] by simp
qed simp

text \<open>
  What the commands, the messages and the waiting keep, the loops of the tool keep.
\<close>

locale kept_by_tool =
  fixes env :: pmc_env and os :: "'w os" and I :: "pmc \<Rightarrow> 'w \<Rightarrow> bool"
  assumes line: "I p w \<Longrightarrow> run_line (e_octet env) os l p w = Some (r, p', w') \<Longrightarrow> I p' w'"
    and receive: "I p w \<Longrightarrow> rcv (e_ntop env) os p w = Some (n, p', w') \<Longrightarrow> I p' w'"
    and poll: "I p w \<Longrightarrow> sk_tpoll os t (p_sk p) w = Some (r, t', w') \<Longrightarrow> I (p\<lparr>p_timeout := t'\<rparr>) w'"
    and time: "I p w \<Longrightarrow> I (p\<lparr>p_timeout := t\<rparr>) w"
begin

lemma rcv_loop_keeps:
  assumes ret: "rcv_loop (e_ntop env) os p w = Some (Some (p', w'))" and "I p w"
  shows "I p' w'"
proof -
  have "\<forall>q v. Some (p', w') = Some (q, v) \<longrightarrow> e_ntop env = e_ntop env \<longrightarrow> os = os \<longrightarrow> I p w \<longrightarrow> I q v"
  proof (rule rcv_loop.raw_induct [where P = "\<lambda>nt o' p w r. \<forall>q v. r = Some (q, v) \<longrightarrow> nt = e_ntop env \<longrightarrow> o' = os \<longrightarrow> I p w \<longrightarrow> I q v",
        OF _ ret])
    fix loop nt o' p w r
    assume IH: "\<And>nt o' p w r. loop nt o' p w = Some r \<Longrightarrow>
        \<forall>q v. r = Some (q, v) \<longrightarrow> nt = e_ntop env \<longrightarrow> o' = os \<longrightarrow> I p w \<longrightarrow> I q v"
      and step: "(case sk_tpoll o' (p_timeout p) (p_sk p) w of
        None \<Rightarrow> Some None
      | Some (rdy, t, w1) \<Rightarrow>
          if \<not> rdy then Some (Some (p\<lparr>p_timeout := t\<rparr>, w1))
          else
            (case rcv nt o' (p\<lparr>p_timeout := t\<rparr>) w1 of
               None \<Rightarrow> Some None
             | Some (r, p2, w2) \<Rightarrow>
                 if r = 1 \<and> p_timeout p2 > 0 then loop nt o' p2 w2 else Some (Some (p2, w2)))) = Some r"
    show "\<forall>q v. r = Some (q, v) \<longrightarrow> nt = e_ntop env \<longrightarrow> o' = os \<longrightarrow> I p w \<longrightarrow> I q v"
    proof (intro allI impI)
      fix q v
      assume r: "r = Some (q, v)" "nt = e_ntop env" "o' = os" "I p w"
      note step = step [unfolded r(1-3)]
      obtain rdy t w1 where k: "sk_tpoll os (p_timeout p) (p_sk p) w = Some (rdy, t, w1)"
        using step by (cases "sk_tpoll os (p_timeout p) (p_sk p) w") auto
      have i: "I (p\<lparr>p_timeout := t\<rparr>) w1" by (rule poll [OF r(4) k])
      show "I q v"
      proof (cases rdy)
        case True
        then obtain c p2 w2 where c: "rcv (e_ntop env) os (p\<lparr>p_timeout := t\<rparr>) w1 = Some (c, p2, w2)"
          using step k by (cases "rcv (e_ntop env) os (p\<lparr>p_timeout := t\<rparr>) w1") auto
        then have "I p2 w2" by (rule receive [OF i])
        then show ?thesis using step True k c IH [of "e_ntop env" os p2 w2] by (simp split: if_splits)
      qed (use step k i in simp)
    qed
  qed
  then show ?thesis using assms(2) by simp
qed

lemma rcv_timeout_keeps: "rcv_timeout (e_ntop env) os p w = Some (Some (p', w')) \<Longrightarrow> I p w \<Longrightarrow> I p' w'"
  unfolding rcv_timeout_def by (erule rcv_loop_keeps) (rule time)

lemma send_all_keeps: "send_all (e_octet env) os args n p w = Some (n', p', w') \<Longrightarrow> I p w \<Longrightarrow> I p' w'"
  by (induction args arbitrary: n p w) (auto split: option.splits dest: line)

lemma receive_all_keeps: "receive_all (e_ntop env) os n p w = Some (Some (p', w')) \<Longrightarrow> I p w \<Longrightarrow> I p' w'"
  by (induction n arbitrary: p w) (auto split: option.splits dest: rcv_timeout_keeps)

lemma uds_loop_keeps: "uds_loop env os old inp p w = Some (Some (p', w')) \<Longrightarrow> I p w \<Longrightarrow> I p' w'"
proof (induction "length inp" arbitrary: inp p w rule: less_induct)
  case less
  show ?case
  proof (cases "fgets_line inp")
    case None
    then show ?thesis using less.prems by (simp add: uds_loop.simps [of env os old inp])
  next
    case (Some x)
    obtain l rest where x: "x = (l, rest)" by (cases x)
    note IH = less.hyps [OF fgets_line_less [OF Some [unfolded x]]]
    show ?thesis
    proof (cases "run_line (e_octet env) os (fill_buf l (old inp)) p w")
      case None
      then show ?thesis using less.prems Some x by (simp add: uds_loop.simps [of env os old inp])
    next
      case (Some y)
      obtain r p1 w1 where y: "y = (r, p1, w1)" by (cases y)
      have p1: "I p1 w1" using line [OF less.prems(2) Some [unfolded y]] .
      show ?thesis
        using less.prems(1) IH rcv_timeout_keeps [OF _ p1] p1 \<open>fgets_line inp = Some x\<close> x Some y
        by (cases r) (auto simp: uds_loop.simps [of env os old inp] split: option.splits)
    qed
  qed
qed

lemma net_loop_keeps: "net_loop env os old polls inp p w = Some (b, p', w') \<Longrightarrow> I p w \<Longrightarrow> I p' w'"
proof (induction polls arbitrary: inp p w)
  case (Cons x polls)
  obtain r sock_in std_in where x: "x = (r, sock_in, std_in)" by (cases x)
  show ?case
    using Cons.prems(1) Cons.IH Cons.prems(2) receive [OF Cons.prems(2)] line [OF Cons.prems(2)]
    by (auto simp: x split: if_splits option.splits)
qed simp

end

interpretation reach: kept_by_tool env os "pmc_reachable env os w0" for env os w0
  by unfold_locales (auto intro: pmc_reachable.intros)

lemma start_fails: "start env os opts net z b w = Some (Inl code, w') \<Longrightarrow> code = - 1"
  by (auto simp: start_def Let_def split: bind_splits if_splits option.splits prod.splits)

lemma main_state:
  assumes "main env os optargs args old polls inp w = Some (Some (0, printed, w'))"
  shows "w' = w \<or> (\<exists>p w1. pmc_reachable env os w p w1 \<and> w' = snd (sk_close os (p_sk p) w1))"
proof (cases "opts_loop (getVersion (e_maj env) (e_min env)) optargs Map.empty NUL False")
  case (Inl a)
  then show ?thesis using assms by (cases a) (auto simp: main_def)
next
  case (Inr b)
  obtain opts net z where b: "b = (opts, net, z)" by (cases b)
  obtain x w1 where x: "start env os opts net z (args \<noteq> []) w = Some (x, w1)"
    using assms Inr b by (cases "start env os opts net z (args \<noteq> []) w") (auto simp: main_def)
  show ?thesis
  proof (cases x)
    case (Inl c)
    then show ?thesis using assms \<open>_ = Inr b\<close> b x start_fails [of env os opts net z "args \<noteq> []" w c w1] by (simp add: main_def)
  next
    case (Inr p)
    have r: "pmc_reachable env os w p w1" using x Inr by (auto intro: pmc_reachable.started)
    show ?thesis
      using assms \<open>_ = Inr b\<close> b x Inr reach.send_all_keeps [OF _ r] reach.uds_loop_keeps [OF _ r]
        reach.net_loop_keeps [OF _ r]
      by (auto simp: main_def split: option.splits if_splits bool.splits prod.splits)
        (metis reach.receive_all_keeps snd_conv)+
  qed
qed


section \<open>End of the tool\<close>

lemma receive_all_returns: "slow_clock os \<Longrightarrow> \<exists>r. receive_all inet_ntop os n p w = Some r"
proof (induction n arbitrary: p w)
  case (Suc n)
  obtain r where "rcv_timeout inet_ntop os p w = Some r" using rcv_timeout_ends [OF Suc.prems] by blast
  then show ?case using Suc by (cases r) auto
qed simp

lemma uds_loop_returns:
  assumes "slow_clock os"
  shows "\<exists>r. uds_loop env os old inp p w = Some r"
proof (induction "length inp" arbitrary: inp p w rule: less_induct)
  case less
  show ?case
  proof (cases "fgets_line inp")
    case None
    then show ?thesis by (simp add: uds_loop.simps [of env os old inp])
  next
    case (Some x)
    obtain l rest where x: "x = (l, rest)" by (cases x)
    note IH = less.hyps [OF fgets_line_less [OF Some [unfolded x]]]
    show ?thesis
    proof (cases "run_line (e_octet env) os (fill_buf l (old inp)) p w")
      case None
      then show ?thesis using \<open>fgets_line inp = Some x\<close> x by (simp add: uds_loop.simps [of env os old inp])
    next
      case (Some y)
      obtain r p1 w1 where y: "y = (r, p1, w1)" by (cases y)
      obtain z where z: "rcv_timeout (e_ntop env) os p1 w1 = Some z" using rcv_timeout_ends [OF assms] by blast
      show ?thesis
        using IH \<open>fgets_line inp = Some x\<close> x Some y z
        by (cases r; cases z) (auto simp: uds_loop.simps [of env os old inp])
    qed
  qed
qed

lemma signal_closes:
  assumes "posix_fds os fds" "pmc_reachable env os w0 p w"
  shows "fds (snd (handle_sig os p w)) = fds w0" "fds (snd (handle_sig_ctrl os p w)) = fds w0"
  using sk_close_frees(1) [OF assms(1) reachable_owns [OF assms]]
  by (simp_all add: handle_sig_def handle_sig_ctrl_def split_beta)

section \<open>Options that are lost\<close>

text \<open>The value of \<^verbatim>\<open>-d\<close> is never read: the domain number is taken from \<^verbatim>\<open>-b\<close>.\<close>

lemma domain_option_unread:
  "start env os (opts(CHR ''d'' \<mapsto> x)) net z batch w = start env os (opts(CHR ''d'' \<mapsto> y)) net z batch w"
proof -
  have o: "opt_at (opts(CHR ''d'' \<mapsto> v)) c = opt_at opts c" if "c \<noteq> CHR ''d''" for c v
    using that by (simp add: opt_at_def)
  have p: "option_params (opts(CHR ''d'' \<mapsto> x)) = option_params (opts(CHR ''d'' \<mapsto> y))"
    by (intro ext) (simp add: o option_params_def cong: if_cong)
  have t: "open_transport env os n (opts(CHR ''d'' \<mapsto> x)) = open_transport env os n (opts(CHR ''d'' \<mapsto> y))" for n
    by (intro ext) (simp add: o open_transport_def open_unix_def open_ip4_def open_ip6_def open_raw_def opt_set_def set_dst_mac_def
        cong: if_cong)
  show ?thesis unfolding start_def p t by (simp add: o cong: if_cong)
qed

text \<open>A value of \<^verbatim>\<open>-t\<close> out of range: the message refuses the parameters and all of them are lost.\<close>

lemma bad_transport_drops_options:
  assumes "start env os opts net z batch w = Some (Inr p, w')" "opts (CHR ''t'') = Some v"
    and "word_of_int (fst (strtol 16 (c_str v))) > (0xf :: u8)"
  shows "p_msg p = new_Message (e_msg env)"
proof -
  obtain cfg q1 q2 pid where q: "option_params opts (opt_at opts (CHR ''i'')) cfg q1 = Some q2"
      "p_msg p = snd (updateParams (final_params (p_use_uds p) batch pid z q2) (new_Message (e_msg env)))"
    using start_shape [OF assms(1)] by blast
  have "transportSpecific (final_params (p_use_uds p) batch pid z q2) > 0xf"
    using q(1) assms(2,3) by (auto simp: final_params_def option_params_def opt_at_def Let_def split: bind_splits)
  then show ?thesis using q(2) by (simp add: updateParams_def)
qed

section \<open>Properties\<close>

text \<open>
  Property C14. From the start on, whatever commands are given, whatever arrives and however long the
  tool waits, the buffer keeps its size, the parameters of the messages stay in range, the message is
  one its interface can make, and the sequence number is not negative.
\<close>

theorem tool_invariant:
  assumes "pmc_reachable env os w0 p w"
  shows "length (p_buf p) = 2000 \<and> ok_prms (m_prms (p_msg p)) \<and> api_reachable (p_msg p) \<and> 0 \<le> p_seq p"
  using reachable_ok [OF assms] by (simp add: pmc_ok_def pmc_bufSize_def)

definition demo_pmc_env :: pmc_env where
  "demo_pmc_env = \<lparr>e_maj = 1, e_min = 2, e_host = LITTLE, e_ntop = (\<lambda>_ _. None), e_pton = (\<lambda>_ _. None), e_files = (\<lambda>_. None),
     e_cfg = demo_env 2, e_cfgbuf = [], e_octet = 0, e_int = 0, e_rx = [], e_msg = blank LITTLE\<rparr>"

definition demo_opts :: options where
  "demo_opts = [CHR ''s'' \<mapsto> ''/x'', CHR ''d'' \<mapsto> ''0'', CHR ''t'' \<mapsto> ''0'']"

lemma demo_start:
  "\<exists>p. start demo_pmc_env small_os demo_opts (CHR ''u'') False b ([1, 0], 7) = Some (Inr p, [3, 1, 0], 7) \<and> p_use_uds p \<and> p_out p = [] \<and>
    (\<exists>s. p_sk p = SkUnix s \<and> m_fd s = 3)"
proof -
  obtain c where c: "new_ConfigFile (demo_env 2) = Some c"
    by (simp add: new_ConfigFile_def sec_at_def setGlobal_at_def demo_env_def Let_def)
  have o: "\<exists>q. option_params demo_opts [] c r = Some q" for r
    by (simp add: option_params_def demo_opts_def)
  have u: "\<exists>s. open_unix demo_pmc_env small_os demo_opts [] c ([1, 0], 7) = Some (Some (SkUnix s), [3, 1, 0], 7) \<and> m_fd s = 3"
    by (simp add: open_unix_def demo_opts_def opt_at_def setDefSelfAddress_def new_SockUnix_def setSelfAddress_def ok_ret_def
       SockUnix_initBase_def setPeerInternal_def testUnix_def unix_path_max_def rootBasestr_def to_string_def
       SockUnix_closeBase_def SockBase_closeBase_def dec.simps [of 0] Let_def)
  obtain q where q: "option_params demo_opts [] c (m_prms (new_Message (blank LITTLE))) = Some q" using o by blast
  obtain s where s: "open_unix demo_pmc_env small_os demo_opts [] c ([1, 0], 7) = Some (Some (SkUnix s), [3, 1, 0], 7)" "m_fd s = 3"
    using u by blast
  have e: "e_cfg demo_pmc_env = demo_env 2" "e_msg demo_pmc_env = blank LITTLE" by (simp_all add: demo_pmc_env_def)
  have d: "demo_opts (CHR ''f'') = None" "opt_at demo_opts (CHR ''i'') = []" by (simp_all add: demo_opts_def opt_at_def)
  show ?thesis
    by (simp add: start_def e d c use_interface_def q open_transport_def s ok_ret_def Let_def)
qed


theorem tool_invariant_witness:
  "\<exists>p w. start demo_pmc_env small_os demo_opts (CHR ''u'') False False ([1, 0], 7) = Some (Inr p, w) \<and> length (p_buf p) = 2000"
proof -
  obtain p where s: "start demo_pmc_env small_os demo_opts (CHR ''u'') False False ([1, 0], 7) = Some (Inr p, [3, 1, 0], 7)"
    using demo_start by blast
  then show ?thesis using tool_invariant [OF pmc_reachable.started [OF s]] by blast
qed

text \<open>
  Property C15. When the tool ends with the exit code zero, the descriptors open are those that were
  open when it began.
\<close>

theorem main_closes:
  assumes "posix_fds os fds" and "main env os optargs args old polls inp w = Some (Some (0, printed, w'))"
  shows "fds w' = fds w"
  using main_state [OF assms(2)] sk_close_frees(1) [OF assms(1) reachable_owns [OF assms(1)]] by auto

lemma demo_main: "main demo_pmc_env small_os [(CHR ''u'', []), (CHR ''s'', ''/x''), (CHR ''d'', ''0''), (CHR ''t'', ''0'')] [] (\<lambda>_. [])
    [] [] ([1, 0], 7) = Some (Some (0, [], [1, 0], 7))"
proof -
  have o: "opts_loop v [(CHR ''u'', []), (CHR ''s'', ''/x''), (CHR ''d'', ''0''), (CHR ''t'', ''0'')] Map.empty NUL False =
      Inr (demo_opts, CHR ''u'', False)" for v
    by (simp add: demo_opts_def with_options_def net_options_def l_options_def)
  obtain p s where "start demo_pmc_env small_os demo_opts (CHR ''u'') False False ([1, 0], 7) = Some (Inr p, [3, 1, 0], 7)"
      "p_use_uds p" "p_sk p = SkUnix s" "m_fd s = 3" "p_out p = []"
    using demo_start by blast
  then show ?thesis
    by (simp add: main_def o uds_loop.simps [of _ _ _ "[]"] fgets_line_def SockUnix_closeBase_def SockBase_closeBase_def
        ok_ret_def Let_def split_beta del: opts_loop.simps)
qed

theorem main_closes_witness:
  "\<exists>printed w'. main demo_pmc_env small_os [(CHR ''u'', []), (CHR ''s'', ''/x''), (CHR ''d'', ''0''), (CHR ''t'', ''0'')] [] (\<lambda>_. [])
    [] [] ([1, 0], 7) = Some (Some (0, printed, w')) \<and> set (fst w') = {1, 0}"
  using demo_main main_closes [OF small_posix demo_main] by auto



text \<open>
  Property C19. The command \<^verbatim>\<open>target\<close> with the text of a port identity as the tool prints it makes
  that port the target of the messages.
\<close>

theorem target_reads_back:
  assumes "length (v_octets (PortIdentity_t.clockIdentity t)) = 8" "transportSpecific (m_prms (p_msg p)) \<le> 0xf"
  shows "run_line junk os (''target '' @ PortIdentity_string t @ NUL # rest) p w =
    Some (False, p\<lparr>p_msg := (p_msg p)\<lparr>m_prms := (m_prms (p_msg p))\<lparr>target := t\<rparr>\<rparr>\<rparr>, w)"
proof -
  let ?c = "ClockIdentity_string (PortIdentity_t.clockIdentity t)" and ?t = "PortIdentity_string t"
  have s: "?t = ?c @ CHR ''-'' # dec (unat (PortIdentity_t.portNumber t))" by (simp add: PortIdentity_string_def to_string_def)
  have c: "?c \<noteq> []" "\<forall>c\<in>set ?c. plain c" using plain_identity by (auto simp: ClockIdentity_string_def Let_def hex2_def)
  have t: "?t \<noteq> []" "\<forall>c\<in>set ?t. c \<noteq> NUL \<and> c \<notin> set toksep" "hd ?t \<noteq> CHR ''*''"
    using c plain_dec by (auto simp: s plain_def toksep_def hd_append)
  obtain word where word: "word = ''target''" by blast
  then have w: "word \<noteq> []" "\<forall>c\<in>set word. c \<noteq> NUL \<and> c \<notin> set toksep" "action_of word = None" "strcaseeq word ''target''"
    by (simp_all add: toksep_def action_of_def strcaseeq_def toupper_def)
  have sp: "CHR '' '' \<in> set toksep" by (simp add: toksep_def)
  have "strtok_r (word @ '' '' @ ?t @ NUL # rest) 0 = Some (Some 0, word @ [NUL] @ ?t @ NUL # rest, length word + 1)"
    using strtok_word [of "[]" word "CHR '' ''" "?t @ NUL # rest" "[]", OF _ w(1,2)] sp by simp
  moreover have "cstr_at (word @ [NUL] @ ?t @ NUL # rest) 0 = Some word" using cstr_at_app [of word] w(2) by auto
  moreover have "strtok_r (word @ [NUL] @ ?t @ NUL # rest) (length word + 1) =
      Some (Some (length word + 1), word @ [NUL] @ ?t @ NUL # rest, length word + 1 + length ?t)"
    using strtok_word [of "[]" ?t NUL rest "word @ [NUL]", OF _ t(1,2)] by simp
  moreover have "cstr_at (word @ [NUL] @ ?t @ NUL # rest) (length word + 1) = Some ?t"
    using cstr_at_mid [of ?t "word @ [NUL]" rest] t(2) by auto
  ultimately have "run_line junk os (word @ '' '' @ ?t @ NUL # rest) p w =
      Some (False, p\<lparr>p_msg := (p_msg p)\<lparr>m_prms := (m_prms (p_msg p))\<lparr>target := t\<rparr>\<rparr>\<rparr>, w)"
    using updatePortIdentity_text [OF assms(1), of "m_prms (p_msg p)" "word @ [NUL]" rest] t(1,3) w(3,4) assms(2)
    by (simp add: run_line_def target_line_def updateParams_def)
  then show ?thesis by (simp add: word)
qed

theorem target_reads_back_witness:
  "\<exists>t p'. PortIdentity_string t = ''000102.fffe.030405-7'' \<and>
    run_line 0 small_os (''target 000102.fffe.030405-7'' @ [NUL]) (demo_pmc demo_sock) ([3], 5) = Some (False, p', [3], 5) \<and>
    target (m_prms (p_msg p')) = t"
proof -
  let ?t = "\<lparr>PortIdentity_t.clockIdentity = \<lparr>v_octets = [0, 1, 2, 0xff, 0xfe, 3, 4, 5]\<rparr>, portNumber = 7\<rparr>"
  have "PortIdentity_string ?t = ''000102.fffe.030405-7''" by code_simp
  then show ?thesis
    using target_reads_back [of ?t "demo_pmc demo_sock" 0 small_os "[]" "([3], 5)"]
    by (intro exI [of _ ?t]) (simp add: demo_pmc_def new_Message_fields)
qed

end
