(* ===== verification/PmcBatch.thy ===== *)
theory PmcBatch
  imports PmcRun
begin

text \<open>
  The batch mode of the \<^verbatim>\<open>pmc\<close> tool: the commands of its command line are sent in their order, as
  messages with consecutive sequence numbers.
\<close>

section \<open>Parameters\<close>

lemma send_line_params: "send_line os tid data p w = Some (r, p', w') \<Longrightarrow> m_prms (p_msg p') = m_prms (p_msg p)"
  by (auto simp: send_line_def sendAction_def say_def Let_def dest!: build_keeps
      split: option.splits bool.splits if_splits prod.splits)

lemma run_id_params: "run_id junk os act tid buf save p w = Some (r, p', w') \<Longrightarrow> m_prms (p_msg p') = m_prms (p_msg p)"
  by (auto simp: run_id_def setAction_def setAction_data_def dest!: send_line_params
      split: if_splits option.splits prod.splits bool.splits)

lemma run_line_params: "run_line junk os l p w = Some (True, p', w') \<Longrightarrow> m_prms (p_msg p') = m_prms (p_msg p)"
  by (auto simp: run_line_def dest!: run_id_params split: bind_splits option.splits if_splits)

section \<open>Requests\<close>

text \<open>A request as \<open>request_line\<close> writes it: the id, and for a \<^verbatim>\<open>set\<close> the value.\<close>

type_synonym request = "mng_vals_e \<times> BaseMngTlv option"

definition request_ok :: "MsgParams \<Rightarrow> request \<Rightarrow> bool" where
  "request_ok prms r \<longleftrightarrow> (case snd r of None \<Rightarrow> True | Some t \<Rightarrow> one_number t \<and> tlv_type t = fst r) \<and>
     allowedAction (implementSpecific prms) (fst r) (request_action (snd r))"

definition request_message :: "MsgParams \<Rightarrow> int \<Rightarrow> request \<Rightarrow> byte list" where
  "request_message prms n r = mng_message prms (request_action (snd r)) (word_of_int n) (ids_value (ids ! fst r))
     (request_data (useZeroGet prms) (fst r) (snd r))"

text \<open>The messages of a batch, numbered from \<open>n\<close> on, and sending messages one after another.\<close>

fun batch_messages :: "MsgParams \<Rightarrow> int \<Rightarrow> request list \<Rightarrow> byte list list" where
  "batch_messages prms n [] = []"
| "batch_messages prms n (r # rs) = request_message prms n r # batch_messages prms (n + 1) rs"

fun send_msgs :: "'w os \<Rightarrow> Sock \<Rightarrow> byte list list \<Rightarrow> 'w \<Rightarrow> bool \<times> 'w" where
  "send_msgs os s [] w = (True, w)"
| "send_msgs os s (m # ms) w = (let (ok, w') = sk_send os m s w in if ok then send_msgs os s ms w' else (False, w'))"

lemma send_request:
  assumes "pmc_ok p" "p_seq p < INT_MAX" "request_ok (m_prms (p_msg p)) r"
    and "sk_send os (request_message (m_prms (p_msg p)) (p_seq p) r) (p_sk p) w = (True, w')"
  shows "\<exists>p'. run_line junk os (request_line inet_ntop (fst r) (snd r) @ NUL # rest) p w = Some (True, p', w') \<and>
    p_seq p' = p_seq p + 1 \<and> pmc_ok p' \<and> p_sk p' = p_sk p \<and> m_prms (p_msg p') = m_prms (p_msg p)"
proof -
  obtain p' where p': "run_line junk os (request_line inet_ntop (fst r) (snd r) @ NUL # rest) p w = Some (True, p', w')"
      "p_seq p' = p_seq p + 1"
    using command_line_sent [OF assms(1,2), where data = "snd r" and tid = "fst r" and os = os and w = w and w' = w'
        and junk = junk and inet_ntop = inet_ntop and rest = rest] assms(3,4)
    unfolding request_ok_def request_message_def by blast
  then show ?thesis
    using run_line_step [OF p'(1)] run_line_params [OF p'(1)] assms(1) by (auto simp: tool_step_def)
qed

section \<open>Properties\<close>



end
