(* ===== verification/Buf.thy ===== *)
theory Buf
  imports Prelude
begin

text \<open>
  Class \<^verbatim>\<open>Buf\<close> of \<^verbatim>\<open>src/buf.h\<close> and \<^verbatim>\<open>src/buf.cpp\<close>: a memory block that grows. What
  \<^verbatim>\<open>realloc\<close> does is an argument: \<^term>\<open>None\<close> when it fails, otherwise the octets the new part of
  the block holds.
\<close>

record Buf =
  m_buf :: "byte list option"
  m_bufSize :: nat

definition new_Buf :: Buf where "new_Buf = \<lparr>m_buf = None, m_bufSize = 0\<rparr>"

definition realloc :: "byte list option \<Rightarrow> byte list option \<Rightarrow> nat \<Rightarrow> byte list option" where
  "realloc junk old n =
     map_option (\<lambda>j. take n ((case old of None \<Rightarrow> [] | Some m \<Rightarrow> m) @ j @ replicate n 0)) junk"

definition alloc :: "byte list option \<Rightarrow> nat \<Rightarrow> Buf \<Rightarrow> bool \<times> Buf" where
  "alloc junk n s =
     (if n = 0 then (False, s)
      else if n \<le> m_bufSize s then (True, s)
      else case realloc junk (m_buf s) n of
             None \<Rightarrow> (False, s)
           | Some nb \<Rightarrow> (True, \<lparr>m_buf = Some nb, m_bufSize = n\<rparr>))"

definition new_Buf_size :: "byte list option \<Rightarrow> nat \<Rightarrow> Buf" where
  "new_Buf_size junk n = snd (alloc junk n new_Buf)"

definition isAlloc :: "Buf \<Rightarrow> bool" where
  "isAlloc s \<longleftrightarrow> m_bufSize s > 0 \<and> m_buf s \<noteq> None"

definition buf_inv :: "Buf \<Rightarrow> bool" where
  "buf_inv s \<longleftrightarrow> (case m_buf s of None \<Rightarrow> m_bufSize s = 0 | Some m \<Rightarrow> 0 < m_bufSize s \<and> length m = m_bufSize s)"

inductive buf_reachable :: "Buf \<Rightarrow> bool" where
  new: "buf_reachable new_Buf"
| new_size: "buf_reachable (new_Buf_size junk n)"
| alloc: "buf_reachable s \<Longrightarrow> buf_reachable (snd (alloc junk n s))"

lemma buf_inv_new [simp]: "buf_inv new_Buf"
  by (simp add: buf_inv_def new_Buf_def)

lemma buf_inv_alloc: "buf_inv s \<Longrightarrow> buf_inv (snd (alloc junk n s))"
  by (auto simp: buf_inv_def alloc_def realloc_def split: option.splits)

lemma buf_inv_reachable: "buf_reachable s \<Longrightarrow> buf_inv s"
  by (induction rule: buf_reachable.induct) (simp_all add: buf_inv_alloc new_Buf_size_def)

lemma alloc_ok:
  assumes "buf_reachable s" and "alloc junk n s = (r, s')"
  shows "(if r then 0 < n \<and> n \<le> m_bufSize s' \<and> isAlloc s' \<and>
      (\<exists>m'. m_buf s' = Some m' \<and> length m' = m_bufSize s' \<and>
        (\<forall>m. m_buf s = Some m \<longrightarrow> take (length m) m' = m))
    else s' = s)"
proof -
  have i: "buf_inv s" using assms(1) by (rule buf_inv_reachable)
  show ?thesis
  proof (cases r)
    case True
    then have n: "0 < n" using assms(2) by (auto simp: alloc_def split: if_splits)
    show ?thesis
    proof (cases "n \<le> m_bufSize s")
      case True
      then have "s' = s" "r" using assms(2) n by (auto simp: alloc_def)
      then show ?thesis using i n True by (auto simp: buf_inv_def isAlloc_def split: option.splits)
    next
      case False
      then obtain j where "junk = Some j" using assms(2) \<open>r\<close> n
        by (auto simp: alloc_def realloc_def split: option.splits)
      then show ?thesis using assms(2) False i n
        by (auto simp: alloc_def realloc_def buf_inv_def isAlloc_def split: option.splits)
    qed
  next
    case False
    then show ?thesis using assms(2) by (auto simp: alloc_def split: if_splits option.splits)
  qed
qed

end
