(* ===== verification/PmcReply.thy ===== *)
theory PmcReply
  imports PmcRcv
begin

text \<open>
  Replies in the \<^verbatim>\<open>pmc\<close> tool: the text printed for a reply, and that a reply which arrives while the
  tool waits is printed, however many messages of another kind come first.
\<close>

section \<open>A reply\<close>

text \<open>A reply the tool understands: the parameters of the peer, the action, the value.\<close>

definition reply_ok :: "Message \<Rightarrow> MsgParams \<Rightarrow> actionField_e \<Rightarrow> BaseMngTlv \<Rightarrow> bool" where
  "reply_ok m prms act t \<longleftrightarrow> ok_prms prms \<and> transportSpecific prms \<le> 0xf \<and>
     (act = RESPONSE \<or> act = ACKNOWLEDGE) \<and> checkReplyAction (tlv_type t) act \<and>
     (implementSpecific (m_prms m) = linuxptp \<or> \<not> uses_linuxptp (tlv_type t)) \<and>
     ok_tlv t \<and> enc_tlv t \<noteq> [] \<and> 2 + length (pad_even (enc_tlv t)) < 65536"

definition reply_octets :: "MsgParams \<Rightarrow> actionField_e \<Rightarrow> u16 \<Rightarrow> BaseMngTlv \<Rightarrow> byte list" where
  "reply_octets prms act sequence t = mng_message prms act sequence (ids_value (ids ! tlv_type t)) (pad_even (enc_tlv t))"

definition reply_text :: "(domain \<Rightarrow> byte list \<Rightarrow> string option) \<Rightarrow> MsgParams \<Rightarrow> actionField_e \<Rightarrow> u16 \<Rightarrow> BaseMngTlv \<Rightarrow> string" where
  "reply_text inet_ntop prms act sequence t =
     [CHR 0x09] @ PortIdentity_string (self_id prms) @ '' seq '' @ dec (unat sequence) @ '' '' @ act2str_c act @
     '' MANAGEMENT '' @ mng2str_c (tlv_type t) @ '' '' @ dump_tlv inet_ntop (norm_tlv t) @ [LF]"

lemma norm_tlv_type: "tlv_type (norm_tlv t) = tlv_type t"
  by (cases t) simp_all

lemma enc_tlv_fun: "enc_tlv t \<noteq> [] \<Longrightarrow> tlv_type t < 58 \<and> ids_fun (ids ! tlv_type t) \<noteq> NA"
  by (cases t) (simp_all add: ids_def row_def)

lemma rcv_reply:
  assumes "reply_ok (p_msg p) prms act t"
    and "sk_rcv os (p_buf p) pmc_bufSize True (p_sk p) w =
      (54 + int (length (pad_even (enc_tlv t))), reply_octets prms act sequence t @ rest, s, w')"
  shows "\<exists>p'. rcv inet_ntop os p w = Some (0, p', w') \<and> p_out p' = p_out p @ reply_text inet_ntop prms act sequence t"
proof -
  obtain m where m: "parse (reply_octets prms act sequence t @ rest) (54 + int (length (pad_even (enc_tlv t)))) (p_msg p) =
        Some (MNG_PARSE_ERROR_OK, m)"
      "m_dataGet m = Some (norm_tlv t)" "m_tlv_id m = tlv_type t" "m_replyAction m = act" "m_sequence m = sequence"
      "Message.m_peer m = self_id prms"
    using parse_reply_exact [of prms act t "p_msg p" sequence rest] assms(1) unfolding reply_ok_def reply_octets_def by auto
  have "call_dump inet_ntop m None = Some (dump_tlv inet_ntop (norm_tlv t) @ [LF])"
    using m(2,3) norm_tlv_type enc_tlv_fun [of t] assms(1) by (simp add: call_dump_def reply_ok_def)
  then show ?thesis using assms(2) m
    by (simp add: rcv_def say_def dump_head_def reply_text_def)
qed

section \<open>Waiting\<close>

text \<open>One round of the loop of \<^verbatim>\<open>rcv_timeout\<close> that goes on.\<close>

inductive skips :: "(domain \<Rightarrow> byte list \<Rightarrow> string option) \<Rightarrow> 'w os \<Rightarrow> pmc \<times> 'w \<Rightarrow> pmc \<times> 'w \<Rightarrow> bool" for inet_ntop os where
  skip: "sk_tpoll os (p_timeout p) (p_sk p) w = Some (True, t, w1) \<Longrightarrow>
    rcv inet_ntop os (p\<lparr>p_timeout := t\<rparr>) w1 = Some (1, p', w') \<Longrightarrow> 0 < p_timeout p' \<Longrightarrow> skips inet_ntop os (p, w) (p', w')"

lemma skips_loop: "skips inet_ntop os x y \<Longrightarrow>
   rcv_loop inet_ntop os (fst x) (snd x) = rcv_loop inet_ntop os (fst y) (snd y)"
  by (induction rule: skips.induct) (subst rcv_loop.simps, simp)

lemma skips_all: "(skips inet_ntop os)\<^sup>*\<^sup>* x y \<Longrightarrow>
   rcv_loop inet_ntop os (fst x) (snd x) = rcv_loop inet_ntop os (fst y) (snd y)"
  by (induction rule: rtranclp.induct) (simp_all add: skips_loop)

lemma skips_params: "skips inet_ntop os x y \<Longrightarrow> m_prms (p_msg (fst y)) = m_prms (p_msg (fst x))"
  by (induction rule: skips.induct)
    (auto simp: rcv_def Let_def say_def sends_same_def split: prod.splits if_splits option.splits dest!: parse_sends)

lemma skips_params_all: "(skips inet_ntop os)\<^sup>*\<^sup>* x y \<Longrightarrow> m_prms (p_msg (fst y)) = m_prms (p_msg (fst x))"
  by (induction rule: rtranclp.induct) (simp_all add: skips_params)

text \<open>A system that delivers the messages of a list in order, on which no time passes.\<close>

fun inbox_os :: "byte list list os" where
  "inbox_os (Recv _ _ _) (m # ms) = (\<lparr>rc = int (length m), out = m, name = [], num = 0, ready = True, tv = (0, 0)\<rparr>, ms)"
| "inbox_os (Select _ _) ms =
     (\<lparr>rc = (if ms = [] then 0 else 1), out = [], name = [], num = 0, ready = ms \<noteq> [], tv = (0, 0)\<rparr>, ms)"
| "inbox_os _ ms = (\<lparr>rc = 0, out = [], name = [], num = 0, ready = False, tv = (0, 0)\<rparr>, ms)"

lemma inbox_poll: "flooded p \<Longrightarrow> ms \<noteq> [] \<Longrightarrow>
   sk_tpoll inbox_os (p_timeout p) (p_sk p) ms = Some (True, p_timeout p, ms)"
  by (auto simp: flooded_def tpoll_def poll_def timersub_def Let_def)

lemma inbox_rcv: "flooded p \<Longrightarrow> length m \<le> n \<Longrightarrow>
   sk_rcv inbox_os buf n True (p_sk p) (m # ms) = (int (length m), m @ drop (length m) buf, p_sk p, ms)"
  by (auto simp: flooded_def SockIp_rcvBase_def received_def Let_def)

lemma inbox_other:
  assumes "flooded p"
  shows "\<exists>m b. skips inet_ntop inbox_os (p, replicate 44 0 # x # ms) (p\<lparr>p_buf := b, p_msg := m\<rparr>, x # ms)"
proof -
  let ?b = "replicate 44 0 @ drop 44 (p_buf p)"
  have "rd8 0 (q\<lparr>mem := ?b\<rparr>) = Some 0" for q :: Message by (simp add: rd8_in nth_append)
  then obtain m where "parse ?b 44 (p_msg p) = Some (MNG_PARSE_ERROR_HEADER, m)"
    by (simp add: parse_def check_type_def sigBaseSize_def)
  then have "rcv inet_ntop inbox_os p (replicate 44 0 # x # ms) = Some (1, p\<lparr>p_buf := ?b, p_msg := m\<rparr>, x # ms)"
    using inbox_rcv [OF assms, of "replicate 44 0" pmc_bufSize] assms
    by (simp add: rcv_def pmc_bufSize_def flooded_def)
  then have "skips inet_ntop inbox_os (p, replicate 44 0 # x # ms) (p\<lparr>p_buf := ?b, p_msg := m\<rparr>, x # ms)"
    using inbox_poll [OF assms, of "replicate 44 0 # x # ms"] assms
    by (intro skips.skip [where t = "p_timeout p" and ?w1.0 = "replicate 44 0 # x # ms"]) (simp_all add: flooded_def)
  then show ?thesis by blast
qed

section \<open>Properties\<close>

text \<open>
  Property C17. A reply that arrives while the tool waits for one is printed, with the identity of the
  peer, the sequence, the action, the name of the id and the value, and ends the waiting; messages
  of another kind that come first only delay it.
\<close>

theorem reply_gets_printed:
  assumes "reply_ok (p_msg p) prms act t"
    and "(skips inet_ntop os)\<^sup>*\<^sup>* (p\<lparr>p_timeout := pmc_wait\<rparr>, w) (q, v)"
    and "sk_tpoll os (p_timeout q) (p_sk q) v = Some (True, left, v1)"
    and "sk_rcv os (p_buf q) pmc_bufSize True (p_sk q) v1 =
      (54 + int (length (pad_even (enc_tlv t))), reply_octets prms act sequence t @ rest, s, v2)"
  shows "\<exists>p'. rcv_timeout inet_ntop os p w = Some (Some (p', v2)) \<and>
    p_out p' = p_out q @ reply_text inet_ntop prms act sequence t"
proof -
  have "reply_ok (p_msg (q\<lparr>p_timeout := left\<rparr>)) prms act t"
    using assms(1) skips_params_all [OF assms(2)] by (simp add: reply_ok_def)
  from rcv_reply [OF this, of os v1 sequence rest s v2 inet_ntop] assms(4)
  obtain p' where p': "rcv inet_ntop os (q\<lparr>p_timeout := left\<rparr>) v1 = Some (0, p', v2)"
      "p_out p' = p_out q @ reply_text inet_ntop prms act sequence t" by auto
  have "rcv_timeout inet_ntop os p w = rcv_loop inet_ntop os q v"
    using skips_all [OF assms(2)] by (simp add: rcv_timeout_def)
  also have "\<dots> = Some (Some (p', v2))"
    using assms(3) p'(1) by (subst rcv_loop.simps) simp
  finally show ?thesis using p'(2) by blast
qed

theorem reply_gets_printed_witness:
  "\<exists>p'. rcv_timeout (\<lambda>_ _. None) inbox_os sync_pmc [replicate 44 0, reply_octets demo_prms RESPONSE 3 demo_tlv] =
      Some (Some (p', [])) \<and>
    p_out p' = [CHR 0x09] @ ''010203.0405.060708-9 seq 3 RESPONSE MANAGEMENT PRIORITY1 '' @ IDENT @ ''priority1 100'' @ [LF]"
proof -
  let ?r = "reply_octets demo_prms RESPONSE 3 demo_tlv" and ?p = "sync_pmc\<lparr>p_timeout := pmc_wait\<rparr>"
  have f: "flooded ?p" by (simp add: flooded_def sync_pmc_def sync_sock_def pmc_wait_def FD_SETSIZE_def)
  then have fq: "flooded (?p\<lparr>p_buf := b, p_msg := m\<rparr>)" for b m by (simp add: flooded_def)
  obtain m b where "skips (\<lambda>_ _. None) inbox_os (?p, [replicate 44 0, ?r]) (?p\<lparr>p_buf := b, p_msg := m\<rparr>, [?r])"
    using inbox_other [OF f] by blast
  then have s: "(skips (\<lambda>_ _. None) inbox_os)\<^sup>*\<^sup>* (?p, [replicate 44 0, ?r]) (?p\<lparr>p_buf := b, p_msg := m\<rparr>, [?r])" by blast
  have "\<not> uses_linuxptp PRIORITY1" by code_simp
  then have o: "reply_ok (p_msg sync_pmc) demo_prms RESPONSE demo_tlv"
    by (simp add: reply_ok_def demo_prms_facts demo_tlv_facts PRIORITY_replies pad_even_def)
  have l: "length ?r = 56" by code_simp
  have e: "54 + int (length (pad_even (enc_tlv demo_tlv))) = 56" by (simp add: demo_tlv_facts pad_even_def)
  have x: "reply_text (\<lambda>_ _. None) demo_prms RESPONSE 3 demo_tlv =
      [CHR 0x09] @ ''010203.0405.060708-9 seq 3 RESPONSE MANAGEMENT PRIORITY1 '' @ IDENT @ ''priority1 100'' @ [LF]"
    by code_simp
  show ?thesis
    using reply_gets_printed [OF o s inbox_poll [OF fq], where sequence = 3 and rest = "drop 56 b"] inbox_rcv [OF fq, of ?r pmc_bufSize b m b "[]"]
    by (simp add: e l x pmc_bufSize_def sync_pmc_def)
qed

end
