(* ===== verification/Objects.thy ===== *)
theory Objects
  imports PmcRun Buf PmcReply
begin

text \<open>
  Functions that take a \<^verbatim>\<open>Buf\<close> instead of a block and its size, the destructor of the sockets,
  more of \<^verbatim>\<open>Binary\<close>, the readers of flags and the macros for event bits; and receiving into a
  \<^verbatim>\<open>Buf\<close> and parsing it.
\<close>

section \<open>Overloads for buffers\<close>

definition Buf_get :: "Buf \<Rightarrow> byte list option" where "Buf_get b = m_buf b"

definition Buf_size :: "Buf \<Rightarrow> nat" where "Buf_size b = m_bufSize b"

text \<open>The block of a buffer after a function wrote into it.\<close>

definition with_block :: "Buf \<Rightarrow> byte list \<Rightarrow> Buf" where
  "with_block b m = (if m_buf b = None then b else b\<lparr>m_buf := Some m\<rparr>)"

definition build_Buf :: "Buf \<Rightarrow> u16 \<Rightarrow> Message \<Rightarrow> (MNG_PARSE_ERROR_e \<times> Buf \<times> Message) option" where
  "build_Buf b sequence s =
     map_option (\<lambda>(err, s'). (err, with_block b (mem s'), s')) (build (Buf_get b) (Buf_size b) sequence s)"

text \<open>\<^verbatim>\<open>parse\<close> looks at the size first, so a buffer without a block matters only for a long message.\<close>

definition parse_Buf :: "Buf \<Rightarrow> int \<Rightarrow> Message \<Rightarrow> (MNG_PARSE_ERROR_e \<times> Message) option" where
  "parse_Buf b msgSize s =
     (case Buf_get b of
        None \<Rightarrow> if msgSize < int sigBaseSize then Some (MNG_PARSE_ERROR_TOO_SMALL, s) else None
      | Some m \<Rightarrow> parse m msgSize s)"

text \<open>Sending \<open>len\<close> octets: \<^term>\<open>None\<close> when the block is shorter.\<close>

definition send_Buf :: "'w os \<Rightarrow> Buf \<Rightarrow> nat \<Rightarrow> Sock \<Rightarrow> 'w \<Rightarrow> (bool \<times> 'w) option" where
  "send_Buf os b len s w = map_option (\<lambda>m. sk_send os m s w) (peek 0 len (case Buf_get b of None \<Rightarrow> [] | Some m \<Rightarrow> m))"

definition rcv_Buf :: "'w os \<Rightarrow> Buf \<Rightarrow> bool \<Rightarrow> Sock \<Rightarrow> 'w \<Rightarrow> int \<times> Buf \<times> Sock \<times> 'w" where
  "rcv_Buf os b block s w =
     (let (cnt, m, s', w') = sk_rcv os (case Buf_get b of None \<Rightarrow> [] | Some m \<Rightarrow> m) (Buf_size b) block s w
      in (cnt, with_block b m, s', w'))"

definition sendTo_Buf :: "'w os \<Rightarrow> Buf \<Rightarrow> nat \<Rightarrow> string \<Rightarrow> SockUnix \<Rightarrow> 'w \<Rightarrow> (bool \<times> 'w) option" where
  "sendTo_Buf os b len addrStr s w =
     map_option (\<lambda>m. sendTo os m addrStr s w) (peek 0 len (case Buf_get b of None \<Rightarrow> [] | Some m \<Rightarrow> m))"

definition rcvFrom_Buf :: "'w os \<Rightarrow> Buf \<Rightarrow> string \<Rightarrow> bool \<Rightarrow> SockUnix \<Rightarrow> 'w \<Rightarrow> int \<times> Buf \<times> string \<times> 'w" where
  "rcvFrom_Buf os b from block s w =
     (let (cnt, m, from', w') = rcvFrom os (case Buf_get b of None \<Rightarrow> [] | Some m \<Rightarrow> m) (Buf_size b) from block s w
      in (cnt, with_block b m, from', w'))"

definition rcvFrom_Buf_last :: "'w os \<Rightarrow> Buf \<Rightarrow> bool \<Rightarrow> SockUnix \<Rightarrow> 'w \<Rightarrow> int \<times> Buf \<times> SockUnix \<times> 'w" where
  "rcvFrom_Buf_last os b block s w =
     (let (cnt, m, s', w') = rcvFrom_last os (case Buf_get b of None \<Rightarrow> [] | Some m \<Rightarrow> m) (Buf_size b) block s w
      in (cnt, with_block b m, s', w'))"

section \<open>Destructor\<close>

text \<open>
  \<^verbatim>\<open>~SockBase\<close> calls the virtual function \<^verbatim>\<open>closeBase\<close>. In the destructor of the base class that is
  \<^verbatim>\<open>SockBase::closeBase\<close>, whatever the class of the object was.
\<close>

definition delete_SockBase :: "'w os \<Rightarrow> 'z SockBase_scheme \<Rightarrow> 'w \<Rightarrow> 'w" where
  "delete_SockBase os s w = snd (SockBase_closeBase os s w)"

fun delete_Sock :: "'w os \<Rightarrow> Sock \<Rightarrow> 'w \<Rightarrow> 'w" where
  "delete_Sock os (SkUnix s) w = delete_SockBase os s w"
| "delete_Sock os (SkIp4 s) w = delete_SockBase os s w"
| "delete_Sock os (SkIp6 s) w = delete_SockBase os s w"
| "delete_Sock os (SkRaw s) w = delete_SockBase os s w"

lemma delete_Sock_call:
  "delete_Sock os s w = (if 0 \<le> sk_fd s then snd (os (Close (sk_fd s)) w) else w)"
  by (cases s) (simp_all add: delete_SockBase_def SockBase_closeBase_def split_beta)

text \<open>The descriptor is given back, as by \<^verbatim>\<open>close\<close>.\<close>

lemma delete_frees:
  assumes "posix_fds os fds" "owns fds B (sk_fd s) w"
  shows "fds (delete_Sock os s w) = B"
proof (cases "0 \<le> sk_fd s")
  case True
  obtain r w' where c: "os (Close (sk_fd s)) w = (r, w')" by fastforce
  then show ?thesis using posix_close [OF assms(1) c] assms(2) True by (auto simp: delete_Sock_call owns_def own_def)
qed (use assms(2) in \<open>simp add: delete_Sock_call owns_def own_def\<close>)

text \<open>
  The path of a Unix socket is not: what \<^verbatim>\<open>close\<close> does after the descriptor, removing the path, the
  destructor leaves out.
\<close>

lemma delete_keeps_path:
  assumes "m_isInit s" "0 \<le> m_fd s"
  shows "snd (sk_close os (SkUnix s) w) = snd (os (Unlink (c_str (m_me s))) (delete_Sock os (SkUnix s) w))"
  using assms by (simp add: SockUnix_closeBase_def SockBase_closeBase_def delete_SockBase_def split_beta Let_def)

section \<open>Binary\<close>

definition new_Binary_fill :: "nat \<Rightarrow> u8 \<Rightarrow> Binary" where "new_Binary_fill n octet = replicate n octet"

text \<open>\<^verbatim>\<open>setBin(buf, length)\<close> and \<^verbatim>\<open>copy(target)\<close>, which leave the memory block when it is too small.\<close>

definition setBin :: "byte list \<Rightarrow> nat \<Rightarrow> Binary option" where "setBin buf n = peek 0 n buf"

definition copy_Binary :: "Binary \<Rightarrow> byte list \<Rightarrow> byte list option" where "copy_Binary b t = poke 0 b t"

lemma setBin_copy:
  assumes "length b \<le> length t"
  shows "\<exists>t'. copy_Binary b t = Some t' \<and> setBin t' (length b) = Some b"
  using assms by (auto simp: copy_Binary_def setBin_def poke_def peek_def patch_def)

section \<open>Flags and event bits\<close>

definition is_LI_61 :: "u8 \<Rightarrow> u8" where "is_LI_61 fs = (if fs AND F_LI_61 \<noteq> 0 then 1 else 0)"
definition is_LI_59 :: "u8 \<Rightarrow> u8" where "is_LI_59 fs = (if fs AND F_LI_59 \<noteq> 0 then 1 else 0)"
definition is_UTCV :: "u8 \<Rightarrow> u8" where "is_UTCV fs = (if fs AND F_UTCV \<noteq> 0 then 1 else 0)"
definition is_PTP :: "u8 \<Rightarrow> u8" where "is_PTP fs = (if fs AND F_PTP \<noteq> 0 then 1 else 0)"
definition is_TTRA :: "u8 \<Rightarrow> u8" where "is_TTRA fs = (if fs AND F_TTRA \<noteq> 0 then 1 else 0)"
definition is_FTRA :: "u8 \<Rightarrow> u8" where "is_FTRA fs = (if fs AND F_FTRA \<noteq> 0 then 1 else 0)"

text \<open>The macros; an event outside of the mask is an access outside of it.\<close>

definition EVENT_BIT_SET :: "byte list \<Rightarrow> nat \<Rightarrow> byte list option" where
  "EVENT_BIT_SET bits event =
     (if event div 8 < length bits
      then Some (bits[event div 8 := bits ! (event div 8) OR push_bit (event mod 8) 1]) else None)"

definition EVENT_BIT_CLEAR :: "byte list \<Rightarrow> nat \<Rightarrow> byte list option" where
  "EVENT_BIT_CLEAR bits event =
     (if event div 8 < length bits
      then Some (bits[event div 8 := bits ! (event div 8) AND NOT (push_bit (event mod 8) 1)]) else None)"

definition EVENT_BIT :: "byte list \<Rightarrow> nat \<Rightarrow> string option" where
  "EVENT_BIT bits event =
     (if event div 8 < length bits
      then Some (if bits ! (event div 8) AND push_bit (event mod 8) 1 \<noteq> 0 then ''on'' else ''off'') else None)"

text \<open>The events that are on: the macros implement a set.\<close>

definition events :: "byte list \<Rightarrow> nat set" where
  "events bits = {e. EVENT_BIT bits e = Some ''on''}"

lemma bit_of_octet: "(x :: u8) AND 2 ^ n \<noteq> 0 \<longleftrightarrow> bit x n"
  by (simp add: and_exp_eq_0_iff_not_bit)

lemma bit_place: "bit (2 ^ (e mod 8) :: u8) n \<longleftrightarrow> n = e mod 8"
  by (auto simp: bit_exp_iff possible_bit_def)

lemma events_bit: "e \<in> events bits \<longleftrightarrow> e div 8 < length bits \<and> bit (bits ! (e div 8)) (e mod 8)"
  using bit_of_octet [of "bits ! (e div 8)" "e mod 8"] by (auto simp: events_def EVENT_BIT_def push_bit_of_1)

lemma event_eq: "(x :: nat) = e \<longleftrightarrow> x div 8 = e div 8 \<and> x mod 8 = e mod 8"
  by (metis div_mod_decomp)

lemma events_set:
  assumes "EVENT_BIT_SET bits e = Some bits'"
  shows "events bits' = insert e (events bits)"
proof (rule set_eqI)
  fix x
  have "e div 8 < length bits" "bits' = bits[e div 8 := bits ! (e div 8) OR 2 ^ (e mod 8)]"
    using assms by (auto simp: EVENT_BIT_SET_def push_bit_of_1 split: if_splits)
  then show "x \<in> events bits' \<longleftrightarrow> x \<in> insert e (events bits)"
    unfolding insert_iff events_bit event_eq [of x e]
    by (cases "x div 8 = e div 8") (auto simp: bit_or_iff bit_place)
qed

lemma events_clear:
  assumes "EVENT_BIT_CLEAR bits e = Some bits'"
  shows "events bits' = events bits - {e}"
proof (rule set_eqI)
  fix x
  have "e div 8 < length bits" "bits' = bits[e div 8 := bits ! (e div 8) AND NOT (2 ^ (e mod 8))]"
    using assms by (auto simp: EVENT_BIT_CLEAR_def push_bit_of_1 split: if_splits)
  then show "x \<in> events bits' \<longleftrightarrow> x \<in> events bits - {e}"
    unfolding Diff_iff singleton_iff events_bit event_eq [of x e]
    by (cases "x div 8 = e div 8") (auto simp: bit_and_iff bit_not_iff possible_bit_def bit_place)
qed

section \<open>Receiving and parsing\<close>

lemma sk_rcv_count: "sk_rcv os buf n block s w = (cnt, buf', s', w') \<Longrightarrow> \<not> is_raw s \<Longrightarrow> cnt \<le> int n"
  by (cases s) (auto simp: SockUnix_rcvBase_def rcvFrom_def SockIp_rcvBase_def Let_def split_beta split: if_splits)

section \<open>Properties\<close>


text \<open>A raw socket may count fourteen octets more than the buffer has.\<close>

lemma raw_rcv_count_over:
  assumes "m_isInit s" "os (Recvmsg (m_fd s) (14 + n) (\<not> block)) w = (r, w')" "rc r = int n + 14"
  shows "\<exists>buf' s'. SockRaw_rcvBase os buf n block s w = (int n + 14, buf', s', w')"
  using assms by (simp add: SockRaw_rcvBase_def sizeof_ethhdr_def Let_def)


end
