(* ===== verification/Spec2Isabelle.thy ===== *)
theory Spec2Isabelle
  imports Samples FloatCursor FloatCalc JsonLaws CfgUse Typed PmcBatch Objects
begin

text \<open>
  A verification development for \<^verbatim>\<open>libpmc\<close>, a C++ library that builds, parses and prints the
  management and signaling messages of the Precision Time Protocol (IEEE 1588), and for the tool
  \<^verbatim>\<open>pmc\<close> made of it.

  \<^bold>\<open>The program.\<close> An application sets parameters (\<^verbatim>\<open>MsgParams\<close>), by hand or from a
  configuration file (\<^verbatim>\<open>ConfigFile\<close>), in a \<^verbatim>\<open>Message\<close>, chooses an action and a
  management TLV (\<^verbatim>\<open>setAction\<close>), and lets \<^verbatim>\<open>build\<close> write the message into a buffer
  (\<^verbatim>\<open>Buf\<close>) that a socket sends. A received buffer goes to \<^verbatim>\<open>parse\<close>, which checks the
  header, looks the management id up in the table of ids, and fills the structure of the TLV; for a
  signaling message \<^verbatim>\<open>parseSig\<close> walks over the TLVs and stores those the parameters allow.
  Each structure has one function \<^verbatim>\<open>X_f\<close> that lists its members as calls of overloads of
  \<^verbatim>\<open>proc\<close>; the member \<^verbatim>\<open>m_build\<close> decides whether \<^verbatim>\<open>proc\<close> writes or reads.
  \<^verbatim>\<open>msg2json\<close> prints a parsed message as JSON. The tool turns command lines into calls of
  \<^verbatim>\<open>setAction\<close>, sends over a Unix, UDP or raw Ethernet socket and prints what arrives.

  \<^bold>\<open>Conventions.\<close> A buffer is a \<^typ>\<open>byte list\<close> and a pointer into it an index; a
  function that may touch memory outside the buffer, follow a null pointer, use an unset pointer or
  read a structure through a pointer of another type returns an option, and \<^term>\<open>None\<close> is that
  undefined behaviour. Integers keep their width as words. C++ errors are values: the enumeration
  \<^verbatim>\<open>MNG_PARSE_ERROR_e\<close>, or \<^typ>\<open>bool\<close> where the code returns one. What the sources
  do not fix is an argument: the byte order of the machine (\<open>host\<close>), the contents of fresh memory
  (the argument of the constructors), the capacity a vector grows to (\<open>sig_grow\<close>), the results of
  \<^verbatim>\<open>realloc\<close>, the addresses of the nodes of a \<^verbatim>\<open>std::map\<close> (\<open>cfg_env\<close>),
  \<^verbatim>\<open>inet_ntop\<close> and \<^verbatim>\<open>inet_pton\<close>, and the operating system: a function \<open>os\<close> from a system call
  and a state of the world to a result and the next state. What is used of it is stated as a
  hypothesis: \<open>posix_fds\<close> for descriptors, \<open>slow_clock\<close> for a clock that advances.

  \<^bold>\<open>Theories.\<close>
  \<^item> \<open>Prelude\<close>: integers, memory blocks (\<open>peek\<close>, \<open>poke\<close>), the collections of lemmas.
  \<^item> \<open>Endian\<close>: \<^verbatim>\<open>src/end.h\<close>. The conversions are inverses and give network order on
    both kinds of machine.
  \<^item> \<open>MsgTypes\<close>: the enumerations and structures of \<^verbatim>\<open>src/msg.h\<close>.
  \<^item> \<open>Codec\<close>: the \<^verbatim>\<open>proc\<close> overloads of \<^verbatim>\<open>src/msg.cpp\<close> over the state \<open>mst\<close>
    (memory, cursor, octets left, size, error). \<open>CodecLaws\<close> states what a \<open>proc\<close> promises as two
    locales: \<open>wire_codec\<close> (it builds exactly a reference encoding, parses it back, and fails when there is no
    room) and \<open>windowed\<close> (on any input it stays within the octets of its TLV);
    \<open>CodecRules\<close> and \<open>Windows\<close> have one rule per scalar and per way of composing calls, which the
    component theories apply as interpretations or introduction rules.
  \<^item> \<open>Ids\<close>: the table \<^verbatim>\<open>src/ids.h\<close> and the look-ups over it. \<open>MngTlv\<close> and \<open>SigTlv\<close>:
    the structures and functions of \<^verbatim>\<open>src/proc.h\<close>, \<^verbatim>\<open>src/proc.cpp\<close>, \<^verbatim>\<open>src/sig.h\<close>,
    \<^verbatim>\<open>src/sig.cpp\<close>; \<open>MngCodec\<close> and \<open>SigCodec\<close>: their reference encodings, and that every
    function implements its encoding. \<open>FloatCursor\<close>: the exception, \<^verbatim>\<open>proc(Float64_t &)\<close>;
    \<open>FloatCalc\<close>: its conversion by calculation, for machines without IEEE 754, and that it gives the same
    octets.
  \<^item> \<open>Message\<close>: class \<^verbatim>\<open>Message\<close>; \<open>MsgBuild\<close>, \<open>MsgParse\<close>, \<open>SigParse\<close>: \<^verbatim>\<open>build\<close>,
    \<^verbatim>\<open>parse\<close> and \<^verbatim>\<open>parseSig\<close> against reference layouts of whole messages;
    \<open>Framing\<close>, \<open>MsgApi\<close>: what calls leave alone, and the step relation of an application's calls;
    \<open>Typed\<close>: the classes of the objects a message points to, along that relation.
  \<^item> \<open>CString\<close>, \<open>Bin\<close>, \<open>Buf\<close>, \<open>Cfg\<close>, \<open>CfgUse\<close>: the C string functions, classes
    \<^verbatim>\<open>Binary\<close>, \<^verbatim>\<open>Buf\<close>, \<^verbatim>\<open>ConfigFile\<close>, and the interface between the
    configuration and \<^verbatim>\<open>Message::useConfig\<close> (locale \<open>cfg_provider\<close>).
  \<^item> \<open>MsgStr\<close>, \<open>Json\<close>, \<open>JsonLaws\<close>: the names and texts of \<^verbatim>\<open>src/msg.cpp\<close>, the writer of
    \<^verbatim>\<open>src/json.cpp\<close>, and its refinement of printing a tree (locale \<open>json_writer\<close>).
  \<^item> \<open>Sys\<close>: the system calls. \<open>Ptp\<close>: interfaces and clocks, \<^verbatim>\<open>src/ptp.cpp\<close>. \<open>Sock\<close>: the classes
    of \<^verbatim>\<open>src/sock.cpp\<close>; \<open>SockLaws\<close>: the one descriptor a socket holds (locale interpreted for
    the Unix and the internet sockets), sequences of calls on a socket, the time limit of \<^verbatim>\<open>tpoll\<close>.
  \<^item> \<open>Cmd\<close>: the reader of command lines, and \<open>Dump\<close>: the printer of TLVs, both
    \<^verbatim>\<open>src/pmc_dump.cpp\<close>; \<open>CmdLaws\<close>: what is read is a structure of the right type with values in
    range; \<open>DumpBack\<close>: what is printed is read back.
  \<^item> \<open>Pmc\<close>: the tool, \<^verbatim>\<open>src/pmc.cpp\<close>, and the version of \<^verbatim>\<open>src/ver.cpp\<close>; \<open>PmcSend\<close>: the octets a
    command line sends and the id a word means; \<open>PmcRcv\<close>: signaling messages and the loop that waits
    for a reply; \<open>PmcReply\<close>: the text printed for a reply, and that a reply is printed whatever
    arrives before it; \<open>PmcRun\<close>: the reachable states of the tool (locale \<open>kept_by_tool\<close>), from the
    start to the closed socket; \<open>PmcBatch\<close>: what the commands of the batch mode send.
  \<^item> \<open>Objects\<close>: the short functions of the headers over objects: messages and sockets given a
    \<^verbatim>\<open>Buf\<close>, the destructor of a socket, the octets of a \<^verbatim>\<open>Binary\<close>, the flags of
    \<^verbatim>\<open>src/msg.h\<close> and the event bits of \<^verbatim>\<open>src/proc.h\<close>, which implement a set; receiving
    into a \<^verbatim>\<open>Buf\<close> composed with parsing it.
  \<^item> \<open>Samples\<close>: the concrete messages the witnesses evaluate.

  \<^bold>\<open>Loops.\<close> \<^verbatim>\<open>parseSig\<close> and the loop over the lines of a configuration file are total
  functions with a measure. The loops \<^verbatim>\<open>while(m_left > 0)\<close> of the lists in TLVs could run
  forever for an element of no octets; \<open>vec_rest\<close> has fuel \<^term>\<open>Suc (nat (m_left s))\<close>, which
  is enough because every element function takes at least one octet or fails (\<open>progressing\<close> in
  \<open>Windows\<close>), so the result is never the missing one of exhausted fuel. The loops
  over input lines and commands of the tool are total; the loop of \<^verbatim>\<open>rcv_timeout\<close> is a
  \<^theory_text>\<open>partial_function\<close>, shown to end when the clock advances and not to end on a system where it
  does not; the interactive loop on a network ends with its list of answers of \<^verbatim>\<open>poll\<close>.

  \<^bold>\<open>Not modelled.\<close> A failing \<^verbatim>\<open>new\<close>; messages on the standard error stream and the help
  text of the tool; \<^verbatim>\<open>getopt_long\<close> itself and \<^verbatim>\<open>signal\<close> (the handlers are modelled);
  the rounding of \<^verbatim>\<open>long double\<close> other than in the logarithm of \<open>FloatCalc\<close>;
  \<^verbatim>\<open>src/mngIds.cc\<close>, a template that the preprocessor expands to
  the enumeration of ids; the declarations of the headers, which
  the definitions of the functions and the records of their classes stand for; the bindings for other languages and the build files.
\<close>

section \<open>Properties that span the components\<close>

text \<open>
  Property C1. \<^verbatim>\<open>Message::build\<close> with a large enough buffer returns no error and leaves in the
  buffer exactly the reference layout of the management message: header with length, domain,
  flags, identities, sequence, action, then the TLV header and the padded dataField; the octets
  after the message are untouched and \<^verbatim>\<open>m_msgLen\<close> is its length.
\<close>

theorem build_exact:
  assumes "send_ok s" and "bufSize \<le> length b" and "54 + length (send_data s) \<le> bufSize"
  shows "\<exists>s'. build (Some b) bufSize sequence s = Some (MNG_PARSE_ERROR_OK, s') \<and>
    mem s' = mng_message (m_prms s) (m_sendAction s) sequence (ids_value (ids ! m_tlv_id s))
      (send_data s) @ drop (54 + length (send_data s)) b \<and>
    m_msgLen s' = 54 + length (send_data s)"
  using assms by (rule build_correct)

theorem build_exact_witness:
  "\<exists>s'. build (Some (replicate 60 0xaa)) 58 7 (demo_set LITTLE) = Some (MNG_PARSE_ERROR_OK, s') \<and>
    take 56 (mem s') = [0xd, 2, 0, 56, 0, 0, 4, 0, 0, 0, 0, 0, 0, 0, 0, 0, 0, 0, 0, 0, 0, 0, 0, 0, 0, 0, 0, 0, 0, 0,
        0, 7, 4, 0x7f, 0xff, 0xff, 0xff, 0xff, 0xff, 0xff, 0xff, 0xff, 0xff, 0xff,
        1, 1, 1, 0, 0, 1, 0, 4, 0x20, 5, 100, 0] \<and>
    m_msgLen s' = 56"
proof -
  have "mng_message (m_prms (demo_set LITTLE)) SET 7 (ids_value (ids ! PRIORITY1)) [100, 0] =
      [0xd, 2, 0, 56, 0, 0, 4, 0, 0, 0, 0, 0, 0, 0, 0, 0, 0, 0, 0, 0, 0, 0, 0, 0, 0, 0, 0, 0, 0, 0,
        0, 7, 4, 0x7f, 0xff, 0xff, 0xff, 0xff, 0xff, 0xff, 0xff, 0xff, 0xff, 0xff,
        1, 1, 1, 0, 0, 1, 0, 4, 0x20, 5, 100, 0]"
    by (simp add: mng_message_def mng_header_def demo_set_fields new_Message_def construct_def
        setAllClocks_def MsgParams_zero_def bytes_be_2 enc_PortIdentity_def enc_ClockIdentity_def
        new_PortIdentity_def new_ClockIdentity_def allClocks_def allPorts_def ids_def row_def
        replicate_8 replicate_4)
  then show ?thesis
    using build_exact [OF demo_send(1) [of LITTLE], of 58 "replicate 60 0xaa" 7]
    by (auto simp: demo_set_fields demo_send)
qed

text \<open>
  Property C2. A management message built by one \<^verbatim>\<open>Message\<close> and turned into a reply (the action
  field replaced) is parsed by another one without error, into the same management TLV, with the
  same TLV id, sequence, sender and target.
\<close>

theorem reply_roundtrip:
  assumes "send_ok s" and "transportSpecific (m_prms s) \<le> 0xf"
    and "m_sendAction s \<noteq> GET" and "m_dataSend s = Some t" and "enc_tlv t \<noteq> []"
    and "bufSize \<le> length b" and "54 + length (send_data s) \<le> bufSize" and "bufSize < 65536"
    and "act = RESPONSE \<or> act = ACKNOWLEDGE" and "checkReplyAction (tlv_type t) act"
    and "implementSpecific (m_prms r) = linuxptp \<or> \<not> uses_linuxptp (tlv_type t)"
  shows "\<exists>s' r'. build (Some b) bufSize sequence s = Some (MNG_PARSE_ERROR_OK, s') \<and>
    parse ((mem s')[46 := act]) (int (m_msgLen s')) r = Some (MNG_PARSE_ERROR_OK, r') \<and>
    m_dataGet r' = Some (norm_tlv t) \<and> m_tlv_id r' = m_tlv_id s \<and> m_sequence r' = sequence \<and>
    m_replyAction r' = act \<and> Message.m_peer r' = self_id (m_prms s) \<and> m_target r' = target (m_prms s)"
proof -
  have t: "tlv_type t = m_tlv_id s" "ok_tlv t" "ok_prms (m_prms s)"
    using assms(1,4) by (auto simp: send_ok_def)
  have d: "send_data s = pad_even (enc_tlv t)" using assms(3,4) by (simp add: send_data_def)
  obtain s' where s': "build (Some b) bufSize sequence s = Some (MNG_PARSE_ERROR_OK, s')"
      "mem s' = mng_message (m_prms s) (m_sendAction s) sequence (ids_value (ids ! tlv_type t))
        (pad_even (enc_tlv t)) @ drop (54 + length (send_data s)) b"
      "m_msgLen s' = 54 + length (pad_even (enc_tlv t))"
    using build_correct [OF assms(1,6,7)] t(1) d by auto
  then have "(mem s')[46 := act] = mng_message (m_prms s) act sequence (ids_value (ids ! tlv_type t))
        (pad_even (enc_tlv t)) @ drop (54 + length (send_data s)) b"
    using update_action [OF t(3)] by simp
  moreover have "2 + length (pad_even (enc_tlv t)) < 65536" using assms(7,8) d by simp
  ultimately show ?thesis
    using parse_reply_exact [OF t(3) assms(2,9,10,11) t(2) assms(5),
        of sequence "drop (54 + length (send_data s)) b"] s' t(1)
    by fastforce
qed

theorem reply_roundtrip_witness:
  "\<exists>s' r'. build (Some (replicate 60 0)) 60 7 (demo_set LITTLE) = Some (MNG_PARSE_ERROR_OK, s') \<and>
    parse ((mem s')[46 := RESPONSE]) (int (m_msgLen s')) (new_Message (blank BIG)) =
      Some (MNG_PARSE_ERROR_OK, r') \<and> m_dataGet r' = Some demo_tlv \<and> m_tlv_id r' = PRIORITY1 \<and>
    m_sequence r' = 7"
  using reply_roundtrip [of "demo_set LITTLE" demo_tlv 60 "replicate 60 0" RESPONSE
      "new_Message (blank BIG)" 7]
  by (auto simp: demo_set_fields demo_send demo_tlv_facts new_Message_fields PRIORITY_replies)

text \<open>
  Property C3. \<^verbatim>\<open>Message::parse\<close> returns on every received octet sequence and never reads
  outside the buffer or through an unset pointer, and it leaves the buffer as it was, provided the
  message does not carry data for an id without a dataField and the signaling filter admits neither
  \<^verbatim>\<open>ENHANCED_ACCURACY_METRICS\<close> nor \<^verbatim>\<open>MANAGEMENT\<close>; both provisos are needed.
\<close>

theorem parse_safe:
  assumes "msgSize \<le> int (length buf)"
    and "rcvSignaling (m_prms s) \<Longrightarrow> \<forall>type. admits (m_prms s) type \<longrightarrow> safe_sig type"
    and "\<not> data_for_empty_id buf s"
  shows "\<exists>err s'. parse buf msgSize s = Some (err, s') \<and> mem s' = buf"
  using assms by (rule parse_safe_aux)

theorem parse_safe_witness:
  "\<exists>err s'. parse (replicate 100 0xc) 100 ((demo_sig 0)\<lparr>m_prms := MsgParams_zero\<lparr>rcvSignaling := True,
      filterSignaling := True, allowSigTlvs := [PATH_TRACE \<mapsto> True]\<rparr>\<rparr>) = Some (err, s') \<and>
    mem s' = replicate 100 0xc"
proof (rule parse_safe)
  have f: "findTlvId LITTLE (load LITTLE [0xc, 0xc]) noImplementSpecific = None" by code_simp
  have "replicate 2 x = [x, x]" for x :: byte by (simp add: numeral_2_eq_2)
  then have r: "rd16 52 (s\<lparr>mem := replicate 100 0xc\<rparr>) = Some (load (host s) [0xc, 0xc])" for s :: Message
    by (simp add: rd16_def peek_def)
  have h: "host (demo_sig 0) = LITTLE" by (simp add: demo_sig_def blank_def)
  show "\<not> data_for_empty_id (replicate 100 0xc) ((demo_sig 0)\<lparr>m_prms := MsgParams_zero\<lparr>rcvSignaling := True,
      filterSignaling := True, allowSigTlvs := [PATH_TRACE \<mapsto> True]\<rparr>\<rparr>)"
    unfolding data_for_empty_id_def r by (simp add: h f MsgParams_zero_def split: option.split)
qed (simp_all add: admits_def safe_sig_def)

text \<open>
  Property C4. \<^verbatim>\<open>Message::parse\<close> of a well-formed reply that carries the reference encoding of a
  management TLV returns no error, and stores the TLV, its id, the action, the sequence, the
  identities, the domain, the sdo id and the unicast flag the message carries.
\<close>

theorem parse_reply:
  assumes "ok_prms prms" and "transportSpecific prms \<le> 0xf"
    and "act = RESPONSE \<or> act = ACKNOWLEDGE" and "checkReplyAction (tlv_type t) act"
    and "implementSpecific (m_prms s) = linuxptp \<or> \<not> uses_linuxptp (tlv_type t)"
    and "ok_tlv t" and "enc_tlv t \<noteq> []" and "2 + length (pad_even (enc_tlv t)) < 65536"
  shows "\<exists>s'. parse (mng_message prms act sequence (ids_value (ids ! tlv_type t)) (pad_even (enc_tlv t)) @ rest)
      (54 + int (length (pad_even (enc_tlv t)))) s = Some (MNG_PARSE_ERROR_OK, s') \<and>
    m_dataGet s' = Some (norm_tlv t) \<and> m_tlv_id s' = tlv_type t \<and> m_replyAction s' = act \<and>
    m_mngType s' = MANAGEMENT \<and> m_sequence s' = sequence \<and> Message.m_peer s' = self_id prms \<and>
    m_target s' = target prms \<and> m_domainNumber s' = MsgParams.domainNumber prms \<and>
    m_sdoId s' = push_bit 8 (ucast (transportSpecific prms)) \<and> m_isUnicast s' = isUnicast prms \<and>
    m_type s' = Management"
  using assms by (rule parse_reply_exact)

theorem parse_reply_witness:
  "\<exists>s'. parse (mng_message demo_prms RESPONSE 3 (ids_value (ids ! PRIORITY1)) [100, 0] @ [1, 2])
      56 (new_Message (blank LITTLE)) = Some (MNG_PARSE_ERROR_OK, s') \<and>
    m_dataGet s' = Some demo_tlv \<and> m_sequence s' = 3 \<and> Message.m_peer s' = self_id demo_prms"
  using parse_reply [of demo_prms RESPONSE demo_tlv "new_Message (blank LITTLE)" 3 "[1, 2]"]
  by (auto simp: demo_prms_facts demo_tlv_facts new_Message_fields PRIORITY_replies pad_even_def)

text \<open>
  Property C5. Whenever \<^verbatim>\<open>Message::parse\<close> accepts a management message, the message was long
  enough, had the PTP version 2, the control field and the message interval of a management message,
  and a reply action that the found TLV id allows.
\<close>

theorem parse_accepts_valid:
  assumes "parse buf msgSize s = Some (err, s')" and "err = MNG_PARSE_ERROR_OK \<or> err = MNG_PARSE_ERROR_MSG"
    and "(buf ! 0) AND 0xf = Management"
  shows "52 \<le> msgSize \<and> (buf ! 1) AND 0xf = 2 \<and> buf ! 32 = 0x04 \<and> buf ! 33 = 0x7f \<and>
    m_replyAction s' = 0xf AND (buf ! 46) \<and>
    (m_replyAction s' = RESPONSE \<or> m_replyAction s' = ACKNOWLEDGE) \<and>
    m_tlv_id s' < 58 \<and> checkReplyAction (m_tlv_id s') (m_replyAction s')"
proof -
  let ?s1 = "s\<lparr>mem := buf, m_type := (buf ! 0) AND 0xf\<rparr>"
  let ?s2 = "?s1\<lparr>m_versionPTP := (buf ! 1) AND 0xf, m_minorVersionPTP := drop_bit 4 (buf ! 1)\<rparr>"
  have r0: "rd8 0 (s\<lparr>mem := buf\<rparr>) = Some (buf ! 0)"
    using assms(1,2) rd8_nth [of 0 "s\<lparr>mem := buf\<rparr>"] by (auto simp: parse_def split: if_splits bind_splits)
  have "\<not> msgSize < 44" using assms(1,2) by (auto simp: parse_def size_consts split: if_splits)
  with assms r0 obtain chk where chk: "check_type msgSize ?s1 = Some chk"
    by (auto simp: parse_def Let_def size_consts split: bind_splits)
  have "chk = None" "52 \<le> msgSize" "buf ! 32 = 0x04"
    using chk assms r0 \<open>\<not> msgSize < 44\<close> rd8_nth [of 32 ?s1]
    by (auto simp: parse_def check_type_def Let_def size_consts controlFieldMng_def
        split: if_splits bind_splits)
  note c = chk [unfolded \<open>chk = None\<close>] this(2,3)
  have p: "parse buf msgSize s = (case rd8 1 ?s1 of None \<Rightarrow> None | Some ver \<Rightarrow>
     (case rd8 33 ?s1 of None \<Rightarrow> None | Some lmi \<Rightarrow>
        let s2 = ?s1\<lparr>m_versionPTP := ver AND 0xf, m_minorVersionPTP := drop_bit 4 ver\<rparr> in
        if ver AND 0xf \<noteq> 2 \<or> lmi \<noteq> 0x7f then Some (MNG_PARSE_ERROR_HEADER, s2)
        else (case parse_ids s2 of None \<Rightarrow> None | Some s3 \<Rightarrow> if m_type s3 = Signaling
          then parseSig (s3\<lparr>m_cur := sigBaseSize, m_size := nat (msgSize - int sigBaseSize)\<rparr>)
          else parse_mng msgSize s3)))"
    using \<open>\<not> msgSize < 44\<close> r0 c(1)
    by (auto simp: parse_def Let_def size_consts ptp_major_ver_def logMessageIntervalDef_def
        split: option.splits bind_splits)
  obtain s3 where s3: "parse_ids ?s2 = Some s3" "parse_mng msgSize s3 = Some (err, s')"
      "(buf ! 1) AND 0xf = 2" "buf ! 33 = 0x7f"
    using assms p rd8_nth [of 1 ?s1] rd8_nth [of 33 ?s1] parse_ids_keeps
    by (fastforce simp: Let_def split: option.splits if_splits)
  show ?thesis
    using parse_mng_accepts [OF s3(2) assms(2)] parse_ids_keeps [OF s3(1)] s3 c by auto
qed

theorem parse_accepts_valid_witness:
  "\<exists>s'. parse (mng_message demo_prms RESPONSE 3 (ids_value (ids ! PRIORITY1)) [100, 0])
      56 (new_Message (blank LITTLE)) = Some (MNG_PARSE_ERROR_OK, s') \<and> m_tlv_id s' < 58 \<and>
      checkReplyAction (m_tlv_id s') (m_replyAction s')"
proof -
  let ?m = "mng_message demo_prms RESPONSE 3 (ids_value (ids ! PRIORITY1)) [100, 0]"
  obtain s' where "parse ?m 56 (new_Message (blank LITTLE)) = Some (MNG_PARSE_ERROR_OK, s')"
    using parse_reply_exact [of demo_prms RESPONSE demo_tlv "new_Message (blank LITTLE)" 3 "[]"]
    by (auto simp: demo_prms_facts demo_tlv_facts new_Message_fields PRIORITY_replies pad_even_def)
  moreover have "(?m ! 0) AND 0xf = Management"
    by (simp add: mng_message_def mng_header_def demo_prms_facts)
  ultimately show ?thesis
    using parse_accepts_valid [of ?m 56 "new_Message (blank LITTLE)" MNG_PARSE_ERROR_OK s'] by auto
qed

text \<open>
  Property C7. \<^verbatim>\<open>getMsgPlanedLen\<close> tells the length \<^verbatim>\<open>build\<close> will produce: a buffer of
  that size is enough, and the message built has that length.
\<close>

theorem planned_length:
  assumes "send_ok s" and "action_ok s" and "getMsgPlanedLen s = Some n" and "n \<le> int bufSize"
    and "bufSize \<le> length b"
  shows "\<exists>s'. build (Some b) bufSize sequence s = Some (MNG_PARSE_ERROR_OK, s') \<and> int (m_msgLen s') = n"
  using assms build_correct [of s bufSize b sequence] planned_length_aux [of s] by auto

theorem planned_length_witness:
  "getMsgPlanedLen (demo_set LITTLE) = Some 56 \<and>
   (\<exists>s'. build (Some (replicate 56 0)) 56 1 (demo_set LITTLE) = Some (MNG_PARSE_ERROR_OK, s') \<and> m_msgLen s' = 56)"
proof -
  have "getMsgPlanedLen (demo_set LITTLE) = Some 56"
    using planned_length_aux [OF demo_send(1) [of LITTLE] demo_action] by (simp add: demo_send)
  then show ?thesis
    using planned_length [OF demo_send(1) [of LITTLE] demo_action, of 56 56 "replicate 56 0" 1] by simp
qed

text \<open>
  Property C8. \<^verbatim>\<open>Message::build\<close> with a buffer too small for the message returns
  \<^verbatim>\<open>MNG_PARSE_ERROR_TOO_SMALL\<close> and writes nothing after the first \<^verbatim>\<open>bufSize\<close> octets.
\<close>

theorem build_small_buffer:
  assumes "send_ok s" and "bufSize \<le> length b" and "bufSize < 54 + length (send_data s)"
  shows "\<exists>s'. build (Some b) bufSize sequence s = Some (MNG_PARSE_ERROR_TOO_SMALL, s') \<and>
    length (mem s') = length b \<and> drop bufSize (mem s') = drop bufSize b"
  using assms by (rule build_small)

theorem build_small_buffer_witness:
  "\<exists>s'. build (Some (replicate 60 0xaa)) 55 7 (demo_set BIG) = Some (MNG_PARSE_ERROR_TOO_SMALL, s') \<and>
    drop 55 (mem s') = replicate 5 0xaa"
  using build_small_buffer [OF demo_send(1) [of BIG], of 55 "replicate 60 0xaa" 7] by (auto simp: demo_send)



text \<open>
  Property C10. Whatever sequence of calls an application makes on a \<^verbatim>\<open>Message\<close>, with any
  arguments and any received octets: the TLV id stays an index of the table of ids, the transport
  specific value stays a nibble and the action to send stays a request.
\<close>

theorem api_invariant:
  assumes "api_reachable s"
  shows "m_tlv_id s < 58 \<and> transportSpecific (m_prms s) \<le> 0xf \<and>
    (m_sendAction s = GET \<or> m_sendAction s = SET \<or> m_sendAction s = COMMAND)"
  using api_inv_reachable [OF assms] by (simp add: api_inv_def)

theorem api_invariant_witness:
  "api_reachable (demo_set BIG) \<and> m_tlv_id (demo_set BIG) < 58"
proof -
  have "api_step (new_Message (blank BIG)) (demo_set BIG)"
    unfolding demo_set_def by (rule api_step.action_data, rule prod.collapse [symmetric])
  then have "api_reachable (demo_set BIG)" by (blast intro: api_reachable.intros)
  with api_invariant [OF this] show ?thesis by simp
qed

text \<open>
  Property C12. After \<^verbatim>\<open>setAction\<close> accepts an action, with the TLV to send when one is given,
  the message is in a state in which \<^verbatim>\<open>build\<close> and \<^verbatim>\<open>getMsgPlanedLen\<close> keep their
  contracts.
\<close>

theorem set_action_sendable:
  assumes "ok_prms (m_prms s)"
    and "setAction act tid s = (True, s') \<or>
      (\<exists>t. ok_tlv t \<and> tlv_type t = tid \<and> setAction_data act tid t s = (True, s'))"
  shows "send_ok s' \<and> action_ok s'"
proof -
  have al: "allowedAction (implementSpecific (m_prms s)) tid act"
    using assms(2) by (auto simp: setAction_def setAction_data_def split: if_splits)
  then have a: "tid < 58" "act = GET \<or> act = SET \<or> act = COMMAND"
      "ids_allow (ids ! tid) AND push_bit (unat act) 1 \<noteq> 0"
    by (auto simp: allowedAction_def nth_mng_all_vals split: if_splits)
  have z: "ids_size (ids ! tid) \<noteq> 0 \<Longrightarrow> 0 < tid" by (cases tid) (simp_all add: ids_def row_def)
  from assms(2) show ?thesis
  proof
    assume "setAction act tid s = (True, s')"
    then have "s' = s\<lparr>m_sendAction := act, m_tlv_id := tid, m_dataSend := None\<rparr>"
        "act = GET \<or> ids_size (ids ! tid) = 0"
      using al a(1) by (auto simp: setAction_def nth_mng_all_vals split: if_splits)
    then show ?thesis using a assms(1) by (auto simp: send_ok_def action_ok_def)
  next
    assume "\<exists>t. ok_tlv t \<and> tlv_type t = tid \<and> setAction_data act tid t s = (True, s')"
    then obtain t where t: "ok_tlv t" "tlv_type t = tid"
        "s' = s\<lparr>m_sendAction := act, m_tlv_id := tid, m_dataSend :=
          (if tid > 0 \<and> act \<noteq> GET \<and> ids_size (ids ! tid) \<noteq> 0 then Some t else None)\<rparr>"
      using al a(1) by (auto simp: setAction_data_def nth_mng_all_vals)
    then show ?thesis using a z assms(1) by (auto simp: send_ok_def action_ok_def)
  qed
qed

theorem set_action_sendable_witness: "send_ok (demo_set LITTLE) \<and> action_ok (demo_set LITTLE)"
  using set_action_sendable [of "new_Message (blank LITTLE)" SET PRIORITY1 "demo_set LITTLE"]
    demo_set_fields(7) [of LITTLE] demo_tlv_facts(1,2)
  by (auto simp: new_Message_fields demo_set_def prod_eq_iff)

text \<open>
  Property C26. The octets \<^verbatim>\<open>build\<close> produces do not depend on the byte order of the machine.
\<close>

theorem build_host_independent:
  assumes "send_ok s" and "bufSize \<le> length b" and "54 + length (send_data s) \<le> bufSize"
  shows "\<exists>s1 s2. build (Some b) bufSize sequence (s\<lparr>host := LITTLE\<rparr>) = Some (MNG_PARSE_ERROR_OK, s1) \<and>
    build (Some b) bufSize sequence (s\<lparr>host := BIG\<rparr>) = Some (MNG_PARSE_ERROR_OK, s2) \<and> mem s1 = mem s2"
proof -
  have "send_ok (s\<lparr>host := h\<rparr>)" "send_data (s\<lparr>host := h\<rparr>) = send_data s" for h
    using assms(1) by (simp_all add: send_ok_def send_data_def split: option.splits)
  then show ?thesis
    using build_correct [of "s\<lparr>host := LITTLE\<rparr>" bufSize b sequence] assms(2,3)
      build_correct [of "s\<lparr>host := BIG\<rparr>" bufSize b sequence] by fastforce
qed

theorem build_host_independent_witness:
  "\<exists>s1 s2. build (Some (replicate 60 0)) 60 1 ((demo_set BIG)\<lparr>host := LITTLE\<rparr>) = Some (MNG_PARSE_ERROR_OK, s1) \<and>
    build (Some (replicate 60 0)) 60 1 ((demo_set BIG)\<lparr>host := BIG\<rparr>) = Some (MNG_PARSE_ERROR_OK, s2) \<and>
    mem s1 = mem s2"
  using build_host_independent [OF demo_send(1) [of BIG], of 60 "replicate 60 0" 1] by (simp add: demo_send)

text \<open>
  Property C28. A reply with another TLV id than the pending request replaces the id of the request
  but not its data: the next \<^verbatim>\<open>build\<close> reads the data to send through a pointer of the wrong
  type.
\<close>

theorem reply_switches_id:
  assumes "ok_prms prms" and "transportSpecific prms \<le> 0xf"
    and "act = RESPONSE \<or> act = ACKNOWLEDGE" and "checkReplyAction (tlv_type t) act"
    and "implementSpecific (m_prms s) = linuxptp \<or> \<not> uses_linuxptp (tlv_type t)"
    and "ok_tlv t" and "enc_tlv t \<noteq> []" and "2 + length (pad_even (enc_tlv t)) < 65536"
    and "m_sendAction s \<noteq> GET" and "m_dataSend s = Some t0" and "tlv_type t0 \<noteq> tlv_type t"
    and "ok_prms (m_prms s)" and "54 \<le> bufSize" and "bufSize \<le> length b"
  shows "\<exists>s'. parse (mng_message prms act sequence (ids_value (ids ! tlv_type t)) (pad_even (enc_tlv t)))
      (54 + int (length (pad_even (enc_tlv t)))) s = Some (MNG_PARSE_ERROR_OK, s') \<and>
    build (Some b) bufSize sequence' s' = None"
proof -
  obtain s' where p: "parse (mng_message prms act sequence (ids_value (ids ! tlv_type t)) (pad_even (enc_tlv t)))
      (54 + int (length (pad_even (enc_tlv t)))) s = Some (MNG_PARSE_ERROR_OK, s')"
      "m_tlv_id s' = tlv_type t"
    using parse_reply_exact [OF assms(1-8), of sequence "[]"] by auto
  have "sends_same s s'" using parse_sends [OF p(1)] by simp
  then have "build (Some b) bufSize sequence' s' = None"
    using p(2) assms(9-14) by (intro build_type_mismatch) (auto simp: sends_same_def)
  with p(1) show ?thesis by blast
qed

theorem reply_switches_id_witness:
  "\<exists>s'. parse (mng_message demo_prms RESPONSE 3 (ids_value (ids ! PRIORITY2)) [7, 0]) 56 (demo_set LITTLE) =
      Some (MNG_PARSE_ERROR_OK, s') \<and> build (Some (replicate 60 0)) 60 4 s' = None"
  using reply_switches_id [of demo_prms RESPONSE "TLV_PRIORITY2 \<lparr>PRIORITY2_t.priority2 = 7\<rparr>"
      "demo_set LITTLE" demo_tlv 60 "replicate 60 0" 3 4]
  by (auto simp: demo_prms_facts demo_tlv_facts demo_set_fields new_Message_fields PRIORITY_replies
      pad_even_def enc_PRIORITY2_def)

text \<open>
  A reply that carries data for an id without a dataField makes \<^verbatim>\<open>parse\<close> use a
  pointer that was never set.
\<close>

lemma no_data_id_undefined:
  assumes "ok_prms prms" and "transportSpecific prms \<le> 0xf" and "act = RESPONSE \<or> act = ACKNOWLEDGE"
    and "tid < 58" and "ids_fun (ids ! tid) = NA" and "checkReplyAction tid act"
    and "data \<noteq> []" and "even (length data)" and "2 + length data < 65536"
  shows "parse (mng_message prms act sequence (ids_value (ids ! tid)) data) (54 + int (length data)) s = None"
  using parse_no_data_id [OF holds_mng_message [OF assms(1), of act sequence data "ids_value (ids ! tid)" "[]"]]
    assms by simp

lemma no_data_id_undefined_example:
  "parse (mng_message demo_prms ACKNOWLEDGE 3 (ids_value (ids ! ENABLE_PORT)) [1, 2]) 56 (new_Message (blank LITTLE)) = None"
  using no_data_id_undefined [of demo_prms ACKNOWLEDGE ENABLE_PORT "[1, 2]" 3 "new_Message (blank LITTLE)"]
  by (simp add: demo_prms_facts PRIORITY_replies ids_def row_def)

text \<open>
  When the vector of signaling TLVs has to grow, the contents of the TLVs parsed before
  are lost: after a message with two TLVs into a new vector only the second has its contents.
\<close>

lemma sig_vector_growth_drops_data:
  assumes "\<not> m_build s" and "m_size s = length (enc_sig_tlv t1 @ enc_sig_tlv t2)"
    and "list_all (\<lambda>t. ok_sig (implementSpecific (m_prms s)) t \<and> admits (m_prms s) (sig_type t) \<and>
      length (enc_sig t) < 65536) [t1, t2]"
    and "m_cur s + m_size s \<le> length (mem s)"
    and "take (m_size s) (drop (m_cur s) (mem s)) = enc_sig_tlv t1 @ enc_sig_tlv t2"
    and "m_sigCap s = 0" and "sig_grow s 0 = 1"
  shows "\<exists>s'. parseSig s = Some (MNG_PARSE_ERROR_SIG, s') \<and>
    map tlv_ptr (m_sigTlvs s') = [None, Some (norm_sig t2)]"
proof -
  let ?s = "s\<lparr>m_sigTlvs := []\<rparr>"
  obtain s' where "parseSig s = Some (MNG_PARSE_ERROR_SIG, s')"
      "m_sigTlvs s' = m_sigTlvs (sig_inserts [t1, t2] ?s)"
    using parseSig_loop_parse [of ?s "[t1, t2]"] assms by (auto simp: parseSig_def)
  then show ?thesis
    using assms(6,7) by (simp add: sig_inserts_def sig_insert_def Let_def copy_sigTlv_def)
qed

lemma sig_vector_growth_drops_data_example:
  "\<exists>s'. parseSig (demo_sig 0) = Some (MNG_PARSE_ERROR_SIG, s') \<and>
    map tlv_ptr (m_sigTlvs s') = [None, Some (demo_rate 6)]"
  using sig_vector_growth_drops_data [of "demo_sig 0" "demo_rate 5" "demo_rate 6"]
  by (auto simp: demo_sig_facts demo_rate_facts)



text \<open>
  Property C33. A \<^verbatim>\<open>Buf\<close> allocated with the planned length is large enough: \<^verbatim>\<open>build\<close> into it
  succeeds and produces a message of that length, however the buffer was used before.
\<close>

theorem buf_build:
  assumes "buf_reachable b" and "alloc junk n b = (True, b')" and "send_ok s" and "action_ok s"
    and "getMsgPlanedLen s = Some (int n)"
  shows "\<exists>s'. build (m_buf b') (m_bufSize b') sequence s = Some (MNG_PARSE_ERROR_OK, s') \<and> m_msgLen s' = n"
proof -
  obtain m where m: "m_buf b' = Some m" "length m = m_bufSize b'" "n \<le> m_bufSize b'"
    using alloc_ok [OF assms(1,2)] by auto
  have "54 + length (send_data s) = n" using planned_length_aux [OF assms(3,4)] assms(5) by simp
  then show ?thesis using build_correct [OF assms(3), of "m_bufSize b'" m sequence] m by auto
qed

theorem buf_build_witness:
  "\<exists>s'. build (m_buf (new_Buf_size (Some []) 56)) 56 1 (demo_set LITTLE) = Some (MNG_PARSE_ERROR_OK, s') \<and>
    m_msgLen s' = 56"
proof -
  obtain b where b: "alloc (Some []) 56 new_Buf = (True, b)" "m_bufSize b = 56"
    by (simp add: alloc_def realloc_def new_Buf_def)
  have "getMsgPlanedLen (demo_set LITTLE) = Some (int 56)"
    using planned_length_aux [OF demo_send(1) [of LITTLE] demo_action] by (simp add: demo_send)
  then show ?thesis
    using buf_build [OF buf_reachable.new b(1) demo_send(1) [of LITTLE] demo_action] b
    by (simp add: new_Buf_size_def)
qed

text \<open>
  Property C29. \<^verbatim>\<open>msg2json\<close> refines printing a tree: for every message whose stored TLV has the type
  of its id the writer with its stack of flags produces exactly the printed tree of the message.
\<close>

theorem json_refines:
  assumes "m_type msg = Management \<Longrightarrow> m_tlv_id msg < 58"
    and "\<And>t. m_type msg = Management \<Longrightarrow> m_mngType msg = MANAGEMENT \<Longrightarrow> m_dataGet msg = Some t \<Longrightarrow>
      tlv_type t = m_tlv_id msg"
  shows "msg2json msg = Some (''{'' @ show_members 1 True (json_message msg) @ [CHR 0x0A] @ ''}'')"
  using assms by (rule msg2json_written)

theorem json_refines_witness:
  "\<exists>txt. msg2json ((demo_set LITTLE)\<lparr>m_type := Management, m_mngType := MANAGEMENT, m_dataGet := Some demo_tlv\<rparr>) =
      Some (''{'' @ txt @ ''}'')"
  using json_refines [of "(demo_set LITTLE)\<lparr>m_type := Management, m_mngType := MANAGEMENT, m_dataGet := Some demo_tlv\<rparr>"]
  by (auto simp: demo_set_fields demo_tlv_facts)

text \<open>
  Property C32. The JSON text of a parsed reply is the printed tree of the message, with the members of
  the TLV the peer encoded as its \<^verbatim>\<open>dataField\<close>.
\<close>

theorem json_of_reply:
  assumes "ok_prms prms" and "transportSpecific prms \<le> 0xf"
    and "act = RESPONSE \<or> act = ACKNOWLEDGE" and "checkReplyAction (tlv_type t) act"
    and "implementSpecific (m_prms s) = linuxptp \<or> \<not> uses_linuxptp (tlv_type t)"
    and "ok_tlv t" and "enc_tlv t \<noteq> []" and "2 + length (pad_even (enc_tlv t)) < 65536"
  shows "\<exists>s'. parse (mng_message prms act sequence (ids_value (ids ! tlv_type t)) (pad_even (enc_tlv t)) @ rest)
      (54 + int (length (pad_even (enc_tlv t)))) s = Some (MNG_PARSE_ERROR_OK, s') \<and>
    msg2json s' = Some (''{'' @ show_members 1 True (json_message s') @ [CHR 0x0A] @ ''}'') \<and>
    (''dataField'', JObj (json_tlv (norm_tlv t))) \<in> set (json_message s')"
proof -
  obtain s' where p: "parse (mng_message prms act sequence (ids_value (ids ! tlv_type t)) (pad_even (enc_tlv t)) @ rest)
      (54 + int (length (pad_even (enc_tlv t)))) s = Some (MNG_PARSE_ERROR_OK, s')"
      "m_dataGet s' = Some (norm_tlv t)" "m_tlv_id s' = tlv_type t" "m_mngType s' = MANAGEMENT" "m_type s' = Management"
    using parse_reply_exact [OF assms, of sequence rest] by auto
  have "tlv_type (norm_tlv t) = tlv_type t" by (cases t) simp_all
  moreover have "tlv_type t < 58" by (cases t) simp_all
  ultimately show ?thesis
    using p msg2json_written [of s'] by (auto simp: json_message_def json_data_def)
qed

theorem json_of_reply_witness:
  "\<exists>s'. parse (mng_message demo_prms RESPONSE 3 (ids_value (ids ! PRIORITY1)) [100, 0] @ [1, 2])
      56 (new_Message (blank LITTLE)) = Some (MNG_PARSE_ERROR_OK, s') \<and>
    (''dataField'', JObj [(''priority1'', JTok ''100'')]) \<in> set (json_message s')"
proof -
  have "json_tlv demo_tlv = [(''priority1'', JTok ''100'')]" by code_simp
  then show ?thesis
    using json_of_reply [of demo_prms RESPONSE demo_tlv "new_Message (blank LITTLE)" 3 "[1, 2]"]
    by (auto simp: demo_prms_facts demo_tlv_facts new_Message_fields PRIORITY_replies pad_even_def)
qed

text \<open>
  Property C36. A reply without dataField is accepted and keeps the TLV of an earlier reply next to the
  new id: converting the message to JSON then reads the TLV with the wrong type.
\<close>

theorem stale_reply_data:
  assumes "ok_prms prms" and "transportSpecific prms \<le> 0xf" and "act = RESPONSE \<or> act = ACKNOWLEDGE"
    and "tid < 58" and "checkReplyAction tid act" and "ids_fun (ids ! tid) \<noteq> NA"
    and "implementSpecific (m_prms s) = linuxptp \<or> \<not> uses_linuxptp tid"
    and "m_dataGet s = Some t" and "m_mngType s = MANAGEMENT" and "tlv_type t \<noteq> tid"
  shows "\<exists>s'. parse (mng_message prms act sequence (ids_value (ids ! tid)) []) 54 s = Some (MNG_PARSE_ERROR_OK, s') \<and>
    msg2json s' = None"
proof -
  obtain s' where p: "parse (mng_message prms act sequence (ids_value (ids ! tid)) []) 54 s = Some (MNG_PARSE_ERROR_OK, s')"
      "m_tlv_id s' = tid" "m_dataGet s' = m_dataGet s" "m_mngType s' = m_mngType s" "m_type s' = Management"
    using parse_empty_reply [OF assms(1-5,7)] by blast
  then have "msg2json_mng s' x = None" for x
    using assms(4,6,8-10) by (simp add: msg2json_mng_def data2json_def Let_def)
  with p show ?thesis by (auto simp: msg2json_def Let_def split: bind_splits)
qed

theorem stale_reply_data_witness:
  "\<exists>s'. parse (mng_message demo_prms RESPONSE 3 (ids_value (ids ! PRIORITY2)) []) 54
      ((demo_set LITTLE)\<lparr>m_dataGet := Some demo_tlv, m_mngType := MANAGEMENT\<rparr>) = Some (MNG_PARSE_ERROR_OK, s') \<and>
    msg2json s' = None"
  using stale_reply_data [of demo_prms RESPONSE PRIORITY2
      "(demo_set LITTLE)\<lparr>m_dataGet := Some demo_tlv, m_mngType := MANAGEMENT\<rparr>" demo_tlv 3]
  by (auto simp: demo_prms_facts demo_tlv_facts demo_set_fields new_Message_fields PRIORITY_replies ids_def row_def)

text \<open>
  The JSON text of a list is always empty: it does not depend on the elements of the
  list.
\<close>

lemma json_drops_elements:
  "proc_PATH_TRACE_LIST d = proc_PATH_TRACE_LIST d'"
proof -
  have "procArray n xs = procArray n ys" for n and xs ys :: "ClockIdentity_t list"
    by (rule ext) (simp add: procArray_def)
  then show ?thesis unfolding proc_PATH_TRACE_LIST_def by metis
qed

end
